(* ===== verification/Prelude.thy ===== *)
theory Prelude
  imports Main "HOL-Library.Char_ord" "HOL-Library.List_Lexorder"
begin

text \<open>
  Shared vocabulary of the development.

  \<^item> The error monad of a database transaction (\<open>'a tx\<close>): a transaction body is a function
    from the database to an error or a result with the next database.  An error discards
    every change made so far, which is the rollback of \<open>db.Transaction\<close>; \<open>run_tx\<close> is the
    whole call and \<open>tx_ok\<close> its partial-correctness reading, with one rewrite rule per
    combinator so that \<open>simp\<close> turns a body into its verification conditions.
  \<^item> Tables as lists of rows: \<open>row_find\<close> (SELECT of one row), \<open>upd_rows\<close> (UPDATE WHERE) and
    \<open>del_rows\<close> (DELETE WHERE) with the facts about keys that every component uses.
  \<^item> The result of an external call that is not part of the program (clock, identifier
    generator, failing statement) is read from an explicit environment.
\<close>

named_theorems tx_simps "verification conditions of transaction bodies"
named_theorems row_simps "reading rows after an update"

subsection \<open>Results\<close>

type_synonym 'e err_unit = "'e + unit"

abbreviation Err :: "'e \<Rightarrow> 'e + 'a" where "Err e \<equiv> Inl e"
abbreviation Ok :: "'a \<Rightarrow> 'e + 'a" where "Ok x \<equiv> Inr x"

fun is_ok :: "'e + 'a \<Rightarrow> bool" where
  "is_ok (Inl _) = False"
| "is_ok (Inr _) = True"

lemma is_ok_iff: "is_ok r \<longleftrightarrow> (\<exists>x. r = Inr x)"
  by (cases r) auto

subsection \<open>The environment of an operation\<close>

text \<open>
  \<open>clock n\<close> is the n-th reading of \<^verbatim>\<open>time.Now()\<close> of an operation, \<open>uuid n\<close> its n-th fresh
  identifier, \<open>random n\<close> its n-th block of random bytes in text form (\<open>None\<close> when the generator
  fails) and \<open>db_fail n\<close> says that its n-th database statement returned a driver error.
  \<open>stamp n\<close> is the value the object-relational mapper writes into the \<^verbatim>\<open>created_at\<close> and \<^verbatim>\<open>updated_at\<close>
  columns at the n-th statement and \<open>db_now\<close> the server's \<^verbatim>\<open>NOW()\<close>.  Occurrences are numbered in the
  order the source writes them; a loop numbers its rounds from the number of its first one.
\<close>

type_synonym time = int

record env =
  clock :: "nat \<Rightarrow> time"
  stamp :: "nat \<Rightarrow> time"
  db_now :: time
  uuid :: "nat \<Rightarrow> string"
  random :: "nat \<Rightarrow> string option"
  db_fail :: "nat \<Rightarrow> bool"

text \<open>An environment where nothing fails and every clock stands at \<open>t\<close>.\<close>

definition quiet_env :: "time \<Rightarrow> env" where
  "quiet_env t = \<lparr> clock = \<lambda>_. t, stamp = \<lambda>_. t, db_now = t, uuid = \<lambda>n. replicate (Suc n) (CHR ''u''),
     random = \<lambda>n. Some (replicate (Suc n) (CHR ''r'')), db_fail = \<lambda>_. False \<rparr>"

lemma quiet_env_simps [simp]:
  "clock (quiet_env t) n = t" "stamp (quiet_env t) n = t" "db_now (quiet_env t) = t"
  "uuid (quiet_env t) n = replicate (Suc n) (CHR ''u'')"
  "random (quiet_env t) n = Some (replicate (Suc n) (CHR ''r''))" "\<not> db_fail (quiet_env t) n"
  by (simp_all add: quiet_env_def)

definition zero_time :: time where "zero_time = 0"
definition is_zero :: "time \<Rightarrow> bool" where "is_zero t \<longleftrightarrow> t = zero_time"

definition nanosecond :: time where "nanosecond = 1"
definition second :: time where "second = 1000000000"
definition minute :: time where "minute = 60 * second"
definition hour :: time where "hour = 60 * minute"

lemma second_pos [simp]: "0 < second" and minute_pos [simp]: "0 < minute" and hour_pos [simp]: "0 < hour"
  by (simp_all add: second_def minute_def hour_def)

subsection \<open>Transactions\<close>

type_synonym ('db, 'e, 'a) tx = "'db \<Rightarrow> 'e + ('a \<times> 'db)"

definition tx_return :: "'a \<Rightarrow> ('db, 'e, 'a) tx" where
  "tx_return x = (\<lambda>db. Inr (x, db))"

definition tx_fail :: "'e \<Rightarrow> ('db, 'e, 'a) tx" where
  "tx_fail e = (\<lambda>db. Inl e)"

definition tx_bind :: "('db, 'e, 'a) tx \<Rightarrow> ('a \<Rightarrow> ('db, 'e, 'b) tx) \<Rightarrow> ('db, 'e, 'b) tx" where
  "tx_bind m f = (\<lambda>db. case m db of Inl e \<Rightarrow> Inl e | Inr (x, db') \<Rightarrow> f x db')"

definition tx_then :: "('db, 'e, 'a) tx \<Rightarrow> ('db, 'e, 'b) tx \<Rightarrow> ('db, 'e, 'b) tx" where
  "tx_then m k = tx_bind m (\<lambda>_. k)"

definition tx_get :: "('db, 'e, 'db) tx" where
  "tx_get = (\<lambda>db. Inr (db, db))"

definition tx_put :: "('db \<Rightarrow> 'db) \<Rightarrow> ('db, 'e, unit) tx" where
  "tx_put f = (\<lambda>db. Inr ((), f db))"

definition tx_when :: "bool \<Rightarrow> ('db, 'e, unit) tx \<Rightarrow> ('db, 'e, unit) tx" where
  "tx_when b m = (if b then m else tx_return ())"

definition tx_guard :: "bool \<Rightarrow> 'e \<Rightarrow> ('db, 'e, unit) tx" where
  "tx_guard b e = (if b then tx_return () else tx_fail e)"

fun tx_each :: "('a \<Rightarrow> ('db, 'e, unit) tx) \<Rightarrow> 'a list \<Rightarrow> ('db, 'e, unit) tx" where
  "tx_each f [] = tx_return ()"
| "tx_each f (x # xs) = tx_then (f x) (tx_each f xs)"

definition run_tx :: "('db, 'e, 'a) tx \<Rightarrow> 'db \<Rightarrow> ('e + 'a) \<times> 'db" where
  "run_tx m db = (case m db of Inl e \<Rightarrow> (Inl e, db) | Inr (x, db') \<Rightarrow> (Inr x, db'))"

definition tx_ok :: "('db, 'e, 'a) tx \<Rightarrow> 'db \<Rightarrow> ('a \<Rightarrow> 'db \<Rightarrow> bool) \<Rightarrow> bool" where
  "tx_ok m db Q \<longleftrightarrow> (\<forall>x db'. m db = Inr (x, db') \<longrightarrow> Q x db')"

lemma tx_ok_return [tx_simps]: "tx_ok (tx_return x) db Q \<longleftrightarrow> Q x db"
  by (simp add: tx_ok_def tx_return_def)

lemma tx_ok_fail [tx_simps]: "tx_ok (tx_fail e) db Q"
  by (simp add: tx_ok_def tx_fail_def)

lemma tx_ok_bind [tx_simps]:
  "tx_ok (tx_bind m f) db Q \<longleftrightarrow> tx_ok m db (\<lambda>x db'. tx_ok (f x) db' Q)"
  by (auto simp: tx_ok_def tx_bind_def split: sum.splits)

lemma tx_ok_then [tx_simps]:
  "tx_ok (tx_then m k) db Q \<longleftrightarrow> tx_ok m db (\<lambda>_ db'. tx_ok k db' Q)"
  by (simp add: tx_then_def tx_ok_bind)

lemma tx_ok_get [tx_simps]: "tx_ok tx_get db Q \<longleftrightarrow> Q db db"
  by (simp add: tx_ok_def tx_get_def)

lemma tx_ok_put [tx_simps]: "tx_ok (tx_put f) db Q \<longleftrightarrow> Q () (f db)"
  by (simp add: tx_ok_def tx_put_def)

lemma tx_ok_when [tx_simps]:
  "tx_ok (tx_when b m) db Q \<longleftrightarrow> (if b then tx_ok m db Q else Q () db)"
  by (simp add: tx_when_def tx_ok_return)

lemma tx_ok_guard [tx_simps]: "tx_ok (tx_guard b e) db Q \<longleftrightarrow> (b \<longrightarrow> Q () db)"
  by (simp add: tx_guard_def tx_ok_return tx_ok_fail)

lemma tx_ok_if [tx_simps]:
  "tx_ok (if b then m else k) db Q \<longleftrightarrow> (b \<longrightarrow> tx_ok m db Q) \<and> (\<not> b \<longrightarrow> tx_ok k db Q)"
  by simp

lemma tx_ok_option [tx_simps]:
  "tx_ok (case x of None \<Rightarrow> m | Some y \<Rightarrow> f y) db Q \<longleftrightarrow>
     (x = None \<longrightarrow> tx_ok m db Q) \<and> (\<forall>y. x = Some y \<longrightarrow> tx_ok (f y) db Q)"
  by (cases x) simp_all

lemma tx_ok_sum [tx_simps]:
  "tx_ok (case x of Inl e \<Rightarrow> m e | Inr y \<Rightarrow> f y) db Q \<longleftrightarrow>
     (\<forall>e. x = Inl e \<longrightarrow> tx_ok (m e) db Q) \<and> (\<forall>y. x = Inr y \<longrightarrow> tx_ok (f y) db Q)"
  by (cases x) simp_all

lemma tx_ok_prod [tx_simps]:
  "tx_ok (case x of (a, b) \<Rightarrow> f a b) db Q \<longleftrightarrow> tx_ok (f (fst x) (snd x)) db Q"
  by (cases x) simp

lemma tx_okD: "tx_ok m db Q \<Longrightarrow> m db = Inr (x, db') \<Longrightarrow> Q x db'"
  by (simp add: tx_ok_def)

lemma tx_ok_weaken: "tx_ok m db Q \<Longrightarrow> (\<And>x db'. Q x db' \<Longrightarrow> R x db') \<Longrightarrow> tx_ok m db R"
  by (simp add: tx_ok_def)

lemma tx_ok_conj: "tx_ok m db (\<lambda>x db'. Q x db' \<and> R x db') \<longleftrightarrow> tx_ok m db Q \<and> tx_ok m db R"
  by (auto simp: tx_ok_def)

lemma tx_ok_each:
  assumes "\<And>x db. x \<in> set xs \<Longrightarrow> I db \<Longrightarrow> tx_ok (f x) db (\<lambda>_ db'. I db')"
  shows "I db \<Longrightarrow> tx_ok (tx_each f xs) db (\<lambda>_ db'. I db')"
  using assms
proof (induction xs arbitrary: db)
  case Nil
  then show ?case by (simp add: tx_ok_return)
next
  case (Cons x xs)
  have "tx_ok (f x) db (\<lambda>_ db'. I db')"
    using Cons.prems by simp
  then show ?case
    by (simp add: tx_ok_then) (rule tx_ok_weaken, assumption, rule Cons.IH, use Cons.prems in auto)
qed

text \<open>The call of a transaction: an error leaves the database as it was.\<close>

lemma run_tx_error: "run_tx m db = (Inl e, db') \<Longrightarrow> db' = db"
  by (auto simp: run_tx_def split: sum.splits prod.splits)

lemma run_tx_ok: "run_tx m db = (Inr x, db') \<longleftrightarrow> m db = Inr (x, db')"
  by (auto simp: run_tx_def split: sum.splits prod.splits)

lemma run_tx_err_iff: "run_tx m db = (Inl e, db') \<longleftrightarrow> m db = Inl e \<and> db' = db"
  by (auto simp: run_tx_def split: sum.splits prod.splits)

text \<open>An invariant kept by the successful body is kept by the call, whatever the outcome.\<close>

lemma run_tx_inv:
  assumes "I db" and "tx_ok m db (\<lambda>_ db'. I db')"
  shows "I (snd (run_tx m db))"
  using assms by (auto simp: run_tx_def tx_ok_def split: sum.splits)

lemma run_tx_rel:
  assumes "R db db" and "tx_ok m db (\<lambda>_ db'. R db db')"
  shows "R db (snd (run_tx m db))"
  using assms by (auto simp: run_tx_def tx_ok_def split: sum.splits)

lemmas tx_defs = tx_bind_def tx_then_def tx_return_def tx_fail_def tx_get_def tx_put_def
  tx_when_def tx_guard_def

subsection \<open>Tables\<close>

definition row_find :: "('r \<Rightarrow> bool) \<Rightarrow> 'r list \<Rightarrow> 'r option" where
  "row_find P t = find P t"

text \<open>\<open>First\<close> with a condition that several rows may satisfy returns the one with the least
  primary key.\<close>

definition row_first :: "('r \<Rightarrow> string) \<Rightarrow> ('r \<Rightarrow> bool) \<Rightarrow> 'r list \<Rightarrow> 'r option" where
  "row_first key P t = (case sort_key key (filter P t) of [] \<Rightarrow> None | r # _ \<Rightarrow> Some r)"

definition upd_rows :: "('r \<Rightarrow> bool) \<Rightarrow> ('r \<Rightarrow> 'r) \<Rightarrow> 'r list \<Rightarrow> 'r list" where
  "upd_rows P f t = map (\<lambda>r. if P r then f r else r) t"

definition del_rows :: "('r \<Rightarrow> bool) \<Rightarrow> 'r list \<Rightarrow> 'r list" where
  "del_rows P t = filter (\<lambda>r. \<not> P r) t"

definition count_rows :: "('r \<Rightarrow> bool) \<Rightarrow> 'r list \<Rightarrow> nat" where
  "count_rows P t = length (filter P t)"

lemma row_find_Some: "row_find P t = Some r \<Longrightarrow> r \<in> set t \<and> P r"
  by (auto simp: row_find_def find_Some_iff in_set_conv_nth)

lemma row_find_None: "row_find P t = None \<longleftrightarrow> (\<forall>r\<in>set t. \<not> P r)"
  by (auto simp: row_find_def find_None_iff)

lemma row_first_Some: "row_first key P t = Some r \<Longrightarrow> r \<in> set t \<and> P r"
proof -
  assume a: "row_first key P t = Some r"
  then obtain rs where "sort_key key (filter P t) = r # rs"
    by (auto simp: row_first_def split: list.splits)
  then have "r \<in> set (sort_key key (filter P t))"
    by (simp only: list.set) simp
  then show ?thesis by simp
qed

lemma row_first_None: "row_first key P t = None \<longleftrightarrow> (\<forall>r\<in>set t. \<not> P r)"
proof -
  have "row_first key P t = None \<longleftrightarrow> sort_key key (filter P t) = []"
    by (simp add: row_first_def split: list.splits)
  also have "\<dots> \<longleftrightarrow> length (sort_key key (filter P t)) = 0"
    by (simp only: length_0_conv)
  also have "\<dots> \<longleftrightarrow> filter P t = []"
    by simp
  finally show ?thesis by (auto simp: filter_empty_conv)
qed

lemma row_first_least:
  "row_first key P t = Some r \<Longrightarrow> r' \<in> set t \<Longrightarrow> P r' \<Longrightarrow> key r \<le> key r'"
proof -
  assume a: "row_first key P t = Some r" and b: "r' \<in> set t" "P r'"
  obtain rs where s: "sort_key key (filter P t) = r # rs"
    using a by (auto simp: row_first_def split: list.splits)
  have "r' \<in> set (sort_key key (filter P t))"
    using b by simp
  then have "r' \<in> set (r # rs)"
    by (simp only: s)
  moreover have "sorted (map key (r # rs))"
    using sorted_sort_key [of key "filter P t"] by (simp only: s)
  ultimately show ?thesis by auto
qed

lemma set_upd_rows [row_simps]:
  "r \<in> set (upd_rows P f t) \<longleftrightarrow> (\<exists>r0\<in>set t. r = (if P r0 then f r0 else r0))"
  by (auto simp: upd_rows_def)

lemma in_upd_rows_other: "r \<in> set t \<Longrightarrow> \<not> P r \<Longrightarrow> r \<in> set (upd_rows P f t)"
  by (auto simp: upd_rows_def)

lemma in_upd_rows_hit: "r \<in> set t \<Longrightarrow> P r \<Longrightarrow> f r \<in> set (upd_rows P f t)"
  by (auto simp: upd_rows_def)

lemma map_key_upd_rows [row_simps]:
  assumes "\<And>r. key (f r) = key r"
  shows "map key (upd_rows P f t) = map key t"
  using assms by (auto simp: upd_rows_def)

lemma upd_rows_id: "(\<And>r. r \<in> set t \<Longrightarrow> P r \<Longrightarrow> f r = r) \<Longrightarrow> upd_rows P f t = t"
  by (auto simp: upd_rows_def intro: map_idI)

lemma set_del_rows [row_simps]: "r \<in> set (del_rows P t) \<longleftrightarrow> r \<in> set t \<and> \<not> P r"
  by (auto simp: del_rows_def)

lemma distinct_map_del_rows: "distinct (map key t) \<Longrightarrow> distinct (map key (del_rows P t))"
  by (simp add: del_rows_def distinct_map_filter)

lemma key_unique:
  "distinct (map key t) \<Longrightarrow> r \<in> set t \<Longrightarrow> r' \<in> set t \<Longrightarrow> key r = key r' \<Longrightarrow> r = r'"
  by (auto simp: distinct_map inj_on_def)

lemma row_find_key:
  assumes "distinct (map key t)" and "r \<in> set t"
  shows "row_find (\<lambda>x. key x = key r) t = Some r"
proof (cases "row_find (\<lambda>x. key x = key r) t")
  case None
  then show ?thesis using assms(2) by (auto simp: row_find_None)
next
  case (Some r')
  then show ?thesis
    using row_find_Some [OF Some] key_unique [OF assms(1) _ assms(2)] by simp
qed

lemma upd_rows_single:
  assumes "distinct (map key t)" and "s \<in> set t"
  shows "upd_rows (\<lambda>x. key x = key s) (\<lambda>_. h s) t = upd_rows (\<lambda>x. key x = key s) h t"
  using key_unique [OF assms(1) _ assms(2)] by (auto simp: upd_rows_def)

lemma upd_rows_absent: "k \<notin> key ` set t \<Longrightarrow> upd_rows (\<lambda>x. key x = k) f t = t"
  by (intro upd_rows_id) auto

lemma count_rows_0: "count_rows P t = 0 \<longleftrightarrow> (\<forall>r\<in>set t. \<not> P r)"
  by (auto simp: count_rows_def filter_empty_conv)

lemma count_rows_pos: "0 < count_rows P t \<longleftrightarrow> (\<exists>r\<in>set t. P r)"
  using count_rows_0 [of P t] by auto

lemma sum_list_upd_rows:
  fixes g :: "'r \<Rightarrow> int"
  assumes "distinct (map key t)" and "r \<in> set t"
  shows "sum_list (map g (upd_rows (\<lambda>x. key x = key r) f t)) = sum_list (map g t) - g r + g (f r)"
  using assms
proof (induction t)
  case Nil
  then show ?case by simp
next
  case (Cons a t)
  show ?case
  proof (cases "a = r")
    case True
    then have "upd_rows (\<lambda>x. key x = key r) f t = t"
      using Cons.prems by (intro upd_rows_id) (auto simp: image_iff)
    then show ?thesis using True by (simp add: upd_rows_def)
  next
    case False
    then have "key a \<noteq> key r" and "r \<in> set t" and "distinct (map key t)"
      using Cons.prems by (auto simp: image_iff)
    then show ?thesis using Cons.IH by (simp add: upd_rows_def)
  qed
qed

subsection \<open>Lists\<close>

fun index_from :: "nat \<Rightarrow> 'a list \<Rightarrow> (nat \<times> 'a) list" where
  "index_from n [] = []"
| "index_from n (x # xs) = (n, x) # index_from (Suc n) xs"

lemma snd_index_from [simp]: "map snd (index_from n xs) = xs"
  by (induction xs arbitrary: n) auto

lemma in_index_from: "(i, x) \<in> set (index_from n xs) \<Longrightarrow> x \<in> set xs"
  by (induction xs arbitrary: n) auto

end
