(* ===== verification/Domain.thy ===== *)
theory Domain
  imports Complex_Main Go_Strings
begin

text \<open>
  The package \<^verbatim>\<open>internal/domain\<close>: the status enumerations, the records every layer exchanges and
  the recognition of a mailbox provider from an address.  Order and mailbox-service statuses are
  only ever written by the program and are datatypes; mailbox states, verification statuses and
  connection methods may also arrive from an administrator's JSON, so they stay strings, with the
  source's constants as definitions.
\<close>

subsection \<open>Statuses\<close>

datatype OrderStatus =
    OrderCreated | OrderAllocating | OrderAssigned | OrderWaitingCode | OrderCodeReceived
  | OrderCompleted | OrderCanceled | OrderExpiredRefunded | OrderAllocationFailed | OrderDisputed

fun order_status_string :: "OrderStatus \<Rightarrow> string" where
  "order_status_string OrderCreated = ''created''"
| "order_status_string OrderAllocating = ''allocating''"
| "order_status_string OrderAssigned = ''assigned''"
| "order_status_string OrderWaitingCode = ''waiting_code''"
| "order_status_string OrderCodeReceived = ''code_received''"
| "order_status_string OrderCompleted = ''completed''"
| "order_status_string OrderCanceled = ''canceled''"
| "order_status_string OrderExpiredRefunded = ''expired_refunded''"
| "order_status_string OrderAllocationFailed = ''allocation_failed''"
| "order_status_string OrderDisputed = ''disputed''"

lemma order_status_string_inj: "order_status_string a = order_status_string b \<longleftrightarrow> a = b"
  by (cases a; cases b) simp_all

definition MinimumOrderTTLSeconds :: int where "MinimumOrderTTLSeconds = 30 * 60"
definition MailboxServiceTimeoutLimit :: int where "MailboxServiceTimeoutLimit = 5"

datatype ServiceMailboxState =
    ServiceAvailable | ServiceLeased | ServiceConsumed | ServiceCooldown | ServiceBlocked

definition MailboxAvailable :: string where "MailboxAvailable = ''available''"
definition MailboxLeased :: string where "MailboxLeased = ''leased''"
definition MailboxCooldown :: string where "MailboxCooldown = ''cooldown''"
definition MailboxBlocked :: string where "MailboxBlocked = ''blocked''"
definition MailboxError :: string where "MailboxError = ''auth_error''"
definition MailboxPending :: string where "MailboxPending = ''pending_verification''"

lemmas mailbox_state_defs = MailboxAvailable_def MailboxLeased_def MailboxCooldown_def
  MailboxBlocked_def MailboxError_def MailboxPending_def

lemma mailbox_state_distinct [simp]:
  "MailboxAvailable \<noteq> MailboxLeased" "MailboxLeased \<noteq> MailboxAvailable"
  "MailboxAvailable \<noteq> MailboxError" "MailboxError \<noteq> MailboxAvailable"
  "MailboxAvailable \<noteq> MailboxPending" "MailboxPending \<noteq> MailboxAvailable"
  "MailboxAvailable \<noteq> MailboxBlocked" "MailboxBlocked \<noteq> MailboxAvailable"
  "MailboxLeased \<noteq> MailboxError" "MailboxError \<noteq> MailboxLeased"
  "MailboxLeased \<noteq> MailboxPending" "MailboxPending \<noteq> MailboxLeased"
  "MailboxLeased \<noteq> MailboxBlocked" "MailboxBlocked \<noteq> MailboxLeased"
  "MailboxError \<noteq> MailboxPending" "MailboxPending \<noteq> MailboxError"
  "MailboxError \<noteq> MailboxBlocked" "MailboxBlocked \<noteq> MailboxError"
  "MailboxPending \<noteq> MailboxBlocked" "MailboxBlocked \<noteq> MailboxPending"
  "MailboxAvailable \<noteq> []" "MailboxPending \<noteq> []" "MailboxError \<noteq> []" "MailboxLeased \<noteq> []"
  by (simp_all add: mailbox_state_defs)

definition MailboxConnectionAuto :: string where
  "MailboxConnectionAuto = ''auto''"
definition MailboxConnectionMicrosoftOAuth :: string where
  "MailboxConnectionMicrosoftOAuth = ''microsoft_oauth''"
definition MailboxConnectionMicrosoftGraph :: string where
  "MailboxConnectionMicrosoftGraph = ''microsoft_graph''"
definition MailboxConnectionIMAP :: string where
  "MailboxConnectionIMAP = ''imap''"

lemmas connection_defs = MailboxConnectionAuto_def MailboxConnectionMicrosoftOAuth_def
  MailboxConnectionMicrosoftGraph_def MailboxConnectionIMAP_def

lemma connection_distinct [simp]:
  "MailboxConnectionAuto \<noteq> MailboxConnectionIMAP" "MailboxConnectionIMAP \<noteq> MailboxConnectionAuto"
  "MailboxConnectionMicrosoftGraph \<noteq> MailboxConnectionIMAP"
  "MailboxConnectionIMAP \<noteq> MailboxConnectionMicrosoftGraph"
  "MailboxConnectionIMAP \<noteq> []" "MailboxConnectionAuto \<noteq> []"
  by (simp_all add: connection_defs)

definition MailboxVerificationPending :: string where
  "MailboxVerificationPending = ''pending_verification''"
definition MailboxVerificationVerified :: string where
  "MailboxVerificationVerified = ''verified''"
definition MailboxVerificationFailed :: string where
  "MailboxVerificationFailed = ''failed''"

lemmas verification_defs = MailboxVerificationPending_def MailboxVerificationVerified_def
  MailboxVerificationFailed_def

lemma verification_distinct [simp]:
  "MailboxVerificationPending \<noteq> MailboxVerificationVerified"
  "MailboxVerificationVerified \<noteq> MailboxVerificationPending"
  "MailboxVerificationPending \<noteq> MailboxVerificationFailed"
  "MailboxVerificationFailed \<noteq> MailboxVerificationPending"
  "MailboxVerificationVerified \<noteq> MailboxVerificationFailed"
  "MailboxVerificationFailed \<noteq> MailboxVerificationVerified"
  "MailboxVerificationVerified \<noteq> []" "MailboxVerificationFailed \<noteq> []"
  "MailboxVerificationPending \<noteq> []"
  by (simp_all add: verification_defs)

subsection \<open>Records\<close>

text \<open>
  A \<^verbatim>\<open>float64\<close> is the rational number it denotes (see theory Money), a \<^verbatim>\<open>time.Time\<close> a number of
  nanoseconds whose zero is the zero time, a Go map a partial map.
\<close>

type_synonym float64 = rat

record User =
  usr_ID :: string
  usr_Email :: string
  usr_Balance :: float64
  usr_Role :: string
  usr_Status :: string
  usr_DisplayName :: string
  usr_CreatedAt :: time

record Service =
  svc_ID :: string
  svc_Code :: string
  svc_Name :: string
  svc_Description :: string
  svc_Enabled :: bool
  svc_AllowedProviders :: "string list"
  svc_ProviderPrices :: "(string \<times> float64) list"
  svc_TTLSeconds :: int
  svc_SenderDomains :: "string list"
  svc_SubjectKeywords :: "string list"
  svc_Regex :: string

record MailboxService =
  mbs_ServiceID :: string
  mbs_State :: ServiceMailboxState
  mbs_TimeoutCount :: int
  mbs_ChangedAt :: time

record Mailbox =
  mbx_ID :: string
  mbx_Address :: string
  mbx_Provider :: string
  mbx_Pool :: string
  mbx_State :: string
  mbx_HealthScore :: int
  mbx_OAuthValidUntil :: time
  mbx_ActiveOrderID :: string
  mbx_TodayCodes :: int
  mbx_LastReceivedAt :: time
  mbx_ConnectionMethod :: string
  mbx_VerificationStatus :: string
  mbx_LastVerifiedAt :: time
  mbx_VerificationError :: string
  mbx_RegisteredPlatforms :: "string list"
  mbx_Services :: "(string \<times> MailboxService) list"

record Order =
  ord_ID :: string
  ord_UserID :: string
  ord_ServiceID :: string
  ord_ServiceCode :: string
  ord_ServiceName :: string
  ord_MailboxID :: string
  ord_MailboxAddress :: string
  ord_MailboxProvider :: string
  ord_RequestedProviders :: "string list"
  ord_Status :: OrderStatus
  ord_Code :: string
  ord_Price :: float64
  ord_CreatedAt :: time
  ord_AssignedAt :: time
  ord_SubmittedAt :: time
  ord_CodeReceivedAt :: time
  ord_CompletedAt :: time
  ord_ExpiresAt :: time
  ord_Refunded :: bool
  ord_RequestID :: string
  ord_FailureReason :: string

record APIKey =
  ak_ID :: string
  ak_Name :: string
  ak_Prefix :: string
  ak_Scopes :: "string list"
  ak_LastUsedAt :: "time option"
  ak_ExpiresAt :: "time option"
  ak_RevokedAt :: "time option"
  ak_CreatedAt :: time

record WalletLedger =
  wl_ID :: string
  wl_UserID :: string
  wl_Type :: string
  wl_Amount :: float64
  wl_BalanceAfter :: float64
  wl_OrderID :: string
  wl_PaymentID :: string
  wl_Description :: string
  wl_CreatedAt :: time

record AuditLog =
  al_ID :: string
  al_ActorID :: string
  al_Action :: string
  al_ResourceType :: string
  al_ResourceID :: string
  al_Detail :: string
  al_IP :: string
  al_CreatedAt :: time

record MailboxPool =
  mp_ID :: string
  mp_Name :: string
  mp_Provider :: string
  mp_Region :: string
  mp_Enabled :: bool
  mp_DailyLimit :: int
  mp_CooldownSecond :: int
  mp_MailboxCount :: int
  mp_CreatedAt :: time

record PaymentProvider =
  pprov_ID :: string
  pprov_Name :: string
  pprov_Type :: string
  pprov_Methods :: "string list"
  pprov_Enabled :: bool
  pprov_Priority :: int
  pprov_CreatedAt :: time
  pprov_UpdatedAt :: time

record PaymentOrder =
  pord_ID :: string
  pord_UserID :: string
  pord_ProviderID :: string
  pord_ProviderName :: string
  pord_Method :: string
  pord_Status :: string
  pord_Amount :: float64
  pord_ProviderTradeNo :: string
  pord_PayURL :: string
  pord_CreatedAt :: time
  pord_ExpiresAt :: time
  pord_PaidAt :: "time option"
  pord_CompletedAt :: "time option"
  pord_CanceledAt :: "time option"

record WebhookEndpoint =
  wep_ID :: string
  wep_URL :: string
  wep_Events :: "string list"
  wep_Enabled :: bool
  wep_CreatedAt :: time
  wep_UpdatedAt :: time

record WebhookDelivery =
  wdl_ID :: string
  wdl_EndpointID :: string
  wdl_OrderID :: string
  wdl_Event :: string
  wdl_Status :: string
  wdl_Attempts :: int
  wdl_ResponseCode :: int
  wdl_LastError :: string
  wdl_NextRetryAt :: time
  wdl_DeliveredAt :: "time option"
  wdl_CreatedAt :: time

subsection \<open>Mailbox providers\<close>

text \<open>The name of the only mailbox pool, in UTF-8.\<close>

definition DefaultMailboxPoolName :: string where
  "DefaultMailboxPoolName =
     [CHR 0xE9, CHR 0x82, CHR 0xAE, CHR 0xE7, CHR 0xAE, CHR 0xB1, CHR 0xE6, CHR 0xB1, CHR 0xA0]"

definition MailboxProviderOutlook :: string where "MailboxProviderOutlook = ''outlook''"
definition MailboxProviderOutlookDE :: string where "MailboxProviderOutlookDE = ''outlook_de''"
definition MailboxProviderHotmail :: string where "MailboxProviderHotmail = ''hotmail''"
definition MailboxProviderGmail :: string where "MailboxProviderGmail = ''gmail''"
definition MailboxProviderICloud :: string where "MailboxProviderICloud = ''icloud''"
definition MailboxProviderMailCom :: string where "MailboxProviderMailCom = ''mailcom''"

lemmas provider_defs = MailboxProviderOutlook_def MailboxProviderOutlookDE_def
  MailboxProviderHotmail_def MailboxProviderGmail_def MailboxProviderICloud_def
  MailboxProviderMailCom_def

definition SupportedMailboxProviders :: "string list" where
  "SupportedMailboxProviders =
     [MailboxProviderOutlook, MailboxProviderOutlookDE, MailboxProviderHotmail,
      MailboxProviderGmail, MailboxProviderICloud, MailboxProviderMailCom]"

definition mailComDomains :: "string list" where
  "mailComDomains = [
    ''2trom.com'', ''acdcfan.com'', ''accountant.com'', ''activist.com'', ''adexec.com'',
    ''africamail.com'', ''alumni.com'', ''angelic.com'', ''archaeologist.com'',
    ''arcticmail.com'', ''artlover.com'', ''asia.com'', ''atheist.com'', ''australiamail.com'',
    ''bartender.net'', ''berlin.com'', ''bikerider.com'', ''birdlover.com'',
    ''boardermail.com'', ''brazilmail.com'', ''brew-master.com'', ''bsdmail.com'',
    ''californiamail.com'', ''catlover.com'', ''chef.net'', ''chemist.com'', ''cheerful.com'',
    ''chinamail.com'', ''clubmember.org'', ''collector.org'', ''columnist.com'', ''comic.com'',
    ''consultant.com'', ''contractor.net'', ''counsellor.com'', ''cutey.com'',
    ''cyberdude.com'', ''cybergal.com'', ''cyberservices.com'', ''cyber-wizard.com'',
    ''dallasmail.com'', ''dbzmail.com'', ''diplomats.com'', ''discofan.com'', ''doglover.com'',
    ''doramail.com'', ''dr.com'', ''dublin.com'', ''dutchmail.com'', ''email.com'',
    ''elvisfan.com'', ''engineer.com'', ''englandmail.com'', ''europe.com'',
    ''europemail.com'', ''execs.com'', ''financier.com'', ''fireman.net'', ''galaxyhit.com'',
    ''gardener.com'', ''geologist.com'', ''germanymail.com'', ''graduate.org'',
    ''graphic-designer.com'', ''greenmail.net'', ''hackermail.com'', ''hairdresser.net'',
    ''hilarious.com'', ''hiphopfan.com'', ''iname.com'', ''innocent.com'', ''irelandmail.com'',
    ''israelmail.com'', ''italymail.com'', ''keromail.com'', ''kissfans.com'',
    ''kittymail.com'', ''koreamail.com'', ''legislator.com'', ''linuxmail.org'',
    ''lobbyist.com'', ''lovecat.com'', ''madonnafan.com'', ''mail.com'', ''marchmail.com'',
    ''metalfan.com'', ''mexicomail.com'', ''minister.com'', ''moscowmail.com'', ''munich.com'',
    ''musician.org'', ''muslim.com'', ''myself.com'', ''ninfan.com'', ''nonpartisan.com'',
    ''null.net'', ''nycmail.com'', ''optician.com'', ''orthodontist.net'',
    ''pediatrician.com'', ''petlover.com'', ''photographer.net'', ''physicist.net'',
    ''polandmail.com'', ''politician.com'', ''post.com'', ''priest.com'', ''programmer.net'',
    ''protestant.com'', ''publicist.com'', ''ravemail.com'', ''realtyagent.com'',
    ''reborn.com'', ''reggaefan.com'', ''registerednurses.com'', ''reincarnate.com'',
    ''religious.com'', ''repairman.com'', ''safrica.com'', ''saintly.com'',
    ''sanfranmail.com'', ''scotlandmail.com'', ''secretary.net'', ''socialworker.net'',
    ''sociologist.com'', ''songwriter.net'', ''spainmail.com'', ''swedenmail.com'',
    ''swissmail.com'', ''teachers.org'', ''techie.com'', ''technologist.com'',
    ''theplate.com'', ''therapist.net'', ''toothfairy.com'', ''toke.com'', ''torontomail.com'',
    ''tvstar.com'', ''usa.com'', ''uymail.com'', ''webname.com'']"

text \<open>\<open>None\<close> is the source's \<^verbatim>\<open>("", false)\<close>.\<close>

definition DetectMailboxProvider :: "string \<Rightarrow> string option" where
  "DetectMailboxProvider addr =
     (let address = to_lower (trim_space addr);
          separator = last_index_byte address (CHR ''@'')
      in if separator < 1 \<or> separator = int (length address) - 1 then None
         else let domainName = drop (nat (separator + 1)) address in
           if domainName = ''outlook.de'' then Some MailboxProviderOutlookDE
           else if has_prefix domainName ''outlook.'' then Some MailboxProviderOutlook
           else if has_prefix domainName ''hotmail.'' then Some MailboxProviderHotmail
           else if domainName = ''gmail.com'' \<or> domainName = ''googlemail.com''
             then Some MailboxProviderGmail
           else if domainName = ''icloud.com'' \<or> domainName = ''me.com'' \<or> domainName = ''mac.com''
             then Some MailboxProviderICloud
           else if domainName \<in> set mailComDomains then Some MailboxProviderMailCom
           else None)"

definition IsMicrosoftMailboxProvider :: "string \<Rightarrow> bool" where
  "IsMicrosoftMailboxProvider provider =
     (let p = to_lower (trim_space provider)
      in p = MailboxProviderOutlook \<or> p = MailboxProviderOutlookDE \<or> p = MailboxProviderHotmail)"

definition IsSupportedMailboxProvider :: "string \<Rightarrow> bool" where
  "IsSupportedMailboxProvider provider =
     (let p = to_lower (trim_space provider) in p \<in> set SupportedMailboxProviders)"

lemma Detect_trim_lower:
  "DetectMailboxProvider (to_lower (trim_space a)) = DetectMailboxProvider a"
  by (simp add: DetectMailboxProvider_def trim_space_to_lower)

lemma supported_provider_normal:
  "p \<in> set SupportedMailboxProviders \<Longrightarrow> to_lower (trim_space p) = p"
  by (auto simp: SupportedMailboxProviders_def provider_defs to_lower_def to_lower_char_def
      trim_space_def is_space_def)

lemma Detect_supported:
  "DetectMailboxProvider a = Some p \<Longrightarrow> p \<in> set SupportedMailboxProviders"
  by (auto simp: DetectMailboxProvider_def SupportedMailboxProviders_def Let_def split: if_splits)

subsection \<open>Pure helpers of the repository layer\<close>

definition effectiveOrderTTLSeconds :: "int \<Rightarrow> int" where
  "effectiveOrderTTLSeconds _ = MinimumOrderTTLSeconds"

definition nextTimeoutState :: "int \<Rightarrow> int \<times> ServiceMailboxState" where
  "nextTimeoutState current =
     (let next = current + 1
      in if next \<ge> MailboxServiceTimeoutLimit then (next, ServiceConsumed)
         else (next, ServiceAvailable))"

end
