(* ===== verification/Money.thy ===== *)
theory Money
  imports Domain "HOL-Library.Log_Nat"
begin

text \<open>
  Money crosses the API as a Go \<^verbatim>\<open>float64\<close> and is stored as a whole number of cents.  A finite
  \<^verbatim>\<open>float64\<close> is modelled by the rational it denotes and every arithmetic operation on it by the
  exact operation followed by \<open>fl\<close>, rounding to 53 significant bits, ties to even (IEEE 754
  without overflow and subnormal numbers, which no amount of money reaches).
\<close>

subsection \<open>Rounding to double precision\<close>

definition log2_floor :: "rat \<Rightarrow> int" where
  "log2_floor x =
     (case quotient_of x of (p, q) \<Rightarrow>
        let k = int (floorlog 2 (nat p)) - int (floorlog 2 (nat q))
        in if 2 powi k \<le> x then k else k - 1)"

definition round_even :: "rat \<Rightarrow> int" where
  "round_even y =
     (let f = \<lfloor>y\<rfloor>; d = y - of_int f
      in if d < 1/2 then f else if 1/2 < d then f + 1 else if even f then f else f + 1)"

definition fl :: "rat \<Rightarrow> float64" where
  "fl x =
     (if x = 0 then 0
      else let e = log2_floor \<bar>x\<bar> - 52
           in of_int (round_even (x / 2 powi e)) * 2 powi e)"

lemma round_even_error: "\<bar>of_int (round_even y) - y\<bar> \<le> 1/2"
proof -
  have "of_int \<lfloor>y\<rfloor> \<le> y" and "y < of_int \<lfloor>y\<rfloor> + 1"
    by linarith+
  then show ?thesis
    by (auto simp: round_even_def Let_def abs_le_iff)
qed

lemma nat_bits_lower: "0 < n \<Longrightarrow> (2::rat) powi (int (floorlog 2 n) - 1) \<le> of_nat n"
proof -
  assume n: "0 < n"
  define k where "k = floorlog 2 n - 1"
  have fk: "floorlog 2 n = Suc k"
    using n by (simp add: k_def floorlog_def)
  have "2 ^ k \<le> n"
    using floorlog_bounds [of n 2] n by (simp add: fk)
  then have "(2::rat) ^ k \<le> of_nat n"
    by (metis of_nat_le_iff of_nat_numeral of_nat_power)
  then show ?thesis by (simp add: fk)
qed

lemma nat_bits_upper: "of_nat n < (2::rat) powi (int (floorlog 2 n))"
proof (cases "n = 0")
  case True
  then show ?thesis by simp
next
  case False
  then have "n < 2 ^ floorlog 2 n"
    using floorlog_bounds [of n 2] by simp
  then have "of_nat n < (2::rat) ^ floorlog 2 n"
    by (metis of_nat_less_iff of_nat_numeral of_nat_power)
  then show ?thesis by simp
qed

lemma log2_floor_le:
  assumes "0 < x"
  shows "2 powi (log2_floor x) \<le> x"
proof -
  obtain p q where pq: "quotient_of x = (p, q)" by (cases "quotient_of x")
  have q: "0 < q" and x: "x = of_int p / of_int q"
    using pq quotient_of_denom_pos quotient_of_div by auto
  have p: "0 < p"
    using assms x q by (simp add: zero_less_divide_iff)
  define k where "k = int (floorlog 2 (nat p)) - int (floorlog 2 (nat q))"
  have "2 powi (k - 1) = (2::rat) powi (int (floorlog 2 (nat p)) - 1) / 2 powi (int (floorlog 2 (nat q)))"
  proof -
    have "k - 1 = (int (floorlog 2 (nat p)) - 1) - int (floorlog 2 (nat q))"
      by (simp add: k_def)
    moreover have "(2::rat) powi ((int (floorlog 2 (nat p)) - 1) - int (floorlog 2 (nat q))) =
        2 powi (int (floorlog 2 (nat p)) - 1) / 2 powi (int (floorlog 2 (nat q)))"
      by (rule power_int_diff) simp
    ultimately show ?thesis by (simp only:)
  qed
  also have "\<dots> \<le> of_nat (nat p) / of_nat (nat q)"
  proof (rule frac_le)
    show "(2::rat) powi (int (floorlog 2 (nat p)) - 1) \<le> of_nat (nat p)"
      using p by (intro nat_bits_lower) simp
    show "of_nat (nat q) \<le> (2::rat) powi int (floorlog 2 (nat q))"
      using nat_bits_upper [of "nat q"] by simp
  qed (use p q in simp_all)
  also have "\<dots> = x" using p q x by simp
  finally have "2 powi (k - 1) \<le> x" .
  then show ?thesis
    by (simp add: log2_floor_def pq Let_def k_def)
qed

definition ulp :: rat where "ulp = 1 / 2 ^ 53"

lemma fl_error: "\<bar>fl x - x\<bar> \<le> ulp * \<bar>x\<bar>"
proof (cases "x = 0")
  case True
  then show ?thesis by (simp add: fl_def)
next
  case False
  define e where "e = log2_floor \<bar>x\<bar> - 52"
  have pos: "(0::rat) < 2 powi e" by (simp add: zero_less_power_int)
  have "fl x - x = (of_int (round_even (x / 2 powi e)) - x / 2 powi e) * 2 powi e"
    using False pos by (simp add: fl_def e_def [symmetric] Let_def algebra_simps)
  then have "\<bar>fl x - x\<bar> = \<bar>of_int (round_even (x / 2 powi e)) - x / 2 powi e\<bar> * 2 powi e"
    using pos by (simp add: abs_mult)
  also have "\<dots> \<le> 1/2 * 2 powi e"
    using round_even_error [of "x / 2 powi e"] pos by (intro mult_right_mono) auto
  also have "\<dots> = ulp * 2 powi (log2_floor \<bar>x\<bar>)"
    by (simp add: e_def ulp_def power_int_diff)
  also have "\<dots> \<le> ulp * \<bar>x\<bar>"
    using log2_floor_le [of "\<bar>x\<bar>"] False by (intro mult_left_mono) (auto simp: ulp_def)
  finally show ?thesis .
qed

subsection \<open>Cents\<close>

text \<open>\<^verbatim>\<open>math.Round\<close> rounds halves away from zero.\<close>

definition math_round :: "rat \<Rightarrow> int" where
  "math_round v = (if 0 \<le> v then \<lfloor>v + 1/2\<rfloor> else - \<lfloor>- v + 1/2\<rfloor>)"

definition cents :: "float64 \<Rightarrow> int" where
  "cents v = math_round (fl (v * 100))"

text \<open>\<^verbatim>\<open>float64(c) / 100\<close>\<close>

definition from_cents :: "int \<Rightarrow> float64" where
  "from_cents c = fl (fl (of_int c) / 100)"

lemma math_round_near: "\<bar>v - of_int c\<bar> < 1/2 \<Longrightarrow> math_round v = c"
proof -
  assume a: "\<bar>v - of_int c\<bar> < 1/2"
  show ?thesis
  proof (cases "0 \<le> v")
    case True
    have "\<lfloor>v + 1/2\<rfloor> = c" using a by (intro floor_unique) linarith+
    then show ?thesis using True by (simp add: math_round_def)
  next
    case False
    have "\<lfloor>- v + 1/2\<rfloor> = - c" using a by (intro floor_unique) (unfold of_int_minus, linarith+)
    then show ?thesis using False by (simp add: math_round_def)
  qed
qed

definition cents_bound :: int where "cents_bound = 2 ^ 50"

lemma from_cents_error:
  assumes "\<bar>c\<bar> \<le> cents_bound"
  shows "\<bar>from_cents c - of_int c / 100\<bar> \<le> 1/390"
proof -
  define a where "a = fl (of_int c)"
  have c: "\<bar>of_int c :: rat\<bar> \<le> 2 ^ 50"
    using assms by (simp add: cents_bound_def)
  have 1: "\<bar>a - of_int c\<bar> \<le> ulp * \<bar>of_int c\<bar>"
    unfolding a_def by (rule fl_error)
  have 2: "\<bar>from_cents c - a / 100\<bar> \<le> ulp * \<bar>a / 100\<bar>"
    unfolding from_cents_def a_def by (rule fl_error)
  have 3: "ulp * \<bar>of_int c\<bar> \<le> 1/8"
    using c by (simp add: ulp_def)
  have 4: "\<bar>a\<bar> \<le> 2 ^ 50 + 1/8" using 1 3 c by linarith
  have 5: "ulp * \<bar>a / 100\<bar> \<le> 1/790" using 4 by (simp add: ulp_def abs_divide)
  show ?thesis using 1 2 3 5 by linarith
qed

lemma cents_from_cents_aux:
  assumes "\<bar>c\<bar> \<le> cents_bound"
  shows "\<bar>fl (from_cents c * 100) - of_int c\<bar> < 1/2"
proof -
  have c: "\<bar>of_int c :: rat\<bar> \<le> 2 ^ 50"
    using assms by (simp add: cents_bound_def)
  have 1: "\<bar>from_cents c * 100 - of_int c\<bar> \<le> 100/390"
    using from_cents_error [OF assms] by (simp add: abs_le_iff field_simps)
  have 2: "\<bar>fl (from_cents c * 100) - from_cents c * 100\<bar> \<le> ulp * \<bar>from_cents c * 100\<bar>"
    by (rule fl_error)
  have "\<bar>from_cents c * 100\<bar> \<le> 2 ^ 50 + 1" using 1 c by linarith
  then have "ulp * \<bar>from_cents c * 100\<bar> \<le> 1/7" by (simp add: ulp_def)
  then show ?thesis using 1 2 by linarith
qed

lemma cents_from_cents: "\<bar>c\<bar> \<le> cents_bound \<Longrightarrow> cents (from_cents c) = c"
  unfolding cents_def by (rule math_round_near, rule cents_from_cents_aux)

lemma from_cents_less_iff:
  assumes "\<bar>a\<bar> \<le> cents_bound" and "\<bar>b\<bar> \<le> cents_bound"
  shows "from_cents a < from_cents b \<longleftrightarrow> a < b"
proof -
  have lt: "from_cents x < from_cents y"
    if "x < y" and "\<bar>x\<bar> \<le> cents_bound" and "\<bar>y\<bar> \<le> cents_bound" for x y
  proof -
    have "of_int x + 1 \<le> (of_int y :: rat)"
      using that(1) by (metis add.commute add1_zle_eq of_int_1 of_int_add of_int_le_iff)
    then show ?thesis
      using from_cents_error [OF that(2)] from_cents_error [OF that(3)] by linarith
  qed
  show ?thesis
    using lt [of a b] lt [of b a] assms by (cases a b rule: linorder_cases) auto
qed

lemma from_cents_le_iff:
  "\<bar>a\<bar> \<le> cents_bound \<Longrightarrow> \<bar>b\<bar> \<le> cents_bound \<Longrightarrow> from_cents a \<le> from_cents b \<longleftrightarrow> a \<le> b"
  using from_cents_less_iff [of b a] by (simp add: not_less [symmetric])

lemma from_cents_0 [simp]: "from_cents 0 = 0"
  by (simp add: from_cents_def fl_def)

lemma from_cents_nonneg: "\<bar>a\<bar> \<le> cents_bound \<Longrightarrow> 0 \<le> from_cents a \<longleftrightarrow> 0 \<le> a"
  using from_cents_le_iff [of 0 a] by (simp add: cents_bound_def)

end
