(* ===== verification/Messages.thy ===== *)
theory Messages
  imports Main
begin

text \<open>
  The Chinese texts the program stores, as the bytes of their UTF-8 encoding (a Go string is a
  sequence of bytes, and so is a \<open>string\<close> here).  Texts that only ever reach a user as the message of
  an error are constructors of the error type instead.
\<close>

definition utf8 :: "nat list \<Rightarrow> string" where
  "utf8 bs = map char_of bs"

definition msg_order_charge :: string where
  "msg_order_charge = utf8 [
    0xE6, 0xB3, 0xA8, 0xE5, 0x86, 0x8C, 0xE8, 0xAE, 0xA2, 0xE5, 0x8D, 0x95, 0xE6, 0x89,
    0xA3, 0xE8, 0xB4, 0xB9]"

definition msg_cancel_refund :: string where
  "msg_cancel_refund = utf8 [
    0xE7, 0xAE, 0xA1, 0xE7, 0x90, 0x86, 0xE5, 0x91, 0x98, 0xE5, 0x8F, 0x96, 0xE6, 0xB6,
    0x88, 0xE8, 0xAE, 0xA2, 0xE5, 0x8D, 0x95, 0xE9, 0x80, 0x80, 0xE6, 0xAC, 0xBE]"

definition msg_timeout_refund :: string where
  "msg_timeout_refund = utf8 [
    0x33, 0x30, 0x20, 0xE5, 0x88, 0x86, 0xE9, 0x92, 0x9F, 0xE6, 0x9C, 0xAA, 0xE6, 0x94,
    0xB6, 0xE5, 0x88, 0xB0, 0xE9, 0xAA, 0x8C, 0xE8, 0xAF, 0x81, 0xE7, 0xA0, 0x81, 0xE8,
    0x87, 0xAA, 0xE5, 0x8A, 0xA8, 0xE9, 0x80, 0x80, 0xE6, 0xAC, 0xBE]"

definition msg_mailbox_unverified :: string where
  "msg_mailbox_unverified = utf8 [
    0xE9, 0x82, 0xAE, 0xE7, 0xAE, 0xB1, 0xE6, 0x9C, 0xAA, 0xE9, 0x80, 0x9A, 0xE8, 0xBF,
    0x87, 0xE8, 0xBF, 0x9E, 0xE6, 0x8E, 0xA5, 0xE9, 0xAA, 0x8C, 0xE8, 0xAF, 0x81, 0xEF,
    0xBC, 0x8C, 0xE8, 0xAE, 0xA2, 0xE5, 0x8D, 0x95, 0xE5, 0xB7, 0xB2, 0xE8, 0x87, 0xAA,
    0xE5, 0x8A, 0xA8, 0xE9, 0x80, 0x80, 0xE6, 0xAC, 0xBE]"

definition msg_verification_failed_refund :: string where
  "msg_verification_failed_refund = utf8 [
    0xE9, 0x82, 0xAE, 0xE7, 0xAE, 0xB1, 0xE8, 0xBF, 0x9E, 0xE6, 0x8E, 0xA5, 0xE9, 0xAA,
    0x8C, 0xE8, 0xAF, 0x81, 0xE5, 0xA4, 0xB1, 0xE8, 0xB4, 0xA5, 0xEF, 0xBC, 0x8C, 0xE8,
    0xAE, 0xA2, 0xE5, 0x8D, 0x95, 0xE5, 0xB7, 0xB2, 0xE8, 0x87, 0xAA, 0xE5, 0x8A, 0xA8,
    0xE9, 0x80, 0x80, 0xE6, 0xAC, 0xBE]"

definition msg_timeout_consume_1 :: string where
  "msg_timeout_consume_1 = utf8 [
    0xE7, 0xB4, 0xAF, 0xE8, 0xAE, 0xA1, 0x20]"

definition msg_timeout_consume_2 :: string where
  "msg_timeout_consume_2 = utf8 [
    0x20, 0xE6, 0xAC, 0xA1, 0xE8, 0xAE, 0xA2, 0xE5, 0x8D, 0x95, 0xE8, 0xB6, 0x85, 0xE6,
    0x97, 0xB6, 0xE6, 0x9C, 0xAA, 0xE6, 0x94, 0xB6, 0xE5, 0x88, 0xB0, 0xE9, 0xAA, 0x8C,
    0xE8, 0xAF, 0x81, 0xE7, 0xA0, 0x81, 0xEF, 0xBC, 0x8C, 0xE5, 0x81, 0x9C, 0xE6, 0xAD,
    0xA2, 0xE5, 0x90, 0x91, 0xE8, 0xAF, 0xA5, 0xE5, 0xB9, 0xB3, 0xE5, 0x8F, 0xB0, 0xE5,
    0x88, 0x86, 0xE9, 0x85, 0x8D]"

definition msg_register :: string where
  "msg_register = utf8 [
    0xE7, 0x94, 0xA8, 0xE6, 0x88, 0xB7, 0xE5, 0xAE, 0x8C, 0xE6, 0x88, 0x90, 0xE6, 0xB3,
    0xA8, 0xE5, 0x86, 0x8C]"

definition msg_default_key :: string where
  "msg_default_key = utf8 [
    0xE9, 0xBB, 0x98, 0xE8, 0xAE, 0xA4, 0xE5, 0xAF, 0x86, 0xE9, 0x92, 0xA5]"

definition msg_balance_adjustment :: string where
  "msg_balance_adjustment = utf8 [
    0xE7, 0xAE, 0xA1, 0xE7, 0x90, 0x86, 0xE5, 0x91, 0x98, 0xE4, 0xBD, 0x99, 0xE9, 0xA2,
    0x9D, 0xE8, 0xB0, 0x83, 0xE6, 0x95, 0xB4]"

definition msg_payment_topup :: string where
  "msg_payment_topup = utf8 [
    0xE5, 0x9C, 0xA8, 0xE7, 0xBA, 0xBF, 0xE6, 0x94, 0xAF, 0xE4, 0xBB, 0x98, 0xE5, 0x85,
    0x85, 0xE5, 0x80, 0xBC]"

definition msg_payment_complete :: string where
  "msg_payment_complete = utf8 [
    0xE6, 0x94, 0xAF, 0xE4, 0xBB, 0x98, 0xE5, 0x9B, 0x9E, 0xE8, 0xB0, 0x83, 0xE9, 0xAA,
    0x8C, 0xE7, 0xAD, 0xBE, 0xE9, 0x80, 0x9A, 0xE8, 0xBF, 0x87, 0xE5, 0xB9, 0xB6, 0xE5,
    0xAE, 0x8C, 0xE6, 0x88, 0x90, 0xE4, 0xBD, 0x99, 0xE9, 0xA2, 0x9D, 0xE5, 0x85, 0xA5,
    0xE8, 0xB4, 0xA6]"

definition msg_provider_create :: string where
  "msg_provider_create = utf8 [
    0xE6, 0x96, 0xB0, 0xE5, 0xA2, 0x9E, 0xE6, 0x94, 0xAF, 0xE4, 0xBB, 0x98, 0xE6, 0x9C,
    0x8D, 0xE5, 0x8A, 0xA1, 0xE5, 0x95, 0x86]"

definition msg_provider_update :: string where
  "msg_provider_update = utf8 [
    0xE7, 0xBC, 0x96, 0xE8, 0xBE, 0x91, 0xE6, 0x94, 0xAF, 0xE4, 0xBB, 0x98, 0xE6, 0x9C,
    0x8D, 0xE5, 0x8A, 0xA1, 0xE5, 0x95, 0x86]"

definition msg_provider_delete :: string where
  "msg_provider_delete = utf8 [
    0xE5, 0x88, 0xA0, 0xE9, 0x99, 0xA4, 0xE6, 0x94, 0xAF, 0xE4, 0xBB, 0x98, 0xE6, 0x9C,
    0x8D, 0xE5, 0x8A, 0xA1, 0xE5, 0x95, 0x86]"

definition msg_endpoint_gone :: string where
  "msg_endpoint_gone = utf8 [
    0x57, 0x65, 0x62, 0x68, 0x6F, 0x6F, 0x6B, 0x20, 0xE7, 0xAB, 0xAF, 0xE7, 0x82, 0xB9,
    0xE5, 0xB7, 0xB2, 0xE5, 0x81, 0x9C, 0xE7, 0x94, 0xA8, 0xE6, 0x88, 0x96, 0xE5, 0x88,
    0xA0, 0xE9, 0x99, 0xA4]"

definition msg_mailbox_save :: string where
  "msg_mailbox_save = utf8 [
    0xE4, 0xBF, 0x9D, 0xE5, 0xAD, 0x98, 0xE9, 0x82, 0xAE, 0xE7, 0xAE, 0xB1, 0xE8, 0xB5,
    0x84, 0xE6, 0xBA, 0x90, 0xE6, 0x88, 0x96, 0x20, 0x4F, 0x41, 0x75, 0x74, 0x68, 0x20,
    0xE6, 0x8E, 0x88, 0xE6, 0x9D, 0x83]"

definition msg_mailbox_delete :: string where
  "msg_mailbox_delete = utf8 [
    0xE5, 0x88, 0xA0, 0xE9, 0x99, 0xA4, 0xE9, 0x82, 0xAE, 0xE7, 0xAE, 0xB1, 0xE8, 0xB5,
    0x84, 0xE6, 0xBA, 0x90]"

definition msg_bulk_delete_1 :: string where
  "msg_bulk_delete_1 = utf8 [
    0xE6, 0x8C, 0x89, 0xE8, 0xAE, 0xA4, 0xE8, 0xAF, 0x81, 0xE5, 0xA4, 0xB1, 0xE8, 0xB4,
    0xA5, 0xE4, 0xB8, 0x94, 0xE6, 0x97, 0xA0, 0xE6, 0xB4, 0xBB, 0xE8, 0xB7, 0x83, 0xE8,
    0xAE, 0xA2, 0xE5, 0x8D, 0x95, 0xE6, 0x9D, 0xA1, 0xE4, 0xBB, 0xB6, 0xE6, 0x89, 0xB9,
    0xE9, 0x87, 0x8F, 0xE5, 0x88, 0xA0, 0xE9, 0x99, 0xA4, 0x20]"

definition msg_bulk_delete_2 :: string where
  "msg_bulk_delete_2 = utf8 [
    0x20, 0xE4, 0xB8, 0xAA, 0xE9, 0x82, 0xAE, 0xE7, 0xAE, 0xB1]"

definition msg_credential_refresh :: string where
  "msg_credential_refresh = utf8 [
    0xE5, 0x88, 0xB7, 0xE6, 0x96, 0xB0, 0xE9, 0x82, 0xAE, 0xE7, 0xAE, 0xB1, 0x20, 0x4F,
    0x41, 0x75, 0x74, 0x68, 0x20, 0xE5, 0x87, 0xAD, 0xE8, 0xAF, 0x81]"

definition msg_verify_result :: string where
  "msg_verify_result = utf8 [
    0xE9, 0x82, 0xAE, 0xE7, 0xAE, 0xB1, 0xE8, 0xBF, 0x9E, 0xE6, 0x8E, 0xA5, 0xE9, 0xAA,
    0x8C, 0xE8, 0xAF, 0x81, 0xE7, 0xBB, 0x93, 0xE6, 0x9E, 0x9C, 0xEF, 0xBC, 0x9A]"

definition msg_service_save :: string where
  "msg_service_save = utf8 [
    0xE4, 0xBF, 0x9D, 0xE5, 0xAD, 0x98, 0xE7, 0x9B, 0xAE, 0xE6, 0xA0, 0x87, 0xE5, 0xB9,
    0xB3, 0xE5, 0x8F, 0xB0, 0xE9, 0x85, 0x8D, 0xE7, 0xBD, 0xAE]"

definition msg_service_delete :: string where
  "msg_service_delete = utf8 [
    0xE5, 0x88, 0xA0, 0xE9, 0x99, 0xA4, 0xE7, 0x9B, 0xAE, 0xE6, 0xA0, 0x87, 0xE5, 0xB9,
    0xB3, 0xE5, 0x8F, 0xB0]"

definition msg_history_consumed :: string where
  "msg_history_consumed = utf8 [
    0xE5, 0x8E, 0x86, 0xE5, 0x8F, 0xB2, 0xE6, 0x94, 0xB6, 0xE4, 0xBB, 0xB6, 0xE5, 0x8C,
    0xB9, 0xE9, 0x85, 0x8D, 0xE7, 0x9B, 0xAE, 0xE6, 0xA0, 0x87, 0xE5, 0xB9, 0xB3, 0xE5,
    0x8F, 0xB0, 0xEF, 0xBC, 0x8C, 0xE6, 0xA0, 0x87, 0xE8, 0xAE, 0xB0, 0xE9, 0x82, 0xAE,
    0xE7, 0xAE, 0xB1, 0xE5, 0xB7, 0xB2, 0xE6, 0xB3, 0xA8, 0xE5, 0x86, 0x8C]"

definition msg_manual_registered :: string where
  "msg_manual_registered = utf8 [
    0xE7, 0xAE, 0xA1, 0xE7, 0x90, 0x86, 0xE5, 0x91, 0x98, 0xE6, 0x89, 0x8B, 0xE5, 0xB7,
    0xA5, 0xE6, 0xA0, 0x87, 0xE8, 0xAE, 0xB0, 0xE9, 0x82, 0xAE, 0xE7, 0xAE, 0xB1, 0xE5,
    0xB7, 0xB2, 0xE5, 0xAE, 0x8C, 0xE6, 0x88, 0x90, 0xE7, 0x9B, 0xAE, 0xE6, 0xA0, 0x87,
    0xE5, 0xB9, 0xB3, 0xE5, 0x8F, 0xB0, 0xE6, 0xB3, 0xA8, 0xE5, 0x86, 0x8C]"

definition msg_imap_marker :: string where
  "msg_imap_marker = utf8 [
    0xEF, 0xBC, 0x9B, 0x49, 0x4D, 0x41, 0x50, 0xEF, 0xBC, 0x9A]"

definition msg_missing_imap :: string where
  "msg_missing_imap = utf8 [
    0xE7, 0xBC, 0xBA, 0xE5, 0xB0, 0x91, 0x20, 0x49, 0x4D, 0x41, 0x50, 0x20, 0xE5, 0x87,
    0xAD, 0xE8, 0xAF, 0x81]"

definition msg_graph_invalid_no_password :: string where
  "msg_graph_invalid_no_password = utf8 [
    0x47, 0x72, 0x61, 0x70, 0x68, 0xEF, 0xBC, 0x9A, 0x4F, 0x41, 0x75, 0x74, 0x68, 0x20,
    0xE6, 0x8E, 0x88, 0xE6, 0x9D, 0x83, 0xE5, 0xB7, 0xB2, 0xE5, 0xA4, 0xB1, 0xE6, 0x95,
    0x88, 0xEF, 0xBC, 0x9B, 0xE6, 0x9C, 0xAA, 0xE6, 0x8F, 0x90, 0xE4, 0xBE, 0x9B, 0xE5,
    0x8F, 0xAF, 0xE7, 0x94, 0xA8, 0xE7, 0x9A, 0x84, 0x20, 0x49, 0x4D, 0x41, 0x50, 0x20,
    0xE5, 0xAF, 0x86, 0xE7, 0xA0, 0x81, 0xE6, 0x88, 0x96, 0xE5, 0xBA, 0x94, 0xE7, 0x94,
    0xA8, 0xE4, 0xB8, 0x93, 0xE7, 0x94, 0xA8, 0xE5, 0xAF, 0x86, 0xE7, 0xA0, 0x81, 0xEF,
    0xBC, 0x8C, 0xE6, 0x97, 0xA0, 0xE6, 0xB3, 0x95, 0xE8, 0x87, 0xAA, 0xE5, 0x8A, 0xA8,
    0xE5, 0x88, 0x87, 0xE6, 0x8D, 0xA2]"

definition msg_graph_invalid_imap_failed :: string where
  "msg_graph_invalid_imap_failed = utf8 [
    0x47, 0x72, 0x61, 0x70, 0x68, 0xEF, 0xBC, 0x9A, 0x4F, 0x41, 0x75, 0x74, 0x68, 0x20,
    0xE6, 0x8E, 0x88, 0xE6, 0x9D, 0x83, 0xE5, 0xB7, 0xB2, 0xE5, 0xA4, 0xB1, 0xE6, 0x95,
    0x88, 0xEF, 0xBC, 0x9B, 0x49, 0x4D, 0x41, 0x50, 0x20, 0xE8, 0x87, 0xAA, 0xE5, 0x8A,
    0xA8, 0xE5, 0x88, 0x87, 0xE6, 0x8D, 0xA2, 0xE5, 0xA4, 0xB1, 0xE8, 0xB4, 0xA5, 0xEF,
    0xBC, 0x9A]"

definition msg_graph_invalid_grant :: string where
  "msg_graph_invalid_grant = utf8 [
    0x47, 0x72, 0x61, 0x70, 0x68, 0xEF, 0xBC, 0x9A, 0x4D, 0x69, 0x63, 0x72, 0x6F, 0x73,
    0x6F, 0x66, 0x74, 0x20, 0x4F, 0x41, 0x75, 0x74, 0x68, 0x20, 0xE6, 0x8E, 0x88, 0xE6,
    0x9D, 0x83, 0xE5, 0xB7, 0xB2, 0xE5, 0xA4, 0xB1, 0xE6, 0x95, 0x88, 0xEF, 0xBC, 0x88,
    0x69, 0x6E, 0x76, 0x61, 0x6C, 0x69, 0x64, 0x5F, 0x67, 0x72, 0x61, 0x6E, 0x74, 0xEF,
    0xBC, 0x89, 0xEF, 0xBC, 0x8C, 0xE8, 0xAF, 0xB7, 0xE9, 0x87, 0x8D, 0xE6, 0x96, 0xB0,
    0xE6, 0x8E, 0x88, 0xE6, 0x9D, 0x83, 0x20, 0x47, 0x72, 0x61, 0x70, 0x68, 0x20, 0xE6,
    0x88, 0x96, 0xE5, 0x88, 0x87, 0xE6, 0x8D, 0xA2, 0x20, 0x49, 0x4D, 0x41, 0x50]"

definition msg_graph_no_consent :: string where
  "msg_graph_no_consent = utf8 [
    0x47, 0x72, 0x61, 0x70, 0x68, 0xEF, 0xBC, 0x9A, 0x4D, 0x69, 0x63, 0x72, 0x6F, 0x73,
    0x6F, 0x66, 0x74, 0x20, 0x4F, 0x41, 0x75, 0x74, 0x68, 0x20, 0xE5, 0xB0, 0x9A, 0xE6,
    0x9C, 0xAA, 0xE6, 0x8E, 0x88, 0xE4, 0xBA, 0x88, 0xE6, 0x89, 0x80, 0xE9, 0x9C, 0x80,
    0xE6, 0x9D, 0x83, 0xE9, 0x99, 0x90, 0xEF, 0xBC, 0x8C, 0xE8, 0xAF, 0xB7, 0xE9, 0x87,
    0x8D, 0xE6, 0x96, 0xB0, 0xE6, 0x8E, 0x88, 0xE6, 0x9D, 0x83, 0x20, 0x47, 0x72, 0x61,
    0x70, 0x68]"

definition msg_webhook_http :: string where
  "msg_webhook_http = utf8 [
    0x57, 0x65, 0x62, 0x68, 0x6F, 0x6F, 0x6B, 0x20, 0xE8, 0xBF, 0x94, 0xE5, 0x9B, 0x9E,
    0x20, 0x48, 0x54, 0x54, 0x50, 0x20]"

definition msg_openai_rule :: string where
  "msg_openai_rule = utf8 [
    0xE8, 0xA1, 0xA5, 0xE5, 0x85, 0x85, 0x20, 0x4F, 0x70, 0x65, 0x6E, 0x41, 0x49, 0x20,
    0xE5, 0x8E, 0x86, 0xE5, 0x8F, 0xB2, 0xE9, 0xAA, 0x8C, 0xE8, 0xAF, 0x81, 0xE9, 0x82,
    0xAE, 0xE4, 0xBB, 0xB6, 0xE4, 0xB8, 0xBB, 0xE9, 0xA2, 0x98, 0xE5, 0x8C, 0xB9, 0xE9,
    0x85, 0x8D, 0xE8, 0xA7, 0x84, 0xE5, 0x88, 0x99]"

definition msg_topup_name :: string where
  "msg_topup_name = utf8 [
    0x48, 0x65, 0x72, 0x6F, 0x4D, 0x61, 0x69, 0x6C, 0x20, 0xE4, 0xBD, 0x99, 0xE9, 0xA2,
    0x9D, 0xE5, 0x85, 0x85, 0xE5, 0x80, 0xBC]"

definition msg_missing_graph :: string where
  "msg_missing_graph = utf8 [
    0xE7, 0xBC, 0xBA, 0xE5, 0xB0, 0x91, 0x20, 0x47, 0x72, 0x61, 0x70, 0x68, 0x20, 0x4F,
    0x41, 0x75, 0x74, 0x68, 0x20, 0xE5, 0x87, 0xAD, 0xE8, 0xAF, 0x81]"

definition msg_ms_unconfigured :: string where
  "msg_ms_unconfigured = utf8 [
    0x4D, 0x69, 0x63, 0x72, 0x6F, 0x73, 0x6F, 0x66, 0x74, 0x20, 0x49, 0x4D, 0x41, 0x50,
    0x20, 0x4F, 0x41, 0x75, 0x74, 0x68, 0x20, 0xE5, 0xB0, 0x9A, 0xE6, 0x9C, 0xAA, 0xE9,
    0x85, 0x8D, 0xE7, 0xBD, 0xAE]"

definition msg_graph_prefix :: string where
  "msg_graph_prefix = utf8 [
    0x47, 0x72, 0x61, 0x70, 0x68, 0xEF, 0xBC, 0x9A]"

definition msg_imap_prefix :: string where
  "msg_imap_prefix = utf8 [
    0x49, 0x4D, 0x41, 0x50, 0xEF, 0xBC, 0x9A]"

definition msg_oauth_prefix :: string where
  "msg_oauth_prefix = utf8 [
    0x4F, 0x41, 0x75, 0x74, 0x68, 0xEF, 0xBC, 0x9A]"

definition msg_password_infix :: string where
  "msg_password_infix = utf8 [
    0xEF, 0xBC, 0x9B, 0xE5, 0xAF, 0x86, 0xE7, 0xA0, 0x81, 0xEF, 0xBC, 0x9A]"

definition msg_no_error :: string where
  "msg_no_error = utf8 [
    0xE6, 0x97, 0xA0, 0xE9, 0x94, 0x99, 0xE8, 0xAF, 0xAF]"

definition msg_graph_account_mismatch :: string where
  "msg_graph_account_mismatch = utf8 [
    0x47, 0x72, 0x61, 0x70, 0x68, 0x20, 0xE8, 0xB4, 0xA6, 0xE6, 0x88, 0xB7, 0xE4, 0xB8,
    0x8E, 0xE9, 0x82, 0xAE, 0xE7, 0xAE, 0xB1, 0xE5, 0x9C, 0xB0, 0xE5, 0x9D, 0x80, 0xE4,
    0xB8, 0x8D, 0xE4, 0xB8, 0x80, 0xE8, 0x87, 0xB4]"

definition msg_graph_grant_expired :: string where
  "msg_graph_grant_expired = utf8 [
    0x4D, 0x69, 0x63, 0x72, 0x6F, 0x73, 0x6F, 0x66, 0x74, 0x20, 0x4F, 0x41, 0x75, 0x74,
    0x68, 0x20, 0xE6, 0x8E, 0x88, 0xE6, 0x9D, 0x83, 0xE5, 0xB7, 0xB2, 0xE5, 0xA4, 0xB1,
    0xE6, 0x95, 0x88, 0xEF, 0xBC, 0x88, 0x69, 0x6E, 0x76, 0x61, 0x6C, 0x69, 0x64, 0x5F,
    0x67, 0x72, 0x61, 0x6E, 0x74, 0xEF, 0xBC, 0x89, 0xEF, 0xBC, 0x8C, 0xE8, 0xAF, 0xB7,
    0xE9, 0x87, 0x8D, 0xE6, 0x96, 0xB0, 0xE6, 0x8E, 0x88, 0xE6, 0x9D, 0x83, 0x20, 0x47,
    0x72, 0x61, 0x70, 0x68, 0x20, 0xE6, 0x88, 0x96, 0xE5, 0x88, 0x87, 0xE6, 0x8D, 0xA2,
    0x20, 0x49, 0x4D, 0x41, 0x50]"

definition msg_graph_consent_missing :: string where
  "msg_graph_consent_missing = utf8 [
    0x4D, 0x69, 0x63, 0x72, 0x6F, 0x73, 0x6F, 0x66, 0x74, 0x20, 0x4F, 0x41, 0x75, 0x74,
    0x68, 0x20, 0xE5, 0xB0, 0x9A, 0xE6, 0x9C, 0xAA, 0xE6, 0x8E, 0x88, 0xE4, 0xBA, 0x88,
    0xE6, 0x89, 0x80, 0xE9, 0x9C, 0x80, 0xE6, 0x9D, 0x83, 0xE9, 0x99, 0x90, 0xEF, 0xBC,
    0x8C, 0xE8, 0xAF, 0xB7, 0xE9, 0x87, 0x8D, 0xE6, 0x96, 0xB0, 0xE6, 0x8E, 0x88, 0xE6,
    0x9D, 0x83, 0x20, 0x47, 0x72, 0x61, 0x70, 0x68]"

definition msg_google_unconfigured :: string where
  "msg_google_unconfigured = utf8 [
    0x47, 0x6F, 0x6F, 0x67, 0x6C, 0x65, 0x20, 0x4F, 0x41, 0x75, 0x74, 0x68, 0x20, 0xE5,
    0xB0, 0x9A, 0xE6, 0x9C, 0xAA, 0xE9, 0x85, 0x8D, 0xE7, 0xBD, 0xAE]"

definition msg_google_no_refresh :: string where
  "msg_google_no_refresh = utf8 [
    0xE7, 0xBC, 0xBA, 0xE5, 0xB0, 0x91, 0x20, 0x47, 0x6F, 0x6F, 0x67, 0x6C, 0x65, 0x20,
    0x4F, 0x41, 0x75, 0x74, 0x68, 0x20, 0x72, 0x65, 0x66, 0x72, 0x65, 0x73, 0x68, 0x20,
    0x74, 0x6F, 0x6B, 0x65, 0x6E]"

definition msg_imap_unconfigured :: string where
  "msg_imap_unconfigured = utf8 [
    0x49, 0x4D, 0x41, 0x50, 0x20, 0xE6, 0x94, 0xB6, 0xE4, 0xBB, 0xB6, 0xE8, 0xBF, 0x9E,
    0xE6, 0x8E, 0xA5, 0xE5, 0x99, 0xA8, 0xE6, 0x9C, 0xAA, 0xE9, 0x85, 0x8D, 0xE7, 0xBD,
    0xAE]"

definition msg_save_password_failed :: string where
  "msg_save_password_failed = utf8 [
    0x49, 0x4D, 0x41, 0x50, 0xEF, 0xBC, 0x9A, 0xE4, 0xBF, 0x9D, 0xE5, 0xAD, 0x98, 0xE5,
    0xAF, 0x86, 0xE7, 0xA0, 0x81, 0xE7, 0x99, 0xBB, 0xE5, 0xBD, 0x95, 0xE6, 0x96, 0xB9,
    0xE5, 0xBC, 0x8F, 0xE5, 0xA4, 0xB1, 0xE8, 0xB4, 0xA5, 0xEF, 0xBC, 0x9A]"

definition msg_legacy_imap_1 :: string where
  "msg_legacy_imap_1 = utf8 [
    0xE4, 0xBF, 0xAE, 0xE5, 0xA4, 0x8D, 0xE6, 0x97, 0xA7, 0xE7, 0x89, 0x88, 0x20, 0x4D,
    0x69, 0x63, 0x72, 0x6F, 0x73, 0x6F, 0x66, 0x74, 0x20, 0x49, 0x4D, 0x41, 0x50, 0x20,
    0x4F, 0x41, 0x75, 0x74, 0x68, 0x20, 0xE5, 0xAF, 0xBC, 0xE5, 0x85, 0xA5, 0xE8, 0xAE,
    0xB0, 0xE5, 0xBD, 0x95, 0x20]"

definition msg_legacy_imap_2 :: string where
  "msg_legacy_imap_2 = utf8 [
    0x20, 0xE6, 0x9D, 0xA1, 0xE5, 0xB9, 0xB6, 0xE9, 0x87, 0x8D, 0xE6, 0x96, 0xB0, 0xE9,
    0xAA, 0x8C, 0xE8, 0xAF, 0x81]"

definition msg_historical_imap :: string where
  "msg_historical_imap = utf8 [
    0xE9, 0x87, 0x8D, 0xE6, 0x96, 0xB0, 0xE9, 0xAA, 0x8C, 0xE8, 0xAF, 0x81, 0xE5, 0x8E,
    0x86, 0xE5, 0x8F, 0xB2, 0x20, 0x4D, 0x69, 0x63, 0x72, 0x6F, 0x73, 0x6F, 0x66, 0x74,
    0x20, 0x49, 0x4D, 0x41, 0x50, 0x20, 0x4F, 0x41, 0x75, 0x74, 0x68, 0x20, 0xE9, 0x82,
    0xAE, 0xE7, 0xAE, 0xB1, 0x20]"

definition msg_noop_imap :: string where
  "msg_noop_imap = utf8 [
    0xE9, 0x87, 0x8D, 0xE6, 0x96, 0xB0, 0xE9, 0xAA, 0x8C, 0xE8, 0xAF, 0x81, 0xE6, 0x97,
    0xA7, 0xE7, 0x89, 0x88, 0x20, 0x4D, 0x69, 0x63, 0x72, 0x6F, 0x73, 0x6F, 0x66, 0x74,
    0x20, 0x49, 0x4D, 0x41, 0x50, 0x20, 0x4E, 0x4F, 0x4F, 0x50, 0x20, 0xE5, 0x81, 0x87,
    0xE5, 0xA4, 0xB1, 0xE8, 0xB4, 0xA5, 0xE9, 0x82, 0xAE, 0xE7, 0xAE, 0xB1, 0x20]"

definition msg_fallback_imap :: string where
  "msg_fallback_imap = utf8 [
    0xE9, 0x87, 0x8D, 0xE6, 0x96, 0xB0, 0xE9, 0xAA, 0x8C, 0xE8, 0xAF, 0x81, 0xE5, 0x90,
    0x8C, 0xE6, 0x97, 0xB6, 0xE5, 0xB8, 0xA6, 0xE5, 0xAF, 0x86, 0xE7, 0xA0, 0x81, 0xE5,
    0x92, 0x8C, 0x20, 0x4F, 0x41, 0x75, 0x74, 0x68, 0x20, 0xE5, 0x87, 0xAD, 0xE6, 0x8D,
    0xAE, 0xE7, 0x9A, 0x84, 0x20, 0x4D, 0x69, 0x63, 0x72, 0x6F, 0x73, 0x6F, 0x66, 0x74,
    0x20, 0xE9, 0x82, 0xAE, 0xE7, 0xAE, 0xB1, 0x20]"

definition msg_password_only_imap :: string where
  "msg_password_only_imap = utf8 [
    0xE9, 0x87, 0x8D, 0xE6, 0x96, 0xB0, 0xE9, 0xAA, 0x8C, 0xE8, 0xAF, 0x81, 0xE4, 0xBB,
    0x85, 0xE5, 0x90, 0xAB, 0xE5, 0xAF, 0x86, 0xE7, 0xA0, 0x81, 0xE7, 0x9A, 0x84, 0x20,
    0x4D, 0x69, 0x63, 0x72, 0x6F, 0x73, 0x6F, 0x66, 0x74, 0x20, 0xE9, 0x82, 0xAE, 0xE7,
    0xAE, 0xB1, 0x20]"

definition msg_rows_suffix :: string where
  "msg_rows_suffix = utf8 [
    0x20, 0xE6, 0x9D, 0xA1]"

definition msg_pricing_1 :: string where
  "msg_pricing_1 = utf8 [
    0xE8, 0xBF, 0x81, 0xE7, 0xA7, 0xBB, 0xE9, 0x82, 0xAE, 0xE7, 0xAE, 0xB1, 0xE7, 0xB1,
    0xBB, 0xE5, 0x9E, 0x8B, 0xE5, 0xAE, 0x9A, 0xE4, 0xBB, 0xB7, 0x20]"

definition msg_pricing_2 :: string where
  "msg_pricing_2 = utf8 [
    0x20, 0xE4, 0xB8, 0xAA, 0xE5, 0xB9, 0xB3, 0xE5, 0x8F, 0xB0, 0xEF, 0xBC, 0x8C, 0xE8,
    0xA1, 0xA5, 0xE9, 0xBD, 0x90, 0xE8, 0xAE, 0xA2, 0xE5, 0x8D, 0x95, 0xE9, 0x82, 0xAE,
    0xE7, 0xAE, 0xB1, 0xE7, 0xB1, 0xBB, 0xE5, 0x9E, 0x8B, 0x20]"

definition msg_pricing_3 :: string where
  "msg_pricing_3 = utf8 [
    0x20, 0xE6, 0x9D, 0xA1, 0xE3, 0x80, 0x81, 0xE8, 0xAF, 0xB7, 0xE6, 0xB1, 0x82, 0xE7,
    0xB1, 0xBB, 0xE5, 0x9E, 0x8B, 0x20]"

definition msg_states_filled :: string where
  "msg_states_filled = utf8 [
    0xE8, 0xA1, 0xA5, 0xE9, 0xBD, 0x90, 0xE7, 0xBC, 0xBA, 0xE5, 0xA4, 0xB1, 0xE7, 0x9A,
    0x84, 0xE9, 0x82, 0xAE, 0xE7, 0xAE, 0xB1, 0xE5, 0xB9, 0xB3, 0xE5, 0x8F, 0xB0, 0xE7,
    0x8A, 0xB6, 0xE6, 0x80, 0x81, 0x20]"

definition msg_admin_name :: string where
  "msg_admin_name = utf8 [
    0xE7, 0xB3, 0xBB, 0xE7, 0xBB, 0x9F, 0xE7, 0xAE, 0xA1, 0xE7, 0x90, 0x86, 0xE5, 0x91,
    0x98]"

definition msg_demo_name :: string where
  "msg_demo_name = utf8 [
    0xE6, 0xBC, 0x94, 0xE7, 0xA4, 0xBA, 0xE7, 0x94, 0xA8, 0xE6, 0x88, 0xB7]"

definition msg_account_suffix :: string where
  "msg_account_suffix = utf8 [
    0x20, 0xE8, 0xB4, 0xA6, 0xE6, 0x88, 0xB7, 0xE6, 0xB3, 0xA8, 0xE5, 0x86, 0x8C]"

definition msg_pool_1 :: string where
  "msg_pool_1 = utf8 [
    0xE7, 0xBB, 0x9F, 0xE4, 0xB8, 0x80, 0xE9, 0x82, 0xAE, 0xE7, 0xAE, 0xB1, 0xE6, 0xB1,
    0xA0, 0xEF, 0xBC, 0x9A, 0xE8, 0xBF, 0x81, 0xE7, 0xA7, 0xBB, 0xE9, 0x82, 0xAE, 0xE7,
    0xAE, 0xB1, 0x20]"

definition msg_pool_2 :: string where
  "msg_pool_2 = utf8 [
    0x20, 0xE4, 0xB8, 0xAA, 0xEF, 0xBC, 0x8C, 0xE5, 0x81, 0x9C, 0xE7, 0x94, 0xA8, 0xE6,
    0x97, 0xA7, 0xE6, 0xB1, 0xA0, 0x20]"

definition msg_pool_3 :: string where
  "msg_pool_3 = utf8 [
    0x20, 0xE4, 0xB8, 0xAA, 0xEF, 0xBC, 0x8C, 0xE9, 0x87, 0x8D, 0xE5, 0x88, 0x86, 0xE7,
    0xB1, 0xBB, 0x20, 0x4F, 0x75, 0x74, 0x6C, 0x6F, 0x6F, 0x6B, 0x2E, 0x64, 0x65, 0x20]"

definition msg_pool_4 :: string where
  "msg_pool_4 = utf8 [
    0x20, 0xE4, 0xB8, 0xAA, 0xEF, 0xBC, 0x8C, 0xE6, 0x9B, 0xB4, 0xE6, 0x96, 0xB0, 0xE5,
    0xB9, 0xB3, 0xE5, 0x8F, 0xB0, 0x20]"

definition msg_pool_5 :: string where
  "msg_pool_5 = utf8 [
    0x20, 0xE4, 0xB8, 0xAA]"

definition msg_imap_failure_prefix :: string where
  "msg_imap_failure_prefix = utf8 [
    0xE8, 0xBF, 0x9E, 0xE6, 0x8E, 0xA5, 0xE5, 0xA4, 0xB1, 0xE8, 0xB4, 0xA5, 0xEF, 0xBC,
    0x9A]"

definition msg_auth_failure_prefix :: string where
  "msg_auth_failure_prefix = utf8 [
    0xE8, 0xAE, 0xA4, 0xE8, 0xAF, 0x81, 0xE5, 0xA4, 0xB1, 0xE8, 0xB4, 0xA5, 0xEF, 0xBC,
    0x9A]"

definition msg_inbox_failure_prefix :: string where
  "msg_inbox_failure_prefix = utf8 [
    0xE6, 0x89, 0x93, 0xE5, 0xBC, 0x80, 0xE6, 0x94, 0xB6, 0xE4, 0xBB, 0xB6, 0xE7, 0xAE,
    0xB1, 0xE5, 0xA4, 0xB1, 0xE8, 0xB4, 0xA5, 0xEF, 0xBC, 0x9A]"

definition msg_connection_word :: string where
  "msg_connection_word = utf8 [
    0xE8, 0xBF, 0x9E, 0xE6, 0x8E, 0xA5]"

definition msg_timeout_word :: string where
  "msg_timeout_word = utf8 [
    0xE8, 0xB6, 0x85, 0xE6, 0x97, 0xB6]"

definition msg_no_imap_secret :: string where
  "msg_no_imap_secret = utf8 [
    0xE7, 0xBC, 0xBA, 0xE5, 0xB0, 0x91, 0x20, 0x4F, 0x41, 0x75, 0x74, 0x68, 0x20, 0x54,
    0x6F, 0x6B, 0x65, 0x6E, 0x20, 0xE6, 0x88, 0x96, 0xE5, 0xAF, 0x86, 0xE7, 0xA0, 0x81]"

end
