(* ===== verification/Tables.thy ===== *)
theory Tables
  imports Prelude Money Messages
begin

text \<open>
  The relational schema of \<^verbatim>\<open>internal/store/postgres_models.go\<close>, one record per table and the database
  as the record of all tables.  A nullable column is an option.  Status columns that only the
  program writes (order status, state of a mailbox for a platform) are the domain datatypes.
  \<^verbatim>\<open>updated_at\<close> is kept for the tables whose column the program reads.

  The second part gives the statements the operations are made of: \<open>stmt\<close> (any statement may
  fail with a driver error), one \<open>create_\<close> per table with the primary key and the unique indexes of
  the schema, and the upsert that the mapper's \<^verbatim>\<open>Save\<close> performs.
\<close>

subsection \<open>Rows\<close>

record sqlUser =
  u_ID :: string
  u_Email :: string
  u_PasswordHash :: string
  u_Role :: string
  u_Status :: string
  u_BalanceCents :: int
  u_DisplayName :: string
  u_CreatedAt :: time
  u_LastLoginAt :: "time option"

record sqlSession =
  ss_ID :: string
  ss_UserID :: string
  ss_TokenHash :: string
  ss_ExpiresAt :: time
  ss_CreatedAt :: time
  ss_RevokedAt :: "time option"

record sqlAPIKey =
  k_ID :: string
  k_UserID :: string
  k_Name :: string
  k_Prefix :: string
  k_SecretHash :: string
  k_Scopes :: "string list"
  k_LastUsedAt :: "time option"
  k_ExpiresAt :: "time option"
  k_RevokedAt :: "time option"
  k_CreatedAt :: time

record sqlService =
  sv_ID :: string
  sv_Code :: string
  sv_Name :: string
  sv_Description :: string
  sv_Enabled :: bool
  sv_AllowedProviders :: "string list"
  sv_PriceCents :: int
  sv_ProviderPricesCents :: "(string \<times> int) list"
  sv_TTLSeconds :: int
  sv_SenderDomains :: "string list"
  sv_SubjectKeywords :: "string list"
  sv_Regex :: string
  sv_CreatedAt :: time

record sqlSeedState =
  sd_Key :: string
  sd_CreatedAt :: time

record sqlSystemConfig =
  sc_Key :: string
  sc_EncryptedValue :: string

record sqlMailbox =
  m_ID :: string
  m_Address :: string
  m_Provider :: string
  m_Pool :: string
  m_State :: string
  m_HealthScore :: int
  m_OAuthValidUntil :: time
  m_EncryptedCredential :: string
  m_ActiveOrderID :: string
  m_TodayCodes :: int
  m_LastReceivedAt :: "time option"
  m_ConnectionMethod :: string
  m_VerificationStatus :: string
  m_LastVerifiedAt :: "time option"
  m_VerificationError :: string
  m_CreatedAt :: time
  m_UpdatedAt :: time

record sqlMailboxService =
  ms_MailboxID :: string
  ms_ServiceID :: string
  ms_State :: ServiceMailboxState
  ms_TimeoutCount :: int
  ms_ChangedAt :: time

record sqlOrder =
  o_ID :: string
  o_UserID :: string
  o_ServiceID :: string
  o_ServiceCode :: string
  o_ServiceName :: string
  o_MailboxID :: string
  o_MailboxAddress :: string
  o_MailboxProvider :: string
  o_RequestedProviders :: "string list"
  o_Status :: OrderStatus
  o_Code :: string
  o_PriceCents :: int
  o_CreatedAt :: time
  o_AssignedAt :: "time option"
  o_SubmittedAt :: "time option"
  o_CodeReceivedAt :: "time option"
  o_CompletedAt :: "time option"
  o_ExpiresAt :: time
  o_Refunded :: bool
  o_RequestID :: string
  o_FailureReason :: string

record sqlWalletLedger =
  l_ID :: string
  l_UserID :: string
  l_OrderID :: string
  l_PaymentOrderID :: string
  l_Type :: string
  l_AmountCents :: int
  l_BalanceAfterCents :: int
  l_Description :: string
  l_CreatedAt :: time

record sqlAuditLog =
  a_ID :: string
  a_ActorID :: string
  a_Action :: string
  a_ResourceType :: string
  a_ResourceID :: string
  a_Detail :: string
  a_IP :: string
  a_CreatedAt :: time

record sqlMailboxPool =
  pl_ID :: string
  pl_Name :: string
  pl_Provider :: string
  pl_Region :: string
  pl_Enabled :: bool
  pl_DailyLimit :: int
  pl_CooldownSeconds :: int
  pl_CreatedAt :: time

record sqlPaymentProvider =
  pp_ID :: string
  pp_Name :: string
  pp_Type :: string
  pp_Methods :: "string list"
  pp_Enabled :: bool
  pp_Priority :: int
  pp_EncryptedConfig :: string
  pp_CreatedAt :: time
  pp_UpdatedAt :: time

record sqlPaymentOrder =
  po_ID :: string
  po_UserID :: string
  po_ProviderID :: string
  po_ProviderName :: string
  po_Method :: string
  po_Status :: string
  po_AmountCents :: int
  po_ProviderTradeNo :: string
  po_PayURL :: string
  po_CreatedAt :: time
  po_ExpiresAt :: time
  po_PaidAt :: "time option"
  po_CompletedAt :: "time option"
  po_CanceledAt :: "time option"

record sqlMailEvent =
  ev_ID :: string
  ev_MailboxID :: string
  ev_MessageID :: string
  ev_Sender :: string
  ev_Subject :: string
  ev_ReceivedAt :: time
  ev_CreatedAt :: time

record sqlWebhookEndpoint =
  we_ID :: string
  we_UserID :: string
  we_URL :: string
  we_Events :: "string list"
  we_Enabled :: bool
  we_EncryptedSecret :: string
  we_CreatedAt :: time
  we_UpdatedAt :: time

text \<open>The payload column holds the JSON text of a value; the value itself is kept here.\<close>

record webhook_payload =
  wp_id :: string
  wp_event :: string
  wp_created_at :: time
  wp_order :: Order

record sqlWebhookDelivery =
  wd_ID :: string
  wd_EndpointID :: string
  wd_OrderID :: string
  wd_Event :: string
  wd_Status :: string
  wd_Attempts :: int
  wd_Payload :: webhook_payload
  wd_ResponseCode :: int
  wd_LastError :: string
  wd_NextRetryAt :: time
  wd_DeliveredAt :: "time option"
  wd_CreatedAt :: time

record db =
  db_users :: "sqlUser list"
  db_sessions :: "sqlSession list"
  db_api_keys :: "sqlAPIKey list"
  db_services :: "sqlService list"
  db_seeds :: "sqlSeedState list"
  db_configs :: "sqlSystemConfig list"
  db_pools :: "sqlMailboxPool list"
  db_mailboxes :: "sqlMailbox list"
  db_states :: "sqlMailboxService list"
  db_orders :: "sqlOrder list"
  db_ledgers :: "sqlWalletLedger list"
  db_pay_providers :: "sqlPaymentProvider list"
  db_pay_orders :: "sqlPaymentOrder list"
  db_mail_events :: "sqlMailEvent list"
  db_endpoints :: "sqlWebhookEndpoint list"
  db_deliveries :: "sqlWebhookDelivery list"
  db_audits :: "sqlAuditLog list"

definition empty_db :: db where
  "empty_db = \<lparr> db_users = [], db_sessions = [], db_api_keys = [], db_services = [], db_seeds = [],
     db_configs = [], db_pools = [], db_mailboxes = [], db_states = [], db_orders = [],
     db_ledgers = [], db_pay_providers = [], db_pay_orders = [], db_mail_events = [],
     db_endpoints = [], db_deliveries = [], db_audits = [] \<rparr>"

subsection \<open>Errors\<close>

datatype store_error =
    ErrServiceNotFound | ErrServiceDisabled | ErrNoMailboxAvailable | ErrAllocationBusy
  | ErrOrderNotFound | ErrInvalidOrderState | ErrVerificationCodeRequired
  | ErrInsufficientBalance | ErrDuplicateRequest | ErrInvalidMailboxProviders
  | ErrMailboxServiceLeased | ErrMailboxServiceNotFound
  | ErrInvalidCredentials | ErrEmailExists | ErrPasswordTooShort | ErrPasswordMismatch
  | ErrAPIKeyNotFound
  | ErrPaymentProviderNotFound | ErrPaymentProviderInUse | ErrPaymentOrderNotFound
  | ErrPaymentAmountMismatch
  | ErrMailboxPoolNotFound | ErrMailboxNotFound | ErrInvalidMailboxCountChanged
  | ErrNoInvalidMailboxes
  \<comment> \<open>errors made where they are returned\<close>
  | ErrUserNotFound | ErrUnsupportedMailbox | ErrMailboxHasActiveOrder | ErrServiceHasOrders
  | ErrPaymentAmountRange | ErrPaymentNotCancelable | ErrPaymentNotCompletable
  | ErrWebhookURL | ErrWebhookEndpointNotFound | ErrWebhookDeliveryNotFound
  | ErrConfigKeyEmpty | ErrConfigDecrypt
  | ErrPayloadMarshal | ErrEncrypt | ErrDecrypt | ErrRandom | ErrHash | ErrMissingAdminPassword
  \<comment> \<open>errors of the driver and of the mapper\<close>
  | ErrRecordNotFound | ErrDuplicatedKey | ErrDB nat

type_synonym 'a stx = "(db, store_error, 'a) tx"

subsection \<open>Statements\<close>

definition stmt :: "env \<Rightarrow> nat \<Rightarrow> unit stx" where
  "stmt env n = tx_guard (\<not> db_fail env n) (ErrDB n)"

text \<open>A query whose error the code treats like an empty result, and one whose error it returns.\<close>

definition tx_query :: "env \<Rightarrow> nat \<Rightarrow> (db \<Rightarrow> 'a option) \<Rightarrow> 'a option stx" where
  "tx_query env n f = tx_bind tx_get (\<lambda>db. tx_return (if db_fail env n then None else f db))"

definition tx_read :: "env \<Rightarrow> nat \<Rightarrow> (db \<Rightarrow> 'a) \<Rightarrow> 'a stx" where
  "tx_read env n f = tx_then (stmt env n) (tx_bind tx_get (\<lambda>db. tx_return (f db)))"

text \<open>\<^verbatim>\<open>First\<close> whose error, not-found included, is replaced by \<open>e\<close>.\<close>

definition tx_first :: "env \<Rightarrow> nat \<Rightarrow> store_error \<Rightarrow> (db \<Rightarrow> 'a option) \<Rightarrow> 'a stx" where
  "tx_first env n e f = tx_bind (tx_query env n f)
     (\<lambda>r. case r of None \<Rightarrow> tx_fail e | Some x \<Rightarrow> tx_return x)"

text \<open>\<^verbatim>\<open>First\<close> whose error is returned unchanged.\<close>

definition tx_one :: "env \<Rightarrow> nat \<Rightarrow> (db \<Rightarrow> 'a option) \<Rightarrow> 'a stx" where
  "tx_one env n f = tx_bind (tx_read env n f)
     (\<lambda>r. case r of None \<Rightarrow> tx_fail ErrRecordNotFound | Some x \<Rightarrow> tx_return x)"

definition tx_update :: "env \<Rightarrow> nat \<Rightarrow> (db \<Rightarrow> db) \<Rightarrow> unit stx" where
  "tx_update env n f = tx_then (stmt env n) (tx_put f)"

definition tx_unique :: "(db \<Rightarrow> bool) \<Rightarrow> unit stx" where
  "tx_unique ok = tx_bind tx_get (\<lambda>db. tx_guard (ok db) ErrDuplicatedKey)"

definition tx_insert :: "env \<Rightarrow> nat \<Rightarrow> (db \<Rightarrow> bool) \<Rightarrow> (db \<Rightarrow> db) \<Rightarrow> unit stx" where
  "tx_insert env n ok f = tx_then (stmt env n) (tx_then (tx_unique ok) (tx_put f))"

definition fresh_key :: "('r \<Rightarrow> 'k) \<Rightarrow> 'k \<Rightarrow> 'r list \<Rightarrow> bool" where
  "fresh_key key k t \<longleftrightarrow> k \<notin> key ` set t"

lemma tx_ok_stmt [tx_simps]: "tx_ok (stmt env n) db Q \<longleftrightarrow> (\<not> db_fail env n \<longrightarrow> Q () db)"
  by (simp add: stmt_def tx_simps)

lemma tx_ok_query [tx_simps]:
  "tx_ok (tx_query env n f) db Q \<longleftrightarrow> Q (if db_fail env n then None else f db) db"
  by (simp add: tx_query_def tx_simps)

lemma tx_ok_read [tx_simps]: "tx_ok (tx_read env n f) db Q \<longleftrightarrow> (\<not> db_fail env n \<longrightarrow> Q (f db) db)"
  by (simp add: tx_read_def tx_simps)

lemma tx_ok_first [tx_simps]:
  "tx_ok (tx_first env n e f) db Q \<longleftrightarrow> (\<forall>x. \<not> db_fail env n \<and> f db = Some x \<longrightarrow> Q x db)"
  by (auto simp: tx_first_def tx_simps)

lemma tx_ok_one [tx_simps]:
  "tx_ok (tx_one env n f) db Q \<longleftrightarrow> (\<forall>x. \<not> db_fail env n \<and> f db = Some x \<longrightarrow> Q x db)"
  by (auto simp: tx_one_def tx_simps)

lemma tx_ok_update [tx_simps]: "tx_ok (tx_update env n f) db Q \<longleftrightarrow> (\<not> db_fail env n \<longrightarrow> Q () (f db))"
  by (simp add: tx_update_def tx_simps)

lemma tx_ok_unique [tx_simps]: "tx_ok (tx_unique ok) db Q \<longleftrightarrow> (ok db \<longrightarrow> Q () db)"
  by (simp add: tx_unique_def tx_simps)

lemma tx_ok_insert [tx_simps]:
  "tx_ok (tx_insert env n ok f) db Q \<longleftrightarrow> (\<not> db_fail env n \<longrightarrow> ok db \<longrightarrow> Q () (f db))"
  by (auto simp: tx_insert_def tx_simps)

lemmas stmt_defs = stmt_def tx_query_def tx_read_def tx_first_def tx_one_def tx_update_def tx_unique_def
  tx_insert_def

definition upsert :: "('r \<Rightarrow> 'k) \<Rightarrow> 'r \<Rightarrow> 'r list \<Rightarrow> 'r list" where
  "upsert key r t = (if key r \<in> key ` set t then upd_rows (\<lambda>x. key x = key r) (\<lambda>_. r) t else t @ [r])"

lemma upsert_existing:
  "r0 \<in> set t \<Longrightarrow> key r0 = key r \<Longrightarrow> upsert key r t = upd_rows (\<lambda>x. key x = key r) (\<lambda>_. r) t"
  by (metis imageI upsert_def)

lemma map_key_upsert_existing:
  "key r \<in> key ` set t \<Longrightarrow> map key (upsert key r t) = map key t"
  by (auto simp: upsert_def upd_rows_def)

lemma distinct_upsert: "distinct (map key t) \<Longrightarrow> distinct (map key (upsert key r t))"
  by (cases "key r \<in> key ` set t") (simp_all add: map_key_upsert_existing, simp add: upsert_def)

lemma set_upsert: "x \<in> set (upsert key r t) \<longleftrightarrow> x = r \<or> (x \<in> set t \<and> key x \<noteq> key r)"
  by (auto simp: upsert_def set_upd_rows image_iff)

subsection \<open>Inserts\<close>

definition create_user :: "env \<Rightarrow> nat \<Rightarrow> sqlUser \<Rightarrow> unit stx" where
  "create_user env n r = tx_insert env n
     (\<lambda>db. fresh_key u_ID (u_ID r) (db_users db) \<and> fresh_key u_Email (u_Email r) (db_users db))
     (\<lambda>db. db\<lparr>db_users := db_users db @ [r\<lparr>u_CreatedAt := stamp env n\<rparr>]\<rparr>)"

definition create_session_row :: "env \<Rightarrow> nat \<Rightarrow> sqlSession \<Rightarrow> unit stx" where
  "create_session_row env n r = tx_insert env n
     (\<lambda>db. fresh_key ss_ID (ss_ID r) (db_sessions db)
         \<and> fresh_key ss_TokenHash (ss_TokenHash r) (db_sessions db))
     (\<lambda>db. db\<lparr>db_sessions := db_sessions db @ [r\<lparr>ss_CreatedAt := stamp env n\<rparr>]\<rparr>)"

definition create_api_key :: "env \<Rightarrow> nat \<Rightarrow> sqlAPIKey \<Rightarrow> unit stx" where
  "create_api_key env n r = tx_insert env n
     (\<lambda>db. fresh_key k_ID (k_ID r) (db_api_keys db)
         \<and> fresh_key k_SecretHash (k_SecretHash r) (db_api_keys db))
     (\<lambda>db. db\<lparr>db_api_keys := db_api_keys db @ [r\<lparr>k_CreatedAt := stamp env n\<rparr>]\<rparr>)"

definition create_service :: "env \<Rightarrow> nat \<Rightarrow> sqlService \<Rightarrow> unit stx" where
  "create_service env n r = tx_insert env n
     (\<lambda>db. fresh_key sv_ID (sv_ID r) (db_services db)
         \<and> fresh_key sv_Code (sv_Code r) (db_services db))
     (\<lambda>db. db\<lparr>db_services := db_services db @ [r\<lparr>sv_CreatedAt := stamp env n\<rparr>]\<rparr>)"

definition create_seed :: "env \<Rightarrow> nat \<Rightarrow> sqlSeedState \<Rightarrow> unit stx" where
  "create_seed env n r = tx_insert env n
     (\<lambda>db. fresh_key sd_Key (sd_Key r) (db_seeds db)) (\<lambda>db. db\<lparr>db_seeds := db_seeds db @ [r]\<rparr>)"

definition create_pool :: "env \<Rightarrow> nat \<Rightarrow> sqlMailboxPool \<Rightarrow> unit stx" where
  "create_pool env n r = tx_insert env n
     (\<lambda>db. fresh_key pl_ID (pl_ID r) (db_pools db) \<and> fresh_key pl_Name (pl_Name r) (db_pools db))
     (\<lambda>db. db\<lparr>db_pools := db_pools db @ [r\<lparr>pl_CreatedAt := stamp env n\<rparr>]\<rparr>)"

definition create_mailbox :: "env \<Rightarrow> nat \<Rightarrow> sqlMailbox \<Rightarrow> unit stx" where
  "create_mailbox env n r = tx_insert env n
     (\<lambda>db. fresh_key m_ID (m_ID r) (db_mailboxes db)
         \<and> fresh_key m_Address (m_Address r) (db_mailboxes db))
     (\<lambda>db. db\<lparr>db_mailboxes := db_mailboxes db @ [r\<lparr>m_CreatedAt := stamp env n, m_UpdatedAt := stamp env n\<rparr>]\<rparr>)"

text \<open>The key of a mailbox-platform state and of the index \<^verbatim>\<open>idx_user_request\<close>, which the tags of
  \<^verbatim>\<open>UserID\<close> and \<^verbatim>\<open>RequestID\<close> make one unique index over both columns.\<close>

definition ms_key :: "sqlMailboxService \<Rightarrow> string \<times> string" where
  "ms_key r = (ms_MailboxID r, ms_ServiceID r)"

definition idx_user_request :: "sqlOrder \<Rightarrow> string \<times> string" where
  "idx_user_request r = (o_UserID r, o_RequestID r)"

definition create_state :: "env \<Rightarrow> nat \<Rightarrow> sqlMailboxService \<Rightarrow> unit stx" where
  "create_state env n r = tx_insert env n
     (\<lambda>db. fresh_key ms_key (ms_key r) (db_states db)) (\<lambda>db. db\<lparr>db_states := db_states db @ [r]\<rparr>)"

definition create_order :: "env \<Rightarrow> nat \<Rightarrow> sqlOrder \<Rightarrow> unit stx" where
  "create_order env n r = tx_insert env n
     (\<lambda>db. fresh_key o_ID (o_ID r) (db_orders db)
         \<and> fresh_key idx_user_request (idx_user_request r) (db_orders db))
     (\<lambda>db. db\<lparr>db_orders := db_orders db @ [r]\<rparr>)"

definition create_ledger :: "env \<Rightarrow> nat \<Rightarrow> sqlWalletLedger \<Rightarrow> unit stx" where
  "create_ledger env n r = tx_insert env n
     (\<lambda>db. fresh_key l_ID (l_ID r) (db_ledgers db))
     (\<lambda>db. db\<lparr>db_ledgers := db_ledgers db @ [r\<lparr>l_CreatedAt := stamp env n\<rparr>]\<rparr>)"

definition create_audit :: "env \<Rightarrow> nat \<Rightarrow> sqlAuditLog \<Rightarrow> unit stx" where
  "create_audit env n r = tx_insert env n
     (\<lambda>db. fresh_key a_ID (a_ID r) (db_audits db))
     (\<lambda>db. db\<lparr>db_audits := db_audits db @ [r\<lparr>a_CreatedAt := stamp env n\<rparr>]\<rparr>)"

definition create_pay_order :: "env \<Rightarrow> nat \<Rightarrow> sqlPaymentOrder \<Rightarrow> unit stx" where
  "create_pay_order env n r = tx_insert env n
     (\<lambda>db. fresh_key po_ID (po_ID r) (db_pay_orders db)) (\<lambda>db. db\<lparr>db_pay_orders := db_pay_orders db @ [r]\<rparr>)"

definition create_mail_event :: "env \<Rightarrow> nat \<Rightarrow> sqlMailEvent \<Rightarrow> unit stx" where
  "create_mail_event env n r = tx_insert env n
     (\<lambda>db. fresh_key ev_ID (ev_ID r) (db_mail_events db)
         \<and> fresh_key (\<lambda>e. (ev_MailboxID e, ev_MessageID e)) (ev_MailboxID r, ev_MessageID r)
             (db_mail_events db))
     (\<lambda>db. db\<lparr>db_mail_events := db_mail_events db @ [r\<lparr>ev_CreatedAt := stamp env n\<rparr>]\<rparr>)"

definition create_endpoint :: "env \<Rightarrow> nat \<Rightarrow> sqlWebhookEndpoint \<Rightarrow> unit stx" where
  "create_endpoint env n r = tx_insert env n
     (\<lambda>db. fresh_key we_ID (we_ID r) (db_endpoints db))
     (\<lambda>db. db\<lparr>db_endpoints := db_endpoints db @ [r\<lparr>we_CreatedAt := stamp env n, we_UpdatedAt := stamp env n\<rparr>]\<rparr>)"

definition create_delivery :: "env \<Rightarrow> nat \<Rightarrow> sqlWebhookDelivery \<Rightarrow> unit stx" where
  "create_delivery env n r = tx_insert env n
     (\<lambda>db. fresh_key wd_ID (wd_ID r) (db_deliveries db))
     (\<lambda>db. db\<lparr>db_deliveries := db_deliveries db @ [r\<lparr>wd_CreatedAt := stamp env n\<rparr>]\<rparr>)"

lemmas create_defs = create_user_def create_session_row_def create_api_key_def create_service_def
  create_seed_def create_pool_def create_mailbox_def create_state_def create_order_def
  create_ledger_def create_audit_def create_pay_order_def create_mail_event_def
  create_endpoint_def create_delivery_def

text \<open>UPDATE of mailboxes: the mapper writes \<^verbatim>\<open>updated_at\<close> with every update.\<close>

definition update_mailboxes ::
  "env \<Rightarrow> nat \<Rightarrow> (sqlMailbox \<Rightarrow> bool) \<Rightarrow> (sqlMailbox \<Rightarrow> sqlMailbox) \<Rightarrow> unit stx" where
  "update_mailboxes env n P f =
     tx_update env n (\<lambda>db. db\<lparr>db_mailboxes :=
       upd_rows P (\<lambda>m. (f m)\<lparr>m_UpdatedAt := stamp env n\<rparr>) (db_mailboxes db)\<rparr>)"

definition save_mailbox_row :: "env \<Rightarrow> nat \<Rightarrow> sqlMailbox \<Rightarrow> unit stx" where
  "save_mailbox_row env n r = tx_insert env n
     (\<lambda>db. \<forall>x\<in>set (db_mailboxes db). m_Address x = m_Address r \<longrightarrow> m_ID x = m_ID r)
     (\<lambda>db. db\<lparr>db_mailboxes := upsert m_ID (r\<lparr>m_UpdatedAt := stamp env n\<rparr>) (db_mailboxes db)\<rparr>)"

definition update_states ::
  "env \<Rightarrow> nat \<Rightarrow> (sqlMailboxService \<Rightarrow> bool) \<Rightarrow> (sqlMailboxService \<Rightarrow> sqlMailboxService) \<Rightarrow> unit stx" where
  "update_states env n P f = tx_update env n (\<lambda>db. db\<lparr>db_states := upd_rows P f (db_states db)\<rparr>)"

definition save_order :: "env \<Rightarrow> nat \<Rightarrow> sqlOrder \<Rightarrow> unit stx" where
  "save_order env n r = tx_update env n (\<lambda>db. db\<lparr>db_orders := upsert o_ID r (db_orders db)\<rparr>)"

definition save_state :: "env \<Rightarrow> nat \<Rightarrow> sqlMailboxService \<Rightarrow> unit stx" where
  "save_state env n r = tx_update env n (\<lambda>db. db\<lparr>db_states := upsert ms_key r (db_states db)\<rparr>)"

definition set_balance :: "env \<Rightarrow> nat \<Rightarrow> string \<Rightarrow> int \<Rightarrow> unit stx" where
  "set_balance env n uid b =
     tx_update env n (\<lambda>db. db\<lparr>db_users :=
       upd_rows (\<lambda>u. u_ID u = uid) (\<lambda>u. u\<lparr>u_BalanceCents := b\<rparr>) (db_users db)\<rparr>)"

lemmas write_defs = update_mailboxes_def save_mailbox_row_def update_states_def save_order_def
  save_state_def set_balance_def

subsection \<open>Reading the database after a write\<close>

text \<open>An audit line without the caller's address, and one made for an administrator's request.\<close>

definition audit_row ::
  "string \<Rightarrow> string \<Rightarrow> string \<Rightarrow> string \<Rightarrow> string \<Rightarrow> string \<Rightarrow> string \<Rightarrow> sqlAuditLog" where
  "audit_row aid actor action rtype rid detail ip =
     \<lparr> a_ID = aid, a_ActorID = actor, a_Action = action, a_ResourceType = rtype,
       a_ResourceID = rid, a_Detail = detail, a_IP = ip, a_CreatedAt = zero_time \<rparr>"

end
