(* ===== verification/Rows.thy ===== *)
theory Rows
  imports Tables "HOL-Library.AList"
begin

text \<open>
  The conversions between rows and the records of the domain, and the price tables of a target
  platform.  A Go map is an association list with distinct keys; where the code ranges over a map
  the list order stands for Go's unspecified iteration order.
\<close>

definition opt_time :: "time option \<Rightarrow> time" where
  "opt_time t = (case t of None \<Rightarrow> zero_time | Some x \<Rightarrow> x)"

definition mapUser :: "sqlUser \<Rightarrow> User" where
  "mapUser row = \<lparr> usr_ID = u_ID row, usr_Email = u_Email row,
     usr_Balance = from_cents (u_BalanceCents row), usr_Role = u_Role row,
     usr_Status = u_Status row, usr_DisplayName = u_DisplayName row,
     usr_CreatedAt = u_CreatedAt row \<rparr>"

subsection \<open>Prices\<close>

definition providerPricesCents :: "(string \<times> float64) list \<Rightarrow> (string \<times> int) list" where
  "providerPricesCents prices = map (\<lambda>(provider, price). (provider, cents price)) prices"

fun effective_prices :: "(string \<times> int) list \<Rightarrow> int \<Rightarrow> string list \<Rightarrow> (string \<times> int) list" where
  "effective_prices acc base [] = acc"
| "effective_prices acc base (provider # ps) =
     effective_prices (if map_of acc provider = None then AList.update provider base acc else acc) base ps"

definition effectiveProviderPricesCents :: "sqlService \<Rightarrow> (string \<times> int) list" where
  "effectiveProviderPricesCents service =
     effective_prices (sv_ProviderPricesCents service) (sv_PriceCents service)
       (sv_AllowedProviders service)"

fun minimum_price :: "int \<Rightarrow> bool \<Rightarrow> (string \<times> float64) list \<Rightarrow> int" where
  "minimum_price minimum first [] = minimum"
| "minimum_price minimum first ((_, price) # ps) =
     (let value = cents price
      in if first \<or> value < minimum then minimum_price value False ps
         else minimum_price minimum first ps)"

definition minimumProviderPriceCents :: "(string \<times> float64) list \<Rightarrow> int" where
  "minimumProviderPriceCents prices = minimum_price 0 True prices"

definition mapService :: "sqlService \<Rightarrow> Service" where
  "mapService row = \<lparr> svc_ID = sv_ID row, svc_Code = sv_Code row, svc_Name = sv_Name row,
     svc_Description = sv_Description row, svc_Enabled = sv_Enabled row,
     svc_AllowedProviders = sv_AllowedProviders row,
     svc_ProviderPrices =
       map (\<lambda>(provider, price). (provider, from_cents price)) (effectiveProviderPricesCents row),
     svc_TTLSeconds = effectiveOrderTTLSeconds (sv_TTLSeconds row),
     svc_SenderDomains = sv_SenderDomains row, svc_SubjectKeywords = sv_SubjectKeywords row,
     svc_Regex = sv_Regex row \<rparr>"

subsection \<open>Mailboxes\<close>

text \<open>Offsets of slices are byte offsets; \<^verbatim>\<open>strings.Index\<close> finds the first occurrence.\<close>

definition compactStoredMailboxVerificationError :: "string \<Rightarrow> string" where
  "compactStoredMailboxVerificationError message =
     (if str_contains message ''AADSTS70000'' \<or> str_contains (to_lower message) ''invalid_grant'' then
        (case str_cut message msg_imap_marker of
           Some (_, after) \<Rightarrow>
             let imapDetail = trim_space after
             in if imapDetail = [] \<or> imapDetail = msg_missing_imap then msg_graph_invalid_no_password
                else msg_graph_invalid_imap_failed
                  @ (if length imapDetail > 180 then take 180 imapDetail else imapDetail)
         | None \<Rightarrow> msg_graph_invalid_grant)
      else if str_contains message ''AADSTS65001'' then msg_graph_no_consent
      else if length message > 240 then take 240 message
      else message)"

definition mapMailbox :: "sqlMailbox \<Rightarrow> (string \<times> MailboxService) list \<Rightarrow> Mailbox" where
  "mapMailbox row states = \<lparr> mbx_ID = m_ID row, mbx_Address = m_Address row,
     mbx_Provider = m_Provider row, mbx_Pool = m_Pool row, mbx_State = m_State row,
     mbx_HealthScore = m_HealthScore row, mbx_OAuthValidUntil = m_OAuthValidUntil row,
     mbx_ActiveOrderID = m_ActiveOrderID row, mbx_TodayCodes = m_TodayCodes row,
     mbx_LastReceivedAt = opt_time (m_LastReceivedAt row),
     mbx_ConnectionMethod = m_ConnectionMethod row,
     mbx_VerificationStatus = m_VerificationStatus row,
     mbx_LastVerifiedAt = opt_time (m_LastVerifiedAt row),
     mbx_VerificationError = compactStoredMailboxVerificationError (m_VerificationError row),
     mbx_RegisteredPlatforms = [], mbx_Services = states \<rparr>"

definition registeredPlatforms ::
  "(string \<times> MailboxService) list \<Rightarrow> sqlService list \<Rightarrow> string list" where
  "registeredPlatforms states services =
     map sv_Code (filter (\<lambda>service. case map_of states (sv_ID service) of
         Some state \<Rightarrow> mbs_State state = ServiceConsumed | None \<Rightarrow> False) services)"

subsection \<open>Orders\<close>

definition mapOrder :: "sqlOrder \<Rightarrow> Order" where
  "mapOrder row = \<lparr> ord_ID = o_ID row, ord_UserID = o_UserID row, ord_ServiceID = o_ServiceID row,
     ord_ServiceCode = o_ServiceCode row, ord_ServiceName = o_ServiceName row,
     ord_MailboxID = o_MailboxID row, ord_MailboxAddress = o_MailboxAddress row,
     ord_MailboxProvider = o_MailboxProvider row,
     ord_RequestedProviders = o_RequestedProviders row, ord_Status = o_Status row,
     ord_Code = o_Code row, ord_Price = from_cents (o_PriceCents row),
     ord_CreatedAt = o_CreatedAt row, ord_AssignedAt = opt_time (o_AssignedAt row),
     ord_SubmittedAt = opt_time (o_SubmittedAt row),
     ord_CodeReceivedAt = opt_time (o_CodeReceivedAt row),
     ord_CompletedAt = opt_time (o_CompletedAt row), ord_ExpiresAt = o_ExpiresAt row,
     ord_Refunded = o_Refunded row, ord_RequestID = o_RequestID row,
     ord_FailureReason = o_FailureReason row \<rparr>"

subsection \<open>Keys, payments and webhooks\<close>

definition mapAPIKey :: "sqlAPIKey \<Rightarrow> APIKey" where
  "mapAPIKey row = \<lparr> ak_ID = k_ID row, ak_Name = k_Name row, ak_Prefix = k_Prefix row,
     ak_Scopes = k_Scopes row, ak_LastUsedAt = k_LastUsedAt row, ak_ExpiresAt = k_ExpiresAt row,
     ak_RevokedAt = k_RevokedAt row, ak_CreatedAt = k_CreatedAt row \<rparr>"

definition mapPaymentProvider :: "sqlPaymentProvider \<Rightarrow> PaymentProvider" where
  "mapPaymentProvider row = \<lparr> pprov_ID = pp_ID row, pprov_Name = pp_Name row,
     pprov_Type = pp_Type row, pprov_Methods = pp_Methods row, pprov_Enabled = pp_Enabled row,
     pprov_Priority = pp_Priority row, pprov_CreatedAt = pp_CreatedAt row,
     pprov_UpdatedAt = pp_UpdatedAt row \<rparr>"

definition mapPaymentOrder :: "sqlPaymentOrder \<Rightarrow> PaymentOrder" where
  "mapPaymentOrder row = \<lparr> pord_ID = po_ID row, pord_UserID = po_UserID row,
     pord_ProviderID = po_ProviderID row, pord_ProviderName = po_ProviderName row,
     pord_Method = po_Method row, pord_Status = po_Status row,
     pord_Amount = from_cents (po_AmountCents row),
     pord_ProviderTradeNo = po_ProviderTradeNo row, pord_PayURL = po_PayURL row,
     pord_CreatedAt = po_CreatedAt row, pord_ExpiresAt = po_ExpiresAt row,
     pord_PaidAt = po_PaidAt row, pord_CompletedAt = po_CompletedAt row,
     pord_CanceledAt = po_CanceledAt row \<rparr>"

definition mapWebhookEndpoint :: "sqlWebhookEndpoint \<Rightarrow> WebhookEndpoint" where
  "mapWebhookEndpoint row = \<lparr> wep_ID = we_ID row, wep_URL = we_URL row, wep_Events = we_Events row,
     wep_Enabled = we_Enabled row, wep_CreatedAt = we_CreatedAt row,
     wep_UpdatedAt = we_UpdatedAt row \<rparr>"

definition mapWebhookDelivery :: "sqlWebhookDelivery \<Rightarrow> WebhookDelivery" where
  "mapWebhookDelivery row = \<lparr> wdl_ID = wd_ID row, wdl_EndpointID = wd_EndpointID row,
     wdl_OrderID = wd_OrderID row, wdl_Event = wd_Event row, wdl_Status = wd_Status row,
     wdl_Attempts = wd_Attempts row, wdl_ResponseCode = wd_ResponseCode row,
     wdl_LastError = wd_LastError row, wdl_NextRetryAt = wd_NextRetryAt row,
     wdl_DeliveredAt = wd_DeliveredAt row, wdl_CreatedAt = wd_CreatedAt row \<rparr>"

definition containsString :: "string list \<Rightarrow> string \<Rightarrow> bool" where
  "containsString items value \<longleftrightarrow> value \<in> set items"

definition containsFold :: "string list \<Rightarrow> string \<Rightarrow> bool" where
  "containsFold values target \<longleftrightarrow> (\<exists>value\<in>set values. equal_fold (trim_space value) target)"

subsection \<open>Cryptography\<close>

text \<open>
  What the store relies on: authenticated encryption of a configuration map (\<open>None\<close> on failure; the number
  stands for the random nonce), the hash of a token, and password hashing and checking.
\<close>

record crypto =
  cr_encrypt :: "nat \<Rightarrow> (string \<rightharpoonup> string) \<Rightarrow> string option"
  cr_decrypt :: "string \<Rightarrow> (string \<rightharpoonup> string) option"
  cr_hash_token :: "string \<Rightarrow> string"
  cr_bcrypt :: "nat \<Rightarrow> string \<Rightarrow> string option"
  cr_bcrypt_ok :: "string \<Rightarrow> string \<Rightarrow> bool"

subsection \<open>Facts about the price tables\<close>

lemma map_of_map_snd: "map_of (map (\<lambda>(k, v). (k, f v)) xs) k = map_option f (map_of xs k)"
  by (induction xs) auto

lemma map_of_effective_prices:
  "map_of (effective_prices acc base ps) k =
     (case map_of acc k of Some v \<Rightarrow> Some v | None \<Rightarrow> if k \<in> set ps then Some base else None)"
  by (induction ps arbitrary: acc) (auto simp: update_conv' split: option.splits)

lemma effectiveProviderPricesCents_lookup:
  "map_of (effectiveProviderPricesCents service) k =
     (case map_of (sv_ProviderPricesCents service) k of Some v \<Rightarrow> Some v
      | None \<Rightarrow> if k \<in> set (sv_AllowedProviders service) then Some (sv_PriceCents service) else None)"
  by (simp add: effectiveProviderPricesCents_def map_of_effective_prices)

lemma mapService_price:
  "map_of (svc_ProviderPrices (mapService row)) k =
     map_option from_cents (map_of (effectiveProviderPricesCents row) k)"
  by (simp add: mapService_def map_of_map_snd)

lemma minimum_price_False:
  "minimum_price m False ps = Min (insert m ((\<lambda>(_, p). cents p) ` set ps))"
proof (induction m False ps rule: minimum_price.induct)
  case (1 m)
  then show ?case by simp
next
  case (2 m uu price ps)
  show ?case
  proof (cases "cents price < m")
    case True
    then have "minimum_price m False ((uu, price) # ps) = Min (insert (cents price) ((\<lambda>(_, p). cents p) ` set ps))"
      using 2 by (simp add: Let_def)
    moreover have "Min (insert m (insert (cents price) S)) = Min (insert (cents price) S)" if "finite S" for S
      using that True by (cases "S = {}") (auto simp: min_def)
    ultimately show ?thesis by simp
  next
    case False
    then have "minimum_price m False ((uu, price) # ps) = Min (insert m ((\<lambda>(_, p). cents p) ` set ps))"
      using 2 by (simp add: Let_def)
    moreover have "Min (insert m (insert (cents price) S)) = Min (insert m S)" if "finite S" for S
      using that False by (cases "S = {}") (auto simp: min_def)
    ultimately show ?thesis by simp
  qed
qed

lemma minimumProviderPriceCents_Min:
  "prices \<noteq> [] \<Longrightarrow> minimumProviderPriceCents prices = Min ((\<lambda>(_, p). cents p) ` set prices)"
  by (cases prices) (auto simp: minimumProviderPriceCents_def Let_def minimum_price_False)

end
