(* ===== verification/Webhooks.thy ===== *)
theory Webhooks
  imports Rows
begin

text \<open>
  Webhooks: the endpoints and the delivery queue of \<^verbatim>\<open>internal/store/postgres_webhooks.go\<close> and the
  delivery worker of \<^verbatim>\<open>internal/webhook/worker.go\<close>.  A delivery goes from \<^verbatim>\<open>pending\<close> or
  \<^verbatim>\<open>retrying\<close> to \<^verbatim>\<open>processing\<close> when a worker claims it and from there to \<^verbatim>\<open>delivered\<close>,
  \<^verbatim>\<open>retrying\<close> or \<^verbatim>\<open>failed\<close>.

  Cryptography, URL parsing, the resolver and the HTTP client are arguments (records \<open>crypto\<close> of theory
  Rows and \<open>net_env\<close>).  The JSON encoding of a payload cannot fail on the values it gets.
\<close>

subsection \<open>Enqueueing deliveries\<close>

definition webhook_wanted :: "string \<Rightarrow> sqlWebhookEndpoint \<Rightarrow> bool" where
  "webhook_wanted event endpoint \<longleftrightarrow>
     containsString (we_Events endpoint) event \<or> containsString (we_Events endpoint) ''*''"

definition new_delivery :: "env \<Rightarrow> nat \<Rightarrow> sqlOrder \<Rightarrow> string \<Rightarrow> sqlWebhookEndpoint \<Rightarrow> sqlWebhookDelivery" where
  "new_delivery env n order event endpoint =
     \<lparr> wd_ID = uuid env n, wd_EndpointID = we_ID endpoint, wd_OrderID = o_ID order,
       wd_Event = event, wd_Status = ''pending'', wd_Attempts = 0,
       wd_Payload = \<lparr> wp_id = uuid env n, wp_event = event, wp_created_at = clock env n,
                      wp_order = mapOrder order \<rparr>,
       wd_ResponseCode = 0, wd_LastError = [], wd_NextRetryAt = clock env (Suc n),
       wd_DeliveredAt = None, wd_CreatedAt = zero_time \<rparr>"

text \<open>The i-th endpoint uses the identifier, the clock readings and the statement of its round.\<close>

definition enqueueOrderWebhook :: "env \<Rightarrow> nat \<Rightarrow> sqlOrder \<Rightarrow> string \<Rightarrow> unit stx" where
  "enqueueOrderWebhook env n order event =
     tx_bind (tx_read env n
       (\<lambda>db. filter (\<lambda>e. we_UserID e = o_UserID order \<and> we_Enabled e) (db_endpoints db)))
     (\<lambda>endpoints. tx_each (\<lambda>(i, endpoint).
        if \<not> webhook_wanted event endpoint then tx_return ()
        else create_delivery env (n + 1 + 2 * i) (new_delivery env (n + 1 + 2 * i) order event endpoint))
       (index_from 0 endpoints))"

subsection \<open>Endpoints\<close>

text \<open>\<open>parse_url\<close> gives scheme and host; \<open>None\<close> is a parse error.\<close>

definition CreateWebhookEndpoint ::
  "crypto \<Rightarrow> (string \<Rightarrow> (string \<times> string) option) \<Rightarrow> env \<Rightarrow> string \<Rightarrow> string \<Rightarrow> string list
   \<Rightarrow> (WebhookEndpoint \<times> string) stx" where
  "CreateWebhookEndpoint cr parse_url env userID endpointURL events0 =
     (case parse_url endpointURL of
        None \<Rightarrow> tx_fail ErrWebhookURL
      | Some (scheme, host) \<Rightarrow>
        if (scheme \<noteq> ''https'' \<and> scheme \<noteq> ''http'') \<or> host = [] then tx_fail ErrWebhookURL
        else let events = (if events0 = [] then [''order.code_received'', ''order.completed'',
                             ''order.canceled'', ''order.expired_refunded''] else events0)
          in case random env 0 of
             None \<Rightarrow> tx_fail ErrRandom
           | Some r \<Rightarrow>
             let secret = ''whsec_'' @ r
             in case cr_encrypt cr 0 [''secret'' \<mapsto> secret] of
                None \<Rightarrow> tx_fail ErrEncrypt
              | Some encrypted \<Rightarrow>
                let row = \<lparr> we_ID = uuid env 0, we_UserID = userID, we_URL = endpointURL,
                            we_Events = events, we_Enabled = True, we_EncryptedSecret = encrypted,
                            we_CreatedAt = stamp env 0, we_UpdatedAt = stamp env 0 \<rparr>
                in tx_then (create_endpoint env 0 row)
                     (tx_return (mapWebhookEndpoint row, secret)))"

definition DeleteWebhookEndpoint :: "env \<Rightarrow> string \<Rightarrow> string \<Rightarrow> unit stx" where
  "DeleteWebhookEndpoint env userID endpointID =
     (let P = (\<lambda>e. we_ID e = endpointID \<and> we_UserID e = userID)
      in tx_bind (tx_read env 0 (\<lambda>db. count_rows P (db_endpoints db)))
         (\<lambda>affected. tx_then (tx_put (\<lambda>db. db\<lparr>db_endpoints := del_rows P (db_endpoints db)\<rparr>))
            (tx_guard (affected \<noteq> 0) ErrWebhookEndpointNotFound)))"

subsection \<open>The delivery queue\<close>

record WebhookJob =
  job_Delivery :: WebhookDelivery
  job_URL :: string
  job_Secret :: string
  job_Payload :: webhook_payload

definition update_delivery ::
  "string \<Rightarrow> (sqlWebhookDelivery \<Rightarrow> sqlWebhookDelivery) \<Rightarrow> db \<Rightarrow> db" where
  "update_delivery did f db = db\<lparr>db_deliveries := upd_rows (\<lambda>d. wd_ID d = did) f (db_deliveries db)\<rparr>"

definition claim_limit :: "int \<Rightarrow> nat" where
  "claim_limit limit = nat (if limit < 1 \<or> limit > 100 then 20 else limit)"

definition claimable :: "time \<Rightarrow> sqlWebhookDelivery \<Rightarrow> bool" where
  "claimable now d \<longleftrightarrow>
     (wd_Status d = ''pending'' \<or> wd_Status d = ''retrying'') \<and> wd_NextRetryAt d \<le> now"

text \<open>One round of the claim loop: \<open>None\<close> when the endpoint is gone and the delivery is given up.  The
  update that gives up a delivery has its error ignored.\<close>

definition claim_one :: "crypto \<Rightarrow> env \<Rightarrow> nat \<Rightarrow> sqlWebhookDelivery \<Rightarrow> WebhookJob option stx" where
  "claim_one cr env n delivery =
     tx_bind (tx_query env n (\<lambda>db. row_find
        (\<lambda>e. we_ID e = wd_EndpointID delivery \<and> we_Enabled e) (db_endpoints db)))
     (\<lambda>r. case r of
        None \<Rightarrow> tx_then (tx_put (\<lambda>db. if db_fail env (n + 1) then db
                 else update_delivery (wd_ID delivery)
                   (\<lambda>d. d\<lparr>wd_Status := ''failed'', wd_LastError := msg_endpoint_gone\<rparr>) db))
               (tx_return None)
      | Some endpoint \<Rightarrow>
        (case cr_decrypt cr (we_EncryptedSecret endpoint) of
           None \<Rightarrow> tx_fail ErrDecrypt
         | Some secretConfig \<Rightarrow>
           let delivery' = delivery\<lparr>wd_Status := ''processing'', wd_Attempts := wd_Attempts delivery + 1\<rparr>
           in tx_then (tx_update env (n + 2) (update_delivery (wd_ID delivery) (\<lambda>_. delivery')))
                (tx_return (Some \<lparr> job_Delivery = mapWebhookDelivery delivery',
                   job_URL = we_URL endpoint, job_Secret = get_or_empty secretConfig ''secret'',
                   job_Payload = wd_Payload delivery' \<rparr>))))"

fun claim_each :: "crypto \<Rightarrow> env \<Rightarrow> nat \<Rightarrow> sqlWebhookDelivery list \<Rightarrow> WebhookJob list stx" where
  "claim_each cr env n [] = tx_return []"
| "claim_each cr env n (d # ds) =
     tx_bind (claim_one cr env n d) (\<lambda>r. tx_bind (claim_each cr env (n + 3) ds)
       (\<lambda>jobs. tx_return (case r of None \<Rightarrow> jobs | Some job \<Rightarrow> job # jobs)))"

definition ClaimWebhookJobs :: "crypto \<Rightarrow> env \<Rightarrow> int \<Rightarrow> WebhookJob list stx" where
  "ClaimWebhookJobs cr env limit =
     tx_bind (tx_read env 0 (\<lambda>db. take (claim_limit limit)
        (sort_key wd_NextRetryAt (filter (claimable (clock env 0)) (db_deliveries db)))))
     (\<lambda>deliveries. claim_each cr env 1 deliveries)"

definition CompleteWebhookJob :: "env \<Rightarrow> string \<Rightarrow> int \<Rightarrow> unit stx" where
  "CompleteWebhookJob env deliveryID responseCode =
     tx_update env 0 (update_delivery deliveryID (\<lambda>d. d\<lparr>wd_Status := ''delivered'',
       wd_ResponseCode := responseCode, wd_LastError := [], wd_DeliveredAt := Some (clock env 0)\<rparr>))"

definition retry_delays :: "time list" where
  "retry_delays = [minute, 5 * minute, 30 * minute, 2 * hour, 12 * hour]"

definition fail_outcome :: "int \<Rightarrow> string \<times> time" where
  "fail_outcome attempts =
     (let status = (if attempts \<ge> int (length retry_delays) then ''failed'' else ''retrying'');
          delayIndex = attempts - 1;
          delayIndex = (if delayIndex < 0 then 0 else delayIndex);
          delayIndex = (if delayIndex \<ge> int (length retry_delays) then int (length retry_delays) - 1
                        else delayIndex)
      in (status, retry_delays ! nat delayIndex))"

definition FailWebhookJob :: "env \<Rightarrow> string \<Rightarrow> int \<Rightarrow> string \<Rightarrow> unit stx" where
  "FailWebhookJob env deliveryID responseCode message =
     tx_bind (tx_one env 0
        (\<lambda>db. row_find (\<lambda>d. wd_ID d = deliveryID) (db_deliveries db)))
     (\<lambda>row. case fail_outcome (wd_Attempts row) of (status, delay) \<Rightarrow>
        tx_update env 1 (update_delivery deliveryID (\<lambda>d. d\<lparr>wd_Status := status,
          wd_ResponseCode := responseCode, wd_LastError := message,
          wd_NextRetryAt := clock env 0 + delay\<rparr>)))"

definition owned_delivery :: "db \<Rightarrow> string \<Rightarrow> sqlWebhookDelivery \<Rightarrow> bool" where
  "owned_delivery db userID d \<longleftrightarrow>
     (\<exists>e\<in>set (db_endpoints db). we_ID e = wd_EndpointID d \<and> we_UserID e = userID)"

definition RetryWebhookJob :: "env \<Rightarrow> string \<Rightarrow> string \<Rightarrow> unit stx" where
  "RetryWebhookJob env userID deliveryID =
     tx_bind (tx_read env 0 (\<lambda>db. count_rows
        (\<lambda>d. wd_ID d = deliveryID \<and> owned_delivery db userID d) (db_deliveries db)))
     (\<lambda>affected. tx_then
        (tx_put (\<lambda>db. db\<lparr>db_deliveries := upd_rows
           (\<lambda>d. wd_ID d = deliveryID \<and> owned_delivery db userID d)
           (\<lambda>d. d\<lparr>wd_Status := ''retrying'', wd_NextRetryAt := clock env 0, wd_LastError := []\<rparr>)
           (db_deliveries db)\<rparr>))
        (tx_guard (affected \<noteq> 0) ErrWebhookDeliveryNotFound))"

subsection \<open>Addresses the worker may dial\<close>

text \<open>A \<^verbatim>\<open>net.IP\<close> is its bytes; \<^verbatim>\<open>To4\<close> also recognises the IPv4-mapped IPv6 form.\<close>

type_synonym ip = "nat list"

definition ip_to4 :: "ip \<Rightarrow> ip option" where
  "ip_to4 ip = (if length ip = 4 then Some ip
     else if length ip = 16 \<and> take 12 ip = replicate 10 0 @ [255, 255] then Some (drop 12 ip)
     else None)"

definition ip_is_loopback :: "ip \<Rightarrow> bool" where
  "ip_is_loopback ip = (case ip_to4 ip of Some v4 \<Rightarrow> v4 ! 0 = 127
     | None \<Rightarrow> ip = replicate 15 0 @ [1])"

definition ip_is_private_range :: "ip \<Rightarrow> bool" where
  "ip_is_private_range ip = (case ip_to4 ip of
       Some v4 \<Rightarrow> v4 ! 0 = 10 \<or> (v4 ! 0 = 172 \<and> v4 ! 1 div 16 = 1) \<or> (v4 ! 0 = 192 \<and> v4 ! 1 = 168)
     | None \<Rightarrow> length ip = 16 \<and> ip ! 0 div 2 = 126)"

definition ip_is_link_local_unicast :: "ip \<Rightarrow> bool" where
  "ip_is_link_local_unicast ip = (case ip_to4 ip of
       Some v4 \<Rightarrow> v4 ! 0 = 169 \<and> v4 ! 1 = 254
     | None \<Rightarrow> length ip = 16 \<and> ip ! 0 = 254 \<and> ip ! 1 div 64 = 2)"

definition ip_is_link_local_multicast :: "ip \<Rightarrow> bool" where
  "ip_is_link_local_multicast ip = (case ip_to4 ip of
       Some v4 \<Rightarrow> v4 ! 0 = 224 \<and> v4 ! 1 = 0 \<and> v4 ! 2 = 0
     | None \<Rightarrow> length ip = 16 \<and> ip ! 0 = 255 \<and> ip ! 1 mod 16 = 2)"

definition ip_is_unspecified :: "ip \<Rightarrow> bool" where
  "ip_is_unspecified ip = (case ip_to4 ip of Some v4 \<Rightarrow> v4 = [0, 0, 0, 0]
     | None \<Rightarrow> ip = replicate 16 0)"

text \<open>The text of an address starts with \<^verbatim>\<open>169.254.\<close> exactly when its IPv4 form does.\<close>

definition ip_string_169_254 :: "ip \<Rightarrow> bool" where
  "ip_string_169_254 ip = (case ip_to4 ip of Some v4 \<Rightarrow> v4 ! 0 = 169 \<and> v4 ! 1 = 254 | None \<Rightarrow> False)"

definition isPrivate :: "ip \<Rightarrow> bool" where
  "isPrivate ip \<longleftrightarrow> ip_is_loopback ip \<or> ip_is_private_range ip \<or> ip_is_link_local_unicast ip
     \<or> ip_is_link_local_multicast ip \<or> ip_is_unspecified ip \<or> ip_string_169_254 ip"

datatype dial_error = SplitHostPortError | ResolveError string | PrivateAddress string

text \<open>The resolver is an argument; the result is the address and port the dialer is given.\<close>

definition safeDialContext ::
  "bool \<Rightarrow> (string \<Rightarrow> (string \<times> string) option) \<Rightarrow> (string \<Rightarrow> ip list option) \<Rightarrow> string
   \<Rightarrow> dial_error + (ip \<times> string)" where
  "safeDialContext allowPrivate split_host_port lookup address =
     (case split_host_port address of
        None \<Rightarrow> Inl SplitHostPortError
      | Some (host, port) \<Rightarrow>
        (case lookup host of
           None \<Rightarrow> Inl (ResolveError host)
         | Some addresses \<Rightarrow>
           if addresses = [] then Inl (ResolveError host)
           else if \<exists>ip\<in>set addresses. \<not> allowPrivate \<and> isPrivate ip then Inl (PrivateAddress host)
           else Inr (hd addresses, port)))"

subsection \<open>The delivery worker\<close>

record http_request =
  rq_url :: string
  rq_event :: string
  rq_delivery :: string
  rq_signature :: string
  rq_body :: webhook_payload

text \<open>What the worker relies on: the keyed hash over timestamp and body, the construction of a request
  (an error text when the URL is malformed) and the client (an error text or a status code).\<close>

record net_env =
  ne_mac :: "string \<Rightarrow> string \<Rightarrow> webhook_payload \<Rightarrow> string"
  ne_new_request :: "string \<Rightarrow> string option"
  ne_do :: "http_request \<Rightarrow> string + int"

definition webhook_request :: "net_env \<Rightarrow> time \<Rightarrow> WebhookJob \<Rightarrow> http_request" where
  "webhook_request ne now job =
     (let timestamp = int_digits (now div second);
          signature = ''t='' @ timestamp @ '',v1=''
            @ ne_mac ne (job_Secret job) (timestamp @ ''.'') (job_Payload job)
      in \<lparr> rq_url = job_URL job, rq_event = wdl_Event (job_Delivery job),
           rq_delivery = wdl_ID (job_Delivery job), rq_signature = signature,
           rq_body = job_Payload job \<rparr>)"

definition deliver_job :: "net_env \<Rightarrow> env \<Rightarrow> WebhookJob \<Rightarrow> db \<Rightarrow> http_request list \<times> db" where
  "deliver_job ne env job db =
     (let did = wdl_ID (job_Delivery job);
          fail = (\<lambda>code msg. snd (run_tx (FailWebhookJob env did code msg) db))
      in case ne_new_request ne (job_URL job) of
           Some err \<Rightarrow> ([], fail 0 err)
         | None \<Rightarrow>
           let request = webhook_request ne (clock env 1) job
           in (case ne_do ne request of
                 Inl err \<Rightarrow> ([request], fail 0 err)
               | Inr code \<Rightarrow>
                 if 200 \<le> code \<and> code < 300
                 then ([request], snd (run_tx (CompleteWebhookJob env did code) db))
                 else ([request], fail code (msg_webhook_http @ int_digits code))))"

fun deliver_jobs ::
  "net_env \<Rightarrow> (nat \<Rightarrow> env) \<Rightarrow> nat \<Rightarrow> WebhookJob list \<Rightarrow> db \<Rightarrow> http_request list \<times> db" where
  "deliver_jobs ne envs n [] db = ([], db)"
| "deliver_jobs ne envs n (job # jobs) db =
     (case deliver_job ne (envs n) job db of (sent, db1) \<Rightarrow>
       case deliver_jobs ne envs (Suc n) jobs db1 of (sents, db2) \<Rightarrow> (sent @ sents, db2))"

definition deliver :: "crypto \<Rightarrow> net_env \<Rightarrow> (nat \<Rightarrow> env) \<Rightarrow> db \<Rightarrow> http_request list \<times> db" where
  "deliver cr ne envs db =
     (case run_tx (ClaimWebhookJobs cr (envs 0) 20) db of
        (Inl _, db1) \<Rightarrow> ([], db1)
      | (Inr jobs, db1) \<Rightarrow> deliver_jobs ne envs 1 jobs db1)"


subsection \<open>Enqueueing changes nothing but the delivery table\<close>

lemma enqueue_frame:
  "tx_ok (enqueueOrderWebhook env n order event) db
     (\<lambda>_ db'. \<exists>ds. db' = db\<lparr>db_deliveries := db_deliveries db @ ds\<rparr>
        \<and> (\<forall>d\<in>set ds. wd_Status d = ''pending'' \<and> wd_OrderID d = o_ID order \<and> wd_Event d = event
             \<and> (\<exists>e\<in>set (db_endpoints db). we_ID e = wd_EndpointID d \<and> we_UserID e = o_UserID order)))"
  (is "tx_ok _ _ (\<lambda>_ db'. ?I db')")
proof -
  let ?es = "filter (\<lambda>e. we_UserID e = o_UserID order \<and> we_Enabled e) (db_endpoints db)"
  let ?step = "\<lambda>(i, endpoint). if \<not> webhook_wanted event endpoint then tx_return ()
        else create_delivery env (n + 1 + 2 * i) (new_delivery env (n + 1 + 2 * i) order event endpoint)"
  have step: "tx_ok (?step x) db1 (\<lambda>_ db'. ?I db')"
    if x: "x \<in> set (index_from 0 ?es)" and I: "?I db1" for x db1
  proof -
    obtain i e where xe: "x = (i, e)" by (cases x)
    have e: "e \<in> set ?es" using x xe in_index_from by metis
    obtain ds where ds: "db1 = db\<lparr>db_deliveries := db_deliveries db @ ds\<rparr>"
      "\<forall>d\<in>set ds. wd_Status d = ''pending'' \<and> wd_OrderID d = o_ID order \<and> wd_Event d = event
             \<and> (\<exists>e\<in>set (db_endpoints db). we_ID e = wd_EndpointID d \<and> we_UserID e = o_UserID order)"
      using I by auto
    let ?new = "(new_delivery env (n + 1 + 2 * i) order event e)\<lparr>wd_CreatedAt := stamp env (n + 1 + 2 * i)\<rparr>"
    have "?I (db1\<lparr>db_deliveries := db_deliveries db1 @ [?new]\<rparr>)"
      by (rule exI [of _ "ds @ [?new]"]) (use ds e in \<open>auto simp: new_delivery_def\<close>)
    then show ?thesis
      using I unfolding xe by (simp add: tx_simps create_delivery_def)
  qed
  have "tx_ok (tx_each ?step (index_from 0 ?es)) db (\<lambda>_ db'. ?I db')"
    by (rule tx_ok_each [where I = ?I]) (use step in \<open>auto intro: exI [of _ "[]"]\<close>)
  then show ?thesis
    by (simp add: enqueueOrderWebhook_def tx_simps)
qed

lemma enqueue_deliveries_only:
  "tx_ok (enqueueOrderWebhook env n order event) db
     (\<lambda>_ db'. \<exists>ds. db' = db\<lparr>db_deliveries := db_deliveries db @ ds\<rparr>)"
  by (rule tx_ok_weaken [OF enqueue_frame]) blast

text \<open>A postcondition that does not look at the deliveries survives the enqueueing.\<close>

lemma tx_ok_enqueue:
  assumes "\<And>ds. Q () (db\<lparr>db_deliveries := db_deliveries db @ ds\<rparr>)"
  shows "tx_ok (enqueueOrderWebhook env n order event) db Q"
  by (rule tx_ok_weaken [OF enqueue_deliveries_only]) (use assms in auto)

subsection \<open>Claiming\<close>

abbreviation job_id :: "WebhookJob \<Rightarrow> string" where
  "job_id job \<equiv> wdl_ID (job_Delivery job)"

lemma claim_one_spec:
  "tx_ok (claim_one cr env n d) db (\<lambda>r db'.
     map wd_ID (db_deliveries db') = map wd_ID (db_deliveries db)
     \<and> (\<forall>x\<in>set (db_deliveries db'). wd_ID x \<noteq> wd_ID d \<longrightarrow> x \<in> set (db_deliveries db))
     \<and> (\<forall>job. r = Some job \<longrightarrow> job_id job = wd_ID d
          \<and> (\<forall>x\<in>set (db_deliveries db'). wd_ID x = wd_ID d \<longrightarrow> wd_Status x = ''processing'')))"
  by (auto simp: claim_one_def tx_simps Let_def update_delivery_def upd_rows_def
      mapWebhookDelivery_def split: option.splits)

lemma claim_each_spec:
  "distinct (map wd_ID ds) \<Longrightarrow> tx_ok (claim_each cr env n ds) db (\<lambda>jobs db'.
     map wd_ID (db_deliveries db') = map wd_ID (db_deliveries db)
     \<and> (\<forall>x\<in>set (db_deliveries db'). wd_ID x \<notin> wd_ID ` set ds \<longrightarrow> x \<in> set (db_deliveries db))
     \<and> distinct (map job_id jobs) \<and> job_id ` set jobs \<subseteq> wd_ID ` set ds
     \<and> (\<forall>job\<in>set jobs. \<forall>x\<in>set (db_deliveries db'). wd_ID x = job_id job \<longrightarrow> wd_Status x = ''processing''))"
proof (induction ds arbitrary: n db)
  case Nil
  then show ?case by (simp add: tx_simps)
next
  case (Cons d ds)
  have dist: "distinct (map wd_ID ds)" and d: "wd_ID d \<notin> wd_ID ` set ds"
    using Cons.prems by auto
  show ?case
    unfolding claim_each.simps tx_ok_bind tx_ok_return
  proof (rule tx_ok_weaken [OF claim_one_spec], rule tx_ok_weaken [OF Cons.IH [OF dist]], elim conjE)
    fix r db1 jobs db2
    assume A1: "map wd_ID (db_deliveries db1) = map wd_ID (db_deliveries db)"
      and A2: "\<forall>x\<in>set (db_deliveries db1). wd_ID x \<noteq> wd_ID d \<longrightarrow> x \<in> set (db_deliveries db)"
      and A3: "\<forall>job. r = Some job \<longrightarrow> job_id job = wd_ID d
          \<and> (\<forall>x\<in>set (db_deliveries db1). wd_ID x = wd_ID d \<longrightarrow> wd_Status x = ''processing'')"
      and B1: "map wd_ID (db_deliveries db2) = map wd_ID (db_deliveries db1)"
      and B2: "\<forall>x\<in>set (db_deliveries db2). wd_ID x \<notin> wd_ID ` set ds \<longrightarrow> x \<in> set (db_deliveries db1)"
      and B3: "distinct (map job_id jobs)" "job_id ` set jobs \<subseteq> wd_ID ` set ds"
      and B4: "\<forall>job\<in>set jobs. \<forall>x\<in>set (db_deliveries db2). wd_ID x = job_id job \<longrightarrow> wd_Status x = ''processing''"
    let ?all = "case r of None \<Rightarrow> jobs | Some job \<Rightarrow> job # jobs"
    have "\<forall>x\<in>set (db_deliveries db2). wd_ID x \<notin> wd_ID ` set (d # ds) \<longrightarrow> x \<in> set (db_deliveries db)"
      using A2 B2 by auto
    moreover have "distinct (map job_id ?all)" and "job_id ` set ?all \<subseteq> wd_ID ` set (d # ds)"
      using A3 B3 d by (auto split: option.split)
    moreover have "\<forall>job\<in>set ?all. \<forall>x\<in>set (db_deliveries db2).
        wd_ID x = job_id job \<longrightarrow> wd_Status x = ''processing''"
      using A3 B2 B4 d by (auto split: option.splits)
    ultimately show "map wd_ID (db_deliveries db2) = map wd_ID (db_deliveries db)
      \<and> (\<forall>x\<in>set (db_deliveries db2). wd_ID x \<notin> wd_ID ` set (d # ds) \<longrightarrow> x \<in> set (db_deliveries db))
      \<and> distinct (map job_id ?all) \<and> job_id ` set ?all \<subseteq> wd_ID ` set (d # ds)
      \<and> (\<forall>job\<in>set ?all. \<forall>x\<in>set (db_deliveries db2).
           wd_ID x = job_id job \<longrightarrow> wd_Status x = ''processing'')"
      using A1 B1 by simp
  qed
qed

text \<open>A delivery is handed to one worker only: what a claim returns has pairwise distinct deliveries,
  each of them marked as being processed, and a later claim returns none of them, whatever the
  clocks say, until their outcome has been recorded.\<close>

theorem claim_exclusive:
  assumes "distinct (map wd_ID (db_deliveries db))"
    and "run_tx (ClaimWebhookJobs cr env1 l1) db = (Inr jobs1, db1)"
    and "run_tx (ClaimWebhookJobs cr env2 l2) db1 = (Inr jobs2, db2)"
  shows "distinct (map job_id jobs1) \<and> job_id ` set jobs1 \<inter> job_id ` set jobs2 = {}
    \<and> (\<forall>d\<in>set (db_deliveries db1). wd_ID d \<in> job_id ` set jobs1 \<longrightarrow> wd_Status d = ''processing'')"
proof -
  let ?pick = "\<lambda>env l db. take (claim_limit l)
    (sort_key wd_NextRetryAt (filter (claimable (clock env 0)) (db_deliveries db)))"
  have dist: "distinct (map wd_ID (?pick env l db))"
    if "distinct (map wd_ID (db_deliveries db))" for env l db
  proof -
    have "distinct (map wd_ID (sort_key wd_NextRetryAt (filter (claimable (clock env 0)) (db_deliveries db))))"
      using that by (simp add: distinct_map inj_on_def)
    then show ?thesis by (simp add: take_map [symmetric] del: take_map)
  qed
  have c1: "claim_each cr env1 1 (?pick env1 l1 db) db = Inr (jobs1, db1)"
    using assms(2) by (auto simp: run_tx_ok ClaimWebhookJobs_def tx_bind_def stmt_defs tx_defs
        split: if_splits)
  have c2: "claim_each cr env2 1 (?pick env2 l2 db1) db1 = Inr (jobs2, db2)"
    using assms(3) by (auto simp: run_tx_ok ClaimWebhookJobs_def tx_bind_def stmt_defs tx_defs
        split: if_splits)
  note s1 = tx_okD [OF claim_each_spec [OF dist [OF assms(1)]] c1]
  have d1: "distinct (map wd_ID (db_deliveries db1))"
    using s1 assms(1) by simp
  note s2 = tx_okD [OF claim_each_spec [OF dist [OF d1]] c2]
  have "job \<notin> job_id ` set jobs2" if "job \<in> job_id ` set jobs1" for job
  proof
    assume "job \<in> job_id ` set jobs2"
    then have "job \<in> wd_ID ` set (?pick env2 l2 db1)" using s2 by auto
    then obtain x where x: "x \<in> set (?pick env2 l2 db1)" "wd_ID x = job" by auto
    then have "x \<in> set (db_deliveries db1)" and "claimable (clock env2 0) x"
      by (auto dest!: in_set_takeD)
    moreover have "wd_Status x = ''processing''"
      using s1 that x(2) \<open>x \<in> set (db_deliveries db1)\<close> by force
    ultimately show False by (simp add: claimable_def)
  qed
  then show ?thesis using s1 by blast
qed


lemma claim_exclusive_witness:
  "\<exists>jobs1 jobs2. job_id ` set jobs1 \<inter> job_id ` set jobs2 = {} \<and> jobs1 = []"
proof -
  have r: "run_tx (ClaimWebhookJobs cr (quiet_env 0) 20) empty_db = (Inr [], empty_db)" for cr
    by (simp add: run_tx_def ClaimWebhookJobs_def stmt_defs tx_defs empty_db_def)
  show ?thesis using claim_exclusive [OF _ r r] by (auto simp: empty_db_def)
qed

subsection \<open>Recording an outcome\<close>

lemma fail_outcome_cases:
  "fail_outcome a = (if a \<ge> 5 then (''failed'', 12 * hour) else (''retrying'',
     if a \<le> 1 then minute else if a = 2 then 5 * minute else if a = 3 then 30 * minute else 2 * hour))"
proof -
  consider "a \<le> 0" | "a = 1" | "a = 2" | "a = 3" | "a = 4" | "a \<ge> 5" by linarith
  then show ?thesis
    by cases (simp_all add: fail_outcome_def retry_delays_def Let_def)
qed

text \<open>A failed delivery is retried after one, five, thirty and a hundred and twenty minutes, and
  the fifth failed attempt is the last: it ends in \<^verbatim>\<open>failed\<close>.  No retry is ever scheduled more than
  two hours ahead, although the source lists a delay of twelve hours.\<close>

theorem fail_schedule:
  assumes "run_tx (FailWebhookJob env did code message) db = (Inr (), db')"
    and "d \<in> set (db_deliveries db)" and "wd_ID d = did" and "distinct (map wd_ID (db_deliveries db))"
  shows "\<exists>d'. row_find (\<lambda>x. wd_ID x = did) (db_deliveries db') = Some d'
    \<and> wd_Attempts d' = wd_Attempts d \<and> wd_LastError d' = message \<and> wd_ResponseCode d' = code
    \<and> (if wd_Attempts d \<ge> 5 then wd_Status d' = ''failed''
       else wd_Status d' = ''retrying''
         \<and> wd_NextRetryAt d' = clock env 0 + (if wd_Attempts d \<le> 1 then minute
             else if wd_Attempts d = 2 then 5 * minute else if wd_Attempts d = 3 then 30 * minute
             else 2 * hour)
         \<and> wd_NextRetryAt d' \<le> clock env 0 + 2 * hour)"
proof -
  have f: "row_find (\<lambda>x. wd_ID x = did) (db_deliveries db) = Some d"
    using row_find_key [OF assms(4,2)] assms(3) by simp
  let ?upd = "\<lambda>x. x\<lparr>wd_Status := fst (fail_outcome (wd_Attempts d)), wd_ResponseCode := code,
      wd_LastError := message, wd_NextRetryAt := clock env 0 + snd (fail_outcome (wd_Attempts d))\<rparr>"
  have db': "db_deliveries db' = upd_rows (\<lambda>x. wd_ID x = did) ?upd (db_deliveries db)"
    using assms(1) f by (auto simp: run_tx_ok FailWebhookJob_def stmt_defs tx_defs update_delivery_def
        split: if_splits prod.splits)
  have "?upd d \<in> set (db_deliveries db')"
    using assms(2,3) by (auto simp: db' set_upd_rows)
  moreover have "distinct (map wd_ID (db_deliveries db'))"
    unfolding db' by (subst map_key_upd_rows) (simp_all add: assms(4))
  moreover have "wd_ID (?upd d) = did" using assms(3) by simp
  ultimately have "row_find (\<lambda>x. wd_ID x = did) (db_deliveries db') = Some (?upd d)"
    using row_find_key by metis
  then show ?thesis
    by (simp add: fail_outcome_cases) (simp add: minute_def hour_def second_def)
qed

lemma fail_schedule_witness:
  "\<exists>d (db' :: db). wd_Status d = ''failed'' \<and> row_find (\<lambda>x. wd_ID x = ''d1'') (db_deliveries db') = Some d"
proof -
  fix p
  let ?d = "\<lparr> wd_ID = ''d1'', wd_EndpointID = ''e'', wd_OrderID = ''o'', wd_Event = ''x'',
     wd_Status = ''processing'', wd_Attempts = 5, wd_Payload = p, wd_ResponseCode = 0, wd_LastError = [],
     wd_NextRetryAt = 0, wd_DeliveredAt = None, wd_CreatedAt = 0 \<rparr>"
  let ?db = "empty_db\<lparr>db_deliveries := [?d]\<rparr>"
  obtain db' where r: "run_tx (FailWebhookJob (quiet_env 0) ''d1'' 500 ''m'') ?db = (Inr (), db')"
    by (simp add: run_tx_def FailWebhookJob_def stmt_defs tx_defs row_find_def fail_outcome_cases)
  show ?thesis using fail_schedule [OF r, of ?d] by simp blast
qed

subsection \<open>Tenants\<close>

text \<open>A user can only requeue the deliveries of their own endpoints: any other delivery is left as it
  is, and the call succeeds exactly when the delivery exists and belongs to the user.\<close>

theorem retry_own_deliveries_only:
  "case run_tx (RetryWebhookJob env userID did) db of (r, db') \<Rightarrow>
     (\<forall>d\<in>set (db_deliveries db). \<not> owned_delivery db userID d \<longrightarrow> d \<in> set (db_deliveries db'))
     \<and> (\<not> db_fail env 0 \<longrightarrow>
          (r = Inr () \<longleftrightarrow> (\<exists>d\<in>set (db_deliveries db). wd_ID d = did \<and> owned_delivery db userID d)))"
  by (auto simp: run_tx_def RetryWebhookJob_def stmt_defs tx_defs set_upd_rows count_rows_pos
      split: if_splits)

lemma retry_own_deliveries_only_witness:
  "fst (run_tx (RetryWebhookJob (quiet_env 0) ''u'' ''d'') empty_db) \<noteq> Inr ()"
  using retry_own_deliveries_only [where db = empty_db and env = "quiet_env 0"
      and userID = "''u''" and did = "''d''"]
  by (simp add: split_def empty_db_def)

subsection \<open>Dialing\<close>

lemma isPrivate_v4:
  "b < 256 \<Longrightarrow> isPrivate [a, b, c, d] \<longleftrightarrow> a = 127 \<or> a = 10 \<or> (a = 172 \<and> 16 \<le> b \<and> b \<le> 31)
     \<or> (a = 192 \<and> b = 168) \<or> (a = 169 \<and> b = 254) \<or> (a = 224 \<and> b = 0 \<and> c = 0)
     \<or> (a = 0 \<and> b = 0 \<and> c = 0 \<and> d = 0)"
  by (auto simp: isPrivate_def ip_is_loopback_def ip_is_private_range_def ip_is_link_local_unicast_def
      ip_is_link_local_multicast_def ip_is_unspecified_def ip_string_169_254_def ip_to4_def)

lemma isPrivate_mapped: "isPrivate (replicate 10 0 @ [255, 255, a, b, c, d]) \<longleftrightarrow> isPrivate [a, b, c, d]"
  by (simp add: isPrivate_def ip_is_loopback_def ip_is_private_range_def ip_is_link_local_unicast_def
      ip_is_link_local_multicast_def ip_is_unspecified_def ip_string_169_254_def ip_to4_def)

text \<open>C32: With private networks forbidden the worker never opens a connection to a private address: the
  address it dials is one the resolver gave for that very dial, no address of the answer is loopback,
  private, link-local or unspecified, and an IPv4-mapped IPv6 address is judged like the IPv4 one.\<close>

theorem dial_never_private:
  assumes "safeDialContext False split_host_port lookup address = Inr (ip, port)"
  shows "\<not> isPrivate ip
    \<and> (\<exists>host ips. split_host_port address = Some (host, port) \<and> lookup host = Some ips
         \<and> ip = hd ips \<and> (\<forall>x\<in>set ips. \<not> isPrivate x))
    \<and> (\<forall>a b c d. b < 256 \<and> (ip = [a, b, c, d] \<or> ip = replicate 10 0 @ [255, 255, a, b, c, d]) \<longrightarrow>
         a \<noteq> 127 \<and> a \<noteq> 10 \<and> \<not> (a = 172 \<and> 16 \<le> b \<and> b \<le> 31) \<and> \<not> (a = 192 \<and> b = 168)
         \<and> \<not> (a = 169 \<and> b = 254) \<and> [a, b, c, d] \<noteq> [0, 0, 0, 0])"
proof -
  obtain host ips where h: "split_host_port address = Some (host, port)" "lookup host = Some ips"
    "ips \<noteq> []" "ip = hd ips" "\<forall>x\<in>set ips. \<not> isPrivate x"
    using assms by (auto simp: safeDialContext_def split: option.splits if_splits)
  then have np: "\<not> isPrivate ip" by simp
  have v4: "\<not> isPrivate [a, b, c, d]" if "ip = [a, b, c, d] \<or> ip = replicate 10 0 @ [255, 255, a, b, c, d]"
    for a b c d
    using np that isPrivate_mapped by metis
  have "a \<noteq> 127 \<and> a \<noteq> 10 \<and> \<not> (a = 172 \<and> 16 \<le> b \<and> b \<le> 31) \<and> \<not> (a = 192 \<and> b = 168)
      \<and> \<not> (a = 169 \<and> b = 254) \<and> [a, b, c, d] \<noteq> [0, 0, 0, 0]"
    if "b < 256 \<and> (ip = [a, b, c, d] \<or> ip = replicate 10 0 @ [255, 255, a, b, c, d])" for a b c d
    using v4 [of a b c d] that isPrivate_v4 [of b a c d] by auto
  then show ?thesis using np h by blast
qed

lemma dial_never_private_witness: "\<not> isPrivate [93, 184, 216, 34]"
  using dial_never_private [of "\<lambda>_. Some (''example.com'', ''443'')" "\<lambda>_. Some [[93, 184, 216, 34]]"
      "''example.com:443''" "[93, 184, 216, 34]" "''443''"]
  by (simp add: safeDialContext_def isPrivate_v4)

end
