(* ===== verification/Orders.thy ===== *)
theory Orders
  imports Webhooks
begin

text \<open>
  Registration orders, \<^verbatim>\<open>internal/store/postgres.go\<close>: allocation of a mailbox, delivery of the
  verification code, completion, cancellation, refund and the two periodic sweeps.  Each operation
  is the body of its database transaction; the statements, clock readings and identifiers of a
  body are numbered in source order.
\<close>

subsection \<open>The providers of a request\<close>

fun validate_providers ::
  "Service \<Rightarrow> string list \<Rightarrow> float64 \<Rightarrow> string list \<Rightarrow> store_error + (string list \<times> float64)" where
  "validate_providers service providers maximumPrice [] =
     (if providers = [] then Inl ErrInvalidMailboxProviders else Inr (providers, maximumPrice))"
| "validate_providers service providers maximumPrice (raw # requested) =
     (let provider = to_lower (trim_space raw)
      in if provider \<in> set providers then validate_providers service providers maximumPrice requested
         else case map_of (svc_ProviderPrices service) provider of
             None \<Rightarrow> Inl ErrInvalidMailboxProviders
           | Some price \<Rightarrow>
             if provider = [] \<or> \<not> IsSupportedMailboxProvider provider
                \<or> \<not> containsString (svc_AllowedProviders service) provider \<or> price < 0
             then Inl ErrInvalidMailboxProviders
             else validate_providers service (providers @ [provider])
                    (if price > maximumPrice then price else maximumPrice) requested)"

definition validateOrderProviders ::
  "Service \<Rightarrow> string list \<Rightarrow> store_error + (string list \<times> float64)" where
  "validateOrderProviders service requested = validate_providers service [] 0 requested"

subsection \<open>Allocation\<close>

definition day_of :: "time \<Rightarrow> int" where "day_of t = t div (24 * hour)"

definition received_today :: "env \<Rightarrow> sqlMailbox \<Rightarrow> bool" where
  "received_today env m = (case m_LastReceivedAt m of None \<Rightarrow> False | Some t \<Rightarrow> day_of t = day_of (db_now env))"

definition dailyUsage :: "env \<Rightarrow> db \<Rightarrow> string \<Rightarrow> int" where
  "dailyUsage env db pool =
     sum_list (map (\<lambda>m. if received_today env m then m_TodayCodes m else 0)
       (filter (\<lambda>m. m_Pool m = pool) (db_mailboxes db)))"

definition pool_ready :: "env \<Rightarrow> db \<Rightarrow> sqlMailbox \<Rightarrow> sqlMailboxPool \<Rightarrow> bool" where
  "pool_ready env db m mp \<longleftrightarrow>
     pl_Name mp = m_Pool m \<and> pl_Enabled mp
     \<and> (case m_LastReceivedAt m of None \<Rightarrow> True
         | Some t \<Rightarrow> t \<le> db_now env - pl_CooldownSeconds mp * second)
     \<and> (pl_DailyLimit mp \<le> 0 \<or> dailyUsage env db (pl_Name mp) < pl_DailyLimit mp)"

definition mailbox_ready :: "env \<Rightarrow> nat \<Rightarrow> db \<Rightarrow> string \<Rightarrow> sqlMailbox \<Rightarrow> bool" where
  "mailbox_ready env n db serviceID m \<longleftrightarrow>
     m_State m = MailboxAvailable \<and> m_ActiveOrderID m = [] \<and> m_HealthScore m \<ge> 60
     \<and> m_VerificationStatus m = MailboxVerificationVerified
     \<and> (m_ConnectionMethod m = MailboxConnectionIMAP \<or> m_OAuthValidUntil m > clock env n)
     \<and> (\<exists>s\<in>set (db_states db). ms_MailboxID s = m_ID m \<and> ms_ServiceID s = serviceID
          \<and> ms_State s = ServiceAvailable)
     \<and> (\<exists>mp\<in>set (db_pools db). pool_ready env db m mp)"

text \<open>\<open>locked\<close> holds of the mailboxes whose row another transaction has locked (\<^verbatim>\<open>SKIP LOCKED\<close>).\<close>

definition select_mailbox ::
  "env \<Rightarrow> nat \<Rightarrow> (string \<Rightarrow> bool) \<Rightarrow> string \<Rightarrow> string list \<Rightarrow> db \<Rightarrow> sqlMailbox option" where
  "select_mailbox env n locked serviceID providers db =
     (case sort_key (\<lambda>m. - m_HealthScore m) (sort_key m_ID
             (filter (\<lambda>m. mailbox_ready env n db serviceID m \<and> m_Provider m \<in> set providers
                \<and> \<not> locked (m_ID m)) (db_mailboxes db))) of
        [] \<Rightarrow> None | m # _ \<Rightarrow> Some m)"

definition new_order_id :: "string \<Rightarrow> string" where
  "new_order_id u = ''ORD'' @ to_upper (take 16 (filter (\<lambda>c. c \<noteq> CHR ''-'') u))"

definition new_order ::
  "env \<Rightarrow> string \<Rightarrow> sqlService \<Rightarrow> sqlMailbox \<Rightarrow> string list \<Rightarrow> int \<Rightarrow> string \<Rightarrow> sqlOrder" where
  "new_order env userID service mailbox providers priceCents requestID =
     (let now = clock env 1 in
      \<lparr> o_ID = new_order_id (uuid env 0), o_UserID = userID, o_ServiceID = sv_ID service,
        o_ServiceCode = sv_Code service, o_ServiceName = sv_Name service,
        o_MailboxID = m_ID mailbox, o_MailboxAddress = m_Address mailbox,
        o_MailboxProvider = m_Provider mailbox, o_RequestedProviders = providers,
        o_Status = OrderWaitingCode, o_Code = [], o_PriceCents = priceCents, o_CreatedAt = now,
        o_AssignedAt = Some now, o_SubmittedAt = Some now, o_CodeReceivedAt = None,
        o_CompletedAt = None,
        o_ExpiresAt = now + effectiveOrderTTLSeconds (sv_TTLSeconds service) * second,
        o_Refunded = False, o_RequestID = requestID, o_FailureReason = [] \<rparr>)"

definition ledger_row ::
  "string \<Rightarrow> string \<Rightarrow> string \<Rightarrow> string \<Rightarrow> string \<Rightarrow> int \<Rightarrow> int \<Rightarrow> string \<Rightarrow> sqlWalletLedger" where
  "ledger_row lid uid oid pid ltype amount after descr =
     \<lparr> l_ID = lid, l_UserID = uid, l_OrderID = oid, l_PaymentOrderID = pid, l_Type = ltype,
       l_AmountCents = amount, l_BalanceAfterCents = after, l_Description = descr,
       l_CreatedAt = zero_time \<rparr>"

text \<open>The writes of a successful allocation, in the order of the source.\<close>

definition charge_and_lease ::
  "env \<Rightarrow> sqlUser \<Rightarrow> sqlService \<Rightarrow> sqlMailbox \<Rightarrow> string list \<Rightarrow> int \<Rightarrow> string \<Rightarrow> Order stx" where
  "charge_and_lease env user service mailbox providers priceCents requestID =
     (let order = new_order env (u_ID user) service mailbox providers priceCents requestID;
          balance = u_BalanceCents user - priceCents
      in tx_then (set_balance env 4 (u_ID user) balance)
        (tx_then (create_order env 5 order)
        (tx_then (update_mailboxes env 6 (\<lambda>m. m_ID m = m_ID mailbox)
                   (\<lambda>m. m\<lparr>m_State := MailboxLeased, m_ActiveOrderID := o_ID order\<rparr>))
        (tx_then (update_states env 7
                   (\<lambda>s. ms_MailboxID s = m_ID mailbox \<and> ms_ServiceID s = sv_ID service)
                   (\<lambda>s. s\<lparr>ms_State := ServiceLeased, ms_ChangedAt := clock env 1\<rparr>))
        (tx_then (create_ledger env 8 (ledger_row (uuid env 1) (u_ID user) (o_ID order) []
                   ''order_charge'' (- priceCents) balance msg_order_charge))
        (tx_then (enqueueOrderWebhook env 9 order ''order.waiting_code'')
        (tx_return (mapOrder order))))))))"

text \<open>The transaction; \<open>Inl\<close> is the earlier order of a repeated request.\<close>

definition CreateOrder_tx ::
  "env \<Rightarrow> (string \<Rightarrow> bool) \<Rightarrow> string \<Rightarrow> string \<Rightarrow> string \<Rightarrow> string list \<Rightarrow> (Order + Order) stx" where
  "CreateOrder_tx env locked userID serviceID requestID mailboxProviders =
     tx_bind (tx_first env 0 ErrServiceNotFound
        (\<lambda>db. row_first sv_ID (\<lambda>s. sv_ID s = serviceID \<or> sv_Code s = serviceID) (db_services db)))
     (\<lambda>service. tx_then (tx_guard (sv_Enabled service) ErrServiceDisabled)
     (case validateOrderProviders (mapService service) mailboxProviders of
        Inl e \<Rightarrow> tx_fail e
      | Inr (requestedProviders, maximumPrice) \<Rightarrow>
        tx_bind (if requestID = [] then tx_return None
                 else tx_query env 1 (\<lambda>db. row_first o_ID
                   (\<lambda>r. o_UserID r = userID \<and> o_RequestID r = requestID) (db_orders db)))
        (\<lambda>existing. case existing of
           Some r \<Rightarrow> tx_return (Inl (mapOrder r))
         | None \<Rightarrow>
           tx_bind (tx_first env 2 ErrUserNotFound
              (\<lambda>db. row_find (\<lambda>u. u_ID u = userID \<and> u_Status u = ''active'') (db_users db)))
           (\<lambda>user. tx_then (tx_guard (\<not> u_BalanceCents user < cents maximumPrice) ErrInsufficientBalance)
           (tx_bind (tx_first env 3 ErrNoMailboxAvailable
              (select_mailbox env 0 locked (sv_ID service) requestedProviders))
           (\<lambda>mailbox. case map_of (effectiveProviderPricesCents service) (m_Provider mailbox) of
                None \<Rightarrow> tx_fail ErrInvalidMailboxProviders
              | Some priceCents \<Rightarrow>
                tx_bind (charge_and_lease env user service mailbox requestedProviders priceCents requestID)
                  (\<lambda>order. tx_return (Inr order))))))))"

subsection \<open>The allocation lock\<close>

text \<open>
  \<open>setnx n\<close> is the reply to the n-th \<^verbatim>\<open>SET NX\<close>: an error of the connection or whether the key was
  set.  \<open>now n\<close> is the clock after the n-th refusal.  \<open>None\<close> means that the fuel ran out.
\<close>

fun acquire_loop ::
  "(nat \<Rightarrow> store_error + bool) \<Rightarrow> (nat \<Rightarrow> time) \<Rightarrow> time \<Rightarrow> nat \<Rightarrow> nat \<Rightarrow> (store_error + unit) option" where
  "acquire_loop setnx now deadline n 0 = None"
| "acquire_loop setnx now deadline n (Suc fuel) =
     (case setnx n of
        Inl e \<Rightarrow> Some (Inl e)
      | Inr True \<Rightarrow> Some (Inr ())
      | Inr False \<Rightarrow> if now n > deadline then Some (Inl ErrAllocationBusy)
                     else acquire_loop setnx now deadline (Suc n) fuel)"

definition acquireAllocationLock ::
  "(nat \<Rightarrow> store_error + bool) \<Rightarrow> (nat \<Rightarrow> time) \<Rightarrow> time \<Rightarrow> nat \<Rightarrow> (store_error + unit) option" where
  "acquireAllocationLock setnx now start fuel = acquire_loop setnx now (start + 5 * second) 0 fuel"

text \<open>Redis runs a script atomically; \<open>releaseLock\<close> is the effect of the script on the key's value.\<close>

definition releaseLock :: "string \<Rightarrow> string option \<Rightarrow> string option" where
  "releaseLock value stored = (if stored = Some value then None else stored)"

subsection \<open>Creating an order\<close>

datatype create_outcome = Created Order | Duplicate Order | Failed store_error

definition allocate_order ::
  "env \<Rightarrow> (string \<Rightarrow> bool) \<Rightarrow> string \<Rightarrow> string \<Rightarrow> string \<Rightarrow> string list \<Rightarrow> db \<Rightarrow> create_outcome \<times> db" where
  "allocate_order env locked userID serviceID requestID mailboxProviders db =
     (case run_tx (CreateOrder_tx env locked userID serviceID requestID mailboxProviders) db of
        (Inl e, db') \<Rightarrow> (Failed e, db')
      | (Inr (Inl existing), _) \<Rightarrow> (Duplicate existing, db)
      | (Inr (Inr order), db') \<Rightarrow> (Created order, db'))"

text \<open>
  The whole call: the lock of the platform first (its key is the identifier the caller gave), then the
  transaction.  The lock is released on every path that acquired it.
\<close>

definition CreateOrder ::
  "(nat \<Rightarrow> store_error + bool) \<Rightarrow> (nat \<Rightarrow> time) \<Rightarrow> time \<Rightarrow> nat \<Rightarrow> env \<Rightarrow> (string \<Rightarrow> bool)
   \<Rightarrow> string \<Rightarrow> string \<Rightarrow> string \<Rightarrow> string list \<Rightarrow> db \<Rightarrow> (create_outcome \<times> db) option" where
  "CreateOrder setnx now start fuel env locked userID serviceID requestID mailboxProviders db =
     (case acquireAllocationLock setnx now start fuel of
        None \<Rightarrow> None
      | Some (Inl e) \<Rightarrow> Some (Failed e, db)
      | Some (Inr ()) \<Rightarrow> Some (allocate_order env locked userID serviceID requestID mailboxProviders db))"

subsection \<open>Refunds\<close>

definition order_open :: "sqlOrder \<Rightarrow> bool" where
  "order_open r \<longleftrightarrow> o_Status r = OrderAssigned \<or> o_Status r = OrderWaitingCode"

definition order_event :: "OrderStatus \<Rightarrow> string" where
  "order_event status = ''order.'' @ order_status_string status"

text \<open>The release of the platform state; a timeout counts, and the fifth one consumes the pair.\<close>

definition released_state :: "time \<Rightarrow> OrderStatus \<Rightarrow> sqlMailboxService \<Rightarrow> sqlMailboxService" where
  "released_state now status s =
     (let s1 = s\<lparr>ms_State := ServiceAvailable, ms_ChangedAt := now\<rparr>
      in if status = OrderExpiredRefunded
         then (case nextTimeoutState (ms_TimeoutCount s) of (nextCount, nextState) \<Rightarrow>
                 s1\<lparr>ms_TimeoutCount := nextCount, ms_State := nextState\<rparr>)
         else s1)"

definition timeout_detail :: "int \<Rightarrow> string" where
  "timeout_detail count = msg_timeout_consume_1 @ int_digits count @ msg_timeout_consume_2"

definition release_service :: "env \<Rightarrow> nat \<Rightarrow> sqlOrder \<Rightarrow> OrderStatus \<Rightarrow> unit stx" where
  "release_service env n order status =
     tx_bind (tx_one env n (\<lambda>db. row_find
        (\<lambda>s. ms_MailboxID s = o_MailboxID order \<and> ms_ServiceID s = o_ServiceID order) (db_states db)))
     (\<lambda>s. tx_when (ms_State s = ServiceLeased)
        (let s' = released_state (clock env n) status s
         in tx_then (save_state env (n + 1) s')
           (tx_when (ms_State s' = ServiceConsumed)
             (create_audit env (n + 2) (audit_row (uuid env (n + 2)) ''system''
               ''mailbox.service.timeout_consume'' ''mailbox_service_state''
               (o_MailboxID order @ '':'' @ o_ServiceID order) (timeout_detail (ms_TimeoutCount s')) [])))))"

definition refund_description :: "sqlOrder \<Rightarrow> OrderStatus \<Rightarrow> string" where
  "refund_description order status =
     (if status = OrderExpiredRefunded
      then (if trim_space (o_FailureReason order) \<noteq> [] then o_FailureReason order else msg_timeout_refund)
      else msg_cancel_refund)"

definition refundOrder :: "env \<Rightarrow> nat \<Rightarrow> sqlOrder \<Rightarrow> OrderStatus \<Rightarrow> sqlOrder stx" where
  "refundOrder env n order0 status =
     (if o_Refunded order0 then tx_return order0
      else tx_bind (tx_one env n (\<lambda>db. row_find (\<lambda>u. u_ID u = o_UserID order0) (db_users db)))
      (\<lambda>user.
        let balance = u_BalanceCents user + o_PriceCents order0;
            order = order0\<lparr>o_Status := status, o_Refunded := True\<rparr>
        in tx_then (set_balance env (n + 1) (u_ID user) balance)
          (tx_then (save_order env (n + 2) order)
          (tx_then (update_mailboxes env (n + 3) (\<lambda>m. m_ID m = o_MailboxID order)
                     (\<lambda>m. m\<lparr>m_State := MailboxAvailable, m_ActiveOrderID := []\<rparr>))
          (tx_then (release_service env (n + 4) order status)
          (tx_then (create_ledger env (n + 7) (ledger_row (uuid env (n + 7)) (u_ID user) (o_ID order) []
                     ''order_refund'' (o_PriceCents order) balance (refund_description order status)))
          (tx_then (tx_when (status = OrderExpiredRefunded)
                     (create_audit env (n + 8) (audit_row (uuid env (n + 8)) ''system''
                       (if trim_space (o_FailureReason order) \<noteq> [] then ''order.mailbox_verification_refund''
                        else ''order.timeout_refund'')
                       ''registration_order'' (o_ID order) (refund_description order status) [])))
          (tx_then (enqueueOrderWebhook env (n + 9) order (order_event (o_Status order)))
          (tx_return order)))))))))"

subsection \<open>Operations on an order\<close>

definition ReceiveCodeValue :: "env \<Rightarrow> string \<Rightarrow> string \<Rightarrow> Order stx" where
  "ReceiveCodeValue env oid code0 =
     tx_bind (tx_first env 0 ErrOrderNotFound (\<lambda>db. row_find (\<lambda>r. o_ID r = oid) (db_orders db)))
     (\<lambda>order. tx_then (tx_guard (order_open order) ErrInvalidOrderState)
       (let now = clock env 0; code = trim_space code0
        in tx_then (tx_guard (now < o_ExpiresAt order) ErrInvalidOrderState)
          (tx_then (tx_guard (code \<noteq> []) ErrVerificationCodeRequired)
          (let order' = order\<lparr>o_Status := OrderCodeReceived, o_Code := code, o_CodeReceivedAt := Some now\<rparr>
           in tx_then (save_order env 1 order')
             (tx_then (update_mailboxes env 2 (\<lambda>m. m_ID m = o_MailboxID order)
                (\<lambda>m. m\<lparr>m_State := MailboxAvailable, m_ActiveOrderID := [],
                       m_TodayCodes := (if received_today env m then m_TodayCodes m + 1 else 1),
                       m_LastReceivedAt := Some now\<rparr>))
             (tx_then (update_states env 3
                (\<lambda>s. ms_MailboxID s = o_MailboxID order \<and> ms_ServiceID s = o_ServiceID order)
                (\<lambda>s. s\<lparr>ms_State := ServiceConsumed, ms_ChangedAt := now\<rparr>))
             (tx_then (enqueueOrderWebhook env 4 order' ''order.code_received'')
             (tx_return (mapOrder order')))))))))"

definition find_user_order :: "string \<Rightarrow> string \<Rightarrow> db \<Rightarrow> sqlOrder option" where
  "find_user_order oid userID db =
     row_find (\<lambda>r. o_ID r = oid \<and> (userID \<noteq> [] \<longrightarrow> o_UserID r = userID)) (db_orders db)"

definition updateOrder ::
  "env \<Rightarrow> string \<Rightarrow> string \<Rightarrow> OrderStatus list \<Rightarrow> (sqlOrder \<Rightarrow> time \<Rightarrow> sqlOrder) \<Rightarrow> Order stx" where
  "updateOrder env oid userID allowed mutate =
     tx_bind (tx_first env 0 ErrOrderNotFound (find_user_order oid userID))
     (\<lambda>order. tx_then (tx_guard (o_Status order \<in> set allowed) ErrInvalidOrderState)
       (let order' = mutate order (clock env 0)
        in tx_then (save_order env 1 order')
          (tx_then (enqueueOrderWebhook env 2 order' (order_event (o_Status order')))
          (tx_return (mapOrder order')))))"

definition CompleteOrder :: "env \<Rightarrow> string \<Rightarrow> string \<Rightarrow> Order stx" where
  "CompleteOrder env oid userID =
     updateOrder env oid userID [OrderCodeReceived]
       (\<lambda>order now. order\<lparr>o_Status := OrderCompleted, o_CompletedAt := Some now\<rparr>)"

definition CancelOrder :: "env \<Rightarrow> string \<Rightarrow> string \<Rightarrow> Order stx" where
  "CancelOrder env oid userID =
     tx_bind (tx_first env 0 ErrOrderNotFound (find_user_order oid userID))
     (\<lambda>order. tx_then (tx_guard (order_open order) ErrInvalidOrderState)
       (tx_bind (refundOrder env 1 order OrderCanceled) (\<lambda>order'. tx_return (mapOrder order'))))"

subsection \<open>The sweeps\<close>

text \<open>One transaction of \<^verbatim>\<open>ReapExpired\<close>; the result says whether the order was refunded.\<close>

definition reap_one :: "env \<Rightarrow> string \<Rightarrow> bool stx" where
  "reap_one env oid =
     tx_bind (tx_one env 0 (\<lambda>db. row_find (\<lambda>r. o_ID r = oid) (db_orders db)))
     (\<lambda>order. if o_ExpiresAt order > clock env 0 \<or> \<not> order_open order then tx_return False
        else tx_then (tx_bind (refundOrder env 1 order OrderExpiredRefunded) (\<lambda>_. tx_return ()))
               (tx_return True))"

fun reap_each :: "(nat \<Rightarrow> env) \<Rightarrow> nat \<Rightarrow> string list \<Rightarrow> db \<Rightarrow> nat \<times> db" where
  "reap_each envs n [] db = (0, db)"
| "reap_each envs n (oid # oids) db =
     (case run_tx (reap_one (envs n) oid) db of (r, db1) \<Rightarrow>
        case reap_each envs (Suc n) oids db1 of (count, db2) \<Rightarrow>
          ((if r = Inr True then Suc count else count), db2))"

definition ReapExpired :: "(nat \<Rightarrow> env) \<Rightarrow> db \<Rightarrow> nat \<times> db" where
  "ReapExpired envs db =
     (let ids = (if db_fail (envs 0) 0 then []
                 else map o_ID (filter (\<lambda>r. order_open r \<and> o_ExpiresAt r < clock (envs 0) 0) (db_orders db)))
      in reap_each envs 1 ids db)"

definition reconcile_one :: "env \<Rightarrow> string \<Rightarrow> unit stx" where
  "reconcile_one env oid =
     tx_bind (tx_one env 0 (\<lambda>db. row_find (\<lambda>r. o_ID r = oid) (db_orders db)))
     (\<lambda>orderRef. tx_bind (tx_one env 1 (\<lambda>db. row_find (\<lambda>m. m_ID m = o_MailboxID orderRef) (db_mailboxes db)))
     (\<lambda>mailbox. if m_VerificationStatus mailbox = MailboxVerificationVerified then tx_return ()
        else tx_bind (tx_one env 2 (\<lambda>db. row_find (\<lambda>r. o_ID r = oid) (db_orders db)))
        (\<lambda>order. if \<not> order_open order then tx_return ()
          else tx_bind (refundOrder env 4 (order\<lparr>o_FailureReason := msg_mailbox_unverified\<rparr>) OrderExpiredRefunded)
          (\<lambda>_. update_mailboxes env 3 (\<lambda>m. m_ID m = m_ID mailbox)
             (\<lambda>m. m\<lparr>m_ActiveOrderID := [], m_HealthScore := 0,
                    m_State := (if m_State mailbox = MailboxBlocked then m_State m else MailboxError)\<rparr>)))))"

fun reconcile_each :: "(nat \<Rightarrow> env) \<Rightarrow> nat \<Rightarrow> string list \<Rightarrow> db \<Rightarrow> nat \<times> db" where
  "reconcile_each envs n [] db = (0, db)"
| "reconcile_each envs n (oid # oids) db =
     (case run_tx (reconcile_one (envs n) oid) db of (r, db1) \<Rightarrow>
        case reconcile_each envs (Suc n) oids db1 of (count, db2) \<Rightarrow>
          ((if r = Inr () then Suc count else count), db2))"

definition unverified_mailbox :: "db \<Rightarrow> sqlOrder \<Rightarrow> bool" where
  "unverified_mailbox db r \<longleftrightarrow>
     (\<exists>m\<in>set (db_mailboxes db). m_ID m = o_MailboxID r \<and> m_VerificationStatus m \<noteq> MailboxVerificationVerified)"

definition ReconcileInvalidMailboxOrders :: "(nat \<Rightarrow> env) \<Rightarrow> db \<Rightarrow> nat \<times> db" where
  "ReconcileInvalidMailboxOrders envs db =
     (let ids = (if db_fail (envs 0) 0 then []
                 else map o_ID (filter (\<lambda>r. order_open r \<and> unverified_mailbox db r) (db_orders db)))
      in reconcile_each envs 1 ids db)"

end
