(* ===== verification/Demo.thy ===== *)
theory Demo
  imports Webhooks
begin

text \<open>
  A small database that the witnesses of the properties run the operations on: one user with ten
  units of money, one platform that sells outlook mailboxes at one unit, and one verified mailbox.
\<close>

definition demo_user :: sqlUser where
  "demo_user = \<lparr> u_ID = ''u1'', u_Email = ''a@b.c'', u_PasswordHash = ''h'', u_Role = ''user'',
     u_Status = ''active'', u_BalanceCents = 1000, u_DisplayName = [], u_CreatedAt = 0, u_LastLoginAt = None \<rparr>"

definition demo_service :: sqlService where
  "demo_service = \<lparr> sv_ID = ''s1'', sv_Code = ''openai'', sv_Name = ''OpenAI'', sv_Description = [],
     sv_Enabled = True, sv_AllowedProviders = [''outlook''], sv_PriceCents = 100,
     sv_ProviderPricesCents = [(''outlook'', 100)], sv_TTLSeconds = 1800, sv_SenderDomains = [''openai.com''],
     sv_SubjectKeywords = [], sv_Regex = [], sv_CreatedAt = 0 \<rparr>"

definition demo_mailbox :: sqlMailbox where
  "demo_mailbox = \<lparr> m_ID = ''m1'', m_Address = ''x@outlook.com'', m_Provider = ''outlook'', m_Pool = ''p'',
     m_State = MailboxAvailable, m_HealthScore = 100, m_OAuthValidUntil = 0, m_EncryptedCredential = ''e'',
     m_ActiveOrderID = [], m_TodayCodes = 0, m_LastReceivedAt = None, m_ConnectionMethod = MailboxConnectionIMAP,
     m_VerificationStatus = MailboxVerificationVerified, m_LastVerifiedAt = None, m_VerificationError = [],
     m_CreatedAt = 0, m_UpdatedAt = 0 \<rparr>"

definition demo_state :: sqlMailboxService where
  "demo_state = \<lparr> ms_MailboxID = ''m1'', ms_ServiceID = ''s1'', ms_State = ServiceAvailable,
     ms_TimeoutCount = 0, ms_ChangedAt = 0 \<rparr>"

definition demo_pool :: sqlMailboxPool where
  "demo_pool = \<lparr> pl_ID = ''pool'', pl_Name = ''p'', pl_Provider = ''mixed'', pl_Region = ''global'',
     pl_Enabled = True, pl_DailyLimit = 0, pl_CooldownSeconds = 0, pl_CreatedAt = 0 \<rparr>"

definition demo_db :: db where
  "demo_db = empty_db\<lparr>db_users := [demo_user], db_services := [demo_service], db_mailboxes := [demo_mailbox],
     db_states := [demo_state], db_pools := [demo_pool]\<rparr>"

text \<open>The same database with the mailbox leased to an open order that expires at 100.\<close>

definition demo_order :: sqlOrder where
  "demo_order = \<lparr> o_ID = ''ORD1'', o_UserID = ''u1'', o_ServiceID = ''s1'', o_ServiceCode = ''openai'',
     o_ServiceName = ''OpenAI'', o_MailboxID = ''m1'', o_MailboxAddress = ''x@outlook.com'',
     o_MailboxProvider = ''outlook'', o_RequestedProviders = [''outlook''], o_Status = OrderWaitingCode,
     o_Code = [], o_PriceCents = 100, o_CreatedAt = 0, o_AssignedAt = Some 0, o_SubmittedAt = Some 0,
     o_CodeReceivedAt = None, o_CompletedAt = None, o_ExpiresAt = 100, o_Refunded = False,
     o_RequestID = ''r1'', o_FailureReason = [] \<rparr>"

definition demo_leased_db :: db where
  "demo_leased_db = demo_db\<lparr>
     db_users := [demo_user\<lparr>u_BalanceCents := 900\<rparr>],
     db_orders := [demo_order],
     db_mailboxes := [demo_mailbox\<lparr>m_State := MailboxLeased, m_ActiveOrderID := ''ORD1''\<rparr>],
     db_states := [demo_state\<lparr>ms_State := ServiceLeased\<rparr>],
     db_ledgers := [\<lparr> l_ID = ''l1'', l_UserID = ''u1'', l_OrderID = ''ORD1'', l_PaymentOrderID = [],
       l_Type = ''order_charge'', l_AmountCents = -100, l_BalanceAfterCents = 900, l_Description = [],
       l_CreatedAt = 0 \<rparr>]\<rparr>"

lemmas demo_defs = demo_user_def demo_service_def demo_mailbox_def demo_state_def demo_pool_def
  demo_db_def demo_order_def demo_leased_db_def empty_db_def

text \<open>What \<open>simp\<close> needs to run an operation on it.\<close>

lemmas run_simps = run_tx_def stmt_defs tx_defs demo_defs row_find_def Let_def write_defs create_defs fresh_key_def
  upsert_def upd_rows_def audit_row_def numeral_eq_Suc trim_space_def

definition plain_crypto :: crypto where
  "plain_crypto = \<lparr> cr_encrypt = \<lambda>n m. Some ''sealed'', cr_decrypt = \<lambda>s. Some Map.empty,
     cr_hash_token = \<lambda>t. ''#'' @ t, cr_bcrypt = \<lambda>n s. Some s, cr_bcrypt_ok = \<lambda>h s. h = s \<rparr>"

lemma plain_crypto_simps [simp]:
  "cr_encrypt plain_crypto n m = Some ''sealed''" "cr_decrypt plain_crypto s = Some Map.empty"
  "cr_hash_token plain_crypto t = ''#'' @ t" "cr_bcrypt plain_crypto n s = Some s"
  "cr_bcrypt_ok plain_crypto h s \<longleftrightarrow> h = s"
  by (simp_all add: plain_crypto_def)

end
