(* ===== verification/Leases.thy ===== *)
theory Leases
  imports Orders Demo
begin

text \<open>
  What the order operations promise, over the database they share.

  \<^item> \<open>lease_ok\<close>: a mailbox is leased exactly to its open order.  An open order (assigned or waiting for
    its code) has not been refunded, its mailbox names it as the active order, and the pair of its
    mailbox and platform is leased; a named active order is open, and a leased pair has an open order.
  \<^item> \<open>allocated\<close> and \<open>closed\<close>: the two net effects an operation can have on the leases, with the lemma
    that each keeps \<open>lease_ok\<close>.
  \<^item> an effect lemma per operation, from which the preservation theorems follow.
\<close>

lemmas order_run_simps = run_simps refundOrder_def release_service_def enqueueOrderWebhook_def ledger_row_def
  order_open_def released_state_def nextTimeoutState_def MailboxServiceTimeoutLimit_def ms_key_def refund_description_def

subsection \<open>The lease invariant\<close>

definition order_key :: "sqlOrder \<Rightarrow> string \<times> string" where
  "order_key r = (o_MailboxID r, o_ServiceID r)"

definition keys_ok :: "db \<Rightarrow> bool" where
  "keys_ok db \<longleftrightarrow> distinct (map u_ID (db_users db)) \<and> distinct (map o_ID (db_orders db))
     \<and> distinct (map m_ID (db_mailboxes db)) \<and> distinct (map ms_key (db_states db))"

definition order_leased :: "db \<Rightarrow> sqlOrder \<Rightarrow> bool" where
  "order_leased db r \<longleftrightarrow> \<not> o_Refunded r \<and> o_ID r \<noteq> []
     \<and> (\<exists>m\<in>set (db_mailboxes db). m_ID m = o_MailboxID r \<and> m_ActiveOrderID m = o_ID r)
     \<and> (\<exists>s\<in>set (db_states db). ms_key s = order_key r \<and> ms_State s = ServiceLeased)"

definition mailbox_bound :: "db \<Rightarrow> sqlMailbox \<Rightarrow> bool" where
  "mailbox_bound db m \<longleftrightarrow>
     (\<exists>r\<in>set (db_orders db). order_open r \<and> o_ID r = m_ActiveOrderID m \<and> o_MailboxID r = m_ID m)"

definition state_bound :: "db \<Rightarrow> sqlMailboxService \<Rightarrow> bool" where
  "state_bound db s \<longleftrightarrow> (\<exists>r\<in>set (db_orders db). order_open r \<and> order_key r = ms_key s)"

definition lease_ok :: "db \<Rightarrow> bool" where
  "lease_ok db \<longleftrightarrow> keys_ok db
     \<and> (\<forall>r\<in>set (db_orders db). order_open r \<longrightarrow> order_leased db r)
     \<and> (\<forall>m\<in>set (db_mailboxes db). m_ActiveOrderID m \<noteq> [] \<longrightarrow> mailbox_bound db m)
     \<and> (\<forall>s\<in>set (db_states db). ms_State s = ServiceLeased \<longrightarrow> state_bound db s)"

lemma lease_okI:
  assumes "keys_ok db"
    and "\<And>r. r \<in> set (db_orders db) \<Longrightarrow> order_open r \<Longrightarrow> order_leased db r"
    and "\<And>m. m \<in> set (db_mailboxes db) \<Longrightarrow> m_ActiveOrderID m \<noteq> [] \<Longrightarrow> mailbox_bound db m"
    and "\<And>s. s \<in> set (db_states db) \<Longrightarrow> ms_State s = ServiceLeased \<Longrightarrow> state_bound db s"
  shows "lease_ok db"
  using assms by (simp add: lease_ok_def)

lemma lease_okD:
  assumes "lease_ok db"
  shows "keys_ok db"
    and "r \<in> set (db_orders db) \<Longrightarrow> order_open r \<Longrightarrow> order_leased db r"
    and "m \<in> set (db_mailboxes db) \<Longrightarrow> m_ActiveOrderID m \<noteq> [] \<Longrightarrow> mailbox_bound db m"
    and "s \<in> set (db_states db) \<Longrightarrow> ms_State s = ServiceLeased \<Longrightarrow> state_bound db s"
  using assms by (simp_all add: lease_ok_def)

lemma keys_okD:
  assumes "keys_ok db"
  shows "distinct (map u_ID (db_users db))" and "distinct (map o_ID (db_orders db))"
    and "distinct (map m_ID (db_mailboxes db))" and "distinct (map ms_key (db_states db))"
  using assms by (simp_all add: keys_ok_def)

text \<open>The invariant reads four tables, and of the users only their keys.\<close>

definition same_leases :: "db \<Rightarrow> db \<Rightarrow> bool" where
  "same_leases db db' \<longleftrightarrow> map u_ID (db_users db') = map u_ID (db_users db)
     \<and> db_orders db' = db_orders db \<and> db_mailboxes db' = db_mailboxes db \<and> db_states db' = db_states db"

lemma lease_ok_same: "same_leases db db' \<Longrightarrow> lease_ok db' \<longleftrightarrow> lease_ok db"
  by (simp add: lease_ok_def keys_ok_def same_leases_def order_leased_def mailbox_bound_def state_bound_def)

text \<open>Two open orders never share a mailbox.\<close>

lemma open_orders_disjoint:
  assumes "lease_ok db" and "r \<in> set (db_orders db)" "r' \<in> set (db_orders db)"
    and "order_open r" "order_open r'" and "o_MailboxID r = o_MailboxID r'"
  shows "r = r'"
proof -
  note k = keys_okD [OF lease_okD(1) [OF assms(1)]]
  obtain m where m: "m \<in> set (db_mailboxes db)" "m_ID m = o_MailboxID r" "m_ActiveOrderID m = o_ID r"
    using lease_okD(2) [OF assms(1,2,4)] by (auto simp: order_leased_def)
  obtain m' where m': "m' \<in> set (db_mailboxes db)" "m_ID m' = o_MailboxID r'" "m_ActiveOrderID m' = o_ID r'"
    using lease_okD(2) [OF assms(1,3,5)] by (auto simp: order_leased_def)
  have "m = m'" using key_unique [OF k(3) m(1) m'(1)] m m' assms(6) by simp
  then show ?thesis using key_unique [OF k(2) assms(2,3)] m m' by simp
qed

subsection \<open>The net effect of an allocation\<close>

definition allocated :: "sqlOrder \<Rightarrow> db \<Rightarrow> db \<Rightarrow> bool" where
  "allocated r db db' \<longleftrightarrow>
     order_open r \<and> \<not> o_Refunded r \<and> o_ID r \<noteq> [] \<and> o_ID r \<notin> o_ID ` set (db_orders db)
     \<and> (\<exists>m\<in>set (db_mailboxes db). m_ID m = o_MailboxID r \<and> m_ActiveOrderID m = [])
     \<and> (\<exists>s\<in>set (db_states db). ms_key s = order_key r \<and> ms_State s = ServiceAvailable)
     \<and> map u_ID (db_users db') = map u_ID (db_users db)
     \<and> db_orders db' = db_orders db @ [r]
     \<and> (\<exists>f. (\<forall>m. m_ID (f m) = m_ID m \<and> m_ActiveOrderID (f m) = o_ID r)
          \<and> db_mailboxes db' = upd_rows (\<lambda>m. m_ID m = o_MailboxID r) f (db_mailboxes db))
     \<and> (\<exists>g. (\<forall>s. ms_key (g s) = ms_key s \<and> ms_State (g s) = ServiceLeased)
          \<and> db_states db' = upd_rows (\<lambda>s. ms_key s = order_key r) g (db_states db))"

lemma lease_ok_allocated:
  assumes inv: "lease_ok db" and al: "allocated r db db'"
  shows "lease_ok db'"
proof -
  obtain f g where f: "\<And>m. m_ID (f m) = m_ID m" "\<And>m. m_ActiveOrderID (f m) = o_ID r"
    and g: "\<And>s. ms_key (g s) = ms_key s" "\<And>s. ms_State (g s) = ServiceLeased"
    and M: "db_mailboxes db' = upd_rows (\<lambda>m. m_ID m = o_MailboxID r) f (db_mailboxes db)"
    and S: "db_states db' = upd_rows (\<lambda>s. ms_key s = order_key r) g (db_states db)"
    using al unfolding allocated_def by blast
  obtain m0 where m0: "m0 \<in> set (db_mailboxes db)" "m_ID m0 = o_MailboxID r" "m_ActiveOrderID m0 = []"
    using al by (auto simp: allocated_def)
  obtain s0 where s0: "s0 \<in> set (db_states db)" "ms_key s0 = order_key r"
    using al by (auto simp: allocated_def)
  have O: "db_orders db' = db_orders db @ [r]" and fresh: "o_ID r \<notin> o_ID ` set (db_orders db)"
    and op: "order_open r" and r: "\<not> o_Refunded r" "o_ID r \<noteq> []"
    using al by (auto simp: allocated_def)
  note k = keys_okD [OF lease_okD(1) [OF inv]]
  have other: "o_MailboxID x \<noteq> o_MailboxID r" if x: "x \<in> set (db_orders db)" "order_open x" for x
  proof
    assume e: "o_MailboxID x = o_MailboxID r"
    obtain m where "m \<in> set (db_mailboxes db)" "m_ID m = o_MailboxID x" "m_ActiveOrderID m = o_ID x" "o_ID x \<noteq> []"
      using lease_okD(2) [OF inv x] by (auto simp: order_leased_def)
    then show False using key_unique [OF k(3) m0(1)] m0 e by force
  qed
  show ?thesis
  proof (rule lease_okI)
    show "keys_ok db'"
      using al k fresh O by (simp add: keys_ok_def M S map_key_upd_rows [where key = m_ID and f = f, OF f(1)] map_key_upd_rows [where key = ms_key and f = g, OF g(1)] allocated_def)
  next
    fix x assume x: "x \<in> set (db_orders db')" "order_open x"
    show "order_leased db' x"
    proof (cases "x = r")
      case True
      have "f m0 \<in> set (db_mailboxes db')" "g s0 \<in> set (db_states db')"
        using m0 s0 by (auto simp: M S set_upd_rows)
      then show ?thesis using True r f g m0 s0
        by (auto simp: order_leased_def intro!: bexI [of _ "f m0"] bexI [of _ "g s0"])
    next
      case False
      then have xin: "x \<in> set (db_orders db)" using x(1) O by simp
      then obtain m s where ms: "\<not> o_Refunded x" "o_ID x \<noteq> []" "m \<in> set (db_mailboxes db)" "m_ID m = o_MailboxID x"
        "m_ActiveOrderID m = o_ID x" "s \<in> set (db_states db)" "ms_key s = order_key x" "ms_State s = ServiceLeased"
        using lease_okD(2) [OF inv _ x(2)] by (auto simp: order_leased_def)
      have "m \<in> set (db_mailboxes db')"
        using ms other [OF xin x(2)] unfolding M by (intro in_upd_rows_other) auto
      moreover have "s \<in> set (db_states db')"
        using ms other [OF xin x(2)] unfolding S by (intro in_upd_rows_other) (auto simp: order_key_def)
      ultimately show ?thesis using ms by (auto simp: order_leased_def)
    qed
  next
    fix m assume "m \<in> set (db_mailboxes db')" "m_ActiveOrderID m \<noteq> []"
    then obtain m1 where m1: "m1 \<in> set (db_mailboxes db)"
      "m = (if m_ID m1 = o_MailboxID r then f m1 else m1)"
      by (auto simp: M set_upd_rows)
    show "mailbox_bound db' m"
    proof (cases "m_ID m1 = o_MailboxID r")
      case True
      then show ?thesis using m1 f op O by (auto simp: mailbox_bound_def)
    next
      case False
      then show ?thesis
        using m1 lease_okD(3) [OF inv m1(1)] \<open>m_ActiveOrderID m \<noteq> []\<close> O by (auto simp: mailbox_bound_def)
    qed
  next
    fix s assume "s \<in> set (db_states db')" "ms_State s = ServiceLeased"
    then obtain s1 where s1: "s1 \<in> set (db_states db)" "s = (if ms_key s1 = order_key r then g s1 else s1)"
      by (auto simp: S set_upd_rows)
    show "state_bound db' s"
    proof (cases "ms_key s1 = order_key r")
      case True
      then show ?thesis using s1 g op O by (auto simp: state_bound_def)
    next
      case False
      then show ?thesis
        using s1 lease_okD(4) [OF inv s1(1)] \<open>ms_State s = ServiceLeased\<close> O by (auto simp: state_bound_def)
    qed
  qed
qed

subsection \<open>The net effect of closing an order\<close>

definition closed :: "sqlOrder \<Rightarrow> sqlOrder \<Rightarrow> db \<Rightarrow> db \<Rightarrow> bool" where
  "closed r r' db db' \<longleftrightarrow>
     r \<in> set (db_orders db) \<and> order_open r \<and> \<not> order_open r' \<and> o_ID r' = o_ID r
     \<and> map u_ID (db_users db') = map u_ID (db_users db)
     \<and> db_orders db' = upsert o_ID r' (db_orders db)
     \<and> (\<exists>f. (\<forall>m. m_ID (f m) = m_ID m \<and> m_ActiveOrderID (f m) = [])
          \<and> db_mailboxes db' = upd_rows (\<lambda>m. m_ID m = o_MailboxID r) f (db_mailboxes db))
     \<and> (\<exists>g. (\<forall>s. ms_key (g s) = ms_key s \<and> ms_State (g s) \<noteq> ServiceLeased)
          \<and> db_states db' = upd_rows (\<lambda>s. ms_key s = order_key r) g (db_states db))"

lemma lease_ok_closed:
  assumes inv: "lease_ok db" and cl: "closed r r' db db'"
  shows "lease_ok db'"
proof -
  obtain f g where f: "\<And>m. m_ID (f m) = m_ID m" "\<And>m. m_ActiveOrderID (f m) = []"
    and g: "\<And>s. ms_key (g s) = ms_key s" "\<And>s. ms_State (g s) \<noteq> ServiceLeased"
    and M: "db_mailboxes db' = upd_rows (\<lambda>m. m_ID m = o_MailboxID r) f (db_mailboxes db)"
    and S: "db_states db' = upd_rows (\<lambda>s. ms_key s = order_key r) g (db_states db)"
    using cl unfolding closed_def by blast
  have r: "r \<in> set (db_orders db)" "order_open r" and r': "\<not> order_open r'" "o_ID r' = o_ID r"
    and O: "db_orders db' = upsert o_ID r' (db_orders db)"
    using cl by (auto simp: closed_def)
  note k = keys_okD [OF lease_okD(1) [OF inv]]
  have stays: "x \<in> set (db_orders db') \<and> o_MailboxID x \<noteq> o_MailboxID r"
    if "x \<in> set (db_orders db)" "order_open x" "x \<noteq> r" for x
    using that open_orders_disjoint [OF inv that(1) r(1) that(2) r(2)] key_unique [OF k(2) that(1) r(1)] r'(2)
    by (auto simp: O set_upsert)
  show ?thesis
  proof (rule lease_okI)
    show "keys_ok db'"
      using cl k by (simp add: keys_ok_def O M S distinct_upsert map_key_upd_rows [where key = m_ID and f = f, OF f(1)]
          map_key_upd_rows [where key = ms_key and f = g, OF g(1)] closed_def)
  next
    fix x assume x: "x \<in> set (db_orders db')" "order_open x"
    then have xin: "x \<in> set (db_orders db)" "x \<noteq> r"
      using r' by (auto simp: O set_upsert)
    then obtain m s where ms: "\<not> o_Refunded x" "o_ID x \<noteq> []" "m \<in> set (db_mailboxes db)" "m_ID m = o_MailboxID x"
      "m_ActiveOrderID m = o_ID x" "s \<in> set (db_states db)" "ms_key s = order_key x" "ms_State s = ServiceLeased"
      using lease_okD(2) [OF inv _ x(2)] by (auto simp: order_leased_def)
    have "m \<in> set (db_mailboxes db')"
      using ms stays [OF xin(1) x(2) xin(2)] unfolding M by (intro in_upd_rows_other) auto
    moreover have "s \<in> set (db_states db')"
      using ms stays [OF xin(1) x(2) xin(2)] unfolding S by (intro in_upd_rows_other) (auto simp: order_key_def)
    ultimately show "order_leased db' x" using ms by (auto simp: order_leased_def)
  next
    fix m assume m: "m \<in> set (db_mailboxes db')" "m_ActiveOrderID m \<noteq> []"
    then obtain m0 where m0: "m0 \<in> set (db_mailboxes db)" "m = (if m_ID m0 = o_MailboxID r then f m0 else m0)"
      by (auto simp: M set_upd_rows)
    then have m1: "m \<in> set (db_mailboxes db)" "m_ID m \<noteq> o_MailboxID r"
      using f(2) [of m0] m(2) by (auto split: if_splits)
    then obtain x where x: "x \<in> set (db_orders db)" "order_open x" "o_ID x = m_ActiveOrderID m" "o_MailboxID x = m_ID m"
      using lease_okD(3) [OF inv m1(1) m(2)] by (auto simp: mailbox_bound_def)
    then have "x \<in> set (db_orders db')" using stays m1(2) by metis
    then show "mailbox_bound db' m" using x by (auto simp: mailbox_bound_def)
  next
    fix s assume s: "s \<in> set (db_states db')" "ms_State s = ServiceLeased"
    then obtain s0 where s0: "s0 \<in> set (db_states db)" "s = (if ms_key s0 = order_key r then g s0 else s0)"
      by (auto simp: S set_upd_rows)
    then have s1: "s \<in> set (db_states db)" "ms_key s \<noteq> order_key r"
      using g(2) [of s0] s(2) by (auto split: if_splits)
    then obtain x where x: "x \<in> set (db_orders db)" "order_open x" "order_key x = ms_key s"
      using lease_okD(4) [OF inv s1(1) s(2)] by (auto simp: state_bound_def)
    then have "x \<in> set (db_orders db')" using stays s1(2) by metis
    then show "state_bound db' s" using x by (auto simp: state_bound_def)
  qed
qed


subsection \<open>Bookings\<close>

text \<open>A booking adds an amount to the balance of one user and records it in one ledger line.\<close>

definition booked :: "string \<Rightarrow> string \<Rightarrow> string \<Rightarrow> string \<Rightarrow> int \<Rightarrow> db \<Rightarrow> db \<Rightarrow> bool" where
  "booked uid oid pid ltype amount db db' \<longleftrightarrow>
     (\<exists>u\<in>set (db_users db). u_ID u = uid
        \<and> db_users db' = upd_rows (\<lambda>x. u_ID x = uid)
             (\<lambda>x. x\<lparr>u_BalanceCents := u_BalanceCents u + amount\<rparr>) (db_users db)
        \<and> (\<exists>l. l_UserID l = uid \<and> l_OrderID l = oid \<and> l_PaymentOrderID l = pid \<and> l_Type l = ltype
             \<and> l_AmountCents l = amount \<and> l_BalanceAfterCents l = u_BalanceCents u + amount
             \<and> db_ledgers db' = db_ledgers db @ [l]))"

lemma booked_users: "booked uid oid pid ltype amount db db' \<Longrightarrow> map u_ID (db_users db') = map u_ID (db_users db)"
  by (auto simp: booked_def upd_rows_def)

subsection \<open>The effect of a refund\<close>

definition release :: "time \<Rightarrow> OrderStatus \<Rightarrow> sqlMailboxService \<Rightarrow> sqlMailboxService" where
  "release now status s = (if ms_State s = ServiceLeased then released_state now status s else s)"

lemma released_state_key [simp]: "ms_key (released_state now status s) = ms_key s"
  by (simp add: released_state_def ms_key_def nextTimeoutState_def Let_def)

lemma release_key [simp]: "ms_key (release now status s) = ms_key s"
  by (simp add: release_def)

lemma release_not_leased [simp]: "ms_State (release now status s) \<noteq> ServiceLeased"
  by (simp add: release_def released_state_def nextTimeoutState_def Let_def)

lemma ms_key_eq: "ms_MailboxID s = o_MailboxID r \<and> ms_ServiceID s = o_ServiceID r \<longleftrightarrow> ms_key s = order_key r"
  by (simp add: ms_key_def order_key_def)

text \<open>Equality up to audit lines and webhook deliveries, the two tables no invariant reads.\<close>

definition same_but_logs :: "db \<Rightarrow> db \<Rightarrow> bool" where
  "same_but_logs db db' \<longleftrightarrow>
     db'\<lparr>db_audits := [], db_deliveries := []\<rparr> = db\<lparr>db_audits := [], db_deliveries := []\<rparr>"

lemma same_but_logs_refl [simp]: "same_but_logs db db"
  by (simp add: same_but_logs_def)

lemma same_but_logs_trans: "same_but_logs db db1 \<Longrightarrow> same_but_logs db1 db2 \<Longrightarrow> same_but_logs db db2"
  by (simp add: same_but_logs_def)

lemma same_but_logsD:
  assumes "same_but_logs db db'"
  shows "db_users db' = db_users db" "db_orders db' = db_orders db" "db_mailboxes db' = db_mailboxes db"
    "db_states db' = db_states db" "db_ledgers db' = db_ledgers db" "db_pay_orders db' = db_pay_orders db"
    "db_services db' = db_services db" "db_pools db' = db_pools db" "db_endpoints db' = db_endpoints db"
    "db_sessions db' = db_sessions db" "db_api_keys db' = db_api_keys db"
    "db_pay_providers db' = db_pay_providers db" "db_mail_events db' = db_mail_events db"
    "db_seeds db' = db_seeds db" "db_configs db' = db_configs db"
  using assms by (cases db; cases db'; simp add: same_but_logs_def)+

lemma same_but_logs_simps [simp]:
  "same_but_logs db (db'\<lparr>db_audits := as\<rparr>) \<longleftrightarrow> same_but_logs db db'"
  "same_but_logs db (db'\<lparr>db_deliveries := ds\<rparr>) \<longleftrightarrow> same_but_logs db db'"
  by (simp_all add: same_but_logs_def)

lemma tx_ok_enqueue_logs:
  assumes "same_but_logs db0 db"
  shows "tx_ok (enqueueOrderWebhook env n order event) db (\<lambda>_. same_but_logs db0)"
  by (rule tx_ok_enqueue) (simp add: assms)

lemma release_service_effect:
  assumes "distinct (map ms_key (db_states db))"
  shows "tx_ok (release_service env n r status) db (\<lambda>_. same_but_logs (db\<lparr>
     db_states := upd_rows (\<lambda>s. ms_key s = order_key r) (release (clock env n) status) (db_states db)\<rparr>))"
proof -
  let ?rel = "release (clock env n) status"
  let ?t = "db_states db"
  have upd: "upsert ms_key (released_state (clock env n) status s) ?t = upd_rows (\<lambda>x. ms_key x = order_key r) ?rel ?t"
    if "s \<in> set ?t" "ms_key s = order_key r" "ms_State s = ServiceLeased" for s
  proof -
    have "upsert ms_key (?rel s) ?t = upd_rows (\<lambda>x. ms_key x = ms_key s) (\<lambda>_. ?rel s) ?t"
      using that(1) by (subst upsert_existing [of s]) simp_all
    then show ?thesis using upd_rows_single [OF assms that(1), of ?rel] that by (simp add: release_def)
  qed
  have same: "upd_rows (\<lambda>x. ms_key x = order_key r) ?rel ?t = ?t"
    if "s \<in> set ?t" "ms_key s = order_key r" "ms_State s \<noteq> ServiceLeased" for s
    using that key_unique [OF assms _ that(1)] by (intro upd_rows_id) (auto simp: release_def)
  have found: "s \<in> set ?t \<and> ms_key s = order_key r" if "row_find (\<lambda>s. ms_key s = order_key r) ?t = Some s" for s
    using row_find_Some [OF that] .
  show ?thesis
    using upd same found
    by (auto simp: release_service_def ms_key_eq Let_def tx_simps save_state_def create_audit_def)
qed

text \<open>The database after a refund, up to its logs.\<close>

definition refunded_db ::
  "sqlOrder \<Rightarrow> sqlOrder \<Rightarrow> int \<Rightarrow> sqlWalletLedger \<Rightarrow> time \<Rightarrow> time \<Rightarrow> OrderStatus \<Rightarrow> db \<Rightarrow> db" where
  "refunded_db r r' balance l now t status db = db\<lparr>
     db_users := upd_rows (\<lambda>x. u_ID x = o_UserID r) (\<lambda>u. u\<lparr>u_BalanceCents := balance\<rparr>) (db_users db),
     db_orders := upsert o_ID r' (db_orders db),
     db_mailboxes := upd_rows (\<lambda>m. m_ID m = o_MailboxID r)
       (\<lambda>m. m\<lparr>m_State := MailboxAvailable, m_ActiveOrderID := [], m_UpdatedAt := t\<rparr>) (db_mailboxes db),
     db_states := upd_rows (\<lambda>s. ms_key s = order_key r) (release now status) (db_states db),
     db_ledgers := db_ledgers db @ [l]\<rparr>"

definition refund_post :: "env \<Rightarrow> nat \<Rightarrow> sqlOrder \<Rightarrow> OrderStatus \<Rightarrow> db \<Rightarrow> sqlOrder \<Rightarrow> db \<Rightarrow> bool" where
  "refund_post env n r status db r' db' \<longleftrightarrow> r' = r\<lparr>o_Status := status, o_Refunded := True\<rparr>
     \<and> (\<exists>u\<in>set (db_users db). u_ID u = o_UserID r \<and> (\<exists>l. l_UserID l = o_UserID r \<and> l_OrderID l = o_ID r
          \<and> l_PaymentOrderID l = [] \<and> l_Type l = ''order_refund'' \<and> l_AmountCents l = o_PriceCents r
          \<and> l_BalanceAfterCents l = u_BalanceCents u + o_PriceCents r
          \<and> same_but_logs (refunded_db r r' (u_BalanceCents u + o_PriceCents r) l
               (clock env (n + 4)) (stamp env (n + 3)) status db) db'))"

lemma order_key_simps [simp]:
  "order_key (r\<lparr>o_Status := st\<rparr>) = order_key r" "order_key (r\<lparr>o_Refunded := b\<rparr>) = order_key r"
  "order_key (r\<lparr>o_FailureReason := x\<rparr>) = order_key r" "order_key (r\<lparr>o_Code := c\<rparr>) = order_key r"
  "order_key (r\<lparr>o_CodeReceivedAt := t\<rparr>) = order_key r" "order_key (r\<lparr>o_CompletedAt := t\<rparr>) = order_key r"
  by (simp_all add: order_key_def)

lemma same_but_logs_ledger:
  "same_but_logs a b \<Longrightarrow> same_but_logs (a\<lparr>db_ledgers := db_ledgers a @ ls\<rparr>) (b\<lparr>db_ledgers := db_ledgers b @ ls\<rparr>)"
  by (cases a; cases b) (simp add: same_but_logs_def)

lemma refundOrder_effect:
  assumes "distinct (map ms_key (db_states db))" and "\<not> o_Refunded r"
  shows "tx_ok (refundOrder env n r status) db (refund_post env n r status db)"
proof -
  let ?r = "r\<lparr>o_Status := status, o_Refunded := True\<rparr>"
  have last: "tx_ok (tx_then (tx_when b (create_audit env (n + 8) a))
      (tx_then (enqueueOrderWebhook env (n + 9) ?r ev) (tx_return ?r))) db2 (refund_post env n r status db)"
    if u: "u \<in> set (db_users db)" "u_ID u = o_UserID r"
      and l: "l_UserID l = o_UserID r" "l_OrderID l = o_ID r" "l_PaymentOrderID l = []"
        "l_Type l = ''order_refund''" "l_AmountCents l = o_PriceCents r"
        "l_BalanceAfterCents l = u_BalanceCents u + o_PriceCents r"
      and eq: "same_but_logs (refunded_db r ?r (u_BalanceCents u + o_PriceCents r) l
               (clock env (n + 4)) (stamp env (n + 3)) status db) db2"
    for b a ev u l db2
  proof -
    have post: "refund_post env n r status db ?r db3"
      if "same_but_logs (refunded_db r ?r (u_BalanceCents u + o_PriceCents r) l
               (clock env (n + 4)) (stamp env (n + 3)) status db) db3" for db3
      unfolding refund_post_def using u l that by blast
    have enq: "tx_ok (enqueueOrderWebhook env (n + 9) ?r ev) db3 (\<lambda>_. refund_post env n r status db ?r)"
      if "same_but_logs (refunded_db r ?r (u_BalanceCents u + o_PriceCents r) l
               (clock env (n + 4)) (stamp env (n + 3)) status db) db3" for db3
      by (rule tx_ok_weaken [OF tx_ok_enqueue_logs [OF that] post])
    show ?thesis by (simp add: tx_simps create_audit_def eq enq)
  qed
  have rel: "tx_ok (tx_then (release_service env (n + 4) ?r status)
      (tx_then (create_ledger env (n + 7) l0)
      (tx_then (tx_when b (create_audit env (n + 8) a))
      (tx_then (enqueueOrderWebhook env (n + 9) ?r ev) (tx_return ?r)))))
      (db\<lparr>db_users := upd_rows (\<lambda>x. u_ID x = u_ID u) (\<lambda>x. x\<lparr>u_BalanceCents := u_BalanceCents u + o_PriceCents r\<rparr>) (db_users db),
          db_orders := upsert o_ID ?r (db_orders db),
          db_mailboxes := upd_rows (\<lambda>m. m_ID m = o_MailboxID r)
       (\<lambda>m. m\<lparr>m_State := MailboxAvailable, m_ActiveOrderID := [], m_UpdatedAt := stamp env (n + 3)\<rparr>) (db_mailboxes db)\<rparr>)
      (refund_post env n r status db)"
    if u: "u \<in> set (db_users db)" "u_ID u = o_UserID r"
      and l: "l_UserID l0 = o_UserID r" "l_OrderID l0 = o_ID r" "l_PaymentOrderID l0 = []"
        "l_Type l0 = ''order_refund''" "l_AmountCents l0 = o_PriceCents r"
        "l_BalanceAfterCents l0 = u_BalanceCents u + o_PriceCents r"
    for u l0 b a ev
  proof -
    let ?D = "db\<lparr>db_users := upd_rows (\<lambda>x. u_ID x = u_ID u) (\<lambda>x. x\<lparr>u_BalanceCents := u_BalanceCents u + o_PriceCents r\<rparr>) (db_users db),
          db_orders := upsert o_ID ?r (db_orders db),
          db_mailboxes := upd_rows (\<lambda>m. m_ID m = o_MailboxID r)
       (\<lambda>m. m\<lparr>m_State := MailboxAvailable, m_ActiveOrderID := [], m_UpdatedAt := stamp env (n + 3)\<rparr>) (db_mailboxes db)\<rparr>"
    have d: "distinct (map ms_key (db_states ?D))" using assms(1) by simp
    show ?thesis
    proof (subst tx_ok_then, rule tx_ok_weaken [OF release_service_effect [OF d]])
      fix x db1
      assume eq: "same_but_logs (?D\<lparr>db_states := upd_rows (\<lambda>s. ms_key s = order_key ?r)
         (release (clock env (n + 4)) status) (db_states ?D)\<rparr>) db1"
      have "tx_ok (tx_then (tx_when b (create_audit env (n + 8) a))
        (tx_then (enqueueOrderWebhook env (n + 9) ?r ev) (tx_return ?r)))
        (db1\<lparr>db_ledgers := db_ledgers db1 @ [l0\<lparr>l_CreatedAt := stamp env (n + 7)\<rparr>]\<rparr>) (refund_post env n r status db)"
        using same_but_logs_ledger [OF eq, of "[l0\<lparr>l_CreatedAt := stamp env (n + 7)\<rparr>]"] u l
        by (intro last [where u = u and l = "l0\<lparr>l_CreatedAt := stamp env (n + 7)\<rparr>"])
          (simp_all add: refunded_db_def)
      then show "tx_ok (tx_then (create_ledger env (n + 7) l0) (tx_then (tx_when b (create_audit env (n + 8) a))
        (tx_then (enqueueOrderWebhook env (n + 9) ?r ev) (tx_return ?r)))) db1 (refund_post env n r status db)"
        by (simp add: create_ledger_def tx_ok_then tx_ok_insert)
    qed
  qed
  show ?thesis
    unfolding refundOrder_def Let_def write_defs if_not_P [OF assms(2)]
    apply (subst tx_ok_bind)
    apply (subst tx_ok_one)
    apply (intro allI impI, elim conjE)
    apply (drule row_find_Some)
    apply (elim conjE)
    apply (simp only: tx_ok_then tx_ok_update tx_ok_when tx_ok_return)
    apply (intro impI)
    subgoal for u
      using rel [of u "ledger_row (uuid env (n + 7)) (u_ID u) (o_ID ?r) [] ''order_refund'' (o_PriceCents ?r)
                     (u_BalanceCents u + o_PriceCents r) (refund_description ?r status)"]
      by (simp add: tx_ok_then tx_ok_when tx_ok_return ledger_row_def)
    done
qed


lemma refund_postE:
  assumes "refund_post env n r status db r' db'"
  obtains u l where "r' = r\<lparr>o_Status := status, o_Refunded := True\<rparr>"
    and "same_but_logs (refunded_db r r' (u_BalanceCents u + o_PriceCents r) l
               (clock env (n + 4)) (stamp env (n + 3)) status db) db'"
    and "u \<in> set (db_users db)" "u_ID u = o_UserID r" "l_UserID l = o_UserID r" "l_OrderID l = o_ID r"
      "l_PaymentOrderID l = []" "l_Type l = ''order_refund''" "l_AmountCents l = o_PriceCents r"
      "l_BalanceAfterCents l = u_BalanceCents u + o_PriceCents r"
  using assms unfolding refund_post_def by blast

text \<open>What a refund does to the leases and to the money, for a row that may carry a new failure reason.\<close>

lemma refund_post_closed:
  assumes "refund_post env n r0 status db r' db'" and "r \<in> set (db_orders db)" and "order_open r"
    and "o_ID r0 = o_ID r" "o_MailboxID r0 = o_MailboxID r" "o_ServiceID r0 = o_ServiceID r"
    and "status \<noteq> OrderAssigned" "status \<noteq> OrderWaitingCode"
  shows "closed r r' db db'"
proof -
  obtain u :: sqlUser and l where r': "r' = r0\<lparr>o_Status := status, o_Refunded := True\<rparr>" and
    eq: "same_but_logs (refunded_db r0 r' (u_BalanceCents u + o_PriceCents r0) l
               (clock env (n + 4)) (stamp env (n + 3)) status db) db'"
    using assms(1) by (rule refund_postE)
  have k: "order_key r0 = order_key r" using assms by (simp add: order_key_def)
  show ?thesis
    unfolding closed_def
  proof (intro conjI)
    show "\<exists>f. (\<forall>m. m_ID (f m) = m_ID m \<and> m_ActiveOrderID (f m) = [])
          \<and> db_mailboxes db' = upd_rows (\<lambda>m. m_ID m = o_MailboxID r) f (db_mailboxes db)"
      using same_but_logsD(3) [OF eq] assms(5) by (intro exI conjI) (simp_all add: refunded_db_def)
    show "\<exists>g. (\<forall>s. ms_key (g s) = ms_key s \<and> ms_State (g s) \<noteq> ServiceLeased)
          \<and> db_states db' = upd_rows (\<lambda>s. ms_key s = order_key r) g (db_states db)"
      using same_but_logsD(4) [OF eq] k
      by (intro exI [of _ "release (clock env (n + 4)) status"]) (simp add: refunded_db_def)
  qed (use assms same_but_logsD(1,2) [OF eq] r' in
      \<open>simp_all add: refunded_db_def order_open_def map_key_upd_rows [where key = u_ID]\<close>)
qed

lemma refund_post_booked:
  "refund_post env n r status db r' db' \<Longrightarrow>
     booked (o_UserID r) (o_ID r) [] ''order_refund'' (o_PriceCents r) db db'"
  by (erule refund_postE, frule same_but_logsD(1), drule same_but_logsD(5))
    (force simp: refunded_db_def booked_def)

subsection \<open>The effects of the other operations\<close>

lemma ReceiveCodeValue_effect:
  "tx_ok (ReceiveCodeValue env oid code0) db (\<lambda>res db'. \<exists>r\<in>set (db_orders db). o_ID r = oid \<and> order_open r
     \<and> clock env 0 < o_ExpiresAt r \<and> trim_space code0 \<noteq> []
     \<and> (\<exists>r'. r' = r\<lparr>o_Status := OrderCodeReceived, o_Code := trim_space code0, o_CodeReceivedAt := Some (clock env 0)\<rparr>
        \<and> res = mapOrder r'
        \<and> same_but_logs (db\<lparr>db_orders := upsert o_ID r' (db_orders db),
            db_mailboxes := upd_rows (\<lambda>m. m_ID m = o_MailboxID r)
              (\<lambda>m. m\<lparr>m_State := MailboxAvailable, m_ActiveOrderID := [],
                     m_TodayCodes := (if received_today env m then m_TodayCodes m + 1 else 1),
                     m_LastReceivedAt := Some (clock env 0), m_UpdatedAt := stamp env 2\<rparr>) (db_mailboxes db),
            db_states := upd_rows (\<lambda>s. ms_key s = order_key r)
              (\<lambda>s. s\<lparr>ms_State := ServiceConsumed, ms_ChangedAt := clock env 0\<rparr>) (db_states db)\<rparr>) db'))"
  (is "tx_ok _ _ ?Q")
  unfolding ReceiveCodeValue_def Let_def write_defs ms_key_eq
  by (simp only: tx_ok_bind tx_ok_first tx_ok_then tx_ok_guard tx_ok_update tx_ok_return)
    (auto intro!: tx_ok_weaken [OF tx_ok_enqueue_logs [OF same_but_logs_refl]] dest!: row_find_Some)

lemma CompleteOrder_effect:
  "tx_ok (CompleteOrder env oid userID) db (\<lambda>res db'. \<exists>r\<in>set (db_orders db). o_ID r = oid
     \<and> (userID \<noteq> [] \<longrightarrow> o_UserID r = userID) \<and> o_Status r = OrderCodeReceived
     \<and> (\<exists>r'. r' = r\<lparr>o_Status := OrderCompleted, o_CompletedAt := Some (clock env 0)\<rparr> \<and> res = mapOrder r'
        \<and> same_but_logs (db\<lparr>db_orders := upsert o_ID r' (db_orders db)\<rparr>) db'))"
  unfolding CompleteOrder_def updateOrder_def Let_def write_defs find_user_order_def
  by (simp only: tx_ok_bind tx_ok_first tx_ok_then tx_ok_guard tx_ok_update tx_ok_return)
    (auto intro!: tx_ok_weaken [OF tx_ok_enqueue_logs [OF same_but_logs_refl]] dest!: row_find_Some)


subsection \<open>The effect of an allocation\<close>

definition allocatable :: "env \<Rightarrow> (string \<Rightarrow> bool) \<Rightarrow> string \<Rightarrow> string list \<Rightarrow> db \<Rightarrow> sqlMailbox \<Rightarrow> bool" where
  "allocatable env locked serviceID providers db m \<longleftrightarrow> m \<in> set (db_mailboxes db)
     \<and> mailbox_ready env 0 db serviceID m \<and> m_Provider m \<in> set providers \<and> \<not> locked (m_ID m)"

lemma sort_key_head:
  assumes "sort_key f (sort_key g xs) = x # rest"
  shows "x \<in> set xs" and "y \<in> set xs \<Longrightarrow> f x \<le> f y" and "y \<in> set xs \<Longrightarrow> f y = f x \<Longrightarrow> g x \<le> g y"
proof -
  have "set (x # rest) = set (sort_key f (sort_key g xs))" using assms by (simp only:)
  then have st: "set (x # rest) = set xs" by (simp only: set_sort)
  then show "x \<in> set xs" by auto
  have so: "sorted (map f (x # rest))" using sorted_sort_key [of f "sort_key g xs"] assms by (simp only:)
  show le: "f x \<le> f y" if "y \<in> set xs" for y using that st so by auto
  assume y: "y \<in> set xs" "f y = f x"
  have "filter (\<lambda>z. f z = f x) (sort_key f (sort_key g xs)) = filter (\<lambda>z. f z = f x) (sort_key g xs)"
    by (rule sort_key_stable)
  then have eq: "filter (\<lambda>z. f z = f x) (x # rest) = filter (\<lambda>z. f z = f x) (sort_key g xs)"
    using assms by (simp only:)
  have "sorted (map g (filter (\<lambda>z. f z = f x) (sort_key g xs)))"
    by (simp add: sorted_filter)
  then have "sorted (map g (filter (\<lambda>z. f z = f x) (x # rest)))" by (simp only: eq)
  moreover have "y \<in> set (filter (\<lambda>z. f z = f x) (x # rest))"
    unfolding eq using y by simp
  ultimately show "g x \<le> g y" by auto
qed

lemma select_mailbox_Some:
  assumes "select_mailbox env 0 locked serviceID providers db = Some m"
  shows "allocatable env locked serviceID providers db m"
    and "allocatable env locked serviceID providers db m' \<Longrightarrow> m_HealthScore m' \<le> m_HealthScore m
       \<and> (m_HealthScore m' = m_HealthScore m \<longrightarrow> m_ID m \<le> m_ID m')"
proof -
  let ?c = "filter (\<lambda>m. mailbox_ready env 0 db serviceID m \<and> m_Provider m \<in> set providers
                \<and> \<not> locked (m_ID m)) (db_mailboxes db)"
  obtain rest where r: "sort_key (\<lambda>m. - m_HealthScore m) (sort_key m_ID ?c) = m # rest"
    using assms by (auto simp: select_mailbox_def split: list.splits)
  show "allocatable env locked serviceID providers db m"
    using sort_key_head(1) [OF r] by (simp add: allocatable_def)
  assume "allocatable env locked serviceID providers db m'"
  then have "m' \<in> set ?c" by (simp add: allocatable_def)
  then show "m_HealthScore m' \<le> m_HealthScore m \<and> (m_HealthScore m' = m_HealthScore m \<longrightarrow> m_ID m \<le> m_ID m')"
    using sort_key_head(2,3) [OF r, of m'] by simp
qed

definition create_post ::
  "env \<Rightarrow> sqlUser \<Rightarrow> sqlService \<Rightarrow> sqlMailbox \<Rightarrow> string list \<Rightarrow> int \<Rightarrow> string \<Rightarrow> db \<Rightarrow> sqlOrder \<Rightarrow> db \<Rightarrow> bool" where
  "create_post env user service mailbox providers price requestID db r db' \<longleftrightarrow>
     r = new_order env (u_ID user) service mailbox providers price requestID
     \<and> fresh_key o_ID (o_ID r) (db_orders db) \<and> fresh_key idx_user_request (idx_user_request r) (db_orders db)
     \<and> (\<exists>l. l_UserID l = u_ID user \<and> l_OrderID l = o_ID r \<and> l_PaymentOrderID l = []
          \<and> l_Type l = ''order_charge'' \<and> l_AmountCents l = - price
          \<and> l_BalanceAfterCents l = u_BalanceCents user - price
          \<and> same_but_logs (db\<lparr>
              db_users := upd_rows (\<lambda>u. u_ID u = u_ID user)
                (\<lambda>u. u\<lparr>u_BalanceCents := u_BalanceCents user - price\<rparr>) (db_users db),
              db_orders := db_orders db @ [r],
              db_mailboxes := upd_rows (\<lambda>m. m_ID m = m_ID mailbox)
                (\<lambda>m. m\<lparr>m_State := MailboxLeased, m_ActiveOrderID := o_ID r, m_UpdatedAt := stamp env 6\<rparr>)
                (db_mailboxes db),
              db_states := upd_rows (\<lambda>s. ms_key s = order_key r)
                (\<lambda>s. s\<lparr>ms_State := ServiceLeased, ms_ChangedAt := clock env 1\<rparr>) (db_states db),
              db_ledgers := db_ledgers db @ [l]\<rparr>) db')"

lemma create_postE:
  assumes "create_post env user service mailbox providers price requestID db r db'"
  obtains l where "r = new_order env (u_ID user) service mailbox providers price requestID"
     "fresh_key o_ID (o_ID r) (db_orders db)" "fresh_key idx_user_request (idx_user_request r) (db_orders db)"
     "l_UserID l = u_ID user" "l_OrderID l = o_ID r" "l_PaymentOrderID l = []"
     "l_Type l = ''order_charge''" "l_AmountCents l = - price" "l_BalanceAfterCents l = u_BalanceCents user - price"
     "same_but_logs (db\<lparr>
              db_users := upd_rows (\<lambda>u. u_ID u = u_ID user)
                (\<lambda>u. u\<lparr>u_BalanceCents := u_BalanceCents user - price\<rparr>) (db_users db),
              db_orders := db_orders db @ [r],
              db_mailboxes := upd_rows (\<lambda>m. m_ID m = m_ID mailbox)
                (\<lambda>m. m\<lparr>m_State := MailboxLeased, m_ActiveOrderID := o_ID r, m_UpdatedAt := stamp env 6\<rparr>)
                (db_mailboxes db),
              db_states := upd_rows (\<lambda>s. ms_key s = order_key r)
                (\<lambda>s. s\<lparr>ms_State := ServiceLeased, ms_ChangedAt := clock env 1\<rparr>) (db_states db),
              db_ledgers := db_ledgers db @ [l]\<rparr>) db'"
  using assms unfolding create_post_def by blast

lemma new_order_simps [simp]:
  "o_ID (new_order env uid service mailbox providers price rid) = new_order_id (uuid env 0)"
  "o_UserID (new_order env uid service mailbox providers price rid) = uid"
  "o_ServiceID (new_order env uid service mailbox providers price rid) = sv_ID service"
  "o_MailboxID (new_order env uid service mailbox providers price rid) = m_ID mailbox"
  "o_MailboxProvider (new_order env uid service mailbox providers price rid) = m_Provider mailbox"
  "o_Status (new_order env uid service mailbox providers price rid) = OrderWaitingCode"
  "o_PriceCents (new_order env uid service mailbox providers price rid) = price"
  "o_Refunded (new_order env uid service mailbox providers price rid) = False"
  "o_RequestID (new_order env uid service mailbox providers price rid) = rid"
  "o_Code (new_order env uid service mailbox providers price rid) = []"
  "o_ExpiresAt (new_order env uid service mailbox providers price rid) =
     clock env 1 + effectiveOrderTTLSeconds (sv_TTLSeconds service) * second"
  "order_key (new_order env uid service mailbox providers price rid) = (m_ID mailbox, sv_ID service)"
  by (simp_all add: new_order_def order_key_def Let_def)

lemma new_order_id_nonempty [simp]: "new_order_id u \<noteq> []"
  by (simp add: new_order_id_def)

lemma charge_and_lease_effect:
  "tx_ok (charge_and_lease env user service mailbox providers price requestID) db
     (\<lambda>res db'. \<exists>r. res = mapOrder r \<and> create_post env user service mailbox providers price requestID db r db')"
proof -
  let ?r = "new_order env (u_ID user) service mailbox providers price requestID"
  have key: "ms_MailboxID s = m_ID mailbox \<and> ms_ServiceID s = sv_ID service \<longleftrightarrow> ms_key s = order_key ?r" for s
    by (simp add: ms_key_def)
  have enq: "tx_ok (enqueueOrderWebhook env 9 ?r ev) db1 (\<lambda>_ db'. create_post env user service mailbox providers price requestID db ?r db')"
    if "fresh_key o_ID (o_ID ?r) (db_orders db)" "fresh_key idx_user_request (idx_user_request ?r) (db_orders db)"
      and "l_UserID l = u_ID user" "l_OrderID l = o_ID ?r" "l_PaymentOrderID l = []"
        "l_Type l = ''order_charge''" "l_AmountCents l = - price" "l_BalanceAfterCents l = u_BalanceCents user - price"
      and "db1 = db\<lparr>
              db_users := upd_rows (\<lambda>u. u_ID u = u_ID user)
                (\<lambda>u. u\<lparr>u_BalanceCents := u_BalanceCents user - price\<rparr>) (db_users db),
              db_orders := db_orders db @ [?r],
              db_mailboxes := upd_rows (\<lambda>m. m_ID m = m_ID mailbox)
                (\<lambda>m. m\<lparr>m_State := MailboxLeased, m_ActiveOrderID := o_ID ?r, m_UpdatedAt := stamp env 6\<rparr>)
                (db_mailboxes db),
              db_states := upd_rows (\<lambda>s. ms_key s = order_key ?r)
                (\<lambda>s. s\<lparr>ms_State := ServiceLeased, ms_ChangedAt := clock env 1\<rparr>) (db_states db),
              db_ledgers := db_ledgers db @ [l]\<rparr>" for ev l db1
    by (rule tx_ok_weaken [OF tx_ok_enqueue_logs [OF same_but_logs_refl]])
      (use that in \<open>auto simp: create_post_def\<close>)
  show ?thesis
    unfolding charge_and_lease_def Let_def write_defs key
    apply (simp only: tx_ok_then tx_ok_update tx_ok_return create_order_def create_ledger_def tx_ok_insert)
    apply (intro impI)
    apply (rule tx_ok_weaken [OF enq [where l = "(ledger_row (uuid env 1) (u_ID user) (o_ID ?r) []
                   ''order_charge'' (- price) (u_BalanceCents user - price) msg_order_charge)\<lparr>l_CreatedAt := stamp env 8\<rparr>"]])
    by (auto simp: ledger_row_def)
qed


text \<open>Everything a successful allocation has checked.\<close>

definition create_checked ::
  "env \<Rightarrow> (string \<Rightarrow> bool) \<Rightarrow> string \<Rightarrow> string \<Rightarrow> string list \<Rightarrow> db
   \<Rightarrow> sqlUser \<Rightarrow> sqlService \<Rightarrow> sqlMailbox \<Rightarrow> string list \<Rightarrow> float64 \<Rightarrow> int \<Rightarrow> bool" where
  "create_checked env locked userID serviceID requested db user service mailbox providers maximum price \<longleftrightarrow>
     service \<in> set (db_services db) \<and> (sv_ID service = serviceID \<or> sv_Code service = serviceID)
     \<and> sv_Enabled service
     \<and> validateOrderProviders (mapService service) requested = Inr (providers, maximum)
     \<and> user \<in> set (db_users db) \<and> u_ID user = userID \<and> u_Status user = ''active''
     \<and> cents maximum \<le> u_BalanceCents user
     \<and> select_mailbox env 0 locked (sv_ID service) providers db = Some mailbox
     \<and> map_of (effectiveProviderPricesCents service) (m_Provider mailbox) = Some price"

lemma CreateOrder_tx_effect:
  "tx_ok (CreateOrder_tx env locked userID serviceID requestID requested) db (\<lambda>res db'. case res of
     Inl existing \<Rightarrow> db' = db \<and> requestID \<noteq> []
       \<and> (\<exists>r\<in>set (db_orders db). o_UserID r = userID \<and> o_RequestID r = requestID \<and> existing = mapOrder r)
   | Inr order \<Rightarrow> \<exists>user service mailbox providers maximum price r.
       create_checked env locked userID serviceID requested db user service mailbox providers maximum price
       \<and> order = mapOrder r \<and> create_post env user service mailbox providers price requestID db r db')"
  (is "tx_ok _ _ ?Q")
proof -
  have dup: "?Q (Inl (mapOrder r)) db"
    if "row_first o_ID (\<lambda>r. o_UserID r = userID \<and> o_RequestID r = requestID) (db_orders db) = Some r"
      "requestID \<noteq> []" for r
    using row_first_Some [OF that(1)] that(2) by auto
  have charge: "tx_ok (charge_and_lease env user service mailbox providers price requestID) db
      (\<lambda>x db'. ?Q (Inr x) db')"
    if "create_checked env locked userID serviceID requested db user service mailbox providers maximum price"
    for user service mailbox providers maximum price
    by (rule tx_ok_weaken [OF charge_and_lease_effect]) (simp only: sum.case, use that in blast)
  have alloc: "tx_ok (tx_bind (tx_first env 2 ErrUserNotFound
              (\<lambda>db. row_find (\<lambda>u. u_ID u = userID \<and> u_Status u = ''active'') (db_users db)))
           (\<lambda>user. tx_then (tx_guard (\<not> u_BalanceCents user < cents maximum) ErrInsufficientBalance)
           (tx_bind (tx_first env 3 ErrNoMailboxAvailable (select_mailbox env 0 locked (sv_ID service) providers))
           (\<lambda>mailbox. case map_of (effectiveProviderPricesCents service) (m_Provider mailbox) of
                None \<Rightarrow> tx_fail ErrInvalidMailboxProviders
              | Some priceCents \<Rightarrow>
                tx_bind (charge_and_lease env user service mailbox providers priceCents requestID)
                  (\<lambda>order. tx_return (Inr order)))))) db ?Q"
    if s: "row_first sv_ID (\<lambda>s. sv_ID s = serviceID \<or> sv_Code s = serviceID) (db_services db) = Some service"
      and v: "sv_Enabled service" "validateOrderProviders (mapService service) requested = Inr (providers, maximum)"
    for service providers maximum
  proof -
    have sv: "service \<in> set (db_services db)" "sv_ID service = serviceID \<or> sv_Code service = serviceID"
      using row_first_Some [OF s] by auto
    show ?thesis
    proof (simp only: tx_ok_bind tx_ok_first tx_ok_then tx_ok_guard tx_ok_option tx_ok_return tx_ok_fail,
        intro conjI allI impI TrueI, elim conjE)
      fix user mailbox price
      assume u: "row_find (\<lambda>u. u_ID u = userID \<and> u_Status u = ''active'') (db_users db) = Some user"
        and b: "\<not> u_BalanceCents user < cents maximum"
        and m: "select_mailbox env 0 locked (sv_ID service) providers db = Some mailbox"
        and p: "map_of (effectiveProviderPricesCents service) (m_Provider mailbox) = Some price"
      have "create_checked env locked userID serviceID requested db user service mailbox providers maximum price"
        using row_find_Some [OF u] sv v b m p by (auto simp: create_checked_def)
      then show "tx_ok (charge_and_lease env user service mailbox providers price requestID) db
          (\<lambda>x. ?Q (Inr x))"
        by (rule charge)
    qed
  qed
  show ?thesis
    unfolding CreateOrder_tx_def tx_ok_bind [of "tx_first env 0 _ _"] tx_ok_first
  proof (intro allI impI, elim conjE)
    fix service
    assume s: "row_first sv_ID (\<lambda>s. sv_ID s = serviceID \<or> sv_Code s = serviceID) (db_services db) = Some service"
    show "tx_ok (tx_then (tx_guard (sv_Enabled service) ErrServiceDisabled)
     (case validateOrderProviders (mapService service) requested of
        Inl e \<Rightarrow> tx_fail e
      | Inr (requestedProviders, maximumPrice) \<Rightarrow>
        tx_bind (if requestID = [] then tx_return None
                 else tx_query env 1 (\<lambda>db. row_first o_ID
                   (\<lambda>r. o_UserID r = userID \<and> o_RequestID r = requestID) (db_orders db)))
        (\<lambda>existing. case existing of
           Some r \<Rightarrow> tx_return (Inl (mapOrder r))
         | None \<Rightarrow>
           tx_bind (tx_first env 2 ErrUserNotFound
              (\<lambda>db. row_find (\<lambda>u. u_ID u = userID \<and> u_Status u = ''active'') (db_users db)))
           (\<lambda>user. tx_then (tx_guard (\<not> u_BalanceCents user < cents maximumPrice) ErrInsufficientBalance)
           (tx_bind (tx_first env 3 ErrNoMailboxAvailable
              (select_mailbox env 0 locked (sv_ID service) requestedProviders))
           (\<lambda>mailbox. case map_of (effectiveProviderPricesCents service) (m_Provider mailbox) of
                None \<Rightarrow> tx_fail ErrInvalidMailboxProviders
              | Some priceCents \<Rightarrow>
                tx_bind (charge_and_lease env user service mailbox requestedProviders priceCents requestID)
                  (\<lambda>order. tx_return (Inr order)))))))) db ?Q"
      using dup alloc [OF s]
      by (cases "validateOrderProviders (mapService service) requested")
        (auto simp: tx_ok_then tx_ok_guard tx_ok_fail tx_ok_prod tx_ok_bind [of "if _ then _ else _"]
          tx_ok_return tx_ok_query split: option.split)
  qed
qed


subsection \<open>Every operation keeps the lease invariant\<close>

lemma create_post_allocated:
  assumes c: "create_checked env locked userID serviceID requested db user service mailbox providers maximum price"
    and p: "create_post env user service mailbox providers price requestID db r db'"
  shows "allocated r db db'"
proof -
  obtain l where r: "r = new_order env (u_ID user) service mailbox providers price requestID"
    and fresh: "fresh_key o_ID (o_ID r) (db_orders db)"
    and eq: "same_but_logs (db\<lparr>
              db_users := upd_rows (\<lambda>u. u_ID u = u_ID user)
                (\<lambda>u. u\<lparr>u_BalanceCents := u_BalanceCents user - price\<rparr>) (db_users db),
              db_orders := db_orders db @ [r],
              db_mailboxes := upd_rows (\<lambda>m. m_ID m = m_ID mailbox)
                (\<lambda>m. m\<lparr>m_State := MailboxLeased, m_ActiveOrderID := o_ID r, m_UpdatedAt := stamp env 6\<rparr>)
                (db_mailboxes db),
              db_states := upd_rows (\<lambda>s. ms_key s = order_key r)
                (\<lambda>s. s\<lparr>ms_State := ServiceLeased, ms_ChangedAt := clock env 1\<rparr>) (db_states db),
              db_ledgers := db_ledgers db @ [l]\<rparr>) db'"
    using p by (rule create_postE)
  have ready: "mailbox \<in> set (db_mailboxes db)" "mailbox_ready env 0 db (sv_ID service) mailbox"
    using c select_mailbox_Some(1) by (auto simp: create_checked_def allocatable_def)
  show ?thesis
    unfolding allocated_def
  proof (intro conjI)
    show "order_open r" "\<not> o_Refunded r" "o_ID r \<noteq> []" by (simp_all add: r order_open_def)
    show "o_ID r \<notin> o_ID ` set (db_orders db)" using fresh by (simp add: fresh_key_def)
    show "\<exists>m\<in>set (db_mailboxes db). m_ID m = o_MailboxID r \<and> m_ActiveOrderID m = []"
      using ready by (auto simp: r mailbox_ready_def)
    show "\<exists>s\<in>set (db_states db). ms_key s = order_key r \<and> ms_State s = ServiceAvailable"
      using ready by (auto simp: r mailbox_ready_def ms_key_def)
    show "map u_ID (db_users db') = map u_ID (db_users db)"
      using same_but_logsD(1) [OF eq] by (simp add: map_key_upd_rows [where key = u_ID])
    show "db_orders db' = db_orders db @ [r]" using same_but_logsD(2) [OF eq] by simp
    show "\<exists>f. (\<forall>m. m_ID (f m) = m_ID m \<and> m_ActiveOrderID (f m) = o_ID r)
          \<and> db_mailboxes db' = upd_rows (\<lambda>m. m_ID m = o_MailboxID r) f (db_mailboxes db)"
      using same_but_logsD(3) [OF eq] by (intro exI conjI) (simp_all add: r)
    show "\<exists>g. (\<forall>s. ms_key (g s) = ms_key s \<and> ms_State (g s) = ServiceLeased)
          \<and> db_states db' = upd_rows (\<lambda>s. ms_key s = order_key r) g (db_states db)"
      using same_but_logsD(4) [OF eq]
      by (intro exI [of _ "\<lambda>s. s\<lparr>ms_State := ServiceLeased, ms_ChangedAt := clock env 1\<rparr>"]) (simp add: ms_key_def)
  qed
qed

lemma create_post_booked:
  assumes "create_post env user service mailbox providers price requestID db r db'"
    and "user \<in> set (db_users db)"
  shows "booked (u_ID user) (o_ID r) [] ''order_charge'' (- price) db db'"
  by (rule create_postE [OF assms(1)], frule same_but_logsD(1), drule same_but_logsD(5))
    (use assms(2) in \<open>force simp: booked_def\<close>)

lemma allocate_order_cases:
  "allocate_order env locked userID serviceID requestID requested db = (res, db') \<Longrightarrow>
     db' = db \<and> (\<forall>order. res \<noteq> Created order)
     \<or> (\<exists>user service mailbox providers maximum price r.
          create_checked env locked userID serviceID requested db user service mailbox providers maximum price
          \<and> res = Created (mapOrder r) \<and> create_post env user service mailbox providers price requestID db r db')"
  using CreateOrder_tx_effect [of env locked userID serviceID requestID requested db]
  by (auto simp: allocate_order_def run_tx_def tx_ok_def split: sum.splits prod.splits)

lemma allocate_order_leases: "lease_ok db \<Longrightarrow> lease_ok (snd (allocate_order env locked uid sid rid ps db))"
proof -
  assume inv: "lease_ok db"
  obtain res db' where a: "allocate_order env locked uid sid rid ps db = (res, db')" by (cases "allocate_order env locked uid sid rid ps db")
  show ?thesis
    using allocate_order_cases [OF a] inv lease_ok_allocated [OF inv create_post_allocated] a by auto
qed

lemma receipt_closed:
  assumes r: "r \<in> set (db_orders db)" "order_open r"
    and eq: "same_but_logs (db\<lparr>db_orders :=
        upsert o_ID (r\<lparr>o_Status := OrderCodeReceived, o_Code := code, o_CodeReceivedAt := Some now\<rparr>) (db_orders db),
            db_mailboxes := upd_rows (\<lambda>m. m_ID m = o_MailboxID r)
              (\<lambda>m. m\<lparr>m_State := MailboxAvailable, m_ActiveOrderID := [],
                     m_TodayCodes := (if received_today env m then m_TodayCodes m + 1 else 1),
                     m_LastReceivedAt := Some now, m_UpdatedAt := stamp env 2\<rparr>) (db_mailboxes db),
            db_states := upd_rows (\<lambda>s. ms_key s = order_key r)
              (\<lambda>s. s\<lparr>ms_State := ServiceConsumed, ms_ChangedAt := now\<rparr>) (db_states db)\<rparr>) db'"
  shows "closed r (r\<lparr>o_Status := OrderCodeReceived, o_Code := code, o_CodeReceivedAt := Some now\<rparr>) db db'"
  unfolding closed_def
proof (intro conjI)
  show "\<exists>f. (\<forall>m. m_ID (f m) = m_ID m \<and> m_ActiveOrderID (f m) = [])
        \<and> db_mailboxes db' = upd_rows (\<lambda>m. m_ID m = o_MailboxID r) f (db_mailboxes db)"
    using same_but_logsD(3) [OF eq] by (intro exI conjI) simp_all
  show "\<exists>g. (\<forall>s. ms_key (g s) = ms_key s \<and> ms_State (g s) \<noteq> ServiceLeased)
        \<and> db_states db' = upd_rows (\<lambda>s. ms_key s = order_key r) g (db_states db)"
    using same_but_logsD(4) [OF eq]
    by (intro exI [of _ "\<lambda>s. s\<lparr>ms_State := ServiceConsumed, ms_ChangedAt := now\<rparr>"]) (simp add: ms_key_def)
qed (use r same_but_logsD(1,2) [OF eq] in \<open>simp_all add: order_open_def\<close>)

lemma ReceiveCodeValue_leases:
  assumes inv: "lease_ok db"
  shows "lease_ok (snd (run_tx (ReceiveCodeValue env oid code) db))"
  by (rule run_tx_inv [where I = lease_ok, OF inv], rule tx_ok_weaken [OF ReceiveCodeValue_effect], elim bexE exE conjE,
      rule lease_ok_closed [OF inv], rule receipt_closed) auto

text \<open>An order that was not open and is still not open may be rewritten freely.\<close>

lemma lease_ok_rewrite:
  assumes inv: "lease_ok db" and r: "r \<in> set (db_orders db)" "\<not> order_open r" "\<not> order_open r'" "o_ID r' = o_ID r"
    and eq: "same_but_logs (db\<lparr>db_orders := upsert o_ID r' (db_orders db)\<rparr>) db'"
  shows "lease_ok db'"
proof -
  note k = keys_okD [OF lease_okD(1) [OF inv]]
  have O: "db_orders db' = upsert o_ID r' (db_orders db)" and M: "db_mailboxes db' = db_mailboxes db"
    and S: "db_states db' = db_states db" and U: "db_users db' = db_users db"
    using same_but_logsD [OF eq] by simp_all
  have same: "x \<in> set (db_orders db') \<longleftrightarrow> x \<in> set (db_orders db)" if "order_open x" for x
    using that r key_unique [OF k(2) _ r(1)] by (auto simp: O set_upsert)
  have d: "distinct (map o_ID (db_orders db'))" using k(2) by (simp add: O distinct_upsert)
  have bex: "(\<exists>x\<in>set (db_orders db'). order_open x \<and> P x) \<longleftrightarrow> (\<exists>x\<in>set (db_orders db). order_open x \<and> P x)" for P
    using same by blast
  have ball: "(\<forall>x\<in>set (db_orders db'). order_open x \<longrightarrow> P x) \<longleftrightarrow> (\<forall>x\<in>set (db_orders db). order_open x \<longrightarrow> P x)" for P
    using same by blast
  show ?thesis
    using inv d
    by (simp add: lease_ok_def keys_ok_def M S U order_leased_def mailbox_bound_def state_bound_def bex ball)
qed

lemma CompleteOrder_leases:
  assumes inv: "lease_ok db"
  shows "lease_ok (snd (run_tx (CompleteOrder env oid uid) db))"
  by (rule run_tx_inv [where I = lease_ok, OF inv], rule tx_ok_weaken [OF CompleteOrder_effect], elim bexE exE conjE,
      rule lease_ok_rewrite [OF inv]) (auto simp: order_open_def)

text \<open>The three callers of a refund.\<close>

lemma refund_call:
  assumes inv: "lease_ok db" and r: "r \<in> set (db_orders db)" "order_open r"
    and r0: "o_ID r0 = o_ID r" "o_MailboxID r0 = o_MailboxID r" "o_ServiceID r0 = o_ServiceID r"
      "o_Refunded r0 = o_Refunded r"
    and st: "status = OrderCanceled \<or> status = OrderExpiredRefunded"
  shows "tx_ok (refundOrder env n r0 status) db
     (\<lambda>r' db'. lease_ok db' \<and> closed r r' db db' \<and> refund_post env n r0 status db r' db')"
proof -
  have nr: "\<not> o_Refunded r0" using lease_okD(2) [OF inv r] r0 by (simp add: order_leased_def)
  have d: "distinct (map ms_key (db_states db))" using keys_okD(4) [OF lease_okD(1) [OF inv]] .
  show ?thesis
  proof (rule tx_ok_weaken [OF refundOrder_effect [OF d nr]], intro conjI)
    fix r' db' assume post: "refund_post env n r0 status db r' db'"
    show c: "closed r r' db db'" using refund_post_closed [OF post r r0(1-3)] st by auto
    show "lease_ok db'" by (rule lease_ok_closed [OF inv c])
    show "refund_post env n r0 status db r' db'" by (rule post)
  qed
qed

lemma CancelOrder_leases:
  assumes inv: "lease_ok db"
  shows "lease_ok (snd (run_tx (CancelOrder env oid uid) db))"
proof (rule run_tx_inv [where I = lease_ok, OF inv])
  show "tx_ok (CancelOrder env oid uid) db (\<lambda>_. lease_ok)"
    unfolding CancelOrder_def tx_ok_bind [of "tx_first _ _ _ _"] tx_ok_first
  proof (intro allI impI, elim conjE)
    fix r assume "find_user_order oid uid db = Some r"
    then have r: "r \<in> set (db_orders db)" using row_find_Some by (fastforce simp: find_user_order_def)
    show "tx_ok (tx_then (tx_guard (order_open r) ErrInvalidOrderState)
       (tx_bind (refundOrder env 1 r OrderCanceled) (\<lambda>order'. tx_return (mapOrder order')))) db (\<lambda>_. lease_ok)"
      by (simp add: tx_ok_then tx_ok_guard tx_ok_bind tx_ok_return)
        (intro impI, rule tx_ok_weaken [OF refund_call [OF inv r]], auto)
  qed
qed

lemma reap_one_leases:
  assumes inv: "lease_ok db"
  shows "lease_ok (snd (run_tx (reap_one env oid) db))"
proof (rule run_tx_inv [where I = lease_ok, OF inv])
  show "tx_ok (reap_one env oid) db (\<lambda>_. lease_ok)"
    unfolding reap_one_def tx_ok_bind [of "tx_one _ _ _"] tx_ok_one
  proof (intro allI impI, elim conjE)
    fix r assume "row_find (\<lambda>r. o_ID r = oid) (db_orders db) = Some r"
    then have r: "r \<in> set (db_orders db)" using row_find_Some by fastforce
    show "tx_ok (if o_ExpiresAt r > clock env 0 \<or> \<not> order_open r then tx_return False
        else tx_then (tx_bind (refundOrder env 1 r OrderExpiredRefunded) (\<lambda>_. tx_return ()))
               (tx_return True)) db (\<lambda>_. lease_ok)"
      by (simp add: tx_ok_then tx_ok_bind tx_ok_return inv)
        (intro impI, rule tx_ok_weaken [OF refund_call [OF inv r]], auto)
  qed
qed


text \<open>Rewriting mailboxes without touching their key and active order.\<close>

lemma lease_ok_mailboxes:
  assumes inv: "lease_ok db"
    and M: "db_mailboxes db' = upd_rows P f (db_mailboxes db)"
    and keep: "\<And>m. m \<in> set (db_mailboxes db) \<Longrightarrow> P m \<Longrightarrow> m_ID (f m) = m_ID m \<and> m_ActiveOrderID (f m) = m_ActiveOrderID m"
    and same: "map u_ID (db_users db') = map u_ID (db_users db)" "db_orders db' = db_orders db" "db_states db' = db_states db"
  shows "lease_ok db'"
proof -
  have ids: "map m_ID (db_mailboxes db') = map m_ID (db_mailboxes db)"
    using keep by (auto simp: M upd_rows_def)
  have pairs: "(\<lambda>m. (m_ID m, m_ActiveOrderID m)) ` set (db_mailboxes db') = (\<lambda>m. (m_ID m, m_ActiveOrderID m)) ` set (db_mailboxes db)"
    unfolding M upd_rows_def set_map image_image by (rule image_cong) (use keep in auto)
  have ex: "(\<exists>m\<in>set (db_mailboxes db'). m_ID m = a \<and> m_ActiveOrderID m = b) \<longleftrightarrow>
      (\<exists>m\<in>set (db_mailboxes db). m_ID m = a \<and> m_ActiveOrderID m = b)" for a b
  proof -
    have "(\<exists>m\<in>set ms. m_ID m = a \<and> m_ActiveOrderID m = b) \<longleftrightarrow> (a, b) \<in> (\<lambda>m. (m_ID m, m_ActiveOrderID m)) ` set ms"
      for ms :: "sqlMailbox list" by (auto simp: image_iff)
    then show ?thesis using pairs by simp
  qed
  have leased: "order_leased db' r \<longleftrightarrow> order_leased db r" for r
    by (simp add: order_leased_def ex same)
  have bound: "mailbox_bound db' m" if m: "m \<in> set (db_mailboxes db')" "m_ActiveOrderID m \<noteq> []" for m
  proof -
    obtain m0 where m0: "m0 \<in> set (db_mailboxes db)" "m_ID m0 = m_ID m" "m_ActiveOrderID m0 = m_ActiveOrderID m"
      using ex [of "m_ID m" "m_ActiveOrderID m"] m(1) by auto
    then show ?thesis using lease_okD(3) [OF inv m0(1)] m(2) same by (simp add: mailbox_bound_def)
  qed
  show ?thesis
    using inv bound by (auto simp: lease_ok_def keys_ok_def ids leased state_bound_def same)
qed

lemma closed_mailbox_free:
  assumes "closed r r' db db'" and "m \<in> set (db_mailboxes db')" and "m_ID m = o_MailboxID r"
  shows "m_ActiveOrderID m = []"
proof -
  obtain f where f: "\<And>m. m_ID (f m) = m_ID m" "\<And>m. m_ActiveOrderID (f m) = []"
    and M: "db_mailboxes db' = upd_rows (\<lambda>m. m_ID m = o_MailboxID r) f (db_mailboxes db)"
    using assms(1) unfolding closed_def by blast
  obtain m0 where "m = (if m_ID m0 = o_MailboxID r then f m0 else m0)"
    using assms(2) by (auto simp: M set_upd_rows)
  then show ?thesis using f assms(3) by (auto split: if_splits)
qed

lemma reconcile_one_leases:
  assumes inv: "lease_ok db"
  shows "lease_ok (snd (run_tx (reconcile_one env oid) db))"
proof (rule run_tx_inv [where I = lease_ok, OF inv])
  show "tx_ok (reconcile_one env oid) db (\<lambda>_. lease_ok)"
    unfolding reconcile_one_def tx_ok_bind [of "tx_one _ _ _"] tx_ok_one tx_ok_if tx_ok_return
  proof (intro conjI allI impI inv, elim conjE)
    fix ref mailbox r
    assume ref: "row_find (\<lambda>r. o_ID r = oid) (db_orders db) = Some ref"
      and mb: "row_find (\<lambda>m. m_ID m = o_MailboxID ref) (db_mailboxes db) = Some mailbox"
      and "row_find (\<lambda>r. o_ID r = oid) (db_orders db) = Some r"
      and op: "\<not> \<not> order_open r"
    then have "ref = r" by simp
    then have r: "r \<in> set (db_orders db)" and id: "m_ID mailbox = o_MailboxID r"
      using row_find_Some [OF ref] row_find_Some [OF mb] by auto
    show "tx_ok (tx_bind (refundOrder env 4 (r\<lparr>o_FailureReason := msg_mailbox_unverified\<rparr>) OrderExpiredRefunded)
          (\<lambda>_. update_mailboxes env 3 (\<lambda>m. m_ID m = m_ID mailbox)
             (\<lambda>m. m\<lparr>m_ActiveOrderID := [], m_HealthScore := 0,
                    m_State := (if m_State mailbox = MailboxBlocked then m_State m else MailboxError)\<rparr>)))
          db (\<lambda>_. lease_ok)"
      unfolding tx_ok_bind
    proof (rule tx_ok_weaken [OF refund_call [OF inv r]])
      fix r' db1
      assume "lease_ok db1 \<and> closed r r' db db1 \<and>
        refund_post env 4 (r\<lparr>o_FailureReason := msg_mailbox_unverified\<rparr>) OrderExpiredRefunded db r' db1"
      then have inv1: "lease_ok db1" and c: "closed r r' db db1" by auto
      show "tx_ok (update_mailboxes env 3 (\<lambda>m. m_ID m = m_ID mailbox)
             (\<lambda>m. m\<lparr>m_ActiveOrderID := [], m_HealthScore := 0,
                    m_State := (if m_State mailbox = MailboxBlocked then m_State m else MailboxError)\<rparr>))
          db1 (\<lambda>_. lease_ok)"
        unfolding update_mailboxes_def tx_ok_update
        by (intro impI, rule lease_ok_mailboxes [OF inv1, where P = "\<lambda>m. m_ID m = m_ID mailbox"
            and f = "\<lambda>m. m\<lparr>m_ActiveOrderID := [], m_HealthScore := 0,
              m_State := (if m_State mailbox = MailboxBlocked then m_State m else MailboxError),
              m_UpdatedAt := stamp env 3\<rparr>"]) (use closed_mailbox_free [OF c] id in auto)
    qed (use op in auto)
  qed
qed

lemma reap_each_leases: "lease_ok db \<Longrightarrow> lease_ok (snd (reap_each envs n oids db))"
proof (induction oids arbitrary: n db)
  case (Cons oid oids)
  then show ?case
    using Cons.IH [OF reap_one_leases [OF Cons.prems, of "envs n" oid], of "Suc n"] by (simp add: split_def)
qed simp

lemma reconcile_each_leases: "lease_ok db \<Longrightarrow> lease_ok (snd (reconcile_each envs n oids db))"
proof (induction oids arbitrary: n db)
  case (Cons oid oids)
  then show ?case
    using Cons.IH [OF reconcile_one_leases [OF Cons.prems, of "envs n" oid], of "Suc n"] by (simp add: split_def)
qed simp

lemma ReapExpired_leases: "lease_ok db \<Longrightarrow> lease_ok (snd (ReapExpired envs db))"
  by (simp add: ReapExpired_def Let_def reap_each_leases)

lemma Reconcile_leases: "lease_ok db \<Longrightarrow> lease_ok (snd (ReconcileInvalidMailboxOrders envs db))"
  by (simp add: ReconcileInvalidMailboxOrders_def Let_def reconcile_each_leases)


lemma lease_ok_demo: "lease_ok demo_db" and lease_ok_demo_leased: "lease_ok demo_leased_db"
  by (simp_all add: lease_ok_def keys_ok_def demo_defs order_leased_def mailbox_bound_def state_bound_def
      order_open_def ms_key_def order_key_def)

text \<open>C1: A mailbox is leased to one open order at a time, and stays consistent with it.  Every order
  operation - allocation, delivery of a code, completion, cancellation and both sweeps - keeps the
  lease invariant, whichever statement fails, and under the invariant two open orders never share
  a mailbox.\<close>

theorem order_operations_keep_leases:
  assumes "lease_ok db"
  shows "lease_ok (snd (allocate_order env locked uid sid rid providers db))
    \<and> lease_ok (snd (run_tx (ReceiveCodeValue env oid code) db))
    \<and> lease_ok (snd (run_tx (CompleteOrder env oid uid) db))
    \<and> lease_ok (snd (run_tx (CancelOrder env oid uid) db))
    \<and> lease_ok (snd (ReapExpired envs db))
    \<and> lease_ok (snd (ReconcileInvalidMailboxOrders envs db))
    \<and> (\<forall>r r'. r \<in> set (db_orders db) \<and> r' \<in> set (db_orders db) \<and> order_open r \<and> order_open r'
         \<and> o_MailboxID r = o_MailboxID r' \<longrightarrow> r = r')"
  by (intro conjI allocate_order_leases ReceiveCodeValue_leases CompleteOrder_leases CancelOrder_leases
      ReapExpired_leases Reconcile_leases assms) (auto intro: open_orders_disjoint [OF assms])

lemma order_operations_keep_leases_witness:
  "lease_ok (snd (allocate_order (quiet_env 0) (\<lambda>_. False) ''u1'' ''s1'' ''r1'' [''outlook''] demo_db))
   \<and> lease_ok (snd (run_tx (CancelOrder (quiet_env 0) ''ORD1'' []) demo_leased_db))"
  using order_operations_keep_leases [OF lease_ok_demo] order_operations_keep_leases [OF lease_ok_demo_leased]
  by blast

end
