(* ===== verification/Wallet.thy ===== *)
theory Wallet
  imports Leases
begin

text \<open>
  Money: the requested providers and their prices, the conservation of a user's balance against the
  ledger, and the book of each order (one charge, and one refund exactly when it is refunded).
\<close>

subsection \<open>Validated providers\<close>

definition normal_provider :: "string \<Rightarrow> string" where
  "normal_provider raw = to_lower (trim_space raw)"

definition provider_ok :: "Service \<Rightarrow> string \<Rightarrow> bool" where
  "provider_ok service p \<longleftrightarrow> p \<noteq> [] \<and> IsSupportedMailboxProvider p \<and> p \<in> set (svc_AllowedProviders service)
     \<and> (\<exists>price. map_of (svc_ProviderPrices service) p = Some price \<and> 0 \<le> price)"

lemma validate_providers_error:
  "validate_providers service ps m requested = Inl e \<Longrightarrow> e = ErrInvalidMailboxProviders"
  by (induction service ps m requested rule: validate_providers.induct)
    (auto simp: Let_def split: if_splits option.splits)

lemma validate_providers_ok_iff:
  "(\<exists>res. validate_providers service ps m requested = Inr res) \<longleftrightarrow>
     (\<forall>raw\<in>set requested. normal_provider raw \<in> set ps \<or> provider_ok service (normal_provider raw))
     \<and> (ps \<noteq> [] \<or> requested \<noteq> [])"
proof (induction service ps m requested rule: validate_providers.induct)
  case (1 service ps m)
  then show ?case by simp
next
  case (2 service ps m raw requested)
  show ?case
  proof (cases "normal_provider raw \<in> set ps")
    case True
    then show ?thesis using 2(1) [OF refl] by (auto simp: normal_provider_def Let_def)
  next
    case False
    show ?thesis
    proof (cases "provider_ok service (normal_provider raw)")
      case True
      then obtain price where pr: "map_of (svc_ProviderPrices service) (normal_provider raw) = Some price" "0 \<le> price"
        by (auto simp: provider_ok_def)
      have "(\<exists>res. validate_providers service ps m (raw # requested) = Inr res) \<longleftrightarrow>
         (\<exists>res. validate_providers service (ps @ [normal_provider raw]) (if price > m then price else m) requested = Inr res)"
        using True False pr by (simp add: provider_ok_def normal_provider_def Let_def containsString_def)
      also have "\<dots> \<longleftrightarrow> (\<forall>raw'\<in>set requested. normal_provider raw' \<in> set (ps @ [normal_provider raw])
           \<or> provider_ok service (normal_provider raw'))"
        using 2(2) [OF refl _ pr(1) [unfolded normal_provider_def]] True False pr(2)
        by (simp add: provider_ok_def normal_provider_def containsString_def)
      finally show ?thesis using True by auto
    next
      case bad: False
      then show ?thesis
        using False by (auto simp: provider_ok_def normal_provider_def Let_def containsString_def
            split: option.split)
    qed
  qed
qed

lemma validate_providers_result:
  assumes "validate_providers service ps m requested = Inr (qs, best)"
    and "distinct ps" and "\<And>p. p \<in> set ps \<Longrightarrow> provider_ok service p
       \<and> (\<exists>price. map_of (svc_ProviderPrices service) p = Some price \<and> price \<le> m)"
    and "m = 0 \<or> (\<exists>p\<in>set ps. map_of (svc_ProviderPrices service) p = Some m)" and "0 \<le> m"
  shows "distinct qs \<and> qs \<noteq> [] \<and> set qs = set ps \<union> normal_provider ` set requested \<and> 0 \<le> best
     \<and> (\<forall>p\<in>set qs. provider_ok service p \<and> (\<exists>price. map_of (svc_ProviderPrices service) p = Some price \<and> price \<le> best))
     \<and> (best = 0 \<or> (\<exists>p\<in>set qs. map_of (svc_ProviderPrices service) p = Some best))"
  using assms
proof (induction service ps m requested rule: validate_providers.induct)
  case (1 service ps m)
  then show ?case by (auto split: if_splits)
next
  case (2 service ps m raw requested)
  show ?case
  proof (cases "normal_provider raw \<in> set ps")
    case True
    then have "validate_providers service ps m requested = Inr (qs, best)"
      using 2(3) by (simp add: normal_provider_def Let_def)
    then show ?thesis
      using 2(1) [OF refl] 2(4-) True by (auto simp: normal_provider_def insert_absorb)
  next
    case False
    then obtain price where pr: "map_of (svc_ProviderPrices service) (normal_provider raw) = Some price"
      "provider_ok service (normal_provider raw)" "0 \<le> price"
      and v: "validate_providers service (ps @ [normal_provider raw]) (if price > m then price else m) requested = Inr (qs, best)"
      using 2(3) by (auto simp: normal_provider_def Let_def provider_ok_def containsString_def
          split: option.splits if_splits)
    have "distinct (ps @ [normal_provider raw])" using False 2(4) by simp
    moreover have "provider_ok service p \<and> (\<exists>q. map_of (svc_ProviderPrices service) p = Some q \<and> q \<le> (if price > m then price else m))"
      if "p \<in> set (ps @ [normal_provider raw])" for p
      using that 2(5) pr by fastforce
    moreover have "(if price > m then price else m) = 0 \<or>
       (\<exists>p\<in>set (ps @ [normal_provider raw]). map_of (svc_ProviderPrices service) p = Some (if price > m then price else m))"
      using 2(6) pr by auto
    moreover have "0 \<le> (if price > m then price else m)" using 2(7) by simp
    ultimately have "distinct qs \<and> qs \<noteq> [] \<and> set qs = set (ps @ [normal_provider raw]) \<union> normal_provider ` set requested \<and> 0 \<le> best
     \<and> (\<forall>p\<in>set qs. provider_ok service p \<and> (\<exists>price. map_of (svc_ProviderPrices service) p = Some price \<and> price \<le> best))
     \<and> (best = 0 \<or> (\<exists>p\<in>set qs. map_of (svc_ProviderPrices service) p = Some best))"
      using False pr v
      by (intro 2(2) [OF refl _ pr(1) [unfolded normal_provider_def], folded normal_provider_def])
        (simp_all add: provider_ok_def containsString_def)
    then show ?thesis by auto
  qed
qed

text \<open>C38: The providers of a request are accepted exactly when the list is not empty and every entry, after
  trimming and lower-casing, is a supported provider that the platform allows at a price that is not
  negative; the result lists each of them once, and the returned price is the largest of theirs.\<close>

theorem validateOrderProviders_spec:
  "case validateOrderProviders service requested of
     Inl e \<Rightarrow> e = ErrInvalidMailboxProviders
       \<and> (requested = [] \<or> (\<exists>raw\<in>set requested. \<not> provider_ok service (normal_provider raw)))
   | Inr (providers, maximum) \<Rightarrow> requested \<noteq> [] \<and> distinct providers
       \<and> set providers = normal_provider ` set requested
       \<and> (\<forall>p\<in>set providers. provider_ok service p)
       \<and> maximum = Max ((\<lambda>p. the (map_of (svc_ProviderPrices service) p)) ` set providers)"
proof (cases "validateOrderProviders service requested")
  case (Inl e)
  then have "\<not> (\<exists>res. validate_providers service [] 0 requested = Inr res)"
    by (simp add: validateOrderProviders_def)
  then show ?thesis
    using Inl validate_providers_error unfolding validate_providers_ok_iff
    by (auto simp: validateOrderProviders_def)
next
  case (Inr res)
  obtain qs best where r: "res = (qs, best)" by (cases res)
  have v: "validate_providers service [] 0 requested = Inr (qs, best)"
    using Inr r by (simp add: validateOrderProviders_def)
  have "distinct qs \<and> qs \<noteq> [] \<and> set qs = set [] \<union> normal_provider ` set requested \<and> 0 \<le> best
     \<and> (\<forall>p\<in>set qs. provider_ok service p \<and> (\<exists>price. map_of (svc_ProviderPrices service) p = Some price \<and> price \<le> best))
     \<and> (best = 0 \<or> (\<exists>p\<in>set qs. map_of (svc_ProviderPrices service) p = Some best))"
    by (rule validate_providers_result [OF v]) simp_all
  then have p: "distinct qs" "qs \<noteq> []" "set qs = normal_provider ` set requested" "0 \<le> best"
    "\<forall>p\<in>set qs. provider_ok service p \<and> (\<exists>price. map_of (svc_ProviderPrices service) p = Some price \<and> price \<le> best)"
    "best = 0 \<or> (\<exists>p\<in>set qs. map_of (svc_ProviderPrices service) p = Some best)"
    by (blast, blast, simp, blast, blast, blast)
  let ?price = "\<lambda>p. the (map_of (svc_ProviderPrices service) p)"
  have le: "?price p \<le> best \<and> 0 \<le> ?price p" if "p \<in> set qs" for p
    using p(5) that by (force simp: provider_ok_def)
  have "best \<in> ?price ` set qs"
  proof (cases "\<exists>p\<in>set qs. map_of (svc_ProviderPrices service) p = Some best")
    case True
    then show ?thesis by force
  next
    case False
    then have "best = 0" using p(6) by blast
    moreover obtain q where "q \<in> set qs" using p(2) by (cases qs) auto
    ultimately show ?thesis using le by (intro image_eqI [of _ _ q]) (auto intro: antisym)
  qed
  then have "best = Max (?price ` set qs)"
    using le by (intro Max_eqI [symmetric]) auto
  then show ?thesis using p(1,2,3,5) Inr r by auto
qed


lemma validateOrderProviders_spec_witness:
  "validateOrderProviders (mapService demo_service) ['' OutLook ''] = Inr ([''outlook''], 1)
   \<and> provider_ok (mapService demo_service) ''outlook''"
proof -
  have v: "validateOrderProviders (mapService demo_service) ['' OutLook ''] = Inr ([''outlook''], 1)"
    by code_simp
  have "provider_ok (mapService demo_service) ''outlook''"
    using validateOrderProviders_spec [where service = "mapService demo_service" and requested = "['' OutLook '']"]
    unfolding v by (simp (no_asm_use)) blast
  then show ?thesis using v by simp
qed

subsection \<open>The order state machine\<close>

text \<open>
  The five ways the order operations change the database, as a step relation.  Each operation is a
  sequence of such steps (lemmas \<open>..._steps\<close>), so an invariant of the machine is proved once, by rule
  induction.
\<close>

definition receipt :: "time \<Rightarrow> string \<Rightarrow> sqlOrder \<Rightarrow> sqlOrder" where
  "receipt now code r = r\<lparr>o_Status := OrderCodeReceived, o_Code := code, o_CodeReceivedAt := Some now\<rparr>"

definition refundable_copy :: "sqlOrder \<Rightarrow> sqlOrder \<Rightarrow> bool" where
  "refundable_copy r r0 \<longleftrightarrow> (\<exists>reason. r0 = r\<lparr>o_FailureReason := reason\<rparr>)"

inductive order_step :: "db \<Rightarrow> db \<Rightarrow> bool" where
  step_create: "create_checked env locked uid sid requested db user service mailbox providers maximum price \<Longrightarrow>
     create_post env user service mailbox providers price rid db r db' \<Longrightarrow> order_step db db'"
| step_receive: "r \<in> set (db_orders db) \<Longrightarrow> order_open r \<Longrightarrow> now < o_ExpiresAt r \<Longrightarrow> code \<noteq> [] \<Longrightarrow>
     closed r (receipt now code r) db db' \<Longrightarrow> db_users db' = db_users db \<Longrightarrow> db_ledgers db' = db_ledgers db \<Longrightarrow>
     order_step db db'"
| step_complete: "r \<in> set (db_orders db) \<Longrightarrow> o_Status r = OrderCodeReceived \<Longrightarrow>
     same_but_logs (db\<lparr>db_orders := upsert o_ID (r\<lparr>o_Status := OrderCompleted, o_CompletedAt := Some now\<rparr>)
       (db_orders db)\<rparr>) db' \<Longrightarrow> order_step db db'"
| step_refund: "r \<in> set (db_orders db) \<Longrightarrow> order_open r \<Longrightarrow> refundable_copy r r0 \<Longrightarrow>
     status = OrderCanceled \<or> status = OrderExpiredRefunded \<Longrightarrow>
     refund_post env n r0 status db r' db' \<Longrightarrow> order_step db db'"
| step_touch: "db_mailboxes db' = upd_rows P f (db_mailboxes db) \<Longrightarrow>
     (\<And>m. m \<in> set (db_mailboxes db) \<Longrightarrow> P m \<Longrightarrow> m_ID (f m) = m_ID m \<and> m_ActiveOrderID (f m) = m_ActiveOrderID m) \<Longrightarrow>
     db_users db' = db_users db \<Longrightarrow> db_orders db' = db_orders db \<Longrightarrow> db_states db' = db_states db \<Longrightarrow>
     db_ledgers db' = db_ledgers db \<Longrightarrow> order_step db db'"

lemma refundable_copyD:
  assumes "refundable_copy r r0"
  shows "o_ID r0 = o_ID r" "o_UserID r0 = o_UserID r" "o_MailboxID r0 = o_MailboxID r"
    "o_ServiceID r0 = o_ServiceID r" "o_PriceCents r0 = o_PriceCents r" "o_Refunded r0 = o_Refunded r"
    "o_Code r0 = o_Code r" "o_ExpiresAt r0 = o_ExpiresAt r"
  using assms by (auto simp: refundable_copy_def)

lemma step_refund_closed:
  assumes "r \<in> set (db_orders db)" "order_open r" "refundable_copy r r0"
    "status = OrderCanceled \<or> status = OrderExpiredRefunded" "refund_post env n r0 status db r' db'"
  shows "closed r r' db db'"
  using refund_post_closed [OF assms(5,1,2)] refundable_copyD [OF assms(3)] assms(4) by auto

lemma order_step_leases: "order_step db db' \<Longrightarrow> lease_ok db \<Longrightarrow> lease_ok db'"
proof (induction rule: order_step.induct)
  case (step_create env locked uid sid requested db user service mailbox providers maximum price rid r db')
  then show ?case using lease_ok_allocated create_post_allocated by blast
next
  case (step_receive r db now code db')
  then show ?case using lease_ok_closed by blast
next
  case (step_complete r db now db')
  then show ?case by (intro lease_ok_rewrite [OF step_complete(4,1)]) (auto simp: order_open_def)
next
  case (step_refund r db r0 status env n r' db')
  then show ?case using lease_ok_closed step_refund_closed by blast
next
  case (step_touch db' P f db)
  then show ?case using lease_ok_mailboxes [OF step_touch(7,1,2)] by simp
qed

abbreviation order_steps :: "db \<Rightarrow> db \<Rightarrow> bool" where "order_steps \<equiv> order_step\<^sup>*\<^sup>*"

lemma order_steps_leases: "order_steps db db' \<Longrightarrow> lease_ok db \<Longrightarrow> lease_ok db'"
  by (induction rule: rtranclp_induct) (auto intro: order_step_leases)

text \<open>The steps that settle what exists: no order is added.\<close>

definition settle_step :: "db \<Rightarrow> db \<Rightarrow> bool" where
  "settle_step db db' \<longleftrightarrow> order_step db db' \<and> o_ID ` set (db_orders db') = o_ID ` set (db_orders db)"

abbreviation settle_steps :: "db \<Rightarrow> db \<Rightarrow> bool" where "settle_steps \<equiv> settle_step\<^sup>*\<^sup>*"

lemma settle_steps_order: "settle_steps db db' \<Longrightarrow> order_steps db db'"
  by (induction rule: rtranclp_induct) (auto simp: settle_step_def intro: rtranclp.rtrancl_into_rtrancl)

lemma upsert_ids: "k \<in> o_ID ` set t \<Longrightarrow> o_ID r' = k \<Longrightarrow> o_ID ` set (upsert o_ID r' t) = o_ID ` set t"
  using map_key_upsert_existing [of o_ID r' t] by (metis list.set_map)

lemma closed_ids: "closed r r' db db' \<Longrightarrow> o_ID ` set (db_orders db') = o_ID ` set (db_orders db)"
  unfolding closed_def using upsert_ids [of "o_ID r" "db_orders db" r'] by simp

lemma step_refund_settles:
  assumes "r \<in> set (db_orders db)" "order_open r" "refundable_copy r r0"
    "status = OrderCanceled \<or> status = OrderExpiredRefunded" "refund_post env n r0 status db r' db'"
  shows "settle_step db db'"
  unfolding settle_step_def using step_refund [OF assms] closed_ids [OF step_refund_closed [OF assms]] by blast

subsection \<open>Every operation is a sequence of steps\<close>

lemma allocate_order_steps: "order_steps db (snd (allocate_order env locked uid sid rid ps db))"
proof -
  obtain res db' where a: "allocate_order env locked uid sid rid ps db = (res, db')"
    by (cases "allocate_order env locked uid sid rid ps db")
  show ?thesis using allocate_order_cases [OF a] a step_create by fastforce
qed

lemma ReceiveCodeValue_steps: "order_steps db (snd (run_tx (ReceiveCodeValue env oid code) db))"
proof (rule run_tx_rel [where R = order_steps], simp, rule tx_ok_weaken [OF ReceiveCodeValue_effect], elim bexE exE conjE)
  fix res db' r r'
  assume r: "r \<in> set (db_orders db)" "order_open r" "clock env 0 < o_ExpiresAt r" "trim_space code \<noteq> []"
    and r': "r' = r\<lparr>o_Status := OrderCodeReceived, o_Code := trim_space code, o_CodeReceivedAt := Some (clock env 0)\<rparr>"
    and eq: "same_but_logs (db\<lparr>db_orders := upsert o_ID r' (db_orders db),
            db_mailboxes := upd_rows (\<lambda>m. m_ID m = o_MailboxID r)
              (\<lambda>m. m\<lparr>m_State := MailboxAvailable, m_ActiveOrderID := [],
                     m_TodayCodes := (if received_today env m then m_TodayCodes m + 1 else 1),
                     m_LastReceivedAt := Some (clock env 0), m_UpdatedAt := stamp env 2\<rparr>) (db_mailboxes db),
            db_states := upd_rows (\<lambda>s. ms_key s = order_key r)
              (\<lambda>s. s\<lparr>ms_State := ServiceConsumed, ms_ChangedAt := clock env 0\<rparr>) (db_states db)\<rparr>) db'"
  have "closed r (receipt (clock env 0) (trim_space code) r) db db'"
    using receipt_closed [OF r(1,2) eq [unfolded r']] by (simp add: receipt_def)
  then show "order_steps db db'"
    using step_receive [OF r] same_but_logsD(1,5) [OF eq] by fastforce
qed

lemma CompleteOrder_steps: "order_steps db (snd (run_tx (CompleteOrder env oid uid) db))"
  by (rule run_tx_rel [where R = order_steps], simp, rule tx_ok_weaken [OF CompleteOrder_effect], elim bexE exE conjE,
      rule r_into_rtranclp, rule step_complete) auto

lemma refund_post_mailbox: "refund_post env n r status db r' db' \<Longrightarrow> o_MailboxID r' = o_MailboxID r"
  by (simp add: refund_post_def)

lemma refund_call_steps:
  assumes "lease_ok db" and "r \<in> set (db_orders db)" "order_open r" "refundable_copy r r0"
    and "status = OrderCanceled \<or> status = OrderExpiredRefunded"
  shows "tx_ok (refundOrder env n r0 status) db (\<lambda>r' db'. settle_step db db' \<and> closed r r' db db' \<and> o_MailboxID r' = o_MailboxID r)"
  by (rule tx_ok_weaken [OF refund_call [OF assms(1-3) refundable_copyD(1,3,4,6) [OF assms(4)] assms(5)]])
    (use step_refund_settles [OF assms(2-5)] refundable_copyD(3) [OF assms(4)] refund_post_mailbox in metis)

lemma refundable_copy_refl [simp]: "refundable_copy r r"
  unfolding refundable_copy_def by (rule exI [of _ "o_FailureReason r"]) simp

lemma refundable_copy_reason [simp]: "refundable_copy r (r\<lparr>o_FailureReason := x\<rparr>)"
  unfolding refundable_copy_def by blast


text \<open>A canceled order is the one of the reply, and it was open.\<close>

definition gave_back :: "Order \<Rightarrow> db \<Rightarrow> db \<Rightarrow> bool" where
  "gave_back order db db' \<longleftrightarrow> (\<exists>r r'. closed r r' db db' \<and> o_MailboxID r' = o_MailboxID r \<and> order = mapOrder r')"

lemma CancelOrder_gives:
  assumes inv: "lease_ok db"
  shows "tx_ok (CancelOrder env oid uid) db (\<lambda>order db'. settle_step db db' \<and> gave_back order db db')"
  unfolding CancelOrder_def tx_ok_bind [of "tx_first _ _ _ _"] tx_ok_first
proof (intro allI impI, elim conjE)
  fix r assume "find_user_order oid uid db = Some r"
  then have r: "r \<in> set (db_orders db)" using row_find_Some by (fastforce simp: find_user_order_def)
  show "tx_ok (tx_then (tx_guard (order_open r) ErrInvalidOrderState)
     (tx_bind (refundOrder env 1 r OrderCanceled) (\<lambda>order'. tx_return (mapOrder order')))) db
     (\<lambda>order db'. settle_step db db' \<and> gave_back order db db')"
    by (simp add: tx_ok_then tx_ok_guard tx_ok_bind tx_ok_return)
      (intro impI, rule tx_ok_weaken [OF refund_call_steps [OF inv r]], auto simp: gave_back_def)
qed

lemma CancelOrder_settles: "lease_ok db \<Longrightarrow> settle_steps db (snd (run_tx (CancelOrder env oid uid) db))"
  by (rule run_tx_rel [where R = settle_steps], simp) (rule tx_ok_weaken [OF CancelOrder_gives], auto)

lemma reap_one_settles:
  assumes inv: "lease_ok db"
  shows "settle_steps db (snd (run_tx (reap_one env oid) db))"
proof (rule run_tx_rel [where R = settle_steps], simp)
  show "tx_ok (reap_one env oid) db (\<lambda>_. settle_steps db)"
    unfolding reap_one_def tx_ok_bind [of "tx_one _ _ _"] tx_ok_one
  proof (intro allI impI, elim conjE)
    fix r assume "row_find (\<lambda>r. o_ID r = oid) (db_orders db) = Some r"
    then have r: "r \<in> set (db_orders db)" using row_find_Some by fastforce
    show "tx_ok (if o_ExpiresAt r > clock env 0 \<or> \<not> order_open r then tx_return False
        else tx_then (tx_bind (refundOrder env 1 r OrderExpiredRefunded) (\<lambda>_. tx_return ()))
               (tx_return True)) db (\<lambda>_. settle_steps db)"
      by (simp add: tx_ok_then tx_ok_bind tx_ok_return)
        (intro impI, rule tx_ok_weaken [OF refund_call_steps [OF inv r]], auto)
  qed
qed

lemma reconcile_one_settles:
  assumes inv: "lease_ok db"
  shows "settle_steps db (snd (run_tx (reconcile_one env oid) db))"
proof (rule run_tx_rel [where R = settle_steps], simp)
  show "tx_ok (reconcile_one env oid) db (\<lambda>_. settle_steps db)"
    unfolding reconcile_one_def tx_ok_bind [of "tx_one _ _ _"] tx_ok_one tx_ok_if tx_ok_return
  proof (intro conjI allI impI rtranclp.rtrancl_refl, elim conjE)
    fix ref mailbox r
    assume ref: "row_find (\<lambda>r. o_ID r = oid) (db_orders db) = Some ref"
      and mb: "row_find (\<lambda>m. m_ID m = o_MailboxID ref) (db_mailboxes db) = Some mailbox"
      and "row_find (\<lambda>r. o_ID r = oid) (db_orders db) = Some r"
      and op: "\<not> \<not> order_open r"
    then have "ref = r" by simp
    then have r: "r \<in> set (db_orders db)" and id: "m_ID mailbox = o_MailboxID r"
      using row_find_Some [OF ref] row_find_Some [OF mb] by auto
    let ?f = "\<lambda>m. m\<lparr>m_ActiveOrderID := [], m_HealthScore := 0,
       m_State := (if m_State mailbox = MailboxBlocked then m_State m else MailboxError)\<rparr>"
    show "tx_ok (tx_bind (refundOrder env 4 (r\<lparr>o_FailureReason := msg_mailbox_unverified\<rparr>) OrderExpiredRefunded)
          (\<lambda>_. update_mailboxes env 3 (\<lambda>m. m_ID m = m_ID mailbox) ?f)) db (\<lambda>_. settle_steps db)"
      unfolding tx_ok_bind
    proof (rule tx_ok_weaken [OF refund_call_steps [OF inv r]])
      fix r' db1 assume a: "settle_step db db1 \<and> closed r r' db db1 \<and> o_MailboxID r' = o_MailboxID r"
      let ?db2 = "db1\<lparr>db_mailboxes := upd_rows (\<lambda>m. m_ID m = m_ID mailbox)
         (\<lambda>m. (?f m)\<lparr>m_UpdatedAt := stamp env 3\<rparr>) (db_mailboxes db1)\<rparr>"
      have "order_step db1 ?db2"
        by (rule step_touch [where P = "\<lambda>m. m_ID m = m_ID mailbox" and f = "\<lambda>m. (?f m)\<lparr>m_UpdatedAt := stamp env 3\<rparr>"])
          (use a closed_mailbox_free id in auto)
      then have "settle_step db1 ?db2" by (simp add: settle_step_def)
      then show "tx_ok (update_mailboxes env 3 (\<lambda>m. m_ID m = m_ID mailbox) ?f) db1 (\<lambda>_. settle_steps db)"
        using a unfolding update_mailboxes_def tx_ok_update by (meson converse_rtranclp_into_rtranclp r_into_rtranclp)
    qed (use op in auto)
  qed
qed

lemma reap_each_settles: "lease_ok db \<Longrightarrow> settle_steps db (snd (reap_each envs n oids db))"
proof (induction oids arbitrary: n db)
  case (Cons oid oids)
  then show ?case
    using rtranclp_trans [OF reap_one_settles [OF Cons.prems, of "envs n" oid]
        Cons.IH [OF reap_one_leases [OF Cons.prems, of "envs n" oid], of "Suc n"]] by (simp add: split_def)
qed simp

lemma reconcile_each_settles: "lease_ok db \<Longrightarrow> settle_steps db (snd (reconcile_each envs n oids db))"
proof (induction oids arbitrary: n db)
  case (Cons oid oids)
  then show ?case
    using rtranclp_trans [OF reconcile_one_settles [OF Cons.prems, of "envs n" oid]
        Cons.IH [OF reconcile_one_leases [OF Cons.prems, of "envs n" oid], of "Suc n"]] by (simp add: split_def)
qed simp

lemma ReapExpired_settles: "lease_ok db \<Longrightarrow> settle_steps db (snd (ReapExpired envs db))"
  by (simp add: ReapExpired_def Let_def reap_each_settles)

lemma Reconcile_settles: "lease_ok db \<Longrightarrow> settle_steps db (snd (ReconcileInvalidMailboxOrders envs db))"
  by (simp add: ReconcileInvalidMailboxOrders_def Let_def reconcile_each_settles)

lemmas CancelOrder_steps = settle_steps_order [OF CancelOrder_settles]
lemmas reap_one_steps = settle_steps_order [OF reap_one_settles]
lemmas ReapExpired_steps = settle_steps_order [OF ReapExpired_settles]
lemmas Reconcile_steps = settle_steps_order [OF Reconcile_settles]

lemmas operation_steps = allocate_order_steps ReceiveCodeValue_steps CompleteOrder_steps CancelOrder_steps
  ReapExpired_steps Reconcile_steps

subsection \<open>Conservation of money\<close>

definition balance_of :: "db \<Rightarrow> string \<Rightarrow> int" where
  "balance_of db v = sum_list (map (\<lambda>u. if u_ID u = v then u_BalanceCents u else 0) (db_users db))"

definition ledger_total :: "db \<Rightarrow> string \<Rightarrow> int" where
  "ledger_total db v = sum_list (map (\<lambda>l. if l_UserID l = v then l_AmountCents l else 0) (db_ledgers db))"

lemma balance_of_row:
  "distinct (map u_ID (db_users db)) \<Longrightarrow> u \<in> set (db_users db) \<Longrightarrow> balance_of db (u_ID u) = u_BalanceCents u"
proof -
  have aux: "sum_list (map (\<lambda>x. if u_ID x = u_ID u then u_BalanceCents x else 0) t) = u_BalanceCents u"
    if "distinct (map u_ID t)" "u \<in> set t" for t :: "sqlUser list"
    using that
  proof (induction t)
    case (Cons a t)
    have z: "sum_list (map (\<lambda>x. if u_ID x = k then u_BalanceCents x else 0) t) = 0" if "k \<notin> u_ID ` set t" for k
      using that by (induction t) auto
    show ?case using Cons by (cases "a = u") (auto simp: z image_iff)
  qed simp
  show "distinct (map u_ID (db_users db)) \<Longrightarrow> u \<in> set (db_users db) \<Longrightarrow> balance_of db (u_ID u) = u_BalanceCents u"
    unfolding balance_of_def by (rule aux)
qed

lemma booked_balance:
  assumes "distinct (map u_ID (db_users db))" and "booked uid oid pid ltype amount db db'"
  shows "balance_of db' v = balance_of db v + (if v = uid then amount else 0)"
    and "ledger_total db' v = ledger_total db v + (if v = uid then amount else 0)"
proof -
  obtain u l where u: "u \<in> set (db_users db)" "u_ID u = uid"
    and U: "db_users db' = upd_rows (\<lambda>x. u_ID x = uid) (\<lambda>x. x\<lparr>u_BalanceCents := u_BalanceCents u + amount\<rparr>) (db_users db)"
    and l: "l_UserID l = uid" "l_AmountCents l = amount" "db_ledgers db' = db_ledgers db @ [l]"
    using assms(2) unfolding booked_def by blast
  show "ledger_total db' v = ledger_total db v + (if v = uid then amount else 0)"
    using l by (simp add: ledger_total_def)
  show "balance_of db' v = balance_of db v + (if v = uid then amount else 0)"
    unfolding balance_of_def U u(2) [symmetric] sum_list_upd_rows [OF assms(1) u(1)] using u(2) by simp
qed

lemma order_step_money:
  "order_step db db' \<Longrightarrow> distinct (map u_ID (db_users db)) \<Longrightarrow>
     balance_of db' v - ledger_total db' v = balance_of db v - ledger_total db v"
proof (induction rule: order_step.induct)
  case (step_create env locked uid sid requested db user service mailbox providers maximum price rid r db')
  have "booked (u_ID user) (o_ID r) [] ''order_charge'' (- price) db db'"
    using create_post_booked [OF step_create(2)] step_create(1) by (simp add: create_checked_def)
  then show ?case using booked_balance [OF step_create(3)] by simp
next
  case (step_refund r db r0 status env n r' db')
  show ?case using booked_balance [OF step_refund(6) refund_post_booked [OF step_refund(5)]] by simp
next
  case (step_complete r db now db')
  then show ?case
    using same_but_logsD(1,5) [OF step_complete(3)] by (simp add: balance_of_def ledger_total_def)
qed (simp_all add: balance_of_def ledger_total_def)

lemma order_steps_money:
  assumes "order_steps db db'" and "lease_ok db"
  shows "balance_of db' v - ledger_total db' v = balance_of db v - ledger_total db v"
  using assms
proof (induction rule: rtranclp_induct)
  case (step db1 db2)
  have "lease_ok db1" using step order_steps_leases by blast
  then show ?case using order_step_money [OF step(2)] step keys_okD(1) lease_okD(1) by metis
qed simp

text \<open>C2: Money is conserved: whatever an order operation does and wherever it fails, the balance of
  every user changes by exactly the sum of the ledger lines it adds for that user.\<close>

theorem order_operations_conserve_money:
  assumes "lease_ok db"
    and "db' \<in> {snd (allocate_order env locked uid sid rid providers db),
      snd (run_tx (ReceiveCodeValue env oid code) db), snd (run_tx (CompleteOrder env oid uid) db),
      snd (run_tx (CancelOrder env oid uid) db), snd (ReapExpired envs db),
      snd (ReconcileInvalidMailboxOrders envs db)}"
  shows "balance_of db' v - balance_of db v = ledger_total db' v - ledger_total db v"
proof -
  have "order_steps db db'" using assms(2) by (auto intro: operation_steps assms(1))
  then show ?thesis using order_steps_money [OF _ assms(1), of db' v] by simp
qed

lemma order_operations_conserve_money_witness:
  "balance_of (snd (run_tx (CancelOrder (quiet_env 0) ''ORD1'' []) demo_leased_db)) ''u1'' = 1000
   \<and> ledger_total (snd (run_tx (CancelOrder (quiet_env 0) ''ORD1'' []) demo_leased_db)) ''u1'' = 0"
proof -
  let ?db = "snd (run_tx (CancelOrder (quiet_env 0) ''ORD1'' []) demo_leased_db)"
  have "balance_of ?db ''u1'' = 1000"
    by (simp add: CancelOrder_def find_user_order_def balance_of_def order_run_simps)
  moreover have "balance_of demo_leased_db ''u1'' = 900" "ledger_total demo_leased_db ''u1'' = - 100"
    by (simp_all add: balance_of_def ledger_total_def demo_defs)
  ultimately show ?thesis
    using order_operations_conserve_money [OF lease_ok_demo_leased, where db' = ?db and v = "''u1''"
        and env = "quiet_env 0" and oid = "''ORD1''" and uid = "[]"] by simp
qed


subsection \<open>The book of an order\<close>

definition order_book :: "db \<Rightarrow> string \<Rightarrow> (string \<times> string \<times> int) list" where
  "order_book db oid =
     map (\<lambda>l. (l_Type l, l_UserID l, l_AmountCents l)) (filter (\<lambda>l. l_OrderID l = oid) (db_ledgers db))"

definition expected_book :: "sqlOrder \<Rightarrow> (string \<times> string \<times> int) list" where
  "expected_book r = (''order_charge'', o_UserID r, - o_PriceCents r)
     # (if o_Refunded r then [(''order_refund'', o_UserID r, o_PriceCents r)] else [])"

definition order_row_ok :: "sqlOrder \<Rightarrow> bool" where
  "order_row_ok r \<longleftrightarrow> o_ID r \<noteq> []
     \<and> (o_Refunded r \<longleftrightarrow> o_Status r = OrderCanceled \<or> o_Status r = OrderExpiredRefunded)
     \<and> (o_Code r \<noteq> [] \<longleftrightarrow> o_Status r = OrderCodeReceived \<or> o_Status r = OrderCompleted)"

definition books_ok :: "db \<Rightarrow> bool" where
  "books_ok db \<longleftrightarrow>
     (\<forall>r\<in>set (db_orders db). order_row_ok r \<and> order_book db (o_ID r) = expected_book r)
     \<and> (\<forall>l\<in>set (db_ledgers db). l_OrderID l \<noteq> [] \<longrightarrow> l_OrderID l \<in> o_ID ` set (db_orders db))"

lemma books_okI:
  assumes "\<And>r. r \<in> set (db_orders db) \<Longrightarrow> order_row_ok r \<and> order_book db (o_ID r) = expected_book r"
    and "\<And>l. l \<in> set (db_ledgers db) \<Longrightarrow> l_OrderID l \<noteq> [] \<Longrightarrow> l_OrderID l \<in> o_ID ` set (db_orders db)"
  shows "books_ok db"
  using assms by (simp add: books_ok_def)

lemma books_okD:
  assumes "books_ok db"
  shows "r \<in> set (db_orders db) \<Longrightarrow> order_row_ok r \<and> order_book db (o_ID r) = expected_book r"
    and "l \<in> set (db_ledgers db) \<Longrightarrow> l_OrderID l \<noteq> [] \<Longrightarrow> l_OrderID l \<in> o_ID ` set (db_orders db)"
  using assms by (simp_all add: books_ok_def)

lemma order_book_snoc:
  "db_ledgers db' = db_ledgers db @ [l] \<Longrightarrow> order_book db' oid =
     order_book db oid @ (if l_OrderID l = oid then [(l_Type l, l_UserID l, l_AmountCents l)] else [])"
  by (simp add: order_book_def)

lemma order_book_fresh: "books_ok db \<Longrightarrow> oid \<noteq> [] \<Longrightarrow> oid \<notin> o_ID ` set (db_orders db) \<Longrightarrow> order_book db oid = []"
  using books_okD(2) by (fastforce simp: order_book_def filter_empty_conv)

lemma books_ok_charge:
  assumes ok: "books_ok db" and O: "db_orders db' = db_orders db @ [r]" and L: "db_ledgers db' = db_ledgers db @ [l]"
    and r: "order_row_ok r" "\<not> o_Refunded r" "o_ID r \<notin> o_ID ` set (db_orders db)"
    and l: "l_OrderID l = o_ID r" "l_Type l = ''order_charge''" "l_UserID l = o_UserID r" "l_AmountCents l = - o_PriceCents r"
  shows "books_ok db'"
proof (rule books_okI)
  fix x assume x: "x \<in> set (db_orders db')"
  show "order_row_ok x \<and> order_book db' (o_ID x) = expected_book x"
  proof (cases "x = r")
    case True
    then show ?thesis
      using r l order_book_snoc [OF L] order_book_fresh [OF ok _ r(3)]
      by (simp add: expected_book_def order_row_ok_def)
  next
    case False
    then have xin: "x \<in> set (db_orders db)" using x O by simp
    then have "o_ID x \<noteq> o_ID r" using r(3) by (metis imageI)
    then show ?thesis using books_okD(1) [OF ok xin] order_book_snoc [OF L] l(1) by simp
  qed
next
  fix x assume "x \<in> set (db_ledgers db')" "l_OrderID x \<noteq> []"
  then show "l_OrderID x \<in> o_ID ` set (db_orders db')" using books_okD(2) [OF ok] L O l(1) by auto
qed

text \<open>Replacing one order, with at most one more ledger line of that order.\<close>

lemma books_ok_replace:
  assumes ok: "books_ok db" and d: "distinct (map o_ID (db_orders db))"
    and O: "db_orders db' = upsert o_ID r' (db_orders db)" and L: "db_ledgers db' = db_ledgers db @ ls"
    and r: "r \<in> set (db_orders db)" "o_ID r' = o_ID r" "order_row_ok r'"
    and ls: "\<forall>l\<in>set ls. l_OrderID l = o_ID r"
      "expected_book r' = expected_book r @ map (\<lambda>l. (l_Type l, l_UserID l, l_AmountCents l)) ls"
  shows "books_ok db'"
proof (rule books_okI)
  fix x assume x: "x \<in> set (db_orders db')"
  have book: "order_book db' oid = order_book db oid @ (if oid = o_ID r then map (\<lambda>l. (l_Type l, l_UserID l, l_AmountCents l)) ls else [])" for oid
  proof -
    have "filter (\<lambda>l. l_OrderID l = oid) ls = (if oid = o_ID r then ls else [])"
      using ls(1) by (auto simp: filter_empty_conv filter_id_conv)
    then show ?thesis by (simp add: order_book_def L)
  qed
  show "order_row_ok x \<and> order_book db' (o_ID x) = expected_book x"
  proof (cases "x = r'")
    case True
    then show ?thesis using r books_okD(1) [OF ok r(1)] book ls(2) by simp
  next
    case False
    then have "x \<in> set (db_orders db)" "o_ID x \<noteq> o_ID r" using x r(2) by (auto simp: O set_upsert)
    then show ?thesis using books_okD(1) [OF ok] book by simp
  qed
next
  fix x assume "x \<in> set (db_ledgers db')" "l_OrderID x \<noteq> []"
  moreover have "o_ID ` set (db_orders db') = o_ID ` set (db_orders db)"
    unfolding O using r by (intro upsert_ids) auto
  ultimately show "l_OrderID x \<in> o_ID ` set (db_orders db')"
    using books_okD(2) [OF ok] L ls(1) r(1) by auto
qed

lemma order_step_books:
  "order_step db db' \<Longrightarrow> lease_ok db \<Longrightarrow> books_ok db \<Longrightarrow> books_ok db'"
proof (induction rule: order_step.induct)
  case (step_create env locked uid sid requested db user service mailbox providers maximum price rid r db')
  show ?case
  proof (rule create_postE [OF step_create(2)])
    fix l
    assume r: "r = new_order env (u_ID user) service mailbox providers price rid"
      and f: "fresh_key o_ID (o_ID r) (db_orders db)"
      and l: "l_UserID l = u_ID user" "l_OrderID l = o_ID r" "l_Type l = ''order_charge''" "l_AmountCents l = - price"
      and eq: "same_but_logs (db\<lparr>
              db_users := upd_rows (\<lambda>u. u_ID u = u_ID user)
                (\<lambda>u. u\<lparr>u_BalanceCents := u_BalanceCents user - price\<rparr>) (db_users db),
              db_orders := db_orders db @ [r],
              db_mailboxes := upd_rows (\<lambda>m. m_ID m = m_ID mailbox)
                (\<lambda>m. m\<lparr>m_State := MailboxLeased, m_ActiveOrderID := o_ID r, m_UpdatedAt := stamp env 6\<rparr>)
                (db_mailboxes db),
              db_states := upd_rows (\<lambda>s. ms_key s = order_key r)
                (\<lambda>s. s\<lparr>ms_State := ServiceLeased, ms_ChangedAt := clock env 1\<rparr>) (db_states db),
              db_ledgers := db_ledgers db @ [l]\<rparr>) db'"
    have row: "order_row_ok r" "\<not> o_Refunded r" "o_UserID r = u_ID user" "o_PriceCents r = price"
      by (simp_all add: r order_row_ok_def)
    have O: "db_orders db' = db_orders db @ [r]" and L: "db_ledgers db' = db_ledgers db @ [l]"
      using same_but_logsD(2,5) [OF eq] by simp_all
    show "books_ok db'"
      by (rule books_ok_charge [OF step_create(4) O L row(1,2)]) (use f l row in \<open>simp_all add: fresh_key_def\<close>)
  qed
next
  case (step_receive r db now code db')
  have d: "distinct (map o_ID (db_orders db))" using step_receive(8) by (simp add: lease_ok_def keys_ok_def)
  have O: "db_orders db' = upsert o_ID (receipt now code r) (db_orders db)" using step_receive(5) by (simp add: closed_def)
  have ok: "order_row_ok r" "\<not> o_Refunded r"
    using books_okD(1) [OF step_receive(9,1)] lease_okD(2) [OF step_receive(8,1,2)] by (auto simp: order_leased_def)
  show ?case
    by (rule books_ok_replace [OF step_receive(9) d O _ step_receive(1), where ls = "[]"])
      (use ok step_receive(4,7) in \<open>auto simp: order_row_ok_def receipt_def expected_book_def\<close>)
next
  case (step_complete r db now db')
  have d: "distinct (map o_ID (db_orders db))" using step_complete(4) by (simp add: lease_ok_def keys_ok_def)
  have O: "db_orders db' = upsert o_ID (r\<lparr>o_Status := OrderCompleted, o_CompletedAt := Some now\<rparr>) (db_orders db)"
    and L: "db_ledgers db' = db_ledgers db"
    using same_but_logsD(2,5) [OF step_complete(3)] by simp_all
  have ok: "order_row_ok r" using books_okD(1) [OF step_complete(5,1)] by simp
  show ?case
    by (rule books_ok_replace [OF step_complete(5) d O _ step_complete(1), where ls = "[]"])
      (use ok step_complete(2) L in \<open>auto simp: order_row_ok_def expected_book_def\<close>)
next
  case (step_refund r db r0 status env n r' db')
  note cp = refundable_copyD [OF step_refund(3)]
  have d: "distinct (map o_ID (db_orders db))" using step_refund(6) by (simp add: lease_ok_def keys_ok_def)
  have ok: "order_row_ok r" "\<not> o_Refunded r"
    using books_okD(1) [OF step_refund(7,1)] lease_okD(2) [OF step_refund(6,1,2)] by (auto simp: order_leased_def)
  show ?case
  proof (rule refund_postE [OF step_refund(5)])
    fix u :: sqlUser and l
    assume r': "r' = r0\<lparr>o_Status := status, o_Refunded := True\<rparr>"
      and l: "l_UserID l = o_UserID r0" "l_OrderID l = o_ID r0" "l_Type l = ''order_refund''" "l_AmountCents l = o_PriceCents r0"
      and eq: "same_but_logs (refunded_db r0 r' (u_BalanceCents u + o_PriceCents r0) l
               (clock env (n + 4)) (stamp env (n + 3)) status db) db'"
    have O: "db_orders db' = upsert o_ID r' (db_orders db)" and L: "db_ledgers db' = db_ledgers db @ [l]"
      using same_but_logsD(2,5) [OF eq] by (simp_all add: refunded_db_def)
    show "books_ok db'"
      by (rule books_ok_replace [OF step_refund(7) d O L step_refund(1)])
        (use ok cp l r' step_refund(2,4) in \<open>auto simp: order_row_ok_def expected_book_def order_open_def\<close>)
  qed
next
  case (step_touch db' P f db)
  then show ?case by (simp add: books_ok_def order_book_def)
qed

lemma order_steps_books: "order_steps db db' \<Longrightarrow> lease_ok db \<Longrightarrow> books_ok db \<Longrightarrow> books_ok db'"
proof (induction rule: rtranclp_induct)
  case (step db1 db2)
  then show ?case using order_step_books [OF step(2)] order_steps_leases [OF step(1)] by blast
qed simp


lemma books_ok_demo: "books_ok demo_db" and books_ok_demo_leased: "books_ok demo_leased_db"
  by (simp_all add: books_ok_def demo_defs order_row_ok_def order_book_def expected_book_def)

text \<open>C3: The ledger tells the story of every order: after any order operation each order has one charge
  of its price and, exactly when it is marked as refunded, one refund of the same amount to the same
  user.  So no order is refunded twice, and an order whose code was delivered is never refunded.\<close>

theorem order_operations_keep_books:
  assumes "lease_ok db" and "books_ok db"
    and "db' \<in> {snd (allocate_order env locked uid sid rid providers db),
      snd (run_tx (ReceiveCodeValue env oid code) db), snd (run_tx (CompleteOrder env oid uid) db),
      snd (run_tx (CancelOrder env oid uid) db), snd (ReapExpired envs db),
      snd (ReconcileInvalidMailboxOrders envs db)}"
  shows "books_ok db' \<and> (\<forall>r\<in>set (db_orders db').
     order_book db' (o_ID r) = (''order_charge'', o_UserID r, - o_PriceCents r)
       # (if o_Refunded r then [(''order_refund'', o_UserID r, o_PriceCents r)] else [])
     \<and> (o_Code r \<noteq> [] \<longrightarrow> \<not> o_Refunded r)
     \<and> (o_Refunded r \<longleftrightarrow> o_Status r = OrderCanceled \<or> o_Status r = OrderExpiredRefunded))"
proof -
  have "order_steps db db'" using assms(3) by (auto intro: operation_steps assms(1))
  then have ok: "books_ok db'" using order_steps_books assms(1,2) by blast
  then show ?thesis
    using books_okD(1) [OF ok] by (auto simp: expected_book_def order_row_ok_def)
qed

lemma order_operations_keep_books_witness:
  "books_ok (snd (run_tx (CancelOrder (quiet_env 0) ''ORD1'' []) demo_leased_db))"
  using order_operations_keep_books [OF lease_ok_demo_leased books_ok_demo_leased,
    where db' = "snd (run_tx (CancelOrder (quiet_env 0) ''ORD1'' []) demo_leased_db)"
      and env = "quiet_env 0" and oid = "''ORD1''" and uid = "[]"] by simp

subsection \<open>What a successful allocation guarantees\<close>

definition prices_bounded :: "db \<Rightarrow> bool" where
  "prices_bounded db \<longleftrightarrow> (\<forall>s\<in>set (db_services db). \<forall>(p, c)\<in>set (effectiveProviderPricesCents s). \<bar>c\<bar> \<le> cents_bound)"

lemma create_checked_price:
  assumes c: "create_checked env locked uid sid requested db user service mailbox providers maximum price"
    and b: "prices_bounded db"
  shows "0 \<le> price \<and> price \<le> u_BalanceCents user"
proof -
  let ?s = "mapService service"
  have bound: "\<bar>x\<bar> \<le> cents_bound" if "map_of (effectiveProviderPricesCents service) p = Some x" for p x
    using b c map_of_SomeD [OF that] by (fastforce simp: prices_bounded_def create_checked_def)
  have v: "validate_providers ?s [] 0 requested = Inr (providers, maximum)"
    using c by (simp add: create_checked_def validateOrderProviders_def)
  have spec: "distinct providers \<and> providers \<noteq> [] \<and> set providers = set [] \<union> normal_provider ` set requested \<and> 0 \<le> maximum
     \<and> (\<forall>p\<in>set providers. provider_ok ?s p \<and> (\<exists>price. map_of (svc_ProviderPrices ?s) p = Some price \<and> price \<le> maximum))
     \<and> (maximum = 0 \<or> (\<exists>p\<in>set providers. map_of (svc_ProviderPrices ?s) p = Some maximum))"
    by (rule validate_providers_result [OF v]) simp_all
  have prov: "m_Provider mailbox \<in> set providers"
    and pr: "map_of (effectiveProviderPricesCents service) (m_Provider mailbox) = Some price"
    and bal: "cents maximum \<le> u_BalanceCents user"
    using c select_mailbox_Some(1) by (auto simp: create_checked_def allocatable_def)
  have le: "0 \<le> from_cents price" "from_cents price \<le> maximum"
  proof -
    have sp: "provider_ok ?s (m_Provider mailbox)"
      "\<exists>pr. map_of (svc_ProviderPrices ?s) (m_Provider mailbox) = Some pr \<and> pr \<le> maximum"
      using spec prov by blast+
    show "0 \<le> from_cents price" using sp(1) pr by (simp add: provider_ok_def mapService_price)
    show "from_cents price \<le> maximum" using sp(2) pr by (simp add: mapService_price)
  qed
  have pb: "\<bar>price\<bar> \<le> cents_bound" by (rule bound [OF pr])
  obtain q where q: "maximum = from_cents q" "\<bar>q\<bar> \<le> cents_bound"
  proof (cases "maximum = 0")
    case True
    then show thesis using that [of 0] by (simp add: cents_bound_def)
  next
    case False
    then obtain p x where "map_of (effectiveProviderPricesCents service) p = Some x" "maximum = from_cents x"
      using spec by (auto simp: mapService_price)
    then show thesis using that bound by blast
  qed
  have "price \<le> q" using le(2) q from_cents_le_iff [OF pb q(2)] by simp
  moreover have "cents maximum = q" using q cents_from_cents by simp
  moreover have "0 \<le> price" using le(1) from_cents_nonneg [OF pb] by simp
  ultimately show ?thesis using bal by simp
qed

text \<open>C4: A created order names the mailbox it leases, and the best one: verified, available, healthy and
  with a valid connection, of a requested provider, in an enabled pool within its limits, the pair
  with the platform unused, and no other such mailbox is healthier.  The user is charged the price
  of that provider, once, and could pay it: with prices up to \<open>2 ^ 50\<close> cents the price is not
  negative and the balance does not become negative.  The order waits for its code for thirty
  minutes.\<close>

theorem create_order_spec:
  assumes "allocate_order env locked uid sid rid requested db = (Created order, db')"
    and "prices_bounded db" and "distinct (map u_ID (db_users db))"
  shows "\<exists>user service mailbox providers price.
     user \<in> set (db_users db) \<and> u_ID user = uid \<and> u_Status user = ''active''
     \<and> service \<in> set (db_services db) \<and> (sv_ID service = sid \<or> sv_Code service = sid) \<and> sv_Enabled service
     \<and> set providers = normal_provider ` set requested
     \<and> allocatable env locked (sv_ID service) providers db mailbox
     \<and> (\<forall>m. allocatable env locked (sv_ID service) providers db m \<longrightarrow> m_HealthScore m \<le> m_HealthScore mailbox)
     \<and> map_of (effectiveProviderPricesCents service) (m_Provider mailbox) = Some price
     \<and> 0 \<le> price \<and> price \<le> u_BalanceCents user \<and> balance_of db' uid = u_BalanceCents user - price
     \<and> ord_UserID order = uid \<and> ord_ServiceID order = sv_ID service \<and> ord_MailboxID order = m_ID mailbox
     \<and> ord_MailboxAddress order = m_Address mailbox \<and> ord_Price order = from_cents price
     \<and> ord_Status order = OrderWaitingCode \<and> ord_ExpiresAt order = ord_CreatedAt order + 30 * minute
     \<and> (\<exists>m\<in>set (db_mailboxes db'). m_ID m = m_ID mailbox \<and> m_State m = MailboxLeased \<and> m_ActiveOrderID m = ord_ID order)"
proof -
  obtain user service mailbox providers maximum price r where
    c: "create_checked env locked uid sid requested db user service mailbox providers maximum price"
    and o: "order = mapOrder r" and p: "create_post env user service mailbox providers price rid db r db'"
    using allocate_order_cases [OF assms(1)] by auto
  have sel: "select_mailbox env 0 locked (sv_ID service) providers db = Some mailbox"
    and v: "validateOrderProviders (mapService service) requested = Inr (providers, maximum)"
    and user: "user \<in> set (db_users db)" "u_ID user = uid"
    using c by (simp_all add: create_checked_def)
  have ps: "set providers = normal_provider ` set requested"
    using validate_providers_result [OF v [unfolded validateOrderProviders_def]] by simp
  have bal: "balance_of db' uid = u_BalanceCents user - price"
    using booked_balance(1) [OF assms(3) create_post_booked [OF p user(1)], of uid]
      balance_of_row [OF assms(3) user(1)] user(2) by simp
  show ?thesis
  proof (rule create_postE [OF p])
    fix l
    assume r: "r = new_order env (u_ID user) service mailbox providers price rid"
      and eq: "same_but_logs (db\<lparr>
              db_users := upd_rows (\<lambda>u. u_ID u = u_ID user)
                (\<lambda>u. u\<lparr>u_BalanceCents := u_BalanceCents user - price\<rparr>) (db_users db),
              db_orders := db_orders db @ [r],
              db_mailboxes := upd_rows (\<lambda>m. m_ID m = m_ID mailbox)
                (\<lambda>m. m\<lparr>m_State := MailboxLeased, m_ActiveOrderID := o_ID r, m_UpdatedAt := stamp env 6\<rparr>)
                (db_mailboxes db),
              db_states := upd_rows (\<lambda>s. ms_key s = order_key r)
                (\<lambda>s. s\<lparr>ms_State := ServiceLeased, ms_ChangedAt := clock env 1\<rparr>) (db_states db),
              db_ledgers := db_ledgers db @ [l]\<rparr>) db'"
    have "mailbox \<in> set (db_mailboxes db)" using select_mailbox_Some(1) [OF sel] by (simp add: allocatable_def)
    then have mb: "mailbox\<lparr>m_State := MailboxLeased, m_ActiveOrderID := o_ID r, m_UpdatedAt := stamp env 6\<rparr> \<in> set (db_mailboxes db')"
      using same_but_logsD(3) [OF eq]
        in_upd_rows_hit [where P = "\<lambda>m. m_ID m = m_ID mailbox" and t = "db_mailboxes db"
          and f = "\<lambda>m. m\<lparr>m_State := MailboxLeased, m_ActiveOrderID := o_ID r, m_UpdatedAt := stamp env 6\<rparr>"] by simp
    have fields: "ord_UserID order = uid \<and> ord_ServiceID order = sv_ID service \<and> ord_MailboxID order = m_ID mailbox
     \<and> ord_MailboxAddress order = m_Address mailbox \<and> ord_Price order = from_cents price
     \<and> ord_Status order = OrderWaitingCode \<and> ord_ExpiresAt order = ord_CreatedAt order + 30 * minute \<and> ord_ID order = o_ID r"
      using user by (simp add: o r mapOrder_def new_order_def Let_def effectiveOrderTTLSeconds_def
          MinimumOrderTTLSeconds_def minute_def)
    show ?thesis
      using c create_checked_price [OF c assms(2)] select_mailbox_Some [OF sel] ps bal fields mb
      by (intro exI [of _ user] exI [of _ service] exI [of _ mailbox] exI [of _ providers] exI [of _ price])
        (auto simp: create_checked_def intro!: bexI [OF _ mb])
  qed
qed

lemma create_order_spec_witness:
  "\<exists>order db'. allocate_order (quiet_env 0) (\<lambda>_. False) ''u1'' ''s1'' ''r1'' [''outlook''] demo_db = (Created order, db')
     \<and> ord_MailboxID order = ''m1'' \<and> balance_of db' ''u1'' = 900"
proof -
  let ?r = "allocate_order (quiet_env 0) (\<lambda>_. False) ''u1'' ''s1'' ''r1'' [''outlook''] demo_db"
  have "case fst ?r of Created order \<Rightarrow> ord_MailboxID order = ''m1'' | _ \<Rightarrow> False" by code_simp
  then obtain order db' where r: "?r = (Created order, db')" and m: "ord_MailboxID order = ''m1''"
    by (cases ?r; cases "fst ?r") auto
  have pb: "prices_bounded demo_db"
    by (simp add: prices_bounded_def demo_defs effectiveProviderPricesCents_def cents_bound_def)
  have "balance_of db' ''u1'' = 900"
    using create_order_spec [OF r pb]
    by (auto simp: demo_defs effectiveProviderPricesCents_def allocatable_def)
  then show ?thesis using r m by blast
qed

end
