(* ===== verification/Order_Rules.thy ===== *)
theory Order_Rules
  imports Wallet
begin

text \<open>
  Rules of single order operations: repeated requests, the allocation lock and timeouts.  What the delivery of a
  code promises is in theory \<open>Finality\<close>.
\<close>

subsection \<open>Requests\<close>

lemma CreateOrder_tx_duplicate:
  assumes "r \<in> set (db_orders db)" "o_UserID r = uid" "o_RequestID r = rid" "rid \<noteq> []" "\<not> db_fail env 1"
  shows "tx_ok (CreateOrder_tx env locked uid sid rid requested) db (\<lambda>res db'. db' = db \<and> (\<exists>r'\<in>set (db_orders db).
     o_UserID r' = uid \<and> o_RequestID r' = rid \<and> res = Inl (mapOrder r')))"
proof -
  obtain r' where f: "row_first o_ID (\<lambda>r. o_UserID r = uid \<and> o_RequestID r = rid) (db_orders db) = Some r'"
    using assms row_first_None by (metis (mono_tags, lifting) option.exhaust)
  then have r': "r' \<in> set (db_orders db)" "o_UserID r' = uid" "o_RequestID r' = rid"
    using row_first_Some [OF f] by auto
  show ?thesis
    unfolding CreateOrder_tx_def
    using assms(4,5) f r'
    by (auto simp: tx_ok_bind tx_ok_first tx_ok_then tx_ok_guard tx_ok_sum tx_ok_fail tx_ok_prod tx_ok_query tx_ok_return)
qed

text \<open>Repeating a request is harmless: while the lookup works, a call that repeats the \<^verbatim>\<open>request_id\<close> of an
  earlier order of the same user changes nothing; it reports an order of that request or an error and
  never creates one.\<close>

theorem repeated_request:
  assumes "r \<in> set (db_orders db)" "o_UserID r = uid" "o_RequestID r = rid" "rid \<noteq> []" "\<not> db_fail env 1"
    and "allocate_order env locked uid sid rid requested db = (res, db')"
  shows "db' = db \<and> ((\<exists>e. res = Failed e) \<or> (\<exists>r'\<in>set (db_orders db). o_UserID r' = uid \<and> o_RequestID r' = rid
     \<and> res = Duplicate (mapOrder r')))"
  using assms(6) CreateOrder_tx_duplicate [OF assms(1-5), of locked sid requested]
  by (auto simp: allocate_order_def run_tx_def tx_ok_def split: sum.splits prod.splits)

lemma repeated_request_witness:
  "snd (allocate_order (quiet_env 0) (\<lambda>_. False) ''u1'' ''s1'' ''r1'' [''outlook''] demo_leased_db) = demo_leased_db"
  using repeated_request [of demo_order demo_leased_db "''u1''" "''r1''" "quiet_env 0"]
  by (simp add: demo_leased_db_def demo_order_def prod_eq_iff [symmetric]) (metis surjective_pairing)

text \<open>A request without \<^verbatim>\<open>request_id\<close> works once per user: the unique index covers the pair of user and
  request, so while the user has an order with an empty request identifier every further one is
  rejected and nothing is charged, although the identifier is documented as optional.\<close>

theorem second_empty_request_rejected:
  assumes "r \<in> set (db_orders db)" "o_UserID r = uid" "o_RequestID r = []"
    and "allocate_order env locked uid sid [] requested db = (res, db')"
  shows "db' = db \<and> (\<exists>e. res = Failed e)"
proof -
  have "\<not> create_post env user service mailbox providers price [] db r' db'"
    if c: "create_checked env locked uid sid requested db user service mailbox providers maximum price"
    for user service mailbox providers maximum price r'
  proof
    assume "create_post env user service mailbox providers price [] db r' db'"
    then have "r' = new_order env (u_ID user) service mailbox providers price []"
      and fresh: "idx_user_request r' \<notin> idx_user_request ` set (db_orders db)"
      by (auto simp: create_post_def fresh_key_def)
    moreover have "u_ID user = uid" using c by (simp add: create_checked_def)
    ultimately have "idx_user_request r' = idx_user_request r" using assms(2,3) by (simp add: idx_user_request_def)
    then show False using fresh assms(1) by simp
  qed
  moreover have "res \<noteq> Duplicate order" for order
    using assms(4) CreateOrder_tx_effect [of env locked uid sid "[]" requested db]
    by (auto simp: allocate_order_def run_tx_def tx_ok_def split: sum.splits prod.splits)
  ultimately show ?thesis
    using allocate_order_cases [OF assms(4)] by (cases res) blast+
qed

lemma second_empty_request_rejected_witness:
  "\<exists>e. fst (allocate_order (quiet_env 0) (\<lambda>_. False) ''u1'' ''s1'' [] [''outlook'']
     (demo_db\<lparr>db_orders := [demo_order\<lparr>o_RequestID := [], o_Status := OrderCompleted\<rparr>]\<rparr>)) = Failed e"
  using second_empty_request_rejected [of "demo_order\<lparr>o_RequestID := [], o_Status := OrderCompleted\<rparr>"
      "demo_db\<lparr>db_orders := [demo_order\<lparr>o_RequestID := [], o_Status := OrderCompleted\<rparr>]\<rparr>" "''u1''"]
  by (simp add: demo_order_def) (metis surjective_pairing)

subsection \<open>The lock\<close>

lemma acquire_loop_returns:
  assumes step: "\<And>n. now (Suc n) \<ge> now n + second div 5"
    and "deadline < now n + int (fuel - 1) * (second div 5)" and "0 < fuel"
  shows "acquire_loop setnx now deadline n fuel \<noteq> None"
  using assms(2,3)
proof (induction fuel arbitrary: n)
  case (Suc fuel)
  show ?case
  proof (cases "fuel = 0")
    case True
    then show ?thesis using Suc.prems by (simp split: sum.split bool.split)
  next
    case False
    then have "deadline < now (Suc n) + int (fuel - 1) * (second div 5)"
      using Suc.prems(1) step [of n] by (cases fuel) (simp_all add: algebra_simps)
    then show ?thesis using Suc.IH [of "Suc n"] False by (simp split: sum.split bool.split)
  qed
qed simp

lemma acquire_loop_busy:
  "acquire_loop setnx now deadline n fuel = Some (Inl e) \<Longrightarrow>
     (\<exists>k\<ge>n. setnx k = Inl e) \<or> (e = ErrAllocationBusy \<and> (\<exists>k\<ge>n. now k > deadline \<and> (\<forall>j. n \<le> j \<and> j \<le> k \<longrightarrow> setnx j = Inr False)))"
proof (induction setnx now deadline n fuel rule: acquire_loop.induct)
  case (2 setnx now deadline n fuel)
  consider "setnx n = Inl e" | "setnx n = Inr False" "now n > deadline" "e = ErrAllocationBusy"
    | "setnx n = Inr False" "\<not> now n > deadline" "acquire_loop setnx now deadline (Suc n) fuel = Some (Inl e)"
    using 2(2) by (auto split: sum.splits bool.splits if_splits)
  then show ?case
  proof cases
    case 3
    have split: "n \<le> j \<longleftrightarrow> j = n \<or> Suc n \<le> j" for j by auto
    show ?thesis
      using 2(1) [OF 3(1) _ 3(2,3)] 3(1) by (simp add: split) (metis Suc_leD not_less_eq_eq order_refl split)
  qed (auto intro: le_antisym)
qed simp

text \<open>C39: Waiting for the platform's lock always ends: with a clock that moves on by at least the 200
  milliseconds the loop sleeps, 27 attempts are enough.  The caller is told that the allocation is
  busy only if the lock was refused in every attempt until more than five seconds had passed.\<close>

theorem acquireAllocationLock_returns:
  assumes "\<And>n. now (Suc n) \<ge> now n + second div 5" and "now 0 \<ge> start"
  shows "\<exists>res. acquireAllocationLock setnx now start 27 = Some res
    \<and> (\<forall>e. res = Inl e \<longrightarrow> (\<exists>k. setnx k = Inl e) \<or> e = ErrAllocationBusy
         \<and> (\<exists>k. now k > start + 5 * second \<and> (\<forall>j\<le>k. setnx j = Inr False)))"
proof -
  have "start + 5 * second < now 0 + int (27 - 1) * (second div 5)"
    using assms(2) by (simp add: second_def)
  then have "acquireAllocationLock setnx now start 27 \<noteq> None"
    unfolding acquireAllocationLock_def by (intro acquire_loop_returns assms(1)) simp_all
  then obtain res where r: "acquireAllocationLock setnx now start 27 = Some res" by auto
  then show ?thesis
    using acquire_loop_busy [of setnx now "start + 5 * second" 0 27]
    by (auto simp: acquireAllocationLock_def)
qed

lemma acquireAllocationLock_returns_witness:
  "\<exists>res. acquireAllocationLock (\<lambda>_. Inr False) (\<lambda>n. int n * second) 0 27 = Some res"
  using acquireAllocationLock_returns [of "\<lambda>n. int n * second" 0 "\<lambda>_. Inr False"]
  by (auto simp: second_def)

subsection \<open>Timeouts\<close>

lemma reap_one_refunds:
  assumes inv: "lease_ok db" and run: "run_tx (reap_one env oid) db = (Inr True, db')"
  shows "\<exists>r r'. r \<in> set (db_orders db) \<and> o_ID r = oid \<and> order_open r \<and> o_ExpiresAt r \<le> clock env 0
     \<and> refund_post env 1 r OrderExpiredRefunded db r' db' \<and> closed r r' db db'"
proof -
  have "tx_ok (reap_one env oid) db (\<lambda>b db'. b \<longrightarrow> (\<exists>r r'. r \<in> set (db_orders db) \<and> o_ID r = oid \<and> order_open r
     \<and> o_ExpiresAt r \<le> clock env 0 \<and> refund_post env 1 r OrderExpiredRefunded db r' db' \<and> closed r r' db db'))"
    unfolding reap_one_def tx_ok_bind [of "tx_one _ _ _"] tx_ok_one
  proof (intro allI impI, elim conjE)
    fix r assume "row_find (\<lambda>r. o_ID r = oid) (db_orders db) = Some r"
    then have r: "r \<in> set (db_orders db)" "o_ID r = oid" using row_find_Some by fastforce+
    show "tx_ok (if o_ExpiresAt r > clock env 0 \<or> \<not> order_open r then tx_return False
        else tx_then (tx_bind (refundOrder env 1 r OrderExpiredRefunded) (\<lambda>_. tx_return ()))
               (tx_return True)) db (\<lambda>b db'. b \<longrightarrow> (\<exists>r r'. r \<in> set (db_orders db) \<and> o_ID r = oid \<and> order_open r
     \<and> o_ExpiresAt r \<le> clock env 0 \<and> refund_post env 1 r OrderExpiredRefunded db r' db' \<and> closed r r' db db'))"
    proof (cases "o_ExpiresAt r > clock env 0 \<or> \<not> order_open r")
      case False
      then show ?thesis
        unfolding if_not_P [OF False] tx_ok_then tx_ok_bind tx_ok_return
        by (intro tx_ok_weaken [OF refund_call [OF inv r(1)]]) (use False r in auto)
    qed (simp add: tx_ok_return)
  qed
  from tx_okD [OF this] run show ?thesis by (auto simp: run_tx_ok)
qed

text \<open>C14: A timeout refunds the order and counts against the pair of mailbox and platform: the sweep only
  takes an open order whose deadline has passed, gives the money back, and increases the pair's
  timeout counter by one; the pair becomes free again with fewer than five timeouts, and with the
  fifth it is used up for good.\<close>

theorem timeout_counts:
  assumes "lease_ok db" and "run_tx (reap_one env oid) db = (Inr True, db')"
  shows "\<exists>r s. r \<in> set (db_orders db) \<and> o_ID r = oid \<and> order_open r \<and> o_ExpiresAt r \<le> clock env 0
    \<and> s \<in> set (db_states db) \<and> ms_key s = (o_MailboxID r, o_ServiceID r)
    \<and> (\<exists>s'\<in>set (db_states db'). ms_key s' = ms_key s \<and> ms_TimeoutCount s' = ms_TimeoutCount s + 1
         \<and> ms_State s' = (if ms_TimeoutCount s' \<ge> 5 then ServiceConsumed else ServiceAvailable))
    \<and> (\<exists>r'\<in>set (db_orders db'). o_ID r' = oid \<and> o_Status r' = OrderExpiredRefunded \<and> o_Refunded r')
    \<and> balance_of db' (o_UserID r) = balance_of db (o_UserID r) + o_PriceCents r"
proof -
  obtain r r' where r: "r \<in> set (db_orders db)" "o_ID r = oid" "order_open r" "o_ExpiresAt r \<le> clock env 0"
    and post: "refund_post env 1 r OrderExpiredRefunded db r' db'"
    using reap_one_refunds [OF assms] by blast
  obtain s where s: "s \<in> set (db_states db)" "ms_key s = order_key r" "ms_State s = ServiceLeased"
    using lease_okD(2) [OF assms(1) r(1,3)] by (auto simp: order_leased_def)
  have k: "distinct (map u_ID (db_users db))" using assms(1) by (simp add: lease_ok_def keys_ok_def)
  show ?thesis
  proof (rule refund_postE [OF post])
    fix u :: sqlUser and l
    assume r': "r' = r\<lparr>o_Status := OrderExpiredRefunded, o_Refunded := True\<rparr>"
      and eq: "same_but_logs (refunded_db r r' (u_BalanceCents u + o_PriceCents r) l
               (clock env (1 + 4)) (stamp env (1 + 3)) OrderExpiredRefunded db) db'"
    let ?s' = "release (clock env 5) OrderExpiredRefunded s"
    have "?s' \<in> set (db_states db')"
      using same_but_logsD(4) [OF eq] in_upd_rows_hit [OF s(1), where P = "\<lambda>s. ms_key s = order_key r"
          and f = "release (clock env 5) OrderExpiredRefunded"] s(2) by (simp add: refunded_db_def)
    moreover have "ms_TimeoutCount ?s' = ms_TimeoutCount s + 1"
      "ms_State ?s' = (if ms_TimeoutCount ?s' \<ge> 5 then ServiceConsumed else ServiceAvailable)"
      using s(3) by (simp_all add: release_def released_state_def nextTimeoutState_def Let_def
          MailboxServiceTimeoutLimit_def)
    moreover have "r' \<in> set (db_orders db')"
      using same_but_logsD(2) [OF eq] by (simp add: refunded_db_def set_upsert)
    moreover have bal: "balance_of db' (o_UserID r) = balance_of db (o_UserID r) + o_PriceCents r"
      using booked_balance(1) [OF k refund_post_booked [OF post]] by simp
    ultimately have "\<exists>s'\<in>set (db_states db'). ms_key s' = ms_key s \<and> ms_TimeoutCount s' = ms_TimeoutCount s + 1
         \<and> ms_State s' = (if ms_TimeoutCount s' \<ge> 5 then ServiceConsumed else ServiceAvailable)"
      and "\<exists>r'\<in>set (db_orders db'). o_ID r' = oid \<and> o_Status r' = OrderExpiredRefunded \<and> o_Refunded r'"
      using r r' by (intro bexI [of _ ?s'] bexI [of _ r']; simp)+
    then show ?thesis
      using r s(1) s(2) [unfolded order_key_def] bal by blast
  qed
qed

lemma timeout_counts_witness:
  "\<exists>db'. run_tx (reap_one (quiet_env 200) ''ORD1'') demo_leased_db = (Inr True, db') \<and> balance_of db' ''u1'' = 1000"
proof -
  let ?run = "run_tx (reap_one (quiet_env 200) ''ORD1'') demo_leased_db"
  have "fst ?run = Inr True" by (simp add: reap_one_def order_run_simps)
  then obtain db' where r: "?run = (Inr True, db')" by (cases ?run) auto
  have "balance_of db' ''u1'' = 1000"
    using timeout_counts [OF lease_ok_demo_leased r] by (auto simp: balance_of_def demo_defs)
  then show ?thesis using r by blast
qed

end
