(* ===== verification/Mailboxes.thy ===== *)
theory Mailboxes
  imports Order_Rules
begin

text \<open>
  Mailboxes and platforms in the PostgreSQL store (\<^verbatim>\<open>internal/store/postgres_resources.go\<close> and
  \<^verbatim>\<open>postgres_system_config.go\<close>): saving, verifying and deleting mailboxes, their credentials, the
  platforms and the state of each mailbox for each platform, received mails, and the encrypted
  system configuration.  The lemmas show that every one of these operations keeps the lease
  invariant of \<open>Leases\<close> and the books of \<open>Wallet\<close> when it runs alone, what a failed verification does
  to the order that holds the mailbox, and what goes wrong when \<open>SaveMailbox\<close>, which takes no lock,
  is interleaved with an allocation.
\<close>

subsection \<open>Saving a mailbox\<close>

definition MailboxPoolByName :: "env \<Rightarrow> string \<Rightarrow> db \<Rightarrow> MailboxPool option" where
  "MailboxPoolByName env name db =
     (if db_fail env 0 then None
      else map_option (\<lambda>row. \<lparr> mp_ID = pl_ID row, mp_Name = pl_Name row, mp_Provider = pl_Provider row,
             mp_Region = pl_Region row, mp_Enabled = pl_Enabled row, mp_DailyLimit = pl_DailyLimit row,
             mp_CooldownSecond = pl_CooldownSeconds row, mp_MailboxCount = 0, mp_CreatedAt = pl_CreatedAt row \<rparr>)
           (row_find (\<lambda>p. pl_Name p = trim_space name) (db_pools db)))"

definition normal_mailbox :: "Mailbox \<Rightarrow> store_error + Mailbox" where
  "normal_mailbox mailbox0 =
     (let mailbox = mailbox0\<lparr>mbx_Address := to_lower (trim_space (mbx_Address mailbox0))\<rparr>
      in case DetectMailboxProvider (mbx_Address mailbox) of
           None \<Rightarrow> Inl ErrUnsupportedMailbox
         | Some provider \<Rightarrow>
             Inr (mailbox\<lparr>mbx_Provider := provider,
               mbx_Pool := (if trim_space (mbx_Pool mailbox) = [] then DefaultMailboxPoolName
                            else trim_space (mbx_Pool mailbox))\<rparr>))"

definition find_saved :: "Mailbox \<Rightarrow> db \<Rightarrow> sqlMailbox option" where
  "find_saved mailbox db =
     row_first m_ID (\<lambda>m. mbx_ID mailbox \<noteq> [] \<and> m_ID m = mbx_ID mailbox \<or> m_Address m = mbx_Address mailbox)
       (db_mailboxes db)"

definition merge_mailbox :: "Mailbox \<Rightarrow> sqlMailbox \<Rightarrow> sqlMailbox" where
  "merge_mailbox mailbox existing =
     (let row = existing\<lparr>m_Address := mbx_Address mailbox, m_Provider := mbx_Provider mailbox,
            m_Pool := mbx_Pool mailbox\<rparr>;
          row = (if mbx_HealthScore mailbox > 0 then row\<lparr>m_HealthScore := mbx_HealthScore mailbox\<rparr> else row);
          row = (if \<not> is_zero (mbx_OAuthValidUntil mailbox) then row\<lparr>m_OAuthValidUntil := mbx_OAuthValidUntil mailbox\<rparr>
                 else row);
          row = (if mbx_ConnectionMethod mailbox \<noteq> [] then row\<lparr>m_ConnectionMethod := mbx_ConnectionMethod mailbox\<rparr>
                 else row);
          row = (if mbx_VerificationStatus mailbox \<noteq> []
                 then row\<lparr>m_VerificationStatus := mbx_VerificationStatus mailbox,
                          m_VerificationError := mbx_VerificationError mailbox\<rparr> else row);
          row = (if mbx_State mailbox \<noteq> [] \<and> m_ActiveOrderID row = [] then row\<lparr>m_State := mbx_State mailbox\<rparr>
                 else row);
          row = (if \<not> is_zero (mbx_LastVerifiedAt mailbox)
                 then row\<lparr>m_LastVerifiedAt := Some (mbx_LastVerifiedAt mailbox)\<rparr> else row)
      in if m_ActiveOrderID row = [] \<and> m_State row = MailboxError
            \<and> mbx_VerificationStatus mailbox = MailboxVerificationVerified
         then row\<lparr>m_State := MailboxAvailable\<rparr> else row)"

definition fresh_mailbox :: "env \<Rightarrow> Mailbox \<Rightarrow> sqlMailbox" where
  "fresh_mailbox env mailbox =
     (let state = (if mbx_State mailbox = [] then MailboxAvailable else mbx_State mailbox)
      in \<lparr> m_ID = (if mbx_ID mailbox = [] then uuid env 0 else mbx_ID mailbox),
           m_Address = mbx_Address mailbox, m_Provider = mbx_Provider mailbox, m_Pool = mbx_Pool mailbox,
           m_State = state,
           m_HealthScore = (if mbx_HealthScore mailbox = 0 \<and> state = MailboxAvailable then 100
                            else mbx_HealthScore mailbox),
           m_OAuthValidUntil = mbx_OAuthValidUntil mailbox, m_EncryptedCredential = [], m_ActiveOrderID = [],
           m_TodayCodes = 0, m_LastReceivedAt = None, m_ConnectionMethod = mbx_ConnectionMethod mailbox,
           m_VerificationStatus = mbx_VerificationStatus mailbox,
           m_LastVerifiedAt = (if is_zero (mbx_LastVerifiedAt mailbox) then None else Some (mbx_LastVerifiedAt mailbox)),
           m_VerificationError = mbx_VerificationError mailbox,
           m_CreatedAt = zero_time, m_UpdatedAt = zero_time \<rparr>)"

text \<open>The mapper's \<^verbatim>\<open>Save\<close> updates the row of that key or inserts it; \<^verbatim>\<open>FirstOrCreate\<close> inserts the state
  unless there is one.\<close>

definition put_mailbox :: "env \<Rightarrow> nat \<Rightarrow> sqlMailbox \<Rightarrow> unit stx" where
  "put_mailbox env n row = tx_bind tx_get (\<lambda>db.
     save_mailbox_row env n (if m_ID row \<in> m_ID ` set (db_mailboxes db) then row else row\<lparr>m_CreatedAt := stamp env n\<rparr>))"

definition ensure_state :: "env \<Rightarrow> nat \<Rightarrow> string \<Rightarrow> string \<Rightarrow> unit stx" where
  "ensure_state env n mailboxID serviceID =
     tx_bind (tx_read env n (\<lambda>db. row_find (\<lambda>s. ms_MailboxID s = mailboxID \<and> ms_ServiceID s = serviceID) (db_states db)))
     (\<lambda>r. case r of Some _ \<Rightarrow> tx_return ()
        | None \<Rightarrow> create_state env (n + 1) \<lparr> ms_MailboxID = mailboxID, ms_ServiceID = serviceID,
                    ms_State = ServiceAvailable, ms_TimeoutCount = 0, ms_ChangedAt = clock env n \<rparr>)"

fun ensure_states :: "env \<Rightarrow> nat \<Rightarrow> (string \<times> string) list \<Rightarrow> unit stx" where
  "ensure_states env n [] = tx_return ()"
| "ensure_states env n ((mailboxID, serviceID) # ps) =
     tx_then (ensure_state env n mailboxID serviceID) (ensure_states env (n + 2) ps)"

text \<open>What \<open>SaveMailbox\<close> does after its first query; the query takes no lock.\<close>

definition save_found :: "env \<Rightarrow> string \<Rightarrow> Mailbox \<Rightarrow> string \<Rightarrow> string \<Rightarrow> sqlMailbox option \<Rightarrow> Mailbox stx" where
  "save_found env actorID mailbox encrypted ip existing =
     (let row = (case existing of Some e \<Rightarrow> merge_mailbox mailbox e | None \<Rightarrow> fresh_mailbox env mailbox);
          row = (if encrypted \<noteq> [] then row\<lparr>m_EncryptedCredential := encrypted\<rparr> else row)
      in tx_then (put_mailbox env 1 row)
         (tx_bind (tx_read env 2 db_services) (\<lambda>services.
           tx_then (ensure_states env 10 (map (\<lambda>service. (m_ID row, sv_ID service)) services))
           (tx_then (create_audit env 3 (audit_row (uuid env 3) actorID ''mailbox.save'' ''mailbox'' (m_ID row)
                       msg_mailbox_save ip))
             (tx_return (mapMailbox row []))))))"

definition SaveMailbox :: "crypto \<Rightarrow> env \<Rightarrow> string \<Rightarrow> Mailbox \<Rightarrow> (string \<rightharpoonup> string) \<Rightarrow> string \<Rightarrow> Mailbox stx" where
  "SaveMailbox cr env actorID mailbox0 credential ip =
     (case normal_mailbox mailbox0 of
        Inl e \<Rightarrow> tx_fail e
      | Inr mailbox \<Rightarrow>
          case (if credential = Map.empty then Some [] else cr_encrypt cr 0 credential) of
            None \<Rightarrow> tx_fail ErrEncrypt
          | Some encrypted \<Rightarrow>
              tx_bind (tx_read env 0 (find_saved mailbox)) (save_found env actorID mailbox encrypted ip))"

definition DeleteMailbox :: "env \<Rightarrow> string \<Rightarrow> string \<Rightarrow> string \<Rightarrow> unit stx" where
  "DeleteMailbox env actorID mailboxID ip =
     tx_bind (tx_first env 0 ErrMailboxNotFound (\<lambda>db. row_find (\<lambda>m. m_ID m = mailboxID) (db_mailboxes db)))
     (\<lambda>mailbox. tx_then (tx_guard (m_ActiveOrderID mailbox = []) ErrMailboxHasActiveOrder)
       (tx_then (tx_update env 1 (\<lambda>db. db\<lparr>db_states := del_rows (\<lambda>s. ms_MailboxID s = mailboxID) (db_states db)\<rparr>))
       (tx_then (tx_update env 2 (\<lambda>db. db\<lparr>db_mailboxes := del_rows (\<lambda>m. m_ID m = m_ID mailbox) (db_mailboxes db)\<rparr>))
         (create_audit env 3 (audit_row (uuid env 3) actorID ''mailbox.delete'' ''mailbox'' mailboxID
            msg_mailbox_delete ip)))))"

subsection \<open>Invalid mailboxes\<close>

record InvalidMailboxSummary =
  ims_AuthErrors :: int
  ims_Deletable :: int
  ims_ProtectedActive :: int
  ims_Pending :: int
  ims_Verified :: int

definition deletable :: "sqlMailbox \<Rightarrow> bool" where
  "deletable m \<longleftrightarrow> m_State m = MailboxError \<and> m_VerificationStatus m = MailboxVerificationFailed
     \<and> m_ActiveOrderID m = []"

definition InvalidMailboxSummary_of :: "env \<Rightarrow> db \<Rightarrow> store_error + InvalidMailboxSummary" where
  "InvalidMailboxSummary_of env db =
     (let count = (\<lambda>P. int (count_rows P (db_mailboxes db)))
      in case List.find (db_fail env) [0, 1, 2, 3, 4] of
           Some n \<Rightarrow> Inl (ErrDB n)
         | None \<Rightarrow> Inr \<lparr> ims_AuthErrors = count (\<lambda>m. m_State m = MailboxError), ims_Deletable = count deletable,
             ims_ProtectedActive = count (\<lambda>m. m_State m = MailboxError
               \<and> m_VerificationStatus m = MailboxVerificationFailed \<and> m_ActiveOrderID m \<noteq> []),
             ims_Pending = count (\<lambda>m. m_VerificationStatus m = MailboxVerificationPending),
             ims_Verified = count (\<lambda>m. m_VerificationStatus m = MailboxVerificationVerified) \<rparr>)"

text \<open>One batch: \<open>locked\<close> are the rows other transactions hold, which \<^verbatim>\<open>SKIP LOCKED\<close> passes over.\<close>

definition delete_batch :: "env \<Rightarrow> (string \<Rightarrow> bool) \<Rightarrow> string \<Rightarrow> string \<Rightarrow> nat \<Rightarrow> nat stx" where
  "delete_batch env locked actorID ip limit =
     tx_bind (tx_read env 0 (\<lambda>db. take limit (map m_ID (sort_key m_ID
       (filter (\<lambda>m. deletable m \<and> \<not> locked (m_ID m)) (db_mailboxes db))))))
     (\<lambda>ids. if ids = [] then tx_return 0
       else tx_then (tx_update env 1 (\<lambda>db. db\<lparr>db_states := del_rows (\<lambda>s. ms_MailboxID s \<in> set ids) (db_states db)\<rparr>))
         (tx_then (tx_update env 2 (\<lambda>db. db\<lparr>db_mail_events :=
             del_rows (\<lambda>e. ev_MailboxID e \<in> set ids) (db_mail_events db)\<rparr>))
         (tx_bind (tx_read env 3 (\<lambda>db. count_rows (\<lambda>m. m_ID m \<in> set ids \<and> deletable m) (db_mailboxes db)))
         (\<lambda>batch. tx_then (tx_put (\<lambda>db. db\<lparr>db_mailboxes :=
             del_rows (\<lambda>m. m_ID m \<in> set ids \<and> deletable m) (db_mailboxes db)\<rparr>))
           (if batch = 0 then tx_return 0
            else tx_then (create_audit env 4 (audit_row (uuid env 4) actorID ''mailbox.invalid.bulk_delete''
                   ''mailbox'' ''invalid'' (msg_bulk_delete_1 @ nat_digits batch @ msg_bulk_delete_2) ip))
              (tx_return batch))))))"

definition batchSize :: int where "batchSize = 500"

function delete_batches ::
  "(nat \<Rightarrow> env) \<Rightarrow> (nat \<Rightarrow> string \<Rightarrow> bool) \<Rightarrow> string \<Rightarrow> string \<Rightarrow> int \<Rightarrow> nat \<Rightarrow> int \<Rightarrow> db
   \<Rightarrow> (int \<times> store_error option) \<times> db" where
  "delete_batches envs locked actorID ip expected k deleted db =
     (if deleted < expected then
        case run_tx (delete_batch (envs k) (locked k) actorID ip (nat (min batchSize (expected - deleted)))) db of
          (Inl e, db') \<Rightarrow> ((deleted, Some e), db')
        | (Inr batch, db') \<Rightarrow>
            if batch = 0 then ((deleted, Some ErrInvalidMailboxCountChanged), db')
            else delete_batches envs locked actorID ip expected (Suc k) (deleted + int batch) db'
      else ((deleted, None), db))"
  by pat_completeness auto
termination
  by (relation "measure (\<lambda>(_, _, _, _, expected, _, deleted, _). nat (expected - deleted))") auto

declare delete_batches.simps [simp del]

definition DeleteInvalidMailboxes ::
  "env \<Rightarrow> (nat \<Rightarrow> env) \<Rightarrow> (nat \<Rightarrow> string \<Rightarrow> bool) \<Rightarrow> string \<Rightarrow> string \<Rightarrow> int \<Rightarrow> db
   \<Rightarrow> (int \<times> store_error option) \<times> db" where
  "DeleteInvalidMailboxes env envs locked actorID ip expected db =
     (if expected < 0 then ((0, Some ErrInvalidMailboxCountChanged), db)
      else case InvalidMailboxSummary_of env db of
             Inl e \<Rightarrow> ((0, Some e), db)
           | Inr preview \<Rightarrow>
               if ims_Deletable preview \<noteq> expected then ((0, Some ErrInvalidMailboxCountChanged), db)
               else if expected = 0 then ((0, Some ErrNoInvalidMailboxes), db)
               else delete_batches envs locked actorID ip expected 0 0 db)"

subsection \<open>Credentials and verification\<close>

record MailboxCredential =
  mc_Mailbox :: Mailbox
  mc_Config :: "string \<rightharpoonup> string"

definition GetMailboxCredential :: "crypto \<Rightarrow> env \<Rightarrow> string \<Rightarrow> db \<Rightarrow> store_error + MailboxCredential" where
  "GetMailboxCredential cr env mailboxID db =
     (case (if db_fail env 0 then None else row_find (\<lambda>m. m_ID m = mailboxID) (db_mailboxes db)) of
        None \<Rightarrow> Inl ErrMailboxNotFound
      | Some row \<Rightarrow>
          case (if m_EncryptedCredential row = [] then Some Map.empty else cr_decrypt cr (m_EncryptedCredential row)) of
            None \<Rightarrow> Inl ErrDecrypt
          | Some config \<Rightarrow> Inr \<lparr> mc_Mailbox = mapMailbox row [], mc_Config = config \<rparr>)"

definition polled_mailbox :: "time \<Rightarrow> db \<Rightarrow> sqlMailbox \<Rightarrow> bool" where
  "polled_mailbox now db m \<longleftrightarrow> m_EncryptedCredential m \<noteq> [] \<and> m_State m \<noteq> MailboxBlocked \<and> m_State m \<noteq> MailboxError
     \<and> m_VerificationStatus m = MailboxVerificationVerified
     \<and> (\<exists>r\<in>set (db_orders db). o_MailboxID r = m_ID m \<and> order_open r \<and> o_ExpiresAt r > now)"

definition ListActiveMailboxCredentialsPage ::
  "crypto \<Rightarrow> env \<Rightarrow> string \<Rightarrow> int \<Rightarrow> db \<Rightarrow> store_error + MailboxCredential list" where
  "ListActiveMailboxCredentialsPage cr env afterID limit0 db =
     (let limit = (if limit0 < 1 \<or> limit0 > 500 then 100 else limit0)
      in if db_fail env 0 then Inl (ErrDB 0)
         else Inr (List.map_filter (\<lambda>row. map_option (\<lambda>config. \<lparr> mc_Mailbox = mapMailbox row [], mc_Config = config \<rparr>)
                (cr_decrypt cr (m_EncryptedCredential row)))
              (take (nat limit) (sort_key m_ID
                (filter (\<lambda>m. polled_mailbox (clock env 0) db m \<and> (afterID \<noteq> [] \<longrightarrow> m_ID m > afterID)) (db_mailboxes db))))))"

definition UpdateMailboxCredential ::
  "crypto \<Rightarrow> env \<Rightarrow> string \<Rightarrow> string \<Rightarrow> (string \<rightharpoonup> string) \<Rightarrow> time \<Rightarrow> string \<Rightarrow> unit stx" where
  "UpdateMailboxCredential cr env actorID mailboxID credential validUntil ip =
     (case cr_encrypt cr 0 credential of
        None \<Rightarrow> tx_fail ErrEncrypt
      | Some encrypted \<Rightarrow>
          tx_then (update_mailboxes env 0 (\<lambda>m. m_ID m = mailboxID)
              (\<lambda>m. m\<lparr>m_EncryptedCredential := encrypted, m_OAuthValidUntil := validUntil\<rparr>))
            (tx_bind tx_get (\<lambda>db. tx_then (tx_guard (mailboxID \<in> m_ID ` set (db_mailboxes db)) ErrMailboxNotFound)
              (create_audit env 1 (audit_row (uuid env 1) actorID ''mailbox.credential.refresh'' ''mailbox'' mailboxID
                 msg_credential_refresh ip)))))"

text \<open>The order that loses its mailbox because the verification failed: \<open>release_failed\<close> refunds it when it is
  still open.\<close>

definition release_failed :: "env \<Rightarrow> nat \<Rightarrow> string \<Rightarrow> unit stx" where
  "release_failed env n orderID =
     tx_bind (tx_read env n (\<lambda>db. row_find (\<lambda>r. o_ID r = orderID) (db_orders db)))
     (\<lambda>found. case found of None \<Rightarrow> tx_return ()
        | Some order \<Rightarrow>
            if order_open order
            then tx_then (refundOrder env (n + 1) (order\<lparr>o_FailureReason := msg_verification_failed_refund\<rparr>)
                   OrderExpiredRefunded) (tx_return ())
            else tx_return ())"

definition verified_row :: "string \<Rightarrow> string \<Rightarrow> string \<Rightarrow> time \<Rightarrow> sqlMailbox \<Rightarrow> sqlMailbox" where
  "verified_row connection status verificationError verifiedAt mailbox0 =
     (let mailbox = (if status = MailboxVerificationFailed \<and> m_ActiveOrderID mailbox0 \<noteq> []
                     then mailbox0\<lparr>m_ActiveOrderID := []\<rparr> else mailbox0);
          mailbox = mailbox\<lparr>m_ConnectionMethod := connection, m_VerificationStatus := status,
                      m_VerificationError := verificationError\<rparr>;
          mailbox = (if is_zero verifiedAt then mailbox else mailbox\<lparr>m_LastVerifiedAt := Some verifiedAt\<rparr>)
      in if status = MailboxVerificationVerified
         then let mailbox = mailbox\<lparr>m_HealthScore := 100\<rparr>
              in if (m_State mailbox = MailboxError \<or> m_State mailbox = MailboxPending) \<and> m_ActiveOrderID mailbox = []
                 then mailbox\<lparr>m_State := MailboxAvailable\<rparr> else mailbox
         else if status = MailboxVerificationFailed \<and> m_State mailbox \<noteq> MailboxBlocked
              then mailbox\<lparr>m_State := MailboxError, m_HealthScore := 0\<rparr> else mailbox)"

definition UpdateMailboxVerification ::
  "env \<Rightarrow> string \<Rightarrow> string \<Rightarrow> string \<Rightarrow> string \<Rightarrow> string \<Rightarrow> time \<Rightarrow> string \<Rightarrow> unit stx" where
  "UpdateMailboxVerification env actorID mailboxID connection status verificationError verifiedAt ip =
     tx_bind (tx_first env 0 ErrMailboxNotFound (\<lambda>db. row_find (\<lambda>m. m_ID m = mailboxID) (db_mailboxes db)))
     (\<lambda>mailbox. tx_then (tx_when (status = MailboxVerificationFailed \<and> m_ActiveOrderID mailbox \<noteq> [])
           (release_failed env 1 (m_ActiveOrderID mailbox)))
       (tx_then (save_mailbox_row env 20 (verified_row connection status verificationError verifiedAt mailbox))
         (create_audit env 21 (audit_row (uuid env 21) actorID ''mailbox.verify'' ''mailbox'' mailboxID
            (msg_verify_result @ status) ip))))"

definition transient_error :: "string \<Rightarrow> bool" where
  "transient_error message \<longleftrightarrow>
     (\<exists>word\<in>{''timeout'', ''deadline'', ''connection'', ''network'', msg_connection_word, msg_timeout_word}.
        str_contains (to_lower message) word)
     \<or> (\<exists>code\<in>{'' 500'', '' 502'', '' 503'', '' 504''}. str_contains message code)"

definition verification_due :: "env \<Rightarrow> sqlMailbox \<Rightarrow> bool" where
  "verification_due env m \<longleftrightarrow>
     m_VerificationStatus m = MailboxVerificationPending
   \<or> m_VerificationStatus m = MailboxVerificationFailed \<and> m_UpdatedAt m \<le> clock env 0 - 5 * minute
       \<and> transient_error (m_VerificationError m)
   \<or> m_VerificationStatus m = MailboxVerificationFailed \<and> m_UpdatedAt m \<le> clock env 1 - 30 * minute
       \<and> str_contains (to_lower (m_VerificationError m)) (to_lower ''User is authenticated but not connected'')
   \<or> m_VerificationStatus m = MailboxVerificationVerified
       \<and> (m_ConnectionMethod m = MailboxConnectionMicrosoftGraph \<or> m_ConnectionMethod m = MailboxConnectionMicrosoftOAuth)
       \<and> m_OAuthValidUntil m \<le> clock env 2"

definition PendingMailboxVerificationIDs :: "env \<Rightarrow> int \<Rightarrow> db \<Rightarrow> store_error + string list" where
  "PendingMailboxVerificationIDs env limit0 db =
     (let limit = (if limit0 < 1 \<or> limit0 > 5000 then 1000 else limit0)
      in if db_fail env 0 then Inl (ErrDB 0)
         else Inr (take (nat limit) (map m_ID (sort_key m_UpdatedAt (filter (verification_due env) (db_mailboxes db))))))"

subsection \<open>Platforms\<close>

definition service_row :: "Service \<Rightarrow> string \<Rightarrow> sqlService" where
  "service_row service sid = \<lparr> sv_ID = sid, sv_Code = to_lower (svc_Code service), sv_Name = svc_Name service,
     sv_Description = svc_Description service, sv_Enabled = svc_Enabled service,
     sv_AllowedProviders = svc_AllowedProviders service,
     sv_PriceCents = minimumProviderPriceCents (svc_ProviderPrices service),
     sv_ProviderPricesCents = providerPricesCents (svc_ProviderPrices service), sv_TTLSeconds = svc_TTLSeconds service,
     sv_SenderDomains = svc_SenderDomains service, sv_SubjectKeywords = svc_SubjectKeywords service,
     sv_Regex = svc_Regex service, sv_CreatedAt = zero_time \<rparr>"

definition put_service :: "env \<Rightarrow> nat \<Rightarrow> sqlService \<Rightarrow> unit stx" where
  "put_service env n row = tx_insert env n
     (\<lambda>db. \<forall>x\<in>set (db_services db). sv_Code x = sv_Code row \<longrightarrow> sv_ID x = sv_ID row)
     (\<lambda>db. db\<lparr>db_services := upsert sv_ID (if sv_ID row \<in> sv_ID ` set (db_services db) then row
                              else row\<lparr>sv_CreatedAt := stamp env n\<rparr>) (db_services db)\<rparr>)"

definition SaveService :: "env \<Rightarrow> string \<Rightarrow> Service \<Rightarrow> string \<Rightarrow> Service stx" where
  "SaveService env actorID service ip =
     (let sid = (if svc_ID service = [] then uuid env 0 else svc_ID service);
          row = service_row service sid
      in tx_then (put_service env 0 row)
         (tx_bind (tx_read env 1 (\<lambda>db. map m_ID (db_mailboxes db))) (\<lambda>mailboxIDs.
           tx_then (ensure_states env 10 (map (\<lambda>mailboxID. (mailboxID, sv_ID row)) mailboxIDs))
           (tx_then (create_audit env 2 (audit_row (uuid env 2) actorID ''target_service.save'' ''target_service''
                       (sv_ID row) msg_service_save ip))
             (tx_return (mapService row))))))"

text \<open>The error of the count is not looked at; the server then refuses every later statement of the
  transaction, so the call still fails.\<close>

definition DeleteService :: "env \<Rightarrow> string \<Rightarrow> string \<Rightarrow> string \<Rightarrow> unit stx" where
  "DeleteService env actorID serviceID ip =
     tx_bind (tx_read env 0 (\<lambda>db. count_rows (\<lambda>r. o_ServiceID r = serviceID) (db_orders db)))
     (\<lambda>orders. tx_then (tx_guard (orders = 0) ErrServiceHasOrders)
       (tx_then (tx_update env 1 (\<lambda>db. db\<lparr>db_states := del_rows (\<lambda>s. ms_ServiceID s = serviceID) (db_states db)\<rparr>))
       (tx_bind (tx_read env 2 (\<lambda>db. count_rows (\<lambda>s. sv_ID s = serviceID) (db_services db)))
       (\<lambda>affected. tx_then (tx_put (\<lambda>db. db\<lparr>db_services := del_rows (\<lambda>s. sv_ID s = serviceID) (db_services db)\<rparr>))
         (tx_then (tx_guard (affected \<noteq> 0) ErrServiceNotFound)
           (create_audit env 3 (audit_row (uuid env 3) actorID ''target_service.delete'' ''target_service'' serviceID
              msg_service_delete ip)))))))"

definition ServiceByID :: "env \<Rightarrow> string \<Rightarrow> db \<Rightarrow> Service option" where
  "ServiceByID env serviceID db =
     (if db_fail env 0 then None else map_option mapService (row_find (\<lambda>s. sv_ID s = serviceID) (db_services db)))"

definition WaitingOrdersForMailbox :: "env \<Rightarrow> string \<Rightarrow> db \<Rightarrow> Order list" where
  "WaitingOrdersForMailbox env mailboxID db =
     (if db_fail env 0 then []
      else map mapOrder (sort_key o_CreatedAt (filter (\<lambda>r. o_MailboxID r = mailboxID \<and> order_open r
             \<and> o_ExpiresAt r > clock env 0
             \<and> (\<exists>m\<in>set (db_mailboxes db). m_ID m = o_MailboxID r \<and> m_VerificationStatus m = MailboxVerificationVerified))
           (db_orders db))))"

definition MarkMailEvent :: "env \<Rightarrow> string \<Rightarrow> string \<Rightarrow> string \<Rightarrow> string \<Rightarrow> time \<Rightarrow> db \<Rightarrow> (store_error + bool) \<times> db" where
  "MarkMailEvent env mailboxID messageID sender subject receivedAt db =
     (case run_tx (create_mail_event env 0 \<lparr> ev_ID = uuid env 0, ev_MailboxID = mailboxID, ev_MessageID = messageID,
             ev_Sender = sender, ev_Subject = subject, ev_ReceivedAt = receivedAt, ev_CreatedAt = zero_time \<rparr>) db of
        (Inl ErrDuplicatedKey, db') \<Rightarrow> (Inr False, db')
      | (Inl e, db') \<Rightarrow> (Inl e, db')
      | (Inr _, db') \<Rightarrow> (Inr True, db'))"

definition MarkMailboxServiceConsumed :: "env \<Rightarrow> string \<Rightarrow> string \<Rightarrow> time \<Rightarrow> unit stx" where
  "MarkMailboxServiceConsumed env mailboxID serviceID changedAt0 =
     (let changedAt = (if is_zero changedAt0 then clock env 0 else changedAt0);
          hit = (\<lambda>s. ms_MailboxID s = mailboxID \<and> ms_ServiceID s = serviceID \<and> ms_State s = ServiceAvailable)
      in tx_bind (tx_read env 0 (\<lambda>db. count_rows hit (db_states db)))
         (\<lambda>affected. tx_then (tx_put (\<lambda>db. db\<lparr>db_states :=
             upd_rows hit (\<lambda>s. s\<lparr>ms_State := ServiceConsumed, ms_ChangedAt := changedAt\<rparr>) (db_states db)\<rparr>))
           (tx_when (affected \<noteq> 0)
             (create_audit env 1 (audit_row (uuid env 1) ''mail-worker'' ''mailbox.service.consume'' ''mailbox_service''
                (mailboxID @ '':'' @ serviceID) msg_history_consumed [])))))"

definition MarkMailboxServiceRegistered :: "env \<Rightarrow> string \<Rightarrow> string \<Rightarrow> string \<Rightarrow> string \<Rightarrow> unit stx" where
  "MarkMailboxServiceRegistered env actorID mailboxID serviceID ip =
     tx_bind (tx_read env 0 (\<lambda>db. row_find (\<lambda>s. ms_MailboxID s = mailboxID \<and> ms_ServiceID s = serviceID) (db_states db)))
     (\<lambda>found. case found of None \<Rightarrow> tx_fail ErrMailboxServiceNotFound
        | Some state \<Rightarrow>
            if ms_State state = ServiceLeased then tx_fail ErrMailboxServiceLeased
            else if ms_State state = ServiceConsumed then tx_return ()
            else tx_then (update_states env 1 (\<lambda>s. ms_MailboxID s = mailboxID \<and> ms_ServiceID s = serviceID)
                   (\<lambda>s. s\<lparr>ms_State := ServiceConsumed, ms_ChangedAt := clock env 0\<rparr>))
                 (create_audit env 2 (audit_row (uuid env 2) actorID ''mailbox.service.manual_register''
                    ''mailbox_service'' (mailboxID @ '':'' @ serviceID) msg_manual_registered ip)))"

subsection \<open>System configuration\<close>

definition GetSystemConfig :: "crypto \<Rightarrow> env \<Rightarrow> string \<Rightarrow> db \<Rightarrow> store_error + (string \<rightharpoonup> string) option" where
  "GetSystemConfig cr env key0 db =
     (let key = trim_space key0
      in if key = [] then Inl ErrConfigKeyEmpty
         else if db_fail env 0 then Inl (ErrDB 0)
         else case row_find (\<lambda>c. sc_Key c = key) (db_configs db) of
                None \<Rightarrow> Inr None
              | Some row \<Rightarrow> case cr_decrypt cr (sc_EncryptedValue row) of
                  None \<Rightarrow> Inl ErrConfigDecrypt | Some config \<Rightarrow> Inr (Some config))"

definition SaveSystemConfig :: "crypto \<Rightarrow> env \<Rightarrow> string \<Rightarrow> (string \<rightharpoonup> string) \<Rightarrow> unit stx" where
  "SaveSystemConfig cr env key0 config =
     (let key = trim_space key0
      in if key = [] then tx_fail ErrConfigKeyEmpty
         else case cr_encrypt cr 0 config of
                None \<Rightarrow> tx_fail ErrEncrypt
              | Some encrypted \<Rightarrow>
                  tx_bind (tx_read env 0 (\<lambda>db. row_find (\<lambda>c. sc_Key c = key) (db_configs db)))
                  (\<lambda>found. case found of
                     None \<Rightarrow> tx_insert env 1 (\<lambda>db. fresh_key sc_Key key (db_configs db))
                               (\<lambda>db. db\<lparr>db_configs := db_configs db @ [\<lparr> sc_Key = key, sc_EncryptedValue = encrypted \<rparr>]\<rparr>)
                   | Some row \<Rightarrow> tx_update env 1 (\<lambda>db. db\<lparr>db_configs :=
                               upd_rows (\<lambda>c. sc_Key c = key) (\<lambda>c. c\<lparr>sc_EncryptedValue := encrypted\<rparr>) (db_configs db)\<rparr>)))"

subsection \<open>What every operation keeps\<close>

text \<open>The relation between the state before and after: leases, books and the balance of every user stay in order.
  It is reflexive and transitive, so it is proved statement by statement.\<close>

definition keeps :: "db \<Rightarrow> db \<Rightarrow> bool" where
  "keeps db db' \<longleftrightarrow> (lease_ok db \<longrightarrow> lease_ok db' \<and> (books_ok db \<longrightarrow> books_ok db')
     \<and> (\<forall>v. balance_of db' v - ledger_total db' v = balance_of db v - ledger_total db v))"

lemma keeps_refl [simp]: "keeps db db"
  by (simp add: keeps_def)

lemma keeps_trans: "keeps db db1 \<Longrightarrow> keeps db1 db2 \<Longrightarrow> keeps db db2"
  by (simp add: keeps_def)

lemma keeps_orders: "order_steps db db' \<Longrightarrow> keeps db db'"
  using order_steps_leases order_steps_books order_steps_money unfolding keeps_def by blast

lemma keeps_logs:
  assumes "same_but_logs db db'"
  shows "keeps db db'"
  using same_but_logsD(1-5) [OF assms]
  by (simp add: keeps_def lease_ok_def keys_ok_def order_leased_def mailbox_bound_def state_bound_def books_ok_def
      order_book_def balance_of_def ledger_total_def)

text \<open>The part of the state that decides the leases of mailboxes and platform states.\<close>

definition holders :: "db \<Rightarrow> (string \<times> string) set" where
  "holders db = (\<lambda>m. (m_ID m, m_ActiveOrderID m)) ` {m \<in> set (db_mailboxes db). m_ActiveOrderID m \<noteq> []}"

definition leased_keys :: "db \<Rightarrow> (string \<times> string) set" where
  "leased_keys db = ms_key ` {s \<in> set (db_states db). ms_State s = ServiceLeased}"

definition resource_change :: "db \<Rightarrow> db \<Rightarrow> bool" where
  "resource_change db db' \<longleftrightarrow> db_users db' = db_users db \<and> db_orders db' = db_orders db \<and> db_ledgers db' = db_ledgers db
     \<and> distinct (map m_ID (db_mailboxes db')) \<and> distinct (map ms_key (db_states db'))
     \<and> holders db' = holders db \<and> leased_keys db' = leased_keys db"

lemma holders_iff:
  "(a, b) \<in> holders db \<longleftrightarrow> b \<noteq> [] \<and> (\<exists>m\<in>set (db_mailboxes db). m_ID m = a \<and> m_ActiveOrderID m = b)"
  by (auto simp: holders_def image_iff)

lemma order_leased_iff:
  "order_leased db r \<longleftrightarrow> \<not> o_Refunded r \<and> o_ID r \<noteq> [] \<and> (o_MailboxID r, o_ID r) \<in> holders db \<and> order_key r \<in> leased_keys db"
  by (auto simp: order_leased_def holders_def leased_keys_def image_iff)

lemma lease_ok_iff:
  "lease_ok db \<longleftrightarrow> keys_ok db
     \<and> (\<forall>r\<in>set (db_orders db). order_open r \<longrightarrow> \<not> o_Refunded r \<and> o_ID r \<noteq> []
          \<and> (o_MailboxID r, o_ID r) \<in> holders db \<and> order_key r \<in> leased_keys db)
     \<and> (\<forall>p\<in>holders db. \<exists>r\<in>set (db_orders db). order_open r \<and> (o_MailboxID r, o_ID r) = p)
     \<and> (\<forall>k\<in>leased_keys db. \<exists>r\<in>set (db_orders db). order_open r \<and> order_key r = k)"
  unfolding lease_ok_def order_leased_iff
  by (auto simp: holders_def leased_keys_def mailbox_bound_def state_bound_def)

lemma keeps_resources:
  assumes "lease_ok db \<Longrightarrow> resource_change db db'"
  shows "keeps db db'"
  using assms by (auto simp: keeps_def lease_ok_iff keys_ok_def resource_change_def books_ok_def order_book_def
      balance_of_def ledger_total_def)

lemma keeps_audit: "keeps db0 db \<Longrightarrow> tx_ok (create_audit env n a) db (\<lambda>_. keeps db0)"
  unfolding create_audit_def tx_ok_insert
  by (intro impI, erule keeps_trans, rule keeps_logs) simp

lemma holders_append: "holders (db\<lparr>db_mailboxes := db_mailboxes db @ [m]\<rparr>) =
    holders db \<union> (if m_ActiveOrderID m = [] then {} else {(m_ID m, m_ActiveOrderID m)})"
  by (auto simp: holders_def)

lemma keeps_new_state:
  assumes "ms_State s \<noteq> ServiceLeased" and "keeps db0 db"
  shows "tx_ok (create_state env n s) db (\<lambda>_. keeps db0)"
  unfolding create_state_def tx_ok_insert
  by (intro impI, rule keeps_trans [OF assms(2)], rule keeps_resources)
    (use assms(1) in \<open>auto simp: resource_change_def lease_ok_def keys_ok_def fresh_key_def holders_def leased_keys_def\<close>)

lemma keeps_ensure_state: "keeps db0 db \<Longrightarrow> tx_ok (ensure_state env n mid sid) db (\<lambda>_. keeps db0)"
  unfolding ensure_state_def tx_ok_bind tx_ok_read tx_ok_option tx_ok_return
  by (auto intro: keeps_new_state)

lemma keeps_ensure_states: "keeps db0 db \<Longrightarrow> tx_ok (ensure_states env n ps) db (\<lambda>_. keeps db0)"
proof (induction ps arbitrary: n db)
  case (Cons p ps)
  obtain mid sid where p: "p = (mid, sid)" by (cases p)
  show ?case
    unfolding p ensure_states.simps tx_ok_then
    by (rule tx_ok_weaken [OF keeps_ensure_state [OF Cons.prems]]) (rule Cons.IH)
qed (simp add: tx_ok_return)

text \<open>Saving a mailbox row that claims no order the row did not already hold.\<close>

lemma holders_upsert:
  assumes "distinct (map m_ID (db_mailboxes db))"
    and "m_ID row \<in> m_ID ` set (db_mailboxes db) \<Longrightarrow> \<exists>m\<in>set (db_mailboxes db). m_ID m = m_ID row \<and> m_ActiveOrderID m = m_ActiveOrderID row"
    and "m_ID row \<notin> m_ID ` set (db_mailboxes db) \<Longrightarrow> m_ActiveOrderID row = []"
  shows "holders (db\<lparr>db_mailboxes := upsert m_ID row (db_mailboxes db)\<rparr>) = holders db"
proof -
  have old: "m_ActiveOrderID m = m_ActiveOrderID row" if m: "m \<in> set (db_mailboxes db)" "m_ID m = m_ID row" for m
  proof -
    have "m_ID row \<in> m_ID ` set (db_mailboxes db)" using m by (metis imageI)
    then obtain m' where "m' \<in> set (db_mailboxes db)" "m_ID m' = m_ID row" "m_ActiveOrderID m' = m_ActiveOrderID row"
      using assms(2) by auto
    then show ?thesis using m assms(1) by (metis distinct_map inj_onD)
  qed
  have new: "\<exists>m\<in>set (db_mailboxes db). m_ID m = m_ID row" if "m_ActiveOrderID row \<noteq> []"
    using assms(3) that by (metis imageE)
  then have claim: "\<exists>m\<in>set (db_mailboxes db). m_ID m = m_ID row \<and> m_ActiveOrderID m = m_ActiveOrderID row" if "m_ActiveOrderID row \<noteq> []"
    using old that by blast
  have "(a, b) \<in> holders (db\<lparr>db_mailboxes := upsert m_ID row (db_mailboxes db)\<rparr>) \<longleftrightarrow> (a, b) \<in> holders db" for a b
  proof (cases "a = m_ID row")
    case True
    have "row \<in> set (upsert m_ID row (db_mailboxes db))" by (simp add: set_upsert)
    then have "(\<exists>m\<in>set (upsert m_ID row (db_mailboxes db)). m_ID m = a \<and> m_ActiveOrderID m = b) \<longleftrightarrow> m_ActiveOrderID row = b"
      using True by (auto simp: set_upsert)
    moreover have "(\<exists>m\<in>set (db_mailboxes db). m_ID m = a \<and> m_ActiveOrderID m = b) \<longleftrightarrow> m_ActiveOrderID row = b" if "b \<noteq> []"
    proof
      assume "\<exists>m\<in>set (db_mailboxes db). m_ID m = a \<and> m_ActiveOrderID m = b"
      then show "m_ActiveOrderID row = b" using old True by auto
    next
      assume "m_ActiveOrderID row = b"
      then show "\<exists>m\<in>set (db_mailboxes db). m_ID m = a \<and> m_ActiveOrderID m = b" using claim that True by simp
    qed
    ultimately show ?thesis by (simp add: holders_iff cong: conj_cong)
  next
    case False
    then show ?thesis by (auto simp: holders_iff set_upsert)
  qed
  then show ?thesis by auto
qed

lemma keeps_save_mailbox:
  assumes "lease_ok db \<Longrightarrow> m_ID row \<in> m_ID ` set (db_mailboxes db) \<Longrightarrow>
      \<exists>m\<in>set (db_mailboxes db). m_ID m = m_ID row \<and> m_ActiveOrderID m = m_ActiveOrderID row"
    and "lease_ok db \<Longrightarrow> m_ID row \<notin> m_ID ` set (db_mailboxes db) \<Longrightarrow> m_ActiveOrderID row = []"
  shows "tx_ok (save_mailbox_row env n row) db (\<lambda>_. keeps db)"
  unfolding save_mailbox_row_def tx_ok_insert
proof (intro impI, rule keeps_resources)
  let ?row = "row\<lparr>m_UpdatedAt := stamp env n\<rparr>"
  assume ok: "lease_ok db"
  have k: "distinct (map m_ID (db_mailboxes db))" "distinct (map ms_key (db_states db))"
    using keys_okD [OF lease_okD(1) [OF ok]] by simp_all
  have "holders (db\<lparr>db_mailboxes := upsert m_ID ?row (db_mailboxes db)\<rparr>) = holders db"
    using assms [OF ok] by (intro holders_upsert k(1)) simp_all
  then show "resource_change db (db\<lparr>db_mailboxes := upsert m_ID ?row (db_mailboxes db)\<rparr>)"
    using k by (simp add: resource_change_def distinct_upsert leased_keys_def)
qed

lemma keeps_put_mailbox:
  assumes "lease_ok db \<Longrightarrow> m_ID row \<in> m_ID ` set (db_mailboxes db) \<Longrightarrow>
      \<exists>m\<in>set (db_mailboxes db). m_ID m = m_ID row \<and> m_ActiveOrderID m = m_ActiveOrderID row"
    and "lease_ok db \<Longrightarrow> m_ID row \<notin> m_ID ` set (db_mailboxes db) \<Longrightarrow> m_ActiveOrderID row = []"
  shows "tx_ok (put_mailbox env n row) db (\<lambda>_. keeps db)"
  unfolding put_mailbox_def tx_ok_bind tx_ok_get using assms by (intro keeps_save_mailbox) (auto split: if_splits)

lemma merge_mailbox_simps [simp]:
  "m_ID (merge_mailbox mailbox e) = m_ID e" "m_ActiveOrderID (merge_mailbox mailbox e) = m_ActiveOrderID e"
  by (simp_all add: merge_mailbox_def Let_def)

lemma fresh_mailbox_simps [simp]:
  "m_ID (fresh_mailbox env mailbox) = (if mbx_ID mailbox = [] then uuid env 0 else mbx_ID mailbox)"
  "m_ActiveOrderID (fresh_mailbox env mailbox) = []"
  by (simp_all add: fresh_mailbox_def Let_def)

lemma save_found_keeps:
  assumes "uuid env 0 \<notin> m_ID ` set (db_mailboxes db)"
  shows "tx_ok (save_found env actorID mailbox encrypted ip (find_saved mailbox db)) db (\<lambda>_. keeps db)"
proof -
  let ?row0 = "case find_saved mailbox db of Some e \<Rightarrow> merge_mailbox mailbox e | None \<Rightarrow> fresh_mailbox env mailbox"
  define row where "row = (if encrypted \<noteq> [] then ?row0\<lparr>m_EncryptedCredential := encrypted\<rparr> else ?row0)"
  have row0: "m_ID row = m_ID ?row0" "m_ActiveOrderID row = m_ActiveOrderID ?row0" by (simp_all add: row_def)
  have old: "\<exists>m\<in>set (db_mailboxes db). m_ID m = m_ID row \<and> m_ActiveOrderID m = m_ActiveOrderID row"
    if "m_ID row \<in> m_ID ` set (db_mailboxes db)"
  proof (cases "find_saved mailbox db")
    case None
    then have "\<forall>m\<in>set (db_mailboxes db). mbx_ID mailbox \<noteq> [] \<longrightarrow> m_ID m \<noteq> mbx_ID mailbox"
      by (auto simp: find_saved_def row_first_None)
    then show ?thesis using that assms None by (auto simp: row0 split: if_splits)
  next
    case (Some e)
    then have "e \<in> set (db_mailboxes db)" using row_first_Some by (fastforce simp: find_saved_def)
    then show ?thesis using Some by (auto simp: row0)
  qed
  have new: "m_ActiveOrderID row = []" if "m_ID row \<notin> m_ID ` set (db_mailboxes db)"
  proof (cases "find_saved mailbox db")
    case (Some e)
    then have "e \<in> set (db_mailboxes db)" using row_first_Some by (fastforce simp: find_saved_def)
    then show ?thesis using that Some by (simp add: row0)
  qed (simp add: row0)
  have put: "tx_ok (put_mailbox env 1 row) db (\<lambda>_. keeps db)" by (rule keeps_put_mailbox) (use old new in auto)
  show ?thesis
    unfolding save_found_def Let_def row_def [symmetric] tx_ok_then tx_ok_bind tx_ok_read tx_ok_return
    by (rule tx_ok_weaken [OF put], intro impI, rule tx_ok_weaken [OF keeps_ensure_states], assumption, erule keeps_audit)
qed

lemma SaveMailbox_keeps:
  assumes "uuid env 0 \<notin> m_ID ` set (db_mailboxes db)"
  shows "keeps db (snd (run_tx (SaveMailbox cr env actorID mailbox credential ip) db))"
proof (rule run_tx_rel [where R = keeps], simp)
  show "tx_ok (SaveMailbox cr env actorID mailbox credential ip) db (\<lambda>_. keeps db)"
    unfolding SaveMailbox_def tx_ok_sum tx_ok_option tx_ok_fail tx_ok_bind tx_ok_read
    by (auto simp: tx_ok_fail intro: save_found_keeps [OF assms])
qed

text \<open>A leased platform state belongs to a mailbox that serves an order.\<close>

lemma leased_state_mailbox:
  assumes "lease_ok db" and "s \<in> set (db_states db)" "ms_State s = ServiceLeased"
  shows "\<exists>m\<in>set (db_mailboxes db). m_ID m = ms_MailboxID s \<and> m_ActiveOrderID m \<noteq> []"
    and "\<exists>r\<in>set (db_orders db). o_ServiceID r = ms_ServiceID s"
proof -
  obtain r where r: "r \<in> set (db_orders db)" "order_open r" "order_key r = ms_key s"
    using lease_okD(4) [OF assms] by (auto simp: state_bound_def)
  have k: "o_MailboxID r = ms_MailboxID s" "o_ServiceID r = ms_ServiceID s" using r(3) by (simp_all add: order_key_def ms_key_def)
  then show "\<exists>r\<in>set (db_orders db). o_ServiceID r = ms_ServiceID s" using r(1) by blast
  show "\<exists>m\<in>set (db_mailboxes db). m_ID m = ms_MailboxID s \<and> m_ActiveOrderID m \<noteq> []"
    using lease_okD(2) [OF assms(1) r(1,2)] k by (auto simp: order_leased_def)
qed

lemma keeps_delete_states:
  assumes "\<And>s. lease_ok db \<Longrightarrow> s \<in> set (db_states db) \<Longrightarrow> P s \<Longrightarrow> ms_State s \<noteq> ServiceLeased"
    and "\<And>m. lease_ok db \<Longrightarrow> m \<in> set (db_mailboxes db) \<Longrightarrow> Q m \<Longrightarrow> m_ActiveOrderID m = []"
    and "db_states db' = del_rows P (db_states db)" "db_mailboxes db' = del_rows Q (db_mailboxes db)"
    and "db_users db' = db_users db" "db_orders db' = db_orders db" "db_ledgers db' = db_ledgers db"
  shows "keeps db db'"
proof (rule keeps_resources)
  assume ok: "lease_ok db"
  have "holders db' = holders db"
    using assms(2) [OF ok] by (auto simp: holders_def assms(4) del_rows_def)
  moreover have "leased_keys db' = leased_keys db"
    using assms(1) [OF ok] by (auto simp: leased_keys_def assms(3) del_rows_def)
  ultimately show "resource_change db db'"
    using keys_okD [OF lease_okD(1) [OF ok]] assms(3-7)
    by (simp add: resource_change_def del_rows_def distinct_map_filter)
qed

lemma DeleteMailbox_keeps: "keeps db (snd (run_tx (DeleteMailbox env actorID mailboxID ip) db))"
proof (rule run_tx_rel [where R = keeps], simp)
  show "tx_ok (DeleteMailbox env actorID mailboxID ip) db (\<lambda>_. keeps db)"
    unfolding DeleteMailbox_def tx_ok_bind tx_ok_first tx_ok_then tx_ok_guard tx_ok_update
  proof (intro allI impI, elim conjE, rule keeps_audit)
    fix mailbox
    assume f: "row_find (\<lambda>m. m_ID m = mailboxID) (db_mailboxes db) = Some mailbox" and free: "m_ActiveOrderID mailbox = []"
    have m: "mailbox \<in> set (db_mailboxes db)" "m_ID mailbox = mailboxID" using row_find_Some [OF f] by simp_all
    have only: "m_ActiveOrderID m' = []" if "lease_ok db" "m' \<in> set (db_mailboxes db)" "m_ID m' = mailboxID" for m'
      using keys_okD(3) [OF lease_okD(1) [OF that(1)]] that(2,3) m free by (metis distinct_map inj_onD)
    show "keeps db (db\<lparr>db_states := del_rows (\<lambda>s. ms_MailboxID s = mailboxID) (db_states db),
        db_mailboxes := del_rows (\<lambda>m. m_ID m = m_ID mailbox) (db_mailboxes
          (db\<lparr>db_states := del_rows (\<lambda>s. ms_MailboxID s = mailboxID) (db_states db)\<rparr>))\<rparr>)"
      by (rule keeps_delete_states [where P = "\<lambda>s. ms_MailboxID s = mailboxID" and Q = "\<lambda>m. m_ID m = mailboxID"])
        (use only leased_state_mailbox(1) m in \<open>fastforce+\<close>)
  qed
qed

lemma delete_batch_keeps: "keeps db (snd (run_tx (delete_batch env locked actorID ip limit) db))"
proof (rule run_tx_rel [where R = keeps], simp)
  show "tx_ok (delete_batch env locked actorID ip limit) db (\<lambda>_. keeps db)"
  proof -
    let ?ids = "take limit (map m_ID (sort_key m_ID (filter (\<lambda>m. deletable m \<and> \<not> locked (m_ID m)) (db_mailboxes db))))"
    have ids: "\<exists>m\<in>set (db_mailboxes db). m_ID m = i \<and> m_ActiveOrderID m = []" if "i \<in> set ?ids" for i
      using set_take_subset [of limit, THEN subsetD, OF that] by (auto simp: deletable_def)
    have only: "m_ActiveOrderID m = []" if ok: "lease_ok db" and m: "m \<in> set (db_mailboxes db)" "m_ID m \<in> set ?ids" for m
    proof -
      obtain m' where "m' \<in> set (db_mailboxes db)" "m_ID m' = m_ID m" "m_ActiveOrderID m' = []" using ids [OF m(2)] by auto
      then show ?thesis using keys_okD(3) [OF lease_okD(1) [OF ok]] m(1) by (metis distinct_map inj_onD)
    qed
    define D where "D = set ?ids"
    have st: "ms_State s \<noteq> ServiceLeased" if "lease_ok db" "s \<in> set (db_states db)" "ms_MailboxID s \<in> D" for s
      using leased_state_mailbox(1) [OF that(1,2)] only [OF that(1)] that(3) unfolding D_def by metis
    have k: "keeps db (db\<lparr>db_states := del_rows (\<lambda>s. ms_MailboxID s \<in> D) (db_states db), db_mail_events := ev,
        db_mailboxes := del_rows (\<lambda>m. m_ID m \<in> D \<and> deletable m) (db_mailboxes db)\<rparr>)" for ev
      by (rule keeps_delete_states [where P = "\<lambda>s. ms_MailboxID s \<in> D" and Q = "\<lambda>m. m_ID m \<in> D \<and> deletable m"])
        (simp_all add: st deletable_def)
    show ?thesis
      unfolding delete_batch_def tx_ok_bind tx_ok_read tx_ok_if tx_ok_then tx_ok_return tx_ok_update tx_ok_put D_def [symmetric]
      by (auto intro!: keeps_audit simp: k)
  qed
qed

lemma delete_batches_keeps: "keeps db (snd (delete_batches envs locked actorID ip expected k deleted db))"
proof (induction envs locked actorID ip expected k deleted db rule: delete_batches.induct)
  case (1 envs locked actorID ip expected k deleted db)
  let ?run = "run_tx (delete_batch (envs k) (locked k) actorID ip (nat (min batchSize (expected - deleted)))) db"
  obtain res db1 where r: "?run = (res, db1)" by (cases ?run)
  have k: "keeps db db1" using delete_batch_keeps r by (metis snd_conv)
  show ?case
  proof (cases "deleted < expected \<and> (\<exists>batch. res = Inr batch \<and> batch \<noteq> 0)")
    case True
    then obtain batch where b: "deleted < expected" "res = Inr batch" "batch \<noteq> 0" by auto
    then have "delete_batches envs locked actorID ip expected k deleted db =
        delete_batches envs locked actorID ip expected (Suc k) (deleted + int batch) db1"
      by (subst delete_batches.simps) (simp add: r)
    then show ?thesis using keeps_trans [OF k 1 [OF b(1) r [symmetric, unfolded b(2)] refl b(3)]] by simp
  next
    case False
    then have "snd (delete_batches envs locked actorID ip expected k deleted db) = (if deleted < expected then db1 else db)"
      by (subst delete_batches.simps) (auto simp: r split: sum.splits)
    then show ?thesis using k by simp
  qed
qed

lemma DeleteInvalidMailboxes_keeps: "keeps db (snd (DeleteInvalidMailboxes env envs locked actorID ip expected db))"
  by (auto simp: DeleteInvalidMailboxes_def delete_batches_keeps split: sum.splits)

lemma keeps_touch:
  assumes "\<And>m. m_ID (f m) = m_ID m \<and> m_ActiveOrderID (f m) = m_ActiveOrderID m"
  shows "keeps db (db\<lparr>db_mailboxes := upd_rows P f (db_mailboxes db)\<rparr>)"
  by (rule keeps_orders, rule r_into_rtranclp, rule step_touch [where P = P and f = f]) (use assms in auto)

lemma UpdateMailboxCredential_keeps:
  "keeps db (snd (run_tx (UpdateMailboxCredential cr env actorID mailboxID credential validUntil ip) db))"
proof (rule run_tx_rel [where R = keeps], simp)
  show "tx_ok (UpdateMailboxCredential cr env actorID mailboxID credential validUntil ip) db (\<lambda>_. keeps db)"
    unfolding UpdateMailboxCredential_def update_mailboxes_def tx_ok_option tx_ok_fail tx_ok_then tx_ok_bind tx_ok_get
      tx_ok_guard tx_ok_update
    by (auto intro!: keeps_audit keeps_touch simp: tx_ok_fail)
qed

text \<open>The mailbox row at the end of a verification.\<close>

lemma verified_row_simps [simp]:
  "m_ID (verified_row connection status err verifiedAt m) = m_ID m"
  "m_ActiveOrderID (verified_row connection status err verifiedAt m) =
     (if status = MailboxVerificationFailed then [] else m_ActiveOrderID m)"
  "m_VerificationStatus (verified_row connection status err verifiedAt m) = status"
  by (simp_all add: verified_row_def Let_def MailboxVerificationFailed_def MailboxVerificationVerified_def)

text \<open>Under the lease invariant the order that a failing mailbox serves is open: it is refunded and the mailbox is
  free before its row is written.\<close>

definition lost_mailbox :: "env \<Rightarrow> sqlMailbox \<Rightarrow> db \<Rightarrow> db \<Rightarrow> bool" where
  "lost_mailbox env mailbox db db' \<longleftrightarrow>
     (\<exists>r r'. r \<in> set (db_orders db) \<and> order_open r \<and> o_ID r = m_ActiveOrderID mailbox \<and> o_MailboxID r = m_ID mailbox
        \<and> closed r r' db db' \<and> order_steps db db'
        \<and> refund_post env 2 (r\<lparr>o_FailureReason := msg_verification_failed_refund\<rparr>) OrderExpiredRefunded db r' db')"

lemma release_failed_effect:
  assumes ok: "lease_ok db" and m: "mailbox \<in> set (db_mailboxes db)" "m_ActiveOrderID mailbox \<noteq> []"
  shows "tx_ok (release_failed env 1 (m_ActiveOrderID mailbox)) db (\<lambda>_. lost_mailbox env mailbox db)"
proof -
  obtain r where r: "r \<in> set (db_orders db)" "order_open r" "o_ID r = m_ActiveOrderID mailbox" "o_MailboxID r = m_ID mailbox"
    using lease_okD(3) [OF ok m] by (auto simp: mailbox_bound_def)
  let ?r0 = "r\<lparr>o_FailureReason := msg_verification_failed_refund\<rparr>"
  have copy: "refundable_copy r ?r0" by simp
  have find: "row_find (\<lambda>r. o_ID r = m_ActiveOrderID mailbox) (db_orders db) = Some r"
  proof (cases "row_find (\<lambda>r. o_ID r = m_ActiveOrderID mailbox) (db_orders db)")
    case None
    then show ?thesis using r(1,3) by (simp add: row_find_None)
  next
    case (Some r1)
    then have "r1 = r"
      using row_find_Some [OF Some] r(1,3) keys_okD(2) [OF lease_okD(1) [OF ok]] by (metis distinct_map inj_onD)
    then show ?thesis using Some by simp
  qed
  have "tx_ok (refundOrder env 2 ?r0 OrderExpiredRefunded) db (\<lambda>r' db'. lost_mailbox env mailbox db db')"
  proof (rule tx_ok_weaken [OF refund_call [OF ok r(1,2) refundable_copyD(1,3,4,6) [OF copy]]])
    fix r' db'
    assume "lease_ok db' \<and> closed r r' db db' \<and> refund_post env 2 ?r0 OrderExpiredRefunded db r' db'"
    then show "lost_mailbox env mailbox db db'"
      unfolding lost_mailbox_def using r step_refund [OF r(1,2) copy] by blast
  qed simp
  then show ?thesis
    unfolding release_failed_def tx_ok_bind [of "tx_read _ _ _"] tx_ok_read find
    by (simp add: r(2) tx_ok_then tx_ok_return numeral_2_eq_2)
qed

definition verified_post ::
  "env \<Rightarrow> string \<Rightarrow> string \<Rightarrow> string \<Rightarrow> string \<Rightarrow> time \<Rightarrow> db \<Rightarrow> db \<Rightarrow> bool" where
  "verified_post env mailboxID connection status err verifiedAt db db' \<longleftrightarrow>
     (\<exists>mailbox\<in>set (db_mailboxes db). m_ID mailbox = mailboxID
        \<and> (\<exists>db1. (if status = MailboxVerificationFailed \<and> m_ActiveOrderID mailbox \<noteq> [] then lost_mailbox env mailbox db db1
                  else db1 = db)
            \<and> same_but_logs (db1\<lparr>db_mailboxes := upsert m_ID
                 ((verified_row connection status err verifiedAt mailbox)\<lparr>m_UpdatedAt := stamp env 20\<rparr>) (db_mailboxes db1)\<rparr>) db'))"

lemma UpdateMailboxVerification_effect:
  assumes ok: "lease_ok db"
  shows "tx_ok (UpdateMailboxVerification env actorID mailboxID connection status err verifiedAt ip) db
     (\<lambda>_. verified_post env mailboxID connection status err verifiedAt db)"
  unfolding UpdateMailboxVerification_def tx_ok_bind [of "tx_first _ _ _ _"] tx_ok_first
proof (intro allI impI, elim conjE)
  fix mailbox
  assume f: "row_find (\<lambda>m. m_ID m = mailboxID) (db_mailboxes db) = Some mailbox"
  then have m: "mailbox \<in> set (db_mailboxes db)" "m_ID mailbox = mailboxID" using row_find_Some [OF f] by simp_all
  let ?lost = "status = MailboxVerificationFailed \<and> m_ActiveOrderID mailbox \<noteq> []"
  let ?row = "verified_row connection status err verifiedAt mailbox"
  let ?rest = "tx_then (save_mailbox_row env 20 ?row) (create_audit env 21 (audit_row (uuid env 21) actorID
      ''mailbox.verify'' ''mailbox'' mailboxID (msg_verify_result @ status) ip))"
  have rest: "tx_ok ?rest db1 (\<lambda>_. verified_post env mailboxID connection status err verifiedAt db)"
    if "if ?lost then lost_mailbox env mailbox db db1 else db1 = db" for db1
  proof -
    have "verified_post env mailboxID connection status err verifiedAt db
        (db1\<lparr>db_mailboxes := upsert m_ID (?row\<lparr>m_UpdatedAt := stamp env 20\<rparr>) (db_mailboxes db1)\<rparr>\<lparr>db_audits := as\<rparr>)" for as
      unfolding verified_post_def using m that by (intro bexI [of _ mailbox] conjI exI [of _ db1]) simp_all
    then show ?thesis
      unfolding tx_ok_then save_mailbox_row_def create_audit_def tx_ok_insert by (intro impI)
  qed
  show "tx_ok (tx_then (tx_when ?lost (release_failed env 1 (m_ActiveOrderID mailbox))) ?rest) db
      (\<lambda>_. verified_post env mailboxID connection status err verifiedAt db)"
    unfolding tx_ok_then [of "tx_when _ _"] tx_ok_when
  proof (cases ?lost)
    case True
    then have "tx_ok (release_failed env 1 (m_ActiveOrderID mailbox)) db
        (\<lambda>_ db1. tx_ok ?rest db1 (\<lambda>_. verified_post env mailboxID connection status err verifiedAt db))"
      using True by (intro tx_ok_weaken [OF release_failed_effect [OF ok m(1)]] rest) simp_all
    then show "if ?lost then tx_ok (release_failed env 1 (m_ActiveOrderID mailbox)) db
        (\<lambda>_ db1. tx_ok ?rest db1 (\<lambda>_. verified_post env mailboxID connection status err verifiedAt db))
      else tx_ok ?rest db (\<lambda>_. verified_post env mailboxID connection status err verifiedAt db)" using True by simp
  next
    case False
    have "tx_ok ?rest db (\<lambda>_. verified_post env mailboxID connection status err verifiedAt db)"
      by (rule rest) (use False in auto)
    then show "if ?lost then tx_ok (release_failed env 1 (m_ActiveOrderID mailbox)) db
        (\<lambda>_ db1. tx_ok ?rest db1 (\<lambda>_. verified_post env mailboxID connection status err verifiedAt db))
      else tx_ok ?rest db (\<lambda>_. verified_post env mailboxID connection status err verifiedAt db)" unfolding if_not_P [OF False] .
  qed
qed

lemma UpdateMailboxVerification_keeps:
  "keeps db (snd (run_tx (UpdateMailboxVerification env actorID mailboxID connection status err verifiedAt ip) db))"
proof (cases "lease_ok db")
  case True
  show ?thesis
  proof (rule run_tx_rel [where R = keeps], simp, rule tx_ok_weaken [OF UpdateMailboxVerification_effect [OF True]])
    fix db'
    assume "verified_post env mailboxID connection status err verifiedAt db db'"
    then obtain mailbox db1 where m: "mailbox \<in> set (db_mailboxes db)" "m_ID mailbox = mailboxID"
      and lost: "if status = MailboxVerificationFailed \<and> m_ActiveOrderID mailbox \<noteq> [] then lost_mailbox env mailbox db db1 else db1 = db"
      and logs: "same_but_logs (db1\<lparr>db_mailboxes := upsert m_ID
           ((verified_row connection status err verifiedAt mailbox)\<lparr>m_UpdatedAt := stamp env 20\<rparr>) (db_mailboxes db1)\<rparr>) db'"
      unfolding verified_post_def by blast
    let ?row = "(verified_row connection status err verifiedAt mailbox)\<lparr>m_UpdatedAt := stamp env 20\<rparr>"
    have k1: "keeps db db1 \<and> (\<exists>m\<in>set (db_mailboxes db1). m_ID m = m_ID ?row \<and> m_ActiveOrderID m = m_ActiveOrderID ?row)"
    proof (cases "status = MailboxVerificationFailed \<and> m_ActiveOrderID mailbox \<noteq> []")
      case True
      then obtain r r' where r: "closed r r' db db1" "o_MailboxID r = m_ID mailbox" "order_steps db db1"
        using lost unfolding lost_mailbox_def by auto
      obtain f where f: "\<And>m. m_ID (f m) = m_ID m" "\<And>m. m_ActiveOrderID (f m) = []"
        and M: "db_mailboxes db1 = upd_rows (\<lambda>m. m_ID m = o_MailboxID r) f (db_mailboxes db)"
        using r(1) unfolding closed_def by blast
      have "f mailbox \<in> set (db_mailboxes db1)" using m(1) r(2) unfolding M by (intro in_upd_rows_hit) simp_all
      then show ?thesis using f True keeps_orders [OF r(3)] by (intro conjI bexI [of _ "f mailbox"]) simp_all
    next
      case False
      then show ?thesis using lost m(1) by (auto intro!: bexI [of _ mailbox])
    qed
    have "keeps db1 (db1\<lparr>db_mailboxes := upsert m_ID ?row (db_mailboxes db1)\<rparr>)"
    proof (rule keeps_resources)
      assume ok1: "lease_ok db1"
      note d = keys_okD [OF lease_okD(1) [OF ok1]]
      show "resource_change db1 (db1\<lparr>db_mailboxes := upsert m_ID ?row (db_mailboxes db1)\<rparr>)"
        using holders_upsert [OF d(3), of ?row] k1 d
        by (simp add: resource_change_def distinct_upsert leased_keys_def image_iff Bex_def) metis
    qed
    then show "keeps db db'" using k1 keeps_logs [OF logs] keeps_trans by blast
  qed
qed (simp add: keeps_def)

text \<open>Inserting or rewriting states that are not leased before or after.\<close>

lemma keeps_states:
  assumes "\<And>s. lease_ok db \<Longrightarrow> s \<in> set (db_states db) \<Longrightarrow> P s \<Longrightarrow> ms_State s \<noteq> ServiceLeased"
    and "\<And>s. ms_key (f s) = ms_key s \<and> ms_State (f s) \<noteq> ServiceLeased"
  shows "keeps db (db\<lparr>db_states := upd_rows P f (db_states db)\<rparr>)"
proof (rule keeps_resources)
  assume ok: "lease_ok db"
  have "leased_keys (db\<lparr>db_states := upd_rows P f (db_states db)\<rparr>) = leased_keys db"
    using assms(1) [OF ok] assms(2) by (force simp: leased_keys_def set_upd_rows image_iff)
  moreover have "map ms_key (upd_rows P f (db_states db)) = map ms_key (db_states db)"
    by (rule map_key_upd_rows) (simp add: assms(2))
  ultimately show "resource_change db (db\<lparr>db_states := upd_rows P f (db_states db)\<rparr>)"
    using keys_okD [OF lease_okD(1) [OF ok]] by (simp add: resource_change_def holders_def)
qed

text \<open>Tables no invariant reads.\<close>

lemma keeps_other:
  assumes "db_users db' = db_users db" "db_orders db' = db_orders db" "db_mailboxes db' = db_mailboxes db"
    "db_states db' = db_states db" "db_ledgers db' = db_ledgers db"
  shows "keeps db db'"
  using assms by (simp add: keeps_def lease_ok_def keys_ok_def order_leased_def mailbox_bound_def state_bound_def
      books_ok_def order_book_def balance_of_def ledger_total_def)

lemma SaveService_keeps: "keeps db (snd (run_tx (SaveService env actorID service ip) db))"
proof (rule run_tx_rel [where R = keeps], simp)
  have k: "keeps db (db\<lparr>db_services := sv\<rparr>)" for sv by (rule keeps_other) simp_all
  show "tx_ok (SaveService env actorID service ip) db (\<lambda>_. keeps db)"
    unfolding SaveService_def Let_def put_service_def tx_ok_then tx_ok_insert tx_ok_bind tx_ok_read tx_ok_return
    by (intro impI, rule tx_ok_weaken [OF keeps_ensure_states [OF k]], erule keeps_audit)
qed

lemma DeleteService_keeps: "keeps db (snd (run_tx (DeleteService env actorID serviceID ip) db))"
proof (rule run_tx_rel [where R = keeps], simp)
  have free: "ms_State s \<noteq> ServiceLeased" if "lease_ok db" "s \<in> set (db_states db)" "ms_ServiceID s = serviceID"
    "count_rows (\<lambda>r. o_ServiceID r = serviceID) (db_orders db) = 0" for s
    using leased_state_mailbox(2) [OF that(1,2)] that(3,4) by (auto simp: count_rows_def filter_empty_conv)
  have "keeps db (db\<lparr>db_states := del_rows (\<lambda>s. ms_ServiceID s = serviceID) (db_states db), db_services := sv\<rparr>)"
    if "count_rows (\<lambda>r. o_ServiceID r = serviceID) (db_orders db) = 0" for sv
    by (rule keeps_delete_states [where P = "\<lambda>s. ms_ServiceID s = serviceID" and Q = "\<lambda>_. False"])
      (simp_all add: free that del_rows_def)
  then show "tx_ok (DeleteService env actorID serviceID ip) db (\<lambda>_. keeps db)"
    unfolding DeleteService_def tx_ok_then tx_ok_bind tx_ok_read tx_ok_guard tx_ok_update tx_ok_put
    by (auto intro!: keeps_audit)
qed

lemma MarkMailEvent_keeps: "keeps db (snd (MarkMailEvent env mailboxID messageID sender subject receivedAt db))"
proof -
  let ?run = "run_tx (create_mail_event env 0 \<lparr> ev_ID = uuid env 0, ev_MailboxID = mailboxID, ev_MessageID = messageID,
             ev_Sender = sender, ev_Subject = subject, ev_ReceivedAt = receivedAt, ev_CreatedAt = zero_time \<rparr>) db"
  have "keeps db (snd ?run)"
    by (rule run_tx_rel [where R = keeps], simp, simp add: create_mail_event_def tx_ok_insert keeps_other)
  moreover have "snd (MarkMailEvent env mailboxID messageID sender subject receivedAt db) = snd ?run"
    by (cases ?run) (auto simp: MarkMailEvent_def split: sum.splits store_error.splits)
  ultimately show ?thesis by simp
qed

lemma MarkMailboxServiceConsumed_keeps: "keeps db (snd (run_tx (MarkMailboxServiceConsumed env mailboxID serviceID changedAt) db))"
proof (rule run_tx_rel [where R = keeps], simp)
  show "tx_ok (MarkMailboxServiceConsumed env mailboxID serviceID changedAt) db (\<lambda>_. keeps db)"
    unfolding MarkMailboxServiceConsumed_def Let_def tx_ok_bind tx_ok_read tx_ok_then tx_ok_put tx_ok_when
    by (auto intro!: keeps_audit keeps_states simp: ms_key_def)
qed

lemma MarkMailboxServiceRegistered_keeps:
  "keeps db (snd (run_tx (MarkMailboxServiceRegistered env actorID mailboxID serviceID ip) db))"
proof (rule run_tx_rel [where R = keeps], simp)
  have "keeps db (db\<lparr>db_states := upd_rows (\<lambda>s. ms_MailboxID s = mailboxID \<and> ms_ServiceID s = serviceID)
      (\<lambda>s. s\<lparr>ms_State := ServiceConsumed, ms_ChangedAt := clock env 0\<rparr>) (db_states db)\<rparr>)"
    if f: "row_find (\<lambda>s. ms_MailboxID s = mailboxID \<and> ms_ServiceID s = serviceID) (db_states db) = Some state"
      "ms_State state \<noteq> ServiceLeased" for state
  proof (rule keeps_states)
    fix s
    assume s: "lease_ok db" "s \<in> set (db_states db)" "ms_MailboxID s = mailboxID \<and> ms_ServiceID s = serviceID"
    have "ms_key s = ms_key state" using row_find_Some [OF f(1)] s(3) by (simp add: ms_key_def)
    then have "s = state"
      using keys_okD(4) [OF lease_okD(1) [OF s(1)]] row_find_Some [OF f(1)] s(2) by (metis distinct_map inj_onD)
    then show "ms_State s \<noteq> ServiceLeased" using f(2) by simp
  qed (simp add: ms_key_def)
  then show "tx_ok (MarkMailboxServiceRegistered env actorID mailboxID serviceID ip) db (\<lambda>_. keeps db)"
    unfolding MarkMailboxServiceRegistered_def update_states_def tx_ok_bind tx_ok_read tx_ok_option tx_ok_if tx_ok_then
      tx_ok_update
    by (auto intro!: keeps_audit simp: tx_ok_fail tx_ok_return)
qed

lemma SaveSystemConfig_keeps: "keeps db (snd (run_tx (SaveSystemConfig cr env key config) db))"
proof (rule run_tx_rel [where R = keeps], simp)
  show "tx_ok (SaveSystemConfig cr env key config) db (\<lambda>_. keeps db)"
    unfolding SaveSystemConfig_def Let_def tx_ok_if tx_ok_option tx_ok_bind tx_ok_read tx_ok_insert tx_ok_update tx_ok_fail
    by (auto intro!: keeps_other simp: tx_ok_fail)
qed

text \<open>Managing mailboxes and platforms never disturbs the orders: saving, verifying, deleting or re-authorising a
  mailbox, saving or deleting a platform, marking a mailbox as used and recording mails keep the lease invariant and
  the order books, and change no balance except by ledger lines they add.\<close>

theorem resource_operations_keep_store:
  assumes "lease_ok db" and "books_ok db" and "uuid env 0 \<notin> m_ID ` set (db_mailboxes db)"
    and "db' \<in> {snd (run_tx (SaveMailbox cr env actor mailbox credential ip) db),
      snd (run_tx (DeleteMailbox env actor mid ip) db),
      snd (DeleteInvalidMailboxes env envs locked actor ip expected db),
      snd (run_tx (UpdateMailboxCredential cr env actor mid credential validUntil ip) db),
      snd (run_tx (UpdateMailboxVerification env actor mid connection status err verifiedAt ip) db),
      snd (run_tx (SaveService env actor service ip) db), snd (run_tx (DeleteService env actor sid ip) db),
      snd (MarkMailEvent env mid msg sender subject receivedAt db),
      snd (run_tx (MarkMailboxServiceConsumed env mid sid changedAt) db),
      snd (run_tx (MarkMailboxServiceRegistered env actor mid sid ip) db),
      snd (run_tx (SaveSystemConfig cr env key credential) db)}"
  shows "lease_ok db' \<and> books_ok db' \<and> balance_of db' v - balance_of db v = ledger_total db' v - ledger_total db v"
proof -
  have "keeps db db'"
    using assms(4) unfolding insert_iff empty_iff
    by (elim disjE; simp only: SaveMailbox_keeps [OF assms(3)] DeleteMailbox_keeps DeleteInvalidMailboxes_keeps
        UpdateMailboxCredential_keeps UpdateMailboxVerification_keeps SaveService_keeps DeleteService_keeps
        MarkMailEvent_keeps MarkMailboxServiceConsumed_keeps MarkMailboxServiceRegistered_keeps SaveSystemConfig_keeps)
  then have "lease_ok db'" "books_ok db'" "balance_of db' v - ledger_total db' v = balance_of db v - ledger_total db v"
    using assms(1,2) by (auto simp: keeps_def)
  then show ?thesis by linarith
qed

lemma resource_operations_keep_store_witness:
  "lease_ok (snd (run_tx (UpdateMailboxVerification (quiet_env 5) ''admin'' ''m1'' ''imap'' MailboxVerificationFailed ''x'' 5 [])
      demo_leased_db))"
proof -
  have "uuid (quiet_env 5) 0 \<notin> m_ID ` set (db_mailboxes demo_leased_db)" by (simp add: demo_defs)
  then show ?thesis
    using resource_operations_keep_store [OF lease_ok_demo_leased books_ok_demo_leased, where env = "quiet_env 5"
        and actor = "''admin''" and mid = "''m1''" and connection = "''imap''" and status = MailboxVerificationFailed
        and err = "''x''" and verifiedAt = 5 and ip = "[]"]
    by (metis insertI1 insertI2)
qed

subsection \<open>A failed verification\<close>

lemma closed_id: "closed r r' db db' \<Longrightarrow> o_ID r' = o_ID r"
  by (simp add: closed_def)

lemma refund_post_refunded:
  assumes "refund_post env n r0 status db r' db'"
  shows "r' \<in> set (db_orders db')" "o_Status r' = status" "o_Refunded r'"
  using assms by (elim refund_postE, drule_tac same_but_logsD(2), simp add: refunded_db_def set_upsert)+

text \<open>C18: When the verification of a mailbox fails, nobody is left waiting on it: the order it served is refunded in full
  in the same transaction, the mailbox is free, marked as failed and - unless it was blocked - in error, no
  open order names it and no later allocation can choose it.\<close>

theorem failed_verification_releases:
  assumes "lease_ok db"
    and "run_tx (UpdateMailboxVerification env actorID mailboxID connection MailboxVerificationFailed err verifiedAt ip) db = (Inr (), db')"
  shows "\<exists>m\<in>set (db_mailboxes db). \<exists>m'\<in>set (db_mailboxes db'). m_ID m = mailboxID \<and> m_ID m' = mailboxID
     \<and> m_ActiveOrderID m' = [] \<and> m_VerificationStatus m' = MailboxVerificationFailed
     \<and> m_State m' = (if m_State m = MailboxBlocked then MailboxBlocked else MailboxError)
     \<and> (\<forall>r\<in>set (db_orders db'). order_open r \<longrightarrow> o_MailboxID r \<noteq> mailboxID)
     \<and> (\<forall>r\<in>set (db_orders db). order_open r \<and> o_MailboxID r = mailboxID \<longrightarrow>
          booked (o_UserID r) (o_ID r) [] ''order_refund'' (o_PriceCents r) db db'
          \<and> (\<exists>r'\<in>set (db_orders db'). o_ID r' = o_ID r \<and> o_Status r' = OrderExpiredRefunded \<and> o_Refunded r'))
     \<and> (\<forall>env' locked serviceID providers x. allocatable env' locked serviceID providers db' x \<longrightarrow> m_ID x \<noteq> mailboxID)"
proof -
  let ?failed = "MailboxVerificationFailed"
  have "verified_post env mailboxID connection ?failed err verifiedAt db db'"
    using UpdateMailboxVerification_effect [OF assms(1)] assms(2) by (meson run_tx_ok tx_okD)
  then obtain m db1 where m: "m \<in> set (db_mailboxes db)" "m_ID m = mailboxID"
    and lost: "if m_ActiveOrderID m \<noteq> [] then lost_mailbox env m db db1 else db1 = db"
    and logs: "same_but_logs (db1\<lparr>db_mailboxes := upsert m_ID
         ((verified_row connection ?failed err verifiedAt m)\<lparr>m_UpdatedAt := stamp env 20\<rparr>) (db_mailboxes db1)\<rparr>) db'"
    unfolding verified_post_def by auto
  let ?m' = "(verified_row connection ?failed err verifiedAt m)\<lparr>m_UpdatedAt := stamp env 20\<rparr>"
  have ok': "lease_ok db'"
    using UpdateMailboxVerification_keeps [of db env actorID mailboxID connection ?failed err verifiedAt ip] assms
    by (simp add: keeps_def)
  have m': "?m' \<in> set (db_mailboxes db')" using same_but_logsD(3) [OF logs] by (simp add: set_upsert)
  have only: "x = ?m'" if "x \<in> set (db_mailboxes db')" "m_ID x = mailboxID" for x
    using keys_okD(3) [OF lease_okD(1) [OF ok']] m' that m(2) by (auto simp: distinct_map inj_on_def)
  have state: "m_State ?m' = (if m_State m = MailboxBlocked then MailboxBlocked else MailboxError)"
    by (simp add: verified_row_def Let_def MailboxVerificationFailed_def MailboxVerificationVerified_def)
  have no_open: "o_MailboxID r \<noteq> mailboxID" if r: "r \<in> set (db_orders db')" "order_open r" for r
  proof
    assume "o_MailboxID r = mailboxID"
    then obtain x where "x \<in> set (db_mailboxes db')" "m_ID x = mailboxID" "m_ActiveOrderID x = o_ID r" "o_ID r \<noteq> []"
      using lease_okD(2) [OF ok' r] by (auto simp: order_leased_def)
    then show False using only by fastforce
  qed
  have refunded: "booked (o_UserID r) (o_ID r) [] ''order_refund'' (o_PriceCents r) db db'
          \<and> (\<exists>r'\<in>set (db_orders db'). o_ID r' = o_ID r \<and> o_Status r' = OrderExpiredRefunded \<and> o_Refunded r')"
    if r: "r \<in> set (db_orders db)" "order_open r" "o_MailboxID r = mailboxID" for r
  proof -
    obtain x where "x \<in> set (db_mailboxes db)" "m_ID x = mailboxID" "m_ActiveOrderID x = o_ID r" "o_ID r \<noteq> []"
      using lease_okD(2) [OF assms(1) r(1,2)] r(3) by (auto simp: order_leased_def)
    then have "m_ActiveOrderID m \<noteq> []"
      using m keys_okD(3) [OF lease_okD(1) [OF assms(1)]] by (metis distinct_map inj_onD)
    then obtain q q' where q: "q \<in> set (db_orders db)" "order_open q" "o_MailboxID q = mailboxID"
      and cl: "closed q q' db db1"
      and post: "refund_post env 2 (q\<lparr>o_FailureReason := msg_verification_failed_refund\<rparr>) OrderExpiredRefunded db q' db1"
      using lost m(2) unfolding lost_mailbox_def by auto
    have "q = r" using open_orders_disjoint [OF assms(1) q(1) r(1) q(2) r(2)] q(3) r(3) by simp
    moreover have "booked (o_UserID q) (o_ID q) [] ''order_refund'' (o_PriceCents q) db db1"
      using refund_post_booked [OF post] by simp
    moreover have "db_users db' = db_users db1" "db_ledgers db' = db_ledgers db1" "db_orders db' = db_orders db1"
      using same_but_logsD(1,2,5) [OF logs] by simp_all
    ultimately show ?thesis
      using refund_post_refunded [OF post] closed_id [OF cl] by (auto simp: booked_def)
  qed
  have none: "m_ID x \<noteq> mailboxID" if "allocatable env' locked serviceID providers db' x" for env' locked serviceID providers x
  proof
    assume "m_ID x = mailboxID"
    moreover have "x \<in> set (db_mailboxes db')" using that by (simp add: allocatable_def)
    ultimately have "x = ?m'" using only by simp
    then have "m_VerificationStatus x = ?failed" by simp
    then show False
      using that by (simp add: allocatable_def mailbox_ready_def MailboxVerificationFailed_def MailboxVerificationVerified_def)
  qed
  show ?thesis
    by (rule bexI [OF _ m(1)], rule bexI [OF _ m'], intro conjI ballI impI allI)
      (use m state no_open refunded none in \<open>simp_all\<close>)
qed

lemma failed_verification_releases_witness:
  "\<exists>db'. run_tx (UpdateMailboxVerification (quiet_env 5) ''admin'' ''m1'' ''imap'' MailboxVerificationFailed ''x'' 5 []) demo_leased_db
       = (Inr (), db') \<and> (\<exists>r\<in>set (db_orders db'). o_ID r = ''ORD1'' \<and> o_Refunded r)"
proof -
  let ?run = "run_tx (UpdateMailboxVerification (quiet_env 5) ''admin'' ''m1'' ''imap'' MailboxVerificationFailed ''x'' 5 []) demo_leased_db"
  have "is_ok (fst ?run)"
    by (simp add: UpdateMailboxVerification_def release_failed_def order_run_simps)
  then obtain db' where r: "?run = (Inr (), db')" by (cases ?run) (auto simp: is_ok_iff)
  have "demo_order \<in> set (db_orders demo_leased_db)" "order_open demo_order" "o_MailboxID demo_order = ''m1''" "o_ID demo_order = ''ORD1''"
    by (simp_all add: demo_defs order_open_def)
  then have "\<exists>r\<in>set (db_orders db'). o_ID r = ''ORD1'' \<and> o_Refunded r"
    using failed_verification_releases [OF lease_ok_demo_leased r] by metis
  then show ?thesis using r by blast
qed

subsection \<open>An allocation between the two halves of a save\<close>

lemma ensure_states_frame:
  "tx_ok (ensure_states env n ps) db (\<lambda>_ db'. db_mailboxes db' = db_mailboxes db \<and> db_orders db' = db_orders db)"
proof (induction ps arbitrary: n db)
  case (Cons p ps)
  obtain mid sid where p: "p = (mid, sid)" by (cases p)
  have "tx_ok (ensure_state env n mid sid) db (\<lambda>_ db1. db_mailboxes db1 = db_mailboxes db \<and> db_orders db1 = db_orders db)"
    unfolding ensure_state_def tx_ok_bind tx_ok_read tx_ok_option tx_ok_return create_state_def tx_ok_insert by simp
  then show ?case
    unfolding p ensure_states.simps tx_ok_then
  proof (rule tx_ok_weaken)
    fix db1 :: db assume "db_mailboxes db1 = db_mailboxes db \<and> db_orders db1 = db_orders db"
    then show "tx_ok (ensure_states env (n + 2) ps) db1 (\<lambda>_ db'. db_mailboxes db' = db_mailboxes db \<and> db_orders db' = db_orders db)"
      using Cons.IH [of "n + 2" db1] by simp
  qed
qed (simp add: tx_ok_return)

lemma save_found_writes:
  "tx_ok (save_found env actorID mailbox encrypted ip (Some e)) db (\<lambda>_ db'. db_orders db' = db_orders db
     \<and> (\<exists>row. m_ID row = m_ID e \<and> m_ActiveOrderID row = m_ActiveOrderID e
          \<and> db_mailboxes db' = upsert m_ID row (db_mailboxes db)))"
proof -
  let ?Q = "\<lambda>db1. db_orders db1 = db_orders db
     \<and> (\<exists>row. m_ID row = m_ID e \<and> m_ActiveOrderID row = m_ActiveOrderID e \<and> db_mailboxes db1 = upsert m_ID row (db_mailboxes db))"
  define row where "row = (if encrypted \<noteq> [] then (merge_mailbox mailbox e)\<lparr>m_EncryptedCredential := encrypted\<rparr>
    else merge_mailbox mailbox e)"
  have row: "m_ID row = m_ID e" "m_ActiveOrderID row = m_ActiveOrderID e" by (simp_all add: row_def)
  have save: "tx_ok (save_mailbox_row env 1 row') db (\<lambda>_. ?Q)" if "m_ID row' = m_ID e" "m_ActiveOrderID row' = m_ActiveOrderID e" for row'
    unfolding save_mailbox_row_def tx_ok_insert
  proof (intro impI conjI)
    show "\<exists>r. m_ID r = m_ID e \<and> m_ActiveOrderID r = m_ActiveOrderID e \<and>
        db_mailboxes (db\<lparr>db_mailboxes := upsert m_ID (row'\<lparr>m_UpdatedAt := stamp env 1\<rparr>) (db_mailboxes db)\<rparr>) = upsert m_ID r (db_mailboxes db)"
      by (rule exI [of _ "row'\<lparr>m_UpdatedAt := stamp env 1\<rparr>"]) (simp add: that)
  qed simp
  have put: "tx_ok (put_mailbox env 1 row) db (\<lambda>_. ?Q)"
    unfolding put_mailbox_def tx_ok_bind tx_ok_get by (rule save) (simp_all add: row_def)
  have audit: "tx_ok (create_audit env 3 a) db2 (\<lambda>_. ?Q)" if "?Q db2" for a db2
    using that unfolding create_audit_def tx_ok_insert by simp
  have states: "tx_ok (ensure_states env 10 ps) db1 (\<lambda>_. ?Q)" if "?Q db1" for ps db1
    by (rule tx_ok_weaken [OF ensure_states_frame]) (use that in simp)
  show ?thesis
    unfolding save_found_def Let_def option.case row_def [symmetric] tx_ok_then tx_ok_bind tx_ok_read tx_ok_return
    by (rule tx_ok_weaken [OF put], intro impI, rule tx_ok_weaken [OF states], assumption, rule audit)
qed

lemma allocated_order:
  assumes "allocate_order env locked userID serviceID requestID providers db = (Created order, db1)"
  obtains r where "r \<in> set (db_orders db1)" "order = mapOrder r" "order_open r" "allocated r db db1"
proof -
  obtain user service mailbox qs maximum price r where
    c: "create_checked env locked userID serviceID providers db user service mailbox qs maximum price"
    and o: "order = mapOrder r" and p: "create_post env user service mailbox qs price requestID db r db1"
    using allocate_order_cases [OF assms] by auto
  have al: "allocated r db db1" by (rule create_post_allocated [OF c p])
  then have "r \<in> set (db_orders db1)" "order_open r" by (simp_all add: allocated_def)
  then show ?thesis using that o al by blast
qed

text \<open>C20: Saving a mailbox reads its row without a lock and later writes the whole row back.  When an allocation of that
  mailbox commits in between, the write erases the lease: the paid order stays open while its mailbox looks free,
  so the lease invariant is broken although each of the two operations alone keeps it.\<close>

theorem save_mailbox_loses_lease:
  assumes "lease_ok db" and "find_saved mailbox db = Some m"
    and "allocate_order env locked userID serviceID requestID providers db = (Created order, db1)"
    and "ord_MailboxID order = m_ID m"
    and "run_tx (save_found env' actorID mailbox encrypted ip (Some m)) db1 = (Inr saved, db2)"
  shows "lease_ok db1 \<and> \<not> lease_ok db2
     \<and> (\<exists>r\<in>set (db_orders db2). o_ID r = ord_ID order \<and> order_open r \<and> o_MailboxID r = m_ID m)
     \<and> (\<forall>x\<in>set (db_mailboxes db2). m_ID x = m_ID m \<longrightarrow> m_ActiveOrderID x = [])"
proof -
  obtain r where r: "r \<in> set (db_orders db1)" "order = mapOrder r" "order_open r" and al: "allocated r db db1"
    using allocated_order [OF assms(3)] .
  have ok1: "lease_ok db1" by (rule lease_ok_allocated [OF assms(1) al])
  have mb: "o_MailboxID r = m_ID m" "ord_ID order = o_ID r" using assms(4) r(2) by (simp_all add: mapOrder_def)
  have m: "m \<in> set (db_mailboxes db)" using assms(2) row_first_Some by (fastforce simp: find_saved_def)
  obtain m0 where "m0 \<in> set (db_mailboxes db)" "m_ID m0 = o_MailboxID r" "m_ActiveOrderID m0 = []"
    using al by (auto simp: allocated_def)
  then have free: "m_ActiveOrderID m = []"
    using m mb(1) keys_okD(3) [OF lease_okD(1) [OF assms(1)]] by (metis distinct_map inj_onD)
  obtain row where O: "db_orders db2 = db_orders db1" and row: "m_ID row = m_ID m" "m_ActiveOrderID row = []"
    and M: "db_mailboxes db2 = upsert m_ID row (db_mailboxes db1)"
    using tx_okD [OF save_found_writes assms(5) [unfolded run_tx_ok]] free by auto
  have erased: "m_ActiveOrderID x = []" if "x \<in> set (db_mailboxes db2)" "m_ID x = m_ID m" for x
    using that row by (auto simp: M set_upsert)
  have "\<not> lease_ok db2"
  proof
    assume "lease_ok db2"
    then have "order_leased db2 r" using lease_okD(2) r(1,3) O by simp
    then show False using erased mb(1) by (auto simp: order_leased_def)
  qed
  then show ?thesis using ok1 erased r O mb by auto
qed

definition demo_save :: Mailbox where
  "demo_save = (mapMailbox demo_mailbox [])\<lparr>mbx_ID := ''m1''\<rparr>"

lemma save_mailbox_loses_lease_witness:
  "\<exists>order db1 saved db2. allocate_order (quiet_env 0) (\<lambda>_. False) ''u1'' ''s1'' ''r1'' [''outlook''] demo_db = (Created order, db1)
     \<and> run_tx (save_found (quiet_env 0) ''admin'' demo_save [] [] (find_saved demo_save demo_db)) db1 = (Inr saved, db2)
     \<and> lease_ok db1 \<and> \<not> lease_ok db2"
proof -
  let ?r = "allocate_order (quiet_env 0) (\<lambda>_. False) ''u1'' ''s1'' ''r1'' [''outlook''] demo_db"
  let ?s = "\<lambda>db1. run_tx (save_found (quiet_env 0) ''admin'' demo_save [] [] (find_saved demo_save demo_db)) db1"
  have "case ?r of (Created order, db1) \<Rightarrow> ord_MailboxID order = ''m1'' \<and> is_ok (fst (?s db1)) | _ \<Rightarrow> False" by code_simp
  then obtain order db1 where r: "?r = (Created order, db1)" and m: "ord_MailboxID order = ''m1''" and ok: "is_ok (fst (?s db1))"
    by (cases ?r; cases "fst ?r") auto
  obtain saved db2 where s: "?s db1 = (Inr saved, db2)" using ok by (cases "?s db1") (auto simp: is_ok_iff)
  have f: "find_saved demo_save demo_db = Some demo_mailbox" by code_simp
  have "m_ID demo_mailbox = ''m1''" by (simp add: demo_defs)
  then show ?thesis
    using save_mailbox_loses_lease [OF lease_ok_demo f r _ s [unfolded f]] r s m by metis
qed

subsection \<open>The sweep of invalid mailboxes\<close>

text \<open>\<open>D\<close> are the identifiers of the deleted mailboxes.\<close>

definition swept :: "string set \<Rightarrow> db \<Rightarrow> db \<Rightarrow> bool" where
  "swept D db db' \<longleftrightarrow> (\<forall>i\<in>D. \<exists>m\<in>set (db_mailboxes db). m_ID m = i) \<and> (\<forall>m\<in>set (db_mailboxes db). m_ID m \<in> D \<longrightarrow> deletable m)
     \<and> db_mailboxes db' = del_rows (\<lambda>m. m_ID m \<in> D) (db_mailboxes db)
     \<and> db_states db' = del_rows (\<lambda>s. ms_MailboxID s \<in> D) (db_states db)
     \<and> db_mail_events db' = del_rows (\<lambda>e. ev_MailboxID e \<in> D) (db_mail_events db)
     \<and> db_orders db' = db_orders db \<and> db_users db' = db_users db \<and> db_ledgers db' = db_ledgers db"

definition deleted_rows :: "string set \<Rightarrow> db \<Rightarrow> nat" where
  "deleted_rows D db = count_rows (\<lambda>m. m_ID m \<in> D) (db_mailboxes db)"

lemma del_rows_False [simp]: "del_rows (\<lambda>x. False) t = t"
  by (simp add: del_rows_def)

lemma del_rows_twice: "del_rows P (del_rows Q t) = del_rows (\<lambda>x. P x \<or> Q x) t"
  by (auto simp: del_rows_def intro: filter_cong)

lemma swept_empty: "swept {} db db"
  by (simp add: swept_def)

lemma swept_trans:
  assumes "swept D db db1" "swept E db1 db2"
  shows "swept (D \<union> E) db db2" and "deleted_rows (D \<union> E) db = deleted_rows D db + deleted_rows E db1"
proof -
  have e: "\<exists>m\<in>set (db_mailboxes db). m_ID m = i \<and> m_ID m \<notin> D" if "i \<in> E" for i
    using assms that by (auto simp: swept_def del_rows_def)
  show "swept (D \<union> E) db db2"
    using assms e by (fastforce simp: swept_def del_rows_twice del_rows_def disj_commute)
  have "D \<inter> E = {}" using assms by (auto simp: swept_def del_rows_def)
  then have *: "(\<lambda>m. m_ID m \<in> E \<and> m_ID m \<notin> D) = (\<lambda>m. m_ID m \<in> E)" by auto
  have "length (filter (\<lambda>m. m_ID m \<in> D \<or> m_ID m \<in> E) t)
      = length (filter (\<lambda>m. m_ID m \<in> D) t) + length (filter (\<lambda>m. m_ID m \<in> E \<and> m_ID m \<notin> D) t)" for t :: "sqlMailbox list"
    by (induction t) auto
  then show "deleted_rows (D \<union> E) db = deleted_rows D db + deleted_rows E db1"
    using assms(1) by (simp add: deleted_rows_def count_rows_def swept_def del_rows_def * conj_commute)
qed

lemma delete_batch_effect:
  assumes d: "distinct (map m_ID (db_mailboxes db))"
  shows "tx_ok (delete_batch env locked actorID ip limit) db (\<lambda>n db'. \<exists>D. swept D db db' \<and> n = deleted_rows D db \<and> n \<le> limit)"
proof -
  let ?ids = "take limit (map m_ID (sort_key m_ID (filter (\<lambda>m. deletable m \<and> \<not> locked (m_ID m)) (db_mailboxes db))))"
  define ids where "ids = ?ids"
  have mem: "\<exists>m\<in>set (db_mailboxes db). m_ID m = i \<and> deletable m" if "i \<in> set ids" for i
    using set_take_subset [of limit, THEN subsetD, OF that [unfolded ids_def]] by auto
  have del: "deletable m" if m: "m \<in> set (db_mailboxes db)" "m_ID m \<in> set ids" for m
  proof -
    obtain m' where "m' \<in> set (db_mailboxes db)" "m_ID m' = m_ID m" "deletable m'" using mem [OF m(2)] by auto
    then show ?thesis using d m(1) by (metis distinct_map inj_onD)
  qed
  have same: "del_rows (\<lambda>m. m_ID m \<in> set ids \<and> deletable m) (db_mailboxes db) = del_rows (\<lambda>m. m_ID m \<in> set ids) (db_mailboxes db)"
    using del by (auto simp: del_rows_def intro: filter_cong)
  have count: "count_rows (\<lambda>m. m_ID m \<in> set ids \<and> deletable m) (db_mailboxes db) = deleted_rows (set ids) db"
    using del by (auto simp: deleted_rows_def count_rows_def intro!: arg_cong [where f = length] filter_cong)
  have "deleted_rows (set ids) db = card (m_ID ` set (filter (\<lambda>m. m_ID m \<in> set ids) (db_mailboxes db)))"
    unfolding deleted_rows_def count_rows_def
    using distinct_map_filter [OF d, of "\<lambda>m. m_ID m \<in> set ids"] by (metis distinct_card length_map list.set_map)
  also have "\<dots> \<le> card (set ids)" by (rule card_mono) auto
  also have "\<dots> \<le> limit" using card_length [of ids] by (simp add: ids_def)
  finally have le: "deleted_rows (set ids) db \<le> limit" .
  have sw: "swept (set ids) db (db\<lparr>db_states := del_rows (\<lambda>s. ms_MailboxID s \<in> set ids) (db_states db),
      db_mail_events := del_rows (\<lambda>e. ev_MailboxID e \<in> set ids) (db_mail_events db),
      db_mailboxes := del_rows (\<lambda>m. m_ID m \<in> set ids) (db_mailboxes db), db_audits := as\<rparr>)" for as
    using mem del by (auto simp: swept_def)
  have sw0: "swept (set ids) db (db\<lparr>db_states := del_rows (\<lambda>s. ms_MailboxID s \<in> set ids) (db_states db),
      db_mail_events := del_rows (\<lambda>e. ev_MailboxID e \<in> set ids) (db_mail_events db),
      db_mailboxes := del_rows (\<lambda>m. m_ID m \<in> set ids) (db_mailboxes db)\<rparr>)"
    using mem del by (auto simp: swept_def)
  have none: "\<exists>D. swept D db db \<and> (0::nat) = deleted_rows D db \<and> (0::nat) \<le> limit"
    by (rule exI [of _ "{}"]) (simp add: swept_empty deleted_rows_def count_rows_def)
  show ?thesis
    unfolding delete_batch_def tx_ok_bind tx_ok_read tx_ok_if tx_ok_then tx_ok_return tx_ok_update tx_ok_put ids_def [symmetric]
      create_audit_def tx_ok_insert
  proof (intro conjI impI)
  qed (use none sw sw0 le in \<open>auto simp: count same\<close>)
qed

lemma delete_batches_effect:
  "distinct (map m_ID (db_mailboxes db)) \<Longrightarrow> deleted \<le> expected \<Longrightarrow>
   delete_batches envs locked actorID ip expected k deleted db = ((n, e), db') \<Longrightarrow>
   \<exists>D. swept D db db' \<and> n = deleted + int (deleted_rows D db) \<and> n \<le> expected \<and> (e = None \<longrightarrow> n = expected)"
proof (induction envs locked actorID ip expected k deleted db rule: delete_batches.induct)
  case (1 envs locked actorID ip expected k deleted db)
  let ?limit = "nat (min batchSize (expected - deleted))"
  obtain res db1 where r: "run_tx (delete_batch (envs k) (locked k) actorID ip ?limit) db = (res, db1)"
    by (cases "run_tx (delete_batch (envs k) (locked k) actorID ip ?limit) db")
  note run = 1(4) [unfolded delete_batches.simps [of envs locked actorID ip expected k deleted db] r prod.case]
  consider (finished) "\<not> deleted < expected" | (failed) err where "deleted < expected" "res = Inl err"
    | (batch) b where "deleted < expected" "res = Inr b" by (cases res) auto
  then show ?case
  proof cases
    case finished
    then show ?thesis using run 1(3)
      by (intro exI [of _ "{}"]) (auto simp: swept_empty deleted_rows_def count_rows_def)
  next
    case failed
    then show ?thesis using run run_tx_error [OF r [unfolded failed(2)]] 1(3)
      by (intro exI [of _ "{}"]) (auto simp: swept_empty deleted_rows_def count_rows_def)
  next
    case (batch b)
    have "tx_ok (delete_batch (envs k) (locked k) actorID ip ?limit) db (\<lambda>n db'. \<exists>D. swept D db db' \<and> n = deleted_rows D db \<and> n \<le> ?limit)"
      by (rule delete_batch_effect [OF 1(2)])
    then obtain D where D: "swept D db db1" "b = deleted_rows D db" "b \<le> ?limit"
      using r unfolding batch run_tx_ok by (blast dest: tx_okD)
    show ?thesis
    proof (cases "b = 0")
      case True
      then show ?thesis using run batch D by (intro exI [of _ D]) auto
    next
      case False
      have "distinct (map m_ID (db_mailboxes db1))"
        using D(1) 1(2) by (simp add: swept_def del_rows_def distinct_map_filter)
      moreover have "deleted + int b \<le> expected" using D(3) batch(1) by linarith
      moreover have "delete_batches envs locked actorID ip expected (Suc k) (deleted + int b) db1 = ((n, e), db')"
        using run batch False by simp
      ultimately obtain E where E: "swept E db1 db'" "n = deleted + int b + int (deleted_rows E db1)" "n \<le> expected" "e = None \<longrightarrow> n = expected"
        using 1(1) [OF batch(1) r [symmetric, unfolded batch(2)] refl False] by blast
      then show ?thesis using swept_trans [OF D(1) E(1)] D(2) by (intro exI [of _ "D \<union> E"]) simp
    qed
  qed
qed

lemma summary_deletable:
  "InvalidMailboxSummary_of env db = Inr p \<Longrightarrow> ims_Deletable p = int (length (filter deletable (db_mailboxes db)))"
  by (auto simp: InvalidMailboxSummary_of_def count_rows_def Let_def split: option.splits)

lemma DeleteInvalidMailboxes_cases:
  assumes "DeleteInvalidMailboxes env envs locked actorID ip expected db = ((n, e), db')"
  shows "n = 0 \<and> db' = db \<and> e \<noteq> None
    \<or> int (length (filter deletable (db_mailboxes db))) = expected \<and> 0 < expected
      \<and> delete_batches envs locked actorID ip expected 0 0 db = ((n, e), db')"
proof (cases "InvalidMailboxSummary_of env db")
  case (Inl err)
  then show ?thesis using assms by (auto simp: DeleteInvalidMailboxes_def split: if_splits)
next
  case (Inr p)
  then show ?thesis
    using assms summary_deletable [OF Inr] by (auto simp: DeleteInvalidMailboxes_def split: if_splits)
qed

text \<open>C19: The bulk deletion removes only mailboxes whose verification failed, that are in error and serve no order,
  together with their platform states and mail records, and reports exactly how many; it touches nothing when the
  confirmed number is not the current one; and when it reports success the confirmed number was deleted and no
  deletable mailbox is left.\<close>

theorem delete_invalid_exact:
  assumes "distinct (map m_ID (db_mailboxes db))"
    and "DeleteInvalidMailboxes env envs locked actorID ip expected db = ((n, e), db')"
  shows "\<exists>D. (\<forall>m\<in>set (db_mailboxes db). m_ID m \<in> D \<longrightarrow>
         m_State m = MailboxError \<and> m_VerificationStatus m = MailboxVerificationFailed \<and> m_ActiveOrderID m = [])
     \<and> db_mailboxes db' = filter (\<lambda>m. m_ID m \<notin> D) (db_mailboxes db)
     \<and> db_states db' = filter (\<lambda>s. ms_MailboxID s \<notin> D) (db_states db)
     \<and> db_mail_events db' = filter (\<lambda>v. ev_MailboxID v \<notin> D) (db_mail_events db)
     \<and> n = int (length (db_mailboxes db)) - int (length (db_mailboxes db'))
     \<and> db_orders db' = db_orders db \<and> db_users db' = db_users db \<and> db_ledgers db' = db_ledgers db
     \<and> (int (length (filter deletable (db_mailboxes db))) \<noteq> expected \<longrightarrow> db' = db \<and> e \<noteq> None)
     \<and> (e = None \<longrightarrow> n = expected \<and> 0 < n \<and> (\<forall>m\<in>set (db_mailboxes db'). \<not> deletable m))"
proof -
  have count: "int (length (db_mailboxes db)) - int (length (filter (\<lambda>m. m_ID m \<notin> D) (db_mailboxes db))) = int (deleted_rows D db)" for D
    using sum_length_filter_compl [of "\<lambda>m. m_ID m \<in> D" "db_mailboxes db"] by (simp add: deleted_rows_def count_rows_def)
  let ?k = "int (length (filter deletable (db_mailboxes db)))"
  show ?thesis
  proof (cases "n = 0 \<and> db' = db \<and> e \<noteq> None")
    case True
    then have "db' = db" "n = 0" "e \<noteq> None" by simp_all
    then show ?thesis by (intro exI [of _ "{}"]) simp
  next
    case False
    then have True: "?k = expected" "0 < expected" and run: "delete_batches envs locked actorID ip expected 0 0 db = ((n, e), db')"
      using DeleteInvalidMailboxes_cases [OF assms(2)] by blast+
    obtain D where D: "swept D db db'" "n = int (deleted_rows D db)" "n \<le> expected" "e = None \<longrightarrow> n = expected"
      using delete_batches_effect [OF assms(1) _ run] True(2) by auto
    have left: "\<not> deletable m" if e: "e = None" and m: "m \<in> set (db_mailboxes db')" for m
    proof
      assume dm: "deletable m"
      have "m \<in> set (db_mailboxes db)" "m_ID m \<notin> D" using m D(1) by (auto simp: swept_def del_rows_def)
      have "int (length (filter deletable (db_mailboxes db'))) = ?k - int (deleted_rows D db)"
      proof -
        have "filter deletable (filter (\<lambda>m. m_ID m \<in> D) (db_mailboxes db)) = filter (\<lambda>m. m_ID m \<in> D) (db_mailboxes db)"
          using D(1) unfolding swept_def filter_filter by (intro filter_cong) auto
        then show ?thesis
          using sum_length_filter_compl [of "\<lambda>m. m_ID m \<in> D" "filter deletable (db_mailboxes db)"] D(1)
          by (simp add: deleted_rows_def count_rows_def swept_def del_rows_def conj_commute)
      qed
      then have "filter deletable (db_mailboxes db') = []" using D(2,4) e True by simp
      then show False using m dm by (simp add: filter_empty_conv)
    qed
    show ?thesis
      using D(1) left count [of D] D(2,4) True
      by (intro exI [of _ D]) (simp add: swept_def del_rows_def deletable_def)
  qed
qed

definition demo_invalid_db :: db where
  "demo_invalid_db = demo_db\<lparr>db_mailboxes := [demo_mailbox\<lparr>m_State := MailboxError, m_VerificationStatus := MailboxVerificationFailed\<rparr>]\<rparr>"

lemma delete_invalid_exact_witness:
  "\<exists>db'. DeleteInvalidMailboxes (quiet_env 5) (\<lambda>_. quiet_env 5) (\<lambda>_ _. False) ''admin'' [] 1 demo_invalid_db = ((1, None), db')
     \<and> db_mailboxes db' = []"
proof -
  let ?run = "DeleteInvalidMailboxes (quiet_env 5) (\<lambda>_. quiet_env 5) (\<lambda>_ _. False) ''admin'' [] 1 demo_invalid_db"
  have r: "fst ?run = (1, None)" by code_simp
  obtain db' where r': "?run = ((1, None), db')" using r by (cases ?run) auto
  have len: "length (db_mailboxes demo_invalid_db) = 1" by (simp add: demo_invalid_db_def)
  have "distinct (map m_ID (db_mailboxes demo_invalid_db))" by (simp add: demo_invalid_db_def)
  from delete_invalid_exact [OF this r'] have "int (length (db_mailboxes db')) = 0" using len by auto
  then show ?thesis using r' by simp
qed

end
