(* ===== verification/Paging.thy ===== *)
theory Paging
  imports Go_Strings "HOL-Library.Word"
begin

text \<open>
  Pagination: \<^verbatim>\<open>normalizePage\<close> and \<^verbatim>\<open>paginate\<close> of the store, \<^verbatim>\<open>pageRequest\<close> and the page count
  of \<^verbatim>\<open>writePage\<close> of the API.  Go's \<^verbatim>\<open>int\<close> is a 64-bit word read as two's complement, because the
  offset \<open>(page - 1) * pageSize\<close> is computed from a page number of the request without an upper
  bound and may wrap around.  A slice expression out of range is a run-time panic, an \<open>Inl\<close> here.
\<close>

type_synonym go_int = "64 word"

datatype panic = SliceOutOfRange

definition go_slice :: "'a list \<Rightarrow> int \<Rightarrow> int \<Rightarrow> panic + 'a list" where
  "go_slice items lo hi =
     (if 0 \<le> lo \<and> lo \<le> hi \<and> hi \<le> int (length items)
      then Inr (take (nat (hi - lo)) (drop (nat lo) items)) else Inl SliceOutOfRange)"

definition normalizePage :: "go_int \<Rightarrow> go_int \<Rightarrow> go_int \<times> go_int" where
  "normalizePage page pageSize =
     (let page' = (if sint page < 1 then 1 else page);
          size1 = (if sint pageSize < 1 then 20 else pageSize);
          size2 = (if sint size1 > 100 then 100 else size1)
      in (page', size2))"

definition paginate :: "'a list \<Rightarrow> go_int \<Rightarrow> go_int \<Rightarrow> panic + 'a list" where
  "paginate items page0 pageSize0 =
     (case normalizePage page0 pageSize0 of (page, pageSize) \<Rightarrow>
        let start = (page - 1) * pageSize
        in if sint start \<ge> int (length items) then Inr []
           else let end0 = start + pageSize;
                    end1 = (if sint end0 > int (length items) then word_of_int (int (length items))
                            else end0)
                in go_slice items (sint start) (sint end1))"

text \<open>\<^verbatim>\<open>strconv.Atoi\<close> with its error dropped: a malformed number reads as 0, one out of range as the
  nearest bound.\<close>

definition is_digit :: "char \<Rightarrow> bool" where
  "is_digit c = (let n = of_char c :: nat in 48 \<le> n \<and> n \<le> 57)"

fun digits_value :: "nat \<Rightarrow> string \<Rightarrow> nat" where
  "digits_value acc [] = acc"
| "digits_value acc (c # cs) = digits_value (10 * acc + (of_char c - 48)) cs"

lemma digits_value_append: "digits_value a (xs @ ys) = digits_value (digits_value a xs) ys"
  by (induction xs arbitrary: a) auto

lemma digits_value_digits [simp]: "digits_value 0 (nat_digits n) = n"
proof (induction n rule: nat_digits.induct)
  case (1 n)
  then show ?case by (subst nat_digits.simps) (auto simp: digits_value_append)
qed

definition clamp_int64 :: "int \<Rightarrow> int" where
  "clamp_int64 v = max (- (2 ^ 63)) (min (2 ^ 63 - 1) v)"

definition atoi :: "string \<Rightarrow> go_int" where
  "atoi s =
     (let neg = (take 1 s = ''-'');
          ds = (if take 1 s = ''-'' \<or> take 1 s = ''+'' then drop 1 s else s)
      in if ds = [] \<or> \<not> list_all is_digit ds then 0
         else word_of_int (clamp_int64 (if neg then - int (digits_value 0 ds) else int (digits_value 0 ds))))"

text \<open>The query parameters are \<open>None\<close> when absent.\<close>

definition pageRequest :: "string option \<Rightarrow> string option \<Rightarrow> go_int \<times> go_int" where
  "pageRequest qpage qsize =
     (let page = atoi (case qpage of None \<Rightarrow> ''1'' | Some s \<Rightarrow> s);
          pageSize = atoi (case qsize of None \<Rightarrow> ''20'' | Some s \<Rightarrow> s)
      in normalizePage page pageSize)"

text \<open>The page count of \<^verbatim>\<open>writePage\<close>; the division truncates and its operands are positive.\<close>

definition totalPages :: "int \<Rightarrow> int \<Rightarrow> int" where
  "totalPages items pageSize = (items + pageSize - 1) div pageSize"

subsection \<open>Normalised pages\<close>

lemma sint_1_64 [simp]: "sint (1 :: go_int) = 1" by simp
lemma sint_20_64 [simp]: "sint (20 :: go_int) = 20" by simp
lemma sint_100_64 [simp]: "sint (100 :: go_int) = 100" by simp

lemma normalizePage_range:
  "normalizePage p s = (page, sz) \<Longrightarrow> 1 \<le> sint page \<and> 1 \<le> sint sz \<and> sint sz \<le> 100"
  by (auto simp: normalizePage_def Let_def split: if_splits)

lemma normalizePage_id:
  "1 \<le> sint p \<Longrightarrow> 1 \<le> sint s \<Longrightarrow> sint s \<le> 100 \<Longrightarrow> normalizePage p s = (p, s)"
  by (simp add: normalizePage_def Let_def)

lemma normalizePage_idem: "normalizePage p s = (page, sz) \<Longrightarrow> normalizePage page sz = (page, sz)"
  by (drule normalizePage_range) (simp add: normalizePage_id)

lemma sint_word_of_int_small:
  "- (2 ^ 63) \<le> v \<Longrightarrow> v < 2 ^ 63 \<Longrightarrow> sint (word_of_int v :: go_int) = v"
  by (simp add: sint_sbintrunc' signed_take_bit_int_eq_self)

lemma sint_small_mult:
  assumes "1 \<le> sint p" and "1 \<le> sint s" and "sint s \<le> 100" and "sint p * sint s < 2 ^ 62"
  shows "sint ((p - 1) * s :: go_int) = (sint p - 1) * sint s"
    and "sint ((p - 1) * s + s :: go_int) = sint p * sint s"
proof -
  have nn: "0 \<le> (sint p - 1) * sint s" using assms by simp
  have le: "(sint p - 1) * sint s \<le> sint p * sint s" using assms by (simp add: algebra_simps)
  have 1: "(p - 1) * s = word_of_int ((sint p - 1) * sint s)" by simp
  show "sint ((p - 1) * s :: go_int) = (sint p - 1) * sint s"
    unfolding 1 using nn le assms(4) by (intro sint_word_of_int_small) auto
  have 2: "(p - 1) * s + s = word_of_int (sint p * sint s)"
    by (simp add: algebra_simps)
  show "sint ((p - 1) * s + s :: go_int) = sint p * sint s"
    unfolding 2 using nn le assms(4) by (intro sint_word_of_int_small) auto
qed

lemma paginate_exact:
  assumes "1 \<le> sint p" and "1 \<le> sint s" and "sint s \<le> 100" and "sint p * sint s < 2 ^ 62"
    and "length items < 2 ^ 62"
  shows "paginate items p s =
    Inr (take (nat (sint s)) (drop (nat ((sint p - 1) * sint s)) items))"
proof -
  note sm = sint_small_mult [OF assms(1-4)]
  have nn: "0 \<le> (sint p - 1) * sint s" using assms by simp
  have step: "sint p * sint s = (sint p - 1) * sint s + sint s" by (simp add: algebra_simps)
  have len: "sint (word_of_nat (length items) :: go_int) = int (length items)"
    using assms(5) sint_word_of_int_small [of "int (length items)"] by simp
  show ?thesis
  proof (cases "(sint p - 1) * sint s \<ge> int (length items)")
    case True
    then have "length items \<le> nat ((sint p - 1) * sint s)" by simp
    then show ?thesis
      using True by (simp add: paginate_def normalizePage_id assms sm del: of_int_mult of_int_diff)
  next
    case False
    show ?thesis
    proof (cases "sint p * sint s > int (length items)")
      case True
      then have "drop (nat ((sint p - 1) * sint s)) items =
          take (nat (sint s)) (drop (nat ((sint p - 1) * sint s)) items)"
        using step by (intro take_all [symmetric]) simp
      moreover have "take (nat (int (length items) - (sint p - 1) * sint s))
            (drop (nat ((sint p - 1) * sint s)) items) = drop (nat ((sint p - 1) * sint s)) items"
        using nn by (intro take_all) simp
      ultimately show ?thesis
        using True False nn
        by (simp add: paginate_def normalizePage_id assms sm len go_slice_def Let_def)
    next
      case le: False
      then show ?thesis
        using False nn step assms
        by (simp add: paginate_def normalizePage_id sm go_slice_def Let_def)
    qed
  qed
qed

text \<open>A page never has more items than its size, and a panic is the only other outcome.\<close>

lemma go_slice_length: "go_slice items lo hi = Inr xs \<Longrightarrow> length xs \<le> nat (hi - lo)"
  by (auto simp: go_slice_def split: if_splits)

lemma paginate_negative:
  "normalizePage p s = (p', s') \<Longrightarrow> sint ((p' - 1) * s') < 0 \<Longrightarrow> paginate items p s = Inl SliceOutOfRange"
  unfolding paginate_def go_slice_def Let_def by (cases items) (auto simp del: One_nat_def)

lemma concat_chunks:
  assumes "0 < k"
  shows "length xs \<le> k * n \<Longrightarrow> concat (map (\<lambda>i. take k (drop (k * i) xs)) [0..<n]) = xs"
proof (induction n arbitrary: xs)
  case 0
  then show ?case by simp
next
  case (Suc n)
  have "concat (map (\<lambda>i. take k (drop (k * i) (drop k xs))) [0..<n]) = drop k xs"
    using Suc.prems by (intro Suc.IH) (simp add: algebra_simps)
  then have "concat (map (\<lambda>i. take k (drop (k * i) xs)) (map Suc [0..<n])) = drop k xs"
    by (simp add: comp_def algebra_simps)
  then show ?case
    by (simp only: upt_conv_Cons [of 0 "Suc n", OF zero_less_Suc] map_Suc_upt)
      (simp del: upt_Suc)
qed

subsection \<open>Properties\<close>

text \<open>C40: Page by page, the pages \<open>1 .. n\<close> of a list cut at any page size between 1 and 100 give
  back the whole list, in order and without a gap or an overlap, as soon as \<open>n\<close> pages are enough;
  none of the requests panics.\<close>

theorem paginate_partition:
  assumes "1 \<le> k" and "k \<le> 100" and "length items \<le> k * n" and "k * n < 2 ^ 62"
  shows "\<exists>pages. map (\<lambda>i. paginate items (word_of_nat (Suc i)) (word_of_nat k)) [0..<n] = map Inr pages
    \<and> concat pages = items \<and> (\<forall>page\<in>set pages. length page \<le> k)"
proof -
  have sk: "sint (word_of_nat k :: go_int) = int k"
    using assms sint_word_of_int_small [of "int k"] by simp
  have page: "paginate items (word_of_nat (Suc i)) (word_of_nat k) = Inr (take k (drop (k * i) items))"
    if "i < n" for i
  proof -
    have "k * Suc i \<le> k * n" using that by (intro mult_le_mono2) simp
    moreover have "1 * Suc i \<le> k * Suc i" using assms(1) by (intro mult_le_mono1)
    ultimately have b: "k * Suc i < 2 ^ 62" "Suc i < 2 ^ 62"
      using assms(4) by (metis le_less_trans, metis le_less_trans nat_mult_1)
    have si: "sint (word_of_nat (Suc i) :: go_int) = int (Suc i)"
      using b(2) sint_word_of_int_small [of "int (Suc i)"] by (simp del: of_nat_Suc)
    have "int (Suc i) * int k < 2 ^ 62"
      using b(1) by (metis mult.commute of_nat_less_iff of_nat_mult of_nat_numeral of_nat_power)
    moreover have "nat ((int (Suc i) - 1) * int k) = k * i"
      by (simp add: nat_mult_distrib mult.commute)
    ultimately show ?thesis
      using paginate_exact [of "word_of_nat (Suc i)" "word_of_nat k" items] assms si sk
      by (simp del: of_nat_Suc)
  qed
  let ?pages = "map (\<lambda>i. take k (drop (k * i) items)) [0..<n]"
  have "map (\<lambda>i. paginate items (word_of_nat (Suc i)) (word_of_nat k)) [0..<n] = map Inr ?pages"
    using page by (simp del: of_nat_Suc)
  moreover have "concat ?pages = items" using assms by (intro concat_chunks) simp_all
  ultimately show ?thesis by (intro exI [of _ ?pages]) auto
qed

lemma paginate_partition_witness:
  "\<exists>pages. map (\<lambda>i. paginate [1, 2, 3 :: nat] (word_of_nat (Suc i)) (word_of_nat 2)) [0..<2] = map Inr pages
    \<and> concat pages = [1, 2, 3] \<and> (\<forall>page\<in>set pages. length page \<le> 2)"
  using paginate_partition [of 2 "[1, 2, 3 :: nat]" 2] by simp

text \<open>A page number that the request leaves unbounded makes the offset wrap around to a negative
  number: with the default page size, \<open>page=461168601842738792\<close> is accepted by the request parser
  and panics on a list of any length.\<close>

theorem huge_page_panics:
  "pageRequest (Some ''461168601842738792'') None = (461168601842738792, 20)
   \<and> paginate items 461168601842738792 20 = Inl SliceOutOfRange"
proof -
  have "atoi ''461168601842738792'' = 461168601842738792"
    by (simp add: atoi_def is_digit_def clamp_int64_def)
  moreover have "atoi ''20'' = 20" by (simp add: atoi_def is_digit_def clamp_int64_def)
  moreover have n: "normalizePage 461168601842738792 20 = (461168601842738792, 20)"
    by code_simp
  moreover have neg: "sint ((461168601842738792 - 1) * 20 :: go_int) < 0" by code_simp
  moreover have "paginate items 461168601842738792 20 = Inl SliceOutOfRange"
    by (rule paginate_negative [OF n neg])
  ultimately show ?thesis
    by (simp add: pageRequest_def)
qed

end
