(* ===== verification/Listings.thy ===== *)
theory Listings
  imports Mailboxes Paging
begin

text \<open>
  The queries of the PostgreSQL store that only read: every paged listing of \<^verbatim>\<open>postgres.go\<close>,
  \<^verbatim>\<open>postgres_accounts.go\<close>, \<^verbatim>\<open>postgres_payments.go\<close>, \<^verbatim>\<open>postgres_webhooks.go\<close> and
  \<^verbatim>\<open>postgres_resources.go\<close>, the usage and availability counts of the platforms and the overview.
  Rows that the ORDER BY does not separate come in the order they were inserted; strings are compared
  byte by byte.  The theorem relates the database's paging to \<^verbatim>\<open>paginate\<close> of the development store.
\<close>

subsection \<open>Paging in SQL\<close>

text \<open>The mapper leaves out an offset that is not positive.\<close>

definition sql_page :: "go_int \<Rightarrow> go_int \<Rightarrow> 'r list \<Rightarrow> 'r list" where
  "sql_page page pageSize rows =
     (let off = sint ((page - 1) * pageSize)
      in take (nat (sint pageSize)) (if off > 0 then drop (nat off) rows else rows))"

text \<open>A listing counts the rows and reads one page of them; an error of either query leaves its result empty.  With
  \<open>shared\<close> both queries are built on one statement object, whose first error makes the second a no-op.\<close>

definition list_rows ::
  "env \<Rightarrow> bool \<Rightarrow> go_int \<Rightarrow> go_int \<Rightarrow> ('r list \<Rightarrow> 'r list) \<Rightarrow> ('r \<Rightarrow> 'a) \<Rightarrow> 'r list \<Rightarrow> 'a list \<times> int" where
  "list_rows env shared page0 pageSize0 order f rows =
     (case normalizePage page0 pageSize0 of (page, pageSize) \<Rightarrow>
        (if db_fail env 1 \<or> shared \<and> db_fail env 0 then [] else map f (sql_page page pageSize (order rows)),
         if db_fail env 0 then 0 else int (length rows)))"

definition newest :: "('r \<Rightarrow> time) \<Rightarrow> 'r list \<Rightarrow> 'r list" where
  "newest created rows = sort_key (\<lambda>r. - created r) rows"

text \<open>\<^verbatim>\<open>LIKE\<close>: \<open>%\<close> matches any text, \<open>_\<close> any one character, a backslash quotes the next one.\<close>

fun sql_like :: "string \<Rightarrow> string \<Rightarrow> bool" where
  "sql_like [] s = (s = [])"
| "sql_like (p # ps) [] = (p = CHR ''%'' \<and> sql_like ps [])"
| "sql_like (p # ps) (c # s) =
     (if p = CHR ''%'' then sql_like ps (c # s) \<or> sql_like (p # ps) s
      else if p = CHR ''_'' then sql_like ps s
      else if p = CHR 0x5C then (case ps of [] \<Rightarrow> False | q # qs \<Rightarrow> q = c \<and> sql_like qs s)
      else p = c \<and> sql_like ps s)"

definition contains_pattern :: "string \<Rightarrow> string" where
  "contains_pattern keyword = ''%'' @ keyword @ ''%''"

definition ilike :: "string \<Rightarrow> string \<Rightarrow> bool" where
  "ilike s pattern = sql_like (to_lower pattern) (to_lower s)"

subsection \<open>Platforms\<close>

definition PostgresUser :: "env \<Rightarrow> string \<Rightarrow> db \<Rightarrow> User option" where
  "PostgresUser env uid db =
     (if db_fail env 0 then None else map_option mapUser (row_find (\<lambda>u. u_ID u = uid) (db_users db)))"

definition ListServicesPage :: "env \<Rightarrow> go_int \<Rightarrow> go_int \<Rightarrow> db \<Rightarrow> Service list \<times> int" where
  "ListServicesPage env page pageSize db = list_rows env False page pageSize (sort_key sv_Name) mapService (db_services db)"

definition ListServices :: "env \<Rightarrow> db \<Rightarrow> Service list" where
  "ListServices env db = fst (ListServicesPage env 1 100 db)"

definition ListEnabledServicesPage :: "env \<Rightarrow> go_int \<Rightarrow> go_int \<Rightarrow> db \<Rightarrow> Service list \<times> int" where
  "ListEnabledServicesPage env page pageSize db =
     list_rows env True page pageSize (sort_key sv_Name) mapService (filter sv_Enabled (db_services db))"

definition EnabledService :: "env \<Rightarrow> string \<Rightarrow> db \<Rightarrow> Service option" where
  "EnabledService env codeOrID db =
     (if db_fail env 0 then None
      else map_option mapService (row_first sv_ID
        (\<lambda>s. sv_Enabled s \<and> (sv_ID s = codeOrID \<or> sv_Code s = to_lower codeOrID)) (db_services db)))"

record ServiceUsage =
  usg_Available :: int
  usg_Leased :: int
  usg_Consumed :: int

definition usage_count :: "db \<Rightarrow> string \<Rightarrow> ServiceMailboxState \<Rightarrow> int" where
  "usage_count db serviceID state =
     int (length [m. s \<leftarrow> db_states db, ms_ServiceID s = serviceID \<and> ms_State s = state,
        m \<leftarrow> db_mailboxes db, m_ID m = ms_MailboxID s \<and> m_VerificationStatus m = MailboxVerificationVerified])"

text \<open>A platform without any row has no entry.\<close>

definition ServiceUsage_of :: "env \<Rightarrow> string list \<Rightarrow> db \<Rightarrow> string \<Rightarrow> ServiceUsage option" where
  "ServiceUsage_of env serviceIDs db serviceID =
     (if db_fail env 0 \<or> serviceID \<notin> set serviceIDs
         \<or> (\<forall>s\<in>set (db_states db). ms_ServiceID s = serviceID \<longrightarrow>
              (\<forall>m\<in>set (db_mailboxes db). m_ID m = ms_MailboxID s \<longrightarrow> m_VerificationStatus m \<noteq> MailboxVerificationVerified))
      then None
      else Some \<lparr> usg_Available = usage_count db serviceID ServiceAvailable,
             usg_Leased = usage_count db serviceID ServiceLeased, usg_Consumed = usage_count db serviceID ServiceConsumed \<rparr>)"

text \<open>The rows of the join, one per combination of state, mailbox, pool and platform.\<close>

definition available_rows :: "env \<Rightarrow> db \<Rightarrow> string \<Rightarrow> sqlMailbox list" where
  "available_rows env db serviceID =
     [m. s \<leftarrow> db_states db, ms_ServiceID s = serviceID \<and> ms_State s = ServiceAvailable,
         ts \<leftarrow> db_services db, sv_ID ts = serviceID \<and> sv_Enabled ts,
         m \<leftarrow> db_mailboxes db, m_ID m = ms_MailboxID s \<and> m_State m = MailboxAvailable \<and> m_ActiveOrderID m = []
           \<and> m_HealthScore m \<ge> 60 \<and> m_VerificationStatus m = MailboxVerificationVerified
           \<and> (m_ConnectionMethod m = MailboxConnectionIMAP \<or> m_OAuthValidUntil m > clock env 0)
           \<and> m_Provider m \<in> set (sv_AllowedProviders ts),
         mp \<leftarrow> db_pools db, pool_ready env db m mp]"

definition ServiceAvailabilityByProvider :: "env \<Rightarrow> string list \<Rightarrow> db \<Rightarrow> string \<Rightarrow> (string \<rightharpoonup> int) option" where
  "ServiceAvailabilityByProvider env serviceIDs db serviceID =
     (if serviceID \<in> set serviceIDs
      then Some (\<lambda>provider. let n = length (filter (\<lambda>m. m_Provider m = provider) (available_rows env db serviceID))
                 in if db_fail env 0 \<or> n = 0 then None else Some (int n))
      else None)"

text \<open>The loop adds the counts once for every occurrence of a platform in the argument.\<close>

definition ServiceAvailability :: "env \<Rightarrow> string list \<Rightarrow> db \<Rightarrow> string \<Rightarrow> int" where
  "ServiceAvailability env serviceIDs db serviceID =
     (case ServiceAvailabilityByProvider env serviceIDs db serviceID of
        None \<Rightarrow> 0
      | Some counts \<Rightarrow> int (length (filter (\<lambda>i. i = serviceID) serviceIDs))
          * sum_list (map (\<lambda>p. case counts p of None \<Rightarrow> 0 | Some n \<Rightarrow> n)
              (remdups (map m_Provider (available_rows env db serviceID)))))"

subsection \<open>Orders\<close>

definition GetOrder :: "env \<Rightarrow> string \<Rightarrow> db \<Rightarrow> Order option" where
  "GetOrder env oid db =
     (if db_fail env 0 then None else map_option mapOrder (row_find (\<lambda>r. o_ID r = oid) (db_orders db)))"

definition ListOrdersPage :: "env \<Rightarrow> string \<Rightarrow> go_int \<Rightarrow> go_int \<Rightarrow> db \<Rightarrow> Order list \<times> int" where
  "ListOrdersPage env userID page pageSize db =
     list_rows env True page pageSize (newest o_CreatedAt) mapOrder
       (filter (\<lambda>r. userID \<noteq> [] \<longrightarrow> o_UserID r = userID) (db_orders db))"

definition ListOrders :: "env \<Rightarrow> string \<Rightarrow> db \<Rightarrow> Order list" where
  "ListOrders env userID db = fst (ListOrdersPage env userID 1 100 db)"

record UserOrderFilter =
  uof_Status :: string
  uof_Service :: string
  uof_Query :: string

definition user_order_matches :: "string \<Rightarrow> UserOrderFilter \<Rightarrow> sqlOrder \<Rightarrow> bool" where
  "user_order_matches userID f r \<longleftrightarrow> o_UserID r = userID
     \<and> (uof_Status f \<noteq> [] \<longrightarrow> order_status_string (o_Status r) = uof_Status f)
     \<and> (uof_Service f \<noteq> [] \<longrightarrow> o_ServiceID r = uof_Service f \<or> o_ServiceCode r = uof_Service f)
     \<and> (let keyword = trim_space (uof_Query f); pattern = contains_pattern keyword
        in keyword \<noteq> [] \<longrightarrow> ilike (o_ID r) pattern \<or> ilike (o_ServiceName r) pattern \<or> ilike (o_MailboxAddress r) pattern)"

text \<open>Here an error of either query empties the whole answer.\<close>

definition ListUserOrdersPage :: "env \<Rightarrow> string \<Rightarrow> UserOrderFilter \<Rightarrow> go_int \<Rightarrow> go_int \<Rightarrow> db \<Rightarrow> Order list \<times> int" where
  "ListUserOrdersPage env userID f page pageSize db =
     (if db_fail env 0 \<or> db_fail env 1 then ([], 0)
      else list_rows env True page pageSize (newest o_CreatedAt) mapOrder (filter (user_order_matches userID f) (db_orders db)))"

record AdminOrderFilter =
  aof_Status :: string
  aof_Service :: string
  aof_UserID :: string
  aof_Query :: string

definition admin_order_matches :: "AdminOrderFilter \<Rightarrow> sqlOrder \<Rightarrow> bool" where
  "admin_order_matches f r \<longleftrightarrow>
       (aof_Status f \<noteq> [] \<longrightarrow> order_status_string (o_Status r) = aof_Status f)
     \<and> (aof_Service f \<noteq> [] \<longrightarrow> o_ServiceID r = aof_Service f \<or> o_ServiceCode r = aof_Service f)
     \<and> (aof_UserID f \<noteq> [] \<longrightarrow> o_UserID r = aof_UserID f)
     \<and> (let keyword = trim_space (aof_Query f); pattern = contains_pattern keyword
        in keyword \<noteq> [] \<longrightarrow> ilike (o_ID r) pattern \<or> ilike (o_UserID r) pattern \<or> ilike (o_MailboxAddress r) pattern)"

definition ListAdminOrdersPage :: "env \<Rightarrow> AdminOrderFilter \<Rightarrow> go_int \<Rightarrow> go_int \<Rightarrow> db \<Rightarrow> Order list \<times> int" where
  "ListAdminOrdersPage env f page pageSize db =
     list_rows env True page pageSize (newest o_CreatedAt) mapOrder (filter (admin_order_matches f) (db_orders db))"

subsection \<open>Mailboxes\<close>

record MailboxFilter =
  mbf_Query :: string
  mbf_Status :: string

definition mailbox_status_matches :: "string \<Rightarrow> sqlMailbox \<Rightarrow> bool" where
  "mailbox_status_matches status m =
     (if status = ''invalid'' then m_VerificationStatus m = MailboxVerificationFailed \<or> m_State m = MailboxError
      else if status = ''pending'' then m_VerificationStatus m = MailboxVerificationPending
      else if status = ''verified'' then m_VerificationStatus m = MailboxVerificationVerified
      else if status = ''available'' then m_State m = MailboxAvailable
      else if status = ''leased'' then m_State m = MailboxLeased
      else True)"

definition mailbox_matches :: "string \<Rightarrow> MailboxFilter \<Rightarrow> sqlMailbox \<Rightarrow> bool" where
  "mailbox_matches pool f m \<longleftrightarrow> (pool \<noteq> [] \<longrightarrow> m_Pool m = pool)
     \<and> (let search = trim_space (mbf_Query f)
        in search \<noteq> [] \<longrightarrow> sql_like (contains_pattern (to_lower search)) (to_lower (m_Address m)))
     \<and> mailbox_status_matches (to_lower (trim_space (mbf_Status f))) m"

definition state_entry :: "sqlMailboxService \<Rightarrow> string \<times> MailboxService" where
  "state_entry s = (ms_ServiceID s, \<lparr> mbs_ServiceID = ms_ServiceID s, mbs_State = ms_State s,
     mbs_TimeoutCount = ms_TimeoutCount s, mbs_ChangedAt = ms_ChangedAt s \<rparr>)"

definition mailboxesPage :: "env \<Rightarrow> string \<Rightarrow> MailboxFilter \<Rightarrow> go_int \<Rightarrow> go_int \<Rightarrow> db \<Rightarrow> Mailbox list \<times> int" where
  "mailboxesPage env pool f page pageSize db =
     (let (rows, total) = list_rows env True page pageSize (sort_key m_Address) (\<lambda>m. m)
            (filter (mailbox_matches pool f) (db_mailboxes db));
          states = (if db_fail env 2 then [] else filter (\<lambda>s. ms_MailboxID s \<in> m_ID ` set rows) (db_states db));
          consumed = ms_ServiceID ` set (filter (\<lambda>s. ms_State s = ServiceConsumed) states);
          codes = (if db_fail env 3 then [] else sort_key sv_Name (filter (\<lambda>s. sv_ID s \<in> consumed) (db_services db)));
          item = (\<lambda>row. let own = map state_entry (filter (\<lambda>s. ms_MailboxID s = m_ID row) states)
                    in (mapMailbox row own)\<lparr>mbx_RegisteredPlatforms := registeredPlatforms own codes\<rparr>)
      in (sort_key mbx_Address (map item rows), total))"

definition ListMailboxesPage :: "env \<Rightarrow> MailboxFilter \<Rightarrow> go_int \<Rightarrow> go_int \<Rightarrow> db \<Rightarrow> Mailbox list \<times> int" where
  "ListMailboxesPage env f page pageSize db = mailboxesPage env [] f page pageSize db"

definition MailboxesPage :: "env \<Rightarrow> go_int \<Rightarrow> go_int \<Rightarrow> db \<Rightarrow> Mailbox list \<times> int" where
  "MailboxesPage env page pageSize db = ListMailboxesPage env \<lparr> mbf_Query = [], mbf_Status = [] \<rparr> page pageSize db"

definition Mailboxes_of :: "env \<Rightarrow> db \<Rightarrow> Mailbox list" where
  "Mailboxes_of env db = fst (MailboxesPage env 1 100 db)"

text \<open>A pool's row with the number of its mailboxes, for the one pool that is listed.\<close>

definition ListMailboxPoolsPage :: "env \<Rightarrow> go_int \<Rightarrow> go_int \<Rightarrow> db \<Rightarrow> MailboxPool list \<times> int" where
  "ListMailboxPoolsPage env page pageSize db =
     list_rows env False page pageSize (newest pl_CreatedAt)
       (\<lambda>row. \<lparr> mp_ID = pl_ID row, mp_Name = pl_Name row, mp_Provider = pl_Provider row, mp_Region = pl_Region row,
          mp_Enabled = pl_Enabled row, mp_DailyLimit = pl_DailyLimit row, mp_CooldownSecond = pl_CooldownSeconds row,
          mp_MailboxCount = int (count_rows (\<lambda>m. m_Pool m = pl_Name row) (db_mailboxes db)), mp_CreatedAt = pl_CreatedAt row \<rparr>)
       (filter (\<lambda>p. pl_Name p = DefaultMailboxPoolName) (db_pools db))"

subsection \<open>Accounts, payments, webhooks\<close>

definition ListUsersPage :: "env \<Rightarrow> go_int \<Rightarrow> go_int \<Rightarrow> db \<Rightarrow> User list \<times> int" where
  "ListUsersPage env page pageSize db = list_rows env False page pageSize (newest u_CreatedAt) mapUser (db_users db)"

definition ListAPIKeysPage :: "env \<Rightarrow> string \<Rightarrow> go_int \<Rightarrow> go_int \<Rightarrow> db \<Rightarrow> APIKey list \<times> int" where
  "ListAPIKeysPage env userID page pageSize db =
     list_rows env True page pageSize (newest k_CreatedAt) mapAPIKey (filter (\<lambda>k. k_UserID k = userID) (db_api_keys db))"

definition map_ledger :: "sqlWalletLedger \<Rightarrow> WalletLedger" where
  "map_ledger row = \<lparr> wl_ID = l_ID row, wl_UserID = l_UserID row, wl_Type = l_Type row,
     wl_Amount = from_cents (l_AmountCents row), wl_BalanceAfter = from_cents (l_BalanceAfterCents row),
     wl_OrderID = l_OrderID row, wl_PaymentID = l_PaymentOrderID row, wl_Description = l_Description row,
     wl_CreatedAt = l_CreatedAt row \<rparr>"

definition ListWalletLedgersPage :: "env \<Rightarrow> string \<Rightarrow> go_int \<Rightarrow> go_int \<Rightarrow> db \<Rightarrow> WalletLedger list \<times> int" where
  "ListWalletLedgersPage env userID page pageSize db =
     list_rows env True page pageSize (newest l_CreatedAt) map_ledger
       (filter (\<lambda>l. userID \<noteq> [] \<longrightarrow> l_UserID l = userID) (db_ledgers db))"

definition ListAuditLogsPage :: "env \<Rightarrow> go_int \<Rightarrow> go_int \<Rightarrow> db \<Rightarrow> AuditLog list \<times> int" where
  "ListAuditLogsPage env page pageSize db =
     list_rows env False page pageSize (newest a_CreatedAt)
       (\<lambda>row. \<lparr> al_ID = a_ID row, al_ActorID = a_ActorID row, al_Action = a_Action row, al_ResourceType = a_ResourceType row,
          al_ResourceID = a_ResourceID row, al_Detail = a_Detail row, al_IP = a_IP row, al_CreatedAt = a_CreatedAt row \<rparr>)
       (db_audits db)"

definition ListPaymentProvidersPage :: "env \<Rightarrow> go_int \<Rightarrow> go_int \<Rightarrow> db \<Rightarrow> PaymentProvider list \<times> int" where
  "ListPaymentProvidersPage env page pageSize db =
     list_rows env False page pageSize (\<lambda>rows. sort_key pp_Priority (sort_key pp_CreatedAt rows)) mapPaymentProvider
       (db_pay_providers db)"

definition ListPaymentOrdersPage :: "env \<Rightarrow> string \<Rightarrow> go_int \<Rightarrow> go_int \<Rightarrow> db \<Rightarrow> PaymentOrder list \<times> int" where
  "ListPaymentOrdersPage env userID page pageSize db =
     list_rows env True page pageSize (newest po_CreatedAt) mapPaymentOrder
       (filter (\<lambda>p. userID \<noteq> [] \<longrightarrow> po_UserID p = userID) (db_pay_orders db))"

definition ListWebhookEndpointsPage :: "env \<Rightarrow> string \<Rightarrow> go_int \<Rightarrow> go_int \<Rightarrow> db \<Rightarrow> WebhookEndpoint list \<times> int" where
  "ListWebhookEndpointsPage env userID page pageSize db =
     list_rows env True page pageSize (newest we_CreatedAt) mapWebhookEndpoint
       (filter (\<lambda>e. we_UserID e = userID) (db_endpoints db))"

definition ListWebhookDeliveriesPage :: "env \<Rightarrow> string \<Rightarrow> go_int \<Rightarrow> go_int \<Rightarrow> db \<Rightarrow> WebhookDelivery list \<times> int" where
  "ListWebhookDeliveriesPage env userID page pageSize db =
     list_rows env True page pageSize (newest wd_CreatedAt) mapWebhookDelivery
       [d. d \<leftarrow> db_deliveries db, e \<leftarrow> db_endpoints db, we_ID e = wd_EndpointID d \<and> we_UserID e = userID]"

subsection \<open>Overview\<close>

record Overview =
  ovw_AvailableMailboxes :: int
  ovw_TotalMailboxes :: int
  ovw_OutlookMailboxes :: int
  ovw_OutlookDEMailboxes :: int
  ovw_HotmailMailboxes :: int
  ovw_GmailMailboxes :: int
  ovw_ICloudMailboxes :: int
  ovw_MailComMailboxes :: int
  ovw_PendingMailboxes :: int
  ovw_VerifiedMailboxes :: int
  ovw_ActiveLeases :: int
  ovw_TodayOrders :: int
  ovw_SuccessRate :: float64
  ovw_AverageCodeSeconds :: float64
  ovw_TodayRevenue :: float64
  ovw_AuthErrors :: int
  ovw_BlockedMailboxes :: int

definition duration_seconds :: "time \<Rightarrow> float64" where
  "duration_seconds d = (let whole = (if d < 0 then - (- d div second) else d div second); rest = d - whole * second
     in fl (fl (of_int whole) + fl (fl (of_int rest) / 1000000000)))"

fun order_totals :: "float64 \<times> nat \<times> float64 \<Rightarrow> sqlOrder list \<Rightarrow> float64 \<times> nat \<times> float64" where
  "order_totals acc [] = acc"
| "order_totals (codeSeconds, received, revenue) (r # rs) =
     order_totals (case o_CodeReceivedAt r of
        None \<Rightarrow> (codeSeconds, received, revenue)
      | Some t \<Rightarrow> (case o_SubmittedAt r of None \<Rightarrow> codeSeconds | Some t0 \<Rightarrow> fl (codeSeconds + duration_seconds (t - t0)),
                   Suc received, fl (revenue + from_cents (o_PriceCents r)))) rs"

definition Overview_of :: "env \<Rightarrow> db \<Rightarrow> Overview" where
  "Overview_of env db =
     (let count = (\<lambda>n P. if db_fail env n then 0 else int (count_rows P (db_mailboxes db)));
          start = clock env 0 div (24 * hour) * (24 * hour);
          orders = (if db_fail env 13 then [] else filter (\<lambda>r. o_CreatedAt r \<ge> start) (db_orders db));
          (codeSeconds, received, revenue) = order_totals (0, 0, 0) orders
      in \<lparr> ovw_AvailableMailboxes = count 9 (\<lambda>m. m_State m = MailboxAvailable \<and> m_VerificationStatus m = MailboxVerificationVerified),
           ovw_TotalMailboxes = count 0 (\<lambda>m. True),
           ovw_OutlookMailboxes = count 1 (\<lambda>m. m_Provider m = MailboxProviderOutlook),
           ovw_OutlookDEMailboxes = count 2 (\<lambda>m. m_Provider m = MailboxProviderOutlookDE),
           ovw_HotmailMailboxes = count 3 (\<lambda>m. m_Provider m = MailboxProviderHotmail),
           ovw_GmailMailboxes = count 4 (\<lambda>m. m_Provider m = MailboxProviderGmail),
           ovw_ICloudMailboxes = count 5 (\<lambda>m. m_Provider m = MailboxProviderICloud),
           ovw_MailComMailboxes = count 6 (\<lambda>m. m_Provider m = MailboxProviderMailCom),
           ovw_PendingMailboxes = count 7 (\<lambda>m. m_VerificationStatus m = MailboxVerificationPending),
           ovw_VerifiedMailboxes = count 8 (\<lambda>m. m_VerificationStatus m = MailboxVerificationVerified),
           ovw_ActiveLeases = count 10 (\<lambda>m. m_State m = MailboxLeased),
           ovw_TodayOrders = int (length orders),
           ovw_SuccessRate = (if received > 0 then fl (fl (of_nat received / of_nat (length orders)) * 100) else 0),
           ovw_AverageCodeSeconds = (if received > 0 then fl (codeSeconds / of_nat received) else 0),
           ovw_TodayRevenue = revenue,
           ovw_AuthErrors = count 11 (\<lambda>m. m_State m = MailboxError),
           ovw_BlockedMailboxes = count 12 (\<lambda>m. m_State m = MailboxBlocked) \<rparr>)"

subsection \<open>The database's pages are those of \<open>paginate\<close>\<close>

text \<open>C26: Both stores cut a listing into the same pages: as long as the offset does not overflow, the database's OFFSET and
  LIMIT select exactly what \<^verbatim>\<open>paginate\<close> returns for the same request; when it does overflow, the database answers
  with the first page where \<^verbatim>\<open>paginate\<close> panics.\<close>

theorem sql_page_is_paginate:
  assumes "normalizePage page0 pageSize0 = (page, pageSize)" and "length rows < 2 ^ 62"
  shows "(sint page * sint pageSize < 2 ^ 62 \<longrightarrow> paginate rows page0 pageSize0 = Inr (sql_page page pageSize rows))
     \<and> (sint ((page - 1) * pageSize) < 0 \<longrightarrow> paginate rows page0 pageSize0 = Inl SliceOutOfRange
          \<and> sql_page page pageSize rows = take (nat (sint pageSize)) rows)"
proof (intro conjI impI)
  have r: "1 \<le> sint page" "1 \<le> sint pageSize" "sint pageSize \<le> 100" using normalizePage_range [OF assms(1)] by simp_all
  have same: "paginate rows page0 pageSize0 = paginate rows page pageSize"
    unfolding paginate_def assms(1) normalizePage_idem [OF assms(1)] ..
  assume small: "sint page * sint pageSize < 2 ^ 62"
  have off: "sint ((page - 1) * pageSize) = (sint page - 1) * sint pageSize" by (rule sint_small_mult(1) [OF r small])
  have "0 \<le> (sint page - 1) * sint pageSize" using r by simp
  then show "paginate rows page0 pageSize0 = Inr (sql_page page pageSize rows)"
    unfolding same paginate_exact [OF r small assms(2)] sql_page_def off Let_def by auto
next
  assume neg: "sint ((page - 1) * pageSize) < 0"
  show "paginate rows page0 pageSize0 = Inl SliceOutOfRange" by (rule paginate_negative [OF assms(1) neg])
  show "sql_page page pageSize rows = take (nat (sint pageSize)) rows" using neg by (simp add: sql_page_def Let_def)
qed

lemma sql_page_is_paginate_witness:
  "paginate [''a'', ''b'', ''c''] 2 2 = Inr (sql_page 2 2 [''a'', ''b'', ''c''])"
proof -
  have "normalizePage 2 2 = (2, 2)" by (simp add: normalizePage_def)
  then show ?thesis using sql_page_is_paginate [of 2 2 2 2 "[''a'', ''b'', ''c'']"] by simp
qed

end
