(* ===== verification/Lease_Table.thy ===== *)
theory Lease_Table
  imports Order_Rules
begin

text \<open>
  What every store promises about its mailboxes, whatever it keeps its data in: a table of leases that
  says which order holds which mailbox, and the events that may change it.  An order takes a mailbox that is
  free, under an identifier that holds no other; a holder gives its mailbox back; a sweep frees held mailboxes.
  The events are partial functions: taking a held mailbox is not possible.

  The locale \<open>lease_table\<close> is the interface: a state with an invariant, the table it stands for, its open orders,
  and steps labelled with the events they must amount to, no more and no less.  The label of an operation is read off its
  reply and the orders, never off the mailboxes: an order that is created takes the mailbox it names; one that receives its code or
  is canceled gives its mailbox back; a sweep frees the mailboxes of the orders that it closes; every other
  operation, and every failing one, leaves the table alone.  The orders of the PostgreSQL store are the first interpretation, those of the
  in-memory store (theory \<open>Memory_Store\<close>) the second.
\<close>

subsection \<open>The abstract table\<close>

type_synonym leases = "string \<rightharpoonup> string"

datatype lease_event = Take string string | Give string string | Free "string set"

fun lease_apply :: "lease_event \<Rightarrow> leases \<Rightarrow> leases option" where
  "lease_apply (Take k oid) L = (if L k = None \<and> oid \<notin> ran L then Some (L(k \<mapsto> oid)) else None)"
| "lease_apply (Give k oid) L = (if L k = Some oid then Some (L(k := None)) else None)"
| "lease_apply (Free K) L = (if K \<subseteq> dom L then Some (L |` (- K)) else None)"

fun run_leases :: "lease_event list \<Rightarrow> leases \<Rightarrow> leases option" where
  "run_leases [] L = Some L"
| "run_leases (e # es) L = (case lease_apply e L of None \<Rightarrow> None | Some M \<Rightarrow> run_leases es M)"

lemma run_leases_append:
  "run_leases (es @ es') L = (case run_leases es L of None \<Rightarrow> None | Some M \<Rightarrow> run_leases es' M)"
  by (induction es arbitrary: L) (auto split: option.split)

text \<open>What ends the lease that \<open>oid\<close> has on \<open>k\<close>.\<close>

fun ends_lease :: "string \<Rightarrow> string \<Rightarrow> lease_event \<Rightarrow> bool" where
  "ends_lease k oid (Take k' oid') = False"
| "ends_lease k oid (Give k' oid') = (k' = k \<and> oid' = oid)"
| "ends_lease k oid (Free K) = (k \<in> K)"

text \<open>A mailbox passes from one order to another only through the holder's own event, after which it is free.\<close>

definition handed_over :: "lease_event list \<Rightarrow> leases \<Rightarrow> leases \<Rightarrow> bool" where
  "handed_over es L L' \<longleftrightarrow> (\<forall>k oid. L k = Some oid \<longrightarrow> L' k \<noteq> Some oid \<longrightarrow>
     (\<exists>es1 e es2 M. es = es1 @ e # es2 \<and> ends_lease k oid e
        \<and> run_leases (es1 @ [e]) L = Some M \<and> M k = None \<and> run_leases es2 M = Some L'))"

lemma lease_apply_other: "lease_apply e L = Some M \<Longrightarrow> L k = Some oid \<Longrightarrow> M k = Some oid \<or> (ends_lease k oid e \<and> M k = None)"
  by (cases e) (auto simp: restrict_map_def split: if_splits)

lemma run_leases_handed_over: "run_leases es L = Some L' \<Longrightarrow> handed_over es L L'"
proof (induction es arbitrary: L)
  case (Cons e es)
  then obtain M where M: "lease_apply e L = Some M" "run_leases es M = Some L'" by (auto split: option.splits)
  show ?case
    unfolding handed_over_def
  proof (intro allI impI)
    fix k oid assume k: "L k = Some oid" "L' k \<noteq> Some oid"
    show "\<exists>es1 e' es2 N. e # es = es1 @ e' # es2 \<and> ends_lease k oid e'
        \<and> run_leases (es1 @ [e']) L = Some N \<and> N k = None \<and> run_leases es2 N = Some L'"
    proof (cases "M k = Some oid")
      case True
      then obtain es1 e' es2 N where "es = es1 @ e' # es2" "ends_lease k oid e'" "run_leases (es1 @ [e']) M = Some N"
          "N k = None" "run_leases es2 N = Some L'"
        using Cons.IH [OF M(2)] k(2) unfolding handed_over_def by blast
      then show ?thesis using M(1) by (intro exI [of _ "e # es1"] exI [of _ e'] exI [of _ es2] exI [of _ N]) simp
    next
      case False
      then have "ends_lease k oid e" "M k = None" using lease_apply_other [OF M(1) k(1)] by auto
      then show ?thesis using M by (intro exI [of _ "[]"] exI [of _ e] exI [of _ es] exI [of _ M]) simp
    qed
  qed
qed (simp add: handed_over_def)

text \<open>An order that is new in the table has taken its mailbox.\<close>

lemma run_leases_taken: "run_leases es L = Some L' \<Longrightarrow> L' k = Some oid \<Longrightarrow> L k = Some oid \<or> Take k oid \<in> set es"
proof (induction es arbitrary: L)
  case (Cons e es)
  then obtain M where M: "lease_apply e L = Some M" "run_leases es M = Some L'" by (auto split: option.splits)
  have "M k = Some oid \<Longrightarrow> L k = Some oid \<or> e = Take k oid"
    using M(1) by (cases e) (auto simp: restrict_map_def split: if_splits)
  then show ?case using Cons.IH [OF M(2) Cons.prems(2)] by auto
qed simp

subsection \<open>The labels\<close>

definition taken_by :: "create_outcome \<Rightarrow> lease_event list" where
  "taken_by res = (case res of Created order \<Rightarrow> [Take (ord_MailboxID order) (ord_ID order)] | _ \<Rightarrow> [])"

definition given_by :: "store_error + Order \<Rightarrow> lease_event list" where
  "given_by res = (case res of Inl _ \<Rightarrow> [] | Inr order \<Rightarrow> [Give (ord_MailboxID order) (ord_ID order)])"

text \<open>The open orders of a store, each with its mailbox, before and after a sweep.\<close>

definition freed_by :: "(string \<times> string) set \<Rightarrow> (string \<times> string) set \<Rightarrow> lease_event list" where
  "freed_by opened opened' = [Free (fst ` (opened - opened'))]"

lemma freed_by_run:
  assumes L: "\<And>k oid. L k = Some oid \<longleftrightarrow> (k, oid) \<in> opened" and L': "\<And>k oid. L' k = Some oid \<longleftrightarrow> (k, oid) \<in> opened'"
    and sub: "L' \<subseteq>\<^sub>m L"
  shows "run_leases (freed_by opened opened') L = Some L'"
proof -
  let ?K = "fst ` (opened - opened')"
  have K: "k \<in> ?K \<longleftrightarrow> L k \<noteq> None \<and> L' k = None" for k
  proof -
    have "k \<in> ?K \<longleftrightarrow> (\<exists>oid. L k = Some oid \<and> L' k \<noteq> Some oid)" by (force simp: L L')
    also have "\<dots> \<longleftrightarrow> L k \<noteq> None \<and> L' k = None" using sub by (fastforce simp: map_le_def dom_def)
    finally show ?thesis .
  qed
  have "(L |` (- ?K)) k = L' k" for k
    using K [of k] sub by (cases "L k"; cases "L' k") (auto simp: restrict_map_def map_le_def dom_def)
  then have "L |` (- ?K) = L'" by blast
  then show ?thesis using K by (auto simp: freed_by_def)
qed

subsection \<open>Runs\<close>

inductive run_of :: "(lease_event list \<Rightarrow> 's \<Rightarrow> 's \<Rightarrow> bool) \<Rightarrow> lease_event list \<Rightarrow> 's \<Rightarrow> 's \<Rightarrow> bool"
  for step where
  run_nil: "run_of step [] s s"
| run_snoc: "run_of step es s t \<Longrightarrow> step es' t u \<Longrightarrow> run_of step (es @ es') s u"

lemma run_single: "step es s t \<Longrightarrow> run_of step es s t"
  using run_snoc [OF run_nil, of step es s t] by simp

subsection \<open>The interface\<close>

locale lease_table =
  fixes leases :: "'s \<Rightarrow> leases" and opened :: "'s \<Rightarrow> (string \<times> string) set" and good :: "'s \<Rightarrow> bool"
    and step :: "lease_event list \<Rightarrow> 's \<Rightarrow> 's \<Rightarrow> bool"
  assumes step_good: "good s \<Longrightarrow> step es s s' \<Longrightarrow> good s'"
    and step_leases: "good s \<Longrightarrow> step es s s' \<Longrightarrow> run_leases es (leases s) = Some (leases s')"
    and good_opened: "good s \<Longrightarrow> leases s k = Some oid \<longleftrightarrow> (k, oid) \<in> opened s"
    and opened_once: "good s \<Longrightarrow> (k, oid) \<in> opened s \<Longrightarrow> (k', oid) \<in> opened s \<Longrightarrow> k = k'"
begin

lemma runs_good: "run_of step es s s' \<Longrightarrow> good s \<Longrightarrow> good s'"
  by (induction rule: run_of.induct) (auto intro: step_good)

lemma runs_refine: "run_of step es s s' \<Longrightarrow> good s \<Longrightarrow> run_leases es (leases s) = Some (leases s')"
  by (induction rule: run_of.induct) (auto simp: run_leases_append step_leases runs_good)

lemma never_shared:
  "run_of step es s s' \<Longrightarrow> good s \<Longrightarrow> leases s' k = Some oid \<Longrightarrow> leases s' k' = Some oid \<Longrightarrow> k = k'"
  using good_opened opened_once runs_good by metis

lemma runs_hand_over: "run_of step es s s' \<Longrightarrow> good s \<Longrightarrow> handed_over es (leases s) (leases s')"
  by (rule run_leases_handed_over [OF runs_refine])

end

subsection \<open>The orders of the PostgreSQL store\<close>

definition named_leases :: "(string \<rightharpoonup> string) \<Rightarrow> leases" where
  "named_leases f k = (case f k of None \<Rightarrow> None | Some a \<Rightarrow> if a = [] then None else Some a)"

lemma named_leases_upd: "named_leases (f(k \<mapsto> a)) = (named_leases f)(k := if a = [] then None else Some a)"
  by (auto simp: named_leases_def fun_eq_iff)

definition db_leases :: "db \<Rightarrow> leases" where
  "db_leases db = named_leases (map_of (map (\<lambda>m. (m_ID m, m_ActiveOrderID m)) (db_mailboxes db)))"

lemma map_of_upd_rows:
  assumes "\<And>m. m \<in> set t \<Longrightarrow> key (f m) = key m" and "\<And>m. m \<in> set t \<Longrightarrow> v (f m) = a" and "k \<in> key ` set t"
  shows "map_of (map (\<lambda>m. (key m, v m)) (upd_rows (\<lambda>m. key m = k) f t)) = (map_of (map (\<lambda>m. (key m, v m)) t))(k \<mapsto> a)"
proof -
  have "map_of (map (\<lambda>m. (key m, v m)) (upd_rows (\<lambda>m. key m = k) f t)) x
      = (if x = k then (if k \<in> key ` set t then Some a else None) else map_of (map (\<lambda>m. (key m, v m)) t) x)" for x
    using assms(1,2) by (induction t) (auto simp: upd_rows_def)
  then show ?thesis using assms(3) by (auto simp: fun_eq_iff)
qed

lemma map_of_upd_rows_same:
  assumes "\<And>m. m \<in> set t \<Longrightarrow> P m \<Longrightarrow> key (f m) = key m \<and> v (f m) = v m"
  shows "map (\<lambda>m. (key m, v m)) (upd_rows P f t) = map (\<lambda>m. (key m, v m)) t"
  using assms by (auto simp: upd_rows_def)

lemma db_leases_row:
  assumes "lease_ok db" and "m \<in> set (db_mailboxes db)"
  shows "db_leases db (m_ID m) = (if m_ActiveOrderID m = [] then None else Some (m_ActiveOrderID m))"
proof -
  have "map_of (map (\<lambda>m. (m_ID m, m_ActiveOrderID m)) (db_mailboxes db)) (m_ID m) = Some (m_ActiveOrderID m)"
    using keys_okD(3) [OF lease_okD(1) [OF assms(1)]] assms(2) by (intro map_of_is_SomeI) (auto simp: comp_def)
  then show ?thesis by (simp add: db_leases_def named_leases_def)
qed

lemma db_leases_Some:
  assumes "db_leases db k = Some oid"
  shows "\<exists>m\<in>set (db_mailboxes db). m_ID m = k \<and> m_ActiveOrderID m = oid \<and> oid \<noteq> []"
proof -
  from assms have "map_of (map (\<lambda>m. (m_ID m, m_ActiveOrderID m)) (db_mailboxes db)) k = Some oid" and n: "oid \<noteq> []"
    by (auto simp: db_leases_def named_leases_def split: option.splits if_splits)
  from map_of_SomeD [OF this(1)] show ?thesis using n by auto
qed

lemma db_leases_order:
  assumes "lease_ok db" and "db_leases db k = Some oid"
  shows "\<exists>r\<in>set (db_orders db). order_open r \<and> o_ID r = oid \<and> o_MailboxID r = k"
  using db_leases_Some [OF assms(2)] lease_okD(3) [OF assms(1)] by (auto simp: mailbox_bound_def)

text \<open>The open orders and their mailboxes.\<close>

definition db_opened :: "db \<Rightarrow> (string \<times> string) set" where
  "db_opened db = (\<lambda>r. (o_MailboxID r, o_ID r)) ` {r \<in> set (db_orders db). order_open r}"

lemma db_leases_opened:
  assumes inv: "lease_ok db"
  shows "db_leases db k = Some oid \<longleftrightarrow> (k, oid) \<in> db_opened db"
proof
  show "db_leases db k = Some oid \<Longrightarrow> (k, oid) \<in> db_opened db"
    using db_leases_order [OF inv] by (force simp: db_opened_def)
  assume "(k, oid) \<in> db_opened db"
  then obtain r where r: "r \<in> set (db_orders db)" "order_open r" "o_MailboxID r = k" "o_ID r = oid" by (auto simp: db_opened_def)
  from lease_okD(2) [OF inv r(1,2)] obtain m where "m \<in> set (db_mailboxes db)" "m_ID m = k" "m_ActiveOrderID m = oid" "oid \<noteq> []"
    using r(3,4) by (auto simp: order_leased_def)
  then show "db_leases db k = Some oid" using db_leases_row [OF inv, of m] by simp
qed

lemma db_opened_once:
  assumes inv: "lease_ok db" and k: "(k, oid) \<in> db_opened db" "(k', oid) \<in> db_opened db"
  shows "k = k'"
proof -
  obtain r r' where r: "r \<in> set (db_orders db)" "o_ID r = oid" "o_MailboxID r = k"
      and r': "r' \<in> set (db_orders db)" "o_ID r' = oid" "o_MailboxID r' = k'"
    using k by (auto simp: db_opened_def)
  have "r' = r" using key_unique [OF keys_okD(2) [OF lease_okD(1) [OF inv]] r'(1) r(1)] r(2) r'(2) by simp
  then show ?thesis using r(3) r'(3) by simp
qed

lemma allocated_lease:
  assumes inv: "lease_ok db" and al: "allocated r db db'"
  shows "run_leases [Take (o_MailboxID r) (o_ID r)] (db_leases db) = Some (db_leases db')"
proof -
  from al obtain f where f: "\<forall>m. m_ID (f m) = m_ID m \<and> m_ActiveOrderID (f m) = o_ID r"
      "db_mailboxes db' = upd_rows (\<lambda>m. m_ID m = o_MailboxID r) f (db_mailboxes db)"
    unfolding allocated_def by blast
  from al obtain m where m: "m \<in> set (db_mailboxes db)" "m_ID m = o_MailboxID r" "m_ActiveOrderID m = []"
    unfolding allocated_def by blast
  have n: "o_ID r \<noteq> []" "o_ID r \<notin> o_ID ` set (db_orders db)" using al by (simp_all add: allocated_def)
  have "db_leases db' = (db_leases db)(o_MailboxID r \<mapsto> o_ID r)"
    unfolding db_leases_def f(2) using m(1,2) f(1) n(1)
    by (subst map_of_upd_rows [where a = "o_ID r"]) (auto simp: named_leases_upd intro: rev_image_eqI)
  moreover have "db_leases db (o_MailboxID r) = None" using db_leases_row [OF inv m(1)] m by simp
  moreover have "db_leases db k \<noteq> Some (o_ID r)" for k
    using db_leases_order [OF inv, of k "o_ID r"] n(2) by (metis image_eqI)
  ultimately show ?thesis by (simp add: ran_def)
qed

lemma closed_lease:
  assumes inv: "lease_ok db" and cl: "closed r r' db db'"
  shows "run_leases [Give (o_MailboxID r) (o_ID r)] (db_leases db) = Some (db_leases db')"
proof -
  from cl obtain f where f: "\<forall>m. m_ID (f m) = m_ID m \<and> m_ActiveOrderID (f m) = []"
      "db_mailboxes db' = upd_rows (\<lambda>m. m_ID m = o_MailboxID r) f (db_mailboxes db)"
    unfolding closed_def by blast
  have "order_leased db r" using cl lease_okD(2) [OF inv] by (simp add: closed_def)
  then obtain m where m: "m \<in> set (db_mailboxes db)" "m_ID m = o_MailboxID r" "m_ActiveOrderID m = o_ID r" "o_ID r \<noteq> []"
    by (auto simp: order_leased_def)
  have "db_leases db' = (db_leases db)(o_MailboxID r := None)"
    unfolding db_leases_def f(2) using m(1,2) f(1)
    by (subst map_of_upd_rows [where a = "[]"]) (auto simp: named_leases_upd intro: rev_image_eqI)
  moreover have "db_leases db (o_MailboxID r) = Some (o_ID r)" using db_leases_row [OF inv m(1)] m by simp
  ultimately show ?thesis by simp
qed

lemma same_mailboxes_lease: "db_mailboxes db' = db_mailboxes db \<Longrightarrow> db_leases db' = db_leases db"
  by (simp add: db_leases_def)

text \<open>Settling orders only shrinks the table.\<close>

lemma settle_step_lease:
  assumes "settle_step db db'" and inv: "lease_ok db"
  shows "db_leases db' \<subseteq>\<^sub>m db_leases db"
proof -
  have gives: "db_leases db' \<subseteq>\<^sub>m db_leases db" if "closed r r' db db'" for r r'
  proof -
    have "db_leases db' = (db_leases db)(o_MailboxID r := None)" using closed_lease [OF inv that] by (simp split: if_splits)
    then show ?thesis by simp
  qed
  have ids: "o_ID ` set (db_orders db') = o_ID ` set (db_orders db)" and "order_step db db'"
    using assms(1) by (simp_all add: settle_step_def)
  from this(2) show ?thesis
  proof (cases rule: order_step.cases)
    case (step_create env locked uid sid requested user service mailbox providers maximum price rid r)
    then have "allocated r db db'" using create_post_allocated by blast
    then show ?thesis using ids by (auto simp: allocated_def)
  next
    case (step_receive r now code)
    then show ?thesis using gives by blast
  next
    case (step_complete r now)
    then have "db_leases db' = db_leases db" using same_but_logsD(3) [OF step_complete(3)] by (intro same_mailboxes_lease) simp
    then show ?thesis by simp
  next
    case (step_refund r r0 status env n r')
    then show ?thesis using gives step_refund_closed by blast
  next
    case (step_touch P f)
    then have "db_leases db' = db_leases db"
      unfolding db_leases_def by (subst step_touch(1), subst map_of_upd_rows_same) auto
    then show ?thesis by simp
  qed
qed

lemma settle_steps_lease: "settle_steps db db' \<Longrightarrow> lease_ok db \<Longrightarrow> db_leases db' \<subseteq>\<^sub>m db_leases db"
proof (induction rule: rtranclp_induct)
  case (step t u)
  have "lease_ok t" using order_steps_leases [OF settle_steps_order [OF step.hyps(1)] step.prems] .
  then show ?case using settle_step_lease [OF step.hyps(2)] step.IH [OF step.prems] map_le_trans by blast
qed simp

lemma settle_steps_freed:
  assumes "settle_steps db db'" and inv: "lease_ok db"
  shows "run_leases (freed_by (db_opened db) (db_opened db')) (db_leases db) = Some (db_leases db')"
  using db_leases_opened [OF inv] db_leases_opened [OF order_steps_leases [OF settle_steps_order [OF assms(1)] inv]]
    settle_steps_lease [OF assms] by (rule freed_by_run)

text \<open>The order operations with their labels.\<close>

inductive pg_step :: "lease_event list \<Rightarrow> db \<Rightarrow> db \<Rightarrow> bool" where
  pg_create: "allocate_order env locked uid sid rid ps db = (res, db') \<Longrightarrow> pg_step (taken_by res) db db'"
| pg_receive: "run_tx (ReceiveCodeValue env oid code) db = (res, db') \<Longrightarrow> pg_step (given_by res) db db'"
| pg_complete: "run_tx (CompleteOrder env oid uid) db = (res, db') \<Longrightarrow> pg_step [] db db'"
| pg_cancel: "run_tx (CancelOrder env oid uid) db = (res, db') \<Longrightarrow> pg_step (given_by res) db db'"
| pg_reap: "ReapExpired envs db = (n, db') \<Longrightarrow> pg_step (freed_by (db_opened db) (db_opened db')) db db'"
| pg_reconcile: "ReconcileInvalidMailboxOrders envs db = (n, db') \<Longrightarrow>
     pg_step (freed_by (db_opened db) (db_opened db')) db db'"

lemma pg_step_leases: "pg_step es db db' \<Longrightarrow> lease_ok db \<Longrightarrow> lease_ok db'"
proof (induction rule: pg_step.induct)
  case (pg_create env locked uid sid rid ps db res db')
  then show ?case using order_steps_leases [OF allocate_order_steps] by (metis snd_conv)
next
  case (pg_receive env oid code db res db')
  then show ?case using order_steps_leases [OF ReceiveCodeValue_steps] by (metis snd_conv)
next
  case (pg_complete env oid uid db res db')
  then show ?case using order_steps_leases [OF CompleteOrder_steps] by (metis snd_conv)
next
  case (pg_cancel env oid uid db res db')
  then show ?case using order_steps_leases [OF CancelOrder_steps] by (metis snd_conv)
next
  case (pg_reap envs db n db')
  then show ?case using order_steps_leases [OF ReapExpired_steps] by (metis snd_conv)
next
  case (pg_reconcile envs db n db')
  then show ?case using order_steps_leases [OF Reconcile_steps] by (metis snd_conv)
qed

lemma gave_back_lease:
  assumes "lease_ok db" and "gave_back order db db'"
  shows "run_leases (given_by (Inr order)) (db_leases db) = Some (db_leases db')"
proof -
  from assms(2) obtain r r' where r: "closed r r' db db'" "o_MailboxID r' = o_MailboxID r" "order = mapOrder r'"
    by (auto simp: gave_back_def)
  then have "o_ID r' = o_ID r" by (simp add: closed_def)
  then show ?thesis using closed_lease [OF assms(1) r(1)] r(2,3) by (simp add: given_by_def mapOrder_def)
qed

lemma ReceiveCodeValue_gives: "tx_ok (ReceiveCodeValue env oid code) db (\<lambda>order db'. gave_back order db db')"
  by (rule tx_ok_weaken [OF ReceiveCodeValue_effect], elim bexE exE conjE)
    (unfold gave_back_def, rule exI, rule exI, intro conjI, rule receipt_closed, auto)

lemma given_by_run:
  assumes "tx_ok m db (\<lambda>order db'. gave_back order db db')" and "lease_ok db" and "run_tx m db = (res, db')"
  shows "run_leases (given_by res) (db_leases db) = Some (db_leases db')"
proof (cases res)
  case (Inl e)
  then have "db' = db" using assms(3) by (simp add: run_tx_err_iff)
  then show ?thesis by (simp add: Inl given_by_def)
next
  case (Inr order)
  then show ?thesis using gave_back_lease [OF assms(2)] tx_okD [OF assms(1)] assms(3) by (simp add: run_tx_ok)
qed

lemma CompleteOrder_mailboxes: "db_mailboxes (snd (run_tx (CompleteOrder env oid uid) db)) = db_mailboxes db"
  by (rule run_tx_rel [where R = "\<lambda>db db'. db_mailboxes db' = db_mailboxes db"], simp)
    (rule tx_ok_weaken [OF CompleteOrder_effect], auto dest!: same_but_logsD(3))

lemma pg_step_run: "pg_step es db db' \<Longrightarrow> lease_ok db \<Longrightarrow> run_leases es (db_leases db) = Some (db_leases db')"
proof (induction rule: pg_step.induct)
  case (pg_create env locked uid sid rid ps db res db')
  from allocate_order_cases [OF pg_create(1)] show ?case
  proof
    assume "db' = db \<and> (\<forall>order. res \<noteq> Created order)"
    then show ?thesis by (simp add: taken_by_def split: create_outcome.split)
  next
    assume "\<exists>user service mailbox providers maximum price r.
       create_checked env locked uid sid ps db user service mailbox providers maximum price
       \<and> res = Created (mapOrder r) \<and> create_post env user service mailbox providers price rid db r db'"
    then obtain r where r: "allocated r db db'" "res = Created (mapOrder r)" using create_post_allocated by blast
    show ?thesis using allocated_lease [OF pg_create(2) r(1)] by (simp add: taken_by_def r(2) mapOrder_def)
  qed
next
  case (pg_receive env oid code db res db')
  then show ?case by (intro given_by_run [OF ReceiveCodeValue_gives])
next
  case (pg_complete env oid uid db res db')
  then show ?case using same_mailboxes_lease [OF CompleteOrder_mailboxes] by (metis run_leases.simps(1) snd_conv)
next
  case (pg_cancel env oid uid db res db')
  then show ?case by (intro given_by_run [OF tx_ok_weaken [OF CancelOrder_gives]]) auto
next
  case (pg_reap envs db n db')
  then show ?case using settle_steps_freed [OF ReapExpired_settles] by (metis snd_conv)
next
  case (pg_reconcile envs db n db')
  then show ?case using settle_steps_freed [OF Reconcile_settles] by (metis snd_conv)
qed

interpretation db_table: lease_table db_leases db_opened lease_ok pg_step
  by unfold_locales (fact pg_step_leases pg_step_run db_leases_opened db_opened_once | blast intro: pg_step_leases pg_step_run db_opened_once)+

end
