(* ===== verification/Memory_Store.thy ===== *)
theory Memory_Store
  imports Listings Lease_Table
begin

text \<open>
  The in-memory store of the development mode, \<^verbatim>\<open>internal/store/store.go\<close> and \<^verbatim>\<open>default_services.go\<close>.
  Every operation holds the store's mutex from its first statement to its return, so each is one atomic
  step on the record \<open>Store\<close>.  A Go map is an association list with distinct keys, and a loop over a map
  runs in the order of the list, which stands for Go's unspecified iteration order; the theorems hold
  for every order.  \<^verbatim>\<open>sort.Slice\<close> is a stable sort here.  Copies that the code makes to avoid sharing a
  map with its caller copy the map entry by entry.

  The first part gives the state and the operations, the second the invariant that ties mailboxes to their
  open orders, the rule by which a mailbox is chosen, and the refinement of the table of leases that the
  PostgreSQL store refines as well.
\<close>

subsection \<open>State\<close>

record Store =
  st_users :: "(string \<times> User) list"
  st_services :: "(string \<times> Service) list"
  st_mailboxes :: "(string \<times> Mailbox) list"
  st_orders :: "(string \<times> Order) list"
  st_systemConfigs :: "(string \<times> (string \<times> string) list) list"
  st_seq :: int

definition copy_map :: "(string \<times> 'a) list \<Rightarrow> (string \<times> 'a) list" where
  "copy_map v = fold (\<lambda>(key, item). AList.update key item) v []"

lemma update_new: "k \<notin> fst ` set al \<Longrightarrow> AList.update k v al = al @ [(k, v)]"
  by (induction al) auto

lemma copy_map_id:
  assumes "distinct (map fst xs)"
  shows "copy_map xs = xs"
proof -
  have "distinct (map fst (acc @ xs)) \<Longrightarrow> fold (\<lambda>(key, item). AList.update key item) xs acc = acc @ xs" for acc
    by (induction xs arbitrary: acc) (auto simp: update_new)
  from this [of "[]"] show ?thesis using assms by (simp add: copy_map_def)
qed

definition cloneStringMap :: "(string \<times> string) list \<Rightarrow> (string \<times> string) list" where
  "cloneStringMap v = copy_map v"

definition cloneProviderPrices :: "(string \<times> float64) list \<Rightarrow> (string \<times> float64) list" where
  "cloneProviderPrices prices = copy_map prices"

definition cloneService :: "Service \<Rightarrow> Service" where
  "cloneService service = service\<lparr>svc_ProviderPrices := cloneProviderPrices (svc_ProviderPrices service)\<rparr>"

definition cloneOrder :: "Order \<Rightarrow> Order" where
  "cloneOrder order = order\<lparr>ord_RequestedProviders := [] @ ord_RequestedProviders order\<rparr>"

definition cloneMailbox :: "Mailbox \<Rightarrow> Mailbox" where
  "cloneMailbox mailbox = mailbox\<lparr>mbx_Services := copy_map (mbx_Services mailbox),
     mbx_RegisteredPlatforms := [] @ mbx_RegisteredPlatforms mailbox\<rparr>"

subsection \<open>The first contents\<close>

definition default_service :: "string \<Rightarrow> string \<Rightarrow> float64 \<Rightarrow> string list \<Rightarrow> string list \<Rightarrow> string \<Rightarrow> string \<Rightarrow> Service" where
  "default_service code name price senders subjects regex description =
     \<lparr> svc_ID = ''svc-'' @ code, svc_Code = code, svc_Name = name, svc_Description = description @ msg_account_suffix,
       svc_Enabled = True, svc_AllowedProviders = SupportedMailboxProviders,
       svc_ProviderPrices = copy_map (map (\<lambda>provider. (provider, price)) SupportedMailboxProviders),
       svc_TTLSeconds = MinimumOrderTTLSeconds, svc_SenderDomains = senders, svc_SubjectKeywords = subjects,
       svc_Regex = regex \<rparr>"

definition six_digits :: string where
  "six_digits = CHR 0x5C # ''b('' @ CHR 0x5C # ''d{6})'' @ CHR 0x5C # ''b''"

definition defaultServices :: "Service list" where
  "defaultServices =
     [default_service ''adobe'' ''Adobe'' (fl (3/5)) [''adobe.com'']
        [''verification code'', ''verify your email'', ''adobe code''] six_digits ''Adobe'',
      default_service ''imagine'' ''Imagine'' (fl (9/20)) [''imagine.art'', ''vyro.ai'']
        [''verification'', ''verify'', ''code''] six_digits ''ImagineArt'',
      default_service ''krea'' ''Krea'' (fl (1/2)) [''krea.ai''] [''verification'', ''verify'', ''code''] six_digits ''Krea'',
      default_service ''leonardo'' ''Leonardo'' (fl (1/2)) [''leonardo.ai'']
        [''verification'', ''verify'', ''code''] six_digits ''Leonardo.Ai'',
      default_service ''openai'' ''OpenAI'' (fl (3/5)) [''openai.com'', ''tm.openai.com'']
        [''verification code'', ''verify your email'', ''your code''] six_digits ''OpenAI'',
      default_service ''runway'' ''Runway'' (fl (3/5)) [''runwayml.com'']
        [''verification'', ''verify'', ''code''] six_digits ''Runway'',
      default_service ''grok'' ''Grok'' (fl (3/5)) [''x.ai''] [''validate your email'']
        (''(?i)'' @ CHR 0x5C # ''b([A-Z0-9]{3}-[A-Z0-9]{3}|[A-Z0-9]{6})'' @ CHR 0x5C # ''b'') ''xAI Grok'']"

definition pad_int :: "nat \<Rightarrow> int \<Rightarrow> string" where
  "pad_int width n = replicate (width - length (int_digits n)) CHR ''0'' @ int_digits n"

text \<open>The \<open>k\<close>-th reading of the clock for the \<open>i\<close>-th mailbox is \<open>clock env (10 * i + k)\<close>.\<close>

definition seed_mailbox :: "env \<Rightarrow> string list \<Rightarrow> nat \<Rightarrow> Mailbox" where
  "seed_mailbox env serviceIDs i =
     (let provider = [MailboxProviderOutlook, MailboxProviderHotmail] ! ((i - 1) mod 2);
          mailDomain = (if provider = ''hotmail'' then ''hotmail.com'' else ''outlook.com'')
      in \<lparr> mbx_ID = ''mb-'' @ pad_int 3 (int i), mbx_Address = ''hero_'' @ pad_int 2 (int i) @ ''@'' @ mailDomain,
           mbx_Provider = provider, mbx_Pool = DefaultMailboxPoolName, mbx_State = MailboxAvailable,
           mbx_HealthScore = 84 + int i mod 16, mbx_OAuthValidUntil = clock env (10 * i + 8) + 30 * 24 * hour,
           mbx_ActiveOrderID = [], mbx_TodayCodes = 0, mbx_LastReceivedAt = zero_time,
           mbx_ConnectionMethod = MailboxConnectionMicrosoftOAuth, mbx_VerificationStatus = MailboxVerificationVerified,
           mbx_LastVerifiedAt = clock env (10 * i + 9), mbx_VerificationError = [], mbx_RegisteredPlatforms = [],
           mbx_Services = map (\<lambda>(k, serviceID). (serviceID, \<lparr> mbs_ServiceID = serviceID, mbs_State = ServiceAvailable,
             mbs_TimeoutCount = 0, mbs_ChangedAt = clock env (10 * i + k) \<rparr>)) (index_from 0 serviceIDs) \<rparr>)"

definition seed :: "env \<Rightarrow> Store \<Rightarrow> Store" where
  "seed env s =
     (let user = (\<lambda>uid email balance role. \<lparr> usr_ID = uid, usr_Email = email, usr_Balance = balance, usr_Role = role,
            usr_Status = [], usr_DisplayName = [], usr_CreatedAt = zero_time \<rparr>);
          users = AList.update ''admin-001'' (user ''admin-001'' ''admin@heromail.local'' 0 ''admin'')
            (AList.update ''user-001'' (user ''user-001'' ''demo@example.com'' (fl (243/5)) ''user'') (st_users s));
          services = fold (\<lambda>service. AList.update (svc_ID service) service) defaultServices (st_services s)
      in s\<lparr>st_users := users, st_services := services,
           st_mailboxes := fold (\<lambda>i. let m = seed_mailbox env (map fst services) i in AList.update (mbx_ID m) m)
             [1..<25] (st_mailboxes s)\<rparr>)"

definition New :: "env \<Rightarrow> Store" where
  "New env = seed env \<lparr> st_users = [], st_services = [], st_mailboxes = [], st_orders = [], st_systemConfigs = [],
     st_seq = 1000 \<rparr>"

definition mem_GetSystemConfig :: "string \<Rightarrow> Store \<Rightarrow> (string \<times> string) list option" where
  "mem_GetSystemConfig key s = map_option cloneStringMap (map_of (st_systemConfigs s) key)"

definition mem_SaveSystemConfig :: "string \<Rightarrow> (string \<times> string) list \<Rightarrow> Store \<Rightarrow> Store" where
  "mem_SaveSystemConfig key v s = s\<lparr>st_systemConfigs := AList.update key (cloneStringMap v) (st_systemConfigs s)\<rparr>"

definition mem_User :: "string \<Rightarrow> Store \<Rightarrow> User option" where
  "mem_User uid s = map_of (st_users s) uid"


subsection \<open>Reading operations\<close>

definition mem_ListServices :: "Store \<Rightarrow> Service list" where
  "mem_ListServices s = sort_key svc_Name (map (\<lambda>(_, service). cloneService service) (st_services s))"

definition mem_ListServicesPage :: "go_int \<Rightarrow> go_int \<Rightarrow> Store \<Rightarrow> (panic + Service list) \<times> int" where
  "mem_ListServicesPage page pageSize s =
     (let items = mem_ListServices s in (paginate items page pageSize, int (length items)))"

definition mem_ListEnabledServicesPage :: "go_int \<Rightarrow> go_int \<Rightarrow> Store \<Rightarrow> (panic + Service list) \<times> int" where
  "mem_ListEnabledServicesPage page pageSize s =
     (let items = filter svc_Enabled (mem_ListServices s) in (paginate items page pageSize, int (length items)))"

definition mem_EnabledService :: "string \<Rightarrow> Store \<Rightarrow> Service option" where
  "mem_EnabledService codeOrID s = map_option (\<lambda>(_, service). cloneService service)
     (List.find (\<lambda>(_, service). svc_Enabled service \<and> (svc_ID service = codeOrID \<or> svc_Code service = codeOrID))
        (st_services s))"

fun service_usage :: "string \<Rightarrow> ServiceUsage \<Rightarrow> Mailbox list \<Rightarrow> ServiceUsage" where
  "service_usage serviceID usage [] = usage"
| "service_usage serviceID usage (mailbox # ms) =
     service_usage serviceID
       (if mbx_VerificationStatus mailbox \<noteq> MailboxVerificationVerified then usage
        else case map_option mbs_State (map_of (mbx_Services mailbox) serviceID) of
            Some ServiceAvailable \<Rightarrow> usage\<lparr>usg_Available := usg_Available usage + 1\<rparr>
          | Some ServiceLeased \<Rightarrow> usage\<lparr>usg_Leased := usg_Leased usage + 1\<rparr>
          | Some ServiceConsumed \<Rightarrow> usage\<lparr>usg_Consumed := usg_Consumed usage + 1\<rparr>
          | _ \<Rightarrow> usage) ms"

definition mem_ServiceUsage :: "string list \<Rightarrow> Store \<Rightarrow> string \<Rightarrow> ServiceUsage option" where
  "mem_ServiceUsage serviceIDs s serviceID =
     (if serviceID \<in> set serviceIDs
      then Some (service_usage serviceID \<lparr> usg_Available = 0, usg_Leased = 0, usg_Consumed = 0 \<rparr> (map snd (st_mailboxes s)))
      else None)"

definition mailboxConnectionValid :: "Mailbox \<Rightarrow> time \<Rightarrow> bool" where
  "mailboxConnectionValid mailbox now \<longleftrightarrow>
     mbx_ConnectionMethod mailbox = MailboxConnectionIMAP \<or> mbx_OAuthValidUntil mailbox > now"

text \<open>The condition that both the allocation and the stock count write out.\<close>

definition mem_ready :: "time \<Rightarrow> string list \<Rightarrow> string \<Rightarrow> Mailbox \<Rightarrow> bool" where
  "mem_ready now providers serviceID mailbox \<longleftrightarrow>
     \<not> (mbx_VerificationStatus mailbox \<noteq> MailboxVerificationVerified \<or> mbx_State mailbox \<noteq> MailboxAvailable
        \<or> mbx_ActiveOrderID mailbox \<noteq> [] \<or> mbx_HealthScore mailbox < 60 \<or> \<not> mailboxConnectionValid mailbox now)
     \<and> containsString providers (mbx_Provider mailbox)
     \<and> (case map_of (mbx_Services mailbox) serviceID of
          None \<Rightarrow> False | Some state \<Rightarrow> mbs_State state = ServiceAvailable)"

fun provider_counts :: "(Mailbox \<Rightarrow> bool) \<Rightarrow> (string \<rightharpoonup> int) \<Rightarrow> Mailbox list \<Rightarrow> (string \<rightharpoonup> int)" where
  "provider_counts P counts [] = counts"
| "provider_counts P counts (mailbox # ms) = provider_counts P
     (if P mailbox
      then counts(mbx_Provider mailbox \<mapsto> (case counts (mbx_Provider mailbox) of None \<Rightarrow> 0 | Some n \<Rightarrow> n) + 1)
      else counts) ms"

definition mem_ServiceAvailabilityByProvider :: "env \<Rightarrow> string list \<Rightarrow> Store \<Rightarrow> string \<Rightarrow> (string \<rightharpoonup> int) option" where
  "mem_ServiceAvailabilityByProvider env serviceIDs s serviceID =
     (if serviceID \<notin> set serviceIDs then None
      else Some (case map_of (st_services s) serviceID of
          None \<Rightarrow> Map.empty
        | Some service \<Rightarrow> if \<not> svc_Enabled service then Map.empty
            else provider_counts (mem_ready (clock env 0) (svc_AllowedProviders service) serviceID) Map.empty
              (map snd (st_mailboxes s))))"

definition mem_ServiceAvailability :: "env \<Rightarrow> string list \<Rightarrow> Store \<Rightarrow> string \<Rightarrow> int" where
  "mem_ServiceAvailability env serviceIDs s serviceID =
     (case mem_ServiceAvailabilityByProvider env serviceIDs s serviceID of
        None \<Rightarrow> 0
      | Some counts \<Rightarrow> int (length (filter (\<lambda>i. i = serviceID) serviceIDs))
          * sum_list (map (\<lambda>p. case counts p of None \<Rightarrow> 0 | Some n \<Rightarrow> n)
              (remdups (map (mbx_Provider \<circ> snd) (st_mailboxes s)))))"

definition mem_GetOrder :: "string \<Rightarrow> Store \<Rightarrow> Order option" where
  "mem_GetOrder oid s = map_option cloneOrder (map_of (st_orders s) oid)"

definition mem_ListOrders :: "string \<Rightarrow> Store \<Rightarrow> Order list" where
  "mem_ListOrders userID s = newest ord_CreatedAt (map cloneOrder
     (filter (\<lambda>order. userID = [] \<or> ord_UserID order = userID) (map snd (st_orders s))))"

definition mem_ListOrdersPage :: "string \<Rightarrow> go_int \<Rightarrow> go_int \<Rightarrow> Store \<Rightarrow> (panic + Order list) \<times> int" where
  "mem_ListOrdersPage userID page pageSize s =
     (let items = mem_ListOrders userID s in (paginate items page pageSize, int (length items)))"

definition mem_user_order_matches :: "UserOrderFilter \<Rightarrow> Order \<Rightarrow> bool" where
  "mem_user_order_matches f order \<longleftrightarrow>
     \<not> (uof_Status f \<noteq> [] \<and> order_status_string (ord_Status order) \<noteq> uof_Status f)
     \<and> \<not> (uof_Service f \<noteq> [] \<and> ord_ServiceID order \<noteq> uof_Service f \<and> ord_ServiceCode order \<noteq> uof_Service f)
     \<and> (let query = to_lower (trim_space (uof_Query f))
        in \<not> (query \<noteq> [] \<and> \<not> str_contains
             (to_lower (ord_ID order @ '' '' @ ord_ServiceName order @ '' '' @ ord_MailboxAddress order)) query))"

definition mem_ListUserOrdersPage :: "string \<Rightarrow> UserOrderFilter \<Rightarrow> go_int \<Rightarrow> go_int \<Rightarrow> Store \<Rightarrow> (panic + Order list) \<times> int" where
  "mem_ListUserOrdersPage userID f page0 pageSize0 s =
     (let filtered = filter (mem_user_order_matches f) (mem_ListOrders userID s);
          (page, pageSize) = normalizePage page0 pageSize0
      in (paginate filtered page pageSize, int (length filtered)))"

definition mem_admin_order_matches :: "AdminOrderFilter \<Rightarrow> Order \<Rightarrow> bool" where
  "mem_admin_order_matches f order \<longleftrightarrow>
     \<not> (aof_Status f \<noteq> [] \<and> order_status_string (ord_Status order) \<noteq> aof_Status f)
     \<and> \<not> (aof_Service f \<noteq> [] \<and> ord_ServiceID order \<noteq> aof_Service f \<and> ord_ServiceCode order \<noteq> aof_Service f)
     \<and> \<not> (aof_UserID f \<noteq> [] \<and> ord_UserID order \<noteq> aof_UserID f)
     \<and> (let query = to_lower (trim_space (aof_Query f))
        in \<not> (query \<noteq> [] \<and> \<not> str_contains
             (to_lower (ord_ID order @ '' '' @ ord_UserID order @ '' '' @ ord_MailboxAddress order)) query))"

definition mem_ListAdminOrdersPage :: "AdminOrderFilter \<Rightarrow> go_int \<Rightarrow> go_int \<Rightarrow> Store \<Rightarrow> (panic + Order list) \<times> int" where
  "mem_ListAdminOrdersPage f page0 pageSize0 s =
     (let filtered = filter (mem_admin_order_matches f) (mem_ListOrders [] s);
          (page, pageSize) = normalizePage page0 pageSize0
      in (paginate filtered page pageSize, int (length filtered)))"

definition mem_Mailboxes :: "Store \<Rightarrow> Mailbox list" where
  "mem_Mailboxes s = sort_key mbx_Address (map (\<lambda>(_, mailbox).
     (cloneMailbox mailbox)\<lparr>mbx_RegisteredPlatforms := sort (map (svc_Code \<circ> snd)
        (filter (\<lambda>(_, service). case map_of (mbx_Services mailbox) (svc_ID service) of
            None \<Rightarrow> False | Some state \<Rightarrow> mbs_State state = ServiceConsumed) (st_services s)))\<rparr>) (st_mailboxes s))"

definition mem_status_matches :: "string \<Rightarrow> Mailbox \<Rightarrow> bool" where
  "mem_status_matches status item \<longleftrightarrow>
     (let isInvalid = mbx_VerificationStatus item = MailboxVerificationFailed \<or> mbx_State item = MailboxError
      in status = ''invalid'' \<and> isInvalid
         \<or> status = ''pending'' \<and> mbx_VerificationStatus item = MailboxVerificationPending
         \<or> status = ''verified'' \<and> mbx_VerificationStatus item = MailboxVerificationVerified
         \<or> status = ''available'' \<and> mbx_State item = MailboxAvailable
         \<or> status = ''leased'' \<and> mbx_State item = MailboxLeased)"

definition mem_ListMailboxesPage :: "MailboxFilter \<Rightarrow> go_int \<Rightarrow> go_int \<Rightarrow> Store \<Rightarrow> (panic + Mailbox list) \<times> int" where
  "mem_ListMailboxesPage f page pageSize s =
     (let query = to_lower (trim_space (mbf_Query f));
          found = (if query = [] then mem_Mailboxes s
                   else filter (\<lambda>item. str_contains (to_lower (mbx_Address item)) query) (mem_Mailboxes s));
          status = to_lower (trim_space (mbf_Status f));
          items = (if status = [] then found else filter (mem_status_matches status) found)
      in (paginate items page pageSize, int (length items)))"

definition mem_MailboxesPage :: "go_int \<Rightarrow> go_int \<Rightarrow> Store \<Rightarrow> (panic + Mailbox list) \<times> int" where
  "mem_MailboxesPage page pageSize s = mem_ListMailboxesPage \<lparr> mbf_Query = [], mbf_Status = [] \<rparr> page pageSize s"

fun invalid_summary :: "InvalidMailboxSummary \<Rightarrow> Mailbox list \<Rightarrow> InvalidMailboxSummary" where
  "invalid_summary r [] = r"
| "invalid_summary r (m # ms) =
     (let r1 = (if mbx_VerificationStatus m = MailboxVerificationPending then r\<lparr>ims_Pending := ims_Pending r + 1\<rparr>
                else if mbx_VerificationStatus m = MailboxVerificationVerified then r\<lparr>ims_Verified := ims_Verified r + 1\<rparr>
                else r);
          r2 = r1\<lparr>ims_AuthErrors := ims_AuthErrors r1 + 1\<rparr>
      in invalid_summary (if mbx_State m \<noteq> MailboxError then r1
           else if mbx_VerificationStatus m = MailboxVerificationFailed
           then (if mbx_ActiveOrderID m = [] then r2\<lparr>ims_Deletable := ims_Deletable r2 + 1\<rparr>
                 else r2\<lparr>ims_ProtectedActive := ims_ProtectedActive r2 + 1\<rparr>)
           else r2) ms)"

definition mem_InvalidMailboxSummary :: "Store \<Rightarrow> InvalidMailboxSummary" where
  "mem_InvalidMailboxSummary s =
     invalid_summary \<lparr> ims_AuthErrors = 0, ims_Deletable = 0, ims_ProtectedActive = 0, ims_Pending = 0, ims_Verified = 0 \<rparr>
       (map snd (st_mailboxes s))"


text \<open>The accumulators of the loop over the orders: their number, the revenue, the number of codes and their seconds.  An order
  is of today when it was created on the same day of the same year.\<close>

fun today_totals :: "time \<Rightarrow> int \<times> float64 \<times> float64 \<times> float64 \<Rightarrow> Order list \<Rightarrow> int \<times> float64 \<times> float64 \<times> float64" where
  "today_totals now acc [] = acc"
| "today_totals now (orders, revenue, codeTotal, codeSeconds) (order # rest) =
     today_totals now
       (if day_of (ord_CreatedAt order) = day_of now
        then (orders + 1,
              if ord_Status order = OrderCompleted \<or> ord_Status order = OrderCodeReceived
              then fl (revenue + ord_Price order) else revenue,
              if \<not> is_zero (ord_CodeReceivedAt order) then fl (codeTotal + 1) else codeTotal,
              if \<not> is_zero (ord_CodeReceivedAt order)
              then fl (codeSeconds + duration_seconds (ord_CodeReceivedAt order - ord_SubmittedAt order)) else codeSeconds)
        else (orders, revenue, codeTotal, codeSeconds)) rest"

definition mem_Overview :: "env \<Rightarrow> Store \<Rightarrow> Overview" where
  "mem_Overview env s =
     (let count = (\<lambda>P. int (count_rows P (map snd (st_mailboxes s))));
          (orders, revenue, codeTotal, codeSeconds) = today_totals (clock env 0) (0, 0, 0, 0) (map snd (st_orders s))
      in \<lparr> ovw_AvailableMailboxes = count (\<lambda>m. mbx_VerificationStatus m = MailboxVerificationVerified \<and> mbx_State m = MailboxAvailable),
           ovw_TotalMailboxes = count (\<lambda>m. True),
           ovw_OutlookMailboxes = count (\<lambda>m. mbx_Provider m = MailboxProviderOutlook),
           ovw_OutlookDEMailboxes = count (\<lambda>m. mbx_Provider m = MailboxProviderOutlookDE),
           ovw_HotmailMailboxes = count (\<lambda>m. mbx_Provider m = MailboxProviderHotmail),
           ovw_GmailMailboxes = count (\<lambda>m. mbx_Provider m = MailboxProviderGmail),
           ovw_ICloudMailboxes = count (\<lambda>m. mbx_Provider m = MailboxProviderICloud),
           ovw_MailComMailboxes = count (\<lambda>m. mbx_Provider m = MailboxProviderMailCom),
           ovw_PendingMailboxes = count (\<lambda>m. mbx_VerificationStatus m = MailboxVerificationPending),
           ovw_VerifiedMailboxes = count (\<lambda>m. mbx_VerificationStatus m = MailboxVerificationVerified),
           ovw_ActiveLeases = count (\<lambda>m. mbx_State m = MailboxLeased),
           ovw_TodayOrders = orders,
           ovw_SuccessRate = (if codeTotal > 0 then fl (fl (codeTotal / fl (of_int orders)) * 100) else fl (9865/100)),
           ovw_AverageCodeSeconds = (if codeTotal > 0 then fl (codeSeconds / codeTotal) else fl (47/2)),
           ovw_TodayRevenue = revenue,
           ovw_AuthErrors = count (\<lambda>m. mbx_State m = MailboxError),
           ovw_BlockedMailboxes = count (\<lambda>m. mbx_State m = MailboxBlocked) \<rparr>)"

subsection \<open>Orders\<close>

text \<open>The loop over the mailboxes keeps the first of those with the best health.\<close>

fun best_mailbox :: "(Mailbox \<Rightarrow> bool) \<Rightarrow> Mailbox option \<Rightarrow> Mailbox list \<Rightarrow> Mailbox option" where
  "best_mailbox ready selected [] = selected"
| "best_mailbox ready selected (mailbox # ms) =
     best_mailbox ready
       (if \<not> ready mailbox then selected
        else case selected of
            None \<Rightarrow> Some mailbox
          | Some best \<Rightarrow> if mbx_HealthScore mailbox > mbx_HealthScore best then Some mailbox else selected) ms"

definition set_service :: "string \<Rightarrow> (MailboxService \<Rightarrow> MailboxService) \<Rightarrow> Mailbox \<Rightarrow> Mailbox" where
  "set_service serviceID f mailbox =
     (let state = (case map_of (mbx_Services mailbox) serviceID of
            Some state \<Rightarrow> state
          | None \<Rightarrow> \<lparr> mbs_ServiceID = [], mbs_State = ServiceBlocked, mbs_TimeoutCount = 0, mbs_ChangedAt = zero_time \<rparr>)
      in mailbox\<lparr>mbx_Services := AList.update serviceID (f state) (mbx_Services mailbox)\<rparr>)"

definition mem_order_id :: "int \<Rightarrow> string" where
  "mem_order_id n = ''ORD'' @ pad_int 6 n"

definition mem_new_order :: "time \<Rightarrow> int \<Rightarrow> string \<Rightarrow> Service \<Rightarrow> Mailbox \<Rightarrow> string list \<Rightarrow> float64 \<Rightarrow> string \<Rightarrow> Order" where
  "mem_new_order now n userID service selected requestedProviders price requestID =
     \<lparr> ord_ID = mem_order_id n, ord_UserID = userID, ord_ServiceID = svc_ID service, ord_ServiceCode = svc_Code service,
       ord_ServiceName = svc_Name service, ord_MailboxID = mbx_ID selected, ord_MailboxAddress = mbx_Address selected,
       ord_MailboxProvider = mbx_Provider selected, ord_RequestedProviders = requestedProviders,
       ord_Status = OrderWaitingCode, ord_Code = [], ord_Price = price, ord_CreatedAt = now, ord_AssignedAt = now,
       ord_SubmittedAt = now, ord_CodeReceivedAt = zero_time, ord_CompletedAt = zero_time,
       ord_ExpiresAt = now + effectiveOrderTTLSeconds (svc_TTLSeconds service) * second, ord_Refunded = False,
       ord_RequestID = requestID, ord_FailureReason = [] \<rparr>"

text \<open>The code changes the rows through their pointers; a mailbox and its key in the map have the same identifier, so
  writing the changed row back under it is the same.\<close>

definition mem_place_order ::
  "env \<Rightarrow> string \<Rightarrow> User \<Rightarrow> Service \<Rightarrow> Mailbox \<Rightarrow> string list \<Rightarrow> string \<Rightarrow> Store \<Rightarrow> create_outcome \<times> Store" where
  "mem_place_order env userID user service selected requestedProviders requestID s =
     (let now = clock env 0;
          price = (case map_of (svc_ProviderPrices service) (mbx_Provider selected) of None \<Rightarrow> 0 | Some p \<Rightarrow> p);
          order = mem_new_order now (st_seq s + 1) userID service selected requestedProviders price requestID;
          leased = set_service (svc_ID service) (\<lambda>state. state\<lparr>mbs_State := ServiceLeased, mbs_ChangedAt := now\<rparr>)
            (selected\<lparr>mbx_State := MailboxLeased, mbx_ActiveOrderID := ord_ID order\<rparr>)
      in (Created (cloneOrder order),
          s\<lparr>st_seq := st_seq s + 1,
            st_users := AList.update userID (user\<lparr>usr_Balance := fl (usr_Balance user - price)\<rparr>) (st_users s),
            st_mailboxes := AList.update (mbx_ID selected) leased (st_mailboxes s),
            st_orders := AList.update (ord_ID order) order (st_orders s)\<rparr>))"

definition mem_CreateOrder :: "env \<Rightarrow> string \<Rightarrow> string \<Rightarrow> string \<Rightarrow> string list \<Rightarrow> Store \<Rightarrow> create_outcome \<times> Store" where
  "mem_CreateOrder env userID serviceID requestID mailboxProviders s =
     (case map_of (st_users s) userID of
        None \<Rightarrow> (Failed ErrUserNotFound, s)
      | Some user \<Rightarrow> (case map_of (st_services s) serviceID of
          None \<Rightarrow> (Failed ErrServiceNotFound, s)
        | Some service \<Rightarrow>
          if \<not> svc_Enabled service then (Failed ErrServiceDisabled, s)
          else case validateOrderProviders service mailboxProviders of
            Inl e \<Rightarrow> (Failed e, s)
          | Inr (requestedProviders, maximumPrice) \<Rightarrow>
            (case (if requestID = [] then None else List.find
                     (\<lambda>existing. ord_UserID existing = userID \<and> ord_RequestID existing = requestID) (map snd (st_orders s))) of
               Some existing \<Rightarrow> (Duplicate (cloneOrder existing), s)
             | None \<Rightarrow>
               if usr_Balance user < maximumPrice then (Failed ErrInsufficientBalance, s)
               else case best_mailbox (mem_ready (clock env 0) requestedProviders (svc_ID service)) None
                      (map snd (st_mailboxes s)) of
                   None \<Rightarrow> (Failed ErrNoMailboxAvailable, s)
                 | Some selected \<Rightarrow> mem_place_order env userID user service selected requestedProviders requestID s)))"

definition mem_refundAndRelease :: "time \<Rightarrow> Order \<Rightarrow> bool \<Rightarrow> Store \<Rightarrow> Store" where
  "mem_refundAndRelease now order timedOut s =
     (let s1 = (case map_of (st_users s) (ord_UserID order) of
            None \<Rightarrow> s
          | Some user \<Rightarrow> if ord_Refunded order
              then s\<lparr>st_users := AList.update (ord_UserID order) (user\<lparr>usr_Balance := fl (usr_Balance user + ord_Price order)\<rparr>)
                       (st_users s)\<rparr>
              else s)
      in case map_of (st_mailboxes s1) (ord_MailboxID order) of
           None \<Rightarrow> s1
         | Some mailbox \<Rightarrow>
           let freed = mailbox\<lparr>mbx_ActiveOrderID := [], mbx_State := MailboxAvailable\<rparr>;
               released = (case map_of (mbx_Services freed) (ord_ServiceID order) of
                   None \<Rightarrow> freed
                 | Some state \<Rightarrow>
                   if mbs_State state \<noteq> ServiceLeased then freed
                   else set_service (ord_ServiceID order) (\<lambda>_.
                       let available = state\<lparr>mbs_State := ServiceAvailable, mbs_ChangedAt := now\<rparr>
                       in if timedOut
                          then (case nextTimeoutState (mbs_TimeoutCount available) of
                                 (count, next) \<Rightarrow> available\<lparr>mbs_TimeoutCount := count, mbs_State := next\<rparr>)
                          else available) freed)
           in s1\<lparr>st_mailboxes := AList.update (ord_MailboxID order) released (st_mailboxes s1)\<rparr>)"

definition mem_order_open :: "Order \<Rightarrow> bool" where
  "mem_order_open order \<longleftrightarrow> ord_Status order = OrderAssigned \<or> ord_Status order = OrderWaitingCode"

definition put_order :: "Order \<Rightarrow> string \<Rightarrow> Store \<Rightarrow> Store" where
  "put_order order oid s = s\<lparr>st_orders := AList.update oid order (st_orders s)\<rparr>"

definition mem_ReceiveCodeValue :: "env \<Rightarrow> string \<Rightarrow> string \<Rightarrow> Store \<Rightarrow> (store_error + Order) \<times> Store" where
  "mem_ReceiveCodeValue env oid code0 s =
     (case map_of (st_orders s) oid of
        None \<Rightarrow> (Inl ErrOrderNotFound, s)
      | Some order \<Rightarrow>
        if ord_Status order \<noteq> OrderAssigned \<and> ord_Status order \<noteq> OrderWaitingCode then (Inl ErrInvalidOrderState, s)
        else let now = clock env 0; code = trim_space code0
          in if \<not> is_zero (ord_ExpiresAt order) \<and> \<not> now < ord_ExpiresAt order then (Inl ErrInvalidOrderState, s)
             else if code = [] then (Inl ErrVerificationCodeRequired, s)
             else let received = order\<lparr>ord_Status := OrderCodeReceived, ord_Code := code, ord_CodeReceivedAt := now\<rparr>;
                      s1 = put_order received oid s
               in (Inr (cloneOrder received),
                   case map_of (st_mailboxes s1) (ord_MailboxID order) of
                     None \<Rightarrow> s1
                   | Some mailbox \<Rightarrow> s1\<lparr>st_mailboxes := AList.update (ord_MailboxID order)
                       (set_service (ord_ServiceID order) (\<lambda>state. state\<lparr>mbs_State := ServiceConsumed, mbs_ChangedAt := now\<rparr>)
                         (mailbox\<lparr>mbx_TodayCodes := mbx_TodayCodes mailbox + 1, mbx_LastReceivedAt := now,
                            mbx_ActiveOrderID := [], mbx_State := MailboxAvailable\<rparr>)) (st_mailboxes s1)\<rparr>))"

definition mem_find_order :: "string \<Rightarrow> string \<Rightarrow> Store \<Rightarrow> Order option" where
  "mem_find_order oid userID s =
     (case map_of (st_orders s) oid of
        None \<Rightarrow> None
      | Some order \<Rightarrow> if userID \<noteq> [] \<and> ord_UserID order \<noteq> userID then None else Some order)"

definition mem_CompleteOrder :: "env \<Rightarrow> string \<Rightarrow> string \<Rightarrow> Store \<Rightarrow> (store_error + Order) \<times> Store" where
  "mem_CompleteOrder env oid userID s =
     (case mem_find_order oid userID s of
        None \<Rightarrow> (Inl ErrOrderNotFound, s)
      | Some order \<Rightarrow>
        if ord_Status order \<noteq> OrderCodeReceived then (Inl ErrInvalidOrderState, s)
        else let completed = order\<lparr>ord_Status := OrderCompleted, ord_CompletedAt := clock env 0\<rparr>
             in (Inr (cloneOrder completed), put_order completed oid s))"

definition mem_CancelOrder :: "env \<Rightarrow> string \<Rightarrow> string \<Rightarrow> Store \<Rightarrow> (store_error + Order) \<times> Store" where
  "mem_CancelOrder env oid userID s =
     (case mem_find_order oid userID s of
        None \<Rightarrow> (Inl ErrOrderNotFound, s)
      | Some order \<Rightarrow>
        if \<not> mem_order_open order then (Inl ErrInvalidOrderState, s)
        else let canceled = order\<lparr>ord_Status := OrderCanceled, ord_Refunded := True\<rparr>
             in (Inr (cloneOrder canceled),
                 mem_refundAndRelease (clock env 0) canceled False (put_order canceled oid s)))"

text \<open>The sweeps: one order, then the loop over the orders that the map had at its start (none is added or removed).\<close>

definition mem_reap_one :: "time \<Rightarrow> time \<Rightarrow> string \<Rightarrow> int \<times> Store \<Rightarrow> int \<times> Store" where
  "mem_reap_one now changed oid acc =
     (case map_of (st_orders (snd acc)) oid of
        None \<Rightarrow> acc
      | Some order \<Rightarrow>
        if mem_order_open order \<and> now > ord_ExpiresAt order
        then let expired = order\<lparr>ord_Status := OrderExpiredRefunded, ord_Refunded := True\<rparr>
             in (fst acc + 1, mem_refundAndRelease changed expired True (put_order expired oid (snd acc)))
        else acc)"

definition mem_ReapExpired :: "env \<Rightarrow> Store \<Rightarrow> int \<times> Store" where
  "mem_ReapExpired env s =
     fold (\<lambda>(k, oid). mem_reap_one (clock env 0) (clock env (k + 1)) oid) (index_from 0 (map fst (st_orders s))) (0, s)"

definition mem_reconcile_one :: "time \<Rightarrow> string \<Rightarrow> int \<times> Store \<Rightarrow> int \<times> Store" where
  "mem_reconcile_one changed oid acc =
     (case map_of (st_orders (snd acc)) oid of
        None \<Rightarrow> acc
      | Some order \<Rightarrow>
        if \<not> mem_order_open order then acc
        else case map_of (st_mailboxes (snd acc)) (ord_MailboxID order) of
            None \<Rightarrow> acc
          | Some mailbox \<Rightarrow>
            if mbx_VerificationStatus mailbox = MailboxVerificationVerified then acc
            else let expired = order\<lparr>ord_Status := OrderExpiredRefunded, ord_Refunded := True,
                       ord_FailureReason := msg_mailbox_unverified\<rparr>;
                     s1 = mem_refundAndRelease changed expired True (put_order expired oid (snd acc))
                 in (fst acc + 1,
                     case map_of (st_mailboxes s1) (ord_MailboxID order) of
                       None \<Rightarrow> s1
                     | Some freed \<Rightarrow> s1\<lparr>st_mailboxes := AList.update (ord_MailboxID order)
                         (freed\<lparr>mbx_State := MailboxError, mbx_HealthScore := 0\<rparr>) (st_mailboxes s1)\<rparr>))"

definition mem_ReconcileInvalidMailboxOrders :: "env \<Rightarrow> Store \<Rightarrow> int \<times> Store" where
  "mem_ReconcileInvalidMailboxOrders env s =
     fold (\<lambda>(k, oid). mem_reconcile_one (clock env k) oid) (index_from 0 (map fst (st_orders s))) (0, s)"

subsection \<open>Mailboxes\<close>

definition mem_deletable :: "Mailbox \<Rightarrow> bool" where
  "mem_deletable m \<longleftrightarrow> mbx_State m = MailboxError \<and> mbx_VerificationStatus m = MailboxVerificationFailed
     \<and> mbx_ActiveOrderID m = []"

definition mem_DeleteInvalidMailboxes :: "int \<Rightarrow> Store \<Rightarrow> (store_error + int) \<times> Store" where
  "mem_DeleteInvalidMailboxes expected s =
     (let n = int (count_rows mem_deletable (map snd (st_mailboxes s)))
      in if expected \<ge> 0 \<and> expected \<noteq> n then (Inl ErrInvalidMailboxCountChanged, s)
         else if n = 0 then (Inl ErrNoInvalidMailboxes, s)
         else let kept = filter (\<lambda>(_, m). \<not> mem_deletable m) (st_mailboxes s)
              in (Inr (int (length (st_mailboxes s)) - int (length kept)), s\<lparr>st_mailboxes := kept\<rparr>))"

definition mem_MarkMailboxServiceConsumed :: "env \<Rightarrow> string \<Rightarrow> string \<Rightarrow> time \<Rightarrow> Store \<Rightarrow> (store_error + unit) \<times> Store" where
  "mem_MarkMailboxServiceConsumed env mailboxID serviceID changedAt s =
     (case map_of (st_mailboxes s) mailboxID of
        None \<Rightarrow> (Inl ErrMailboxNotFound, s)
      | Some mailbox \<Rightarrow>
        (case map_of (mbx_Services mailbox) serviceID of
           None \<Rightarrow> (Inr (), s)
         | Some state \<Rightarrow>
           if mbs_State state \<noteq> ServiceAvailable then (Inr (), s)
           else let changed = (if is_zero changedAt then clock env 0 else changedAt)
                in (Inr (), s\<lparr>st_mailboxes := AList.update mailboxID
                     (set_service serviceID (\<lambda>state. state\<lparr>mbs_State := ServiceConsumed, mbs_ChangedAt := changed\<rparr>) mailbox)
                     (st_mailboxes s)\<rparr>)))"

definition mem_MarkMailboxServiceRegistered :: "env \<Rightarrow> string \<Rightarrow> string \<Rightarrow> Store \<Rightarrow> (store_error + unit) \<times> Store" where
  "mem_MarkMailboxServiceRegistered env mailboxID serviceID s =
     (case map_of (st_mailboxes s) mailboxID of
        None \<Rightarrow> (Inl ErrMailboxNotFound, s)
      | Some mailbox \<Rightarrow>
        if map_of (st_services s) serviceID = None then (Inl ErrServiceNotFound, s)
        else case map_of (mbx_Services mailbox) serviceID of
            None \<Rightarrow> (Inl ErrMailboxServiceNotFound, s)
          | Some state \<Rightarrow>
            if mbs_State state = ServiceLeased then (Inl ErrMailboxServiceLeased, s)
            else if mbs_State state = ServiceConsumed then (Inr (), s)
            else (Inr (), s\<lparr>st_mailboxes := AList.update mailboxID
                    (set_service serviceID (\<lambda>state. state\<lparr>mbs_State := ServiceConsumed, mbs_ChangedAt := clock env 0\<rparr>) mailbox)
                    (st_mailboxes s)\<rparr>))"

definition IsUserVisible :: "OrderStatus \<Rightarrow> bool" where
  "IsUserVisible status \<longleftrightarrow> \<not> has_suffix (order_status_string status) ''internal''"


subsection \<open>The invariant of the leases\<close>

definition pair_leased :: "Mailbox \<Rightarrow> string \<Rightarrow> bool" where
  "pair_leased m sid \<longleftrightarrow> (case map_of (mbx_Services m) sid of None \<Rightarrow> False | Some st \<Rightarrow> mbs_State st = ServiceLeased)"

definition mem_held :: "(string \<rightharpoonup> Mailbox) \<Rightarrow> string \<Rightarrow> Order \<Rightarrow> bool" where
  "mem_held M oid r \<longleftrightarrow> \<not> ord_Refunded r
     \<and> (\<exists>m. M (ord_MailboxID r) = Some m \<and> mbx_ActiveOrderID m = oid \<and> pair_leased m (ord_ServiceID r))"

definition mem_bound :: "(string \<rightharpoonup> Order) \<Rightarrow> string \<Rightarrow> Mailbox \<Rightarrow> bool" where
  "mem_bound Os k m \<longleftrightarrow> mbx_ID m = k \<and> (mbx_State m = MailboxLeased \<longleftrightarrow> mbx_ActiveOrderID m \<noteq> [])
     \<and> (mbx_ActiveOrderID m \<noteq> [] \<longrightarrow>
          (\<exists>r. Os (mbx_ActiveOrderID m) = Some r \<and> mem_order_open r \<and> ord_MailboxID r = k))
     \<and> (\<forall>sid. pair_leased m sid \<longrightarrow>
          (\<exists>r. Os (mbx_ActiveOrderID m) = Some r \<and> mem_order_open r \<and> ord_MailboxID r = k \<and> ord_ServiceID r = sid))"

definition mem_leases_ok :: "(string \<rightharpoonup> Mailbox) \<Rightarrow> (string \<rightharpoonup> Order) \<Rightarrow> bool" where
  "mem_leases_ok M Os \<longleftrightarrow> Os [] = None
     \<and> (\<forall>oid r. Os oid = Some r \<longrightarrow> ord_ID r = oid \<and> (mem_order_open r \<longrightarrow> mem_held M oid r))
     \<and> (\<forall>k m. M k = Some m \<longrightarrow> mem_bound Os k m)"

definition map_leases :: "(string \<rightharpoonup> Mailbox) \<Rightarrow> leases" where
  "map_leases M = named_leases (map_option mbx_ActiveOrderID \<circ> M)"

lemma map_leases_upd:
  "map_leases (M(k \<mapsto> m)) = (map_leases M)(k := if mbx_ActiveOrderID m = [] then None else Some (mbx_ActiveOrderID m))"
  by (auto simp: map_leases_def named_leases_def fun_eq_iff)

lemma mem_leases_okD:
  assumes "mem_leases_ok M Os"
  shows "Os [] = None" and "Os oid = Some r \<Longrightarrow> ord_ID r = oid"
    and "Os oid = Some r \<Longrightarrow> mem_order_open r \<Longrightarrow> mem_held M oid r"
    and "M k = Some m \<Longrightarrow> mem_bound Os k m"
  using assms by (auto simp: mem_leases_ok_def)

lemma not_pair_leased:
  assumes "mem_leases_ok M Os" and "M k = Some m" and "mbx_ActiveOrderID m = []"
  shows "\<not> pair_leased m sid"
  using mem_leases_okD(1) [OF assms(1)] mem_leases_okD(4) [OF assms(1,2)] assms(3) by (auto simp: mem_bound_def)

text \<open>The net effects an operation can have: an order takes a free mailbox, gives it back, changes while it is closed, a
  mailbox changes nothing that concerns leases, free mailboxes disappear.\<close>

lemma mem_take:
  assumes inv: "mem_leases_ok M Os" and m: "M k = Some m" "mbx_ActiveOrderID m = []"
    and r: "Os (ord_ID r) = None" "ord_ID r \<noteq> []" "mem_order_open r" "\<not> ord_Refunded r" "ord_MailboxID r = k"
    and m': "mbx_ID m' = k" "mbx_State m' = MailboxLeased" "mbx_ActiveOrderID m' = ord_ID r"
      "\<And>sid. pair_leased m' sid \<longleftrightarrow> sid = ord_ServiceID r"
  shows "mem_leases_ok (M(k \<mapsto> m')) (Os(ord_ID r \<mapsto> r))" and "run_leases [Take k (ord_ID r)] (map_leases M) = Some (map_leases (M(k \<mapsto> m')))"
proof -
  have others: "mem_held (M(k \<mapsto> m')) oid x" if "Os oid = Some x" "mem_order_open x" for oid x
    using mem_leases_okD(3) [OF inv that] mem_leases_okD(1) [OF inv] that(1) m by (auto simp: mem_held_def)
  have rest: "mem_bound (Os(ord_ID r \<mapsto> r)) k' x" if "M k' = Some x" for k' x
    using mem_leases_okD(4) [OF inv that] r(1) by (auto simp: mem_bound_def)
  show "mem_leases_ok (M(k \<mapsto> m')) (Os(ord_ID r \<mapsto> r))"
    unfolding mem_leases_ok_def
  proof (intro conjI allI impI)
    show "(Os(ord_ID r \<mapsto> r)) [] = None" using mem_leases_okD(1) [OF inv] r(2) by simp
  next
    fix oid x assume x: "(Os(ord_ID r \<mapsto> r)) oid = Some x"
    then show "ord_ID x = oid" using mem_leases_okD(2) [OF inv, of oid x] by (auto split: if_splits)
    assume "mem_order_open x"
    then show "mem_held (M(k \<mapsto> m')) oid x" using x others [of oid x] r m' by (auto simp: mem_held_def split: if_splits)
  next
    fix k' x assume "(M(k \<mapsto> m')) k' = Some x"
    then show "mem_bound (Os(ord_ID r \<mapsto> r)) k' x"
      using rest [of k' x] r m' by (auto simp: mem_bound_def split: if_splits)
  qed
  have "map_leases M k = None" using m by (simp add: map_leases_def named_leases_def)
  moreover have "ord_ID r \<notin> ran (map_leases M)"
    using mem_leases_okD(4) [OF inv] r(1) by (fastforce simp: map_leases_def named_leases_def ran_def mem_bound_def split: option.splits if_splits)
  ultimately show "run_leases [Take k (ord_ID r)] (map_leases M) = Some (map_leases (M(k \<mapsto> m')))"
    using m'(3) r(2) by (simp add: map_leases_upd)
qed

lemma mem_give:
  assumes inv: "mem_leases_ok M Os" and r: "Os oid = Some r" "mem_order_open r" "\<not> mem_order_open r'" "ord_ID r' = oid"
    and m': "mbx_ID m' = ord_MailboxID r" "mbx_State m' \<noteq> MailboxLeased" "mbx_ActiveOrderID m' = []"
      "\<And>sid. \<not> pair_leased m' sid"
  shows "mem_leases_ok (M(ord_MailboxID r \<mapsto> m')) (Os(oid \<mapsto> r'))"
    and "run_leases [Give (ord_MailboxID r) oid] (map_leases M) = Some (map_leases (M(ord_MailboxID r \<mapsto> m')))"
proof -
  obtain m where m: "M (ord_MailboxID r) = Some m" "mbx_ActiveOrderID m = oid"
    using mem_leases_okD(3) [OF inv r(1,2)] by (auto simp: mem_held_def)
  have n: "oid \<noteq> []" using mem_leases_okD(1) [OF inv] r(1) by auto
  have others: "mem_held (M(ord_MailboxID r \<mapsto> m')) o' x" if "Os o' = Some x" "mem_order_open x" "o' \<noteq> oid" for o' x
    using mem_leases_okD(3) [OF inv that(1,2)] that(3) m by (auto simp: mem_held_def)
  have rest: "mem_bound (Os(oid \<mapsto> r')) k' x" if "M k' = Some x" "k' \<noteq> ord_MailboxID r" for k' x
    using mem_leases_okD(4) [OF inv that(1)] that(2) r(1) n by (auto simp: mem_bound_def)
  show "mem_leases_ok (M(ord_MailboxID r \<mapsto> m')) (Os(oid \<mapsto> r'))"
    unfolding mem_leases_ok_def
  proof (intro conjI allI impI)
    show "(Os(oid \<mapsto> r')) [] = None" using mem_leases_okD(1) [OF inv] n by simp
  next
    fix o' x assume x: "(Os(oid \<mapsto> r')) o' = Some x"
    then show "ord_ID x = o'" using mem_leases_okD(2) [OF inv, of o' x] r(4) by (auto split: if_splits)
    assume "mem_order_open x"
    then show "mem_held (M(ord_MailboxID r \<mapsto> m')) o' x" using x others [of o' x] r(3) by (auto split: if_splits)
  next
    fix k' x assume "(M(ord_MailboxID r \<mapsto> m')) k' = Some x"
    then show "mem_bound (Os(oid \<mapsto> r')) k' x"
      using rest [of k' x] m' by (auto simp: mem_bound_def split: if_splits)
  qed
  have "map_leases M (ord_MailboxID r) = Some oid" using m n by (simp add: map_leases_def named_leases_def)
  then show "run_leases [Give (ord_MailboxID r) oid] (map_leases M) = Some (map_leases (M(ord_MailboxID r \<mapsto> m')))"
    using m'(3) by (simp add: map_leases_upd)
qed

lemma mem_closed_order:
  assumes inv: "mem_leases_ok M Os" and r: "Os oid = Some r" "\<not> mem_order_open r" "\<not> mem_order_open r'" "ord_ID r' = oid"
  shows "mem_leases_ok M (Os(oid \<mapsto> r'))"
proof -
  have n: "oid \<noteq> []" using mem_leases_okD(1) [OF inv] r(1) by auto
  have "mem_bound (Os(oid \<mapsto> r')) k m" if "M k = Some m" for k m
    using mem_leases_okD(4) [OF inv that] r(1,2) by (auto simp: mem_bound_def)
  then show ?thesis
    using mem_leases_okD(1-3) [OF inv] n r(3,4) by (auto simp: mem_leases_ok_def)
qed

lemma mem_touch:
  assumes inv: "mem_leases_ok M Os" and m: "M k = Some m" and m': "mbx_ID m' = mbx_ID m"
      "mbx_State m' = MailboxLeased \<longleftrightarrow> mbx_State m = MailboxLeased" "mbx_ActiveOrderID m' = mbx_ActiveOrderID m"
      "\<And>sid. pair_leased m' sid \<longleftrightarrow> pair_leased m sid"
  shows "mem_leases_ok (M(k \<mapsto> m')) Os" and "map_leases (M(k \<mapsto> m')) = map_leases M"
proof -
  have "mem_bound Os k m'" using mem_leases_okD(4) [OF inv m] m' by (simp add: mem_bound_def)
  moreover have "mem_held (M(k \<mapsto> m')) oid r" if "mem_held M oid r" for oid r
    using that m m'(3,4) by (cases "ord_MailboxID r = k") (simp_all add: mem_held_def)
  ultimately show "mem_leases_ok (M(k \<mapsto> m')) Os" using inv by (auto simp: mem_leases_ok_def)
  show "map_leases (M(k \<mapsto> m')) = map_leases M"
    using m m'(3) by (auto simp: map_leases_upd map_leases_def named_leases_def fun_eq_iff)
qed

lemma mem_drop:
  assumes inv: "mem_leases_ok M Os" and sub: "\<And>k. M' k = M k \<or> M' k = None \<and> (\<exists>m. M k = Some m \<and> mbx_ActiveOrderID m = [])"
  shows "mem_leases_ok M' Os" and "map_leases M' = map_leases M"
proof -
  have "mem_held M' oid r" if "Os oid = Some r" "mem_order_open r" for oid r
  proof -
    have held: "mem_held M oid r" by (rule mem_leases_okD(3) [OF inv that])
    then obtain m where m: "M (ord_MailboxID r) = Some m" "mbx_ActiveOrderID m = oid" by (auto simp: mem_held_def)
    have "oid \<noteq> []" using mem_leases_okD(1) [OF inv] that(1) by auto
    then have "M' (ord_MailboxID r) = M (ord_MailboxID r)" using sub [of "ord_MailboxID r"] m by simp
    then show ?thesis using held by (simp add: mem_held_def)
  qed
  moreover have "mem_bound Os k m" if "M' k = Some m" for k m
    using sub [of k] that mem_leases_okD(4) [OF inv, of k m] by auto
  ultimately show "mem_leases_ok M' Os" using inv by (simp add: mem_leases_ok_def)
  show "map_leases M' = map_leases M"
  proof
    fix k show "map_leases M' k = map_leases M k"
      using sub [of k] by (auto simp: map_leases_def named_leases_def)
  qed
qed


lemma set_service_simps [simp]:
  "mbx_ID (set_service sid f m) = mbx_ID m" "mbx_State (set_service sid f m) = mbx_State m"
  "mbx_ActiveOrderID (set_service sid f m) = mbx_ActiveOrderID m"
  "mbx_VerificationStatus (set_service sid f m) = mbx_VerificationStatus m"
  by (simp_all add: set_service_def Let_def)

lemma pair_leased_set:
  assumes "\<And>st. mbs_State (f st) = ServiceLeased \<longleftrightarrow> b"
  shows "pair_leased (set_service sid f m) x \<longleftrightarrow> (if x = sid then b else pair_leased m x)"
  using assms by (simp add: pair_leased_def set_service_def Let_def update_conv')

lemma pair_leased_cong [simp]:
  "pair_leased (m\<lparr>mbx_State := a\<rparr>) = pair_leased m" "pair_leased (m\<lparr>mbx_ActiveOrderID := b\<rparr>) = pair_leased m"
  "pair_leased (m\<lparr>mbx_HealthScore := h\<rparr>) = pair_leased m" "pair_leased (m\<lparr>mbx_TodayCodes := n\<rparr>) = pair_leased m"
  "pair_leased (m\<lparr>mbx_LastReceivedAt := t\<rparr>) = pair_leased m"
  by (simp_all add: pair_leased_def fun_eq_iff)

lemma digits_value_zeros: "digits_value 0 (replicate n CHR ''0'' @ ds) = digits_value 0 ds"
  by (induction n) simp_all

lemma mem_order_id_inj: "mem_order_id a = mem_order_id b \<Longrightarrow> 0 \<le> a \<Longrightarrow> 0 \<le> b \<Longrightarrow> a = b"
proof -
  have "nat n = digits_value 0 (drop 3 (mem_order_id n))" if "0 \<le> n" for n
    using that by (simp add: mem_order_id_def pad_int_def digits_value_zeros int_digits_def)
  then show "mem_order_id a = mem_order_id b \<Longrightarrow> 0 \<le> a \<Longrightarrow> 0 \<le> b \<Longrightarrow> a = b" by (metis eq_nat_nat_iff)
qed

definition mem_leases :: "Store \<Rightarrow> leases" where
  "mem_leases s = map_leases (map_of (st_mailboxes s))"

definition mem_ok :: "Store \<Rightarrow> bool" where
  "mem_ok s \<longleftrightarrow> mem_leases_ok (map_of (st_mailboxes s)) (map_of (st_orders s))
     \<and> distinct (map fst (st_mailboxes s)) \<and> 0 \<le> st_seq s
     \<and> (\<forall>oid. map_of (st_orders s) oid \<noteq> None \<longrightarrow> (\<exists>n. 0 \<le> n \<and> n \<le> st_seq s \<and> oid = mem_order_id n))"

lemma mem_okD:
  assumes "mem_ok s"
  shows "mem_leases_ok (map_of (st_mailboxes s)) (map_of (st_orders s))" and "distinct (map fst (st_mailboxes s))"
    and "0 \<le> st_seq s"
    and "map_of (st_orders s) oid \<noteq> None \<Longrightarrow> \<exists>n. 0 \<le> n \<and> n \<le> st_seq s \<and> oid = mem_order_id n"
  using assms by (simp_all add: mem_ok_def)

text \<open>What an operation with the given label does, and what a sweep does before its label is known.\<close>

definition mem_moves :: "lease_event list \<Rightarrow> Store \<Rightarrow> Store \<Rightarrow> bool" where
  "mem_moves es s s' \<longleftrightarrow> mem_ok s' \<and> run_leases es (mem_leases s) = Some (mem_leases s')"

definition mem_frees :: "Store \<Rightarrow> Store \<Rightarrow> bool" where
  "mem_frees s s' \<longleftrightarrow> mem_ok s' \<and> mem_leases s' \<subseteq>\<^sub>m mem_leases s"

lemma mem_moves_refl: "mem_ok s \<Longrightarrow> mem_moves [] s s"
  by (simp add: mem_moves_def)

lemma mem_frees_refl: "mem_ok s \<Longrightarrow> mem_frees s s"
  by (simp add: mem_frees_def)

lemma mem_frees_trans: "mem_frees s s1 \<Longrightarrow> mem_frees s1 s2 \<Longrightarrow> mem_frees s s2"
  unfolding mem_frees_def using map_le_trans by blast

lemma mem_moves_frees: "mem_moves [] s s' \<Longrightarrow> mem_frees s s'" "mem_moves [Give k oid] s s' \<Longrightarrow> mem_frees s s'"
proof -
  show "mem_moves [] s s' \<Longrightarrow> mem_frees s s'" by (simp add: mem_moves_def mem_frees_def)
  assume "mem_moves [Give k oid] s s'"
  then have "mem_ok s'" "mem_leases s' = (mem_leases s)(k := None)" by (simp_all add: mem_moves_def split: if_splits)
  then show "mem_frees s s'" by (simp add: mem_frees_def)
qed

text \<open>The open orders and their mailboxes.\<close>

definition mem_opened :: "Store \<Rightarrow> (string \<times> string) set" where
  "mem_opened s = {(ord_MailboxID r, oid) | r oid. map_of (st_orders s) oid = Some r \<and> mem_order_open r}"

lemma mem_leases_row:
  "mem_leases s k = Some oid \<longleftrightarrow> oid \<noteq> [] \<and> (\<exists>m. map_of (st_mailboxes s) k = Some m \<and> mbx_ActiveOrderID m = oid)"
  by (auto simp: mem_leases_def map_leases_def named_leases_def split: option.split)

lemma mem_leases_opened:
  assumes "mem_ok s"
  shows "mem_leases s k = Some oid \<longleftrightarrow> (k, oid) \<in> mem_opened s"
proof
  assume "mem_leases s k = Some oid"
  then obtain m where "map_of (st_mailboxes s) k = Some m" "mbx_ActiveOrderID m = oid" "oid \<noteq> []"
    by (auto simp: mem_leases_row)
  then show "(k, oid) \<in> mem_opened s"
    using mem_leases_okD(4) [OF mem_okD(1) [OF assms], of k m] by (auto simp: mem_bound_def mem_opened_def)
next
  assume "(k, oid) \<in> mem_opened s"
  then obtain r where r: "map_of (st_orders s) oid = Some r" "mem_order_open r" "ord_MailboxID r = k" by (auto simp: mem_opened_def)
  have "oid \<noteq> []" using mem_leases_okD(1) [OF mem_okD(1) [OF assms]] r(1) by auto
  then show "mem_leases s k = Some oid"
    using mem_leases_okD(3) [OF mem_okD(1) [OF assms] r(1,2)] r(3) by (auto simp: mem_leases_row mem_held_def)
qed

lemma mem_opened_once: "(k, oid) \<in> mem_opened s \<Longrightarrow> (k', oid) \<in> mem_opened s \<Longrightarrow> k = k'"
  by (auto simp: mem_opened_def)

lemma mem_freed: "mem_ok s \<Longrightarrow> mem_frees s s' \<Longrightarrow> mem_moves (freed_by (mem_opened s) (mem_opened s')) s s'"
  unfolding mem_moves_def mem_frees_def using freed_by_run [OF mem_leases_opened mem_leases_opened] by blast

lemma best_mailbox_Some:
  "best_mailbox P sel ms = Some m \<Longrightarrow> (m \<in> set ms \<and> P m) \<or> sel = Some m"
  by (induction ms arbitrary: sel) (force split: if_splits option.splits)+

lemma mem_place_moves:
  assumes inv: "mem_ok s" and m: "map_of (st_mailboxes s) (mbx_ID m) = Some m" "mbx_ActiveOrderID m = []"
  shows "mem_moves (taken_by (fst (mem_place_order env uid user service m ps rid s))) s
    (snd (mem_place_order env uid user service m ps rid s))"
proof -
  note ok = mem_okD(1) [OF inv]
  define r where "r = mem_new_order (clock env 0) (st_seq s + 1) uid service m ps
    (case map_of (svc_ProviderPrices service) (mbx_Provider m) of None \<Rightarrow> 0 | Some p \<Rightarrow> p) rid"
  define m' where "m' = set_service (svc_ID service) (\<lambda>state. state\<lparr>mbs_State := ServiceLeased, mbs_ChangedAt := clock env 0\<rparr>)
            (m\<lparr>mbx_State := MailboxLeased, mbx_ActiveOrderID := ord_ID r\<rparr>)"
  let ?s' = "snd (mem_place_order env uid user service m ps rid s)"
  have s': "st_mailboxes ?s' = AList.update (mbx_ID m) m' (st_mailboxes s)"
    "st_orders ?s' = AList.update (ord_ID r) r (st_orders s)" "st_seq ?s' = st_seq s + 1"
    by (simp_all add: mem_place_order_def Let_def m'_def r_def)
  have r: "ord_ID r = mem_order_id (st_seq s + 1)" "mem_order_open r" "\<not> ord_Refunded r"
    "ord_MailboxID r = mbx_ID m" "ord_ServiceID r = svc_ID service"
    by (simp_all add: r_def mem_new_order_def mem_order_open_def)
  have n: "ord_ID r \<noteq> []" by (simp add: r(1) mem_order_id_def)
  have fresh: "map_of (st_orders s) (ord_ID r) = None"
  proof (rule ccontr)
    assume "map_of (st_orders s) (ord_ID r) \<noteq> None"
    from mem_okD(4) [OF inv this] obtain n where "0 \<le> n" "n \<le> st_seq s" "mem_order_id (st_seq s + 1) = mem_order_id n"
      by (auto simp: r(1))
    then show False using mem_order_id_inj [of "st_seq s + 1" n] mem_okD(3) [OF inv] by simp
  qed
  have pair: "pair_leased m' sid \<longleftrightarrow> sid = ord_ServiceID r" for sid
    unfolding m'_def r(5) by (subst pair_leased_set [where b = True]) (auto simp: not_pair_leased [OF ok m])
  have m': "mbx_ID m' = mbx_ID m" "mbx_State m' = MailboxLeased" "mbx_ActiveOrderID m' = ord_ID r"
    by (simp_all add: m'_def)
  note take = mem_take [OF ok m fresh n r(2,3,4) m' pair]
  have "\<exists>n. 0 \<le> n \<and> n \<le> st_seq s + 1 \<and> x = mem_order_id n" if "map_of (st_orders ?s') x \<noteq> None" for x
  proof (cases "x = ord_ID r")
    case True
    then show ?thesis using mem_okD(3) [OF inv] by (intro exI [of _ "st_seq s + 1"]) (simp add: r(1))
  next
    case False
    then have "map_of (st_orders s) x \<noteq> None" using that by (simp add: s' update_conv')
    from mem_okD(4) [OF inv this] obtain n where "0 \<le> n" "n \<le> st_seq s" "x = mem_order_id n" by auto
    then show ?thesis by (intro exI [of _ n]) simp
  qed
  then have "mem_ok ?s'"
    using take(1) mem_okD(2,3) [OF inv] by (simp add: mem_ok_def s' update_conv' distinct_update)
  moreover have "fst (mem_place_order env uid user service m ps rid s) = Created (cloneOrder r)"
    by (simp add: mem_place_order_def Let_def r_def)
  moreover have "ord_MailboxID (cloneOrder r) = mbx_ID m" "ord_ID (cloneOrder r) = ord_ID r" by (simp_all add: cloneOrder_def r(4))
  ultimately show ?thesis using take(2) by (simp add: mem_moves_def mem_leases_def s' update_conv' taken_by_def)
qed


lemma mem_CreateOrder_moves:
  assumes inv: "mem_ok s"
  shows "mem_moves (taken_by (fst (mem_CreateOrder env uid sid rid ps s))) s (snd (mem_CreateOrder env uid sid rid ps s))"
proof -
  have place: "mem_moves (taken_by (fst (mem_place_order env uid user service m ps' rid' s))) s
      (snd (mem_place_order env uid user service m ps' rid' s))"
    if "best_mailbox (mem_ready t ps' sid') None (map snd (st_mailboxes s)) = Some m" for user service m t ps' sid' rid'
  proof -
    from best_mailbox_Some [OF that] obtain k where k: "(k, m) \<in> set (st_mailboxes s)" and ready: "mem_ready t ps' sid' m" by auto
    then have mk: "map_of (st_mailboxes s) k = Some m" using mem_okD(2) [OF inv] by simp
    moreover have "mbx_ID m = k" using mem_leases_okD(4) [OF mem_okD(1) [OF inv] mk] by (simp add: mem_bound_def)
    ultimately show ?thesis using mem_place_moves [OF inv] ready by (simp add: mem_ready_def)
  qed
  show ?thesis
    unfolding mem_CreateOrder_def using place mem_moves_refl [OF inv] by (simp add: taken_by_def split: option.splits sum.splits)
qed

text \<open>An open order is closed and its mailbox freed.\<close>

lemma mem_close_moves:
  assumes inv: "mem_ok s" and r: "map_of (st_orders s) oid = Some r" "mem_order_open r"
    and r': "\<not> mem_order_open r'" "ord_ID r' = ord_ID r"
    and m: "map_of (st_mailboxes s) (ord_MailboxID r) = Some m"
    and m': "mbx_ID m' = mbx_ID m" "mbx_State m' \<noteq> MailboxLeased" "mbx_ActiveOrderID m' = []"
      "\<And>x. pair_leased m' x \<Longrightarrow> pair_leased m x \<and> x \<noteq> ord_ServiceID r"
    and s': "st_mailboxes s' = AList.update (ord_MailboxID r) m' (st_mailboxes s)"
      "st_orders s' = AList.update oid r' (st_orders s)" "st_seq s' = st_seq s"
  shows "mem_moves [Give (ord_MailboxID r) oid] s s'"
proof -
  note ok = mem_okD(1) [OF inv]
  have a: "mbx_ActiveOrderID m = oid" using mem_leases_okD(3) [OF ok r] m by (auto simp: mem_held_def)
  have b: "mem_bound (map_of (st_orders s)) (ord_MailboxID r) m" by (rule mem_leases_okD(4) [OF ok m])
  have free: "\<not> pair_leased m' x" for x
    using m'(4) [of x] b r(1) a by (auto simp: mem_bound_def)
  have id: "ord_ID r' = oid" using mem_leases_okD(2) [OF ok r(1)] r'(2) by simp
  have idm: "mbx_ID m' = ord_MailboxID r" using b m'(1) by (simp add: mem_bound_def)
  note give = mem_give [OF ok r r'(1) id idm m'(2,3) free]
  have "\<exists>n. 0 \<le> n \<and> n \<le> st_seq s \<and> x = mem_order_id n" if "map_of (st_orders s') x \<noteq> None" for x
    using that mem_okD(4) [OF inv, of x] mem_okD(4) [OF inv, of oid] r(1)
    by (cases "x = oid") (auto simp: s' update_conv')
  then have "mem_ok s'" using give(1) mem_okD(2,3) [OF inv] by (simp add: mem_ok_def s' update_conv' distinct_update)
  then show ?thesis using give(2) by (simp add: mem_moves_def mem_leases_def s' update_conv')
qed

lemma mem_refund_effect:
  assumes "map_of (st_mailboxes s) (ord_MailboxID r) = Some m"
  shows "\<exists>m'. st_mailboxes (mem_refundAndRelease now r timedOut s) = AList.update (ord_MailboxID r) m' (st_mailboxes s)
     \<and> st_orders (mem_refundAndRelease now r timedOut s) = st_orders s
     \<and> st_seq (mem_refundAndRelease now r timedOut s) = st_seq s
     \<and> mbx_ID m' = mbx_ID m \<and> mbx_State m' = MailboxAvailable \<and> mbx_ActiveOrderID m' = []
     \<and> (\<forall>x. pair_leased m' x \<longrightarrow> pair_leased m x \<and> x \<noteq> ord_ServiceID r)"
proof -
  let ?freed = "m\<lparr>mbx_ActiveOrderID := [], mbx_State := MailboxAvailable\<rparr>"
  let ?u = "\<lambda>state. let available = state\<lparr>mbs_State := ServiceAvailable, mbs_ChangedAt := now\<rparr>
                       in if timedOut
                          then (case nextTimeoutState (mbs_TimeoutCount available) of
                                 (count, next) \<Rightarrow> available\<lparr>mbs_TimeoutCount := count, mbs_State := next\<rparr>)
                          else available"
  define m' where "m' = (case map_of (mbx_Services ?freed) (ord_ServiceID r) of None \<Rightarrow> ?freed
    | Some state \<Rightarrow> if mbs_State state \<noteq> ServiceLeased then ?freed else set_service (ord_ServiceID r) (\<lambda>_. ?u state) ?freed)"
  have st: "mbs_State (?u state) \<noteq> ServiceLeased" for state
    by (simp add: Let_def nextTimeoutState_def split: prod.splits)
  have basic: "mbx_ID m' = mbx_ID m \<and> mbx_State m' = MailboxAvailable \<and> mbx_ActiveOrderID m' = []"
    unfolding m'_def by (simp split: option.split)
  have pairs: "pair_leased m' x \<Longrightarrow> pair_leased m x \<and> x \<noteq> ord_ServiceID r" for x
  proof (cases "map_of (mbx_Services ?freed) (ord_ServiceID r)")
    case None
    then show "pair_leased m' x \<Longrightarrow> pair_leased m x \<and> x \<noteq> ord_ServiceID r"
      by (auto simp: m'_def pair_leased_def)
  next
    case (Some state)
    show "pair_leased m' x \<Longrightarrow> pair_leased m x \<and> x \<noteq> ord_ServiceID r"
    proof (cases "mbs_State state = ServiceLeased")
      case True
      then have "m' = set_service (ord_ServiceID r) (\<lambda>_. ?u state) ?freed" using Some by (simp add: m'_def)
      then have "pair_leased m' x \<longleftrightarrow> (if x = ord_ServiceID r then False else pair_leased ?freed x)"
        using st [of state] by (simp only:) (subst pair_leased_set [where b = False], auto)
      then show "pair_leased m' x \<Longrightarrow> pair_leased m x \<and> x \<noteq> ord_ServiceID r" by (simp split: if_splits)
    next
      case False
      then show "pair_leased m' x \<Longrightarrow> pair_leased m x \<and> x \<noteq> ord_ServiceID r"
        using Some by (auto simp: m'_def pair_leased_def)
    qed
  qed
  have users: "(case map_of (st_users s) (ord_UserID r) of None \<Rightarrow> s
          | Some user \<Rightarrow> if ord_Refunded r
              then s\<lparr>st_users := AList.update (ord_UserID r) (user\<lparr>usr_Balance := fl (usr_Balance user + ord_Price r)\<rparr>)
                       (st_users s)\<rparr> else s) = s\<lparr>st_users := us\<rparr> \<Longrightarrow>
      st_mailboxes (mem_refundAndRelease now r timedOut s) = AList.update (ord_MailboxID r) m' (st_mailboxes s)
     \<and> st_orders (mem_refundAndRelease now r timedOut s) = st_orders s
     \<and> st_seq (mem_refundAndRelease now r timedOut s) = st_seq s" for us
    unfolding mem_refundAndRelease_def using assms by (simp add: Let_def m'_def cong: option.case_cong if_cong)
  have "\<exists>us. (case map_of (st_users s) (ord_UserID r) of None \<Rightarrow> s
          | Some user \<Rightarrow> if ord_Refunded r
              then s\<lparr>st_users := AList.update (ord_UserID r) (user\<lparr>usr_Balance := fl (usr_Balance user + ord_Price r)\<rparr>)
                       (st_users s)\<rparr> else s) = s\<lparr>st_users := us\<rparr>"
    by (cases "map_of (st_users s) (ord_UserID r)"; cases "ord_Refunded r") (auto intro: exI [of _ "st_users s"])
  then show ?thesis using users basic pairs by blast
qed


lemma mem_open_mailbox:
  assumes "mem_ok s" and "map_of (st_orders s) oid = Some r" and "mem_order_open r"
  obtains m where "map_of (st_mailboxes s) (ord_MailboxID r) = Some m" "mbx_ActiveOrderID m = oid"
  using mem_leases_okD(3) [OF mem_okD(1) [OF assms(1)] assms(2,3)] by (auto simp: mem_held_def)

lemma mem_refund_moves:
  assumes inv: "mem_ok s" and r: "map_of (st_orders s) oid = Some r" "mem_order_open r"
    and r': "\<not> mem_order_open r'" "ord_ID r' = ord_ID r" "ord_MailboxID r' = ord_MailboxID r" "ord_ServiceID r' = ord_ServiceID r"
  shows "mem_moves [Give (ord_MailboxID r) oid] s (mem_refundAndRelease now r' timedOut (put_order r' oid s))"
proof -
  obtain m where m: "map_of (st_mailboxes s) (ord_MailboxID r) = Some m" by (rule mem_open_mailbox [OF inv r])
  then have "map_of (st_mailboxes (put_order r' oid s)) (ord_MailboxID r') = Some m" by (simp add: put_order_def r'(3))
  from mem_refund_effect [OF this, of now timedOut] obtain m' where
    e: "st_mailboxes (mem_refundAndRelease now r' timedOut (put_order r' oid s)) = AList.update (ord_MailboxID r) m' (st_mailboxes s)"
      "st_orders (mem_refundAndRelease now r' timedOut (put_order r' oid s)) = AList.update oid r' (st_orders s)"
      "st_seq (mem_refundAndRelease now r' timedOut (put_order r' oid s)) = st_seq s"
    and m': "mbx_ID m' = mbx_ID m" "mbx_State m' = MailboxAvailable" "mbx_ActiveOrderID m' = []"
      "\<forall>x. pair_leased m' x \<longrightarrow> pair_leased m x \<and> x \<noteq> ord_ServiceID r"
    by (auto simp: r'(3,4) put_order_def)
  show ?thesis
    by (rule mem_close_moves [OF inv r r'(1,2) m m'(1) _ m'(3) _ e]) (use m' in auto)
qed

lemma mem_touch_moves:
  assumes inv: "mem_ok s" and m: "map_of (st_mailboxes s) k = Some m"
    and m': "mbx_ID m' = mbx_ID m" "mbx_State m' = MailboxLeased \<longleftrightarrow> mbx_State m = MailboxLeased"
      "mbx_ActiveOrderID m' = mbx_ActiveOrderID m" "\<And>sid. pair_leased m' sid \<longleftrightarrow> pair_leased m sid"
  shows "mem_moves [] s (s\<lparr>st_mailboxes := AList.update k m' (st_mailboxes s)\<rparr>)"
  using mem_touch [OF mem_okD(1) [OF inv] m m'] mem_okD(2-4) [OF inv]
  by (simp add: mem_moves_def mem_ok_def mem_leases_def update_conv' distinct_update)

lemma mem_ReceiveCodeValue_moves:
  assumes inv: "mem_ok s"
  shows "mem_moves (given_by (fst (mem_ReceiveCodeValue env oid code s))) s (snd (mem_ReceiveCodeValue env oid code s))"
proof (cases "fst (mem_ReceiveCodeValue env oid code s)")
  case (Inl e)
  then have "snd (mem_ReceiveCodeValue env oid code s) = s"
    by (auto simp: mem_ReceiveCodeValue_def Let_def split: option.splits if_splits)
  then show ?thesis using mem_moves_refl [OF inv] Inl by (simp add: given_by_def)
next
  case (Inr order)
  obtain r where Some: "map_of (st_orders s) oid = Some r"
    using Inr by (cases "map_of (st_orders s) oid") (simp_all add: mem_ReceiveCodeValue_def)
  show ?thesis
  proof -
    have op: "mem_order_open r"
      using Inr Some by (auto simp: mem_ReceiveCodeValue_def mem_order_open_def split: if_splits)
    obtain m where m: "map_of (st_mailboxes s) (ord_MailboxID r) = Some m" by (rule mem_open_mailbox [OF inv Some op])
    define r' where "r' = r\<lparr>ord_Status := OrderCodeReceived, ord_Code := trim_space code, ord_CodeReceivedAt := clock env 0\<rparr>"
    define m' where "m' = set_service (ord_ServiceID r) (\<lambda>state. state\<lparr>mbs_State := ServiceConsumed, mbs_ChangedAt := clock env 0\<rparr>)
      (m\<lparr>mbx_TodayCodes := mbx_TodayCodes m + 1, mbx_LastReceivedAt := clock env 0, mbx_ActiveOrderID := [],
         mbx_State := MailboxAvailable\<rparr>)"
    have eq: "snd (mem_ReceiveCodeValue env oid code s) = (put_order r' oid s)\<lparr>st_mailboxes := AList.update (ord_MailboxID r) m' (st_mailboxes s)\<rparr>"
      using Inr Some op m
      by (auto simp: mem_ReceiveCodeValue_def mem_order_open_def Let_def r'_def m'_def put_order_def split: if_splits)
    have order: "order = cloneOrder r'"
      using Inr Some op by (auto simp: mem_ReceiveCodeValue_def mem_order_open_def Let_def r'_def split: if_splits)
    have label: "given_by (fst (mem_ReceiveCodeValue env oid code s)) = [Give (ord_MailboxID r) oid]"
      unfolding Inr given_by_def order using mem_leases_okD(2) [OF mem_okD(1) [OF inv] Some] by (simp add: cloneOrder_def r'_def)
    have pairs: "pair_leased m' x \<longleftrightarrow> (if x = ord_ServiceID r then False else pair_leased m x)" for x
      unfolding m'_def by (subst pair_leased_set [where b = False]) simp_all
    show ?thesis unfolding eq label
    proof (rule mem_close_moves [OF inv Some op _ _ m])
      show "\<not> mem_order_open r'" "ord_ID r' = ord_ID r" by (simp_all add: r'_def mem_order_open_def)
      show "mbx_ID m' = mbx_ID m" "mbx_State m' \<noteq> MailboxLeased" "mbx_ActiveOrderID m' = []" by (simp_all add: m'_def)
      show "pair_leased m x \<and> x \<noteq> ord_ServiceID r" if "pair_leased m' x" for x using that pairs [of x] by (simp split: if_splits)
    qed (simp_all add: put_order_def)
  qed
qed

lemma mem_find_order_Some:
  "mem_find_order oid uid s = Some r \<Longrightarrow> map_of (st_orders s) oid = Some r \<and> (uid = [] \<or> ord_UserID r = uid)"
  by (auto simp: mem_find_order_def split: option.splits if_splits)

lemma mem_CompleteOrder_moves:
  assumes inv: "mem_ok s"
  shows "mem_moves [] s (snd (mem_CompleteOrder env oid uid s))"
proof (cases "mem_find_order oid uid s")
  case None
  then show ?thesis using mem_moves_refl [OF inv] by (simp add: mem_CompleteOrder_def)
next
  case (Some r)
  let ?r' = "r\<lparr>ord_Status := OrderCompleted, ord_CompletedAt := clock env 0\<rparr>"
  have o: "map_of (st_orders s) oid = Some r" using mem_find_order_Some [OF Some] by simp
  show ?thesis
  proof (cases "ord_Status r = OrderCodeReceived")
    case False
    then show ?thesis using mem_moves_refl [OF inv] Some by (simp add: mem_CompleteOrder_def)
  next
    case True
    have id: "ord_ID r = oid" using mem_leases_okD(2) [OF mem_okD(1) [OF inv] o] .
    have "mem_leases_ok (map_of (st_mailboxes s)) ((map_of (st_orders s))(oid \<mapsto> ?r'))"
      by (rule mem_closed_order [OF mem_okD(1) [OF inv] o]) (simp_all add: mem_order_open_def True id)
    moreover have "\<exists>n. 0 \<le> n \<and> n \<le> st_seq s \<and> x = mem_order_id n" if "((map_of (st_orders s))(oid \<mapsto> ?r')) x \<noteq> None" for x
      using that mem_okD(4) [OF inv, of x] mem_okD(4) [OF inv, of oid] o by (cases "x = oid") auto
    ultimately have "mem_ok (put_order ?r' oid s)"
      using mem_okD(2,3) [OF inv] by (simp add: mem_ok_def put_order_def update_conv')
    then show ?thesis using Some True by (simp add: mem_CompleteOrder_def Let_def mem_moves_def mem_leases_def put_order_def)
  qed
qed

lemma mem_CancelOrder_moves:
  assumes inv: "mem_ok s"
  shows "mem_moves (given_by (fst (mem_CancelOrder env oid uid s))) s (snd (mem_CancelOrder env oid uid s))"
proof (cases "mem_find_order oid uid s")
  case None
  then show ?thesis using mem_moves_refl [OF inv] by (simp add: mem_CancelOrder_def given_by_def)
next
  case (Some r)
  have o: "map_of (st_orders s) oid = Some r" using mem_find_order_Some [OF Some] by simp
  show ?thesis
  proof (cases "mem_order_open r")
    case False
    then show ?thesis using mem_moves_refl [OF inv] Some by (simp add: mem_CancelOrder_def given_by_def)
  next
    case True
    have "mem_moves [Give (ord_MailboxID r) oid] s (mem_refundAndRelease (clock env 0) (r\<lparr>ord_Status := OrderCanceled, ord_Refunded := True\<rparr>) False
        (put_order (r\<lparr>ord_Status := OrderCanceled, ord_Refunded := True\<rparr>) oid s))"
      by (rule mem_refund_moves [OF inv o True]) (simp_all add: mem_order_open_def)
    moreover have "ord_ID r = oid" by (rule mem_leases_okD(2) [OF mem_okD(1) [OF inv] o])
    ultimately show ?thesis using Some True by (simp add: mem_CancelOrder_def Let_def given_by_def cloneOrder_def)
  qed
qed

lemma mem_reap_one_frees: "mem_ok (snd acc) \<Longrightarrow> mem_frees (snd acc) (snd (mem_reap_one now changed oid acc))"
  using mem_frees_refl mem_moves_frees(2) [OF mem_refund_moves [of "snd acc" oid _ "_\<lparr>ord_Status := OrderExpiredRefunded, ord_Refunded := True\<rparr>"]]
  by (auto simp: mem_reap_one_def mem_order_open_def Let_def split: option.split)


lemma mem_reconcile_one_frees:
  assumes inv: "mem_ok (snd acc)"
  shows "mem_frees (snd acc) (snd (mem_reconcile_one changed oid acc))"
proof (cases "mem_reconcile_one changed oid acc = acc")
  case True
  then show ?thesis using mem_frees_refl [OF inv] by simp
next
  case False
  let ?s = "snd acc"
  obtain r m where r: "map_of (st_orders ?s) oid = Some r" "mem_order_open r"
    and m: "map_of (st_mailboxes ?s) (ord_MailboxID r) = Some m" "mbx_VerificationStatus m \<noteq> MailboxVerificationVerified"
    using False by (auto simp: mem_reconcile_one_def split: option.splits if_splits)
  define r' where "r' = r\<lparr>ord_Status := OrderExpiredRefunded, ord_Refunded := True, ord_FailureReason := msg_mailbox_unverified\<rparr>"
  define s1 where "s1 = mem_refundAndRelease changed r' True (put_order r' oid ?s)"
  have r': "\<not> mem_order_open r'" "ord_ID r' = ord_ID r" "ord_MailboxID r' = ord_MailboxID r" "ord_ServiceID r' = ord_ServiceID r"
    by (simp_all add: r'_def mem_order_open_def)
  have "map_of (st_mailboxes (put_order r' oid ?s)) (ord_MailboxID r') = Some m" by (simp add: put_order_def r'(3) m(1))
  from mem_refund_effect [OF this, of changed True] obtain m' where
    m': "st_mailboxes s1 = AList.update (ord_MailboxID r) m' (st_mailboxes ?s)" "mbx_State m' = MailboxAvailable"
      "mbx_ActiveOrderID m' = []"
    by (auto simp: s1_def r'(3) put_order_def)
  have "map_of (st_mailboxes s1) (ord_MailboxID r) = Some m'" by (simp add: m'(1) update_conv')
  moreover from this have "snd (mem_reconcile_one changed oid acc) = s1\<lparr>st_mailboxes := AList.update (ord_MailboxID r)
      (m'\<lparr>mbx_State := MailboxError, mbx_HealthScore := 0\<rparr>) (st_mailboxes s1)\<rparr>"
    using r m by (simp add: mem_reconcile_one_def Let_def s1_def r'_def)
  moreover have s1: "mem_frees ?s s1" unfolding s1_def by (rule mem_moves_frees(2) [OF mem_refund_moves [OF inv r r']])
  ultimately show ?thesis
    using mem_moves_frees(1) [OF mem_touch_moves [of s1 "ord_MailboxID r" m' "m'\<lparr>mbx_State := MailboxError, mbx_HealthScore := 0\<rparr>"]] m'(2)
      mem_frees_trans [OF s1] by (simp add: mem_frees_def)
qed

lemma mem_fold_frees:
  assumes "\<And>k oid acc. mem_ok (snd acc) \<Longrightarrow> mem_frees (snd acc) (snd (f (k, oid) acc))" and "mem_ok (snd acc)"
  shows "mem_frees (snd acc) (snd (fold f xs acc))"
  using assms(2)
proof (induction xs arbitrary: acc)
  case (Cons x xs)
  have "mem_frees (snd acc) (snd (f x acc))" using assms(1) [OF Cons.prems, of "fst x" "snd x"] by simp
  then show ?case using Cons.IH [of "f x acc"] mem_frees_trans by (auto simp: mem_frees_def)
qed (simp add: mem_frees_refl)

lemma mem_ReapExpired_frees: "mem_ok s \<Longrightarrow> mem_frees s (snd (mem_ReapExpired env s))"
  unfolding mem_ReapExpired_def
  by (rule mem_fold_frees [where acc = "(0, s)", unfolded snd_conv]) (simp_all add: mem_reap_one_frees)

lemma mem_Reconcile_frees: "mem_ok s \<Longrightarrow> mem_frees s (snd (mem_ReconcileInvalidMailboxOrders env s))"
  unfolding mem_ReconcileInvalidMailboxOrders_def
  by (rule mem_fold_frees [where acc = "(0, s)", unfolded snd_conv]) (simp_all add: mem_reconcile_one_frees)

lemma map_of_filter_value:
  assumes "distinct (map fst xs)"
  shows "map_of (filter (\<lambda>(_, m). P m) xs) k = (case map_of xs k of None \<Rightarrow> None | Some m \<Rightarrow> if P m then Some m else None)"
proof -
  have "k \<notin> fst ` set ys \<Longrightarrow> map_of (filter (\<lambda>(_, m). P m) ys) k = None" for ys
    by (auto simp: map_of_eq_None_iff)
  then show ?thesis using assms by (induction xs) (auto split: option.split)
qed

lemma mem_DeleteInvalidMailboxes_moves:
  assumes inv: "mem_ok s"
  shows "mem_moves [] s (snd (mem_DeleteInvalidMailboxes n s))"
proof -
  let ?kept = "filter (\<lambda>(_, m). \<not> mem_deletable m) (st_mailboxes s)"
  have sub: "map_of ?kept k = map_of (st_mailboxes s) k
      \<or> map_of ?kept k = None \<and> (\<exists>m. map_of (st_mailboxes s) k = Some m \<and> mbx_ActiveOrderID m = [])" for k
    unfolding map_of_filter_value [OF mem_okD(2) [OF inv]] by (auto simp: mem_deletable_def split: option.split)
  have "mem_moves [] s (s\<lparr>st_mailboxes := ?kept\<rparr>)"
    using mem_drop [OF mem_okD(1) [OF inv] sub] mem_okD(2-4) [OF inv]
    by (simp add: mem_moves_def mem_ok_def mem_leases_def distinct_map_filter)
  then show ?thesis using mem_moves_refl [OF inv] by (simp add: mem_DeleteInvalidMailboxes_def Let_def)
qed

lemma mem_consumed_moves:
  assumes inv: "mem_ok s" and m: "map_of (st_mailboxes s) k = Some m"
    and st: "map_of (mbx_Services m) sid = Some st" "mbs_State st \<noteq> ServiceLeased"
  shows "mem_moves [] s (s\<lparr>st_mailboxes := AList.update k
    (set_service sid (\<lambda>state. state\<lparr>mbs_State := ServiceConsumed, mbs_ChangedAt := t\<rparr>) m) (st_mailboxes s)\<rparr>)"
proof (rule mem_touch_moves [OF inv m])
  show "pair_leased (set_service sid (\<lambda>state. state\<lparr>mbs_State := ServiceConsumed, mbs_ChangedAt := t\<rparr>) m) x \<longleftrightarrow> pair_leased m x" for x
    by (subst pair_leased_set [where b = False]) (use st in \<open>auto simp: pair_leased_def\<close>)
qed simp_all

lemma mem_marks_move:
  assumes inv: "mem_ok s"
  shows "mem_moves [] s (snd (mem_MarkMailboxServiceConsumed env k sid t s))"
    and "mem_moves [] s (snd (mem_MarkMailboxServiceRegistered env k sid s))"
  unfolding mem_MarkMailboxServiceConsumed_def mem_MarkMailboxServiceRegistered_def Let_def
  using mem_moves_refl [OF inv] mem_consumed_moves [OF inv] by (simp_all split: option.split)

lemma mem_SaveSystemConfig_moves: "mem_ok s \<Longrightarrow> mem_moves [] s (mem_SaveSystemConfig key v s)"
  by (simp add: mem_moves_def mem_SaveSystemConfig_def mem_ok_def mem_leases_def)

subsection \<open>Every run of the store\<close>

inductive mem_step :: "lease_event list \<Rightarrow> Store \<Rightarrow> Store \<Rightarrow> bool" where
  mem_create: "mem_CreateOrder env uid sid rid ps s = (res, s') \<Longrightarrow> mem_step (taken_by res) s s'"
| mem_receive: "mem_ReceiveCodeValue env oid code s = (out, s') \<Longrightarrow> mem_step (given_by out) s s'"
| mem_complete: "mem_CompleteOrder env oid uid s = (out, s') \<Longrightarrow> mem_step [] s s'"
| mem_cancel: "mem_CancelOrder env oid uid s = (out, s') \<Longrightarrow> mem_step (given_by out) s s'"
| mem_reap: "mem_ReapExpired env s = (n, s') \<Longrightarrow> mem_step (freed_by (mem_opened s) (mem_opened s')) s s'"
| mem_reconcile: "mem_ReconcileInvalidMailboxOrders env s = (n, s') \<Longrightarrow>
     mem_step (freed_by (mem_opened s) (mem_opened s')) s s'"
| mem_delete: "mem_DeleteInvalidMailboxes expected s = (deleted, s') \<Longrightarrow> mem_step [] s s'"
| mem_consumed: "mem_MarkMailboxServiceConsumed env k sid t s = (done, s') \<Longrightarrow> mem_step [] s s'"
| mem_registered: "mem_MarkMailboxServiceRegistered env k sid s = (done, s') \<Longrightarrow> mem_step [] s s'"
| mem_config: "mem_step [] s (mem_SaveSystemConfig key v s)"

lemma mem_step_moves: "mem_step es s s' \<Longrightarrow> mem_ok s \<Longrightarrow> mem_moves es s s'"
proof (induction rule: mem_step.induct)
  case (mem_create env uid sid rid ps s res s')
  then show ?case using mem_CreateOrder_moves by (metis fst_conv snd_conv)
next
  case (mem_receive env oid code s out s')
  then show ?case using mem_ReceiveCodeValue_moves by (metis fst_conv snd_conv)
next
  case (mem_complete env oid uid s out s')
  then show ?case using mem_CompleteOrder_moves by (metis snd_conv)
next
  case (mem_cancel env oid uid s out s')
  then show ?case using mem_CancelOrder_moves by (metis fst_conv snd_conv)
next
  case (mem_reap env s n s')
  then show ?case using mem_freed [OF _ mem_ReapExpired_frees] by (metis snd_conv)
next
  case (mem_reconcile env s n s')
  then show ?case using mem_freed [OF _ mem_Reconcile_frees] by (metis snd_conv)
next
  case (mem_delete expected s deleted s')
  then show ?case using mem_DeleteInvalidMailboxes_moves by (metis snd_conv)
next
  case (mem_consumed env k sid t s "done" s')
  then show ?case using mem_marks_move(1) by (metis snd_conv)
next
  case (mem_registered env k sid s "done" s')
  then show ?case using mem_marks_move(2) by (metis snd_conv)
next
  case (mem_config s key v)
  then show ?case by (rule mem_SaveSystemConfig_moves)
qed

interpretation mem_table: lease_table mem_leases mem_opened mem_ok mem_step
  using mem_step_moves mem_leases_opened mem_opened_once by unfold_locales (auto simp: mem_moves_def)

lemma seed_mailbox_free: "\<not> pair_leased (seed_mailbox env sids i) sid" "mbx_ActiveOrderID (seed_mailbox env sids i) = []"
  "mbx_State (seed_mailbox env sids i) = MailboxAvailable"
proof -
  have "mbs_State st \<noteq> ServiceLeased" if "map_of (mbx_Services (seed_mailbox env sids i)) sid = Some st" for st
    using map_of_SomeD [OF that] by (auto simp: seed_mailbox_def Let_def)
  then show "\<not> pair_leased (seed_mailbox env sids i) sid" by (auto simp: pair_leased_def split: option.split)
qed (simp_all add: seed_mailbox_def Let_def)

lemma fold_seed_mailboxes:
  assumes "\<And>k m. map_of acc k = Some m \<Longrightarrow> \<exists>i. m = seed_mailbox env sids i \<and> k = mbx_ID m" and "distinct (map fst acc)"
  shows "distinct (map fst (fold (\<lambda>i. let m = seed_mailbox env sids i in AList.update (mbx_ID m) m) is acc))
    \<and> (\<forall>k m. map_of (fold (\<lambda>i. let m = seed_mailbox env sids i in AList.update (mbx_ID m) m) is acc) k = Some m
         \<longrightarrow> (\<exists>i. m = seed_mailbox env sids i \<and> k = mbx_ID m))"
  using assms
proof (induction "is" arbitrary: acc)
  case (Cons i "is")
  show ?case unfolding fold_simps Let_def
    by (rule Cons.IH [unfolded Let_def]) (use Cons.prems in \<open>auto simp: update_conv' distinct_update split: if_splits\<close>)
qed auto

lemma mem_ok_seeded:
  assumes mb: "st_mailboxes s = fold (\<lambda>i. let m = seed_mailbox env sids i in AList.update (mbx_ID m) m) is []"
    and "st_orders s = []" "0 \<le> st_seq s"
  shows "mem_ok s"
proof -
  have m: "distinct (map fst (st_mailboxes s))
      \<and> (\<forall>k m. map_of (st_mailboxes s) k = Some m \<longrightarrow> (\<exists>i. m = seed_mailbox env sids i \<and> k = mbx_ID m))"
    unfolding mb by (rule fold_seed_mailboxes) simp_all
  have "mem_bound Map.empty k x" if x: "map_of (st_mailboxes s) k = Some x" for k x
  proof -
    obtain i where i: "x = seed_mailbox env sids i" "k = mbx_ID x" using m x by blast
    show ?thesis unfolding mem_bound_def i(2) unfolding i(1) by (simp add: seed_mailbox_free)
  qed
  then show ?thesis using m assms(2,3) unfolding mem_ok_def mem_leases_ok_def by auto
qed

lemma mem_ok_New: "mem_ok (New env)"
proof (rule mem_ok_seeded)
  show "st_mailboxes (New env) = fold (\<lambda>i. let m = seed_mailbox env
      (map fst (fold (\<lambda>service. AList.update (svc_ID service) service) defaultServices [])) i in AList.update (mbx_ID m) m) [1..<25] []"
    unfolding New_def seed_def Let_def Store.simps by (rule refl)
  show "st_orders (New env) = []" unfolding New_def seed_def Let_def Store.simps by (rule refl)
  show "0 \<le> st_seq (New env)" unfolding New_def seed_def Let_def Store.simps by simp
qed


subsection \<open>Two refinements of one table\<close>

lemma mem_leases_New: "mem_leases (New env) = Map.empty"
proof
  fix x
  have orders: "st_orders (New env) = []" unfolding New_def seed_def Let_def Store.simps by (rule refl)
  then have "mem_opened (New env) = {}" by (simp add: mem_opened_def)
  then show "mem_leases (New env) x = None" using mem_leases_opened [OF mem_ok_New, of env x] by (cases "mem_leases (New env) x") auto
qed

text \<open>C24: Both stores refine the table of leases.  A run of operations on the in-memory store from its first contents, any later run of
  it, and a run of order operations on a database that satisfies the lease invariant change the leases exactly by the events of the run:
  each created order takes the mailbox named in its reply, which is possible only while that mailbox is free; each order that receives
  its code or is canceled gives back the mailbox that it holds; a sweep frees the mailboxes of the orders that it closes; nothing else
  changes a lease.  In every state reached the leases are the open orders with their mailboxes, no order holds two mailboxes, and in a run
  a mailbox loses its order only by the event of that order, after which it is free.\<close>

theorem stores_refine_lease_table:
  assumes first: "run_of mem_step es (New env) s" and later: "run_of mem_step es' s s'"
    and ok: "lease_ok db" and pg: "run_of pg_step fs db db'"
  shows "run_leases es Map.empty = Some (mem_leases s)
    \<and> run_leases es' (mem_leases s) = Some (mem_leases s') \<and> handed_over es' (mem_leases s) (mem_leases s')
    \<and> (\<forall>k oid. mem_leases s' k = Some oid \<longleftrightarrow> (k, oid) \<in> mem_opened s')
    \<and> (\<forall>k k' oid. mem_leases s' k = Some oid \<longrightarrow> mem_leases s' k' = Some oid \<longrightarrow> k = k')
    \<and> run_leases fs (db_leases db) = Some (db_leases db') \<and> handed_over fs (db_leases db) (db_leases db')
    \<and> (\<forall>k oid. db_leases db' k = Some oid \<longleftrightarrow> (k, oid) \<in> db_opened db')
    \<and> (\<forall>k k' oid. db_leases db' k = Some oid \<longrightarrow> db_leases db' k' = Some oid \<longrightarrow> k = k')"
proof -
  note good = mem_table.runs_good [OF first mem_ok_New]
  note good' = mem_table.runs_good [OF later good] and pg_good = db_table.runs_good [OF pg ok]
  have a: "run_leases es Map.empty = Some (mem_leases s)"
    using mem_table.runs_refine [OF first mem_ok_New] by (simp only: mem_leases_New)
  note b = mem_table.runs_refine [OF later good] mem_table.runs_hand_over [OF later good] mem_table.good_opened [OF good']
  note c = db_table.runs_refine [OF pg ok] db_table.runs_hand_over [OF pg ok] db_table.good_opened [OF pg_good]
  show ?thesis
    by (intro conjI allI impI)
      (rule a b c | rule mem_table.never_shared [OF later good], assumption+ | rule db_table.never_shared [OF pg ok], assumption+)+
qed


lemma stores_refine_lease_table_witness:
  "\<exists>res s order db'. mem_CreateOrder (quiet_env 0) ''user-001'' ''svc-krea'' [] [''outlook''] (New (quiet_env 0)) = (res, s)
     \<and> run_leases (taken_by res) Map.empty = Some (mem_leases s)
     \<and> run_tx (CancelOrder (quiet_env 0) ''ORD1'' []) demo_leased_db = (Inr order, db')
     \<and> run_leases [Give (ord_MailboxID order) (ord_ID order)] (db_leases demo_leased_db) = Some (db_leases db')"
proof -
  obtain res s where m: "mem_CreateOrder (quiet_env 0) ''user-001'' ''svc-krea'' [] [''outlook''] (New (quiet_env 0)) = (res, s)"
    by (cases "mem_CreateOrder (quiet_env 0) ''user-001'' ''svc-krea'' [] [''outlook''] (New (quiet_env 0))")
  let ?run = "run_tx (CancelOrder (quiet_env 0) ''ORD1'' []) demo_leased_db"
  have "is_ok (fst ?run)" by code_simp
  then obtain order db' where c: "?run = (Inr order, db')" by (cases ?run) (auto simp: is_ok_iff)
  have "run_leases (taken_by res) Map.empty = Some (mem_leases s)
      \<and> run_leases (given_by (Inr order)) (db_leases demo_leased_db) = Some (db_leases db')"
    using stores_refine_lease_table [OF run_single [of mem_step, OF mem_create [OF m]] run_nil lease_ok_demo_leased
        run_single [of pg_step, OF pg_cancel [OF c]]] by blast
  then show ?thesis using m c unfolding given_by_def sum.case by blast
qed


subsection \<open>Placing and canceling an order\<close>

lemma best_mailbox_best:
  "best_mailbox P sel ms = Some m \<Longrightarrow>
     (\<forall>x\<in>set ms. P x \<longrightarrow> mbx_HealthScore x \<le> mbx_HealthScore m) \<and> (\<forall>b. sel = Some b \<longrightarrow> mbx_HealthScore b \<le> mbx_HealthScore m)"
proof (induction ms arbitrary: sel)
  case (Cons a ms)
  let ?sel = "if \<not> P a then sel else case sel of None \<Rightarrow> Some a
    | Some best \<Rightarrow> if mbx_HealthScore a > mbx_HealthScore best then Some a else sel"
  have b: "best_mailbox P ?sel ms = Some m" using Cons.prems by simp
  then show ?case using Cons.IH [OF b] by (auto split: option.splits if_splits)
qed auto

lemma mem_CreateOrder_Created:
  assumes "mem_CreateOrder env uid sid rid ps s = (Created order, s1)"
  obtains user service providers maximum m where "map_of (st_users s) uid = Some user"
    "map_of (st_services s) sid = Some service" "svc_Enabled service"
    "validateOrderProviders service ps = Inr (providers, maximum)" "maximum \<le> usr_Balance user"
    "best_mailbox (mem_ready (clock env 0) providers (svc_ID service)) None (map snd (st_mailboxes s)) = Some m"
    "mem_place_order env uid user service m providers rid s = (Created order, s1)"
  using assms unfolding mem_CreateOrder_def
  by (auto split: option.splits if_splits sum.splits prod.splits)

lemma fl_refund_error:
  assumes "0 \<le> p" "p \<le> b"
  shows "\<bar>fl (fl (b - p) + p) - b\<bar> \<le> 3 * ulp * b"
proof -
  define x where "x = fl (b - p)"
  have u: "0 \<le> ulp" "ulp \<le> 1" by (simp_all add: ulp_def)
  have e1: "\<bar>x - (b - p)\<bar> \<le> ulp * (b - p)" using fl_error [of "b - p"] assms by (simp add: x_def)
  have "ulp * (b - p) \<le> ulp * b" using u(1) assms(1) by (intro mult_left_mono) auto
  then have e2: "\<bar>(x + p) - b\<bar> \<le> ulp * b" using e1 by (simp add: algebra_simps)
  have "\<bar>x + p\<bar> \<le> b + ulp * b" using e2 assms by linarith
  also have "\<dots> \<le> 2 * b" using mult_right_mono [OF u(2), of b] assms by simp
  finally have "ulp * \<bar>x + p\<bar> \<le> ulp * (2 * b)" using u(1) by (rule mult_left_mono)
  moreover have "\<bar>fl (x + p) - (x + p)\<bar> \<le> ulp * \<bar>x + p\<bar>" by (rule fl_error)
  ultimately show ?thesis using e2 unfolding x_def [symmetric] by (simp add: algebra_simps)
qed

text \<open>What canceling does to the balance and the platform's count of timeouts.\<close>

lemma mem_refund_users:
  assumes "map_of (st_users s) (ord_UserID r) = Some user" and "ord_Refunded r"
  shows "st_users (mem_refundAndRelease now r timedOut s)
     = AList.update (ord_UserID r) (user\<lparr>usr_Balance := fl (usr_Balance user + ord_Price r)\<rparr>) (st_users s)"
  using assms by (simp add: mem_refundAndRelease_def Let_def split: option.split)

lemma set_service_lookup:
  "map_of (mbx_Services (set_service sid f m)) x = (if x = sid then Some (f (case map_of (mbx_Services m) sid of Some st \<Rightarrow> st
     | None \<Rightarrow> \<lparr> mbs_ServiceID = [], mbs_State = ServiceBlocked, mbs_TimeoutCount = 0, mbs_ChangedAt = zero_time \<rparr>))
     else map_of (mbx_Services m) x)"
  by (simp add: set_service_def Let_def update_conv')


lemma mem_ready_cong: "set ps = set qs \<Longrightarrow> mem_ready t ps sid m \<longleftrightarrow> mem_ready t qs sid m"
  by (simp add: mem_ready_def containsString_def)

lemma mem_leases_put:
  assumes "st_mailboxes s' = AList.update k m (st_mailboxes s)"
  shows "mem_leases s' = (mem_leases s)(k := if mbx_ActiveOrderID m = [] then None else Some (mbx_ActiveOrderID m))"
  by (simp add: mem_leases_def assms update_conv' map_leases_upd)

lemma mem_cancel_open:
  assumes inv: "mem_ok s" and r: "map_of (st_orders s) oid = Some r" "mem_order_open r" "ord_UserID r = uid"
    and user: "map_of (st_users s) uid = Some user"
  shows "\<exists>order' s'. mem_CancelOrder env oid uid s = (Inr order', s') \<and> ord_Status order' = OrderCanceled
     \<and> mem_leases s' = (mem_leases s)(ord_MailboxID r := None)
     \<and> map_of (st_users s') uid = Some (user\<lparr>usr_Balance := fl (usr_Balance user + ord_Price r)\<rparr>)"
proof -
  let ?r' = "r\<lparr>ord_Status := OrderCanceled, ord_Refunded := True\<rparr>"
  let ?s' = "mem_refundAndRelease (clock env 0) ?r' False (put_order ?r' oid s)"
  obtain m where "map_of (st_mailboxes s) (ord_MailboxID r) = Some m" by (rule mem_open_mailbox [OF inv r(1,2)])
  then have "map_of (st_mailboxes (put_order ?r' oid s)) (ord_MailboxID ?r') = Some m" by (simp add: put_order_def)
  from mem_refund_effect [OF this, of "clock env 0" False] obtain m' where
    m': "st_mailboxes ?s' = AList.update (ord_MailboxID r) m' (st_mailboxes s)" "mbx_ActiveOrderID m' = []"
    by (auto simp: put_order_def)
  have "map_of (st_users (put_order ?r' oid s)) (ord_UserID ?r') = Some user" using user r(3) by (simp add: put_order_def)
  from mem_refund_users [OF this, of "clock env 0" False]
  have "map_of (st_users ?s') uid = Some (user\<lparr>usr_Balance := fl (usr_Balance user + ord_Price r)\<rparr>)"
    by (simp add: update_conv' r(3))
  moreover have "mem_CancelOrder env oid uid s = (Inr (cloneOrder ?r'), ?s')"
    using r by (simp add: mem_CancelOrder_def mem_find_order_def Let_def)
  moreover have "ord_Status (cloneOrder ?r') = OrderCanceled" by (simp add: cloneOrder_def)
  ultimately show ?thesis using mem_leases_put [OF m'(1)] m'(2) by (intro exI [of _ "cloneOrder ?r'"] exI [of _ ?s']) simp
qed

text \<open>C25: A created order leases the healthiest mailbox that is ready and of a requested provider, at that
  provider's price, which the balance covers; canceling it restores the table of leases and gives the price back, up to the
  rounding of the balance, which the development store keeps as a floating-point number.\<close>

theorem mem_order_round_trip:
  assumes inv: "mem_ok s" and created: "mem_CreateOrder env uid sid rid ps s = (Created order, s1)"
  shows "\<exists>user service m price. map_of (st_users s) uid = Some user
    \<and> map_of (st_services s) sid = Some service \<and> svc_Enabled service
    \<and> map_of (st_mailboxes s) (mbx_ID m) = Some m
    \<and> mem_ready (clock env 0) (map normal_provider ps) (svc_ID service) m
    \<and> (\<forall>k x. map_of (st_mailboxes s) k = Some x \<and> mem_ready (clock env 0) (map normal_provider ps) (svc_ID service) x
         \<longrightarrow> mbx_HealthScore x \<le> mbx_HealthScore m)
    \<and> map_of (svc_ProviderPrices service) (mbx_Provider m) = Some price \<and> 0 \<le> price \<and> price \<le> usr_Balance user
    \<and> ord_Price order = price \<and> ord_MailboxID order = mbx_ID m
    \<and> map_of (st_users s1) uid = Some (user\<lparr>usr_Balance := fl (usr_Balance user - price)\<rparr>)
    \<and> mem_leases s1 = (mem_leases s)(mbx_ID m \<mapsto> ord_ID order)
    \<and> (\<exists>order' s2 user'. mem_CancelOrder env' (ord_ID order) uid s1 = (Inr order', s2)
         \<and> ord_Status order' = OrderCanceled \<and> mem_leases s2 = mem_leases s
         \<and> map_of (st_users s2) uid = Some user' \<and> \<bar>usr_Balance user' - usr_Balance user\<bar> \<le> 3 * ulp * usr_Balance user)"
proof -
  obtain user service providers maximum m where c: "map_of (st_users s) uid = Some user"
    "map_of (st_services s) sid = Some service" "svc_Enabled service"
    "validateOrderProviders service ps = Inr (providers, maximum)" "maximum \<le> usr_Balance user"
    and best: "best_mailbox (mem_ready (clock env 0) providers (svc_ID service)) None (map snd (st_mailboxes s)) = Some m"
    and place: "mem_place_order env uid user service m providers rid s = (Created order, s1)"
    by (rule mem_CreateOrder_Created [OF created])
  from validate_providers_result [OF c(4) [unfolded validateOrderProviders_def]]
  have ps: "set providers = set (map normal_provider ps)"
    and priced: "p \<in> set providers \<Longrightarrow> provider_ok service p
      \<and> (\<exists>price. map_of (svc_ProviderPrices service) p = Some price \<and> price \<le> maximum)" for p by auto
  note ready_eq = mem_ready_cong [OF ps]
  obtain k where k: "(k, m) \<in> set (st_mailboxes s)" and ready: "mem_ready (clock env 0) providers (svc_ID service) m"
    using best_mailbox_Some [OF best] by auto
  have mk: "map_of (st_mailboxes s) k = Some m" using k mem_okD(2) [OF inv] by simp
  have id: "mbx_ID m = k" using mem_leases_okD(4) [OF mem_okD(1) [OF inv] mk] by (simp add: mem_bound_def)
  have free: "mbx_ActiveOrderID m = []" and prov: "mbx_Provider m \<in> set providers"
    using ready by (simp_all add: mem_ready_def containsString_def)
  obtain price where price: "map_of (svc_ProviderPrices service) (mbx_Provider m) = Some price" "0 \<le> price" "price \<le> maximum"
    using priced [OF prov] by (auto simp: provider_ok_def)
  define r where "r = mem_new_order (clock env 0) (st_seq s + 1) uid service m providers price rid"
  have order: "order = cloneOrder r" and s1: "st_orders s1 = AList.update (ord_ID r) r (st_orders s)"
      "st_users s1 = AList.update uid (user\<lparr>usr_Balance := fl (usr_Balance user - price)\<rparr>) (st_users s)"
    using place price(1) by (auto simp: mem_place_order_def Let_def r_def)
  have r: "ord_ID order = ord_ID r" "ord_Price r = price" "ord_MailboxID r = k" "ord_UserID r = uid" "mem_order_open r" "ord_ID r \<noteq> []"
      "ord_Price order = price" "ord_MailboxID order = k"
    by (simp_all add: order r_def mem_new_order_def mem_order_open_def cloneOrder_def id mem_order_id_def)
  define m' where "m' = set_service (svc_ID service) (\<lambda>state. state\<lparr>mbs_State := ServiceLeased, mbs_ChangedAt := clock env 0\<rparr>)
            (m\<lparr>mbx_State := MailboxLeased, mbx_ActiveOrderID := ord_ID r\<rparr>)"
  have mb: "st_mailboxes s1 = AList.update k m' (st_mailboxes s)"
    using place price(1) by (auto simp: mem_place_order_def Let_def r_def m'_def id)
  have leases: "mem_leases s1 = (mem_leases s)(k \<mapsto> ord_ID r)"
    using mem_leases_put [OF mb] r(6) by (simp add: m'_def)
  have none: "mem_leases s k = None" using mk free by (simp add: mem_leases_def map_leases_def named_leases_def)
  have "mem_moves (taken_by (Created order)) s s1"
    using mem_place_moves [OF inv mk [folded id] free, of env uid user service providers rid] place by simp
  then have inv1: "mem_ok s1" by (simp add: mem_moves_def)
  have o1: "map_of (st_orders s1) (ord_ID r) = Some r" and u1: "map_of (st_users s1) uid = Some (user\<lparr>usr_Balance := fl (usr_Balance user - price)\<rparr>)"
    by (simp_all add: s1 update_conv')
  have undone: "\<exists>order' s2 user'. mem_CancelOrder env' (ord_ID order) uid s1 = (Inr order', s2)
         \<and> ord_Status order' = OrderCanceled \<and> mem_leases s2 = mem_leases s
         \<and> map_of (st_users s2) uid = Some user' \<and> \<bar>usr_Balance user' - usr_Balance user\<bar> \<le> 3 * ulp * usr_Balance user"
    using mem_cancel_open [OF inv1 o1 r(5,4) u1, of env'] leases none fl_refund_error [OF price(2), of "usr_Balance user"] price(3) c(5)
    by (auto simp: r fun_upd_idem_iff)
  have highest: "mbx_HealthScore x \<le> mbx_HealthScore m"
    if "map_of (st_mailboxes s) k' = Some x" "mem_ready (clock env 0) providers (svc_ID service) x" for k' x
  proof -
    have "x \<in> set (map snd (st_mailboxes s))" using map_of_SomeD [OF that(1)] by force
    then show ?thesis using best_mailbox_best [OF best] that(2) by blast
  qed
  show ?thesis
    using c mk ready highest price undone leases u1 r by (intro exI [of _ user] exI [of _ service] exI [of _ m] exI [of _ price])
      (auto simp: ready_eq id)
qed


definition demo_store :: Store where
  "demo_store = \<lparr>
     st_users = [(''u'', \<lparr> usr_ID = ''u'', usr_Email = ''a@b.c'', usr_Balance = 2, usr_Role = ''user'', usr_Status = [],
       usr_DisplayName = [], usr_CreatedAt = 0 \<rparr>)],
     st_services = [(''s'', \<lparr> svc_ID = ''s'', svc_Code = ''krea'', svc_Name = ''Krea'', svc_Description = [], svc_Enabled = True,
       svc_AllowedProviders = [''outlook''], svc_ProviderPrices = [(''outlook'', 1)], svc_TTLSeconds = 1800,
       svc_SenderDomains = [], svc_SubjectKeywords = [], svc_Regex = [] \<rparr>)],
     st_mailboxes = [(''m'', \<lparr> mbx_ID = ''m'', mbx_Address = ''x@outlook.com'', mbx_Provider = ''outlook'', mbx_Pool = [],
       mbx_State = MailboxAvailable, mbx_HealthScore = 90, mbx_OAuthValidUntil = 0, mbx_ActiveOrderID = [], mbx_TodayCodes = 0,
       mbx_LastReceivedAt = 0, mbx_ConnectionMethod = MailboxConnectionIMAP,
       mbx_VerificationStatus = MailboxVerificationVerified, mbx_LastVerifiedAt = 0, mbx_VerificationError = [],
       mbx_RegisteredPlatforms = [], mbx_Services = [(''s'', \<lparr> mbs_ServiceID = ''s'', mbs_State = ServiceAvailable,
         mbs_TimeoutCount = 0, mbs_ChangedAt = 0 \<rparr>)] \<rparr>)],
     st_orders = [], st_systemConfigs = [], st_seq = 0 \<rparr>"

lemma mem_order_round_trip_witness:
  "\<exists>order s1 order' s2. mem_CreateOrder (quiet_env 0) ''u'' ''s'' ''q'' [''outlook''] demo_store = (Created order, s1)
     \<and> mem_leases s1 ''m'' = Some (ord_ID order) \<and> ord_Price order = 1
     \<and> mem_CancelOrder (quiet_env 1) (ord_ID order) ''u'' s1 = (Inr order', s2) \<and> mem_leases s2 ''m'' = None"
proof -
  have ok: "mem_ok demo_store"
    by (simp add: mem_ok_def demo_store_def mem_leases_ok_def mem_bound_def pair_leased_def)
  have "IsSupportedMailboxProvider ''outlook''" "to_lower ''outlook'' = ''outlook''" by code_simp+
  then have "\<exists>order s1. mem_CreateOrder (quiet_env 0) ''u'' ''s'' ''q'' [''outlook''] demo_store = (Created order, s1)"
    by (simp add: mem_CreateOrder_def demo_store_def validateOrderProviders_def trim_space_def is_space_def provider_ok_def
      containsString_def mem_ready_def mailboxConnectionValid_def mem_place_order_def Let_def)
  then obtain order s1 where c: "mem_CreateOrder (quiet_env 0) ''u'' ''s'' ''q'' [''outlook''] demo_store = (Created order, s1)"
    by blast
  have m: "map_of (st_mailboxes demo_store) k = Some x \<Longrightarrow> mbx_ID x = ''m'' \<and> mbx_Provider x = ''outlook''" for k x
    by (auto simp: demo_store_def split: if_splits)
  have s: "map_of (st_services demo_store) ''s'' = Some service \<Longrightarrow> map_of (svc_ProviderPrices service) ''outlook'' = Some 1" for service
    by (auto simp: demo_store_def)
  have "mem_leases demo_store ''m'' = None"
    by (simp add: mem_leases_def map_leases_def named_leases_def demo_store_def)
  then show ?thesis
    using mem_order_round_trip [OF ok c, of "quiet_env 1"] m s c by (metis (no_types, lifting) fun_upd_same option.inject)
qed

end
