(* ===== verification/Accounts.thy ===== *)
theory Accounts
  imports Wallet
begin

text \<open>
  Accounts, \<^verbatim>\<open>internal/store/postgres_accounts.go\<close>: registration, sessions, API keys, passwords and
  the administrator's balance adjustment.  Hashing and encryption are the argument \<open>cr\<close>, fresh random
  text comes from the environment.
\<close>

subsection \<open>Tokens\<close>

definition randomToken :: "env \<Rightarrow> nat \<Rightarrow> string \<Rightarrow> string stx" where
  "randomToken env n pre = (case random env n of None \<Rightarrow> tx_fail ErrRandom | Some r \<Rightarrow> tx_return (pre @ r))"

definition session_lifetime :: time where "session_lifetime = 7 * 24 * hour"

definition createSession :: "crypto \<Rightarrow> env \<Rightarrow> nat \<Rightarrow> string \<Rightarrow> string stx" where
  "createSession cr env n userID =
     tx_bind (randomToken env n ''hs_'') (\<lambda>token.
       tx_then (create_session_row env n \<lparr> ss_ID = uuid env n, ss_UserID = userID,
           ss_TokenHash = cr_hash_token cr token, ss_ExpiresAt = clock env n + session_lifetime,
           ss_CreatedAt = zero_time, ss_RevokedAt = None \<rparr>)
         (tx_return token))"

subsection \<open>Registration and login\<close>

definition Register :: "crypto \<Rightarrow> env \<Rightarrow> string \<Rightarrow> string \<Rightarrow> string \<Rightarrow> (User \<times> string) stx" where
  "Register cr env email0 password displayName =
     (let email = to_lower (trim_space email0)
      in if email = [] \<or> length password < 10 then tx_fail ErrInvalidCredentials
         else case cr_bcrypt cr 0 password of
             None \<Rightarrow> tx_fail ErrHash
           | Some h \<Rightarrow>
             let user = \<lparr> u_ID = uuid env 0, u_Email = email, u_PasswordHash = h, u_Role = ''user'',
                   u_Status = ''active'', u_BalanceCents = 0, u_DisplayName = trim_space displayName,
                   u_CreatedAt = stamp env 0, u_LastLoginAt = None \<rparr>
             in tx_bind tx_get (\<lambda>db.
                  case create_user env 0 user db of
                    Inl ErrDuplicatedKey \<Rightarrow> tx_fail ErrEmailExists
                  | Inl e \<Rightarrow> tx_fail e
                  | Inr (_, db1) \<Rightarrow> tx_then (tx_put (\<lambda>_. db1))
                      (tx_bind (createSession cr env 1 (u_ID user)) (\<lambda>token.
                        tx_then (create_audit env 2 (audit_row (uuid env 2) (u_ID user) ''user.register''
                                  ''user'' (u_ID user) msg_register []))
                          (tx_return (mapUser user, token))))))"

definition find_login :: "string \<Rightarrow> db \<Rightarrow> sqlUser option" where
  "find_login email db = row_first u_ID
     (\<lambda>u. u_Email u = to_lower (trim_space email) \<and> u_Status u = ''active'') (db_users db)"

definition Login :: "crypto \<Rightarrow> env \<Rightarrow> string \<Rightarrow> string \<Rightarrow> (User \<times> string) stx" where
  "Login cr env email password =
     tx_bind (tx_first env 0 ErrInvalidCredentials (find_login email))
     (\<lambda>user. tx_then (tx_guard (cr_bcrypt_ok cr (u_PasswordHash user) password) ErrInvalidCredentials)
       (tx_bind (createSession cr env 1 (u_ID user)) (\<lambda>token.
         tx_then (tx_update env 2 (\<lambda>db. db\<lparr>db_users := upd_rows (\<lambda>u. u_ID u = u_ID user)
                    (\<lambda>u. u\<lparr>u_LastLoginAt := Some (clock env 2)\<rparr>) (db_users db)\<rparr>))
           (tx_return (mapUser user, token)))))"

subsection \<open>Authentication\<close>

definition active_user :: "string \<Rightarrow> db \<Rightarrow> sqlUser option" where
  "active_user uid db = row_find (\<lambda>u. u_ID u = uid \<and> u_Status u = ''active'') (db_users db)"

definition live_session :: "string \<Rightarrow> time \<Rightarrow> sqlSession \<Rightarrow> bool" where
  "live_session h now s \<longleftrightarrow> ss_TokenHash s = h \<and> ss_RevokedAt s = None \<and> ss_ExpiresAt s > now"

definition live_key :: "string \<Rightarrow> time \<Rightarrow> sqlAPIKey \<Rightarrow> bool" where
  "live_key h now k \<longleftrightarrow> k_SecretHash k = h \<and> k_RevokedAt k = None
     \<and> (case k_ExpiresAt k of None \<Rightarrow> True | Some t \<Rightarrow> t > now)"

text \<open>\<open>None\<close> is the source's \<^verbatim>\<open>(domain.User{}, false)\<close>; the update of the last use has its error ignored.\<close>

definition ResolveAccessToken :: "crypto \<Rightarrow> env \<Rightarrow> string \<Rightarrow> db \<Rightarrow> User option \<times> db" where
  "ResolveAccessToken cr env token db =
     (let h = cr_hash_token cr token;
          user_of = (\<lambda>uid. if db_fail env 1 then None else active_user uid db)
      in if has_prefix token ''hs_'' then
           (case (if db_fail env 0 then None else row_first ss_ID (live_session h (clock env 0)) (db_sessions db)) of
              None \<Rightarrow> (None, db)
            | Some session \<Rightarrow>
              (case user_of (ss_UserID session) of None \<Rightarrow> (None, db) | Some user \<Rightarrow> (Some (mapUser user), db)))
         else if has_prefix token ''hm_'' then
           (case (if db_fail env 0 then None else row_first k_ID (live_key h (clock env 0)) (db_api_keys db)) of
              None \<Rightarrow> (None, db)
            | Some key \<Rightarrow>
              (case user_of (k_UserID key) of
                 None \<Rightarrow> (None, db)
               | Some user \<Rightarrow> (Some (mapUser user),
                   if db_fail env 2 then db
                   else db\<lparr>db_api_keys := upd_rows (\<lambda>k. k_ID k = k_ID key)
                          (\<lambda>k. k\<lparr>k_LastUsedAt := Some (clock env 1)\<rparr>) (db_api_keys db)\<rparr>)))
         else (None, db))"

definition revoke_sessions :: "(sqlSession \<Rightarrow> bool) \<Rightarrow> time \<Rightarrow> db \<Rightarrow> db" where
  "revoke_sessions P now db = db\<lparr>db_sessions := upd_rows (\<lambda>s. P s \<and> ss_RevokedAt s = None)
     (\<lambda>s. s\<lparr>ss_RevokedAt := Some now\<rparr>) (db_sessions db)\<rparr>"

definition Logout :: "crypto \<Rightarrow> env \<Rightarrow> string \<Rightarrow> unit stx" where
  "Logout cr env token =
     (if \<not> has_prefix token ''hs_'' then tx_return ()
      else tx_update env 0 (revoke_sessions (\<lambda>s. ss_TokenHash s = cr_hash_token cr token) (clock env 0)))"

subsection \<open>Profile and password\<close>

definition UpdateProfile :: "env \<Rightarrow> string \<Rightarrow> string \<Rightarrow> User stx" where
  "UpdateProfile env userID displayName =
     tx_then (tx_update env 0 (\<lambda>db. db\<lparr>db_users := upd_rows (\<lambda>u. u_ID u = userID)
                (\<lambda>u. u\<lparr>u_DisplayName := trim_space displayName\<rparr>) (db_users db)\<rparr>))
       (tx_bind (tx_first env 1 ErrUserNotFound (\<lambda>db. row_find (\<lambda>u. u_ID u = userID) (db_users db)))
         (\<lambda>user. tx_return (mapUser user)))"

definition ChangePassword :: "crypto \<Rightarrow> env \<Rightarrow> string \<Rightarrow> string \<Rightarrow> string \<Rightarrow> string stx" where
  "ChangePassword cr env userID currentPassword newPassword =
     (if length newPassword < 10 then tx_fail ErrPasswordTooShort
      else tx_bind (tx_first env 0 ErrInvalidCredentials (active_user userID))
      (\<lambda>user. tx_then (tx_guard (cr_bcrypt_ok cr (u_PasswordHash user) currentPassword) ErrPasswordMismatch)
        (case cr_bcrypt cr 0 newPassword of
           None \<Rightarrow> tx_fail ErrHash
         | Some h \<Rightarrow>
           tx_then (tx_update env 1 (\<lambda>db. db\<lparr>db_users := upd_rows (\<lambda>u. u_ID u = userID)
                      (\<lambda>u. u\<lparr>u_PasswordHash := h\<rparr>) (db_users db)\<rparr>))
             (tx_then (tx_update env 2 (revoke_sessions (\<lambda>s. ss_UserID s = userID) (clock env 0)))
               (createSession cr env 3 userID)))))"

subsection \<open>API keys\<close>

definition CreateAPIKey :: "crypto \<Rightarrow> env \<Rightarrow> string \<Rightarrow> string \<Rightarrow> string list \<Rightarrow> (APIKey \<times> string) stx" where
  "CreateAPIKey cr env userID name scopes0 =
     tx_bind (randomToken env 0 ''hm_'') (\<lambda>secret.
       let scopes = (if scopes0 = [] then [''orders:read'', ''orders:write''] else scopes0);
           pre = (if length secret > 12 then take 12 secret else secret);
           name' = trim_space name;
           row = \<lparr> k_ID = uuid env 0, k_UserID = userID,
             k_Name = (if name' = [] then msg_default_key else name'), k_Prefix = pre,
             k_SecretHash = cr_hash_token cr secret, k_Scopes = scopes, k_LastUsedAt = None,
             k_ExpiresAt = None, k_RevokedAt = None, k_CreatedAt = stamp env 0 \<rparr>
       in tx_then (create_api_key env 0 row) (tx_return (mapAPIKey row, secret)))"

definition RevokeAPIKey :: "env \<Rightarrow> string \<Rightarrow> string \<Rightarrow> unit stx" where
  "RevokeAPIKey env userID keyID =
     (let P = (\<lambda>k. k_ID k = keyID \<and> k_UserID k = userID \<and> k_RevokedAt k = None)
      in tx_bind (tx_read env 0 (\<lambda>db. count_rows P (db_api_keys db)))
         (\<lambda>affected. tx_then (tx_put (\<lambda>db. db\<lparr>db_api_keys :=
              upd_rows P (\<lambda>k. k\<lparr>k_RevokedAt := Some (clock env 0)\<rparr>) (db_api_keys db)\<rparr>))
            (tx_guard (affected \<noteq> 0) ErrAPIKeyNotFound)))"

subsection \<open>Balance adjustment and audit\<close>

definition AdjustBalance :: "env \<Rightarrow> string \<Rightarrow> string \<Rightarrow> float64 \<Rightarrow> string \<Rightarrow> string \<Rightarrow> User stx" where
  "AdjustBalance env actorID userID amount description0 ip =
     (let description = (if trim_space description0 = [] then msg_balance_adjustment else trim_space description0);
          amountCents = cents amount
      in tx_bind (tx_one env 0 (\<lambda>db. row_find (\<lambda>u. u_ID u = userID) (db_users db)))
         (\<lambda>user. tx_then (tx_guard (\<not> u_BalanceCents user + amountCents < 0) ErrInsufficientBalance)
           (let balance = u_BalanceCents user + amountCents
            in tx_then (set_balance env 1 (u_ID user) balance)
              (tx_then (create_ledger env 2 (ledger_row (uuid env 2) (u_ID user) [] [] ''admin_adjustment''
                          amountCents balance description))
              (tx_then (create_audit env 3 (audit_row (uuid env 3) actorID ''wallet.adjust'' ''user''
                          (u_ID user) description ip))
              (tx_return (mapUser (user\<lparr>u_BalanceCents := balance\<rparr>))))))))"

definition WriteAudit ::
  "env \<Rightarrow> string \<Rightarrow> string \<Rightarrow> string \<Rightarrow> string \<Rightarrow> string \<Rightarrow> string \<Rightarrow> unit stx" where
  "WriteAudit env actorID action rtype rid detail ip =
     create_audit env 0 (audit_row (uuid env 0) actorID action rtype rid detail ip)"


subsection \<open>Tokens that authenticate\<close>

lemmas account_defs = ResolveAccessToken_def active_user_def live_session_def live_key_def

text \<open>What a token is worth: a live session or a live key of an active user.\<close>

definition token_worth :: "crypto \<Rightarrow> string \<Rightarrow> time \<Rightarrow> db \<Rightarrow> sqlUser \<Rightarrow> bool" where
  "token_worth cr token now db u \<longleftrightarrow> u \<in> set (db_users db) \<and> u_Status u = ''active''
     \<and> (if has_prefix token ''hs_''
        then \<exists>s\<in>set (db_sessions db). ss_UserID s = u_ID u \<and> ss_TokenHash s = cr_hash_token cr token
               \<and> ss_RevokedAt s = None \<and> now < ss_ExpiresAt s
        else has_prefix token ''hm_'' \<and> (\<exists>k\<in>set (db_api_keys db). k_UserID k = u_ID u
               \<and> k_SecretHash k = cr_hash_token cr token \<and> k_RevokedAt k = None
               \<and> (\<forall>t. k_ExpiresAt k = Some t \<longrightarrow> now < t)))"

lemma ResolveAccessToken_cases:
  assumes "ResolveAccessToken cr env token db = (Some usr, db')"
  obtains (session) s u where "has_prefix token ''hs_''"
      "row_first ss_ID (live_session (cr_hash_token cr token) (clock env 0)) (db_sessions db) = Some s"
      "active_user (ss_UserID s) db = Some u" "usr = mapUser u" "db' = db"
  | (key) k u where "\<not> has_prefix token ''hs_''" "has_prefix token ''hm_''"
      "row_first k_ID (live_key (cr_hash_token cr token) (clock env 0)) (db_api_keys db) = Some k"
      "active_user (k_UserID k) db = Some u" "usr = mapUser u" "db'\<lparr>db_api_keys := db_api_keys db\<rparr> = db"
proof (cases "has_prefix token ''hs_''")
  case True
  let ?s = "row_first ss_ID (live_session (cr_hash_token cr token) (clock env 0)) (db_sessions db)"
  have r: "(if db_fail env 0 then None else ?s) \<noteq> None \<and> \<not> db_fail env 1
      \<and> active_user (ss_UserID (the ?s)) db \<noteq> None
      \<and> usr = mapUser (the (active_user (ss_UserID (the ?s)) db)) \<and> db' = db"
    using assms unfolding ResolveAccessToken_def Let_def if_P [OF True]
    by (cases "db_fail env 0"; cases ?s; cases "db_fail env 1"; cases "active_user (ss_UserID (the ?s)) db") simp_all
  then obtain s where s: "?s = Some s" by (cases ?s) (simp_all split: if_splits)
  obtain u where u: "active_user (ss_UserID s) db = Some u" using r s by auto
  show thesis by (rule that(1) [OF True s u]) (use r s u in simp_all)
next
  case False
  let ?k = "row_first k_ID (live_key (cr_hash_token cr token) (clock env 0)) (db_api_keys db)"
  have hm: "has_prefix token ''hm_''"
    using assms unfolding ResolveAccessToken_def Let_def if_not_P [OF False] by (simp split: if_splits)
  have r: "(if db_fail env 0 then None else ?k) \<noteq> None \<and> \<not> db_fail env 1
      \<and> active_user (k_UserID (the ?k)) db \<noteq> None
      \<and> usr = mapUser (the (active_user (k_UserID (the ?k)) db)) \<and> db'\<lparr>db_api_keys := db_api_keys db\<rparr> = db"
    using assms unfolding ResolveAccessToken_def Let_def if_not_P [OF False] if_P [OF hm]
    by (cases "db_fail env 0"; cases ?k; cases "db_fail env 1"; cases "active_user (k_UserID (the ?k)) db";
        cases "db_fail env 2") auto
  then obtain k where k: "?k = Some k" by (cases ?k) (simp_all split: if_splits)
  obtain u where u: "active_user (k_UserID k) db = Some u" using r k by auto
  show thesis by (rule that(2) [OF False hm k u]) (use r k u in simp_all)
qed

lemma ResolveAccessToken_worth:
  assumes "ResolveAccessToken cr env token db = (Some usr, db')"
  shows "(\<exists>u. usr = mapUser u \<and> token_worth cr token (clock env 0) db u)
    \<and> db'\<lparr>db_api_keys := db_api_keys db\<rparr> = db"
  using assms
proof (cases rule: ResolveAccessToken_cases)
  case (session s u)
  have "s \<in> set (db_sessions db)" "live_session (cr_hash_token cr token) (clock env 0) s"
    using row_first_Some [OF session(2)] by simp_all
  moreover have "u \<in> set (db_users db)" "u_ID u = ss_UserID s" "u_Status u = ''active''"
    using row_find_Some [OF session(3) [unfolded active_user_def]] by simp_all
  ultimately have "token_worth cr token (clock env 0) db u"
    using session(1) by (auto simp: token_worth_def live_session_def)
  then show ?thesis using session(4,5) by auto
next
  case (key k u)
  have "k \<in> set (db_api_keys db)" "live_key (cr_hash_token cr token) (clock env 0) k"
    using row_first_Some [OF key(3)] by simp_all
  moreover have "u \<in> set (db_users db)" "u_ID u = k_UserID k" "u_Status u = ''active''"
    using row_find_Some [OF key(4) [unfolded active_user_def]] by simp_all
  ultimately have "token_worth cr token (clock env 0) db u"
    using key(1,2) by (auto simp: token_worth_def live_key_def split: option.splits)
  then show ?thesis using key(5,6) by auto
qed

lemma ResolveAccessToken_dead:
  assumes "\<And>u. \<not> token_worth cr token (clock env 0) db u"
  shows "ResolveAccessToken cr env token db = (None, db)"
proof -
  obtain r db' where r: "ResolveAccessToken cr env token db = (r, db')" by (cases "ResolveAccessToken cr env token db")
  show ?thesis
  proof (cases r)
    case None
    then show ?thesis using r by (auto simp: ResolveAccessToken_def Let_def split: if_splits option.splits)
  next
    case (Some usr)
    then show ?thesis using ResolveAccessToken_worth r assms by blast
  qed
qed

text \<open>The converse for a session: one unrevoked, unexpired row of an active user is enough.\<close>

lemma ResolveAccessToken_session:
  assumes "has_prefix token ''hs_''" "\<not> db_fail env 0" "\<not> db_fail env 1"
    and "distinct (map ss_TokenHash (db_sessions db))" "distinct (map u_ID (db_users db))"
    and "s \<in> set (db_sessions db)" "ss_TokenHash s = cr_hash_token cr token" "ss_RevokedAt s = None"
    and "clock env 0 < ss_ExpiresAt s" and "u \<in> set (db_users db)" "u_ID u = ss_UserID s" "u_Status u = ''active''"
  shows "ResolveAccessToken cr env token db = (Some (mapUser u), db)"
proof -
  have "row_first ss_ID (live_session (cr_hash_token cr token) (clock env 0)) (db_sessions db) \<noteq> None"
    unfolding row_first_None using assms(6-9) by (auto simp: live_session_def)
  then obtain s' where s': "row_first ss_ID (live_session (cr_hash_token cr token) (clock env 0)) (db_sessions db) = Some s'"
    by blast
  have "s' = s"
    using key_unique [OF assms(4) _ assms(6)] row_first_Some [OF s'] assms(7) by (simp add: live_session_def)
  moreover have "active_user (u_ID u) db = Some u"
  proof -
    obtain u' where u': "active_user (u_ID u) db = Some u'"
      using assms(10,12) by (cases "active_user (u_ID u) db") (auto simp: active_user_def row_find_None)
    then show ?thesis
      using key_unique [OF assms(5) _ assms(10)] row_find_Some [OF u' [unfolded active_user_def]] by simp
  qed
  ultimately show ?thesis using assms(1-3,11) s' by (simp add: ResolveAccessToken_def Let_def)
qed

text \<open>C11: A token that authenticates is worth it: it is the unrevoked, unexpired session or API key of an active user, and
  that user is the one returned; the check changes nothing but the last use of a key.\<close>

theorem resolved_token_is_live:
  assumes "ResolveAccessToken cr env token db = (Some usr, db')"
  shows "(\<exists>u. usr = mapUser u \<and> token_worth cr token (clock env 0) db u)
    \<and> db'\<lparr>db_api_keys := db_api_keys db\<rparr> = db"
  by (rule ResolveAccessToken_worth [OF assms])

definition demo_session_db :: db where
  "demo_session_db = demo_db\<lparr>db_sessions := [\<lparr> ss_ID = ''x'', ss_UserID = ''u1'', ss_TokenHash = ''#hs_1'',
     ss_ExpiresAt = 100, ss_CreatedAt = 0, ss_RevokedAt = None \<rparr>],
     db_api_keys := [\<lparr> k_ID = ''k1'', k_UserID = ''u1'', k_Name = ''n'', k_Prefix = ''hm_'', k_SecretHash = ''#hm_1'',
       k_Scopes = [], k_LastUsedAt = None, k_ExpiresAt = None, k_RevokedAt = None, k_CreatedAt = 0 \<rparr>]\<rparr>"

lemma resolved_token_is_live_witness:
  "ResolveAccessToken plain_crypto (quiet_env 5) ''hs_1'' demo_session_db = (Some (mapUser demo_user), demo_session_db)
   \<and> (\<exists>u. mapUser demo_user = mapUser u \<and> token_worth plain_crypto ''hs_1'' 5 demo_session_db u)"
proof -
  have "ResolveAccessToken plain_crypto (quiet_env 5) ''hs_1'' demo_session_db = (Some (mapUser demo_user), demo_session_db)"
    by code_simp
  from this and resolved_token_is_live [OF this] show ?thesis by simp
qed

subsection \<open>Ending sessions\<close>

lemma revoked_session_dead:
  assumes "s' \<in> set (db_sessions (revoke_sessions P now db))" and "ss_RevokedAt s' = None"
  shows "s' \<in> set (db_sessions db) \<and> \<not> P s'"
proof -
  obtain s where s: "s \<in> set (db_sessions db)"
      "s' = (if P s \<and> ss_RevokedAt s = None then s\<lparr>ss_RevokedAt := Some now\<rparr> else s)"
    using assms(1) by (auto simp: revoke_sessions_def set_upd_rows)
  then have "\<not> (P s \<and> ss_RevokedAt s = None)" using assms(2) by (cases "P s \<and> ss_RevokedAt s = None") simp_all
  then show ?thesis using s assms(2) by auto
qed

text \<open>After a successful logout the token is dead for good: no later check of it succeeds, whatever the clock says, and
  the sessions of other tokens are untouched.\<close>

theorem logout_ends_session:
  assumes "run_tx (Logout cr env token) db = (Inr (), db')" and "has_prefix token ''hs_''"
  shows "fst (ResolveAccessToken cr env' token db') = None
    \<and> (ss_TokenHash s \<noteq> cr_hash_token cr token \<longrightarrow> (s \<in> set (db_sessions db') \<longleftrightarrow> s \<in> set (db_sessions db)))"
proof -
  let ?P = "\<lambda>s. ss_TokenHash s = cr_hash_token cr token"
  have db': "db' = revoke_sessions ?P (clock env 0) db"
    using assms by (auto simp: Logout_def run_tx_def stmt_defs tx_defs split: if_splits)
  have "\<not> token_worth cr token (clock env' 0) db' u" for u
    using revoked_session_dead [where P = ?P and now = "clock env 0" and db = db] assms(2)
    by (auto simp: token_worth_def db')
  then have "fst (ResolveAccessToken cr env' token db') = None"
    using ResolveAccessToken_dead by simp
  moreover have "s \<in> set (db_sessions db') \<longleftrightarrow> s \<in> set (db_sessions db)" if "ss_TokenHash s \<noteq> cr_hash_token cr token"
    using that by (auto simp: db' revoke_sessions_def set_upd_rows intro: bexI [of _ s])
  ultimately show ?thesis by blast
qed

lemma logout_ends_session_witness:
  "ResolveAccessToken plain_crypto (quiet_env 5) ''hs_1'' demo_session_db \<noteq> (None, demo_session_db)
   \<and> fst (ResolveAccessToken plain_crypto (quiet_env 5) ''hs_1''
        (snd (run_tx (Logout plain_crypto (quiet_env 4) ''hs_1'') demo_session_db))) = None"
proof -
  let ?run = "run_tx (Logout plain_crypto (quiet_env 4) ''hs_1'') demo_session_db"
  have "fst ?run = Inr ()" by code_simp
  then obtain db' where "?run = (Inr (), db')" by (cases ?run) auto
  moreover have "has_prefix ''hs_1'' ''hs_''" by (simp add: has_prefix_def)
  moreover have "ResolveAccessToken plain_crypto (quiet_env 5) ''hs_1'' demo_session_db \<noteq> (None, demo_session_db)" by code_simp
  ultimately show ?thesis
    using logout_ends_session [where cr = plain_crypto and token = "''hs_1''" and db = demo_session_db
        and env = "quiet_env 4" and env' = "quiet_env 5" and db' = db'] by simp
qed

lemma tx_ok_createSession:
  "tx_ok (createSession cr env n uid) db Q \<longleftrightarrow>
     (\<forall>r. random env n = Some r \<longrightarrow> \<not> db_fail env n \<longrightarrow> uuid env n \<notin> ss_ID ` set (db_sessions db) \<longrightarrow>
        cr_hash_token cr (''hs_'' @ r) \<notin> ss_TokenHash ` set (db_sessions db) \<longrightarrow>
        Q (''hs_'' @ r) (db\<lparr>db_sessions := db_sessions db @ [\<lparr> ss_ID = uuid env n, ss_UserID = uid,
           ss_TokenHash = cr_hash_token cr (''hs_'' @ r), ss_ExpiresAt = clock env n + session_lifetime,
           ss_CreatedAt = stamp env n, ss_RevokedAt = None \<rparr>]\<rparr>))"
  by (cases "random env n")
    (auto simp: createSession_def randomToken_def create_session_row_def fresh_key_def tx_simps)

definition password_changed :: "crypto \<Rightarrow> env \<Rightarrow> string \<Rightarrow> string \<Rightarrow> string \<Rightarrow> db \<Rightarrow> string \<Rightarrow> db \<Rightarrow> bool" where
  "password_changed cr env uid cur new db token db' \<longleftrightarrow> 10 \<le> length new
     \<and> (\<exists>u h r. active_user uid db = Some u \<and> cr_bcrypt_ok cr (u_PasswordHash u) cur \<and> cr_bcrypt cr 0 new = Some h
        \<and> random env 3 = Some r \<and> token = ''hs_'' @ r
        \<and> cr_hash_token cr token \<notin> ss_TokenHash ` set (db_sessions db)
        \<and> db' = db\<lparr>db_users := upd_rows (\<lambda>u. u_ID u = uid) (\<lambda>u. u\<lparr>u_PasswordHash := h\<rparr>) (db_users db),
            db_sessions := upd_rows (\<lambda>s. ss_UserID s = uid \<and> ss_RevokedAt s = None)
                (\<lambda>s. s\<lparr>ss_RevokedAt := Some (clock env 0)\<rparr>) (db_sessions db)
              @ [\<lparr> ss_ID = uuid env 3, ss_UserID = uid, ss_TokenHash = cr_hash_token cr token,
                 ss_ExpiresAt = clock env 3 + session_lifetime, ss_CreatedAt = stamp env 3, ss_RevokedAt = None \<rparr>]\<rparr>)"

lemma hash_upd_revoked [simp]:
  "ss_TokenHash ` set (upd_rows P (\<lambda>s. s\<lparr>ss_RevokedAt := x\<rparr>) t) = ss_TokenHash ` set t"
proof -
  have "map ss_TokenHash (upd_rows P (\<lambda>s. s\<lparr>ss_RevokedAt := x\<rparr>) t) = map ss_TokenHash t"
    by (rule map_key_upd_rows) simp
  then show ?thesis by (metis set_map)
qed

lemma ChangePassword_effect:
  "tx_ok (ChangePassword cr env uid cur new) db (password_changed cr env uid cur new db)"
  unfolding ChangePassword_def tx_ok_if tx_ok_bind tx_ok_first tx_ok_then tx_ok_guard tx_ok_fail tx_ok_option
    tx_ok_update tx_ok_createSession
  by (auto simp: password_changed_def revoke_sessions_def tx_ok_fail)

text \<open>C10: Changing the password takes the current password and ten characters for the new one; it stores
  a hash of the new one, ends every earlier session of the user, and the token it returns is the user's
  live session until it expires.\<close>

theorem change_password_ends_sessions:
  assumes "run_tx (ChangePassword cr env uid cur new) db = (Inr token, db')"
    and "distinct (map ss_TokenHash (db_sessions db))" "distinct (map u_ID (db_users db))"
  shows "10 \<le> length new
    \<and> (\<exists>u h. active_user uid db = Some u \<and> cr_bcrypt_ok cr (u_PasswordHash u) cur \<and> cr_bcrypt cr 0 new = Some h
        \<and> active_user uid db' = Some (u\<lparr>u_PasswordHash := h\<rparr>)
        \<and> (\<forall>env'. \<not> db_fail env' 0 \<and> \<not> db_fail env' 1 \<and> clock env' 0 < clock env 3 + session_lifetime \<longrightarrow>
             ResolveAccessToken cr env' token db' = (Some (mapUser (u\<lparr>u_PasswordHash := h\<rparr>)), db')))
    \<and> (\<forall>s\<in>set (db_sessions db). \<forall>old env'. ss_UserID s = uid \<and> has_prefix old ''hs_'' \<and> cr_hash_token cr old = ss_TokenHash s
        \<longrightarrow> fst (ResolveAccessToken cr env' old db') = None)"
proof -
  have pc: "password_changed cr env uid cur new db token db'"
    using ChangePassword_effect assms(1) by (meson run_tx_ok tx_okD)
  then obtain u h r where u: "active_user uid db = Some u" "cr_bcrypt_ok cr (u_PasswordHash u) cur"
      and h: "cr_bcrypt cr 0 new = Some h" and tok: "token = ''hs_'' @ r"
      and fresh: "cr_hash_token cr token \<notin> ss_TokenHash ` set (db_sessions db)"
      and db': "db' = db\<lparr>db_users := upd_rows (\<lambda>u. u_ID u = uid) (\<lambda>u. u\<lparr>u_PasswordHash := h\<rparr>) (db_users db),
            db_sessions := upd_rows (\<lambda>s. ss_UserID s = uid \<and> ss_RevokedAt s = None)
                (\<lambda>s. s\<lparr>ss_RevokedAt := Some (clock env 0)\<rparr>) (db_sessions db)
              @ [\<lparr> ss_ID = uuid env 3, ss_UserID = uid, ss_TokenHash = cr_hash_token cr token,
                 ss_ExpiresAt = clock env 3 + session_lifetime, ss_CreatedAt = stamp env 3, ss_RevokedAt = None \<rparr>]\<rparr>"
    unfolding password_changed_def by blast
  have len: "10 \<le> length new" using pc by (simp add: password_changed_def)
  let ?u = "u\<lparr>u_PasswordHash := h\<rparr>"
  have um: "u \<in> set (db_users db)" "u_ID u = uid" "u_Status u = ''active''"
    using row_find_Some [OF u(1) [unfolded active_user_def]] by simp_all
  have um': "?u \<in> set (db_users db')"
    using um by (auto simp: db' intro: in_upd_rows_hit [where f = "\<lambda>u. u\<lparr>u_PasswordHash := h\<rparr>"])
  have du: "distinct (map u_ID (db_users db'))"
    using assms(3) by (simp add: db' map_key_upd_rows [where key = u_ID])
  have ds: "distinct (map ss_TokenHash (db_sessions db'))"
    using assms(2) fresh by (simp add: db' map_key_upd_rows [where key = ss_TokenHash])
  have res: "ResolveAccessToken cr env' token db' = (Some (mapUser ?u), db')"
    if "\<not> db_fail env' 0" "\<not> db_fail env' 1" "clock env' 0 < clock env 3 + session_lifetime" for env'
    by (rule ResolveAccessToken_session [OF _ that(1,2) ds du _ _ _ _ um', where s =
        "\<lparr> ss_ID = uuid env 3, ss_UserID = uid, ss_TokenHash = cr_hash_token cr token,
           ss_ExpiresAt = clock env 3 + session_lifetime, ss_CreatedAt = stamp env 3, ss_RevokedAt = None \<rparr>"])
      (use that um in \<open>simp_all add: db' tok has_prefix_def\<close>)
  have au: "active_user uid db' = Some ?u"
  proof -
    obtain v where v: "active_user uid db' = Some v"
      using um um' by (cases "active_user uid db'") (auto simp: active_user_def row_find_None)
    then show ?thesis
      using key_unique [OF du _ um'] row_find_Some [OF v [unfolded active_user_def]] um by simp
  qed
  have dead: "fst (ResolveAccessToken cr env' old db') = None"
    if s: "s \<in> set (db_sessions db)" "ss_UserID s = uid" and old: "has_prefix old ''hs_''" "cr_hash_token cr old = ss_TokenHash s"
    for s old env'
  proof -
    have "\<not> token_worth cr old (clock env' 0) db' v" for v
    proof
      assume "token_worth cr old (clock env' 0) db' v"
      then obtain s' where s': "s' \<in> set (db_sessions db')" "ss_TokenHash s' = ss_TokenHash s" "ss_RevokedAt s' = None"
        using old by (auto simp: token_worth_def)
      have "ss_TokenHash s \<noteq> cr_hash_token cr token" using fresh s(1) by (metis imageI)
      then have "s' \<in> set (db_sessions (revoke_sessions (\<lambda>s. ss_UserID s = uid) (clock env 0) db))"
        using s' by (auto simp: db' revoke_sessions_def)
      from revoked_session_dead [OF this s'(3)] have "s' \<in> set (db_sessions db)" "ss_UserID s' \<noteq> uid" by simp_all
      then show False using key_unique [OF assms(2) s(1)] s s' by metis
    qed
    then show ?thesis using ResolveAccessToken_dead by simp
  qed
  show ?thesis using len u h au res dead by blast
qed

lemma change_password_ends_sessions_witness:
  "\<exists>token db'. run_tx (ChangePassword plain_crypto (quiet_env 4) ''u1'' ''h'' ''0123456789'') demo_session_db = (Inr token, db')
   \<and> fst (ResolveAccessToken plain_crypto (quiet_env 5) ''hs_1'' db') = None
   \<and> fst (ResolveAccessToken plain_crypto (quiet_env 5) token db') \<noteq> None"
proof -
  let ?run = "run_tx (ChangePassword plain_crypto (quiet_env 4) ''u1'' ''h'' ''0123456789'') demo_session_db"
  have "is_ok (fst ?run)" by code_simp
  then obtain token db' where r: "?run = (Inr token, db')" by (cases ?run) (auto simp: is_ok_iff)
  have lt: "(5::int) < 4 + session_lifetime" by (simp add: session_lifetime_def hour_def minute_def second_def)
  have s: "\<lparr> ss_ID = ''x'', ss_UserID = ''u1'', ss_TokenHash = ''#hs_1'',
     ss_ExpiresAt = 100, ss_CreatedAt = 0, ss_RevokedAt = None \<rparr> \<in> set (db_sessions demo_session_db)"
    by (simp add: demo_session_db_def)
  have d: "distinct (map ss_TokenHash (db_sessions demo_session_db))" "distinct (map u_ID (db_users demo_session_db))"
    by (simp_all add: demo_session_db_def demo_defs)
  have "fst (ResolveAccessToken plain_crypto (quiet_env 5) ''hs_1'' db') = None"
    using change_password_ends_sessions [OF r d] s by (force simp: has_prefix_def)
  moreover have "fst (ResolveAccessToken plain_crypto (quiet_env 5) token db') \<noteq> None"
    using change_password_ends_sessions [OF r d] lt by (metis fst_conv option.distinct(1) quiet_env_simps(1,6))
  ultimately show ?thesis using r by blast
qed

subsection \<open>Registration and login\<close>

lemma createSession_users:
  "createSession cr env n uid db = Inr (token, db') \<Longrightarrow> db_users db' = db_users db"
  using tx_okD [of "createSession cr env n uid" db "\<lambda>_ db'. db_users db' = db_users db"]
  by (simp add: tx_ok_createSession)

definition registered_user :: "env \<Rightarrow> string \<Rightarrow> string \<Rightarrow> string \<Rightarrow> sqlUser" where
  "registered_user env email0 name h = \<lparr> u_ID = uuid env 0, u_Email = to_lower (trim_space email0), u_PasswordHash = h,
     u_Role = ''user'', u_Status = ''active'', u_BalanceCents = 0, u_DisplayName = trim_space name,
     u_CreatedAt = stamp env 0, u_LastLoginAt = None \<rparr>"

lemma Register_ok:
  assumes "Register cr env email0 password name db = Inr (res, db')"
  shows "\<exists>h. cr_bcrypt cr 0 password = Some h \<and> 10 \<le> length password \<and> trim_space email0 \<noteq> []
      \<and> to_lower (trim_space email0) \<notin> u_Email ` set (db_users db) \<and> uuid env 0 \<notin> u_ID ` set (db_users db)
      \<and> db_users db' = db_users db @ [registered_user env email0 name h]
      \<and> fst res = mapUser (registered_user env email0 name h)"
  using assms
  by (auto simp: Register_def Let_def create_user_def create_audit_def registered_user_def
      tx_insert_def tx_unique_def stmt_def tx_defs fresh_key_def mapUser_def
      split: sum.splits option.splits store_error.splits if_splits dest!: createSession_users)

lemma find_login_new:
  assumes "to_lower (trim_space email) \<notin> u_Email ` set (db_users db)"
    and "db_users db' = db_users db @ [u]" "u_Email u = to_lower (trim_space email)" "u_Status u = ''active''"
  shows "find_login email db' = Some u"
proof -
  have "filter (\<lambda>x. u_Email x = to_lower (trim_space email) \<and> u_Status x = ''active'') (db_users db) = []"
    using assms(1) by (auto simp: filter_empty_conv image_iff)
  then show ?thesis using assms(2-4) by (simp add: find_login_def row_first_def)
qed

text \<open>C33: Registration and login agree: after a registration the same address, in any case and spacing, and the
  same password log in as the registered user; a password whose check fails is refused; and the address cannot be
  registered again.\<close>

theorem register_then_login:
  assumes "run_tx (Register cr env email password name) db = (Inr (user, token), db1)"
    and "\<And>n p h. cr_bcrypt cr n p = Some h \<Longrightarrow> cr_bcrypt_ok cr h p"
    and "to_lower (trim_space email') = to_lower (trim_space email)"
    and "\<not> db_fail env' 0" "\<not> db_fail env' 1" "\<not> db_fail env' 2" "random env' 1 = Some r"
    and "uuid env' 1 \<notin> ss_ID ` set (db_sessions db1)"
    and "cr_hash_token cr (''hs_'' @ r) \<notin> ss_TokenHash ` set (db_sessions db1)"
  shows "fst (run_tx (Login cr env' email' password) db1) = Inr (user, ''hs_'' @ r)
    \<and> (\<exists>h. cr_bcrypt_ok cr h password \<and> (\<forall>wrong. \<not> cr_bcrypt_ok cr h wrong \<longrightarrow>
          run_tx (Login cr env' email' wrong) db1 = (Inl ErrInvalidCredentials, db1)))
    \<and> \<not> is_ok (fst (run_tx (Register cr env2 email' password2 name2) db1))"
proof -
  obtain h where h: "cr_bcrypt cr 0 password = Some h"
    and fresh: "to_lower (trim_space email') \<notin> u_Email ` set (db_users db)"
    and us: "db_users db1 = db_users db @ [registered_user env email name h]"
    and user: "user = mapUser (registered_user env email name h)"
    using Register_ok [of cr env email password name db "(user, token)" db1] assms(1,3) by (auto simp: run_tx_ok)
  have f: "find_login email' db1 = Some (registered_user env email name h)"
    by (rule find_login_new [OF fresh us]) (simp_all add: registered_user_def assms(3))
  have ok: "cr_bcrypt_ok cr h password" using assms(2) h by blast
  have cs: "createSession cr env' 1 uid db1 = Inr (''hs_'' @ r, db1\<lparr>db_sessions := db_sessions db1 @
      [\<lparr> ss_ID = uuid env' 1, ss_UserID = uid, ss_TokenHash = cr_hash_token cr (''hs_'' @ r),
         ss_ExpiresAt = clock env' 1 + session_lifetime, ss_CreatedAt = stamp env' 1, ss_RevokedAt = None \<rparr>]\<rparr>)" for uid
    using assms(5,7-9)
    by (simp add: createSession_def randomToken_def create_session_row_def fresh_key_def tx_insert_def tx_unique_def
        stmt_def tx_defs)
  have "fst (run_tx (Login cr env' email' password) db1) = Inr (user, ''hs_'' @ r)"
    using f ok cs [unfolded One_nat_def] assms(4,6)
    by (simp add: Login_def run_tx_def stmt_defs tx_defs registered_user_def user)
  moreover have "run_tx (Login cr env' email' wrong) db1 = (Inl ErrInvalidCredentials, db1)"
    if "\<not> cr_bcrypt_ok cr h wrong" for wrong
    using f that assms(4) by (simp add: Login_def run_tx_def stmt_defs tx_defs registered_user_def)
  moreover have "\<not> is_ok (fst (run_tx (Register cr env2 email' password2 name2) db1))"
  proof
    assume "is_ok (fst (run_tx (Register cr env2 email' password2 name2) db1))"
    then obtain res db2 where "run_tx (Register cr env2 email' password2 name2) db1 = (Inr res, db2)"
      by (cases "run_tx (Register cr env2 email' password2 name2) db1") (auto simp: is_ok_iff)
    then have "Register cr env2 email' password2 name2 db1 = Inr (res, db2)" by (simp add: run_tx_ok)
    then have "to_lower (trim_space email') \<notin> u_Email ` set (db_users db1)" using Register_ok by blast
    then show False by (simp add: us registered_user_def assms(3))
  qed
  ultimately show ?thesis using ok by blast
qed

lemma register_then_login_witness:
  "\<exists>token db1. run_tx (Register plain_crypto (quiet_env 4) '' New@b.c'' ''0123456789'' ''n'') demo_db = (Inr token, db1)
   \<and> is_ok (fst (run_tx (Login plain_crypto ((quiet_env 5)\<lparr>uuid := \<lambda>_. ''other'', random := \<lambda>_. Some ''other''\<rparr>)
        ''new@B.c'' ''0123456789'') db1))"
proof -
  let ?run = "run_tx (Register plain_crypto (quiet_env 4) '' New@b.c'' ''0123456789'' ''n'') demo_db"
  let ?env = "(quiet_env 5)\<lparr>uuid := \<lambda>_. ''other'', random := \<lambda>_. Some ''other''\<rparr>"
  have "is_ok (fst ?run)" and s: "map ss_ID (db_sessions (snd ?run)) = [''uu'']"
      "map ss_TokenHash (db_sessions (snd ?run)) = [''#hs_rr'']"
    by (simp_all add: Register_def createSession_def randomToken_def run_simps is_space_def to_lower_def to_lower_char_def)
  then obtain user token db1 where r: "?run = (Inr (user, token), db1)" by (cases ?run) (auto simp: is_ok_iff)
  have d: "\<not> db_fail ?env n" "random ?env n = Some ''other''" "uuid ?env n = ''other''" for n by simp_all
  have f: "''other'' \<notin> ss_ID ` set (db_sessions db1)" "''#hs_other'' \<notin> ss_TokenHash ` set (db_sessions db1)"
    using s r by (simp_all flip: set_map)
  have e: "to_lower (trim_space ''new@B.c'') = to_lower (trim_space '' New@b.c'')" by code_simp
  have "fst (run_tx (Login plain_crypto ?env ''new@B.c'' ''0123456789'') db1) = Inr (user, ''hs_other'')"
    using register_then_login [OF r _ e d(1) d(1) d(1) d(2), unfolded d(3)] f by simp
  then show ?thesis using r by (metis is_ok.simps(2))
qed

subsection \<open>The life of an API key\<close>

lemma CreateAPIKey_ok:
  assumes "CreateAPIKey cr env uid name scopes db = Inr ((key, secret), db1)"
  obtains r row where "secret = ''hm_'' @ r" "k_ID row = uuid env 0" "k_UserID row = uid"
      "k_SecretHash row = cr_hash_token cr secret" "k_ExpiresAt row = None" "k_RevokedAt row = None"
      "uuid env 0 \<notin> k_ID ` set (db_api_keys db)" "cr_hash_token cr secret \<notin> k_SecretHash ` set (db_api_keys db)"
      "db1 = db\<lparr>db_api_keys := db_api_keys db @ [row]\<rparr>" "ak_ID key = uuid env 0"
proof -
  obtain r where r: "random env 0 = Some r"
    using assms by (cases "random env 0") (simp_all add: CreateAPIKey_def randomToken_def tx_defs)
  let ?secret = "''hm_'' @ r"
  let ?name = "trim_space name"
  let ?row = "\<lparr> k_ID = uuid env 0, k_UserID = uid, k_Name = (if ?name = [] then msg_default_key else ?name),
      k_Prefix = (if length ?secret > 12 then take 12 ?secret else ?secret), k_SecretHash = cr_hash_token cr ?secret,
      k_Scopes = (if scopes = [] then [''orders:read'', ''orders:write''] else scopes), k_LastUsedAt = None,
      k_ExpiresAt = None, k_RevokedAt = None, k_CreatedAt = stamp env 0 \<rparr>"
  have nf: "\<not> db_fail env 0"
    using assms by (auto simp: CreateAPIKey_def r randomToken_def create_api_key_def tx_insert_def stmt_def tx_defs Let_def)
  have fr: "uuid env 0 \<notin> k_ID ` set (db_api_keys db) \<and> cr_hash_token cr ?secret \<notin> k_SecretHash ` set (db_api_keys db)"
  proof (rule ccontr)
    assume "\<not> ?thesis"
    then show False
      using assms nf by (auto simp: CreateAPIKey_def r randomToken_def create_api_key_def tx_insert_def tx_unique_def stmt_def
          tx_defs Let_def fresh_key_def)
  qed
  have "CreateAPIKey cr env uid name scopes db = Inr ((mapAPIKey ?row, ?secret), db\<lparr>db_api_keys := db_api_keys db @ [?row]\<rparr>)"
    using nf fr
    by (simp add: CreateAPIKey_def r randomToken_def create_api_key_def tx_insert_def tx_unique_def stmt_def tx_defs
        Let_def fresh_key_def)
  then have "secret = ?secret" "db1 = db\<lparr>db_api_keys := db_api_keys db @ [?row]\<rparr>" "key = mapAPIKey ?row"
    using assms by simp_all
  then show thesis using fr by (intro that [of r ?row]) (simp_all add: mapAPIKey_def)
qed

text \<open>C34: An API key works from its creation until its owner revokes it: the secret returned authenticates as the creator;
  a revocation by anybody else fails and changes nothing; after the owner's revocation no check of the secret succeeds.\<close>

theorem api_key_lifecycle:
  assumes "run_tx (CreateAPIKey cr env uid name scopes) db = (Inr (key, secret), db1)"
    and "distinct (map u_ID (db_users db))" "u \<in> set (db_users db)" "u_ID u = uid" "u_Status u = ''active''"
    and "\<And>n. \<not> db_fail env' n"
  shows "fst (ResolveAccessToken cr env' secret db1) = Some (mapUser u)
    \<and> (other \<noteq> uid \<longrightarrow> run_tx (RevokeAPIKey env' other (ak_ID key)) db1 = (Inl ErrAPIKeyNotFound, db1))
    \<and> (\<exists>db2. run_tx (RevokeAPIKey env' uid (ak_ID key)) db1 = (Inr (), db2)
         \<and> fst (ResolveAccessToken cr env'' secret db2) = None)"
proof -
  obtain r row where secret: "secret = ''hm_'' @ r" and row: "k_ID row = uuid env 0" "k_UserID row = uid"
      "k_SecretHash row = cr_hash_token cr secret" "k_ExpiresAt row = None" "k_RevokedAt row = None"
    and fresh: "uuid env 0 \<notin> k_ID ` set (db_api_keys db)" "cr_hash_token cr secret \<notin> k_SecretHash ` set (db_api_keys db)"
    and db1: "db1 = db\<lparr>db_api_keys := db_api_keys db @ [row]\<rparr>" and key: "ak_ID key = uuid env 0"
    using CreateAPIKey_ok assms(1) unfolding run_tx_ok by metis
  have hs: "\<not> has_prefix secret ''hs_''" and hm: "has_prefix secret ''hm_''" by (simp_all add: secret has_prefix_def)
  have none: "filter (live_key (cr_hash_token cr secret) now) (db_api_keys db) = []" for now
    using fresh(2) by (auto simp: filter_empty_conv live_key_def image_iff)
  have first: "row_first k_ID (live_key (cr_hash_token cr secret) now) (db_api_keys db1) = Some row" for now
    using none row by (simp add: row_first_def db1 live_key_def)
  have au: "active_user uid db1 = Some u"
  proof -
    obtain v where v: "active_user uid db1 = Some v"
      using assms(3-5) by (cases "active_user uid db1") (auto simp: active_user_def row_find_None db1)
    then show ?thesis
      using key_unique [OF assms(2) _ assms(3)] row_find_Some [OF v [unfolded active_user_def]] assms(4) by (simp add: db1)
  qed
  have "fst (ResolveAccessToken cr env' secret db1) = Some (mapUser u)"
    using first au hs hm row assms(6) by (simp add: ResolveAccessToken_def Let_def)
  moreover have "run_tx (RevokeAPIKey env' other (ak_ID key)) db1 = (Inl ErrAPIKeyNotFound, db1)" if "other \<noteq> uid"
  proof -
    have "count_rows (\<lambda>k. k_ID k = ak_ID key \<and> k_UserID k = other \<and> k_RevokedAt k = None) (db_api_keys db1) = 0"
      using that fresh(1) row by (auto simp: count_rows_0 db1 key image_iff)
    then show ?thesis using assms(6) by (simp add: RevokeAPIKey_def Let_def run_tx_def stmt_defs tx_defs)
  qed
  moreover have "\<exists>db2. run_tx (RevokeAPIKey env' uid (ak_ID key)) db1 = (Inr (), db2)
         \<and> fst (ResolveAccessToken cr env'' secret db2) = None"
  proof -
    let ?P = "\<lambda>k. k_ID k = ak_ID key \<and> k_UserID k = uid \<and> k_RevokedAt k = None"
    let ?f = "\<lambda>k. k\<lparr>k_RevokedAt := Some (clock env' 0)\<rparr>"
    let ?db2 = "db1\<lparr>db_api_keys := upd_rows ?P ?f (db_api_keys db1)\<rparr>"
    have "count_rows ?P (db_api_keys db1) \<noteq> 0"
      using row by (auto simp: count_rows_0 db1 key)
    then have run: "run_tx (RevokeAPIKey env' uid (ak_ID key)) db1 = (Inr (), ?db2)"
      using assms(6) by (simp add: RevokeAPIKey_def Let_def run_tx_def stmt_defs tx_defs)
    have "\<not> token_worth cr secret (clock env'' 0) ?db2 v" for v
    proof
      assume "token_worth cr secret (clock env'' 0) ?db2 v"
      then obtain k where "k \<in> set (db_api_keys ?db2)" "k_SecretHash k = cr_hash_token cr secret" "k_RevokedAt k = None"
        using hs by (auto simp: token_worth_def)
      then obtain k0 where "k0 \<in> set (db_api_keys db1)" "k = (if ?P k0 then ?f k0 else k0)"
          "k_SecretHash k0 = cr_hash_token cr secret" "k_RevokedAt k = None"
        by (auto simp: set_upd_rows split: if_splits)
      moreover from this(1,3) have "k0 = row" using fresh(2) by (auto simp: db1 image_iff)
      ultimately show False using row by (simp add: key)
    qed
    then have "fst (ResolveAccessToken cr env'' secret ?db2) = None" using ResolveAccessToken_dead by simp
    with run show ?thesis by blast
  qed
  ultimately show ?thesis by blast
qed

lemma api_key_lifecycle_witness:
  "\<exists>key secret db1. run_tx (CreateAPIKey plain_crypto (quiet_env 4) ''u1'' ''n'' []) demo_db = (Inr (key, secret), db1)
   \<and> fst (ResolveAccessToken plain_crypto (quiet_env 5) secret db1) = Some (mapUser demo_user)"
proof -
  let ?run = "run_tx (CreateAPIKey plain_crypto (quiet_env 4) ''u1'' ''n'' []) demo_db"
  have "is_ok (fst ?run)" by code_simp
  then obtain key secret db1 where r: "?run = (Inr (key, secret), db1)" by (cases ?run) (auto simp: is_ok_iff)
  have u: "demo_user \<in> set (db_users demo_db)" "u_ID demo_user = ''u1''" "u_Status demo_user = ''active''"
    by (simp_all add: demo_defs)
  show ?thesis
    using api_key_lifecycle [OF r _ u, where env' = "quiet_env 5"] r by (simp add: demo_defs)
qed

subsection \<open>Money outside the orders\<close>

text \<open>Booking a ledger line that names no order keeps the leases and the story of every order.\<close>

definition unchanged_orders :: "db \<Rightarrow> db \<Rightarrow> bool" where
  "unchanged_orders db db' \<longleftrightarrow>
     db_orders db' = db_orders db \<and> db_mailboxes db' = db_mailboxes db \<and> db_states db' = db_states db"

lemma booked_leases:
  assumes "booked uid oid pid ltype amount db db'" "unchanged_orders db db'"
  shows "lease_ok db' \<longleftrightarrow> lease_ok db"
  by (rule lease_ok_same) (use assms booked_users [OF assms(1)] in \<open>simp add: same_leases_def unchanged_orders_def\<close>)

lemma booked_books:
  assumes "booked uid [] pid ltype amount db db'" "db_orders db' = db_orders db" "books_ok db"
  shows "books_ok db'"
proof -
  obtain l where l: "l_OrderID l = []" "db_ledgers db' = db_ledgers db @ [l]"
    using assms(1) by (auto simp: booked_def)
  have "order_book db' oid = order_book db oid" if "oid \<noteq> []" for oid
    using l that by (simp add: order_book_def)
  then show ?thesis
    using assms(2,3) l by (auto simp: books_ok_def order_row_ok_def)
qed

lemma bookedI:
  assumes "db_ledgers db' = db_ledgers db @ [l]" "l_UserID l = uid" "l_OrderID l = oid" "l_PaymentOrderID l = pid"
    "l_Type l = ltype" "l_AmountCents l = amount" "l_BalanceAfterCents l = u_BalanceCents u + amount"
    and "u \<in> set (db_users db)" "u_ID u = uid"
    and "db_users db' = upd_rows (\<lambda>x. u_ID x = uid) (\<lambda>x. x\<lparr>u_BalanceCents := u_BalanceCents u + amount\<rparr>) (db_users db)"
  shows "booked uid oid pid ltype amount db db'"
  using assms unfolding booked_def by blast

definition adjusted :: "string \<Rightarrow> float64 \<Rightarrow> db \<Rightarrow> User \<Rightarrow> db \<Rightarrow> bool" where
  "adjusted uid amount db usr db' \<longleftrightarrow>
     (\<exists>u\<in>set (db_users db). u_ID u = uid \<and> 0 \<le> u_BalanceCents u + cents amount
        \<and> usr = mapUser (u\<lparr>u_BalanceCents := u_BalanceCents u + cents amount\<rparr>))
     \<and> booked uid [] [] ''admin_adjustment'' (cents amount) db db' \<and> unchanged_orders db db'"

lemma AdjustBalance_effect:
  "tx_ok (AdjustBalance env actor uid amount descr ip) db (adjusted uid amount db)"
  unfolding AdjustBalance_def Let_def tx_ok_bind tx_ok_then tx_ok_one tx_ok_guard set_balance_def create_ledger_def
    create_audit_def tx_ok_update tx_ok_insert tx_ok_return
  by (auto simp: adjusted_def unchanged_orders_def ledger_row_def dest!: row_find_Some intro!: bookedI)

text \<open>C12: An administrator's adjustment moves exactly the rounded amount: it never makes a balance negative, adds one
  ledger line of the same amount, touches no other user's money, and keeps the leases and the books of every
  order; a refused one changes nothing.\<close>

theorem adjust_balance_exact:
  assumes "run_tx (AdjustBalance env actor uid amount descr ip) db = (res, db')" and "lease_ok db" "books_ok db"
  shows "case res of
      Inl e \<Rightarrow> db' = db
    | Inr usr \<Rightarrow> 0 \<le> balance_of db' uid \<and> usr_Balance usr = from_cents (balance_of db' uid)
        \<and> balance_of db' v = balance_of db v + (if v = uid then cents amount else 0)
        \<and> ledger_total db' v = ledger_total db v + (if v = uid then cents amount else 0)
        \<and> lease_ok db' \<and> books_ok db'"
proof (cases res)
  case (Inl e)
  then show ?thesis using assms(1) run_tx_error by auto
next
  case (Inr usr)
  then have adj: "adjusted uid amount db usr db'"
    using AdjustBalance_effect assms(1) by (metis run_tx_ok tx_okD)
  then obtain u where u: "u \<in> set (db_users db)" "u_ID u = uid" "0 \<le> u_BalanceCents u + cents amount"
      and usr: "usr = mapUser (u\<lparr>u_BalanceCents := u_BalanceCents u + cents amount\<rparr>)"
    unfolding adjusted_def by blast
  have b: "booked uid [] [] ''admin_adjustment'' (cents amount) db db'" and o: "unchanged_orders db db'"
    using adj by (simp_all add: adjusted_def)
  have d: "distinct (map u_ID (db_users db))" using assms(2) lease_okD(1) keys_okD(1) by blast
  have "balance_of db' uid = u_BalanceCents u + cents amount"
    using booked_balance(1) [OF d b, of uid] balance_of_row [OF d u(1)] u(2) by simp
  moreover have "lease_ok db'" using booked_leases [OF b o] assms(2) by simp
  moreover have "books_ok db'" using booked_books [OF b _ assms(3)] o by (simp add: unchanged_orders_def)
  ultimately show ?thesis using Inr u usr booked_balance [OF d b, of v] by (simp add: mapUser_def)
qed

lemma adjust_balance_exact_witness:
  "\<exists>usr db'. run_tx (AdjustBalance (quiet_env 0) ''admin'' ''u1'' (5/2) [] []) demo_db = (Inr usr, db')
     \<and> balance_of db' ''u1'' = 1250"
proof -
  let ?run = "run_tx (AdjustBalance (quiet_env 0) ''admin'' ''u1'' (5/2) [] []) demo_db"
  have c: "cents (5/2) = 250" by code_simp
  then have "is_ok (fst ?run)" by (simp add: AdjustBalance_def run_simps ledger_row_def)
  then obtain usr db' where r: "?run = (Inr usr, db')" by (cases ?run) (auto simp: is_ok_iff)
  have "balance_of demo_db ''u1'' = 1000" by (simp add: balance_of_def demo_defs)
  then show ?thesis
    using adjust_balance_exact [OF r lease_ok_demo books_ok_demo, where v = "''u1''"] r c by simp
qed

end
