(* ===== verification/Payments.thy ===== *)
theory Payments
  imports Accounts
begin

text \<open>
  Payments in the PostgreSQL store, \<^verbatim>\<open>internal/store/postgres_payments.go\<close>: the providers with their
  encrypted configuration and the life of a top-up order, whose completion is the only way money
  enters a wallet besides an administrator's adjustment.
\<close>

subsection \<open>Providers\<close>

record PaymentProviderSecret =
  pps_Provider :: PaymentProvider
  pps_Config :: "string \<rightharpoonup> string"

fun open_providers :: "crypto \<Rightarrow> string \<Rightarrow> sqlPaymentProvider list \<Rightarrow> store_error + PaymentProviderSecret list" where
  "open_providers cr pmethod [] = Inr []"
| "open_providers cr pmethod (row # rows) =
     (if \<not> containsString (pp_Methods row) pmethod then open_providers cr pmethod rows
      else case cr_decrypt cr (pp_EncryptedConfig row) of
          None \<Rightarrow> Inl ErrDecrypt
        | Some config \<Rightarrow> (case open_providers cr pmethod rows of
            Inl e \<Rightarrow> Inl e
          | Inr items \<Rightarrow> Inr (\<lparr> pps_Provider = mapPaymentProvider row, pps_Config = config \<rparr> # items)))"

definition ListEnabledPaymentProviders ::
  "crypto \<Rightarrow> env \<Rightarrow> nat \<Rightarrow> string \<Rightarrow> db \<Rightarrow> store_error + PaymentProviderSecret list" where
  "ListEnabledPaymentProviders cr env n pmethod db =
     (if db_fail env n then Inl (ErrDB n)
      else open_providers cr pmethod (sort_key pp_Priority (sort_key pp_CreatedAt (filter pp_Enabled (db_pay_providers db)))))"

definition GetPaymentProviderSecret ::
  "crypto \<Rightarrow> env \<Rightarrow> nat \<Rightarrow> string \<Rightarrow> db \<Rightarrow> store_error + PaymentProviderSecret" where
  "GetPaymentProviderSecret cr env n pid db =
     (case (if db_fail env n then None else row_find (\<lambda>p. pp_ID p = pid) (db_pay_providers db)) of
        None \<Rightarrow> Inl ErrPaymentProviderNotFound
      | Some row \<Rightarrow> (case cr_decrypt cr (pp_EncryptedConfig row) of
          None \<Rightarrow> Inl ErrDecrypt
        | Some config \<Rightarrow> Inr \<lparr> pps_Provider = mapPaymentProvider row, pps_Config = config \<rparr>))"

text \<open>The mapper's \<^verbatim>\<open>Save\<close> writes every column of the row it is given, the creation time included; it
  fills the creation time only when it inserts.\<close>

definition save_pay_provider :: "env \<Rightarrow> nat \<Rightarrow> sqlPaymentProvider \<Rightarrow> unit stx" where
  "save_pay_provider env n r = tx_update env n (\<lambda>db. db\<lparr>db_pay_providers :=
     upsert pp_ID (r\<lparr>pp_CreatedAt := (if pp_ID r \<in> pp_ID ` set (db_pay_providers db) then pp_CreatedAt r else stamp env n),
       pp_UpdatedAt := stamp env n\<rparr>) (db_pay_providers db)\<rparr>)"

definition SavePaymentProvider ::
  "crypto \<Rightarrow> env \<Rightarrow> string \<Rightarrow> PaymentProvider \<Rightarrow> (string \<rightharpoonup> string) \<Rightarrow> string \<Rightarrow> PaymentProvider stx" where
  "SavePaymentProvider cr env actorID provider config ip =
     (case cr_encrypt cr 0 config of
        None \<Rightarrow> tx_fail ErrEncrypt
      | Some encrypted \<Rightarrow>
        let isUpdate = (pprov_ID provider \<noteq> []);
            pid = (if isUpdate then pprov_ID provider else uuid env 0);
            row = \<lparr> pp_ID = pid, pp_Name = pprov_Name provider, pp_Type = pprov_Type provider,
              pp_Methods = pprov_Methods provider, pp_Enabled = pprov_Enabled provider,
              pp_Priority = pprov_Priority provider, pp_EncryptedConfig = encrypted,
              pp_CreatedAt = zero_time, pp_UpdatedAt = zero_time \<rparr>
        in tx_then (save_pay_provider env 0 row)
          (tx_then (create_audit env 1 (audit_row (uuid env 1) actorID
              (if isUpdate then ''payment_provider.update'' else ''payment_provider.create'') ''payment_provider'' pid
              (if isUpdate then msg_provider_update else msg_provider_create) ip))
            (tx_return (mapPaymentProvider row))))"

definition DeletePaymentProvider :: "env \<Rightarrow> string \<Rightarrow> string \<Rightarrow> string \<Rightarrow> unit stx" where
  "DeletePaymentProvider env actorID providerID ip =
     tx_bind (tx_read env 0 (\<lambda>db. count_rows (\<lambda>p. po_ProviderID p = providerID \<and> po_Status p = ''pending'') (db_pay_orders db)))
     (\<lambda>pendingOrders. tx_then (tx_guard (\<not> pendingOrders > 0) ErrPaymentProviderInUse)
       (tx_bind (tx_read env 1 (\<lambda>db. count_rows (\<lambda>p. pp_ID p = providerID) (db_pay_providers db)))
       (\<lambda>affected. tx_then (tx_put (\<lambda>db. db\<lparr>db_pay_providers := del_rows (\<lambda>p. pp_ID p = providerID) (db_pay_providers db)\<rparr>))
         (tx_then (tx_guard (affected \<noteq> 0) ErrPaymentProviderNotFound)
           (create_audit env 2 (audit_row (uuid env 2) actorID ''payment_provider.delete'' ''payment_provider'' providerID
              msg_provider_delete ip))))))"

subsection \<open>Top-up orders\<close>

text \<open>The identifier is \<^verbatim>\<open>PAY\<close>, the time as digits (the argument \<open>digits\<close>) and eight characters of a fresh identifier.\<close>

definition CreatePaymentOrder ::
  "(time \<Rightarrow> string) \<Rightarrow> env \<Rightarrow> nat \<Rightarrow> string \<Rightarrow> string \<Rightarrow> string \<Rightarrow> float64 \<Rightarrow> PaymentOrder stx" where
  "CreatePaymentOrder digits env n userID providerID pmethod amount =
     (let amountCents = cents amount
      in if amountCents < 100 \<or> amountCents > 10000000 then tx_fail ErrPaymentAmountRange
         else tx_bind (tx_first env n ErrPaymentProviderNotFound
             (\<lambda>db. row_find (\<lambda>p. pp_ID p = providerID \<and> pp_Enabled p) (db_pay_providers db)))
         (\<lambda>provider. tx_then (tx_guard (containsString (pp_Methods provider) pmethod) ErrPaymentProviderNotFound)
           (let now = clock env n;
                row = \<lparr> po_ID = ''PAY'' @ digits (clock env (n + 1)) @ take 8 (uuid env n), po_UserID = userID,
                  po_ProviderID = pp_ID provider, po_ProviderName = pp_Name provider, po_Method = pmethod,
                  po_Status = ''pending'', po_AmountCents = amountCents, po_ProviderTradeNo = [], po_PayURL = [],
                  po_CreatedAt = now, po_ExpiresAt = now + 30 * minute, po_PaidAt = None,
                  po_CompletedAt = None, po_CanceledAt = None \<rparr>
            in tx_then (create_pay_order env (n + 1) row) (tx_return (mapPaymentOrder row)))))"

definition SetPaymentOrderURL :: "env \<Rightarrow> nat \<Rightarrow> string \<Rightarrow> string \<Rightarrow> unit stx" where
  "SetPaymentOrderURL env n orderID payURL = tx_update env n (\<lambda>db. db\<lparr>db_pay_orders :=
     upd_rows (\<lambda>p. po_ID p = orderID \<and> po_Status p = ''pending'') (\<lambda>p. p\<lparr>po_PayURL := payURL\<rparr>) (db_pay_orders db)\<rparr>)"

definition GetPaymentOrder :: "env \<Rightarrow> string \<Rightarrow> string \<Rightarrow> db \<Rightarrow> PaymentOrder option" where
  "GetPaymentOrder env userID orderID db =
     (if db_fail env 0 then None
      else map_option mapPaymentOrder (row_find (\<lambda>p. po_ID p = orderID \<and> (userID \<noteq> [] \<longrightarrow> po_UserID p = userID)) (db_pay_orders db)))"

definition save_pay_order :: "env \<Rightarrow> nat \<Rightarrow> sqlPaymentOrder \<Rightarrow> unit stx" where
  "save_pay_order env n r = tx_update env n (\<lambda>db. db\<lparr>db_pay_orders := upsert po_ID r (db_pay_orders db)\<rparr>)"

definition CancelPaymentOrder :: "env \<Rightarrow> nat \<Rightarrow> string \<Rightarrow> string \<Rightarrow> PaymentOrder stx" where
  "CancelPaymentOrder env n userID orderID =
     tx_bind (tx_first env n ErrPaymentOrderNotFound
        (\<lambda>db. row_find (\<lambda>p. po_ID p = orderID \<and> po_UserID p = userID) (db_pay_orders db)))
     (\<lambda>row. tx_then (tx_guard (po_Status row = ''pending'') ErrPaymentNotCancelable)
       (let row' = row\<lparr>po_Status := ''canceled'', po_CanceledAt := Some (clock env n)\<rparr>
        in tx_then (save_pay_order env (n + 1) row') (tx_return (mapPaymentOrder row'))))"

definition paymentOrderCanComplete :: "string \<Rightarrow> bool" where
  "paymentOrderCanComplete status \<longleftrightarrow> status = ''pending'' \<or> status = ''paid'' \<or> status = ''expired''"

definition CompletePaymentOrder :: "env \<Rightarrow> nat \<Rightarrow> string \<Rightarrow> string \<Rightarrow> float64 \<Rightarrow> PaymentOrder stx" where
  "CompletePaymentOrder env n orderID providerTradeNo paidAmount =
     tx_bind (tx_first env n ErrPaymentOrderNotFound (\<lambda>db. row_find (\<lambda>p. po_ID p = orderID) (db_pay_orders db)))
     (\<lambda>order. if po_Status order = ''completed'' then tx_return (mapPaymentOrder order)
       else tx_then (tx_guard (paymentOrderCanComplete (po_Status order)) ErrPaymentNotCompletable)
         (tx_then (tx_guard (cents paidAmount = po_AmountCents order) ErrPaymentAmountMismatch)
         (tx_bind (tx_one env (n + 1) (\<lambda>db. row_find (\<lambda>u. u_ID u = po_UserID order) (db_users db)))
         (\<lambda>user. let now = clock env n; balance = u_BalanceCents user + po_AmountCents order;
              order' = order\<lparr>po_Status := ''completed'', po_ProviderTradeNo := providerTradeNo,
                po_PaidAt := Some now, po_CompletedAt := Some now\<rparr>
            in tx_then (set_balance env (n + 2) (u_ID user) balance)
              (tx_then (save_pay_order env (n + 3) order')
              (tx_then (create_ledger env (n + 4) (ledger_row (uuid env n) (u_ID user) [] (po_ID order) ''payment_topup''
                          (po_AmountCents order) balance msg_payment_topup))
              (tx_then (create_audit env (n + 5) (audit_row (uuid env (n + 1)) ''payment-webhook'' ''payment.complete''
                          ''payment_order'' (po_ID order) msg_payment_complete []))
              (tx_return (mapPaymentOrder order')))))))))"

definition ReapExpiredPaymentOrders :: "env \<Rightarrow> db \<Rightarrow> nat \<times> db" where
  "ReapExpiredPaymentOrders env db =
     (let P = (\<lambda>p. po_Status p = ''pending'' \<and> po_ExpiresAt p < clock env 0)
      in if db_fail env 0 then (0, db)
         else (count_rows P (db_pay_orders db),
               db\<lparr>db_pay_orders := upd_rows P (\<lambda>p. p\<lparr>po_Status := ''expired''\<rparr>) (db_pay_orders db)\<rparr>))"

subsection \<open>The life of a top-up order\<close>

definition same_payment :: "sqlPaymentOrder \<Rightarrow> sqlPaymentOrder \<Rightarrow> bool" where
  "same_payment p p' \<longleftrightarrow> po_ID p' = po_ID p \<and> po_UserID p' = po_UserID p \<and> po_AmountCents p' = po_AmountCents p"

definition completed_payment :: "time \<Rightarrow> string \<Rightarrow> sqlPaymentOrder \<Rightarrow> sqlPaymentOrder" where
  "completed_payment now tradeNo p = p\<lparr>po_Status := ''completed'', po_ProviderTradeNo := tradeNo,
     po_PaidAt := Some now, po_CompletedAt := Some now\<rparr>"

inductive payment_step :: "db \<Rightarrow> db \<Rightarrow> bool" where
  pay_created: "po_Status r = ''pending'' \<Longrightarrow> po_ID r \<noteq> [] \<Longrightarrow> po_ID r \<notin> po_ID ` set (db_pay_orders db) \<Longrightarrow>
     100 \<le> po_AmountCents r \<Longrightarrow> po_AmountCents r \<le> 10000000 \<Longrightarrow>
     db_pay_orders db' = db_pay_orders db @ [r] \<Longrightarrow> db_ledgers db' = db_ledgers db \<Longrightarrow> payment_step db db'"
| pay_moved: "(\<And>p. P p \<Longrightarrow> po_Status p = ''pending'') \<Longrightarrow>
     (\<And>p. P p \<Longrightarrow> same_payment p (f p) \<and> po_Status (f p) \<in> {''pending'', ''canceled'', ''expired''}) \<Longrightarrow>
     db_pay_orders db' = upd_rows P f (db_pay_orders db) \<Longrightarrow> db_ledgers db' = db_ledgers db \<Longrightarrow> payment_step db db'"
| pay_completed: "p \<in> set (db_pay_orders db) \<Longrightarrow> paymentOrderCanComplete (po_Status p) \<Longrightarrow>
     db_pay_orders db' = upd_rows (\<lambda>x. po_ID x = po_ID p) (\<lambda>_. completed_payment now tradeNo p) (db_pay_orders db) \<Longrightarrow>
     booked (po_UserID p) [] (po_ID p) ''payment_topup'' (po_AmountCents p) db db' \<Longrightarrow> payment_step db db'"

inductive_cases payment_stepE: "payment_step db db'"

lemma CreatePaymentOrder_step:
  "tx_ok (CreatePaymentOrder digits env n uid pid pmethod amount) db (\<lambda>_ db'. payment_step db db')"
  unfolding CreatePaymentOrder_def Let_def tx_ok_if tx_ok_bind tx_ok_first tx_ok_then tx_ok_guard create_pay_order_def
    tx_ok_insert tx_ok_return tx_ok_fail
  by (auto simp: fresh_key_def tx_ok_fail intro!: pay_created)

lemma SetPaymentOrderURL_step: "tx_ok (SetPaymentOrderURL env n oid u) db (\<lambda>_ db'. payment_step db db')"
  unfolding SetPaymentOrderURL_def tx_ok_update
  by (auto simp: same_payment_def
      intro!: pay_moved [where P = "\<lambda>p. po_ID p = oid \<and> po_Status p = ''pending''" and f = "\<lambda>p. p\<lparr>po_PayURL := u\<rparr>"])

lemma upsert_pay: "p \<in> set t \<Longrightarrow> po_ID p' = po_ID p \<Longrightarrow> upsert po_ID p' t = upd_rows (\<lambda>x. po_ID x = po_ID p) (\<lambda>_. p') t"
  by (metis upsert_existing)

text \<open>What a completed call did: nothing, or one completion.\<close>

definition pay_done :: "env \<Rightarrow> nat \<Rightarrow> string \<Rightarrow> string \<Rightarrow> float64 \<Rightarrow> db \<Rightarrow> PaymentOrder \<Rightarrow> db \<Rightarrow> bool" where
  "pay_done env n oid tradeNo paid db res db' \<longleftrightarrow>
     (\<exists>p\<in>set (db_pay_orders db). po_ID p = oid \<and>
       (if po_Status p = ''completed'' then db' = db \<and> res = mapPaymentOrder p
        else paymentOrderCanComplete (po_Status p) \<and> cents paid = po_AmountCents p
          \<and> res = mapPaymentOrder (completed_payment (clock env n) tradeNo p)
          \<and> db_pay_orders db' = upd_rows (\<lambda>x. po_ID x = po_ID p) (\<lambda>_. completed_payment (clock env n) tradeNo p) (db_pay_orders db)
          \<and> booked (po_UserID p) [] (po_ID p) ''payment_topup'' (po_AmountCents p) db db' \<and> unchanged_orders db db'))"

lemma CompletePaymentOrder_effect:
  "tx_ok (CompletePaymentOrder env n oid tradeNo paid) db (pay_done env n oid tradeNo paid db)"
proof -
  let ?Q = "pay_done env n oid tradeNo paid db"
  have eff: "?Q (mapPaymentOrder p') (X\<lparr>db_audits := a\<rparr>)"
    if p: "row_find (\<lambda>p. po_ID p = oid) (db_pay_orders db) = Some p" and "po_Status p \<noteq> ''completed''"
      "paymentOrderCanComplete (po_Status p)" "cents paid = po_AmountCents p"
      and u: "row_find (\<lambda>u. u_ID u = po_UserID p) (db_users db) = Some u"
      and p': "p' = completed_payment (clock env n) tradeNo p"
      and l: "l_UserID l = u_ID u" "l_OrderID l = []" "l_PaymentOrderID l = po_ID p" "l_Type l = ''payment_topup''"
        "l_AmountCents l = po_AmountCents p" "l_BalanceAfterCents l = u_BalanceCents u + po_AmountCents p"
      and X: "X = db\<lparr>db_users := upd_rows (\<lambda>x. u_ID x = u_ID u) (\<lambda>x. x\<lparr>u_BalanceCents := u_BalanceCents u + po_AmountCents p\<rparr>) (db_users db),
        db_pay_orders := upsert po_ID p' (db_pay_orders db), db_ledgers := db_ledgers db @ [l]\<rparr>" for p u p' l X a
  proof -
    have pm: "p \<in> set (db_pay_orders db)" "po_ID p = oid" using row_find_Some [OF p] by simp_all
    have um: "u \<in> set (db_users db)" "u_ID u = po_UserID p" using row_find_Some [OF u] by simp_all
    have "upsert po_ID p' (db_pay_orders db) = upd_rows (\<lambda>x. po_ID x = po_ID p) (\<lambda>_. p') (db_pay_orders db)"
      by (rule upsert_pay [OF pm(1)]) (simp add: p' completed_payment_def)
    moreover have "booked (po_UserID p) [] (po_ID p) ''payment_topup'' (po_AmountCents p) db (X\<lparr>db_audits := a\<rparr>)"
      by (rule bookedI [where l = l and u = u]) (use l um in \<open>simp_all add: X\<close>)
    ultimately show ?thesis
      using that pm um by (auto simp: pay_done_def unchanged_orders_def X intro!: bexI [OF _ pm(1)])
  qed
  show ?thesis
    unfolding CompletePaymentOrder_def tx_ok_bind [of "tx_first _ _ _ _"] tx_ok_first
  proof (intro allI impI, elim conjE)
    fix p assume p: "row_find (\<lambda>p. po_ID p = oid) (db_pay_orders db) = Some p"
    note pm = row_find_Some [OF p]
    show "tx_ok (if po_Status p = ''completed'' then tx_return (mapPaymentOrder p)
       else tx_then (tx_guard (paymentOrderCanComplete (po_Status p)) ErrPaymentNotCompletable)
         (tx_then (tx_guard (cents paid = po_AmountCents p) ErrPaymentAmountMismatch)
         (tx_bind (tx_one env (n + 1) (\<lambda>db. row_find (\<lambda>u. u_ID u = po_UserID p) (db_users db)))
         (\<lambda>user. let now = clock env n; balance = u_BalanceCents user + po_AmountCents p;
              order' = p\<lparr>po_Status := ''completed'', po_ProviderTradeNo := tradeNo,
                po_PaidAt := Some now, po_CompletedAt := Some now\<rparr>
            in tx_then (set_balance env (n + 2) (u_ID user) balance)
              (tx_then (save_pay_order env (n + 3) order')
              (tx_then (create_ledger env (n + 4) (ledger_row (uuid env n) (u_ID user) [] (po_ID p) ''payment_topup''
                          (po_AmountCents p) balance msg_payment_topup))
              (tx_then (create_audit env (n + 5) (audit_row (uuid env (n + 1)) ''payment-webhook'' ''payment.complete''
                          ''payment_order'' (po_ID p) msg_payment_complete []))
              (tx_return (mapPaymentOrder order'))))))))) db ?Q"
    proof (cases "po_Status p = ''completed''")
      case True
      then show ?thesis using pm by (auto simp: tx_ok_return pay_done_def)
    next
      case False
      show ?thesis
        unfolding if_not_P [OF False] Let_def tx_ok_then tx_ok_guard tx_ok_bind tx_ok_one set_balance_def save_pay_order_def
          create_ledger_def create_audit_def tx_ok_update tx_ok_insert tx_ok_return
        by (intro impI allI, elim conjE, rule eff [OF p False])
          (auto simp: completed_payment_def ledger_row_def)
    qed
  qed
qed

lemma pay_done_step: "pay_done env n oid tradeNo paid db res db' \<Longrightarrow> db' = db \<or> payment_step db db'"
  by (auto simp: pay_done_def split: if_splits intro: pay_completed)

lemma CancelPaymentOrder_step:
  assumes "distinct (map po_ID (db_pay_orders db))"
  shows "tx_ok (CancelPaymentOrder env n uid oid) db (\<lambda>_ db'. payment_step db db')"
  unfolding CancelPaymentOrder_def Let_def tx_ok_bind tx_ok_first tx_ok_then tx_ok_guard save_pay_order_def
    tx_ok_update tx_ok_return
proof (intro allI impI, elim conjE)
  fix p assume p: "row_find (\<lambda>p. po_ID p = oid \<and> po_UserID p = uid) (db_pay_orders db) = Some p"
    and st: "po_Status p = ''pending''"
  let ?p' = "p\<lparr>po_Status := ''canceled'', po_CanceledAt := Some (clock env n)\<rparr>"
  have pm: "p \<in> set (db_pay_orders db)" using row_find_Some [OF p] by simp
  have "upsert po_ID ?p' (db_pay_orders db) = upd_rows (\<lambda>x. po_ID x = po_ID p) (\<lambda>_. ?p') (db_pay_orders db)"
    by (rule upsert_pay [OF pm]) simp
  also have "\<dots> = upd_rows (\<lambda>x. x = p) (\<lambda>_. ?p') (db_pay_orders db)"
    using key_unique [OF assms _ pm] by (auto simp: upd_rows_def)
  finally show "payment_step db (db\<lparr>db_pay_orders := upsert po_ID ?p' (db_pay_orders db)\<rparr>)"
    by (intro pay_moved [where P = "\<lambda>x. x = p" and f = "\<lambda>_. ?p'"]) (simp_all add: st same_payment_def)
qed

lemma ReapExpiredPaymentOrders_step:
  "snd (ReapExpiredPaymentOrders env db) = db \<or> payment_step db (snd (ReapExpiredPaymentOrders env db))"
proof (cases "db_fail env 0")
  case True
  then show ?thesis by (simp add: ReapExpiredPaymentOrders_def)
next
  case False
  have "payment_step db (snd (ReapExpiredPaymentOrders env db))"
    by (rule pay_moved [where P = "\<lambda>p. po_Status p = ''pending'' \<and> po_ExpiresAt p < clock env 0"
          and f = "\<lambda>p. p\<lparr>po_Status := ''expired''\<rparr>"])
      (simp_all add: False ReapExpiredPaymentOrders_def Let_def same_payment_def)
  then show ?thesis ..
qed

subsection \<open>The books of the top-up orders\<close>

definition payment_book :: "db \<Rightarrow> string \<Rightarrow> (string \<times> string \<times> int) list" where
  "payment_book db pid =
     map (\<lambda>l. (l_Type l, l_UserID l, l_AmountCents l)) (filter (\<lambda>l. l_PaymentOrderID l = pid) (db_ledgers db))"

definition expected_topup :: "sqlPaymentOrder \<Rightarrow> (string \<times> string \<times> int) list" where
  "expected_topup p = (if po_Status p = ''completed'' then [(''payment_topup'', po_UserID p, po_AmountCents p)] else [])"

definition payment_statuses :: "string set" where
  "payment_statuses = {''pending'', ''paid'', ''expired'', ''canceled'', ''completed''}"

definition pay_row_ok :: "db \<Rightarrow> sqlPaymentOrder \<Rightarrow> bool" where
  "pay_row_ok db p \<longleftrightarrow> po_ID p \<noteq> [] \<and> po_Status p \<in> payment_statuses \<and> 100 \<le> po_AmountCents p
     \<and> po_AmountCents p \<le> 10000000 \<and> payment_book db (po_ID p) = expected_topup p"

definition pay_books_ok :: "db \<Rightarrow> bool" where
  "pay_books_ok db \<longleftrightarrow> distinct (map po_ID (db_pay_orders db)) \<and> (\<forall>p\<in>set (db_pay_orders db). pay_row_ok db p)
     \<and> (\<forall>l\<in>set (db_ledgers db). l_PaymentOrderID l \<noteq> [] \<longrightarrow> l_PaymentOrderID l \<in> po_ID ` set (db_pay_orders db))"

text \<open>An order that left the open states never changes again.\<close>

definition payment_final :: "string \<Rightarrow> bool" where
  "payment_final status \<longleftrightarrow> status = ''completed'' \<or> status = ''canceled''"

definition payments_persist :: "db \<Rightarrow> db \<Rightarrow> bool" where
  "payments_persist db db' \<longleftrightarrow> (\<forall>p\<in>set (db_pay_orders db). \<exists>p'\<in>set (db_pay_orders db').
     same_payment p p' \<and> (payment_final (po_Status p) \<longrightarrow> p' = p))"

lemma payments_persist_refl [simp]: "payments_persist db db"
  by (auto simp: payments_persist_def same_payment_def)

lemma payments_persist_upd:
  assumes "db_pay_orders db' = upd_rows P f (db_pay_orders db)"
    and "\<And>p. p \<in> set (db_pay_orders db) \<Longrightarrow> P p \<Longrightarrow> same_payment p (f p) \<and> \<not> payment_final (po_Status p)"
  shows "payments_persist db db'"
  unfolding payments_persist_def
proof
  fix p assume p: "p \<in> set (db_pay_orders db)"
  show "\<exists>p'\<in>set (db_pay_orders db'). same_payment p p' \<and> (payment_final (po_Status p) \<longrightarrow> p' = p)"
  proof (cases "P p")
    case True
    then show ?thesis using assms p in_upd_rows_hit [OF p, of P f] by auto
  next
    case False
    then show ?thesis using assms(1) in_upd_rows_other [OF p, of P f] by (auto simp: same_payment_def)
  qed
qed

lemma payment_step_persist:
  assumes "payment_step db db'" "distinct (map po_ID (db_pay_orders db))"
  shows "payments_persist db db'"
  using assms(1)
proof (cases rule: payment_step.cases)
  case (pay_created r)
  then show ?thesis by (auto simp: payments_persist_def same_payment_def)
next
  case (pay_moved P f)
  show ?thesis by (rule payments_persist_upd [OF pay_moved(3)]) (use pay_moved(1,2) in \<open>auto simp: payment_final_def\<close>)
next
  case (pay_completed p now tradeNo)
  show ?thesis
  proof (rule payments_persist_upd [OF pay_completed(3)])
    fix x assume x: "x \<in> set (db_pay_orders db)" "po_ID x = po_ID p"
    then have "x = p" using key_unique [OF assms(2) _ pay_completed(1)] by simp
    then show "same_payment x (completed_payment now tradeNo p) \<and> \<not> payment_final (po_Status x)"
      using pay_completed(2) by (auto simp: same_payment_def completed_payment_def payment_final_def paymentOrderCanComplete_def)
  qed
qed

lemma payment_book_snoc:
  "db_ledgers db' = db_ledgers db @ [l] \<Longrightarrow> payment_book db' pid =
     payment_book db pid @ (if l_PaymentOrderID l = pid then [(l_Type l, l_UserID l, l_AmountCents l)] else [])"
  by (simp add: payment_book_def)

lemma payment_book_same: "db_ledgers db' = db_ledgers db \<Longrightarrow> payment_book db' pid = payment_book db pid"
  by (simp add: payment_book_def)

lemma payment_step_books:
  assumes "payment_step db db'" "pay_books_ok db"
  shows "pay_books_ok db'"
  using assms(1)
proof (cases rule: payment_step.cases)
  case (pay_created r)
  have "l_PaymentOrderID l \<noteq> po_ID r" if "l \<in> set (db_ledgers db)" for l
    using assms(2) pay_created(2,3) that unfolding pay_books_ok_def by metis
  then have none: "payment_book db (po_ID r) = []"
    by (auto simp: payment_book_def filter_empty_conv)
  show ?thesis
    using assms(2) pay_created none
    by (auto simp: pay_books_ok_def pay_row_ok_def payment_book_same [OF pay_created(7)] expected_topup_def payment_statuses_def)
next
  case (pay_moved P f)
  have ids: "map po_ID (db_pay_orders db') = map po_ID (db_pay_orders db)"
    unfolding pay_moved(3) upd_rows_def using pay_moved(2) by (auto simp: same_payment_def)
  have row: "pay_row_ok db' (f p)" if "pay_row_ok db p" "P p" for p
    using that pay_moved(1,2) [OF that(2)]
    by (auto simp: pay_row_ok_def payment_book_same [OF pay_moved(4)] same_payment_def expected_topup_def payment_statuses_def)
  have keep: "pay_row_ok db' p" if "pay_row_ok db p" for p
    using that by (simp add: pay_row_ok_def payment_book_same [OF pay_moved(4)])
  have "\<forall>p\<in>set (db_pay_orders db'). pay_row_ok db' p"
    using assms(2) row keep by (auto simp: pay_moved(3) set_upd_rows pay_books_ok_def)
  moreover have "po_ID ` set (db_pay_orders db') = po_ID ` set (db_pay_orders db)"
    using ids by (metis set_map)
  ultimately show ?thesis using assms(2) ids pay_moved(4) by (simp add: pay_books_ok_def)
next
  case (pay_completed p now tradeNo)
  let ?p' = "completed_payment now tradeNo p"
  have p': "same_payment p ?p'" "po_Status ?p' = ''completed''" by (simp_all add: same_payment_def completed_payment_def)
  obtain l where l: "l_UserID l = po_UserID p" "l_PaymentOrderID l = po_ID p" "l_Type l = ''payment_topup''"
      "l_AmountCents l = po_AmountCents p" "db_ledgers db' = db_ledgers db @ [l]"
    using pay_completed(4) by (auto simp: booked_def)
  have pr: "pay_row_ok db p" using assms(2) pay_completed(1) by (simp add: pay_books_ok_def)
  have dist: "distinct (map po_ID (db_pay_orders db))" using assms(2) by (simp add: pay_books_ok_def)
  have ids: "map po_ID (db_pay_orders db') = map po_ID (db_pay_orders db)"
    unfolding pay_completed(3) upd_rows_def using p'(1) by (auto simp: same_payment_def)
  then have idset: "po_ID ` set (db_pay_orders db') = po_ID ` set (db_pay_orders db)" by (metis set_map)
  have "pay_row_ok db' x" if x: "x \<in> set (db_pay_orders db')" for x
  proof (cases "x = ?p'")
    case True
    have "payment_book db (po_ID p) = []"
      using pr pay_completed(2) by (auto simp: pay_row_ok_def expected_topup_def paymentOrderCanComplete_def)
    then show ?thesis
      using True pr p' l payment_book_snoc [OF l(5), of "po_ID p"]
      by (simp add: pay_row_ok_def same_payment_def expected_topup_def payment_statuses_def)
  next
    case False
    then have xm: "x \<in> set (db_pay_orders db)" and xid: "po_ID x \<noteq> po_ID p"
      using x by (auto simp: pay_completed(3) set_upd_rows split: if_splits)
    have "pay_row_ok db x" using assms(2) xm by (simp add: pay_books_ok_def)
    then show ?thesis using payment_book_snoc [OF l(5), of "po_ID x"] xid l(2) by (simp add: pay_row_ok_def)
  qed
  then show ?thesis
    using assms(2) ids idset l pay_completed(1) by (auto simp: pay_books_ok_def)
qed

text \<open>C15: No top-up is credited twice and none is lost: every operation on top-up orders keeps the books, in which each
  order has exactly one credit of its amount when it is completed and none before; a completed or canceled order never
  changes again, and no order changes its owner or amount.\<close>

theorem payment_operations_keep_books:
  assumes "pay_books_ok db"
    and "db' \<in> {snd (run_tx (CreatePaymentOrder digits env n uid pid pmethod amount) db),
      snd (run_tx (SetPaymentOrderURL env n oid url) db), snd (run_tx (CancelPaymentOrder env n uid oid) db),
      snd (run_tx (CompletePaymentOrder env n oid tradeNo amount) db), snd (ReapExpiredPaymentOrders env db)}"
  shows "pay_books_ok db' \<and> payments_persist db db'"
proof -
  have d: "distinct (map po_ID (db_pay_orders db))" using assms(1) by (simp add: pay_books_ok_def)
  let ?R = "\<lambda>db db'. db' = db \<or> payment_step db db'"
  have "?R db db'"
    using assms(2)
  proof (elim insertE emptyE)
    assume "db' = snd (run_tx (CreatePaymentOrder digits env n uid pid pmethod amount) db)"
    then show ?thesis
      using run_tx_rel [where R = ?R, OF _ tx_ok_weaken [OF CreatePaymentOrder_step]] by simp
  next
    assume "db' = snd (run_tx (SetPaymentOrderURL env n oid url) db)"
    then show ?thesis
      using run_tx_rel [where R = ?R, OF _ tx_ok_weaken [OF SetPaymentOrderURL_step]] by simp
  next
    assume "db' = snd (run_tx (CancelPaymentOrder env n uid oid) db)"
    then show ?thesis
      using run_tx_rel [where R = ?R, OF _ tx_ok_weaken [OF CancelPaymentOrder_step [OF d]]] by simp
  next
    assume "db' = snd (run_tx (CompletePaymentOrder env n oid tradeNo amount) db)"
    then show ?thesis
      using run_tx_rel [where R = ?R, OF _ tx_ok_weaken [OF CompletePaymentOrder_effect pay_done_step]] by simp
  next
    assume "db' = snd (ReapExpiredPaymentOrders env db)"
    then show ?thesis using ReapExpiredPaymentOrders_step by simp
  qed
  then show ?thesis using assms(1) payment_step_books payment_step_persist [OF _ d] by auto
qed

definition demo_pay_order :: sqlPaymentOrder where
  "demo_pay_order = \<lparr> po_ID = ''PAY1'', po_UserID = ''u1'', po_ProviderID = ''pp'', po_ProviderName = ''n'', po_Method = ''alipay'',
     po_Status = ''expired'', po_AmountCents = 500, po_ProviderTradeNo = [], po_PayURL = [], po_CreatedAt = 0,
     po_ExpiresAt = 10, po_PaidAt = None, po_CompletedAt = None, po_CanceledAt = None \<rparr>"

definition demo_pay_db :: db where
  "demo_pay_db = demo_db\<lparr>db_pay_orders := [demo_pay_order],
     db_pay_providers := [\<lparr> pp_ID = ''pp'', pp_Name = ''n'', pp_Type = ''easypay'', pp_Methods = [''alipay''], pp_Enabled = True,
       pp_Priority = 1, pp_EncryptedConfig = ''sealed'', pp_CreatedAt = 0, pp_UpdatedAt = 0 \<rparr>]\<rparr>"

lemmas pay_run_simps = run_simps CompletePaymentOrder_def demo_pay_db_def demo_pay_order_def paymentOrderCanComplete_def
  save_pay_order_def ledger_row_def

lemma demo_cents: "cents 5 = 500" by code_simp

lemma pay_books_ok_demo: "pay_books_ok demo_pay_db"
  by (simp add: pay_books_ok_def demo_pay_db_def demo_pay_order_def demo_defs pay_row_ok_def payment_statuses_def
      payment_book_def expected_topup_def)

lemma payment_operations_keep_books_witness:
  "pay_books_ok (snd (run_tx (CompletePaymentOrder (quiet_env 20) 0 ''PAY1'' ''t'' 5) demo_pay_db))
   \<and> payment_book (snd (run_tx (CompletePaymentOrder (quiet_env 20) 0 ''PAY1'' ''t'' 5) demo_pay_db)) ''PAY1''
       = [(''payment_topup'', ''u1'', 500)]"
proof -
  let ?db = "snd (run_tx (CompletePaymentOrder (quiet_env 20) 0 ''PAY1'' ''t'' 5) demo_pay_db)"
  have "payment_book ?db ''PAY1'' = [(''payment_topup'', ''u1'', 500)]"
    by (simp add: demo_cents pay_run_simps payment_book_def)
  then show ?thesis
    using payment_operations_keep_books [OF pay_books_ok_demo, where db' = ?db and env = "quiet_env 20" and n = 0
        and oid = "''PAY1''" and tradeNo = "''t''" and amount = 5] by simp
qed

text \<open>C37: Completing a top-up is exact and idempotent: it credits the order's own amount to the order's user once, only
  when the paid amount rounds to it and the order was pending, paid or expired; it keeps the leases and the books of the
  registration orders; and a repeated notification succeeds without changing anything.\<close>

theorem complete_payment_exact:
  assumes "run_tx (CompletePaymentOrder env n oid tradeNo paid) db = (Inr res, db')"
    and "lease_ok db" "books_ok db" "pay_books_ok db" and "\<not> db_fail env2 n2"
  shows "(\<exists>p\<in>set (db_pay_orders db). po_ID p = oid
      \<and> (po_Status p = ''completed'' \<and> db' = db
         \<or> paymentOrderCanComplete (po_Status p) \<and> cents paid = po_AmountCents p
           \<and> balance_of db' v = balance_of db v + (if v = po_UserID p then po_AmountCents p else 0)
           \<and> ledger_total db' v = ledger_total db v + (if v = po_UserID p then po_AmountCents p else 0)))
    \<and> lease_ok db' \<and> books_ok db'
    \<and> run_tx (CompletePaymentOrder env2 n2 oid tradeNo2 paid2) db' = (Inr res, db')"
proof -
  have eff: "pay_done env n oid tradeNo paid db res db'"
    using CompletePaymentOrder_effect assms(1) by (meson run_tx_ok tx_okD)
  then obtain p where p: "p \<in> set (db_pay_orders db)" "po_ID p = oid"
    and c: "if po_Status p = ''completed'' then db' = db \<and> res = mapPaymentOrder p
        else paymentOrderCanComplete (po_Status p) \<and> cents paid = po_AmountCents p
          \<and> res = mapPaymentOrder (completed_payment (clock env n) tradeNo p)
          \<and> db_pay_orders db' = upd_rows (\<lambda>x. po_ID x = po_ID p) (\<lambda>_. completed_payment (clock env n) tradeNo p) (db_pay_orders db)
          \<and> booked (po_UserID p) [] (po_ID p) ''payment_topup'' (po_AmountCents p) db db' \<and> unchanged_orders db db'"
    unfolding pay_done_def by blast
  have d: "distinct (map po_ID (db_pay_orders db))" using assms(4) by (simp add: pay_books_ok_def)
  have k: "distinct (map u_ID (db_users db))" using assms(2) lease_okD(1) keys_okD(1) by blast
  have again: "run_tx (CompletePaymentOrder env2 n2 oid tradeNo2 paid2) db' = (Inr (mapPaymentOrder q), db')"
    if "row_find (\<lambda>p. po_ID p = oid) (db_pay_orders db') = Some q" "po_Status q = ''completed''" for q
    using that assms(5) by (simp add: CompletePaymentOrder_def run_tx_def stmt_defs tx_defs)
  show ?thesis
  proof (cases "po_Status p = ''completed''")
    case True
    then show ?thesis using c p assms(2,3) again [of p] row_find_key [OF d p(1)] by auto
  next
    case False
    let ?p' = "completed_payment (clock env n) tradeNo p"
    have b: "booked (po_UserID p) [] (po_ID p) ''payment_topup'' (po_AmountCents p) db db'" and o: "unchanged_orders db db'"
      and u: "db_pay_orders db' = upd_rows (\<lambda>x. po_ID x = po_ID p) (\<lambda>_. ?p') (db_pay_orders db)"
      and r: "res = mapPaymentOrder ?p'" using c False by simp_all
    have id': "po_ID ?p' = oid" "po_Status ?p' = ''completed''" by (simp_all add: completed_payment_def p(2))
    have pm': "?p' \<in> set (db_pay_orders db')" using in_upd_rows_hit [OF p(1), of "\<lambda>x. po_ID x = po_ID p" "\<lambda>_. ?p'"] u by simp
    have d': "distinct (map po_ID (db_pay_orders db'))"
      using payment_step_books assms(4) pay_done_step [OF eff] by (auto simp: pay_books_ok_def)
    have "row_find (\<lambda>x. po_ID x = oid) (db_pay_orders db') = Some ?p'"
      using row_find_key [OF d' pm'] id' by simp
    then have "run_tx (CompletePaymentOrder env2 n2 oid tradeNo2 paid2) db' = (Inr res, db')"
      using again id' r by simp
    moreover have "lease_ok db'" "books_ok db'"
      using booked_leases [OF b o] assms(2) booked_books [OF b _ assms(3)] o by (simp_all add: unchanged_orders_def)
    ultimately show ?thesis using p c False booked_balance [OF k b, of v] by auto
  qed
qed

lemma complete_payment_exact_witness:
  "\<exists>res db'. run_tx (CompletePaymentOrder (quiet_env 20) 0 ''PAY1'' ''t'' 5) demo_pay_db = (Inr res, db')
   \<and> run_tx (CompletePaymentOrder (quiet_env 30) 0 ''PAY1'' ''other'' 7) db' = (Inr res, db')"
proof -
  let ?run = "run_tx (CompletePaymentOrder (quiet_env 20) 0 ''PAY1'' ''t'' 5) demo_pay_db"
  have "is_ok (fst ?run)" by (simp add: demo_cents pay_run_simps)
  then obtain res db' where r: "?run = (Inr res, db')" by (cases ?run) (auto simp: is_ok_iff)
  have "lease_ok demo_pay_db"
    using lease_ok_same [of demo_db demo_pay_db] lease_ok_demo by (simp add: same_leases_def demo_pay_db_def)
  moreover have "books_ok demo_pay_db"
    using books_ok_demo by (simp add: books_ok_def order_book_def demo_pay_db_def)
  ultimately show ?thesis
    using complete_payment_exact [OF r _ _ pay_books_ok_demo, where ?env2.0 = "quiet_env 30" and ?n2.0 = 0 and ?paid2.0 = 7
        and ?tradeNo2.0 = "''other''"] r by auto
qed

text \<open>A payment provider is never deleted while an order of it can still be paid: a successful deletion means that none
  of its orders was pending; it removes that provider alone and touches no order and no wallet.\<close>

theorem delete_provider_spec:
  assumes "run_tx (DeletePaymentProvider env actor pid ip) db = (res, db')" and "\<And>n. \<not> db_fail env n"
    and "uuid env 2 \<notin> a_ID ` set (db_audits db)"
  shows "if \<exists>p\<in>set (db_pay_orders db). po_ProviderID p = pid \<and> po_Status p = ''pending''
         then res = Inl ErrPaymentProviderInUse \<and> db' = db
         else if pid \<notin> pp_ID ` set (db_pay_providers db) then res = Inl ErrPaymentProviderNotFound \<and> db' = db
         else res = Inr () \<and> pid \<notin> pp_ID ` set (db_pay_providers db')
           \<and> (\<forall>q. pp_ID q \<noteq> pid \<longrightarrow> (q \<in> set (db_pay_providers db') \<longleftrightarrow> q \<in> set (db_pay_providers db)))
           \<and> db_pay_orders db' = db_pay_orders db \<and> db_users db' = db_users db \<and> db_ledgers db' = db_ledgers db"
proof -
  have *: "0 < count_rows P t \<longleftrightarrow> (\<exists>r\<in>set t. P r)" "count_rows P t = 0 \<longleftrightarrow> (\<forall>r\<in>set t. \<not> P r)" for P :: "'r \<Rightarrow> bool" and t
    by (simp_all only: count_rows_pos count_rows_0)
  show ?thesis
    using assms
    by (auto simp: DeletePaymentProvider_def run_tx_def stmt_defs tx_defs create_audit_def fresh_key_def audit_row_def *
        set_del_rows split: if_splits)
qed

lemma delete_provider_spec_witness:
  "fst (run_tx (DeletePaymentProvider (quiet_env 0) ''admin'' ''pp'' []) demo_pay_db) = Inr ()"
  using delete_provider_spec [where env = "quiet_env 0" and actor = "''admin''" and pid = "''pp''" and ip = "[]" and db = demo_pay_db
      and res = "fst (run_tx (DeletePaymentProvider (quiet_env 0) ''admin'' ''pp'' []) demo_pay_db)"
      and db' = "snd (run_tx (DeletePaymentProvider (quiet_env 0) ''admin'' ''pp'' []) demo_pay_db)"]
  by (simp add: demo_pay_db_def demo_pay_order_def demo_defs)

end
