(* ===== verification/Url_Values.thy ===== *)
theory Url_Values
  imports Go_Strings "HOL-Library.AList"
begin

text \<open>
  Form values, \<^verbatim>\<open>url.Values\<close> of Go's standard library: an association list with distinct keys, its
  encoding as a query string, and the escaping of one value.  Payment links, their signatures and the requests for access
  tokens are built from them.
\<close>

type_synonym url_values = "(string \<times> string list) list"

definition values_get :: "url_values \<Rightarrow> string \<Rightarrow> string" where
  "values_get vs k = (case map_of vs k of Some (v # _) \<Rightarrow> v | _ \<Rightarrow> [])"

definition values_set :: "url_values \<Rightarrow> string \<Rightarrow> string \<Rightarrow> url_values" where
  "values_set vs k v = AList.update k [v] vs"

definition hex_upper :: "nat \<Rightarrow> char" where
  "hex_upper n = (if n < 10 then char_of (48 + n) else char_of (55 + n))"

definition query_unreserved :: "char \<Rightarrow> bool" where
  "query_unreserved c = (let n = of_char c :: nat in
     (48 \<le> n \<and> n \<le> 57) \<or> (65 \<le> n \<and> n \<le> 90) \<or> (97 \<le> n \<and> n \<le> 122) \<or> c \<in> set ''-_.~'')"

definition query_escape :: "string \<Rightarrow> string" where
  "query_escape s = concat (map (\<lambda>c. if c = CHR '' '' then ''+'' else if query_unreserved c then [c]
     else [CHR ''%'', hex_upper (of_char c div 16), hex_upper (of_char c mod 16)]) s)"

definition values_encode :: "url_values \<Rightarrow> string" where
  "values_encode vs = str_join ''&'' (concat (map (\<lambda>k. map (\<lambda>v. query_escape k @ ''='' @ query_escape v)
     (case map_of vs k of None \<Rightarrow> [] | Some es \<Rightarrow> es)) (sort (map fst vs))))"

end
