(* ===== verification/Payment_Service.thy ===== *)
theory Payment_Service
  imports Payments Paging Url_Values "HOL-Library.Multiset"
begin

text \<open>
  The payment service, \<^verbatim>\<open>internal/payment/service.go\<close>: creation of a top-up order with its payment
  link, signing of the request, verification of a provider's notification.  Hash, signature and key formats
  are the argument \<open>lib\<close>.
\<close>

subsection \<open>The text to sign\<close>

definition canonical :: "url_values \<Rightarrow> bool \<Rightarrow> string" where
  "canonical vs excludeSignType =
     (let keys = map fst (filter (\<lambda>(key, entries). \<not> (key = ''sign'' \<or> (excludeSignType \<and> key = ''sign_type'')
            \<or> entries = [] \<or> hd entries = [])) vs)
      in str_join ''&'' (map (\<lambda>key. key @ ''='' @ values_get vs key) (sort keys)))"

subsection \<open>Amounts as text\<close>

text \<open>\<^verbatim>\<open>fmt.Sprintf("%.2f", x)\<close> rounds the exact value of \<open>x\<close>, ties to even.\<close>

definition format_2f :: "float64 \<Rightarrow> string" where
  "format_2f x =
     (let n = nat \<bar>round_even (x * 100)\<bar>
      in (if x < 0 then ''-'' else []) @ nat_digits (n div 100)
         @ [CHR ''.'', char_of (48 + n div 10 mod 10), char_of (48 + n mod 10)])"

text \<open>\<^verbatim>\<open>strconv.ParseFloat\<close> on decimal notation; \<open>None\<close> is its error.  The special words and the
  hexadecimal notation are not read.\<close>

definition span_digits :: "string \<Rightarrow> string \<times> string" where
  "span_digits s = (takeWhile is_digit s, dropWhile is_digit s)"

definition parse_exponent :: "string \<Rightarrow> int option" where
  "parse_exponent s =
     (if s = [] then Some 0
      else if hd s \<noteq> CHR ''e'' \<and> hd s \<noteq> CHR ''E'' then None
      else let r = tl s; neg = (take 1 r = ''-''); ds = (if take 1 r = ''-'' \<or> take 1 r = ''+'' then drop 1 r else r)
        in if ds = [] \<or> \<not> list_all is_digit ds then None
           else Some (if neg then - int (digits_value 0 ds) else int (digits_value 0 ds)))"

definition parse_float :: "string \<Rightarrow> float64 option" where
  "parse_float s =
     (let neg = (take 1 s = ''-''); r = (if take 1 s = ''-'' \<or> take 1 s = ''+'' then drop 1 s else s);
          (ip, r1) = span_digits r;
          (fp, r2) = (if take 1 r1 = ''.'' then span_digits (drop 1 r1) else ([], r1))
      in if ip = [] \<and> fp = [] then None
         else case parse_exponent r2 of
             None \<Rightarrow> None
           | Some e \<Rightarrow>
             let v = fl (of_nat (digits_value 0 (ip @ fp)) * 10 powi (e - int (length fp)))
             in if v \<ge> 2 ^ 1024 then None else Some (if neg then - v else v))"

subsection \<open>Keys and signatures\<close>

record pay_lib =
  lib_md5_hex :: "string \<Rightarrow> string"
  lib_rsa_sign :: "string \<Rightarrow> string \<Rightarrow> string option"
  lib_rsa_verify :: "string \<Rightarrow> string \<Rightarrow> string \<Rightarrow> bool"
  lib_b64 :: "string \<Rightarrow> string"
  lib_unb64 :: "string \<Rightarrow> string option"
  lib_unb64_raw :: "string \<Rightarrow> string option"
  lib_pem :: "string \<Rightarrow> string option"
  lib_pkcs8 :: "string \<Rightarrow> string option"
  lib_pkcs1 :: "string \<Rightarrow> string option"
  lib_pkix :: "string \<Rightarrow> string option"
  lib_pkcs1_public :: "string \<Rightarrow> string option"
  lib_certificate :: "string \<Rightarrow> string option option"
  lib_digits :: "time \<Rightarrow> string"
  lib_timestamp :: "time \<Rightarrow> string"

text \<open>
  \<open>lib_rsa_sign\<close> and \<open>lib_rsa_verify\<close> take a key, a message, which they hash with SHA-256, and return or check a
  signature.  The parsers return an RSA key; \<open>lib_pkcs8\<close> and \<open>lib_pkix\<close> are \<open>None\<close> also for another kind of key,
  and \<open>lib_certificate\<close> is \<open>Some None\<close> then.
\<close>

datatype pay_error =
    PayStore store_error
  | PayEasyConfig | PayAlipayConfig | PayPrivateKey pay_error | PayPublicKey pay_error
  | PayKeyText | PayKeyInvalid | PayKeyNotRSA
  | PayUnsupportedType | PayEasyVerify | PayAlipayVerify | PayNotSuccessful | PayUnsupportedNotify
  | PayIncomplete | PayEasyIncomplete | PayAlipayIncomplete | PaySign

definition decodeBase64Key :: "pay_lib \<Rightarrow> string \<Rightarrow> string option" where
  "decodeBase64Key lib value =
     (let encoded = filter (\<lambda>c. \<not> is_space c) value
      in case lib_unb64 lib encoded of Some decoded \<Rightarrow> Some decoded | None \<Rightarrow> lib_unb64_raw lib encoded)"

definition key_bytes :: "pay_lib \<Rightarrow> string \<Rightarrow> string option" where
  "key_bytes lib value = (case lib_pem lib (trim_space value) of Some block \<Rightarrow> Some block | None \<Rightarrow> decodeBase64Key lib value)"

definition parsePrivateKey :: "pay_lib \<Rightarrow> string \<Rightarrow> pay_error + string" where
  "parsePrivateKey lib value =
     (case key_bytes lib value of
        None \<Rightarrow> Inl PayKeyText
      | Some keyBytes \<Rightarrow> (case lib_pkcs8 lib keyBytes of
          Some key \<Rightarrow> Inr key
        | None \<Rightarrow> (case lib_pkcs1 lib keyBytes of Some key \<Rightarrow> Inr key | None \<Rightarrow> Inl PayKeyInvalid)))"

definition parsePublicKey :: "pay_lib \<Rightarrow> string \<Rightarrow> pay_error + string" where
  "parsePublicKey lib value =
     (case key_bytes lib value of
        None \<Rightarrow> Inl PayKeyText
      | Some keyBytes \<Rightarrow> (case lib_pkix lib keyBytes of
          Some key \<Rightarrow> Inr key
        | None \<Rightarrow> (case lib_pkcs1_public lib keyBytes of
            Some key \<Rightarrow> Inr key
          | None \<Rightarrow> (case lib_certificate lib keyBytes of
              None \<Rightarrow> Inl PayKeyInvalid | Some None \<Rightarrow> Inl PayKeyNotRSA | Some (Some key) \<Rightarrow> Inr key))))"

definition signEasyPay :: "pay_lib \<Rightarrow> url_values \<Rightarrow> string \<Rightarrow> string" where
  "signEasyPay lib vs key = lib_md5_hex lib (canonical vs True @ key)"

definition verifyEasyPay :: "pay_lib \<Rightarrow> url_values \<Rightarrow> string \<Rightarrow> bool" where
  "verifyEasyPay lib vs key \<longleftrightarrow> equal_fold (values_get vs ''sign'') (signEasyPay lib vs key)"

definition verifyAlipay :: "pay_lib \<Rightarrow> url_values \<Rightarrow> string \<Rightarrow> bool" where
  "verifyAlipay lib vs publicKeyText =
     (case parsePublicKey lib publicKeyText of
        Inl _ \<Rightarrow> False
      | Inr publicKey \<Rightarrow> (case lib_unb64 lib (values_get vs ''sign'') of
          None \<Rightarrow> False
        | Some signature \<Rightarrow> lib_rsa_verify lib publicKey (canonical vs True) signature))"

subsection \<open>Payment links\<close>

definition easypay_values :: "string \<Rightarrow> PaymentProviderSecret \<Rightarrow> PaymentOrder \<Rightarrow> url_values" where
  "easypay_values publicURL provider order =
     (let config = get_or_empty (pps_Config provider);
          values0 = [(''pid'', [config ''pid'']), (''type'', [pord_Method order]), (''out_trade_no'', [pord_ID order]),
            (''notify_url'', [publicURL @ ''/api/v1/payment/webhook/easypay?provider_id='' @ pprov_ID (pps_Provider provider)]),
            (''return_url'', [publicURL @ ''/?payment_order='' @ pord_ID order]),
            (''name'', [msg_topup_name]), (''money'', [format_2f (pord_Amount order)])]
      in if config ''channel_id'' \<noteq> [] then values_set values0 ''cid'' (config ''channel_id'') else values0)"

definition createEasyPay :: "pay_lib \<Rightarrow> string \<Rightarrow> PaymentProviderSecret \<Rightarrow> PaymentOrder \<Rightarrow> pay_error + url_values" where
  "createEasyPay lib publicURL provider order =
     (let config = get_or_empty (pps_Config provider)
      in if config ''api_base'' = [] \<or> config ''pid'' = [] \<or> config ''pkey'' = [] \<or> publicURL = [] then Inl PayEasyIncomplete
         else let vs = easypay_values publicURL provider order
          in Inr (values_set (values_set vs ''sign'' (signEasyPay lib vs (config ''pkey''))) ''sign_type'' ''MD5''))"

definition easypay_link :: "string \<Rightarrow> url_values \<Rightarrow> string" where
  "easypay_link apiBase vs = apiBase @ (if str_contains apiBase ''?'' then ''&'' else ''?'') @ values_encode vs"

text \<open>The JSON text of a string that needs no other escapes than these.\<close>

definition json_escape_char :: "char \<Rightarrow> string" where
  "json_escape_char c =
     (if c = CHR 34 then [CHR 92, CHR 34] else if c = CHR 92 then [CHR 92, CHR 92]
      else if c = CHR ''<'' then CHR 92 # ''u003c'' else if c = CHR ''>'' then CHR 92 # ''u003e''
      else if c = CHR ''&'' then CHR 92 # ''u0026''
      else if of_char c = (10::nat) then CHR 92 # ''n'' else if of_char c = (13::nat) then CHR 92 # ''r''
      else if of_char c = (9::nat) then CHR 92 # ''t'' else [c])"

definition json_string :: "string \<Rightarrow> string" where
  "json_string s = CHR 34 # concat (map json_escape_char s) @ [CHR 34]"

text \<open>The keys of a map are written in ascending order.\<close>

definition json_object :: "(string \<times> string) list \<Rightarrow> string" where
  "json_object kvs = ''{'' @ str_join '','' (map (\<lambda>(k, v). json_string k @ '':'' @ json_string v) (sort_key fst kvs)) @ ''}''"

definition createAlipay ::
  "pay_lib \<Rightarrow> env \<Rightarrow> nat \<Rightarrow> string \<Rightarrow> PaymentProviderSecret \<Rightarrow> PaymentOrder \<Rightarrow> bool \<Rightarrow> pay_error + url_values" where
  "createAlipay lib env n publicURL provider order mobile =
     (let config = get_or_empty (pps_Config provider)
      in if config ''app_id'' = [] \<or> config ''private_key'' = [] \<or> publicURL = [] then Inl PayAlipayIncomplete
         else let method = (if mobile then ''alipay.trade.wap.pay'' else ''alipay.trade.page.pay'');
                productCode = (if mobile then ''QUICK_WAP_WAY'' else ''FAST_INSTANT_TRADE_PAY'');
                bizContent = json_object [(''out_trade_no'', pord_ID order), (''product_code'', productCode),
                  (''total_amount'', format_2f (pord_Amount order)), (''subject'', msg_topup_name), (''timeout_express'', ''30m'')];
                vs = [(''app_id'', [config ''app_id'']), (''method'', [method]), (''format'', [''JSON'']), (''charset'', [''utf-8'']),
                  (''sign_type'', [''RSA2'']), (''timestamp'', [lib_timestamp lib (clock env n)]), (''version'', [''1.0'']),
                  (''notify_url'', [publicURL @ ''/api/v1/payment/webhook/alipay?provider_id='' @ pprov_ID (pps_Provider provider)]),
                  (''return_url'', [publicURL @ ''/?payment_order='' @ pord_ID order]), (''biz_content'', [bizContent])]
          in case parsePrivateKey lib (config ''private_key'') of
               Inl e \<Rightarrow> Inl e
             | Inr privateKey \<Rightarrow> (case lib_rsa_sign lib privateKey (canonical vs True) of
                 None \<Rightarrow> Inl PaySign
               | Some signature \<Rightarrow> Inr (values_set vs ''sign'' (lib_b64 lib signature))))"

definition alipay_link :: "(string \<rightharpoonup> string) \<Rightarrow> url_values \<Rightarrow> string" where
  "alipay_link config vs =
     (let gateway = get_or_empty config ''gateway''
      in (if gateway = [] then ''https://openapi.alipay.com/gateway.do'' else gateway) @ ''?'' @ values_encode vs)"

subsection \<open>The service\<close>

definition ValidateProviderConfig :: "pay_lib \<Rightarrow> string \<Rightarrow> (string \<rightharpoonup> string) \<Rightarrow> pay_error + unit" where
  "ValidateProviderConfig lib providerType cfg =
     (let config = get_or_empty cfg
      in if providerType = ''easypay'' then
           (if trim_space (config ''api_base'') = [] \<or> trim_space (config ''pid'') = [] \<or> trim_space (config ''pkey'') = []
            then Inl PayEasyConfig else Inr ())
         else if providerType = ''alipay'' then
           (if trim_space (config ''app_id'') = [] \<or> trim_space (config ''private_key'') = [] \<or> trim_space (config ''public_key'') = []
            then Inl PayAlipayConfig
            else case parsePrivateKey lib (config ''private_key'') of
                Inl e \<Rightarrow> Inl (PayPrivateKey e)
              | Inr _ \<Rightarrow> (case parsePublicKey lib (config ''public_key'') of Inl e \<Rightarrow> Inl (PayPublicKey e) | Inr _ \<Rightarrow> Inr ()))
         else Inl PayUnsupportedType)"

definition Methods :: "crypto \<Rightarrow> env \<Rightarrow> db \<Rightarrow> store_error + string list" where
  "Methods cr env db =
     (case ListEnabledPaymentProviders cr env 0 ''alipay'' db of
        Inl e \<Rightarrow> Inl e | Inr providers \<Rightarrow> Inr (if providers = [] then [] else [''alipay'']))"

definition payment_link ::
  "pay_lib \<Rightarrow> env \<Rightarrow> nat \<Rightarrow> string \<Rightarrow> PaymentProviderSecret \<Rightarrow> PaymentOrder \<Rightarrow> bool \<Rightarrow> pay_error + string" where
  "payment_link lib env n publicURL provider order mobile =
     (let t = pprov_Type (pps_Provider provider)
      in if t = ''easypay'' then
           (case createEasyPay lib publicURL provider order of
              Inl e \<Rightarrow> Inl e | Inr vs \<Rightarrow> Inr (easypay_link (get_or_empty (pps_Config provider) ''api_base'') vs))
         else if t = ''alipay'' then
           (case createAlipay lib env n publicURL provider order mobile of
              Inl e \<Rightarrow> Inl e | Inr vs \<Rightarrow> Inr (alipay_link (pps_Config provider) vs))
         else Inl PayUnsupportedType)"

definition Create ::
  "pay_lib \<Rightarrow> crypto \<Rightarrow> env \<Rightarrow> string \<Rightarrow> string \<Rightarrow> float64 \<Rightarrow> string \<Rightarrow> bool \<Rightarrow> db \<Rightarrow> (pay_error + PaymentOrder) \<times> db" where
  "Create lib cr env publicURL userID amount pmethod mobile db =
     (case ListEnabledPaymentProviders cr env 0 pmethod db of
        Inl _ \<Rightarrow> (Inl (PayStore ErrPaymentProviderNotFound), db)
      | Inr [] \<Rightarrow> (Inl (PayStore ErrPaymentProviderNotFound), db)
      | Inr (provider # _) \<Rightarrow>
        (case ValidateProviderConfig lib (pprov_Type (pps_Provider provider)) (pps_Config provider) of
           Inl e \<Rightarrow> (Inl e, db)
         | Inr () \<Rightarrow>
           (case run_tx (CreatePaymentOrder (lib_digits lib) env 1 userID (pprov_ID (pps_Provider provider)) pmethod amount) db of
              (Inl e, db1) \<Rightarrow> (Inl (PayStore e), db1)
            | (Inr order, db1) \<Rightarrow>
              (case payment_link lib env 3 publicURL provider order mobile of
                 Inl e \<Rightarrow> (Inl e, snd (run_tx (CancelPaymentOrder env 3 userID (pord_ID order)) db1))
               | Inr payURL \<Rightarrow>
                 (case run_tx (SetPaymentOrderURL env 5 (pord_ID order) payURL) db1 of
                    (Inl e, db2) \<Rightarrow> (Inl (PayStore e), db2)
                  | (Inr (), db2) \<Rightarrow> (Inr (order\<lparr>pord_PayURL := payURL\<rparr>), db2))))))"

subsection \<open>Notifications\<close>

datatype notification = Rejected pay_error | Paid string string "float64 option"

definition check_notification :: "pay_lib \<Rightarrow> string \<Rightarrow> (string \<rightharpoonup> string) \<Rightarrow> url_values \<Rightarrow> notification" where
  "check_notification lib providerType config vs =
     (if providerType = ''easypay'' then
        (if \<not> verifyEasyPay lib vs (get_or_empty config ''pkey'') \<or> values_get vs ''trade_status'' \<noteq> ''TRADE_SUCCESS''
            \<or> values_get vs ''pid'' \<noteq> get_or_empty config ''pid''
         then Rejected PayEasyVerify
         else Paid (values_get vs ''out_trade_no'') (values_get vs ''trade_no'') (parse_float (values_get vs ''money'')))
      else if providerType = ''alipay'' then
        (if values_get vs ''app_id'' \<noteq> get_or_empty config ''app_id'' \<or> \<not> verifyAlipay lib vs (get_or_empty config ''public_key'')
         then Rejected PayAlipayVerify
         else if values_get vs ''trade_status'' \<noteq> ''TRADE_SUCCESS'' \<and> values_get vs ''trade_status'' \<noteq> ''TRADE_FINISHED''
         then Rejected PayNotSuccessful
         else Paid (values_get vs ''out_trade_no'') (values_get vs ''trade_no'') (parse_float (values_get vs ''total_amount'')))
      else Rejected PayUnsupportedNotify)"

definition Notify ::
  "pay_lib \<Rightarrow> crypto \<Rightarrow> env \<Rightarrow> string \<Rightarrow> string \<Rightarrow> url_values \<Rightarrow> db \<Rightarrow> (pay_error + unit) \<times> db" where
  "Notify lib cr env providerType providerID vs db =
     (case GetPaymentProviderSecret cr env 0 providerID db of
        Inl _ \<Rightarrow> (Inl (PayStore ErrPaymentProviderNotFound), db)
      | Inr provider \<Rightarrow>
        if pprov_Type (pps_Provider provider) \<noteq> providerType then (Inl (PayStore ErrPaymentProviderNotFound), db)
        else case check_notification lib providerType (pps_Config provider) vs of
            Rejected e \<Rightarrow> (Inl e, db)
          | Paid orderID tradeNo amount \<Rightarrow>
            (case amount of
               None \<Rightarrow> (Inl PayIncomplete, db)
             | Some paid \<Rightarrow>
               if orderID = [] \<or> tradeNo = [] then (Inl PayIncomplete, db)
               else case run_tx (CompletePaymentOrder env 1 orderID tradeNo paid) db of
                   (Inl e, db') \<Rightarrow> (Inl (PayStore e), db')
                 | (Inr _, db') \<Rightarrow> (Inr (), db')))"

subsection \<open>The signed text\<close>

lemma values_get_perm:
  assumes "mset vs = mset vs'" "distinct (map fst vs)"
  shows "values_get vs k = values_get vs' k"
proof -
  have d: "distinct (map fst vs')" using assms by (metis mset_map mset_eq_imp_distinct_iff)
  have "set vs = set vs'" using assms(1) by (rule mset_eq_setD)
  then have "map_of vs = map_of vs'" using map_of_inject_set [OF assms(2) d] by blast
  then show ?thesis by (simp add: values_get_def)
qed

lemma canonical_perm:
  assumes "mset vs = mset vs'" "distinct (map fst vs)"
  shows "canonical vs b = canonical vs' b"
proof -
  have g: "values_get vs = values_get vs'" using values_get_perm [OF assms] by blast
  have "sort (map fst (filter P vs)) = sort (map fst (filter P vs'))" for P :: "string \<times> string list \<Rightarrow> bool"
  proof -
    have "mset (map fst (filter P vs)) = mset (map fst (filter P vs'))"
      using assms(1) by simp
    then show ?thesis by (metis mset_sort properties_for_sort sorted_sort)
  qed
  then show ?thesis by (simp add: canonical_def g)
qed

lemma values_get_set: "values_get (values_set vs k v) k' = (if k' = k then v else values_get vs k')"
  by (simp add: values_get_def values_set_def update_conv')

lemma filter_update_skip:
  assumes "\<And>v. \<not> P (k, v)"
  shows "filter P (AList.update k v vs) = filter P vs"
  by (induction vs) (use assms in auto)

lemma canonical_set_skipped:
  assumes "k = ''sign'' \<or> k = ''sign_type''"
  shows "canonical (values_set vs k v) True = canonical vs True"
proof -
  let ?P = "\<lambda>(key, entries). \<not> (key = ''sign'' \<or> (True \<and> key = ''sign_type'') \<or> entries = [] \<or> hd entries = [])"
  have f: "filter ?P (values_set vs k v) = filter ?P vs"
    unfolding values_set_def by (rule filter_update_skip) (use assms in auto)
  show ?thesis
    unfolding canonical_def Let_def f
    by (rule arg_cong [where f = "str_join _"], rule map_cong [OF refl]) (use assms in \<open>auto simp: values_get_set\<close>)
qed

subsection \<open>Amounts survive the round trip\<close>

lemma digit_char [simp]: "k < 10 \<Longrightarrow> of_char (char_of (48 + k) :: char) = (48 + k :: nat)"
  by (simp add: of_char_of)

lemma is_digit_char [simp]: "k < 10 \<Longrightarrow> is_digit (char_of (48 + k :: nat))"
  by (simp add: is_digit_def Let_def del: of_char_of)

lemma nat_digits_digits: "list_all is_digit (nat_digits n)"
proof (induction n rule: nat_digits.induct)
  case (1 n)
  then show ?case by (subst nat_digits.simps) (auto simp: list_all_append)
qed

lemma nat_digits_not_Nil [simp]: "nat_digits n \<noteq> []"
  by (subst nat_digits.simps) simp

lemma span_digits_stop: "list_all is_digit xs \<Longrightarrow> ys = [] \<or> \<not> is_digit (hd ys) \<Longrightarrow> span_digits (xs @ ys) = (xs, ys)"
  by (cases ys) (auto simp: span_digits_def list_all_iff takeWhile_append dropWhile_append takeWhile_eq_all_conv dropWhile_eq_Nil_conv)

lemma parse_float_two_decimals:
  "parse_float (nat_digits m @ [CHR ''.'', char_of (48 + a), char_of (48 + b)]) =
     (let v = fl (of_nat (100 * m + 10 * a + b) / 100) in if v \<ge> 2 ^ 1024 then None else Some v)"
  if "a < 10" "b < 10"
proof -
  let ?s = "nat_digits m @ [CHR ''.'', char_of (48 + a), char_of (48 + b)]"
  obtain c cs where c: "nat_digits m = c # cs" by (cases "nat_digits m") auto
  have "is_digit c" using nat_digits_digits [of m] by (simp add: c)
  then have nsign: "c \<noteq> CHR ''-''" "c \<noteq> CHR ''+''" by (auto simp: is_digit_def)
  have sp1: "span_digits ?s = (nat_digits m, [CHR ''.'', char_of (48 + a), char_of (48 + b)])"
    by (rule span_digits_stop [OF nat_digits_digits]) (simp add: is_digit_def)
  have sp2: "span_digits [char_of (48 + a), char_of (48 + b)] = ([char_of (48 + a), char_of (48 + b)], [])"
    using that by (simp add: span_digits_def)
  have val: "digits_value 0 (nat_digits m @ [char_of (48 + a), char_of (48 + b)]) = 100 * m + 10 * a + b"
    using that by (simp add: digits_value_append)
  have pw: "(10::rat) powi (0 - int (length [char_of (48 + a), char_of (48 + b) :: char])) = 1 / 100"
    by (simp add: power_int_minus field_simps)
  show ?thesis
    unfolding parse_float_def Let_def using nsign c
    by (simp only: sp1 [unfolded c] c append_Cons take_Suc_Cons take_0 drop_Suc_Cons drop_0)
      (simp add: sp1 [unfolded c, simplified] sp2 parse_exponent_def val [unfolded c, simplified] c del: of_char_of)
qed

lemma format_2f_from_cents:
  assumes "0 \<le> c" "c \<le> cents_bound"
  shows "format_2f (from_cents c) = nat_digits (nat c div 100) @ [CHR ''.'', char_of (48 + nat c div 10 mod 10), char_of (48 + nat c mod 10)]"
proof -
  have err: "\<bar>from_cents c * 100 - of_int c\<bar> \<le> 100/390"
    using from_cents_error [of c] assms by (simp add: abs_le_iff field_simps)
  have e: "\<bar>of_int (round_even (from_cents c * 100)) - from_cents c * 100\<bar> \<le> 1/2" by (rule round_even_error)
  have "\<bar>of_int (round_even (from_cents c * 100)) - of_int c :: rat\<bar> < 1" using err e by linarith
  then have "round_even (from_cents c * 100) = c" by linarith
  moreover have "\<not> from_cents c < 0" using from_cents_nonneg [of c] assms by (simp add: not_less)
  ultimately show ?thesis using assms(1) by (simp add: format_2f_def Let_def)
qed

lemma cents_decimal:
  assumes "0 \<le> c" "c \<le> cents_bound"
  shows "cents (fl (of_int c / 100)) = c" and "fl (of_int c / 100) < 2 ^ 1024"
proof -
  define v where "v = fl (of_int c / 100)"
  have c: "0 \<le> (of_int c :: rat)" "(of_int c :: rat) \<le> 2 ^ 50"
    using assms by (simp_all add: cents_bound_def)
  have p50: "(2::rat) ^ 50 = 1125899906842624" by simp
  have 1: "\<bar>v - of_int c / 100\<bar> \<le> ulp * \<bar>of_int c / 100\<bar>" unfolding v_def by (rule fl_error)
  have 2: "ulp * \<bar>of_int c / 100\<bar> \<le> 1/800" using c by (simp add: ulp_def)
  have 3: "\<bar>v\<bar> \<le> 2 ^ 50" using 1 2 c unfolding p50 by linarith
  have 4: "\<bar>fl (v * 100) - v * 100\<bar> \<le> ulp * \<bar>v * 100\<bar>" by (rule fl_error)
  have "\<bar>v * 100\<bar> \<le> 100 * 2 ^ 50" using 3 by (simp add: abs_mult)
  moreover have "\<bar>v * 100 - of_int c\<bar> \<le> 1/8" using 1 2 by linarith
  ultimately have "\<bar>v * 100\<bar> \<le> 2 ^ 50 + 1" using c by linarith
  then have "ulp * \<bar>v * 100\<bar> \<le> 1/7" by (simp add: ulp_def)
  then have "\<bar>fl (v * 100) - of_int c\<bar> < 1/2" using 4 \<open>\<bar>v * 100 - of_int c\<bar> \<le> 1/8\<close> by linarith
  then show "cents (fl (of_int c / 100)) = c" unfolding cents_def v_def [symmetric] by (rule math_round_near)
  have "(2::rat) ^ 50 < 2 ^ 1024" by (rule power_strict_increasing) simp_all
  then show "fl (of_int c / 100) < 2 ^ 1024" using 3 unfolding v_def by linarith
qed

lemma amount_text_round_trip:
  assumes "0 \<le> c" "c \<le> cents_bound"
  shows "\<exists>paid. parse_float (format_2f (from_cents c)) = Some paid \<and> cents paid = c"
proof -
  have d: "100 * (nat c div 100) + 10 * (nat c div 10 mod 10) + nat c mod 10 = nat c"
  proof -
    have "nat c div 100 = nat c div 10 div 10" using div_mult2_eq [of "nat c" 10 10] by simp
    moreover have "nat c div 10 div 10 * 10 + nat c div 10 mod 10 = nat c div 10" "nat c div 10 * 10 + nat c mod 10 = nat c"
      by (rule div_mult_mod_eq)+
    ultimately show ?thesis by linarith
  qed
  have "of_nat (100 * (nat c div 100) + 10 * (nat c div 10 mod 10) + nat c mod 10) = (of_int c :: rat)"
    unfolding d using assms(1) by simp
  then have e: "of_nat (100 * (nat c div 100) + 10 * (nat c div 10 mod 10) + nat c mod 10) = (of_int c :: rat)" .
  have a10: "nat c div 10 mod 10 < 10" "nat c mod 10 < 10" by simp_all
  have "parse_float (format_2f (from_cents c)) = Some (fl (of_int c / 100))"
    using parse_float_two_decimals [OF a10, of "nat c div 100"] cents_decimal(2) [OF assms]
    unfolding format_2f_from_cents [OF assms] e by simp
  then show ?thesis using cents_decimal(1) [OF assms] by blast
qed

text \<open>C17: The request to the EasyPay gateway and a notification agree: the signature put into the link verifies, in whatever
  order the values come back, with the same key; it names the order; and the amount written into it reads
  back as exactly the order's amount, so the payment is not refused as a mismatch.\<close>

theorem easypay_round_trip:
  assumes "createEasyPay lib publicURL provider order = Inr vs"
    and "pord_Amount order = from_cents c" "0 \<le> c" "c \<le> cents_bound" and "mset vs' = mset vs"
  shows "verifyEasyPay lib vs' (get_or_empty (pps_Config provider) ''pkey'')
    \<and> values_get vs' ''out_trade_no'' = pord_ID order \<and> values_get vs' ''pid'' = get_or_empty (pps_Config provider) ''pid''
    \<and> (\<exists>paid. parse_float (values_get vs' ''money'') = Some paid \<and> cents paid = c)"
proof -
  let ?key = "get_or_empty (pps_Config provider) ''pkey''"
  define vs1 where "vs1 = easypay_values publicURL provider order"
  have vs: "vs = values_set (values_set vs1 ''sign'' (signEasyPay lib vs1 ?key)) ''sign_type'' ''MD5''"
    using assms(1) by (simp add: createEasyPay_def vs1_def Let_def split: if_splits)
  have d1: "distinct (map fst vs1)" and g: "values_get vs1 ''out_trade_no'' = pord_ID order"
      "values_get vs1 ''pid'' = get_or_empty (pps_Config provider) ''pid''" "values_get vs1 ''money'' = format_2f (pord_Amount order)"
    by (simp_all add: vs1_def easypay_values_def Let_def values_set_def values_get_def)
  have "distinct (map fst vs)" by (simp add: vs values_set_def distinct_update d1)
  moreover have "mset (map fst vs') = mset (map fst vs)" using assms(5) by simp
  ultimately have d: "distinct (map fst vs')" using mset_eq_imp_distinct_iff by blast
  have get: "values_get vs' k = values_get vs k" for k by (rule values_get_perm [OF assms(5) d])
  have "canonical vs' True = canonical vs1 True"
    using canonical_perm [OF assms(5) d] by (simp add: vs canonical_set_skipped)
  then have "verifyEasyPay lib vs' ?key"
    by (simp add: verifyEasyPay_def signEasyPay_def get vs values_get_set)
  then show ?thesis
    using amount_text_round_trip [OF assms(3,4)] assms(2) by (simp add: get vs values_get_set g)
qed

definition demo_lib :: pay_lib where
  "demo_lib = \<lparr> lib_md5_hex = rev, lib_rsa_sign = \<lambda>k m. Some m, lib_rsa_verify = \<lambda>k m s. m = s, lib_b64 = id, lib_unb64 = Some,
     lib_unb64_raw = Some, lib_pem = \<lambda>_. None, lib_pkcs8 = Some, lib_pkcs1 = Some, lib_pkix = Some, lib_pkcs1_public = Some,
     lib_certificate = \<lambda>_. None, lib_digits = \<lambda>_. ''2024'', lib_timestamp = \<lambda>_. ''t'' \<rparr>"

definition demo_pps :: PaymentProviderSecret where
  "demo_pps = \<lparr> pps_Provider = \<lparr> pprov_ID = ''pp'', pprov_Name = ''n'', pprov_Type = ''easypay'', pprov_Methods = [''alipay''],
     pprov_Enabled = True, pprov_Priority = 1, pprov_CreatedAt = 0, pprov_UpdatedAt = 0 \<rparr>,
     pps_Config = [''api_base'' \<mapsto> ''https://p'', ''pid'' \<mapsto> ''7'', ''pkey'' \<mapsto> ''k''] \<rparr>"

lemma easypay_round_trip_witness:
  "\<exists>vs. createEasyPay demo_lib ''https://h'' demo_pps (mapPaymentOrder demo_pay_order) = Inr vs
     \<and> verifyEasyPay demo_lib (rev vs) ''k'' \<and> values_get (rev vs) ''out_trade_no'' = ''PAY1''"
proof -
  let ?r = "createEasyPay demo_lib ''https://h'' demo_pps (mapPaymentOrder demo_pay_order)"
  have "is_ok ?r" by (simp add: createEasyPay_def demo_pps_def Let_def get_or_empty_def)
  then obtain vs where r: "?r = Inr vs" by (auto simp: is_ok_iff)
  have k: "get_or_empty (pps_Config demo_pps) ''pkey'' = ''k''" by (simp add: demo_pps_def)
  show ?thesis
    using easypay_round_trip [OF r, where c = 500 and vs' = "rev vs"] r k
    by (simp add: mapPaymentOrder_def demo_pay_order_def cents_bound_def)
qed

text \<open>C16: A notification credits a wallet only when it is genuine: it names an existing provider of that type, carries a
  signature that verifies with that provider's own key and account and a successful state, and the amount it states is
  the order's amount; the order it names is completed afterwards.  A refused one changes nothing.\<close>

theorem notify_genuine:
  assumes "Notify lib cr env providerType providerID vs db = (res, db')"
  shows "case res of
      Inl e \<Rightarrow> db' = db
    | Inr () \<Rightarrow> \<exists>provider paid p. GetPaymentProviderSecret cr env 0 providerID db = Inr provider
        \<and> pprov_Type (pps_Provider provider) = providerType
        \<and> (providerType = ''easypay'' \<and> verifyEasyPay lib vs (get_or_empty (pps_Config provider) ''pkey'')
             \<and> values_get vs ''pid'' = get_or_empty (pps_Config provider) ''pid'' \<and> values_get vs ''trade_status'' = ''TRADE_SUCCESS''
             \<and> parse_float (values_get vs ''money'') = Some paid
           \<or> providerType = ''alipay'' \<and> verifyAlipay lib vs (get_or_empty (pps_Config provider) ''public_key'')
             \<and> values_get vs ''app_id'' = get_or_empty (pps_Config provider) ''app_id''
             \<and> values_get vs ''trade_status'' \<in> {''TRADE_SUCCESS'', ''TRADE_FINISHED''}
             \<and> parse_float (values_get vs ''total_amount'') = Some paid)
        \<and> p \<in> set (db_pay_orders db) \<and> po_ID p = values_get vs ''out_trade_no'' \<and> po_ID p \<noteq> []
        \<and> (po_Status p = ''completed'' \<and> db' = db
           \<or> cents paid = po_AmountCents p \<and> (\<exists>p'\<in>set (db_pay_orders db'). same_payment p p' \<and> po_Status p' = ''completed''))"
proof (cases res)
  case (Inl e)
  then show ?thesis
    using assms by (auto simp: Notify_def split: sum.splits if_splits notification.splits option.splits prod.splits dest: run_tx_error)
next
  case (Inr x)
  then obtain provider oid tradeNo paid pres
    where pr: "GetPaymentProviderSecret cr env 0 providerID db = Inr provider" "pprov_Type (pps_Provider provider) = providerType"
      and ch: "check_notification lib providerType (pps_Config provider) vs = Paid oid tradeNo (Some paid)" "oid \<noteq> []"
      and run: "run_tx (CompletePaymentOrder env 1 oid tradeNo paid) db = (Inr pres, db')"
    using assms by (auto simp: Notify_def split: sum.splits if_splits notification.splits option.splits prod.splits)
  have eff: "pay_done env 1 oid tradeNo paid db pres db'"
    using CompletePaymentOrder_effect run by (meson run_tx_ok tx_okD)
  then obtain p where p: "p \<in> set (db_pay_orders db)" "po_ID p = oid"
    and c: "if po_Status p = ''completed'' then db' = db \<and> pres = mapPaymentOrder p
        else paymentOrderCanComplete (po_Status p) \<and> cents paid = po_AmountCents p
          \<and> pres = mapPaymentOrder (completed_payment (clock env 1) tradeNo p)
          \<and> db_pay_orders db' = upd_rows (\<lambda>x. po_ID x = po_ID p) (\<lambda>_. completed_payment (clock env 1) tradeNo p) (db_pay_orders db)
          \<and> booked (po_UserID p) [] (po_ID p) ''payment_topup'' (po_AmountCents p) db db' \<and> unchanged_orders db db'"
    unfolding pay_done_def by blast
  have A: "po_Status p = ''completed'' \<and> db' = db
      \<or> cents paid = po_AmountCents p \<and> (\<exists>p'\<in>set (db_pay_orders db'). same_payment p p' \<and> po_Status p' = ''completed'')"
  proof (cases "po_Status p = ''completed''")
    case True
    then show ?thesis using c by simp
  next
    case False
    let ?p' = "completed_payment (clock env 1) tradeNo p"
    have "?p' \<in> set (db_pay_orders db')"
      using c False in_upd_rows_hit [OF p(1), of "\<lambda>x. po_ID x = po_ID p" "\<lambda>_. completed_payment (clock env 1) tradeNo p"] by simp
    moreover have "same_payment p ?p' \<and> po_Status ?p' = ''completed''" by (simp add: same_payment_def completed_payment_def)
    ultimately have "\<exists>p'\<in>set (db_pay_orders db'). same_payment p p' \<and> po_Status p' = ''completed''" by (intro bexI [of _ ?p']) auto
    then show ?thesis using c False by simp
  qed
  have B: "oid = values_get vs ''out_trade_no''"
    using ch(1) by (auto simp: check_notification_def split: if_splits)
  have C: "providerType = ''easypay'' \<and> verifyEasyPay lib vs (get_or_empty (pps_Config provider) ''pkey'')
             \<and> values_get vs ''pid'' = get_or_empty (pps_Config provider) ''pid'' \<and> values_get vs ''trade_status'' = ''TRADE_SUCCESS''
             \<and> parse_float (values_get vs ''money'') = Some paid
           \<or> providerType = ''alipay'' \<and> verifyAlipay lib vs (get_or_empty (pps_Config provider) ''public_key'')
             \<and> values_get vs ''app_id'' = get_or_empty (pps_Config provider) ''app_id''
             \<and> values_get vs ''trade_status'' \<in> {''TRADE_SUCCESS'', ''TRADE_FINISHED''}
             \<and> parse_float (values_get vs ''total_amount'') = Some paid"
    using ch(1) unfolding check_notification_def
    by (cases "providerType = ''easypay''"; cases "providerType = ''alipay''") (auto split: if_splits)
  have D: "po_ID p = values_get vs ''out_trade_no''" "po_ID p \<noteq> []" using p(2) ch(2) B by simp_all
  show ?thesis
    unfolding Inr sum.case
    by (cases x) (simp only: old.unit.case, intro exI [of _ provider] exI [of _ paid] exI [of _ p] conjI pr A C D p(1))
qed

definition demo_key_crypto :: crypto where
  "demo_key_crypto = plain_crypto\<lparr>cr_decrypt := \<lambda>_. Some [''pid'' \<mapsto> ''7'', ''pkey'' \<mapsto> ''k'']\<rparr>"

definition demo_notification :: url_values where
  "demo_notification = [(''pid'', [''7'']), (''trade_status'', [''TRADE_SUCCESS'']), (''out_trade_no'', [''PAY1'']),
     (''trade_no'', [''t'']), (''money'', [''5.00'']), (''sign'', [''x''])]"

lemma notify_genuine_witness:
  "\<exists>db'. Notify (demo_lib\<lparr>lib_md5_hex := \<lambda>_. ''x''\<rparr>) demo_key_crypto (quiet_env 20) ''easypay'' ''pp'' demo_notification demo_pay_db
       = (Inr (), db') \<and> (\<exists>p\<in>set (db_pay_orders db'). po_ID p = ''PAY1'' \<and> po_Status p = ''completed'')"
proof -
  let ?run = "Notify (demo_lib\<lparr>lib_md5_hex := \<lambda>_. ''x''\<rparr>) demo_key_crypto (quiet_env 20) ''easypay'' ''pp'' demo_notification demo_pay_db"
  have "parse_float ''5.00'' = Some 5" by code_simp
  then have "is_ok (fst ?run)"
    by (simp add: Notify_def GetPaymentProviderSecret_def check_notification_def verifyEasyPay_def signEasyPay_def values_get_def
        equal_fold_refl mapPaymentProvider_def demo_key_crypto_def demo_notification_def
        demo_cents pay_run_simps)
  then obtain db' where r: "?run = (Inr (), db')" by (cases ?run) (auto simp: is_ok_iff)
  have id: "values_get demo_notification ''out_trade_no'' = ''PAY1''" by (simp add: values_get_def demo_notification_def)
  have open_order: "po_Status p \<noteq> ''completed''" if "p \<in> set (db_pay_orders demo_pay_db)" for p
    using that by (simp add: demo_pay_db_def demo_pay_order_def)
  obtain p p' where p: "p \<in> set (db_pay_orders demo_pay_db)" "po_ID p = ''PAY1''"
      and p': "po_Status p = ''completed'' \<or> p' \<in> set (db_pay_orders db') \<and> same_payment p p' \<and> po_Status p' = ''completed''"
    using notify_genuine [OF r, unfolded id sum.case unit.case] by blast
  have "p' \<in> set (db_pay_orders db') \<and> same_payment p p' \<and> po_Status p' = ''completed''"
    by (rule mp [OF p' [unfolded disj_imp] open_order [OF p(1)]])
  then have "\<exists>p\<in>set (db_pay_orders db'). po_ID p = ''PAY1'' \<and> po_Status p = ''completed''"
    using p(2) unfolding same_payment_def by (intro bexI [of _ p']) simp_all
  with r show ?thesis by (intro exI [of _ db'] conjI)
qed

text \<open>The notification handler never looks at the provider an order was created for: whatever providers the
  stored orders name, the outcome is the same, so a notification that is genuine for one provider completes an order
  that was placed with another.\<close>

theorem notify_ignores_order_provider:
  "fst (Notify lib cr env providerType providerID vs
      (db\<lparr>db_pay_orders := map (\<lambda>p. p\<lparr>po_ProviderID := g p\<rparr>) (db_pay_orders db)\<rparr>))
   = fst (Notify lib cr env providerType providerID vs db)"
proof -
  let ?h = "\<lambda>p. p\<lparr>po_ProviderID := g p\<rparr>"
  let ?db = "db\<lparr>db_pay_orders := map ?h (db_pay_orders db)\<rparr>"
  have find: "row_find (\<lambda>p. po_ID p = oid) (map ?h t) = map_option ?h (row_find (\<lambda>p. po_ID p = oid) t)" for oid t
    by (induction t) (auto simp: row_find_def)
  have c: "is_ok (fst (run_tx (CompletePaymentOrder env n oid tradeNo paid) ?db)) = is_ok (fst (run_tx (CompletePaymentOrder env n oid tradeNo paid) db))
     \<and> (\<forall>e. fst (run_tx (CompletePaymentOrder env n oid tradeNo paid) ?db) = Inl e
           \<longleftrightarrow> fst (run_tx (CompletePaymentOrder env n oid tradeNo paid) db) = Inl e)" for n oid tradeNo paid
  proof (cases "row_find (\<lambda>p. po_ID p = oid) (db_pay_orders db)")
    case None
    then show ?thesis by (simp add: CompletePaymentOrder_def run_tx_def stmt_defs tx_defs find)
  next
    case (Some p)
    then show ?thesis
      by (simp add: CompletePaymentOrder_def run_tx_def stmt_defs tx_defs find Let_def set_balance_def save_pay_order_def
          create_ledger_def create_audit_def fresh_key_def split: option.splits)
  qed
  have w: "fst (case run_tx (CompletePaymentOrder env n oid tradeNo paid) ?db of (Inl e, db') \<Rightarrow> (Inl (PayStore e), db') | (Inr _, db') \<Rightarrow> (Inr (), db'))
     = fst (case run_tx (CompletePaymentOrder env n oid tradeNo paid) db of (Inl e, db') \<Rightarrow> (Inl (PayStore e), db') | (Inr _, db') \<Rightarrow> (Inr (), db'))"
    for n oid tradeNo paid
    using c [of n oid tradeNo paid]
    by (cases "run_tx (CompletePaymentOrder env n oid tradeNo paid) ?db"; cases "run_tx (CompletePaymentOrder env n oid tradeNo paid) db")
      (auto split: sum.splits simp: is_ok_iff)
  have g: "GetPaymentProviderSecret cr env 0 providerID ?db = GetPaymentProviderSecret cr env 0 providerID db"
    by (simp add: GetPaymentProviderSecret_def)
  show ?thesis
    unfolding Notify_def g
    by (auto split: sum.splits notification.splits option.splits simp: w [of 1, simplified])
qed

end
