(* ===== verification/Queues.thy ===== *)
theory Queues
  imports Mailboxes
begin

text \<open>
  The job queues in Redis (\<^verbatim>\<open>internal/store/postgres_resources.go\<close>, lines 424 to 608): a list of mailbox
  identifiers with a set beside it that keeps an identifier from being queued twice, one pair for
  verification and one for the scan of old mails, the batch that submits every eligible mailbox to
  the second, and the one-time states of the OAuth login.  The locale \<open>dedup_queue\<close> states what the
  workers rely on; both queues interpret it.
\<close>

subsection \<open>The store\<close>

text \<open>A list is kept with its left end first: \<^verbatim>\<open>LPUSH\<close> adds at the front, \<^verbatim>\<open>BRPOP\<close> takes the last.  A value has
  the time at which it expires, if it does.\<close>

record OAuthState =
  oas_ActorID :: string
  oas_Pool :: string
  oas_Provider :: string
  oas_MailboxID :: string

record redis =
  rd_list :: "string \<Rightarrow> string list"
  rd_set :: "string \<Rightarrow> string list"
  rd_oauth :: "string \<Rightarrow> (OAuthState \<times> time option) option"

definition mailboxVerificationQueueKey :: string where
  "mailboxVerificationQueueKey = ''heromail:mailbox:verification:queue''"
definition mailboxVerificationSetKey :: string where
  "mailboxVerificationSetKey = ''heromail:mailbox:verification:queued''"
definition mailboxHistoryQueueKey :: string where
  "mailboxHistoryQueueKey = ''heromail:mailbox:history:queue''"
definition mailboxHistorySetKey :: string where
  "mailboxHistorySetKey = ''heromail:mailbox:history:queued''"

lemma queue_keys [simp]:
  "mailboxVerificationQueueKey \<noteq> mailboxHistoryQueueKey" "mailboxVerificationSetKey \<noteq> mailboxHistorySetKey"
  by (simp_all add: mailboxVerificationQueueKey_def mailboxVerificationSetKey_def mailboxHistoryQueueKey_def
      mailboxHistorySetKey_def)

text \<open>The script both enqueueing functions run, which Redis executes as one step.\<close>

definition push_new :: "string \<Rightarrow> string \<Rightarrow> string \<Rightarrow> redis \<Rightarrow> bool \<times> redis" where
  "push_new queueKey setKey i rd =
     (if i \<in> set (rd_set rd setKey) then (False, rd)
      else (True, rd\<lparr>rd_set := (rd_set rd)(setKey := i # rd_set rd setKey),
                      rd_list := (rd_list rd)(queueKey := i # rd_list rd queueKey)\<rparr>))"

subsection \<open>Jobs\<close>

text \<open>\<open>fail\<close> says that a command to Redis returned an error and was not executed.\<close>

definition enqueueMailboxJob :: "bool \<Rightarrow> string \<Rightarrow> string \<Rightarrow> string \<Rightarrow> redis \<Rightarrow> store_error option \<times> redis" where
  "enqueueMailboxJob fail mailboxID queueKey setKey rd =
     (if fail then (Some (ErrDB 0), rd) else (None, snd (push_new queueKey setKey mailboxID rd)))"

definition dequeueMailboxJob :: "(nat \<Rightarrow> bool) \<Rightarrow> string \<Rightarrow> string \<Rightarrow> redis \<Rightarrow> (store_error + string) \<times> redis" where
  "dequeueMailboxJob fail queueKey setKey rd =
     (if fail 0 then (Inl (ErrDB 0), rd)
      else if rd_list rd queueKey = [] then (Inr [], rd)
      else let mailboxID = last (rd_list rd queueKey);
               rd1 = rd\<lparr>rd_list := (rd_list rd)(queueKey := butlast (rd_list rd queueKey))\<rparr>
           in if fail 1 then (Inl (ErrDB 1), rd1)
              else (Inr mailboxID, rd1\<lparr>rd_set := (rd_set rd1)(setKey := filter (\<lambda>i. i \<noteq> mailboxID) (rd_set rd1 setKey))\<rparr>))"

definition EnqueueMailboxVerification :: "bool \<Rightarrow> string \<Rightarrow> redis \<Rightarrow> store_error option \<times> redis" where
  "EnqueueMailboxVerification fail mailboxID =
     enqueueMailboxJob fail mailboxID mailboxVerificationQueueKey mailboxVerificationSetKey"

definition DequeueMailboxVerification :: "(nat \<Rightarrow> bool) \<Rightarrow> redis \<Rightarrow> (store_error + string) \<times> redis" where
  "DequeueMailboxVerification fail = dequeueMailboxJob fail mailboxVerificationQueueKey mailboxVerificationSetKey"

definition EnqueueMailboxHistoryScan :: "bool \<Rightarrow> string \<Rightarrow> redis \<Rightarrow> store_error option \<times> redis" where
  "EnqueueMailboxHistoryScan fail mailboxID =
     enqueueMailboxJob fail mailboxID mailboxHistoryQueueKey mailboxHistorySetKey"

definition DequeueMailboxHistoryScan :: "(nat \<Rightarrow> bool) \<Rightarrow> redis \<Rightarrow> (store_error + string) \<times> redis" where
  "DequeueMailboxHistoryScan fail = dequeueMailboxJob fail mailboxHistoryQueueKey mailboxHistorySetKey"

fun push_each :: "string \<Rightarrow> string \<Rightarrow> string list \<Rightarrow> redis \<Rightarrow> nat \<times> redis" where
  "push_each queueKey setKey [] rd = (0, rd)"
| "push_each queueKey setKey (i # is) rd =
     (let (new, rd1) = push_new queueKey setKey i rd; (added, rd2) = push_each queueKey setKey is rd1
      in ((if new then 1 else 0) + added, rd2))"

definition enqueueMailboxHistoryBatch :: "bool \<Rightarrow> string list \<Rightarrow> redis \<Rightarrow> (store_error + nat) \<times> redis" where
  "enqueueMailboxHistoryBatch fail mailboxIDs rd =
     (if mailboxIDs = [] then (Inr 0, rd)
      else if fail then (Inl (ErrDB 0), rd)
      else let (added, rd') = push_each mailboxHistoryQueueKey mailboxHistorySetKey mailboxIDs rd in (Inr added, rd'))"

subsection \<open>Scanning old mails\<close>

record MailboxHistoryScanResult =
  hsr_ServiceCode :: string
  hsr_Eligible :: int
  hsr_Queued :: int
  hsr_Async :: bool

definition scan_eligible :: "db \<Rightarrow> string \<Rightarrow> sqlMailbox \<Rightarrow> bool" where
  "scan_eligible db serviceID m \<longleftrightarrow> m_VerificationStatus m = MailboxVerificationVerified
     \<and> m_State m \<noteq> MailboxBlocked \<and> m_State m \<noteq> MailboxError \<and> m_ActiveOrderID m = [] \<and> m_EncryptedCredential m \<noteq> []
     \<and> (\<exists>s\<in>set (db_states db). ms_MailboxID s = m_ID m \<and> ms_ServiceID s = serviceID \<and> ms_State s = ServiceAvailable)"

definition scan_page :: "db \<Rightarrow> string \<Rightarrow> string \<Rightarrow> string list" where
  "scan_page db serviceID lastID =
     take 500 (sort (map m_ID (filter (\<lambda>m. scan_eligible db serviceID m \<and> (lastID \<noteq> [] \<longrightarrow> m_ID m > lastID)) (db_mailboxes db))))"

definition scan_left :: "db \<Rightarrow> string \<Rightarrow> string \<Rightarrow> sqlMailbox list" where
  "scan_left db serviceID lastID =
     filter (\<lambda>m. scan_eligible db serviceID m \<and> (lastID \<noteq> [] \<longrightarrow> m_ID m > lastID)) (db_mailboxes db)"

lemma sorted_le_last: "sorted ys \<Longrightarrow> x \<in> set ys \<Longrightarrow> x \<le> last ys"
  by (induction ys) (auto intro: last_in_set)

text \<open>Every page moves the cursor past at least one eligible mailbox.\<close>

lemma scan_progress:
  assumes "scan_page db serviceID lastID \<noteq> []" and "last (scan_page db serviceID lastID) \<noteq> []"
  shows "length (scan_left db serviceID (last (scan_page db serviceID lastID))) < length (scan_left db serviceID lastID)"
proof -
  let ?l = "last (scan_page db serviceID lastID)"
  have "?l \<in> set (scan_page db serviceID lastID)" using assms(1) by (rule last_in_set)
  then have "?l \<in> m_ID ` set (scan_left db serviceID lastID)"
    unfolding scan_page_def scan_left_def using set_take_subset by fastforce
  then obtain m where m: "m \<in> set (scan_left db serviceID lastID)" "m_ID m = ?l" by auto
  have gt: "lastID \<noteq> [] \<longrightarrow> ?l > lastID" using m by (auto simp: scan_left_def)
  have "scan_left db serviceID ?l = filter (\<lambda>m. m_ID m > ?l) (scan_left db serviceID lastID)"
    unfolding scan_left_def filter_filter
    by (rule filter_cong) (use gt assms(2) in \<open>auto intro: less_trans\<close>)
  also have "length \<dots> < length (scan_left db serviceID lastID)"
    by (rule length_filter_less [OF m(1)]) (simp add: m(2))
  finally show ?thesis .
qed

datatype scan_error = ScanStore store_error | ScanServiceNotFound | ScanCanceled

text \<open>\<open>cancelled k\<close>: the caller's context is done after page \<open>k\<close>.  The loop has no bound of its own, so it is
  a partial function; \<open>history_scan_complete\<close> shows that it ends.\<close>

partial_function (option) scan_pages ::
  "env \<Rightarrow> (nat \<Rightarrow> bool) \<Rightarrow> (nat \<Rightarrow> bool) \<Rightarrow> db \<Rightarrow> string \<Rightarrow> nat \<Rightarrow> string \<Rightarrow> MailboxHistoryScanResult \<Rightarrow> redis
   \<Rightarrow> ((MailboxHistoryScanResult \<times> scan_error option) \<times> redis) option" where
  "scan_pages env fail cancelled db serviceID k lastID result rd =
     (if db_fail env (Suc k) then Some ((result, Some (ScanStore (ErrDB (Suc k)))), rd)
      else let ids = scan_page db serviceID lastID in
        if ids = [] then Some ((result, None), rd)
        else let result = result\<lparr>hsr_Eligible := hsr_Eligible result + int (length ids)\<rparr> in
          case enqueueMailboxHistoryBatch (fail k) ids rd of
            (Inl e, rd') \<Rightarrow> Some ((result, Some (ScanStore e)), rd')
          | (Inr queued, rd') \<Rightarrow>
              let result = result\<lparr>hsr_Queued := hsr_Queued result + int queued\<rparr> in
              if cancelled k then Some ((result, Some ScanCanceled), rd')
              else scan_pages env fail cancelled db serviceID (Suc k) (last ids) result rd')"

definition empty_scan :: MailboxHistoryScanResult where
  "empty_scan = \<lparr> hsr_ServiceCode = [], hsr_Eligible = 0, hsr_Queued = 0, hsr_Async = False \<rparr>"

definition QueueMailboxHistoryScans ::
  "env \<Rightarrow> (nat \<Rightarrow> bool) \<Rightarrow> (nat \<Rightarrow> bool) \<Rightarrow> db \<Rightarrow> string \<Rightarrow> redis
   \<Rightarrow> ((MailboxHistoryScanResult \<times> scan_error option) \<times> redis) option" where
  "QueueMailboxHistoryScans env fail cancelled db serviceCode0 rd =
     (let code = to_lower (trim_space serviceCode0);
          serviceCode = (if code = [] then ''openai'' else code)
      in if db_fail env 0 then Some ((empty_scan, Some (ScanStore (ErrDB 0))), rd)
         else case row_first sv_ID (\<lambda>s. to_lower (sv_Code s) = serviceCode) (db_services db) of
                None \<Rightarrow> Some ((empty_scan, Some (ScanStore ErrServiceNotFound)), rd)
              | Some service \<Rightarrow> scan_pages env fail cancelled db (sv_ID service) 0 []
                  (empty_scan\<lparr>hsr_ServiceCode := sv_Code service, hsr_Async := True\<rparr>) rd)"

subsection \<open>One-time states of the OAuth login\<close>

definition oauth_key :: "string \<Rightarrow> string" where "oauth_key state = ''heromail:oauth:'' @ state"

definition CreateOAuthState :: "bool \<Rightarrow> time \<Rightarrow> string \<Rightarrow> OAuthState \<Rightarrow> time \<Rightarrow> redis \<Rightarrow> store_error option \<times> redis" where
  "CreateOAuthState fail now state v ttl rd =
     (if fail then (Some (ErrDB 0), rd)
      else (None, rd\<lparr>rd_oauth := (rd_oauth rd)(oauth_key state \<mapsto> (v, if ttl = 0 then None else Some (now + ttl)))\<rparr>))"

definition ConsumeOAuthState :: "bool \<Rightarrow> time \<Rightarrow> string \<Rightarrow> redis \<Rightarrow> (store_error + OAuthState) \<times> redis" where
  "ConsumeOAuthState fail now state rd =
     (if fail then (Inl (ErrDB 0), rd)
      else case rd_oauth rd (oauth_key state) of
             None \<Rightarrow> (Inl ErrRecordNotFound, rd)
           | Some (v, expiry) \<Rightarrow>
               (if (case expiry of None \<Rightarrow> True | Some t \<Rightarrow> now < t) then Inr v else Inl ErrRecordNotFound,
                rd\<lparr>rd_oauth := (rd_oauth rd)(oauth_key state := None)\<rparr>))"

subsection \<open>The contract of a job queue\<close>

text \<open>What the callers rely on: a job that waits is not added again, a new one goes behind all others, and jobs come
  out in the order they went in.  \<open>waiting\<close> is the abstract content, the next job first.\<close>

locale dedup_queue =
  fixes push :: "'i \<Rightarrow> 'q \<Rightarrow> 'q" and pop :: "'q \<Rightarrow> 'i option \<times> 'q" and waiting :: "'q \<Rightarrow> 'i list" and ok :: "'q \<Rightarrow> bool"
  assumes push_ok: "ok q \<Longrightarrow> ok (push i q)"
    and push_waiting: "ok q \<Longrightarrow> waiting (push i q) = (if i \<in> set (waiting q) then waiting q else waiting q @ [i])"
    and pop_ok: "ok q \<Longrightarrow> ok (snd (pop q))"
    and pop_fst: "ok q \<Longrightarrow> fst (pop q) = (case waiting q of [] \<Rightarrow> None | i # _ \<Rightarrow> Some i)"
    and pop_waiting: "ok q \<Longrightarrow> waiting (snd (pop q)) = tl (waiting q)"
    and ok_distinct: "ok q \<Longrightarrow> distinct (waiting q)"
begin

lemma fold_push_ok: "ok q \<Longrightarrow> ok (fold push is q)"
  by (induction "is" arbitrary: q) (simp_all add: push_ok)

lemma fold_push_waiting:
  "ok q \<Longrightarrow> waiting (fold push is q) = waiting q @ rev (remdups (rev (filter (\<lambda>i. i \<notin> set (waiting q)) is)))"
proof (induction "is" arbitrary: q)
  case (Cons i "is")
  have rem: "rev (remdups (rev (i # js))) = i # rev (remdups (rev (filter (\<lambda>j. j \<noteq> i) js)))" for js
  proof -
    have "remdups (rev js @ [i]) = remdups (filter (\<lambda>j. j \<noteq> i) (rev js)) @ [i]"
      by (subst remdups_append2 [symmetric]) (induction js rule: rev_induct, auto simp: remdups_filter [symmetric])
    then show ?thesis by (simp add: rev_filter)
  qed
  show ?case
  proof (cases "i \<in> set (waiting q)")
    case True
    then have w: "waiting (push i q) = waiting q" by (simp add: push_waiting [OF Cons.prems])
    then show ?thesis using Cons.IH [OF push_ok [OF Cons.prems, of i]] True by simp
  next
    case False
    then have w: "waiting (push i q) = waiting q @ [i]" by (simp add: push_waiting [OF Cons.prems])
    have "filter (\<lambda>j. j \<noteq> i \<and> j \<notin> set (waiting q)) is = filter (\<lambda>j. j \<noteq> i) (filter (\<lambda>j. j \<notin> set (waiting q)) is)"
      unfolding filter_filter by (rule filter_cong) auto
    then show ?thesis
      using Cons.IH [OF push_ok [OF Cons.prems, of i]] False rem [of "filter (\<lambda>j. j \<notin> set (waiting q)) is"] w by simp
  qed
qed simp

lemma fold_push_new:
  "ok q \<Longrightarrow> distinct is \<Longrightarrow> waiting (fold push is q) = waiting q @ filter (\<lambda>i. i \<notin> set (waiting q)) is"
  by (simp add: fold_push_waiting distinct_remdups_id)

text \<open>Taking \<open>n\<close> jobs.\<close>

lemma pops_waiting: "ok q \<Longrightarrow> ok (((\<lambda>q. snd (pop q)) ^^ n) q) \<and> waiting (((\<lambda>q. snd (pop q)) ^^ n) q) = drop n (waiting q)"
  by (induction n) (simp_all add: pop_ok pop_waiting drop_Suc tl_drop)

lemma served_in_order:
  assumes "ok q" and "n < length (waiting q)"
  shows "fst (pop (((\<lambda>q. snd (pop q)) ^^ n) q)) = Some (waiting q ! n)"
  using pops_waiting [OF assms(1), of n] pop_fst assms(2) by (simp add: Cons_nth_drop_Suc [symmetric])

end

subsection \<open>Both queues keep the contract\<close>

definition job_queue_ok :: "string \<Rightarrow> string \<Rightarrow> redis \<Rightarrow> bool" where
  "job_queue_ok queueKey setKey rd \<longleftrightarrow> distinct (rd_list rd queueKey) \<and> set (rd_set rd setKey) = set (rd_list rd queueKey)"

definition jobs :: "string \<Rightarrow> redis \<Rightarrow> string list" where
  "jobs queueKey rd = rev (rd_list rd queueKey)"

text \<open>The job a worker gets, and \<open>None\<close> when the wait ran into its timeout.\<close>

definition next_job :: "string \<Rightarrow> string \<Rightarrow> redis \<Rightarrow> string option \<times> redis" where
  "next_job queueKey setKey rd =
     (case dequeueMailboxJob (\<lambda>_. False) queueKey setKey rd of
        (Inl e, rd') \<Rightarrow> (None, rd')
      | (Inr i, rd') \<Rightarrow> (if rd_list rd queueKey = [] then None else Some i, rd'))"

lemma set_butlast_distinct: "distinct xs \<Longrightarrow> xs \<noteq> [] \<Longrightarrow> set (butlast xs) = set xs - {last xs}"
  by (induction xs rule: rev_induct) auto

lemma tl_rev_butlast: "tl (rev xs) = rev (butlast xs)"
  by (induction xs rule: rev_induct) auto

lemma rev_last_Cons: "xs \<noteq> [] \<Longrightarrow> rev xs = last xs # rev (butlast xs)"
  by (induction xs rule: rev_induct) auto

lemma job_queue:
  "dedup_queue (\<lambda>i rd. snd (enqueueMailboxJob False i queueKey setKey rd)) (next_job queueKey setKey) (jobs queueKey)
     (job_queue_ok queueKey setKey)"
proof unfold_locales
  fix rd i
  assume ok: "job_queue_ok queueKey setKey rd"
  show "job_queue_ok queueKey setKey (snd (enqueueMailboxJob False i queueKey setKey rd))"
    using ok by (auto simp: job_queue_ok_def enqueueMailboxJob_def push_new_def)
  show "jobs queueKey (snd (enqueueMailboxJob False i queueKey setKey rd)) =
      (if i \<in> set (jobs queueKey rd) then jobs queueKey rd else jobs queueKey rd @ [i])"
    using ok by (simp add: job_queue_ok_def enqueueMailboxJob_def push_new_def jobs_def)
  show "job_queue_ok queueKey setKey (snd (next_job queueKey setKey rd))"
    using ok set_butlast_distinct [of "rd_list rd queueKey"]
    by (auto simp: job_queue_ok_def next_job_def dequeueMailboxJob_def Let_def distinct_butlast)
  show "fst (next_job queueKey setKey rd) = (case jobs queueKey rd of [] \<Rightarrow> None | i # _ \<Rightarrow> Some i)"
    by (simp add: next_job_def dequeueMailboxJob_def Let_def jobs_def rev_last_Cons)
  show "jobs queueKey (snd (next_job queueKey setKey rd)) = tl (jobs queueKey rd)"
    by (simp add: next_job_def dequeueMailboxJob_def Let_def jobs_def tl_rev_butlast)
  show "distinct (jobs queueKey rd)" using ok by (simp add: jobs_def job_queue_ok_def)
qed

definition verification_ok :: "redis \<Rightarrow> bool" where
  "verification_ok = job_queue_ok mailboxVerificationQueueKey mailboxVerificationSetKey"
definition history_ok :: "redis \<Rightarrow> bool" where
  "history_ok = job_queue_ok mailboxHistoryQueueKey mailboxHistorySetKey"
definition verification_jobs :: "redis \<Rightarrow> string list" where
  "verification_jobs = jobs mailboxVerificationQueueKey"
definition history_jobs :: "redis \<Rightarrow> string list" where
  "history_jobs = jobs mailboxHistoryQueueKey"

interpretation verification: dedup_queue "\<lambda>i rd. snd (EnqueueMailboxVerification False i rd)"
  "next_job mailboxVerificationQueueKey mailboxVerificationSetKey" verification_jobs verification_ok
  unfolding EnqueueMailboxVerification_def verification_jobs_def verification_ok_def by (rule job_queue)

interpretation history: dedup_queue "\<lambda>i rd. snd (EnqueueMailboxHistoryScan False i rd)"
  "next_job mailboxHistoryQueueKey mailboxHistorySetKey" history_jobs history_ok
  unfolding EnqueueMailboxHistoryScan_def history_jobs_def history_ok_def by (rule job_queue)

text \<open>A first-in first-out queue without duplicates on the commands themselves.  \<open>push\<close> and \<open>pop\<close> are told which command fails;
  \<open>waiting\<close> is the abstract list, the oldest job first, and \<open>apart\<close> says that nothing else changed.\<close>

definition fifo ::
  "(bool \<Rightarrow> string \<Rightarrow> redis \<Rightarrow> store_error option \<times> redis) \<Rightarrow> ((nat \<Rightarrow> bool) \<Rightarrow> redis \<Rightarrow> (store_error + string) \<times> redis)
   \<Rightarrow> (redis \<Rightarrow> bool) \<Rightarrow> (redis \<Rightarrow> string list) \<Rightarrow> (redis \<Rightarrow> redis \<Rightarrow> bool) \<Rightarrow> redis \<Rightarrow> bool" where
  "fifo push pop ok waiting apart rd \<longleftrightarrow>
     (\<forall>i. case push False i rd of (e, rd') \<Rightarrow> e = None \<and> ok rd' \<and> apart rd rd'
        \<and> waiting rd' = (if i \<in> set (waiting rd) then waiting rd else waiting rd @ [i]))
     \<and> (\<forall>i. push True i rd = (Some (ErrDB 0), rd))
     \<and> (case waiting rd of
          [] \<Rightarrow> pop (\<lambda>_. False) rd = (Inr [], rd)
        | i # js \<Rightarrow> (case pop (\<lambda>_. False) rd of (r, rd') \<Rightarrow> r = Inr i \<and> ok rd' \<and> apart rd rd' \<and> waiting rd' = js
            \<and> waiting (snd (push False i rd')) = js @ [i]))
     \<and> (\<forall>fail. fail 0 \<longrightarrow> pop fail rd = (Inl (ErrDB 0), rd))
     \<and> (\<forall>n < length (waiting rd). fst (pop (\<lambda>_. False) (((\<lambda>q. snd (pop (\<lambda>_. False) q)) ^^ n) rd)) = Inr (waiting rd ! n))"

definition only_queue :: "string \<Rightarrow> string \<Rightarrow> redis \<Rightarrow> redis \<Rightarrow> bool" where
  "only_queue queueKey setKey rd rd' \<longleftrightarrow> rd_oauth rd' = rd_oauth rd
     \<and> (\<forall>k. k \<noteq> queueKey \<longrightarrow> rd_list rd' k = rd_list rd k) \<and> (\<forall>k. k \<noteq> setKey \<longrightarrow> rd_set rd' k = rd_set rd k)"

lemma dequeue_next:
  assumes "rd_list rd queueKey \<noteq> []"
  shows "dequeueMailboxJob (\<lambda>_. False) queueKey setKey rd
     = (Inr (the (fst (next_job queueKey setKey rd))), snd (next_job queueKey setKey rd))"
  using assms by (simp add: next_job_def dequeueMailboxJob_def Let_def)

lemma dequeue_snd: "snd (dequeueMailboxJob (\<lambda>_. False) queueKey setKey rd) = snd (next_job queueKey setKey rd)"
  by (simp add: next_job_def split: prod.split sum.split)

lemma job_fifo:
  assumes "job_queue_ok queueKey setKey rd"
  shows "fifo (\<lambda>fail i. enqueueMailboxJob fail i queueKey setKey) (\<lambda>fail. dequeueMailboxJob fail queueKey setKey)
     (job_queue_ok queueKey setKey) (jobs queueKey) (only_queue queueKey setKey) rd"
proof -
  note push = dedup_queue.push_ok [OF job_queue assms] dedup_queue.push_waiting [OF job_queue assms]
  let ?next = "next_job queueKey setKey"
  have "case enqueueMailboxJob False i queueKey setKey rd of (e, rd') \<Rightarrow> e = None \<and> job_queue_ok queueKey setKey rd'
      \<and> only_queue queueKey setKey rd rd'
      \<and> jobs queueKey rd' = (if i \<in> set (jobs queueKey rd) then jobs queueKey rd else jobs queueKey rd @ [i])" for i
    using push [of i] by (auto simp: enqueueMailboxJob_def push_new_def only_queue_def)
  moreover have "case jobs queueKey rd of
          [] \<Rightarrow> dequeueMailboxJob (\<lambda>_. False) queueKey setKey rd = (Inr [], rd)
        | i # js \<Rightarrow> (case dequeueMailboxJob (\<lambda>_. False) queueKey setKey rd of (r, rd') \<Rightarrow> r = Inr i \<and> job_queue_ok queueKey setKey rd'
            \<and> only_queue queueKey setKey rd rd' \<and> jobs queueKey rd' = js
            \<and> jobs queueKey (snd (enqueueMailboxJob False i queueKey setKey rd')) = js @ [i])"
  proof (cases "jobs queueKey rd")
    case Nil
    then show ?thesis by (simp add: jobs_def dequeueMailboxJob_def)
  next
    case (Cons i js)
    then have ne: "rd_list rd queueKey \<noteq> []" by (auto simp: jobs_def)
    have n: "fst (?next rd) = Some i" "job_queue_ok queueKey setKey (snd (?next rd))" "jobs queueKey (snd (?next rd)) = js"
      using dedup_queue.pop_fst [OF job_queue assms] dedup_queue.pop_ok [OF job_queue assms] dedup_queue.pop_waiting [OF job_queue assms]
      by (simp_all add: Cons)
    have "i \<notin> set js" using dedup_queue.ok_distinct [OF job_queue assms] Cons by simp
    moreover have "only_queue queueKey setKey rd (snd (?next rd))"
      by (auto simp: only_queue_def next_job_def dequeueMailboxJob_def Let_def)
    ultimately show ?thesis
      using n dedup_queue.push_waiting [OF job_queue n(2), of i] by (simp add: Cons dequeue_next [OF ne])
  qed
  moreover have "fst (dequeueMailboxJob (\<lambda>_. False) queueKey setKey
      (((\<lambda>q. snd (dequeueMailboxJob (\<lambda>_. False) queueKey setKey q)) ^^ n) rd)) = Inr (jobs queueKey rd ! n)"
    if n: "n < length (jobs queueKey rd)" for n
  proof -
    let ?rd = "((\<lambda>q. snd (?next q)) ^^ n) rd"
    have "jobs queueKey ?rd = drop n (jobs queueKey rd)" using dedup_queue.pops_waiting [OF job_queue assms] by blast
    then have "rd_list ?rd queueKey \<noteq> []" using n by (auto simp: jobs_def)
    then show ?thesis using dedup_queue.served_in_order [OF job_queue assms n] by (simp add: dequeue_snd dequeue_next)
  qed
  moreover have "enqueueMailboxJob True i queueKey setKey rd = (Some (ErrDB 0), rd)" for i by (simp add: enqueueMailboxJob_def)
  moreover have "fail 0 \<Longrightarrow> dequeueMailboxJob fail queueKey setKey rd = (Inl (ErrDB 0), rd)" for fail by (simp add: dequeueMailboxJob_def)
  ultimately show ?thesis unfolding fifo_def by blast
qed

text \<open>C21: Both job queues refine a first-in first-out list without duplicates: enqueueing appends a job unless it already
  waits, dequeueing without an error takes the oldest one and makes it possible to queue it again, a failed command
  changes nothing, the n-th job taken is the n-th that waited, and neither queue touches the other or the states of
  the OAuth login.\<close>

theorem queues_refine_fifo:
  assumes "verification_ok rd" and "history_ok rd"
  shows "fifo EnqueueMailboxVerification DequeueMailboxVerification verification_ok verification_jobs
       (only_queue mailboxVerificationQueueKey mailboxVerificationSetKey) rd
     \<and> fifo EnqueueMailboxHistoryScan DequeueMailboxHistoryScan history_ok history_jobs
       (only_queue mailboxHistoryQueueKey mailboxHistorySetKey) rd
     \<and> mailboxVerificationQueueKey \<noteq> mailboxHistoryQueueKey \<and> mailboxVerificationSetKey \<noteq> mailboxHistorySetKey"
proof -
  have enq: "EnqueueMailboxVerification = (\<lambda>fail i. enqueueMailboxJob fail i mailboxVerificationQueueKey mailboxVerificationSetKey)"
    "EnqueueMailboxHistoryScan = (\<lambda>fail i. enqueueMailboxJob fail i mailboxHistoryQueueKey mailboxHistorySetKey)"
    by (simp_all add: fun_eq_iff EnqueueMailboxVerification_def EnqueueMailboxHistoryScan_def)
  have deq: "DequeueMailboxVerification = (\<lambda>fail. dequeueMailboxJob fail mailboxVerificationQueueKey mailboxVerificationSetKey)"
    "DequeueMailboxHistoryScan = (\<lambda>fail. dequeueMailboxJob fail mailboxHistoryQueueKey mailboxHistorySetKey)"
    by (simp_all add: fun_eq_iff DequeueMailboxVerification_def DequeueMailboxHistoryScan_def)
  show ?thesis
    using assms unfolding enq deq verification_ok_def history_ok_def verification_jobs_def history_jobs_def
    by (auto intro: job_fifo)
qed

definition empty_redis :: redis where
  "empty_redis = \<lparr> rd_list = \<lambda>_. [], rd_set = \<lambda>_. [], rd_oauth = \<lambda>_. None \<rparr>"

lemma empty_redis_ok [simp]: "verification_ok empty_redis" "history_ok empty_redis"
  by (simp_all add: empty_redis_def verification_ok_def history_ok_def job_queue_ok_def)

text \<open>Two jobs of each kind, one of them asked for twice; each queue serves its own, the older one first.\<close>

lemma queues_refine_fifo_witness:
  "let rd = snd (EnqueueMailboxHistoryScan False ''m3'' (snd (EnqueueMailboxHistoryScan False ''m2'' (snd (EnqueueMailboxVerification False ''m1''
       empty_redis)))))
   in fst (DequeueMailboxHistoryScan (\<lambda>_. False) rd) = Inr ''m2'' \<and> fst (DequeueMailboxVerification (\<lambda>_. False) rd) = Inr ''m1''"
proof -
  let ?rd = "snd (EnqueueMailboxHistoryScan False ''m3'' (snd (EnqueueMailboxHistoryScan False ''m2'' (snd (EnqueueMailboxVerification False ''m1''
       empty_redis)))))"
  have rd: "verification_ok ?rd" "history_ok ?rd" "verification_jobs ?rd = [''m1'']" "history_jobs ?rd = [''m2'', ''m3'']"
    by (simp_all add: EnqueueMailboxHistoryScan_def EnqueueMailboxVerification_def enqueueMailboxJob_def push_new_def empty_redis_def
        verification_ok_def history_ok_def job_queue_ok_def verification_jobs_def history_jobs_def jobs_def queue_keys [symmetric])
  from queues_refine_fifo [OF rd(1,2)]
  have "fst (DequeueMailboxHistoryScan (\<lambda>_. False) ?rd) = Inr ''m2''" "fst (DequeueMailboxVerification (\<lambda>_. False) ?rd) = Inr ''m1''"
    unfolding fifo_def rd(3,4) by (force simp: split_beta)+
  then show ?thesis unfolding Let_def by blast
qed

subsection \<open>A job that is lost\<close>

datatype queue_op = Push string | Pop

fun queue_run :: "queue_op list \<Rightarrow> redis \<Rightarrow> string list \<times> redis" where
  "queue_run [] rd = ([], rd)"
| "queue_run (Push i # ops) rd = queue_run ops (snd (EnqueueMailboxVerification False i rd))"
| "queue_run (Pop # ops) rd =
     (case DequeueMailboxVerification (\<lambda>_. False) rd of
        (Inl e, rd1) \<Rightarrow> queue_run ops rd1
      | (Inr i, rd1) \<Rightarrow> let (got, rd2) = queue_run ops rd1 in (i # got, rd2))"

definition stuck :: "string \<Rightarrow> redis \<Rightarrow> bool" where
  "stuck i rd \<longleftrightarrow> i \<in> set (rd_set rd mailboxVerificationSetKey) \<and> i \<notin> set (rd_list rd mailboxVerificationQueueKey)"

lemma stuck_push: "stuck i rd \<Longrightarrow> stuck i (snd (EnqueueMailboxVerification False j rd))"
  by (auto simp: stuck_def EnqueueMailboxVerification_def enqueueMailboxJob_def push_new_def)

lemma stuck_pop:
  assumes "stuck i rd" and "DequeueMailboxVerification (\<lambda>_. False) rd = (r, rd')"
  shows "stuck i rd' \<and> (r = Inr i \<longrightarrow> i = [])"
proof (cases "rd_list rd mailboxVerificationQueueKey = []")
  case True
  then show ?thesis using assms by (auto simp: DequeueMailboxVerification_def dequeueMailboxJob_def)
next
  case False
  then have "last (rd_list rd mailboxVerificationQueueKey) \<noteq> i"
    using assms(1) last_in_set by (fastforce simp: stuck_def)
  then show ?thesis
    using assms False by (auto simp: DequeueMailboxVerification_def dequeueMailboxJob_def Let_def stuck_def dest: in_set_butlastD)
qed

lemma stuck_run: "stuck i rd \<Longrightarrow> i \<noteq> [] \<Longrightarrow> i \<notin> set (fst (queue_run ops rd))"
proof (induction ops rd rule: queue_run.induct)
  case (1 rd)
  then show ?case by simp
next
  case (2 j ops rd)
  then show ?case using stuck_push by simp
next
  case (3 ops rd)
  obtain r rd1 where d: "DequeueMailboxVerification (\<lambda>_. False) rd = (r, rd1)"
    by (cases "DequeueMailboxVerification (\<lambda>_. False) rd")
  note st = stuck_pop [OF 3(3) d]
  show ?case
  proof (cases r)
    case (Inl e)
    then show ?thesis using 3(1) [OF d [symmetric] Inl] st 3(4) d by simp
  next
    case (Inr j)
    then show ?thesis using 3(2) [OF d [symmetric] Inr] st 3(4) d by (auto simp: split_def Let_def)
  qed
qed

text \<open>C23: A worker that takes a verification job and then fails to remove its mark loses the mailbox for good: the job is
  no longer in the list, its mark keeps every later request from being added, and whatever is queued and
  taken afterwards, that mailbox never comes out again.\<close>

theorem unmarked_job_is_lost:
  assumes "verification_ok rd" and "verification_jobs rd = i # rest" and "i \<noteq> []" and "\<not> fail 0" "fail 1"
    and "DequeueMailboxVerification fail rd = (r, rd')"
  shows "r = Inl (ErrDB 1) \<and> verification_jobs rd' = rest
     \<and> snd (EnqueueMailboxVerification False i rd') = rd' \<and> i \<notin> set (fst (queue_run ops rd'))"
proof -
  let ?q = mailboxVerificationQueueKey and ?s = mailboxVerificationSetKey
  have l: "rd_list rd ?q = rev rest @ [i]"
    using assms(2) by (simp add: verification_jobs_def jobs_def rev_swap)
  have rd': "r = Inl (ErrDB 1)" "rd' = rd\<lparr>rd_list := (rd_list rd)(?q := rev rest)\<rparr>"
    using assms(4-6) by (simp_all add: DequeueMailboxVerification_def dequeueMailboxJob_def Let_def l)
  have "i \<in> set (rd_set rd ?s)" "i \<notin> set rest"
    using assms(1) by (auto simp: verification_ok_def job_queue_ok_def l)
  then have st: "stuck i rd'" by (simp add: stuck_def rd')
  then have "snd (EnqueueMailboxVerification False i rd') = rd'"
    by (simp add: stuck_def EnqueueMailboxVerification_def enqueueMailboxJob_def push_new_def)
  then show ?thesis using stuck_run [OF st assms(3)] rd' by (simp add: verification_jobs_def jobs_def)
qed

lemma unmarked_job_is_lost_witness:
  "\<exists>rd r rd'. verification_jobs rd = [''m1''] \<and> DequeueMailboxVerification (\<lambda>n. n = 1) rd = (r, rd')
     \<and> ''m1'' \<notin> set (fst (queue_run [Push ''m1'', Pop] rd'))"
proof -
  let ?rd = "snd (EnqueueMailboxVerification False ''m1'' empty_redis)"
  have ok: "verification_ok ?rd" by (rule verification.push_ok) simp
  have j: "verification_jobs ?rd = [(''m1'')]" by (simp add: EnqueueMailboxVerification_def enqueueMailboxJob_def push_new_def verification_jobs_def jobs_def empty_redis_def)
  obtain r rd' where d: "DequeueMailboxVerification (\<lambda>n. n = 1) ?rd = (r, rd')"
    by (cases "DequeueMailboxVerification (\<lambda>n. n = 1) ?rd")
  have "''m1'' \<notin> set (fst (queue_run [Push ''m1'', Pop] rd'))"
    using unmarked_job_is_lost [OF ok j _ _ _ d, of "[Push (''m1''), Pop]"] by (simp del: queue_run.simps)
  then show ?thesis using j d by blast
qed

subsection \<open>The scan reaches every eligible mailbox\<close>

lemma push_each_fold:
  "snd (push_each mailboxHistoryQueueKey mailboxHistorySetKey is rd) = fold (\<lambda>i rd. snd (EnqueueMailboxHistoryScan False i rd)) is rd"
  by (induction "is" arbitrary: rd) (auto simp: EnqueueMailboxHistoryScan_def enqueueMailboxJob_def split_def Let_def)

lemma push_each_added:
  "history_ok rd \<Longrightarrow> distinct is \<Longrightarrow> fst (push_each mailboxHistoryQueueKey mailboxHistorySetKey is rd)
     = length (filter (\<lambda>i. i \<notin> set (history_jobs rd)) is)"
proof (induction "is" arbitrary: rd)
  case (Cons i "is")
  let ?rd = "snd (EnqueueMailboxHistoryScan False i rd)"
  have e: "?rd = snd (push_new mailboxHistoryQueueKey mailboxHistorySetKey i rd)"
    by (simp add: EnqueueMailboxHistoryScan_def enqueueMailboxJob_def)
  have new: "fst (push_new mailboxHistoryQueueKey mailboxHistorySetKey i rd) \<longleftrightarrow> i \<notin> set (history_jobs rd)"
    using Cons.prems(1) by (simp add: push_new_def history_ok_def job_queue_ok_def history_jobs_def jobs_def)
  have "filter (\<lambda>j. j \<notin> set (history_jobs ?rd)) is = filter (\<lambda>j. j \<notin> set (history_jobs rd)) is"
    using Cons.prems(2) history.push_waiting [OF Cons.prems(1), of i] by (intro filter_cong) (auto split: if_splits)
  then show ?case
    using Cons.IH [OF history.push_ok [OF Cons.prems(1), of i]] Cons.prems(2) new e by (simp add: split_def Let_def)
qed simp

definition eligible_ids :: "db \<Rightarrow> string \<Rightarrow> string list" where
  "eligible_ids db serviceID = sort (map m_ID (scan_left db serviceID []))"

lemma sorted_distinct_after_take:
  assumes "sorted xs" "distinct xs" "n \<le> length xs" "0 < n"
  shows "filter (\<lambda>x. (x::'a::linorder) > last (take n xs)) xs = drop n xs"
proof -
  have ne: "take n xs \<noteq> []" using assms(3,4) by auto
  have l: "last (take n xs) \<in> set (take n xs)" using ne by (rule last_in_set)
  have s: "sorted (take n xs)" "sorted (drop n xs)" "\<forall>x\<in>set (take n xs). \<forall>y\<in>set (drop n xs). x \<le> y"
    using assms(1) sorted_append [of "take n xs" "drop n xs"] by simp_all
  have d: "set (take n xs) \<inter> set (drop n xs) = {}"
    using assms(2) by (metis append_take_drop_id distinct_append)
  have "filter (\<lambda>x. x > last (take n xs)) (take n xs) = []"
    using sorted_le_last [OF s(1)] by (auto simp: filter_empty_conv leD)
  moreover have "filter (\<lambda>x. x > last (take n xs)) (drop n xs) = drop n xs"
    using s(3) d l by (intro filter_True) (metis disjoint_iff order_le_less)
  ultimately show ?thesis by (metis append_take_drop_id filter_append self_append_conv2)
qed

lemma scan_page_eq:
  "scan_page db serviceID lastID = take 500 (filter (\<lambda>i. lastID \<noteq> [] \<longrightarrow> i > lastID) (eligible_ids db serviceID))"
proof -
  have "filter (\<lambda>m. scan_eligible db serviceID m \<and> (lastID \<noteq> [] \<longrightarrow> m_ID m > lastID)) (db_mailboxes db)
      = filter (\<lambda>m. lastID \<noteq> [] \<longrightarrow> m_ID m > lastID) (scan_left db serviceID [])"
    by (simp add: scan_left_def conj_commute)
  then show ?thesis
    by (simp add: scan_page_def eligible_ids_def filter_sort filter_map comp_def)
qed

lemma scan_pages_spec:
  assumes E: "sorted E" "distinct E" "[] \<notin> set E" "E = eligible_ids db serviceID"
    and quiet: "\<And>n. \<not> db_fail env n" "\<And>n. \<not> fail n" "\<And>n. \<not> cancelled n"
  shows "left = filter (\<lambda>i. lastID \<noteq> [] \<longrightarrow> i > lastID) E \<Longrightarrow> history_ok rd \<Longrightarrow>
    scan_pages env fail cancelled db serviceID k lastID res rd =
      Some ((res\<lparr>hsr_Eligible := hsr_Eligible res + int (length left),
              hsr_Queued := hsr_Queued res + int (length (filter (\<lambda>i. i \<notin> set (history_jobs rd)) left))\<rparr>, None),
        fold (\<lambda>i rd. snd (EnqueueMailboxHistoryScan False i rd)) left rd)"
proof (induction "length left" arbitrary: left lastID k res rd rule: less_induct)
  case less
  let ?push = "\<lambda>i rd. snd (EnqueueMailboxHistoryScan False i rd)"
  let ?n = "min 500 (length left)"
  have page: "scan_page db serviceID lastID = take ?n left"
    unfolding scan_page_eq E(4) [symmetric] less(2) by (simp add: min_def)
  show ?case
  proof (cases "left = []")
    case True
    then show ?thesis
      by (subst scan_pages.simps) (simp add: quiet page)
  next
    case False
    let ?ids = "take ?n left" and ?rest = "drop ?n left"
    have n: "?n \<le> length left" "0 < ?n" using False by auto
    have ids: "?ids \<noteq> []" using False by simp
    have so: "sorted left" "distinct left" unfolding less(2) using E(1,2) by (simp_all add: sorted_wrt_filter)
    have sub: "set left \<subseteq> set E" unfolding less(2) by auto
    have l: "last ?ids \<in> set left" using last_in_set [OF ids] set_take_subset by fast
    then have l0: "last ?ids \<noteq> []" using sub E(3) by auto
    have "filter (\<lambda>i. last ?ids \<noteq> [] \<longrightarrow> i > last ?ids) E = filter (\<lambda>i. i > last ?ids) left"
      unfolding less(2) filter_filter
    proof (rule filter_cong [OF refl])
      fix i assume "i \<in> set E"
      have "lastID \<noteq> [] \<longrightarrow> last ?ids > lastID" using l unfolding less(2) by auto
      then show "(last (take (min 500 (length (filter (\<lambda>i. lastID \<noteq> [] \<longrightarrow> lastID < i) E)))
            (filter (\<lambda>i. lastID \<noteq> [] \<longrightarrow> lastID < i) E)) \<noteq> [] \<longrightarrow>
          last (take (min 500 (length (filter (\<lambda>i. lastID \<noteq> [] \<longrightarrow> lastID < i) E)))
            (filter (\<lambda>i. lastID \<noteq> [] \<longrightarrow> lastID < i) E)) < i) =
         ((lastID \<noteq> [] \<longrightarrow> lastID < i) \<and>
          last (take (min 500 (length (filter (\<lambda>i. lastID \<noteq> [] \<longrightarrow> lastID < i) E)))
            (filter (\<lambda>i. lastID \<noteq> [] \<longrightarrow> lastID < i) E)) < i)"
        using l0 unfolding less(2) by (auto intro: less_trans)
    qed
    also have "\<dots> = ?rest" by (rule sorted_distinct_after_take [OF so n])
    finally have rest: "?rest = filter (\<lambda>i. last ?ids \<noteq> [] \<longrightarrow> i > last ?ids) E" ..
    let ?rd = "fold ?push ?ids rd"
    have ok: "history_ok ?rd" by (rule history.fold_push_ok [OF less(3)])
    have di: "distinct ?ids" "set ?ids \<inter> set ?rest = {}"
      using so(2) by (metis append_take_drop_id distinct_append)+
    have jobs: "history_jobs ?rd = history_jobs rd @ filter (\<lambda>i. i \<notin> set (history_jobs rd)) ?ids"
      by (rule history.fold_push_new [OF less(3) di(1)])
    have cnt: "filter (\<lambda>i. i \<notin> set (history_jobs ?rd)) ?rest = filter (\<lambda>i. i \<notin> set (history_jobs rd)) ?rest"
      using di(2) unfolding jobs by (intro filter_cong) auto
    have batch: "enqueueMailboxHistoryBatch False ?ids rd = (Inr (length (filter (\<lambda>i. i \<notin> set (history_jobs rd)) ?ids)), ?rd)"
      using ids push_each_added [OF less(3) di(1)] push_each_fold [of ?ids rd]
      by (simp add: enqueueMailboxHistoryBatch_def quiet split_def del: take_eq_Nil take_eq_Nil2)
    have "length ?rest < length left" using n by simp
    note IH = less(1) [OF this rest ok]
    have split: "length (filter P left) = length (filter P ?ids) + length (filter P ?rest)" for P
      by (metis append_take_drop_id filter_append length_append)
    have "fold ?push left rd = fold ?push ?rest ?rd"
      by (metis append_take_drop_id fold_append comp_apply)
    then show ?thesis
      by (subst scan_pages.simps, unfold page)
        (use ids n in \<open>simp add: quiet batch Let_def IH cnt split [of "\<lambda>i. i \<notin> set (history_jobs rd)"] del: take_eq_Nil take_eq_Nil2\<close>)
  qed
qed

text \<open>C22: Submitting a platform's mailboxes to the scan of old mails ends and misses none: when no command fails, the call
  returns after queueing, each exactly once and behind the jobs already waiting, every verified, unblocked, unleased
  mailbox with a credential whose state for the platform is available, and reports their number and how many were new.\<close>

theorem history_scan_complete:
  assumes "distinct (map m_ID (db_mailboxes db))" and "[] \<notin> m_ID ` set (db_mailboxes db)" and "history_ok rd"
    and "\<And>n. \<not> db_fail env n" "\<And>n. \<not> fail n" "\<And>n. \<not> cancelled n"
    and "row_first sv_ID (\<lambda>s. to_lower (sv_Code s) = to_lower (trim_space code)) (db_services db) = Some service"
    and "to_lower (trim_space code) \<noteq> []"
  shows "\<exists>rd' ids new. QueueMailboxHistoryScans env fail cancelled db code rd =
       Some ((\<lparr> hsr_ServiceCode = sv_Code service, hsr_Eligible = int (length ids), hsr_Queued = int (length new),
                hsr_Async = True \<rparr>, None), rd')
     \<and> sorted ids \<and> distinct ids \<and> set ids = m_ID ` {m \<in> set (db_mailboxes db). scan_eligible db (sv_ID service) m}
     \<and> new = filter (\<lambda>i. i \<notin> set (history_jobs rd)) ids
     \<and> history_jobs rd' = history_jobs rd @ new \<and> history_ok rd'"
proof -
  let ?E = "eligible_ids db (sv_ID service)"
  let ?push = "\<lambda>i rd. snd (EnqueueMailboxHistoryScan False i rd)"
  have s: "set ?E = m_ID ` {m \<in> set (db_mailboxes db). scan_eligible db (sv_ID service) m}"
    by (auto simp: eligible_ids_def scan_left_def)
  have E: "sorted ?E" "distinct ?E" "[] \<notin> set ?E"
    using assms(1,2) s by (auto simp: eligible_ids_def scan_left_def distinct_map_filter)
  have "scan_pages env fail cancelled db (sv_ID service) 0 [] (empty_scan\<lparr>hsr_ServiceCode := sv_Code service, hsr_Async := True\<rparr>) rd =
      Some ((\<lparr> hsr_ServiceCode = sv_Code service, hsr_Eligible = int (length ?E),
                hsr_Queued = int (length (filter (\<lambda>i. i \<notin> set (history_jobs rd)) ?E)), hsr_Async = True \<rparr>, None), fold ?push ?E rd)"
    using scan_pages_spec [OF E refl assms(4-6), where left = ?E and lastID = "[]" and k = 0, OF _ assms(3)] by (simp add: empty_scan_def)
  then have "QueueMailboxHistoryScans env fail cancelled db code rd =
      Some ((\<lparr> hsr_ServiceCode = sv_Code service, hsr_Eligible = int (length ?E),
                hsr_Queued = int (length (filter (\<lambda>i. i \<notin> set (history_jobs rd)) ?E)), hsr_Async = True \<rparr>, None), fold ?push ?E rd)"
    using assms(4,7,8) by (simp add: QueueMailboxHistoryScans_def Let_def)
  then show ?thesis
    using s E(1,2) history.fold_push_new [OF assms(3) E(2)] history.fold_push_ok [OF assms(3), of ?E] by blast
qed

lemma history_scan_complete_witness:
  "\<exists>res rd'. QueueMailboxHistoryScans (quiet_env 5) (\<lambda>_. False) (\<lambda>_. False) demo_db ''openai'' empty_redis = Some ((res, None), rd')
     \<and> history_jobs rd' = [''m1'']"
proof -
  have l: "to_lower (trim_space ''openai'') = ''openai''" by code_simp
  have sv: "row_first sv_ID (\<lambda>s. to_lower (sv_Code s) = to_lower (trim_space ''openai'')) (db_services demo_db) = Some demo_service"
    unfolding l by code_simp
  have d: "distinct (map m_ID (db_mailboxes demo_db))" "[] \<notin> m_ID ` set (db_mailboxes demo_db)"
    by (simp_all add: demo_defs)
  have el: "{m \<in> set (db_mailboxes demo_db). scan_eligible demo_db (sv_ID demo_service) m} = {demo_mailbox}"
    by (auto simp: demo_defs scan_eligible_def MailboxBlocked_def MailboxAvailable_def MailboxError_def)
  have e: "history_jobs empty_redis = []" by (simp add: history_jobs_def jobs_def empty_redis_def)
  obtain rd' ids new res where q: "QueueMailboxHistoryScans (quiet_env 5) (\<lambda>_. False) (\<lambda>_. False) demo_db ''openai'' empty_redis = Some ((res, None), rd')"
    and i: "distinct ids" "set ids = m_ID ` {m \<in> set (db_mailboxes demo_db). scan_eligible demo_db (sv_ID demo_service) m}"
    and n: "new = filter (\<lambda>i. i \<notin> set (history_jobs empty_redis)) ids" "history_jobs rd' = history_jobs empty_redis @ new"
    using history_scan_complete [OF d empty_redis_ok(2) _ _ _ sv, of "quiet_env 5" "\<lambda>_. False" "\<lambda>_. False"] l by auto
  have "set ids = {''m1''}" using i(2) unfolding el by (simp add: demo_mailbox_def)
  moreover have "length ids = 1" using distinct_card [OF i(1)] calculation by simp
  ultimately have "ids = [''m1'']" by (cases ids) auto
  then show ?thesis using q n e by auto
qed

end
