(* ===== verification/Go_Time.thy ===== *)
theory Go_Time
  imports Paging "HOL-Library.Monad_Syntax"
begin

text \<open>
  \<^verbatim>\<open>time.Parse(time.RFC3339, s)\<close> of Go's standard library, which reads the expiry of an access token.  A
  time counts nanoseconds from the first instant of year 1, Go's zero time.  Like the library, the
  parser takes an hour of one digit and a fraction after a dot or a comma, of which nine digits count; \<open>None\<close> is its
  error, for which the code goes on with the zero time.
\<close>

definition days_in_month :: "int \<Rightarrow> int \<Rightarrow> int" where
  "days_in_month year month =
     (if month = 2 then (if year mod 4 = 0 \<and> (year mod 100 \<noteq> 0 \<or> year mod 400 = 0) then 29 else 28)
      else if month \<in> {4, 6, 9, 11} then 30 else 31)"

definition days_before_month :: "int \<Rightarrow> int \<Rightarrow> int" where
  "days_before_month year month = sum_list (map (days_in_month year) [1..month - 1])"

definition days_before_year :: "int \<Rightarrow> int" where
  "days_before_year year = 365 * (year - 1) + (year - 1) div 4 - (year - 1) div 100 + (year - 1) div 400"

definition civil_time :: "int \<Rightarrow> int \<Rightarrow> int \<Rightarrow> int \<Rightarrow> int \<Rightarrow> int \<Rightarrow> time" where
  "civil_time year month day h m s =
     (days_before_year year + days_before_month year month + day - 1) * (24 * hour) + h * hour + m * minute + s * second"

text \<open>A number of two digits, or of one when \<open>fixed\<close> is not set, and the rest of the text.\<close>

definition digit_of :: "char \<Rightarrow> int" where
  "digit_of c = int (of_char c) - 48"

definition getnum :: "bool \<Rightarrow> string \<Rightarrow> (int \<times> string) option" where
  "getnum fixed s =
     (case s of
        a # b # rest \<Rightarrow>
          if \<not> is_digit a then None
          else if is_digit b then Some (10 * digit_of a + digit_of b, rest)
          else if fixed then None else Some (digit_of a, b # rest)
      | [a] \<Rightarrow> if is_digit a \<and> \<not> fixed then Some (digit_of a, []) else None
      | [] \<Rightarrow> None)"

definition expect :: "char \<Rightarrow> string \<Rightarrow> string option" where
  "expect c s = (case s of [] \<Rightarrow> None | d # rest \<Rightarrow> if c = d then Some rest else None)"

definition within :: "int \<Rightarrow> int \<Rightarrow> int \<Rightarrow> unit option" where
  "within lo hi x = (if lo \<le> x \<and> x \<le> hi then Some () else None)"

definition parse_fraction :: "string \<Rightarrow> time \<times> string" where
  "parse_fraction s =
     (case s of
        a # b # rest \<Rightarrow>
          if (a = CHR ''.'' \<or> a = CHR '','') \<and> is_digit b
          then let ds = takeWhile is_digit (b # rest); kept = take 9 ds
               in (int (digits_value 0 kept) * 10 ^ (9 - length kept), dropWhile is_digit (b # rest))
          else (0, s)
      | _ \<Rightarrow> (0, s))"

definition parse_zone :: "string \<Rightarrow> (time \<times> string) option" where
  "parse_zone s =
     (if take 1 s = ''Z'' then Some (0, drop 1 s)
      else if length s < 6 \<or> s ! 3 \<noteq> CHR '':'' then None
      else do { (h, _) \<leftarrow> getnum True (take 2 (drop 1 s));
                (m, _) \<leftarrow> getnum True (take 2 (drop 4 s));
                within 0 24 h; within 0 60 m;
                if s ! 0 = CHR ''+'' then Some (h * hour + m * minute, drop 6 s)
                else if s ! 0 = CHR ''-'' then Some (- (h * hour + m * minute), drop 6 s)
                else None })"

definition parse_rfc3339 :: "string \<Rightarrow> time option" where
  "parse_rfc3339 s0 =
     (if length s0 < 4 \<or> \<not> list_all is_digit (take 4 s0) then None
      else do {
        s \<leftarrow> expect CHR ''-'' (drop 4 s0);
        (month, s) \<leftarrow> getnum True s;
        within 1 12 month;
        s \<leftarrow> expect CHR ''-'' s;
        (day, s) \<leftarrow> getnum True s;
        s \<leftarrow> expect CHR ''T'' s;
        (h, s) \<leftarrow> getnum False s;
        within 0 23 h;
        s \<leftarrow> expect CHR '':'' s;
        (m, s) \<leftarrow> getnum True s;
        within 0 59 m;
        s \<leftarrow> expect CHR '':'' s;
        (sec, s) \<leftarrow> getnum True s;
        within 0 59 sec;
        (offset, rest) \<leftarrow> parse_zone (snd (parse_fraction s));
        (if rest = [] then Some () else None);
        within 1 (days_in_month (int (digits_value 0 (take 4 s0))) month) day;
        Some (civil_time (int (digits_value 0 (take 4 s0))) month day h m sec + fst (parse_fraction s) - offset)
      })"

subsection \<open>Writing a time\<close>

text \<open>\<^verbatim>\<open>t.UTC().Format(time.RFC3339)\<close>, which drops the fraction of a second.\<close>

lemma div_step:
  fixes q k :: int
  assumes k: "0 < k"
  shows "q div k \<le> (q + 1) div k" and "(q + 1) div k \<le> q div k + 1"
proof -
  show "q div k \<le> (q + 1) div k" using k by (simp add: zdiv_mono1)
  have "(q + 1) div k \<le> (q + k) div k" using k by (intro zdiv_mono1) auto
  also have "\<dots> = q div k + 1" by (rule div_add_self2) (use k in simp)
  finally show "(q + 1) div k \<le> q div k + 1" .
qed

lemma days_before_year_step: "days_before_year y + 365 \<le> days_before_year (y + 1)"
proof -
  have "\<exists>q. (y - 1) div 4 = q \<and> (y div 4 = q \<or> y div 4 = q + 1)" by presburger
  then obtain q where q: "(y - 1) div 4 = q" "y div 4 = q \<or> y div 4 = q + 1" by blast
  have h: "x div 100 = x div 4 div 25" for x :: int using zdiv_zmult2_eq [of 25 x 4] by simp
  have "y div 100 - (y - 1) div 100 \<le> y div 4 - (y - 1) div 4"
    unfolding h q(1) using q(2) div_step [of 25 q] by auto
  moreover have "(y - 1) div 400 \<le> y div 400" by (simp add: zdiv_mono1)
  ultimately show ?thesis by (simp add: days_before_year_def)
qed

function year_of_day :: "int \<Rightarrow> int \<Rightarrow> int" where
  "year_of_day d y = (if days_before_year (y + 1) \<le> d then year_of_day d (y + 1) else y)"
  by pat_completeness auto
termination
proof (relation "measure (\<lambda>(d, y). nat (d - days_before_year y))", goal_cases)
  case (2 d y)
  then show ?case using days_before_year_step [of y] by simp
qed simp

declare year_of_day.simps [simp del]

fun month_of_day :: "int \<Rightarrow> int \<Rightarrow> nat \<Rightarrow> int \<Rightarrow> int \<times> int" where
  "month_of_day year month 0 d = (month, d)"
| "month_of_day year month (Suc n) d =
     (if d < days_in_month year month then (month, d) else month_of_day year (month + 1) n (d - days_in_month year month))"

definition digits2 :: "int \<Rightarrow> string" where
  "digits2 n = [char_of (48 + nat (n div 10)), char_of (48 + nat (n mod 10))]"

definition format_rfc3339 :: "time \<Rightarrow> string" where
  "format_rfc3339 t =
     (let day = t div (24 * hour); rest = t mod (24 * hour);
          year = year_of_day day 1;
          (month, d) = month_of_day year 1 11 (day - days_before_year year)
      in digits2 (year div 100) @ digits2 (year mod 100) @ ''-'' @ digits2 month @ ''-'' @ digits2 (d + 1) @ ''T''
         @ digits2 (rest div hour) @ '':'' @ digits2 (rest mod hour div minute) @ '':''
         @ digits2 (rest mod minute div second) @ ''Z'')"

end
