(* ===== verification/Mail_Messages.thy ===== *)
theory Mail_Messages
  imports Messages
begin

text \<open>
  The Chinese texts of the errors that the mail connectors, the OAuth clients and the importer return, as UTF-8 bytes.  The
  verifier and the worker shorten them and store them with the mailbox.
\<close>

definition msg_unsupported_mailbox :: string where
  "msg_unsupported_mailbox = utf8 [
    0xE4, 0xB8, 0x8D, 0xE6, 0x94, 0xAF, 0xE6, 0x8C, 0x81, 0xE8, 0xAF, 0xA5, 0xE9, 0x82,
    0xAE, 0xE7, 0xAE, 0xB1, 0xE7, 0xB1, 0xBB, 0xE5, 0x9E, 0x8B]"

definition msg_read_inbox_failed :: string where
  "msg_read_inbox_failed = utf8 [
    0xE8, 0xAF, 0xBB, 0xE5, 0x8F, 0x96, 0xE6, 0x94, 0xB6, 0xE4, 0xBB, 0xB6, 0xE7, 0xAE,
    0xB1, 0xE5, 0xA4, 0xB1, 0xE8, 0xB4, 0xA5, 0xEF, 0xBC, 0x9A]"

definition msg_no_imap_client :: string where
  "msg_no_imap_client = utf8 [
    0xE7, 0xBC, 0xBA, 0xE5, 0xB0, 0x91, 0x20, 0x4D, 0x69, 0x63, 0x72, 0x6F, 0x73, 0x6F,
    0x66, 0x74, 0x20, 0x49, 0x4D, 0x41, 0x50, 0x20, 0x4F, 0x41, 0x75, 0x74, 0x68, 0x20,
    0xE5, 0xAE, 0xA2, 0xE6, 0x88, 0xB7, 0xE7, 0xAB, 0xAF]"

definition msg_no_graph_client :: string where
  "msg_no_graph_client = utf8 [
    0xE7, 0xBC, 0xBA, 0xE5, 0xB0, 0x91, 0x20, 0x4D, 0x69, 0x63, 0x72, 0x6F, 0x73, 0x6F,
    0x66, 0x74, 0x20, 0x47, 0x72, 0x61, 0x70, 0x68, 0x20, 0xE5, 0xAE, 0xA2, 0xE6, 0x88,
    0xB7, 0xE7, 0xAB, 0xAF]"

definition msg_ms_no_client_or_refresh :: string where
  "msg_ms_no_client_or_refresh = utf8 [
    0xE7, 0xBC, 0xBA, 0xE5, 0xB0, 0x91, 0x20, 0x4D, 0x69, 0x63, 0x72, 0x6F, 0x73, 0x6F,
    0x66, 0x74, 0x20, 0x63, 0x6C, 0x69, 0x65, 0x6E, 0x74, 0x5F, 0x69, 0x64, 0x20, 0xE6,
    0x88, 0x96, 0x20, 0x72, 0x65, 0x66, 0x72, 0x65, 0x73, 0x68, 0x5F, 0x74, 0x6F, 0x6B,
    0x65, 0x6E]"

definition msg_ms_imap_no_client :: string where
  "msg_ms_imap_no_client = utf8 [
    0xE7, 0xBC, 0xBA, 0xE5, 0xB0, 0x91, 0x20, 0x4D, 0x69, 0x63, 0x72, 0x6F, 0x73, 0x6F,
    0x66, 0x74, 0x20, 0x49, 0x4D, 0x41, 0x50, 0x20, 0x63, 0x6C, 0x69, 0x65, 0x6E, 0x74,
    0x5F, 0x69, 0x64]"

definition msg_ms_imap_no_token :: string where
  "msg_ms_imap_no_token = utf8 [
    0xE7, 0xBC, 0xBA, 0xE5, 0xB0, 0x91, 0x20, 0x4D, 0x69, 0x63, 0x72, 0x6F, 0x73, 0x6F,
    0x66, 0x74, 0x20, 0x49, 0x4D, 0x41, 0x50, 0x20, 0x72, 0x65, 0x66, 0x72, 0x65, 0x73,
    0x68, 0x5F, 0x74, 0x6F, 0x6B, 0x65, 0x6E, 0x20, 0xE6, 0x88, 0x96, 0x20, 0x61, 0x63,
    0x63, 0x65, 0x73, 0x73, 0x5F, 0x74, 0x6F, 0x6B, 0x65, 0x6E]"

definition msg_ms_token_status :: string where
  "msg_ms_token_status = utf8 [
    0x4D, 0x69, 0x63, 0x72, 0x6F, 0x73, 0x6F, 0x66, 0x74, 0x20, 0x54, 0x6F, 0x6B, 0x65,
    0x6E, 0x20, 0xE6, 0x8E, 0xA5, 0xE5, 0x8F, 0xA3, 0xE8, 0xBF, 0x94, 0xE5, 0x9B, 0x9E,
    0x20]"

definition msg_ms_token_invalid :: string where
  "msg_ms_token_invalid = utf8 [
    0x4D, 0x69, 0x63, 0x72, 0x6F, 0x73, 0x6F, 0x66, 0x74, 0x20, 0x54, 0x6F, 0x6B, 0x65,
    0x6E, 0x20, 0xE5, 0x93, 0x8D, 0xE5, 0xBA, 0x94, 0xE6, 0x97, 0xA0, 0xE6, 0x95, 0x88]"

definition msg_ms_user_status :: string where
  "msg_ms_user_status = utf8 [
    0x4D, 0x69, 0x63, 0x72, 0x6F, 0x73, 0x6F, 0x66, 0x74, 0x20, 0x47, 0x72, 0x61, 0x70,
    0x68, 0x20, 0xE7, 0x94, 0xA8, 0xE6, 0x88, 0xB7, 0xE6, 0x8E, 0xA5, 0xE5, 0x8F, 0xA3,
    0xE8, 0xBF, 0x94, 0xE5, 0x9B, 0x9E, 0x20]"

definition msg_ms_no_address :: string where
  "msg_ms_no_address = utf8 [
    0x4D, 0x69, 0x63, 0x72, 0x6F, 0x73, 0x6F, 0x66, 0x74, 0x20, 0xE8, 0xB4, 0xA6, 0xE6,
    0x88, 0xB7, 0xE6, 0xB2, 0xA1, 0xE6, 0x9C, 0x89, 0xE5, 0x8F, 0xAF, 0xE7, 0x94, 0xA8,
    0xE9, 0x82, 0xAE, 0xE7, 0xAE, 0xB1, 0xE5, 0x9C, 0xB0, 0xE5, 0x9D, 0x80]"

definition msg_ms_mail_status :: string where
  "msg_ms_mail_status = utf8 [
    0x4D, 0x69, 0x63, 0x72, 0x6F, 0x73, 0x6F, 0x66, 0x74, 0x20, 0x47, 0x72, 0x61, 0x70,
    0x68, 0x20, 0xE9, 0x82, 0xAE, 0xE4, 0xBB, 0xB6, 0xE6, 0x8E, 0xA5, 0xE5, 0x8F, 0xA3,
    0xE8, 0xBF, 0x94, 0xE5, 0x9B, 0x9E, 0x20]"

definition msg_google_no_access :: string where
  "msg_google_no_access = utf8 [
    0xE7, 0xBC, 0xBA, 0xE5, 0xB0, 0x91, 0x20, 0x47, 0x6F, 0x6F, 0x67, 0x6C, 0x65, 0x20,
    0x61, 0x63, 0x63, 0x65, 0x73, 0x73, 0x20, 0x74, 0x6F, 0x6B, 0x65, 0x6E]"

definition msg_google_user_status :: string where
  "msg_google_user_status = utf8 [
    0x47, 0x6F, 0x6F, 0x67, 0x6C, 0x65, 0x20, 0xE7, 0x94, 0xA8, 0xE6, 0x88, 0xB7, 0xE4,
    0xBF, 0xA1, 0xE6, 0x81, 0xAF, 0xE6, 0x8E, 0xA5, 0xE5, 0x8F, 0xA3, 0xE8, 0xBF, 0x94,
    0xE5, 0x9B, 0x9E, 0x20]"

definition msg_google_user_invalid :: string where
  "msg_google_user_invalid = utf8 [
    0x47, 0x6F, 0x6F, 0x67, 0x6C, 0x65, 0x20, 0xE7, 0x94, 0xA8, 0xE6, 0x88, 0xB7, 0xE4,
    0xBF, 0xA1, 0xE6, 0x81, 0xAF, 0xE5, 0x93, 0x8D, 0xE5, 0xBA, 0x94, 0xE6, 0x97, 0xA0,
    0xE6, 0x95, 0x88]"

definition msg_google_unverified :: string where
  "msg_google_unverified = utf8 [
    0x47, 0x6F, 0x6F, 0x67, 0x6C, 0x65, 0x20, 0xE9, 0x82, 0xAE, 0xE7, 0xAE, 0xB1, 0xE5,
    0xB0, 0x9A, 0xE6, 0x9C, 0xAA, 0xE9, 0xAA, 0x8C, 0xE8, 0xAF, 0x81]"

definition msg_google_token_status :: string where
  "msg_google_token_status = utf8 [
    0x47, 0x6F, 0x6F, 0x67, 0x6C, 0x65, 0x20, 0x54, 0x6F, 0x6B, 0x65, 0x6E, 0x20, 0xE6,
    0x8E, 0xA5, 0xE5, 0x8F, 0xA3, 0xE8, 0xBF, 0x94, 0xE5, 0x9B, 0x9E, 0x20]"

definition msg_google_token_invalid :: string where
  "msg_google_token_invalid = utf8 [
    0x47, 0x6F, 0x6F, 0x67, 0x6C, 0x65, 0x20, 0x54, 0x6F, 0x6B, 0x65, 0x6E, 0x20, 0xE5,
    0x93, 0x8D, 0xE5, 0xBA, 0x94, 0xE6, 0x97, 0xA0, 0xE6, 0x95, 0x88]"

definition msg_colon :: string where
  "msg_colon = utf8 [
    0xEF, 0xBC, 0x9A]"

definition msg_import_json :: string where
  "msg_import_json = utf8 [
    0x4A, 0x53, 0x4F, 0x4E, 0x20, 0x4C, 0x69, 0x6E, 0x65, 0x73, 0x20, 0xE6, 0xA0, 0xBC,
    0xE5, 0xBC, 0x8F, 0xE6, 0x97, 0xA0, 0xE6, 0x95, 0x88]"

definition msg_import_csv :: string where
  "msg_import_csv = utf8 [
    0x43, 0x53, 0x56, 0x20, 0xE6, 0xA0, 0xBC, 0xE5, 0xBC, 0x8F, 0xE6, 0x97, 0xA0, 0xE6,
    0x95, 0x88]"

definition msg_import_unknown :: string where
  "msg_import_unknown = utf8 [
    0xE6, 0x97, 0xA0, 0xE6, 0xB3, 0x95, 0xE8, 0xAF, 0x86, 0xE5, 0x88, 0xAB, 0xE9, 0x82,
    0xAE, 0xE7, 0xAE, 0xB1, 0xE6, 0xA0, 0xBC, 0xE5, 0xBC, 0x8F]"

definition msg_import_fields :: string where
  "msg_import_fields = utf8 [
    0xE9, 0x82, 0xAE, 0xE7, 0xAE, 0xB1, 0xE8, 0xAE, 0xB0, 0xE5, 0xBD, 0x95, 0xE8, 0x87,
    0xB3, 0xE5, 0xB0, 0x91, 0xE9, 0x9C, 0x80, 0xE8, 0xA6, 0x81, 0xE9, 0x82, 0xAE, 0xE7,
    0xAE, 0xB1, 0xE5, 0x92, 0x8C, 0xE5, 0x87, 0xAD, 0xE8, 0xAF, 0x81]"

definition msg_import_address :: string where
  "msg_import_address = utf8 [
    0xE9, 0x82, 0xAE, 0xE7, 0xAE, 0xB1, 0xE5, 0x9C, 0xB0, 0xE5, 0x9D, 0x80, 0xE6, 0x97,
    0xA0, 0xE6, 0x95, 0x88]"

definition msg_import_empty :: string where
  "msg_import_empty = utf8 [
    0xE9, 0x82, 0xAE, 0xE7, 0xAE, 0xB1, 0xE5, 0x87, 0xAD, 0xE8, 0xAF, 0x81, 0xE4, 0xB8,
    0x8D, 0xE8, 0x83, 0xBD, 0xE4, 0xB8, 0xBA, 0xE7, 0xA9, 0xBA]"

definition msg_import_read :: string where
  "msg_import_read = utf8 [
    0xE8, 0xAF, 0xBB, 0xE5, 0x8F, 0x96, 0x20, 0x54, 0x58, 0x54, 0x20, 0xE6, 0x96, 0x87,
    0xE4, 0xBB, 0xB6, 0xE5, 0xA4, 0xB1, 0xE8, 0xB4, 0xA5, 0xEF, 0xBC, 0x9A]"

end
