(* ===== verification/Credentials.thy ===== *)
theory Credentials
  imports Domain Go_Time Mail_Messages Url_Values
begin

text \<open>
  The credential of a mailbox is a map of strings.  Which way of connecting it allows, which part of it is
  handed to the IMAP client, when its token has to be refreshed, how a refreshed token is merged
  into it, the request for a new token, and the shortening of a connector's error: the functions of
  \<^verbatim>\<open>internal/mail/verification.go\<close> and \<^verbatim>\<open>internal/mail/microsoft.go\<close> that the verifier and the worker
  share.  An error of a connector is its text; \<open>None\<close> is no error.
\<close>

type_synonym credential = "string \<rightharpoonup> string"

abbreviation cfg :: "credential \<Rightarrow> string \<Rightarrow> string" where "cfg \<equiv> get_or_empty"

abbreviation trimmed :: "credential \<Rightarrow> string \<Rightarrow> string" where "trimmed config k \<equiv> trim_space (cfg config k)"

text \<open>The time in a field, or the zero time.\<close>

definition cfg_time :: "string \<Rightarrow> time" where
  "cfg_time s = (case parse_rfc3339 s of None \<Rightarrow> zero_time | Some t \<Rightarrow> t)"

subsection \<open>Kinds of mailboxes\<close>

definition mailbox_provider :: "Mailbox \<Rightarrow> string" where
  "mailbox_provider mailbox =
     (if mbx_Provider mailbox = []
      then (case DetectMailboxProvider (mbx_Address mailbox) of None \<Rightarrow> [] | Some p \<Rightarrow> p)
      else mbx_Provider mailbox)"

definition supportsMicrosoftGraph :: "Mailbox \<Rightarrow> bool" where
  "supportsMicrosoftGraph mailbox = IsMicrosoftMailboxProvider (mailbox_provider mailbox)"

definition isGmailMailbox :: "Mailbox \<Rightarrow> bool" where
  "isGmailMailbox mailbox \<longleftrightarrow> mailbox_provider mailbox = MailboxProviderGmail"

definition isMicrosoftIMAPOAuth :: "Mailbox \<Rightarrow> credential \<Rightarrow> bool" where
  "isMicrosoftIMAPOAuth mailbox config =
     (if \<not> supportsMicrosoftGraph mailbox then False
      else if equal_fold (trimmed config ''imap_auth_method'') ''password'' then False
      else let protocol = to_lower (trimmed config ''oauth_protocol'')
        in if protocol \<in> {''imap'', ''imap_oauth'', ''microsoft_imap'', ''microsoft_imap_oauth''} then True
           else if protocol \<in> {''graph'', ''microsoft_graph''} then False
           else if mbx_ConnectionMethod mailbox = MailboxConnectionIMAP
             then trimmed config ''client_id'' \<noteq> [] \<and> trimmed config ''refresh_token'' \<noteq> [] \<and> trimmed config ''password'' = []
           else (mbx_ConnectionMethod mailbox = [] \<or> mbx_ConnectionMethod mailbox = MailboxConnectionAuto)
             \<and> trimmed config ''client_id'' \<noteq> [] \<and> trimmed config ''refresh_token'' \<noteq> [])"

definition isMicrosoftIMAPPassword :: "Mailbox \<Rightarrow> credential \<Rightarrow> bool" where
  "isMicrosoftIMAPPassword mailbox config \<longleftrightarrow>
     supportsMicrosoftGraph mailbox \<and> equal_fold (trimmed config ''imap_auth_method'') ''password''"

definition hasIMAPCredential :: "Mailbox \<Rightarrow> credential \<Rightarrow> bool" where
  "hasIMAPCredential mailbox config =
     (if trimmed config ''access_token'' \<noteq> [] \<or> trimmed config ''password'' \<noteq> [] then True
      else isGmailMailbox mailbox \<and> trimmed config ''refresh_token'' \<noteq> [])"

definition hasIMAPFallbackCredential :: "Mailbox \<Rightarrow> credential \<Rightarrow> string option \<Rightarrow> bool" where
  "hasIMAPFallbackCredential mailbox config graphErr =
     (if supportsMicrosoftGraph mailbox \<and> graphErr \<noteq> None \<and> trimmed config ''password'' = [] then False
      else hasIMAPCredential mailbox config)"

subsection \<open>Parts of a credential\<close>

definition cloneCredential :: "credential \<Rightarrow> credential" where
  "cloneCredential source = (\<lambda>key. case source key of None \<Rightarrow> None | Some value \<Rightarrow> Some value)"

lemma cloneCredential_id [simp]: "cloneCredential c = c"
  by (auto simp: cloneCredential_def fun_eq_iff split: option.split)

definition mergeCredential :: "credential \<Rightarrow> credential \<Rightarrow> credential" where
  "mergeCredential existing refreshed =
     (\<lambda>key. case refreshed key of
        Some v \<Rightarrow> if v \<noteq> [] then Some v else cloneCredential existing key
      | None \<Rightarrow> cloneCredential existing key)"

definition credentialForIMAPFallback :: "credential \<Rightarrow> credential" where
  "credentialForIMAPFallback config =
     (if trimmed config ''password'' = [] then config
      else (cloneCredential config)(''access_token'' := None))"

definition credentialForIMAPOAuth :: "credential \<Rightarrow> credential" where
  "credentialForIMAPOAuth config = (cloneCredential config)(''access_token'' := None, ''expires_at'' := None)"

definition imapOAuthCredentialNeedsRefresh :: "credential \<Rightarrow> time \<Rightarrow> bool" where
  "imapOAuthCredentialNeedsRefresh config now =
     (if trimmed config ''access_token'' = [] then True
      else case parse_rfc3339 (trimmed config ''expires_at'') of
          None \<Rightarrow> False | Some validUntil \<Rightarrow> \<not> is_zero validUntil \<and> \<not> validUntil > now)"

subsection \<open>Errors\<close>

definition compactGraphError :: "string option \<Rightarrow> string" where
  "compactGraphError err =
     (case err of
        None \<Rightarrow> msg_no_error
      | Some message \<Rightarrow>
        if str_contains message ''invalid_grant'' \<or> str_contains message ''AADSTS70000'' then msg_graph_grant_expired
        else if str_contains message ''AADSTS65001'' then msg_graph_consent_missing
        else if length message > 240 then take 240 message else message)"

definition compactVerificationError :: "string option \<Rightarrow> string option \<Rightarrow> string" where
  "compactVerificationError graphErr imapErr =
     (let message = msg_graph_prefix @ compactGraphError graphErr @ msg_imap_marker @ compactGraphError imapErr
      in if length message > 480 then take 480 message else message)"

definition compactIMAPError :: "string option \<Rightarrow> string" where
  "compactIMAPError imapErr =
     (let message = msg_imap_prefix @ (case imapErr of None \<Rightarrow> ''<nil>'' | Some e \<Rightarrow> e)
      in if length message > 480 then take 480 message else message)"

subsection \<open>IMAP servers\<close>

record imapEndpoint =
  ep_Address :: string
  ep_ServerName :: string
  ep_LoginCandidates :: "string list"

text \<open>\<open>None\<close> is the error for an unsupported address.\<close>

definition imapServerConfig :: "string \<Rightarrow> imapEndpoint option" where
  "imapServerConfig address =
     (case DetectMailboxProvider address of
        None \<Rightarrow> None
      | Some provider \<Rightarrow>
        let endpoint = (\<lambda>server candidates. \<lparr> ep_Address = server @ '':993'', ep_ServerName = server, ep_LoginCandidates = candidates \<rparr>)
        in Some (if provider = MailboxProviderOutlook \<or> provider = MailboxProviderOutlookDE \<or> provider = MailboxProviderHotmail
                 then endpoint ''outlook.office365.com'' [address]
                 else if provider = MailboxProviderGmail then endpoint ''imap.gmail.com'' [address]
                 else if provider = MailboxProviderICloud then endpoint ''imap.mail.me.com''
                   (case str_cut address ''@'' of
                      Some (local, _) \<Rightarrow> if local \<noteq> [] then [local, address] else [address]
                    | None \<Rightarrow> [address])
                 else if provider = MailboxProviderMailCom then endpoint ''imap.mail.com'' [address]
                 else \<lparr> ep_Address = [], ep_ServerName = [], ep_LoginCandidates = [address] \<rparr>))"

definition imapUsername :: "string \<Rightarrow> credential \<Rightarrow> string" where
  "imapUsername address credential =
     (if trimmed credential ''imap_user'' \<noteq> [] then trimmed credential ''imap_user'' else address)"

text \<open>How the client logs in: with the token, or with the password under each of the names in turn.  \<open>login\<close> tells the
  server's answer.\<close>

datatype imap_login = XOAuth2 string string | Login string string

definition login_candidates :: "imapEndpoint \<Rightarrow> string \<Rightarrow> string \<Rightarrow> string list" where
  "login_candidates endpoint address username =
     (if username \<noteq> address then username # ep_LoginCandidates endpoint else ep_LoginCandidates endpoint)"

fun try_logins :: "(imap_login \<Rightarrow> string option) \<Rightarrow> string \<Rightarrow> string option \<Rightarrow> string list \<Rightarrow> string option" where
  "try_logins login password err [] = err"
| "try_logins login password err (name # names) =
     (case login (Login name password) of None \<Rightarrow> None | Some e \<Rightarrow> try_logins login password (Some e) names)"

text \<open>\<open>dial\<close> is the connection to the server of the endpoint; the result is the error, \<open>None\<close> when logged in.\<close>

definition imap_connect ::
  "(imapEndpoint \<Rightarrow> string option) \<Rightarrow> (imap_login \<Rightarrow> string option) \<Rightarrow> string \<Rightarrow> credential \<Rightarrow> string option" where
  "imap_connect dial login address credential =
     (case imapServerConfig address of
        None \<Rightarrow> Some msg_unsupported_mailbox
      | Some endpoint \<Rightarrow>
        (case dial endpoint of
           Some e \<Rightarrow> Some (msg_imap_failure_prefix @ e)
         | None \<Rightarrow>
           let username = imapUsername address credential;
               failed = map_option (\<lambda>e. msg_auth_failure_prefix @ e)
           in if cfg credential ''access_token'' \<noteq> []
              then failed (login (XOAuth2 username (cfg credential ''access_token'')))
              else if cfg credential ''password'' \<noteq> []
              then failed (try_logins login (cfg credential ''password'') None (login_candidates endpoint address username))
              else Some msg_no_imap_secret))"

definition xoauth2_response :: "string \<Rightarrow> string \<Rightarrow> string" where
  "xoauth2_response username token =
     ''user='' @ username @ [CHR 0x01] @ ''auth=Bearer '' @ token @ [CHR 0x01, CHR 0x01]"

end
