(* ===== verification/OAuth_Clients.thy ===== *)
theory OAuth_Clients
  imports Credentials
begin

text \<open>
  The OAuth clients of Microsoft and Google, \<^verbatim>\<open>internal/mail/microsoft.go\<close> and \<^verbatim>\<open>google.go\<close>: the requests they make, how
  they read the answers and the errors they return.  The network and the JSON decoder are the argument \<open>net\<close>; a call has the
  number of the request it makes, so that two requests may be answered differently.  Bodies are what the size-limited reader
  returns.
\<close>

datatype http_call = Post string string | Get string string

record graph_item =
  gi_ID :: string
  gi_Subject :: string
  gi_BodyPreview :: string
  gi_Content :: string
  gi_ContentType :: string
  gi_Received :: string
  gi_Address :: string

text \<open>\<open>Post\<close> has the URL and the form, \<open>Get\<close> the URL and the bearer token.  The decoders return the fields that the code declares,
  absent ones empty.\<close>

record mail_net =
  nt_do :: "nat \<Rightarrow> http_call \<Rightarrow> string + (int \<times> string)"
  nt_json_token :: "string \<Rightarrow> (string \<times> string \<times> int) option"
  nt_json_profile :: "string \<Rightarrow> string + (string \<times> string)"
  nt_json_userinfo :: "string \<Rightarrow> (string \<times> bool) option"
  nt_json_messages :: "string \<Rightarrow> string + (string \<times> graph_item list)"

record Message =
  ml_ID :: string
  ml_Sender :: string
  ml_Subject :: string
  ml_BodyPreview :: string
  ml_Body :: string
  ml_BodyType :: string
  ml_ReceivedAt :: time

subsection \<open>Microsoft\<close>

record MicrosoftConfig =
  mc_ClientID :: string
  mc_ClientSecret :: string
  mc_Tenant :: string
  mc_RedirectURI :: string
  mc_GraphBaseURL :: string

definition NewMicrosoftClient :: "MicrosoftConfig \<Rightarrow> MicrosoftConfig" where
  "NewMicrosoftClient config =
     (let config = (if mc_Tenant config = [] then config\<lparr>mc_Tenant := ''common''\<rparr> else config)
      in if mc_GraphBaseURL config = [] then config\<lparr>mc_GraphBaseURL := ''https://graph.microsoft.com/v1.0''\<rparr> else config)"

definition ms_Enabled :: "MicrosoftConfig \<Rightarrow> bool" where
  "ms_Enabled c \<longleftrightarrow> mc_ClientID c \<noteq> [] \<and> mc_ClientSecret c \<noteq> [] \<and> mc_RedirectURI c \<noteq> []"

definition ms_AuthURL :: "MicrosoftConfig \<Rightarrow> string \<Rightarrow> string" where
  "ms_AuthURL c state =
     ''https://login.microsoftonline.com/'' @ mc_Tenant c @ ''/oauth2/v2.0/authorize?''
       @ values_encode [(''client_id'', [mc_ClientID c]), (''response_type'', [''code'']), (''redirect_uri'', [mc_RedirectURI c]),
           (''response_mode'', [''query'']), (''scope'', [''offline_access Mail.Read User.Read'']), (''state'', [state]),
           (''prompt'', [''select_account''])]"

definition refreshTokenValues :: "string \<Rightarrow> string \<Rightarrow> string \<Rightarrow> url_values" where
  "refreshTokenValues clientID refreshToken clientSecret =
     (let vs = [(''client_id'', [clientID]), (''grant_type'', [''refresh_token'']), (''refresh_token'', [refreshToken])]
      in if clientSecret \<noteq> [] then values_set vs ''client_secret'' clientSecret else vs)"

definition tokenForTenant :: "mail_net \<Rightarrow> nat \<Rightarrow> time \<Rightarrow> string \<Rightarrow> url_values \<Rightarrow> string + (credential \<times> time)" where
  "tokenForTenant net n now tenant vs =
     (case nt_do net n (Post (''https://login.microsoftonline.com/'' @ tenant @ ''/oauth2/v2.0/token'') (values_encode vs)) of
        Inl e \<Rightarrow> Inl e
      | Inr (status, body) \<Rightarrow>
        if status \<noteq> 200 then Inl (msg_ms_token_status @ int_digits status @ msg_colon @ trim_space body)
        else case nt_json_token net body of
            None \<Rightarrow> Inl msg_ms_token_invalid
          | Some (accessToken, refreshToken, expiresIn) \<Rightarrow>
            if accessToken = [] then Inl msg_ms_token_invalid
            else let validUntil = now + expiresIn * second
                 in Inr ([''access_token'' \<mapsto> accessToken, ''refresh_token'' \<mapsto> refreshToken,
                          ''expires_at'' \<mapsto> format_rfc3339 validUntil], validUntil))"

definition ms_Exchange :: "mail_net \<Rightarrow> nat \<Rightarrow> time \<Rightarrow> MicrosoftConfig \<Rightarrow> string \<Rightarrow> string + (credential \<times> time)" where
  "ms_Exchange net n now c code =
     tokenForTenant net n now (mc_Tenant c) [(''client_id'', [mc_ClientID c]), (''client_secret'', [mc_ClientSecret c]),
       (''grant_type'', [''authorization_code'']), (''code'', [code]), (''redirect_uri'', [mc_RedirectURI c]),
       (''scope'', [''offline_access Mail.Read User.Read''])]"

definition ms_Refresh :: "mail_net \<Rightarrow> nat \<Rightarrow> time \<Rightarrow> MicrosoftConfig \<Rightarrow> string \<Rightarrow> string + (credential \<times> time)" where
  "ms_Refresh net n now c refreshToken =
     tokenForTenant net n now (mc_Tenant c) (refreshTokenValues (mc_ClientID c) refreshToken (mc_ClientSecret c))"

definition or_default :: "string \<Rightarrow> string \<Rightarrow> string" where
  "or_default s d = (if s = [] then d else s)"

text \<open>The secret of the configured application is sent only with its own client identifier.\<close>

definition client_secret :: "MicrosoftConfig \<Rightarrow> credential \<Rightarrow> string \<Rightarrow> string" where
  "client_secret c cred clientID =
     (let clientSecret = trimmed cred ''client_secret''
      in if clientSecret = [] \<and> clientID = mc_ClientID c then mc_ClientSecret c else clientSecret)"

definition ms_RefreshCredential ::
  "mail_net \<Rightarrow> nat \<Rightarrow> time \<Rightarrow> MicrosoftConfig \<Rightarrow> credential \<Rightarrow> string + (credential \<times> time)" where
  "ms_RefreshCredential net n now c cred =
     (let clientID = or_default (trimmed cred ''client_id'') (mc_ClientID c);
          refreshToken = trimmed cred ''refresh_token''
      in if clientID = [] \<or> refreshToken = [] then Inl msg_ms_no_client_or_refresh
         else tokenForTenant net n now (or_default (trimmed cred ''tenant'') (mc_Tenant c))
                (refreshTokenValues clientID refreshToken (client_secret c cred clientID)))"

definition microsoftIMAPOAuthScope :: string where
  "microsoftIMAPOAuthScope = ''https://outlook.office.com/IMAP.AccessAsUser.All offline_access''"

definition ms_RefreshIMAPCredential ::
  "mail_net \<Rightarrow> nat \<Rightarrow> time \<Rightarrow> MicrosoftConfig \<Rightarrow> credential \<Rightarrow> string + (credential \<times> time)" where
  "ms_RefreshIMAPCredential net n now c cred =
     (let clientID = or_default (trimmed cred ''client_id'') (mc_ClientID c);
          refreshToken = trimmed cred ''refresh_token''
      in if clientID = [] then Inl msg_ms_imap_no_client
         else if refreshToken = []
         then (let accessToken = trimmed cred ''access_token''
               in if accessToken = [] then Inl msg_ms_imap_no_token
                  else Inr ([''access_token'' \<mapsto> accessToken], cfg_time (trimmed cred ''expires_at'')))
         else let vs = values_set (refreshTokenValues clientID refreshToken (client_secret c cred clientID)) ''scope''
                    (or_default (trimmed cred ''oauth_scope'') microsoftIMAPOAuthScope);
                  tenant = or_default (or_default (trimmed cred ''oauth_tenant'') (trimmed cred ''tenant'')) ''consumers''
              in tokenForTenant net n now tenant vs)"

definition ms_Profile :: "mail_net \<Rightarrow> nat \<Rightarrow> MicrosoftConfig \<Rightarrow> string \<Rightarrow> string + string" where
  "ms_Profile net n c accessToken =
     (case nt_do net n (Get (mc_GraphBaseURL c @ ''/me?$select=mail,userPrincipalName'') accessToken) of
        Inl e \<Rightarrow> Inl e
      | Inr (status, body) \<Rightarrow>
        if status \<noteq> 200 then Inl (msg_ms_user_status @ int_digits status)
        else case nt_json_profile net body of
            Inl e \<Rightarrow> Inl e
          | Inr (mail, userPrincipalName) \<Rightarrow>
            let address = or_default mail userPrincipalName
            in if address = [] then Inl msg_ms_no_address else Inr (to_lower address))"

definition graph_message :: "graph_item \<Rightarrow> Message" where
  "graph_message item =
     \<lparr> ml_ID = gi_ID item, ml_Sender = to_lower (gi_Address item), ml_Subject = gi_Subject item,
       ml_BodyPreview = gi_BodyPreview item, ml_Body = gi_Content item, ml_BodyType = to_lower (gi_ContentType item),
       ml_ReceivedAt = cfg_time (gi_Received item) \<rparr>"

definition messagesPage :: "mail_net \<Rightarrow> nat \<Rightarrow> string \<Rightarrow> string \<Rightarrow> string + (Message list \<times> string)" where
  "messagesPage net n accessToken endpoint =
     (case nt_do net n (Get endpoint accessToken) of
        Inl e \<Rightarrow> Inl e
      | Inr (status, body) \<Rightarrow>
        if status \<noteq> 200 then Inl (msg_ms_mail_status @ int_digits status)
        else case nt_json_messages net body of
            Inl e \<Rightarrow> Inl e
          | Inr (nextLink, items) \<Rightarrow> Inr (map graph_message items, nextLink))"

definition ms_Messages :: "mail_net \<Rightarrow> nat \<Rightarrow> MicrosoftConfig \<Rightarrow> string \<Rightarrow> string + Message list" where
  "ms_Messages net n c accessToken =
     (case messagesPage net n accessToken (mc_GraphBaseURL c @ ''/me/mailFolders/inbox/messages?$top=25&$select=id,subject,from,receivedDateTime,bodyPreview&$orderby=receivedDateTime%20desc'') of
        Inl e \<Rightarrow> Inl e | Inr (messages, _) \<Rightarrow> Inr messages)"

text \<open>The loop along the next links, which need not end: \<open>None\<close> stands for not returning.\<close>

partial_function (option) message_pages ::
  "mail_net \<Rightarrow> nat \<Rightarrow> string \<Rightarrow> Message list \<Rightarrow> string \<Rightarrow> (string + Message list) option" where
  "message_pages net n accessToken messages endpoint =
     (if length messages < 1000 \<and> endpoint \<noteq> []
      then (case messagesPage net n accessToken endpoint of
          Inl e \<Rightarrow> Some (Inl e)
        | Inr (page, next) \<Rightarrow> message_pages net (n + 1) accessToken (messages @ page) next)
      else Some (Inr messages))"

definition ms_AllMessages :: "mail_net \<Rightarrow> nat \<Rightarrow> MicrosoftConfig \<Rightarrow> string \<Rightarrow> (string + Message list) option" where
  "ms_AllMessages net n c accessToken =
     (case message_pages net n accessToken [] (mc_GraphBaseURL c @ ''/me/mailFolders/inbox/messages?$top=100&$select=id,subject,from,receivedDateTime,bodyPreview,body&$orderby=receivedDateTime%20desc'') of
        Some (Inr messages) \<Rightarrow> Some (Inr (if length messages > 1000 then take 1000 messages else messages))
      | r \<Rightarrow> r)"

subsection \<open>Google\<close>

record GoogleConfig =
  gc_ClientID :: string
  gc_ClientSecret :: string
  gc_RedirectURI :: string
  gc_AuthorizationURL :: string
  gc_TokenURL :: string
  gc_UserInfoURL :: string

text \<open>\<open>None\<close> is the nil client.  The constructor and the later change of the configuration fill in the same addresses.\<close>

definition google_defaults :: "GoogleConfig \<Rightarrow> GoogleConfig" where
  "google_defaults config =
     config\<lparr>gc_AuthorizationURL := or_default (gc_AuthorizationURL config) ''https://accounts.google.com/o/oauth2/v2/auth'',
       gc_TokenURL := or_default (gc_TokenURL config) ''https://oauth2.googleapis.com/token'',
       gc_UserInfoURL := or_default (gc_UserInfoURL config) ''https://openidconnect.googleapis.com/v1/userinfo''\<rparr>"

definition NewGoogleClient :: "GoogleConfig \<Rightarrow> GoogleConfig option" where
  "NewGoogleClient config = Some (google_defaults config)"

definition google_Configure :: "GoogleConfig \<Rightarrow> GoogleConfig option \<Rightarrow> GoogleConfig option" where
  "google_Configure config c = (case c of None \<Rightarrow> None | Some _ \<Rightarrow> Some (google_defaults config))"

definition configSnapshot :: "GoogleConfig option \<Rightarrow> GoogleConfig" where
  "configSnapshot c = (case c of
      None \<Rightarrow> \<lparr> gc_ClientID = [], gc_ClientSecret = [], gc_RedirectURI = [], gc_AuthorizationURL = [], gc_TokenURL = [],
        gc_UserInfoURL = [] \<rparr>
    | Some config \<Rightarrow> config)"

definition google_Enabled :: "GoogleConfig option \<Rightarrow> bool" where
  "google_Enabled c = (case c of None \<Rightarrow> False
     | Some config \<Rightarrow> gc_ClientID config \<noteq> [] \<and> gc_ClientSecret config \<noteq> [] \<and> gc_RedirectURI config \<noteq> [])"

definition google_ConfigSummary :: "GoogleConfig option \<Rightarrow> string \<times> string \<times> bool" where
  "google_ConfigSummary c = (case c of None \<Rightarrow> ([], [], False)
     | Some config \<Rightarrow> (gc_ClientID config, gc_RedirectURI config,
         gc_ClientID config \<noteq> [] \<and> gc_ClientSecret config \<noteq> [] \<and> gc_RedirectURI config \<noteq> []))"

definition google_AuthURL :: "GoogleConfig option \<Rightarrow> string \<Rightarrow> string" where
  "google_AuthURL c state =
     (let config = configSnapshot c
      in gc_AuthorizationURL config @ ''?'' @ values_encode [(''client_id'', [gc_ClientID config]),
           (''redirect_uri'', [gc_RedirectURI config]), (''response_type'', [''code'']),
           (''scope'', [''openid email profile https://mail.google.com/'']), (''access_type'', [''offline'']),
           (''prompt'', [''consent'']), (''include_granted_scopes'', [''true'']), (''state'', [state])])"

definition google_token :: "mail_net \<Rightarrow> nat \<Rightarrow> time \<Rightarrow> GoogleConfig option \<Rightarrow> url_values \<Rightarrow> string + (credential \<times> time)" where
  "google_token net n now c vs =
     (let config = configSnapshot c
      in if gc_TokenURL config = [] then Inl msg_google_unconfigured
         else case nt_do net n (Post (gc_TokenURL config) (values_encode vs)) of
             Inl e \<Rightarrow> Inl e
           | Inr (status, body) \<Rightarrow>
             if status \<noteq> 200 then Inl (msg_google_token_status @ int_digits status @ msg_colon @ trim_space body)
             else case nt_json_token net body of
                 None \<Rightarrow> Inl msg_google_token_invalid
               | Some (accessToken, refreshToken, expiresIn) \<Rightarrow>
                 if trim_space accessToken = [] then Inl msg_google_token_invalid
                 else let validUntil = now + expiresIn * second;
                          cred = [''access_token'' \<mapsto> accessToken, ''expires_at'' \<mapsto> format_rfc3339 validUntil]
                      in Inr (if refreshToken \<noteq> [] then cred(''refresh_token'' \<mapsto> refreshToken) else cred, validUntil))"

definition google_Exchange :: "mail_net \<Rightarrow> nat \<Rightarrow> time \<Rightarrow> GoogleConfig option \<Rightarrow> string \<Rightarrow> string + (credential \<times> time)" where
  "google_Exchange net n now c code =
     (let config = configSnapshot c
      in google_token net n now c [(''client_id'', [gc_ClientID config]), (''client_secret'', [gc_ClientSecret config]),
           (''code'', [code]), (''grant_type'', [''authorization_code'']), (''redirect_uri'', [gc_RedirectURI config])])"

definition google_RefreshCredential ::
  "mail_net \<Rightarrow> nat \<Rightarrow> time \<Rightarrow> GoogleConfig option \<Rightarrow> credential \<Rightarrow> string + (credential \<times> time)" where
  "google_RefreshCredential net n now c cred =
     (let refreshToken = trimmed cred ''refresh_token''; config = configSnapshot c
      in if c = None \<or> trim_space refreshToken = [] then Inl msg_google_no_refresh
         else if gc_ClientID config = [] \<or> gc_ClientSecret config = [] then Inl msg_google_unconfigured
         else google_token net n now c [(''client_id'', [gc_ClientID config]), (''client_secret'', [gc_ClientSecret config]),
                (''grant_type'', [''refresh_token'']), (''refresh_token'', [refreshToken])])"

definition google_Profile :: "mail_net \<Rightarrow> nat \<Rightarrow> GoogleConfig option \<Rightarrow> string \<Rightarrow> string + string" where
  "google_Profile net n c accessToken =
     (if trim_space accessToken = [] then Inl msg_google_no_access
      else case nt_do net n (Get (gc_UserInfoURL (configSnapshot c)) accessToken) of
          Inl e \<Rightarrow> Inl e
        | Inr (status, body) \<Rightarrow>
          if status \<noteq> 200 then Inl (msg_google_user_status @ int_digits status @ msg_colon @ trim_space body)
          else case nt_json_userinfo net body of
              None \<Rightarrow> Inl msg_google_user_invalid
            | Some (email, verified) \<Rightarrow>
              if trim_space email = [] then Inl msg_google_user_invalid
              else if \<not> verified then Inl msg_google_unverified
              else Inr (to_lower (trim_space email)))"

end
