(* ===== verification/Imap.thy ===== *)
theory Imap
  imports OAuth_Clients
begin

text \<open>
  Reading an inbox over IMAP, the connector of \<^verbatim>\<open>internal/mail/verification.go\<close>: the choice of the range of
  messages, the conversion of what the server sends, the order of the result, and the choice of a body among the MIME parts.
  The server is the argument \<open>server\<close>: what it answers to the connection, to a login, to the selection of the inbox and to the
  fetch of a range.  \<open>mime\<close> splits a raw message into the media type and content of its inline parts, in their order; \<open>None\<close>
  when the message cannot be read at all.
\<close>

record imap_item =
  it_Envelope :: bool
  it_From :: "string list"
  it_Subject :: string
  it_Date :: time
  it_MessageID :: string
  it_InternalDate :: time
  it_UID :: nat
  it_Section :: string

record imap_server =
  sv_dial :: "imapEndpoint \<Rightarrow> string option"
  sv_login :: "imap_login \<Rightarrow> string option"
  sv_select :: "string + nat"
  sv_fetch :: "nat \<Rightarrow> nat \<Rightarrow> string + imap_item list"

type_synonym mime = "string \<Rightarrow> (string \<times> string) list option"

definition first_part :: "string \<Rightarrow> (string \<times> string) list \<Rightarrow> string" where
  "first_part mediaType parts = (case filter (\<lambda>c. c \<noteq> []) (map (trim_space \<circ> snd) (filter (\<lambda>(t, _). to_lower t = mediaType) parts)) of
     [] \<Rightarrow> [] | c # _ \<Rightarrow> c)"

definition parseMIMEMessage :: "mime \<Rightarrow> string \<Rightarrow> string \<times> string \<times> string" where
  "parseMIMEMessage mime raw =
     (if raw = [] then ([], [], [])
      else case mime raw of
          None \<Rightarrow> (raw, raw, ''text'')
        | Some parts \<Rightarrow>
          let htmlBody = first_part ''text/html'' parts; plainBody = first_part ''text/plain'' parts
          in if htmlBody \<noteq> [] then (htmlBody, plainBody, ''html'')
             else if plainBody \<noteq> [] then (plainBody, plainBody, ''text'')
             else (raw, raw, ''text''))"

definition imap_message :: "mime \<Rightarrow> imap_item \<Rightarrow> Message" where
  "imap_message mime item =
     (let (body, preview, bodyType) = parseMIMEMessage mime (it_Section item)
      in \<lparr> ml_ID = (if it_MessageID item = [] then ''imap-'' @ nat_digits (it_UID item) else it_MessageID item),
           ml_Sender = (case it_From item of [] \<Rightarrow> [] | a # _ \<Rightarrow> to_lower a), ml_Subject = it_Subject item,
           ml_BodyPreview = preview, ml_Body = body, ml_BodyType = bodyType,
           ml_ReceivedAt = (if is_zero (it_InternalDate item) then it_Date item else it_InternalDate item) \<rparr>)"

text \<open>The first number of the range of the last \<open>limit\<close> messages.\<close>

definition fetch_start :: "nat \<Rightarrow> nat \<Rightarrow> nat" where
  "fetch_start limit messages = (if limit < messages then messages - limit + 1 else 1)"

definition imap_messages :: "mime \<Rightarrow> imap_server \<Rightarrow> nat \<Rightarrow> string \<Rightarrow> credential \<Rightarrow> string + Message list" where
  "imap_messages mime server limit0 address credential =
     (case imap_connect (sv_dial server) (sv_login server) address credential of
        Some e \<Rightarrow> Inl e
      | None \<Rightarrow> (case sv_select server of
          Inl e \<Rightarrow> Inl (msg_inbox_failure_prefix @ e)
        | Inr messages \<Rightarrow>
          if messages = 0 then Inr []
          else let limit = (if limit0 < 1 then 25 else limit0)
            in case sv_fetch server (fetch_start limit messages) messages of
                 Inl e \<Rightarrow> Inl (msg_read_inbox_failed @ e)
               | Inr items \<Rightarrow> Inr (sort_key (\<lambda>m. - ml_ReceivedAt m)
                   (map (imap_message mime) (filter it_Envelope items)))))"

definition imap_Messages :: "mime \<Rightarrow> imap_server \<Rightarrow> string \<Rightarrow> credential \<Rightarrow> string + Message list" where
  "imap_Messages mime server address credential = imap_messages mime server 25 address credential"

definition imap_AllMessages :: "mime \<Rightarrow> imap_server \<Rightarrow> string \<Rightarrow> credential \<Rightarrow> string + Message list" where
  "imap_AllMessages mime server address credential = imap_messages mime server 1000 address credential"

definition imap_Verify :: "imap_server \<Rightarrow> string \<Rightarrow> credential \<Rightarrow> string option" where
  "imap_Verify server address credential =
     (case imap_connect (sv_dial server) (sv_login server) address credential of
        Some e \<Rightarrow> Some e
      | None \<Rightarrow> (case sv_select server of Inl e \<Rightarrow> Some (msg_inbox_failure_prefix @ e) | Inr _ \<Rightarrow> None))"

text \<open>The fetched range is the end of the inbox, never longer than the limit.\<close>

lemma fetch_range:
  assumes "0 < messages" and "0 < limit"
  shows "1 \<le> fetch_start limit messages" and "fetch_start limit messages \<le> messages"
    and "messages + 1 - fetch_start limit messages = min limit messages"
  using assms by (auto simp: fetch_start_def)

end
