(* ===== verification/Mail_Matching.thy ===== *)
theory Mail_Matching
  imports OAuth_Clients Mailboxes
begin

text \<open>
  Which mail belongs to which order, \<^verbatim>\<open>internal/mail/microsoft.go\<close>: the rules of a platform (the domains of its senders,
  words of its subjects, the pattern of its codes), the window of an order, and what the worker does with
  the messages of an inbox.  \<open>regex\<close> compiles a pattern and returns the groups of its first match, \<open>None\<close> for a
  malformed pattern and \<open>[]\<close> without a match.
\<close>

type_synonym regex = "string \<Rightarrow> (string \<Rightarrow> string list) option"

subsection \<open>Rules of a platform\<close>

definition sender_allowed :: "Service \<Rightarrow> string \<Rightarrow> bool" where
  "sender_allowed service sender \<longleftrightarrow>
     (\<exists>d\<in>set (svc_SenderDomains service). let domainName = to_lower (trim_space d)
        in domainName \<noteq> [] \<and> (has_suffix sender (''@'' @ domainName) \<or> has_suffix sender (''.'' @ domainName)))"

definition MessageMatchesService :: "Service \<Rightarrow> Message \<Rightarrow> bool" where
  "MessageMatchesService service message =
     (if \<not> sender_allowed service (to_lower (trim_space (ml_Sender message))) then False
      else \<exists>w\<in>set (svc_SubjectKeywords service). let keyword = to_lower (trim_space w)
        in keyword \<noteq> [] \<and> str_contains (to_lower (ml_Subject message)) keyword)"

definition message_text :: "Message \<Rightarrow> string" where
  "message_text message =
     (let body = (if ml_Body message \<noteq> [] \<and> ml_Body message \<noteq> ml_BodyPreview message
                  then ml_BodyPreview message @ [CHR 0x0A] @ ml_Body message else ml_BodyPreview message)
      in ml_Subject message @ [CHR 0x0A] @ body)"

definition matchCode :: "regex \<Rightarrow> Service \<Rightarrow> Message \<Rightarrow> string option" where
  "matchCode regex service message =
     (if \<not> MessageMatchesService service message then None
      else case regex (svc_Regex service) of
          None \<Rightarrow> None
        | Some find_groups \<Rightarrow>
          (case find_groups (message_text message) of
             [] \<Rightarrow> None | [whole] \<Rightarrow> Some whole | _ # first # _ \<Rightarrow> Some first))"

definition order_window :: "Order \<Rightarrow> Message \<Rightarrow> bool" where
  "order_window order message =
     (let start0 = (if is_zero (ord_AssignedAt order) then ord_CreatedAt order else ord_AssignedAt order);
          start = (if is_zero start0 then start0 else start0 - minute)
      in \<not> is_zero (ml_ReceivedAt message)
         \<and> \<not> (\<not> is_zero start \<and> ml_ReceivedAt message < start)
         \<and> \<not> (\<not> is_zero (ord_ExpiresAt order) \<and> ml_ReceivedAt message > ord_ExpiresAt order))"

definition FilterMessagesForOrder :: "Service \<Rightarrow> Order \<Rightarrow> Message list \<Rightarrow> Message list" where
  "FilterMessagesForOrder service order messages =
     filter (\<lambda>message. order_window order message \<and> MessageMatchesService service message) messages"

subsection \<open>The messages of an inbox\<close>

text \<open>An order listens from a minute before its mailbox was assigned.\<close>

definition listening :: "Message \<Rightarrow> Order \<Rightarrow> bool" where
  "listening message order =
     (let started = (if is_zero (ord_AssignedAt order) then ord_SubmittedAt order else ord_AssignedAt order)
      in \<not> (\<not> is_zero started \<and> ml_ReceivedAt message < started - minute))"

text \<open>One message against the orders it may belong to.  The result tells whether a rule matched and whether a code was
  handed over; \<open>envs n\<close> is the environment of the \<open>n\<close>-th call of the store.\<close>

fun deliver_message :: "regex \<Rightarrow> (nat \<Rightarrow> env) \<Rightarrow> nat \<Rightarrow> Message \<Rightarrow> Order list \<Rightarrow> bool \<Rightarrow> db \<Rightarrow> bool \<times> bool \<times> db" where
  "deliver_message regex envs n message [] matched db = (matched, False, db)"
| "deliver_message regex envs n message (order # orders) matched db =
     (case ServiceByID (envs n) (ord_ServiceID order) db of
        None \<Rightarrow> deliver_message regex envs (n + 2) message orders matched db
      | Some service \<Rightarrow>
        (case matchCode regex service message of
           None \<Rightarrow> deliver_message regex envs (n + 2) message orders matched db
         | Some code \<Rightarrow>
           (case run_tx (ReceiveCodeValue (envs (n + 1)) (ord_ID order) code) db of
              (Inl _, db') \<Rightarrow> deliver_message regex envs (n + 2) message orders True db'
            | (Inr _, db') \<Rightarrow> (True, True, db'))))"

definition process_message :: "regex \<Rightarrow> (nat \<Rightarrow> env) \<Rightarrow> string \<Rightarrow> Order list \<Rightarrow> Message \<Rightarrow> db \<Rightarrow> db" where
  "process_message regex envs mailboxID orders message db =
     (let messageOrders = filter (listening message) orders
      in if messageOrders = [] then db
         else case deliver_message regex envs 1 message messageOrders False db of
             (matched, received, db') \<Rightarrow>
               if received \<or> \<not> matched
               then snd (MarkMailEvent (envs 0) mailboxID (ml_ID message) (ml_Sender message) (ml_Subject message)
                      (ml_ReceivedAt message) db')
               else db')"

fun process_messages :: "regex \<Rightarrow> (nat \<Rightarrow> nat \<Rightarrow> env) \<Rightarrow> nat \<Rightarrow> string \<Rightarrow> Order list \<Rightarrow> Message list \<Rightarrow> db \<Rightarrow> db" where
  "process_messages regex envs k mailboxID orders [] db = db"
| "process_messages regex envs k mailboxID orders (message # messages) db =
     process_messages regex envs (k + 1) mailboxID orders messages
       (process_message regex (envs k) mailboxID orders message db)"


subsection \<open>Where a code comes from\<close>

definition code_from :: "regex \<Rightarrow> db \<Rightarrow> Order list \<Rightarrow> Message \<Rightarrow> string \<Rightarrow> string \<Rightarrow> bool" where
  "code_from regex db orders message oid code \<longleftrightarrow>
     (\<exists>order\<in>set orders. ord_ID order = oid \<and> listening message order
        \<and> (\<exists>sv\<in>set (db_services db). sv_ID sv = ord_ServiceID order
             \<and> (\<exists>text. matchCode regex (mapService sv) message = Some text \<and> code = trim_space text)))"

definition explained :: "regex \<Rightarrow> Order list \<Rightarrow> Message set \<Rightarrow> db \<Rightarrow> db \<Rightarrow> bool" where
  "explained regex orders messages db db' \<longleftrightarrow> db_services db' = db_services db
     \<and> (\<forall>r'\<in>set (db_orders db'). r' \<in> set (db_orders db)
          \<or> (\<exists>r\<in>set (db_orders db). o_ID r = o_ID r' \<and> order_open r \<and> o_Status r' = OrderCodeReceived
               \<and> (\<exists>message\<in>messages. code_from regex db orders message (o_ID r') (o_Code r'))))"

lemma explained_refl: "explained regex orders messages db db"
  by (simp add: explained_def)

lemma explained_trans:
  assumes a: "explained regex orders M db db1" and b: "explained regex orders M db1 db2"
  shows "explained regex orders M db db2"
proof -
  have sv: "db_services db1 = db_services db" using a by (simp add: explained_def)
  have "r' \<in> set (db_orders db) \<or> (\<exists>r\<in>set (db_orders db). o_ID r = o_ID r' \<and> order_open r \<and> o_Status r' = OrderCodeReceived
      \<and> (\<exists>message\<in>M. code_from regex db orders message (o_ID r') (o_Code r')))" if r': "r' \<in> set (db_orders db2)" for r'
  proof -
    from b r' consider "r' \<in> set (db_orders db1)"
      | r where "r \<in> set (db_orders db1)" "o_ID r = o_ID r'" "order_open r" "o_Status r' = OrderCodeReceived"
          "\<exists>message\<in>M. code_from regex db1 orders message (o_ID r') (o_Code r')"
      unfolding explained_def by blast
    then show ?thesis
    proof cases
      case 1
      then show ?thesis using a by (simp add: explained_def)
    next
      case 2
      have "r \<in> set (db_orders db)" using a 2(1,3) by (auto simp: explained_def order_open_def)
      then show ?thesis using 2 by (auto simp: code_from_def sv)
    qed
  qed
  then show ?thesis using a b by (simp add: explained_def)
qed

lemma explained_mono: "explained regex orders M db db' \<Longrightarrow> M \<subseteq> N \<Longrightarrow> explained regex orders N db db'"
  unfolding explained_def by blast

lemma receive_explained:
  assumes run: "run_tx (ReceiveCodeValue env (ord_ID order) text) db = (Inr res, db')"
    and order: "order \<in> set orders" "listening message order"
    and sv: "sv \<in> set (db_services db)" "sv_ID sv = ord_ServiceID order" "matchCode regex (mapService sv) message = Some text"
  shows "explained regex orders {message} db db'"
proof -
  from run obtain r where r: "r \<in> set (db_orders db)" "o_ID r = ord_ID order" "order_open r"
    and eq: "same_but_logs (db\<lparr>db_orders := upsert o_ID (receipt (clock env 0) (trim_space text) r) (db_orders db),
            db_mailboxes := upd_rows (\<lambda>m. m_ID m = o_MailboxID r)
              (\<lambda>m. m\<lparr>m_State := MailboxAvailable, m_ActiveOrderID := [],
                     m_TodayCodes := (if received_today env m then m_TodayCodes m + 1 else 1),
                     m_LastReceivedAt := Some (clock env 0), m_UpdatedAt := stamp env 2\<rparr>) (db_mailboxes db),
            db_states := upd_rows (\<lambda>s. ms_key s = order_key r)
              (\<lambda>s. s\<lparr>ms_State := ServiceConsumed, ms_ChangedAt := clock env 0\<rparr>) (db_states db)\<rparr>) db'"
    using tx_okD [OF ReceiveCodeValue_effect] unfolding receipt_def by (simp add: run_tx_ok) blast
  have orders: "db_orders db' = upsert o_ID (receipt (clock env 0) (trim_space text) r) (db_orders db)"
    and services: "db_services db' = db_services db"
    using same_but_logsD(2,7) [OF eq] by simp_all
  have "code_from regex db orders message (ord_ID order) (trim_space text)"
    using order sv by (auto simp: code_from_def)
  then show ?thesis
    using r unfolding explained_def orders services by (auto simp: set_upsert receipt_def)
qed

lemma deliver_explained:
  "deliver_message regex envs n message rest matched db = (m, r, db') \<Longrightarrow> set rest \<subseteq> set orders \<Longrightarrow>
     (\<And>order. order \<in> set rest \<Longrightarrow> listening message order) \<Longrightarrow> explained regex orders {message} db db'"
proof (induction regex envs n message rest matched db rule: deliver_message.induct)
  case (1 regex envs n message matched db)
  then show ?case by (simp add: explained_refl)
next
  case (2 regex envs n message order rest matched db)
  show ?case
  proof (cases "ServiceByID (envs n) (ord_ServiceID order) db")
    case None
    then show ?thesis using 2 by simp
  next
    case found: (Some service)
    then obtain sv where sv: "sv \<in> set (db_services db)" "sv_ID sv = ord_ServiceID order" "service = mapService sv"
      by (auto simp: ServiceByID_def dest: row_find_Some split: if_splits)
    show ?thesis
    proof (cases "matchCode regex service message")
      case None
      then show ?thesis using 2 found by simp
    next
      case (Some code)
      obtain res db1 where run: "run_tx (ReceiveCodeValue (envs (n + 1)) (ord_ID order) code) db = (res, db1)" by fastforce
      show ?thesis
      proof (cases res)
        case (Inl e)
        have "db1 = db" by (rule run_tx_error [OF run [unfolded Inl]])
        then show ?thesis using 2 found Some run Inl by simp
      next
        case (Inr x)
        then have "db' = db1" using 2 found Some run by simp
        then show ?thesis
          using receive_explained [of "envs (n + 1)" order code db x db1 orders message sv regex] run Inr sv Some 2(5) 2(6) [of order] by simp
      qed
    qed
  qed
qed

lemma deliver_failed:
  "deliver_message regex envs n message rest matched db = (m, False, db') \<Longrightarrow> db' = db"
proof (induction regex envs n message rest matched db rule: deliver_message.induct)
  case (2 regex envs n message order rest matched db)
  show ?case
  proof (cases "ServiceByID (envs n) (ord_ServiceID order) db")
    case None
    then show ?thesis using 2 by simp
  next
    case found: (Some service)
    show ?thesis
    proof (cases "matchCode regex service message")
      case None
      then show ?thesis using 2 found by simp
    next
      case (Some code)
      obtain res db1 where run: "run_tx (ReceiveCodeValue (envs (n + 1)) (ord_ID order) code) db = (res, db1)" by fastforce
      then obtain e where e: "res = Inl e" using 2(4) found Some by (cases res) auto
      have "db1 = db" by (rule run_tx_error [OF run [unfolded e]])
      then show ?thesis using 2 found Some run e by simp
    qed
  qed
qed simp

lemma MarkMailEvent_frame:
  "db_orders (snd (MarkMailEvent env mb mid sender subject t db)) = db_orders db
   \<and> db_services (snd (MarkMailEvent env mb mid sender subject t db)) = db_services db"
proof -
  let ?run = "run_tx (create_mail_event env 0 \<lparr> ev_ID = uuid env 0, ev_MailboxID = mb, ev_MessageID = mid,
             ev_Sender = sender, ev_Subject = subject, ev_ReceivedAt = t, ev_CreatedAt = zero_time \<rparr>) db"
  have "(\<lambda>x y. db_orders y = db_orders x \<and> db_services y = db_services x) db (snd ?run)"
    by (rule run_tx_rel, simp, simp add: create_mail_event_def tx_ok_insert)
  moreover have "snd (MarkMailEvent env mb mid sender subject t db) = snd ?run"
    by (cases ?run) (auto simp: MarkMailEvent_def split: sum.splits store_error.splits)
  ultimately show ?thesis by simp
qed

lemma process_message_explained:
  "explained regex orders {message} db (process_message regex envs mb orders message db)"
proof -
  obtain m r db' where run: "deliver_message regex envs 1 message (filter (listening message) orders) False db = (m, r, db')"
    by (metis prod_cases3)
  have "explained regex orders {message} db db'"
    by (rule deliver_explained [OF run]) auto
  then have "explained regex orders {message} db (snd (MarkMailEvent env mb mid sender subject t db'))" for env mid sender subject t
    by (simp add: explained_def MarkMailEvent_frame)
  with \<open>explained regex orders {message} db db'\<close> run show ?thesis
    by (auto simp: process_message_def Let_def explained_refl)
qed

lemma process_messages_explained:
  "explained regex orders (set messages) db (process_messages regex envs k mb orders messages db)"
proof (induction messages arbitrary: k db)
  case Nil
  then show ?case by (simp add: explained_refl)
next
  case (Cons message messages)
  let ?db = "process_message regex (envs k) mb orders message db"
  have "explained regex orders (set (message # messages)) db ?db"
    by (rule explained_mono [OF process_message_explained]) simp
  moreover have "explained regex orders (set (message # messages)) ?db
      (process_messages regex envs (k + 1) mb orders messages ?db)"
    by (rule explained_mono [OF Cons.IH]) auto
  ultimately show ?case using explained_trans by auto
qed

subsection \<open>The leases\<close>

lemma deliver_leases: "lease_ok db \<Longrightarrow> lease_ok (snd (snd (deliver_message regex envs n message rest matched db)))"
proof (induction regex envs n message rest matched db rule: deliver_message.induct)
  case (2 regex envs n message order rest matched db)
  show ?case
  proof (cases "ServiceByID (envs n) (ord_ServiceID order) db")
    case None
    then show ?thesis using 2 by simp
  next
    case found: (Some service)
    show ?thesis
    proof (cases "matchCode regex service message")
      case None
      then show ?thesis using 2 found by simp
    next
      case (Some code)
      obtain res db1 where run: "run_tx (ReceiveCodeValue (envs (n + 1)) (ord_ID order) code) db = (res, db1)" by fastforce
      then have "lease_ok db1" using ReceiveCodeValue_leases [OF 2(4), of "envs (n + 1)" "ord_ID order" code] by simp
      then show ?thesis using 2(3) [OF found Some run [symmetric]] found Some run by (cases res) simp_all
    qed
  qed
qed simp

lemma process_message_leases:
  assumes "lease_ok db"
  shows "lease_ok (process_message regex envs mailboxID orders message db)"
proof -
  have "lease_ok (snd (MarkMailEvent env mb mid sender subject t x))" if "lease_ok x" for env mb mid sender subject t x
    using MarkMailEvent_keeps [of x env mb mid sender subject t] that by (simp add: keeps_def)
  then show ?thesis
    using assms deliver_leases [OF assms, of regex envs 1 message "filter (listening message) orders" False]
    by (auto simp: process_message_def Let_def split: prod.splits)
qed

lemma process_messages_leases:
  "lease_ok db \<Longrightarrow> lease_ok (process_messages regex envs k mailboxID orders messages db)"
  by (induction messages arbitrary: k db) (simp_all add: process_message_leases)

end
