(* ===== verification/Mail_Worker.thy ===== *)
theory Mail_Worker
  imports Imap Mail_Matching
begin

text \<open>
  The worker that watches the mailboxes of open orders, \<^verbatim>\<open>internal/mail/microsoft.go\<close>: refreshing a token, reading the
  inbox over Graph or IMAP, the two fallbacks to a password, recording the outcome with the mailbox, handing the codes over.
  \<open>out p\<close> is what the outside does at the call with the path \<open>p\<close>: the environment of a store call, the network and the IMAP
  server.  The worker polls the mailboxes of a page at the same time and waits for all of them; here one follows the other.
\<close>

record outside =
  o_env :: env
  o_net :: mail_net
  o_imap :: imap_server

type_synonym calls = "nat list \<Rightarrow> outside"

text \<open>What does not change between calls: the cryptography of the store, the regular expressions, the MIME reader and the
  texts of the store's errors.\<close>

record mail_lib =
  ml_crypto :: crypto
  ml_regex :: regex
  ml_mime :: mime
  ml_text :: "store_error \<Rightarrow> string"

definition save_credential ::
  "mail_lib \<Rightarrow> env \<Rightarrow> string \<Rightarrow> string \<Rightarrow> credential \<Rightarrow> time \<Rightarrow> string \<Rightarrow> db \<Rightarrow> string option \<times> db" where
  "save_credential lib env actorID mailboxID cred validUntil ip db =
     (case run_tx (UpdateMailboxCredential (ml_crypto lib) env actorID mailboxID cred validUntil ip) db of
        (Inl e, db') \<Rightarrow> (Some (ml_text lib e), db')
      | (Inr _, db') \<Rightarrow> (None, db'))"

subsection \<open>Polling one mailbox\<close>

text \<open>The state of a poll between its stages.\<close>

record poll =
  p_cred :: credential
  p_until :: time
  p_graphErr :: "string option"
  p_messageErr :: "string option"
  p_messages :: "Message list"
  p_useIMAP :: bool
  p_db :: db

text \<open>Refreshing the token with one of the client's two functions; \<open>keep\<close> tells whether an error of saving it is kept.\<close>

definition poll_refresh ::
  "mail_lib \<Rightarrow> outside \<Rightarrow> string \<Rightarrow> (credential \<Rightarrow> string + (credential \<times> time)) \<Rightarrow> credential \<Rightarrow> poll \<Rightarrow> string option \<times> poll" where
  "poll_refresh lib out mailboxID refresh asked p =
     (case refresh asked of
        Inl e \<Rightarrow> (Some e, p)
      | Inr (refreshed, newValidUntil) \<Rightarrow>
        let cred = mergeCredential (p_cred p) refreshed;
            (saveErr, db') = save_credential lib (o_env out) ''system'' mailboxID cred newValidUntil [] (p_db p)
        in (saveErr, p\<lparr>p_cred := cred, p_until := newValidUntil, p_db := db'\<rparr>))"

definition poll_token ::
  "mail_lib \<Rightarrow> outside \<Rightarrow> MicrosoftConfig option \<Rightarrow> MailboxCredential \<Rightarrow> poll \<Rightarrow> poll" where
  "poll_token lib out client mailbox p =
     (let box = mc_Mailbox mailbox; cred = p_cred p; now = clock (o_env out) 0;
          stale = cfg cred ''refresh_token'' \<noteq> [] \<and> (cfg cred ''access_token'' = [] \<or> p_until p - now < 5 * minute)
      in if p_useIMAP p \<and> isMicrosoftIMAPOAuth box cred
         then (if \<not> stale then p
               else case client of
                   None \<Rightarrow> p\<lparr>p_messageErr := Some msg_no_imap_client\<rparr>
                 | Some c \<Rightarrow>
                   let (err, p') = poll_refresh lib out (mbx_ID box) (ms_RefreshIMAPCredential (o_net out) 0 (clock (o_env out) 1) c)
                         (credentialForIMAPOAuth cred) p
                   in p'\<lparr>p_messageErr := err\<rparr>)
         else if supportsMicrosoftGraph box \<and> \<not> p_useIMAP p \<and> stale
         then (case client of
                 None \<Rightarrow> p\<lparr>p_graphErr := Some msg_no_graph_client\<rparr>
               | Some c \<Rightarrow>
                 (case ms_RefreshCredential (o_net out) 0 (clock (o_env out) 1) c cred of
                    Inl e \<Rightarrow> p\<lparr>p_graphErr := Some e\<rparr>
                  | Inr _ \<Rightarrow> snd (poll_refresh lib out (mbx_ID box) (ms_RefreshCredential (o_net out) 0 (clock (o_env out) 1) c) cred p)))
         else p)"

definition read_result :: "string + Message list \<Rightarrow> poll \<Rightarrow> poll" where
  "read_result r p = (case r of
      Inl e \<Rightarrow> p\<lparr>p_messageErr := Some e, p_messages := []\<rparr>
    | Inr messages \<Rightarrow> p\<lparr>p_messageErr := None, p_messages := messages\<rparr>)"

definition poll_inbox ::
  "mail_lib \<Rightarrow> outside \<Rightarrow> MicrosoftConfig option \<Rightarrow> MailboxCredential \<Rightarrow> bool \<Rightarrow> poll \<Rightarrow> poll" where
  "poll_inbox lib out client mailbox imapOAuth p =
     (let box = mc_Mailbox mailbox; cred = p_cred p;
          imapCredential = (if imapOAuth then cred else credentialForIMAPFallback cred)
      in if p_messageErr p = None \<and> p_useIMAP p
         then (if supportsMicrosoftGraph box \<and> p_graphErr p \<noteq> None \<and> cfg cred ''password'' = []
               then p\<lparr>p_messageErr := p_graphErr p\<rparr>
               else read_result (imap_Messages (ml_mime lib) (o_imap out) (mbx_Address box) imapCredential) p)
         else if p_messageErr p = None \<and> p_graphErr p \<noteq> None then p\<lparr>p_messageErr := p_graphErr p\<rparr>
         else if p_messageErr p = None
         then (case client of
                 None \<Rightarrow> p\<lparr>p_messageErr := Some msg_missing_graph\<rparr>
               | Some c \<Rightarrow>
                 if cfg cred ''access_token'' = [] then p\<lparr>p_messageErr := Some msg_missing_graph\<rparr>
                 else read_result (ms_Messages (o_net out) 0 c (cfg cred ''access_token'')) p)
         else p)"

definition both_errors :: "string option \<Rightarrow> string \<Rightarrow> string" where
  "both_errors err passwordErr =
     msg_oauth_prefix @ (case err of None \<Rightarrow> ''<nil>'' | Some e \<Rightarrow> e) @ msg_password_infix @ passwordErr"

text \<open>A mailbox with both an OAuth token for IMAP and a password: the password is tried when the token failed, and remembered
  when it worked.\<close>

definition poll_password :: "mail_lib \<Rightarrow> outside \<Rightarrow> MailboxCredential \<Rightarrow> bool \<Rightarrow> poll \<Rightarrow> poll" where
  "poll_password lib out mailbox imapOAuth p =
     (let box = mc_Mailbox mailbox; cred = p_cred p
      in if p_messageErr p \<noteq> None \<and> p_useIMAP p \<and> imapOAuth \<and> trimmed cred ''password'' \<noteq> []
         then (case imap_Messages (ml_mime lib) (o_imap out) (mbx_Address box) (credentialForIMAPFallback cred) of
                 Inl e \<Rightarrow> p\<lparr>p_messageErr := Some (both_errors (p_messageErr p) e)\<rparr>
               | Inr messages \<Rightarrow>
                 let updated = (cloneCredential cred)(''imap_auth_method'' \<mapsto> ''password'');
                     (saveErr, db') = save_credential lib (o_env out) ''system'' (mbx_ID box) updated (p_until p) [] (p_db p)
                 in case saveErr of
                      Some e \<Rightarrow> p\<lparr>p_messageErr := Some e, p_db := db'\<rparr>
                    | None \<Rightarrow> p\<lparr>p_cred := updated, p_messages := messages, p_messageErr := None, p_db := db'\<rparr>)
         else p)"

text \<open>The fallback from Graph to IMAP, as it is written.\<close>

definition poll_fallback ::
  "mail_lib \<Rightarrow> outside \<Rightarrow> MicrosoftConfig option \<Rightarrow> MailboxCredential \<Rightarrow> bool \<Rightarrow> poll \<Rightarrow> poll" where
  "poll_fallback lib out client mailbox imapOAuth p =
     (let box = mc_Mailbox mailbox
      in if p_messageErr p \<noteq> None \<and> \<not> p_useIMAP p \<and> (cfg (p_cred p) ''password'' \<noteq> [] \<or> imapOAuth)
         then let p = p\<lparr>p_useIMAP := True\<rparr>;
                  imapCredential = credentialForIMAPFallback (p_cred p);
                  (imapCredential, p) =
                    (if \<not> imapOAuth then (imapCredential, p)
                     else case client of
                         None \<Rightarrow> (imapCredential, p\<lparr>p_messageErr := Some msg_no_imap_client\<rparr>)
                       | Some c \<Rightarrow>
                         let r = ms_RefreshIMAPCredential (o_net out) 0 (clock (o_env out) 1) c;
                             asked = credentialForIMAPOAuth (p_cred p);
                             (err, p') = poll_refresh lib out (mbx_ID box) r asked p
                         in (if is_ok (r asked) then p_cred p' else imapCredential, p'\<lparr>p_messageErr := err\<rparr>))
              in if p_messageErr p = None
                 then read_result (imap_Messages (ml_mime lib) (o_imap out) (mbx_Address box) imapCredential) p
                 else p
         else p)"

definition set_verification :: "env \<Rightarrow> string \<Rightarrow> string \<Rightarrow> string \<Rightarrow> string \<Rightarrow> db \<Rightarrow> db" where
  "set_verification env mailboxID connection status err db =
     snd (run_tx (UpdateMailboxVerification env ''system'' mailboxID connection status err (clock env 0) []) db)"

definition poll_outcome :: "mail_lib \<Rightarrow> calls \<Rightarrow> MailboxCredential \<Rightarrow> Order list \<Rightarrow> poll \<Rightarrow> db" where
  "poll_outcome lib out mailbox orders p =
     (let box = mc_Mailbox mailbox
      in case p_messageErr p of
           Some _ \<Rightarrow>
             (if p_useIMAP p
              then set_verification (o_env (out [5])) (mbx_ID box) MailboxConnectionIMAP MailboxVerificationFailed
                     (compactIMAPError (p_messageErr p)) (p_db p)
              else set_verification (o_env (out [5])) (mbx_ID box) MailboxConnectionMicrosoftGraph MailboxVerificationFailed
                     (compactGraphError (p_messageErr p)) (p_db p))
         | None \<Rightarrow>
             process_messages (ml_regex lib) (\<lambda>k n. o_env (out [6, k, n])) 0 (mbx_ID box) orders (p_messages p)
               (if supportsMicrosoftGraph box \<and> p_useIMAP p
                then set_verification (o_env (out [5])) (mbx_ID box) MailboxConnectionIMAP MailboxVerificationVerified [] (p_db p)
                else p_db p))"

definition poll_start :: "MailboxCredential \<Rightarrow> db \<Rightarrow> poll" where
  "poll_start mailbox db =
     (let box = mc_Mailbox mailbox; cred = mc_Config mailbox; validUntil = cfg_time (cfg cred ''expires_at'')
      in \<lparr> p_cred = cred, p_until = (if is_zero validUntil then mbx_OAuthValidUntil box else validUntil),
           p_graphErr = None, p_messageErr = None, p_messages = [],
           p_useIMAP = (\<not> supportsMicrosoftGraph box \<or> mbx_ConnectionMethod box = MailboxConnectionIMAP
             \<or> isMicrosoftIMAPOAuth box cred \<or> isMicrosoftIMAPPassword box cred),
           p_db = db \<rparr>)"

text \<open>The stages that read the inbox, and the poll of a mailbox.\<close>

definition poll_read :: "mail_lib \<Rightarrow> calls \<Rightarrow> MicrosoftConfig option \<Rightarrow> MailboxCredential \<Rightarrow> db \<Rightarrow> poll" where
  "poll_read lib out client mailbox db =
     (let imapOAuth = isMicrosoftIMAPOAuth (mc_Mailbox mailbox) (mc_Config mailbox)
      in poll_fallback lib (out [4]) client mailbox imapOAuth
           (poll_password lib (out [3]) mailbox imapOAuth
             (poll_inbox lib (out [2]) client mailbox imapOAuth
               (poll_token lib (out [1]) client mailbox (poll_start mailbox db)))))"

definition pollMailbox :: "mail_lib \<Rightarrow> calls \<Rightarrow> MicrosoftConfig option \<Rightarrow> MailboxCredential \<Rightarrow> db \<Rightarrow> db" where
  "pollMailbox lib out client mailbox db =
     (let orders = WaitingOrdersForMailbox (o_env (out [0])) (mbx_ID (mc_Mailbox mailbox)) db
      in if orders = [] then db else poll_outcome lib out mailbox orders (poll_read lib out client mailbox db))"

subsection \<open>A round over all mailboxes\<close>

fun poll_each :: "mail_lib \<Rightarrow> calls \<Rightarrow> MicrosoftConfig option \<Rightarrow> nat \<Rightarrow> MailboxCredential list \<Rightarrow> db \<Rightarrow> db" where
  "poll_each lib out client k [] db = db"
| "poll_each lib out client k (mailbox # mailboxes) db =
     poll_each lib out client (k + 1) mailboxes (pollMailbox lib (\<lambda>p. out (k # p)) client mailbox db)"

text \<open>The loop over pages of a hundred; the result has the mailboxes that were polled.\<close>

partial_function (option) poll_pages ::
  "mail_lib \<Rightarrow> calls \<Rightarrow> MicrosoftConfig option \<Rightarrow> nat \<Rightarrow> string \<Rightarrow> string list \<Rightarrow> db \<Rightarrow> (string list \<times> db) option" where
  "poll_pages lib out client k afterID polled db =
     (case ListActiveMailboxCredentialsPage (ml_crypto lib) (o_env (out [k])) afterID 100 db of
        Inl _ \<Rightarrow> Some (polled, db)
      | Inr mailboxes \<Rightarrow>
        let db' = poll_each lib (\<lambda>p. out (k # p)) client 0 mailboxes db;
            polled' = polled @ map (mbx_ID \<circ> mc_Mailbox) mailboxes
        in if length mailboxes < 100 then Some (polled', db')
           else poll_pages lib out client (k + 1) (mbx_ID (mc_Mailbox (last mailboxes))) polled' db')"

definition mail_poll :: "mail_lib \<Rightarrow> calls \<Rightarrow> MicrosoftConfig option \<Rightarrow> db \<Rightarrow> (string list \<times> db) option" where
  "mail_poll lib out client db = poll_pages lib out client 0 [] [] db"

definition poll_interval :: "time \<Rightarrow> time" where
  "poll_interval interval = (if interval < 5 * second then 15 * second else interval)"

definition poll_concurrency :: "int \<Rightarrow> int" where
  "poll_concurrency concurrency = (let c = (if concurrency < 1 then 1 else concurrency) in if c > 128 then 128 else c)"


subsection \<open>What a poll leaves alone\<close>

definition undisturbed :: "db \<Rightarrow> db \<Rightarrow> bool" where
  "undisturbed db db' \<longleftrightarrow> db_orders db' = db_orders db \<and> db_services db' = db_services db \<and> (lease_ok db \<longrightarrow> lease_ok db')"

lemma undisturbed_refl [simp]: "undisturbed db db"
  by (simp add: undisturbed_def)

lemma undisturbed_trans: "undisturbed db db1 \<Longrightarrow> undisturbed db1 db2 \<Longrightarrow> undisturbed db db2"
  by (simp add: undisturbed_def)

lemma save_credential_undisturbed: "undisturbed db (snd (save_credential lib env actorID mailboxID cred validUntil ip db))"
proof -
  let ?run = "run_tx (UpdateMailboxCredential (ml_crypto lib) env actorID mailboxID cred validUntil ip) db"
  have "(\<lambda>x y. db_orders y = db_orders x \<and> db_services y = db_services x) db (snd ?run)"
    by (rule run_tx_rel, simp)
      (auto simp: UpdateMailboxCredential_def update_mailboxes_def tx_ok_option tx_ok_fail tx_ok_then tx_ok_bind tx_ok_get
        tx_ok_guard tx_ok_update create_audit_def tx_ok_insert)
  moreover have "keeps db (snd ?run)" by (rule UpdateMailboxCredential_keeps)
  moreover have "snd (save_credential lib env actorID mailboxID cred validUntil ip db) = snd ?run"
    by (cases ?run) (auto simp: save_credential_def split: sum.splits)
  ultimately show ?thesis by (simp add: undisturbed_def keeps_def)
qed

lemma save_credential_result:
  "save_credential lib env actorID mailboxID cred validUntil ip db = (e, db') \<Longrightarrow> undisturbed db db'"
  using save_credential_undisturbed [of db lib env actorID mailboxID cred validUntil ip] by simp

lemma poll_refresh_undisturbed: "undisturbed (p_db p) (p_db (snd (poll_refresh lib out mailboxID refresh asked p)))"
  by (auto simp: poll_refresh_def Let_def dest: save_credential_result split: sum.splits prod.splits)

lemma poll_refresh_result:
  "poll_refresh lib out mailboxID refresh asked p = (e, p') \<Longrightarrow> undisturbed (p_db p) (p_db p')"
  using poll_refresh_undisturbed [of p lib out mailboxID refresh asked] by simp

lemma poll_token_undisturbed: "undisturbed (p_db p) (p_db (poll_token lib out client mailbox p))"
  by (auto simp: poll_token_def Let_def poll_refresh_undisturbed dest: poll_refresh_result
      split: option.splits sum.splits prod.splits if_splits)

lemma read_result_db [simp]: "p_db (read_result r p) = p_db p"
  by (simp add: read_result_def split: sum.splits)

lemma poll_inbox_db [simp]: "p_db (poll_inbox lib out client mailbox imapOAuth p) = p_db p"
  by (simp add: poll_inbox_def Let_def split: option.splits)

lemma poll_password_undisturbed: "undisturbed (p_db p) (p_db (poll_password lib out mailbox imapOAuth p))"
  by (auto simp: poll_password_def Let_def dest: save_credential_result split: option.splits sum.splits prod.splits)

lemma poll_fallback_undisturbed: "undisturbed (p_db p) (p_db (poll_fallback lib out client mailbox imapOAuth p))"
proof -
  have "p_db (p\<lparr>p_useIMAP := True\<rparr>) = p_db p" by simp
  then show ?thesis
    using poll_refresh_result [of lib out _ _ _ "p\<lparr>p_useIMAP := True\<rparr>"]
    by (auto simp: poll_fallback_def Let_def split: option.splits prod.splits if_splits)
qed

lemma poll_read_undisturbed: "undisturbed db (p_db (poll_read lib out client mailbox db))"
proof -
  have "p_db (poll_start mailbox db) = db" by (simp add: poll_start_def Let_def)
  then have "undisturbed db (p_db (poll_token lib (out [1]) client mailbox (poll_start mailbox db)))"
    using poll_token_undisturbed [of "poll_start mailbox db"] by metis
  moreover note poll_password_undisturbed poll_fallback_undisturbed
  ultimately show ?thesis unfolding poll_read_def Let_def using undisturbed_trans poll_inbox_db by metis
qed

subsection \<open>Recording the outcome\<close>

lemma set_verification_orders:
  assumes ok: "lease_ok db"
  shows "lease_ok (set_verification env mailboxID connection status err db)"
    and "db_services (set_verification env mailboxID connection status err db) = db_services db"
    and "r \<in> set (db_orders (set_verification env mailboxID connection status err db)) \<Longrightarrow>
           r \<in> set (db_orders db) \<or> o_Status r = OrderExpiredRefunded"
    and "status \<noteq> MailboxVerificationFailed \<Longrightarrow>
           db_orders (set_verification env mailboxID connection status err db) = db_orders db"
proof -
  let ?m = "UpdateMailboxVerification env ''system'' mailboxID connection status err (clock env 0) []"
  let ?R = "\<lambda>x y. db_services y = db_services x
     \<and> (\<forall>r\<in>set (db_orders y). r \<in> set (db_orders x) \<or> o_Status r = OrderExpiredRefunded)
     \<and> (status \<noteq> MailboxVerificationFailed \<longrightarrow> db_orders y = db_orders x)"
  have "?R db (snd (run_tx ?m db))"
  proof (rule run_tx_rel [where R = ?R], simp, rule tx_ok_weaken [OF UpdateMailboxVerification_effect [OF ok]])
    fix db'
    assume "verified_post env mailboxID connection status err (clock env 0) db db'"
    then obtain m db1 where m: "m \<in> set (db_mailboxes db)"
      and lost: "if status = MailboxVerificationFailed \<and> m_ActiveOrderID m \<noteq> [] then lost_mailbox env m db db1 else db1 = db"
      and logs: "same_but_logs (db1\<lparr>db_mailboxes := upsert m_ID
           ((verified_row connection status err (clock env 0) m)\<lparr>m_UpdatedAt := stamp env 20\<rparr>) (db_mailboxes db1)\<rparr>) db'"
      unfolding verified_post_def by blast
    have "?R db db1"
    proof (cases "status = MailboxVerificationFailed \<and> m_ActiveOrderID m \<noteq> []")
      case True
      then obtain q r' where post: "refund_post env 2 q OrderExpiredRefunded db r' db1"
        using lost unfolding lost_mailbox_def by auto
      then obtain u :: sqlUser and l where r': "r' = q\<lparr>o_Status := OrderExpiredRefunded, o_Refunded := True\<rparr>"
        and eq: "same_but_logs (refunded_db q r' (u_BalanceCents u + o_PriceCents q) l (clock env (2 + 4)) (stamp env (2 + 3))
             OrderExpiredRefunded db) db1"
        by (rule refund_postE) blast
      show ?thesis
        using same_but_logsD(2,7) [OF eq] True r' by (auto simp: refunded_db_def set_upsert)
    qed (use lost in simp)
    then show "?R db db'" using same_but_logsD(2,7) [OF logs] by simp
  qed
  then show "db_services (set_verification env mailboxID connection status err db) = db_services db"
    and "r \<in> set (db_orders (set_verification env mailboxID connection status err db)) \<Longrightarrow>
           r \<in> set (db_orders db) \<or> o_Status r = OrderExpiredRefunded"
    and "status \<noteq> MailboxVerificationFailed \<Longrightarrow>
           db_orders (set_verification env mailboxID connection status err db) = db_orders db"
    by (simp_all add: set_verification_def)
  show "lease_ok (set_verification env mailboxID connection status err db)"
    using UpdateMailboxVerification_keeps [of db env "''system''" mailboxID connection status err "clock env 0" "[]"] ok
    by (simp add: set_verification_def keeps_def)
qed

lemma poll_leases:
  assumes "lease_ok db"
  shows "lease_ok (pollMailbox lib out client mailbox db)"
proof -
  have "lease_ok (p_db (poll_read lib out client mailbox db))"
    using poll_read_undisturbed assms by (simp add: undisturbed_def)
  then have "lease_ok (poll_outcome lib out mailbox orders (poll_read lib out client mailbox db))" for orders
    by (auto simp: poll_outcome_def Let_def set_verification_orders(1) intro!: process_messages_leases split: option.splits)
  then show ?thesis using assms by (simp add: pollMailbox_def Let_def)
qed

subsection \<open>Codes come from mail\<close>

text \<open>\<open>code_mail\<close> tells that the new row \<open>r'\<close> holds a code that a rule of the order's platform found in the message, and that
  the order was waiting on the mailbox for it.\<close>

definition code_mail :: "regex \<Rightarrow> db \<Rightarrow> time \<Rightarrow> string \<Rightarrow> Message \<Rightarrow> sqlOrder \<Rightarrow> bool" where
  "code_mail regex db now mailboxID message r' \<longleftrightarrow>
     (\<exists>r\<in>set (db_orders db). o_ID r = o_ID r' \<and> order_open r \<and> o_MailboxID r = mailboxID \<and> now < o_ExpiresAt r
        \<and> listening message (mapOrder r)
        \<and> (\<exists>sv\<in>set (db_services db). sv_ID sv = o_ServiceID r
             \<and> MessageMatchesService (mapService sv) message
             \<and> (\<exists>code. matchCode regex (mapService sv) message = Some code \<and> o_Code r' = trim_space code)))"

lemma waiting_order:
  assumes "order \<in> set (WaitingOrdersForMailbox env mailboxID db)"
  obtains r where "r \<in> set (db_orders db)" "order = mapOrder r" "o_MailboxID r = mailboxID" "order_open r" "clock env 0 < o_ExpiresAt r"
  using assms by (auto simp: WaitingOrdersForMailbox_def split: if_splits)

lemma matchCode_matches: "matchCode regex service message = Some code \<Longrightarrow> MessageMatchesService service message"
  by (simp add: matchCode_def split: if_splits)

lemma explained_code_mail:
  assumes ex: "explained regex (WaitingOrdersForMailbox env mailboxID db) M db db'"
    and ok: "lease_ok db" and r': "r' \<in> set (db_orders db')" "r' \<notin> set (db_orders db)"
  shows "\<exists>message\<in>M. code_mail regex db (clock env 0) mailboxID message r'"
proof -
  obtain r message where r: "r \<in> set (db_orders db)" "o_ID r = o_ID r'" and message: "message \<in> M"
    and from_mail: "code_from regex db (WaitingOrdersForMailbox env mailboxID db) message (o_ID r') (o_Code r')"
    using ex r' unfolding explained_def by blast
  obtain order sv code where order: "order \<in> set (WaitingOrdersForMailbox env mailboxID db)" "ord_ID order = o_ID r'" "listening message order"
    and sv: "sv \<in> set (db_services db)" "sv_ID sv = ord_ServiceID order" "matchCode regex (mapService sv) message = Some code"
      "o_Code r' = trim_space code"
    using from_mail unfolding code_from_def by blast
  obtain q where q: "q \<in> set (db_orders db)" "order = mapOrder q" "o_MailboxID q = mailboxID" "order_open q" "clock env 0 < o_ExpiresAt q"
    using order(1) by (rule waiting_order)
  have q': "o_ID q = o_ID r'" "sv_ID sv = o_ServiceID q" "listening message (mapOrder q)"
    using order(2,3) sv(2) q(2) by (simp_all add: mapOrder_def)
  then show ?thesis
    unfolding code_mail_def
    by (intro bexI [OF _ message] bexI [OF _ q(1)] bexI [OF _ sv(1)] conjI exI [of _ code])
      (use q(3-5) q' sv(3,4) matchCode_matches [OF sv(3)] in simp_all)
qed

text \<open>C27: A code never reaches an order that it was not sent for.  Whatever the network, the mail server and the store do while
  a mailbox is polled, an order that the poll completes was open, unexpired and waiting on this very mailbox, and its code is what
  the pattern of its own platform finds in a message that this poll read, that arrived no more than a minute before the order
  began to listen, from a sender and under a subject the platform allows.  The leases stay consistent.\<close>

theorem polled_code_has_mail:
  assumes ok: "lease_ok db" and poll: "pollMailbox lib out client mailbox db = db'"
  shows "lease_ok db' \<and> (\<forall>r'\<in>set (db_orders db'). r' \<notin> set (db_orders db) \<and> o_Status r' = OrderCodeReceived \<longrightarrow>
     (\<exists>message\<in>set (p_messages (poll_read lib out client mailbox db)).
        code_mail (ml_regex lib) db (clock (o_env (out [0])) 0) (mbx_ID (mc_Mailbox mailbox)) message r'))"
proof (intro conjI ballI impI)
  show "lease_ok db'" using poll_leases [OF ok] poll by blast
next
  fix r'
  assume "r' \<in> set (db_orders db')" and "r' \<notin> set (db_orders db) \<and> o_Status r' = OrderCodeReceived"
  then have r': "r' \<in> set (db_orders db')" "r' \<notin> set (db_orders db)" "o_Status r' = OrderCodeReceived" by simp_all
  let ?orders = "WaitingOrdersForMailbox (o_env (out [0])) (mbx_ID (mc_Mailbox mailbox)) db"
  let ?p = "poll_read lib out client mailbox db"
  have quiet: "db_orders (p_db ?p) = db_orders db" "db_services (p_db ?p) = db_services db" "lease_ok (p_db ?p)"
    using poll_read_undisturbed [of db lib out client mailbox] ok by (simp_all add: undisturbed_def)
  have "db' \<noteq> db" using r' by auto
  then have db': "db' = poll_outcome lib out mailbox ?orders ?p"
    using poll by (auto simp: pollMailbox_def Let_def split: if_splits)
  have "p_messageErr ?p = None"
  proof (rule ccontr)
    assume "p_messageErr ?p \<noteq> None"
    then have "r' \<in> set (db_orders (p_db ?p)) \<or> o_Status r' = OrderExpiredRefunded"
      using r'(1) set_verification_orders(3) [OF quiet(3)] unfolding db' by (auto simp: poll_outcome_def Let_def split: if_splits)
    then show False using r'(2,3) quiet(1) by simp
  qed
  then obtain db1 k where db1: "db' = process_messages (ml_regex lib) k 0 (mbx_ID (mc_Mailbox mailbox)) ?orders (p_messages ?p) db1"
    and same: "db_orders db1 = db_orders db" "db_services db1 = db_services db"
    using set_verification_orders(2,4) [OF quiet(3)] quiet unfolding db'
    by (auto simp: poll_outcome_def Let_def MailboxVerificationFailed_def MailboxVerificationVerified_def)
  have "explained (ml_regex lib) ?orders (set (p_messages ?p)) db1 db'" unfolding db1 by (rule process_messages_explained)
  then have "explained (ml_regex lib) ?orders (set (p_messages ?p)) db db'" by (simp add: explained_def code_from_def same)
  then show "\<exists>message\<in>set (p_messages ?p). code_mail (ml_regex lib) db (clock (o_env (out [0])) 0) (mbx_ID (mc_Mailbox mailbox)) message r'"
    using explained_code_mail [OF _ ok r'(1,2)] by blast
qed

text \<open>An inbox with one message for the order of the demonstration database.\<close>

definition mail_db :: db where
  "mail_db = demo_leased_db\<lparr>db_services := [demo_service\<lparr>sv_SubjectKeywords := [''code''], sv_Regex := ''r''\<rparr>]\<rparr>"

definition mail_outside :: outside where
  "mail_outside = \<lparr> o_env = quiet_env 20,
     o_net = \<lparr> nt_do = \<lambda>_ _. Inr (200, []), nt_json_token = \<lambda>_. None, nt_json_profile = \<lambda>_. Inl [], nt_json_userinfo = \<lambda>_. None,
       nt_json_messages = \<lambda>_. Inr ([], [\<lparr> gi_ID = ''m'', gi_Subject = ''Your code'', gi_BodyPreview = [], gi_Content = [],
         gi_ContentType = [], gi_Received = [], gi_Address = ''x@openai.com'' \<rparr>]) \<rparr>,
     o_imap = \<lparr> sv_dial = \<lambda>_. Some [], sv_login = \<lambda>_. None, sv_select = Inr 1, sv_fetch = \<lambda>_ _. Inr [] \<rparr> \<rparr>"

definition mail_parts :: mail_lib where
  "mail_parts = \<lparr> ml_crypto = plain_crypto, ml_regex = \<lambda>_. Some (\<lambda>_. [''7'']), ml_mime = \<lambda>_. None, ml_text = \<lambda>_. [] \<rparr>"

definition mail_client :: MicrosoftConfig where
  "mail_client = \<lparr> mc_ClientID = ''c'', mc_ClientSecret = ''s'', mc_Tenant = ''t'', mc_RedirectURI = ''u'', mc_GraphBaseURL = ''g'' \<rparr>"

definition mail_box :: MailboxCredential where
  "mail_box = \<lparr> mc_Mailbox = mapMailbox (demo_mailbox\<lparr>m_ConnectionMethod := MailboxConnectionMicrosoftGraph\<rparr>) [],
     mc_Config = [''access_token'' \<mapsto> ''t''] \<rparr>"

definition mail_message :: Message where
  "mail_message = \<lparr> ml_ID = ''m'', ml_Sender = ''x@openai.com'', ml_Subject = ''Your code'', ml_BodyPreview = [], ml_Body = [],
     ml_BodyType = [], ml_ReceivedAt = zero_time \<rparr>"

lemma mail_box_kind:
  "supportsMicrosoftGraph (mc_Mailbox mail_box)" "\<not> isMicrosoftIMAPOAuth (mc_Mailbox mail_box) (mc_Config mail_box)"
  "\<not> isMicrosoftIMAPPassword (mc_Mailbox mail_box) (mc_Config mail_box)"
  "mbx_ConnectionMethod (mc_Mailbox mail_box) \<noteq> MailboxConnectionIMAP" "mbx_ID (mc_Mailbox mail_box) = ''m1''"
  "cfg (mc_Config mail_box) ''refresh_token'' = []" "cfg (mc_Config mail_box) ''access_token'' = ''t''"
  by code_simp+

lemma mail_page: "ms_Messages (o_net mail_outside) 0 mail_client ''t'' = Inr [mail_message]"
  by code_simp

lemma mail_read:
  "p_messages (poll_read mail_parts (\<lambda>_. mail_outside) (Some mail_client) mail_box mail_db) = [mail_message]"
  "p_messageErr (poll_read mail_parts (\<lambda>_. mail_outside) (Some mail_client) mail_box mail_db) = None"
  "\<not> p_useIMAP (poll_read mail_parts (\<lambda>_. mail_outside) (Some mail_client) mail_box mail_db)"
  "p_db (poll_read mail_parts (\<lambda>_. mail_outside) (Some mail_client) mail_box mail_db) = mail_db"
  by (simp_all add: poll_read_def poll_token_def poll_inbox_def poll_password_def poll_fallback_def poll_start_def Let_def
      mail_box_kind mail_page read_result_def)

lemma mail_delivered:
  "map (\<lambda>r. (o_Status r, o_Code r)) (db_orders (process_messages (ml_regex mail_parts) (\<lambda>k n. o_env mail_outside) 0 ''m1''
     (WaitingOrdersForMailbox (o_env mail_outside) ''m1'' mail_db) [mail_message] mail_db)) = [(OrderCodeReceived, ''7'')]"
  by code_simp

lemma lease_ok_mail_db: "lease_ok mail_db"
  using lease_ok_demo_leased by (simp add: mail_db_def lease_ok_def keys_ok_def order_leased_def mailbox_bound_def state_bound_def)

lemma polled_code_has_mail_witness:
  "\<exists>r'. set (db_orders (pollMailbox mail_parts (\<lambda>_. mail_outside) (Some mail_client) mail_box mail_db)) = {r'}
     \<and> o_Code r' = ''7'' \<and> code_mail (ml_regex mail_parts) mail_db 20 ''m1'' mail_message r'"
proof -
  let ?poll = "pollMailbox mail_parts (\<lambda>_. mail_outside) (Some mail_client) mail_box mail_db"
  let ?orders = "WaitingOrdersForMailbox (o_env mail_outside) ''m1'' mail_db"
  have "?orders \<noteq> []" by code_simp
  then have "?poll = process_messages (ml_regex mail_parts) (\<lambda>k n. o_env mail_outside) 0 ''m1'' ?orders [mail_message] mail_db"
    by (simp add: pollMailbox_def poll_outcome_def Let_def mail_read mail_box_kind)
  then obtain r' where r': "db_orders ?poll = [r']" "o_Code r' = ''7''" "o_Status r' = OrderCodeReceived"
    using mail_delivered by auto
  then have "r' \<notin> set (db_orders mail_db)" by (auto simp: mail_db_def demo_defs)
  moreover have "clock (o_env mail_outside) 0 = 20" by (simp add: mail_outside_def quiet_env_def)
  ultimately show ?thesis
    using r' polled_code_has_mail [OF lease_ok_mail_db refl, of mail_parts "\<lambda>_. mail_outside" "Some mail_client" mail_box]
    by (simp add: mail_read mail_box_kind)
qed

subsection \<open>Graph and the password\<close>

text \<open>What Graph answers for a mailbox that is read over Graph: the token is refreshed first when it is missing or about to expire,
  then the inbox is read.  The result is the error or the mail, with the credential and the state afterwards.\<close>

definition graph_inbox :: "mail_net \<Rightarrow> MicrosoftConfig option \<Rightarrow> credential \<Rightarrow> string + Message list" where
  "graph_inbox nt client cred =
     (case client of
        None \<Rightarrow> Inl msg_missing_graph
      | Some c \<Rightarrow> if cfg cred ''access_token'' = [] then Inl msg_missing_graph else ms_Messages nt 0 c (cfg cred ''access_token''))"

definition graph_attempt ::
  "mail_lib \<Rightarrow> calls \<Rightarrow> MicrosoftConfig option \<Rightarrow> MailboxCredential \<Rightarrow> db \<Rightarrow> (string + Message list) \<times> credential \<times> db" where
  "graph_attempt lib out client mailbox db =
     (let cred = mc_Config mailbox; expires = cfg_time (cfg cred ''expires_at'');
          until = (if is_zero expires then mbx_OAuthValidUntil (mc_Mailbox mailbox) else expires)
      in if cfg cred ''refresh_token'' = [] \<or> cfg cred ''access_token'' \<noteq> [] \<and> 5 * minute \<le> until - clock (o_env (out [1])) 0
         then (graph_inbox (o_net (out [2])) client cred, cred, db)
         else case client of
             None \<Rightarrow> (Inl msg_no_graph_client, cred, db)
           | Some c \<Rightarrow>
             (case ms_RefreshCredential (o_net (out [1])) 0 (clock (o_env (out [1])) 1) c cred of
                Inl e \<Rightarrow> (Inl e, cred, db)
              | Inr (refreshed, valid) \<Rightarrow>
                let cred' = mergeCredential cred refreshed;
                    db' = snd (save_credential lib (o_env (out [1])) ''system'' (mbx_ID (mc_Mailbox mailbox)) cred' valid [] db)
                in (graph_inbox (o_net (out [2])) client cred', cred', db')))"

lemma graph_read:
  assumes "supportsMicrosoftGraph (mc_Mailbox mailbox)" and "mbx_ConnectionMethod (mc_Mailbox mailbox) \<noteq> MailboxConnectionIMAP"
    and "\<not> isMicrosoftIMAPOAuth (mc_Mailbox mailbox) (mc_Config mailbox)"
    and "\<not> isMicrosoftIMAPPassword (mc_Mailbox mailbox) (mc_Config mailbox)"
    and "graph_attempt lib out client mailbox db = (Inl e, cred, db')"
  shows "\<exists>p. poll_inbox lib (out [2]) client mailbox False (poll_token lib (out [1]) client mailbox (poll_start mailbox db)) = p
     \<and> p_messageErr p = Some e \<and> p_cred p = cred \<and> p_db p = db' \<and> \<not> p_useIMAP p"
proof -
  have start: "p_useIMAP (poll_start mailbox db) = False" "p_cred (poll_start mailbox db) = mc_Config mailbox"
    "p_db (poll_start mailbox db) = db" "p_graphErr (poll_start mailbox db) = None" "p_messageErr (poll_start mailbox db) = None"
    "p_until (poll_start mailbox db) = (let expires = cfg_time (cfg (mc_Config mailbox) ''expires_at'')
       in if is_zero expires then mbx_OAuthValidUntil (mc_Mailbox mailbox) else expires)"
    using assms(1-4) by (simp_all add: poll_start_def Let_def)
  define st where "st = poll_start mailbox db"
  note start = start [folded st_def]
  define stale where "stale \<longleftrightarrow> cfg (mc_Config mailbox) ''refresh_token'' \<noteq> []
    \<and> (cfg (mc_Config mailbox) ''access_token'' = [] \<or> p_until st - clock (o_env (out [1])) 0 < 5 * minute)"
  let ?refresh = "\<lambda>c. ms_RefreshCredential (o_net (out [1])) 0 (clock (o_env (out [1])) 1) c"
  have token: "poll_token lib (out [1]) client mailbox st =
      (if stale then (case client of None \<Rightarrow> st\<lparr>p_graphErr := Some msg_no_graph_client\<rparr>
         | Some c \<Rightarrow> (case ?refresh c (mc_Config mailbox) of Inl e \<Rightarrow> st\<lparr>p_graphErr := Some e\<rparr>
             | Inr _ \<Rightarrow> snd (poll_refresh lib (out [1]) (mbx_ID (mc_Mailbox mailbox)) (?refresh c) (mc_Config mailbox) st)))
       else st)"
    using assms(1) start(1) unfolding poll_token_def Let_def start(2) stale_def by (simp cong: if_cong)
  have attempt: "graph_attempt lib out client mailbox db =
      (if \<not> stale then (graph_inbox (o_net (out [2])) client (mc_Config mailbox), mc_Config mailbox, db)
       else case client of None \<Rightarrow> (Inl msg_no_graph_client, mc_Config mailbox, db)
         | Some c \<Rightarrow> (case ?refresh c (mc_Config mailbox) of Inl e \<Rightarrow> (Inl e, mc_Config mailbox, db)
             | Inr (refreshed, valid) \<Rightarrow>
               let cred' = mergeCredential (mc_Config mailbox) refreshed;
                   db' = snd (save_credential lib (o_env (out [1])) ''system'' (mbx_ID (mc_Mailbox mailbox)) cred' valid [] db)
               in (graph_inbox (o_net (out [2])) client cred', cred', db')))"
    unfolding graph_attempt_def stale_def start(6) Let_def by (auto simp: not_less)
  define p where "p = poll_token lib (out [1]) client mailbox st"
  have t: "p_useIMAP p = False \<and> p_cred p = cred \<and> p_db p = db' \<and> p_messageErr p = None
      \<and> (p_graphErr p = Some e \<or> p_graphErr p = None \<and> graph_inbox (o_net (out [2])) client cred = Inl e)"
  proof (cases "stale \<and> client \<noteq> None")
    case False
    then show ?thesis using assms(5) unfolding p_def token attempt by (auto simp: start)
  next
    case True
    then obtain c where c: "stale" "client = Some c" by blast
    show ?thesis
    proof (cases "?refresh c (mc_Config mailbox)")
      case (Inl err)
      then show ?thesis using assms(5) c unfolding p_def token attempt by (simp add: start)
    next
      case (Inr r)
      obtain refreshed valid where r: "r = (refreshed, valid)" by fastforce
      then show ?thesis using assms(5) c Inr unfolding p_def token attempt
        by (auto simp: start poll_refresh_def Let_def split: prod.splits)
    qed
  qed
  then have "\<exists>q. poll_inbox lib (out [2]) client mailbox False p = q \<and> p_messageErr q = Some e \<and> p_cred q = cred \<and> p_db q = db' \<and> \<not> p_useIMAP q"
    by (cases client) (auto simp: poll_inbox_def Let_def graph_inbox_def read_result_def split: if_splits)
  then show ?thesis by (simp add: p_def st_def)
qed

text \<open>C31: When Graph fails for a mailbox that is read over Graph - because its token cannot be refreshed, because there is no client or
  no token, or because the inbox cannot be read - IMAP is never tried, whatever the IMAP server would answer, also when the mailbox has a
  password: the fallback to IMAP sets the error it is about to test only for OAuth mailboxes, so for a password the error of
  Graph is still there.  The poll only records the failure, and for a mailbox with a password it records it under IMAP, with the
  error of Graph as the text of an IMAP error.\<close>

theorem graph_failure_ignores_password:
  assumes "supportsMicrosoftGraph (mc_Mailbox mailbox)" and "mbx_ConnectionMethod (mc_Mailbox mailbox) \<noteq> MailboxConnectionIMAP"
    and "\<not> isMicrosoftIMAPOAuth (mc_Mailbox mailbox) (mc_Config mailbox)"
    and "\<not> isMicrosoftIMAPPassword (mc_Mailbox mailbox) (mc_Config mailbox)"
    and "WaitingOrdersForMailbox (o_env (out [0])) (mbx_ID (mc_Mailbox mailbox)) db \<noteq> []"
    and "graph_attempt lib out client mailbox db = (Inl e, cred, db')"
  shows "pollMailbox lib out client mailbox db =
       (if cfg cred ''password'' \<noteq> []
        then set_verification (o_env (out [5])) (mbx_ID (mc_Mailbox mailbox)) MailboxConnectionIMAP MailboxVerificationFailed
               (compactIMAPError (Some e)) db'
        else set_verification (o_env (out [5])) (mbx_ID (mc_Mailbox mailbox)) MailboxConnectionMicrosoftGraph MailboxVerificationFailed
               (compactGraphError (Some e)) db')
     \<and> (\<forall>imap. pollMailbox lib (\<lambda>p. (out p)\<lparr>o_imap := imap p\<rparr>) client mailbox db = pollMailbox lib out client mailbox db)"
proof -
  have result: "pollMailbox lib out client mailbox db =
       (if cfg cred ''password'' \<noteq> []
        then set_verification (o_env (out [5])) (mbx_ID (mc_Mailbox mailbox)) MailboxConnectionIMAP MailboxVerificationFailed
               (compactIMAPError (Some e)) db'
        else set_verification (o_env (out [5])) (mbx_ID (mc_Mailbox mailbox)) MailboxConnectionMicrosoftGraph MailboxVerificationFailed
               (compactGraphError (Some e)) db')"
    if "graph_attempt lib out client mailbox db = (Inl e, cred, db')"
      "WaitingOrdersForMailbox (o_env (out [0])) (mbx_ID (mc_Mailbox mailbox)) db \<noteq> []" for out
    using graph_read [OF assms(1-4) that(1)] assms(3) that(2)
    by (auto simp: pollMailbox_def poll_read_def poll_password_def poll_fallback_def poll_outcome_def Let_def)
  moreover have "graph_attempt lib (\<lambda>p. (out p)\<lparr>o_imap := imap p\<rparr>) client mailbox db = graph_attempt lib out client mailbox db" for imap
  proof -
    have e: "o_env ((out p)\<lparr>o_imap := imap p\<rparr>) = o_env (out p)" "o_net ((out p)\<lparr>o_imap := imap p\<rparr>) = o_net (out p)" for p by simp_all
    show ?thesis unfolding graph_attempt_def e by (rule refl)
  qed
  ultimately show ?thesis using result [OF assms(6,5)] assms(5,6) by simp
qed

text \<open>A mailbox with a password whose token cannot be refreshed.\<close>

lemma graph_failure_ignores_password_witness:
  "let box = mail_box\<lparr>mc_Config := [''refresh_token'' \<mapsto> ''r'', ''client_id'' \<mapsto> ''c'', ''oauth_protocol'' \<mapsto> ''graph'', ''password'' \<mapsto> ''p'']\<rparr>;
       offline = mail_outside\<lparr>o_net := (o_net mail_outside)\<lparr>nt_do := \<lambda>_ _. Inl ''offline''\<rparr>\<rparr>
   in pollMailbox mail_parts (\<lambda>_. offline) (Some mail_client) box mail_db =
        set_verification (o_env mail_outside) ''m1'' MailboxConnectionIMAP MailboxVerificationFailed
          (compactIMAPError (Some ''offline'')) mail_db"
proof -
  let ?box = "mail_box\<lparr>mc_Config := [''refresh_token'' \<mapsto> ''r'', ''client_id'' \<mapsto> ''c'', ''oauth_protocol'' \<mapsto> ''graph'', ''password'' \<mapsto> ''p'']\<rparr>"
  let ?out = "mail_outside\<lparr>o_net := (o_net mail_outside)\<lparr>nt_do := \<lambda>_ _. Inl ''offline''\<rparr>\<rparr>"
  have kind: "supportsMicrosoftGraph (mc_Mailbox ?box)" "mbx_ConnectionMethod (mc_Mailbox ?box) \<noteq> MailboxConnectionIMAP"
    "\<not> isMicrosoftIMAPOAuth (mc_Mailbox ?box) (mc_Config ?box)" "\<not> isMicrosoftIMAPPassword (mc_Mailbox ?box) (mc_Config ?box)"
    by code_simp+
  have "WaitingOrdersForMailbox (o_env ?out) (mbx_ID (mc_Mailbox ?box)) mail_db \<noteq> []" by code_simp
  moreover have "ms_RefreshCredential (o_net ?out) 0 (clock (o_env ?out) 1) mail_client (mc_Config ?box) = Inl ''offline''"
    by (simp add: ms_RefreshCredential_def get_or_empty_def trim_space_def is_space_def tokenForTenant_def or_default_def Let_def)
  then have "graph_attempt mail_parts (\<lambda>_. ?out) (Some mail_client) ?box mail_db = (Inl ''offline'', mc_Config ?box, mail_db)"
    by (simp add: graph_attempt_def Let_def get_or_empty_def)
  ultimately show ?thesis
    using graph_failure_ignores_password [OF kind, of "\<lambda>_. ?out" mail_db] mail_box_kind(5) by (simp add: get_or_empty_def)
qed

end
