(* ===== verification/Importer.thy ===== *)
theory Importer
  imports Credentials
begin

text \<open>
  Reading the file of an import, \<^verbatim>\<open>internal/mail/importer.go\<close>: one mailbox per line, as a JSON object or as fields
  with one of five separators; the normal form every accepted record is in; and the loop over the lines.  A line comes
  from the scanner and holds no line feed.  The JSON decoder \<open>json\<close> returns the pairs of the object in the order the
  map is walked, \<open>parse_address\<close> is the address parser of \<^verbatim>\<open>net/mail\<close>.
\<close>

definition maxMailboxImportLineBytes :: nat where
  "maxMailboxImportLineBytes = 1024 * 1024"

record MailboxImportRecord =
  ir_Address :: string
  ir_Provider :: string
  ir_Password :: string
  ir_TOTPURL :: string
  ir_ClientID :: string
  ir_ClientSecret :: string
  ir_AccessToken :: string
  ir_RefreshToken :: string
  ir_IMAPUser :: string
  ir_ConnectionMethod :: string
  ir_OAuthProtocol :: string

definition empty_record :: MailboxImportRecord where
  "empty_record = \<lparr> ir_Address = [], ir_Provider = [], ir_Password = [], ir_TOTPURL = [], ir_ClientID = [], ir_ClientSecret = [],
     ir_AccessToken = [], ir_RefreshToken = [], ir_IMAPUser = [], ir_ConnectionMethod = [], ir_OAuthProtocol = [] \<rparr>"

definition credential_pairs :: "MailboxImportRecord \<Rightarrow> (string \<times> string) list" where
  "credential_pairs r =
     [(''password'', ir_Password r), (''totp_url'', ir_TOTPURL r), (''client_id'', ir_ClientID r),
      (''client_secret'', ir_ClientSecret r), (''access_token'', ir_AccessToken r), (''refresh_token'', ir_RefreshToken r),
      (''oauth_protocol'', ir_OAuthProtocol r), (''imap_user'', ir_IMAPUser r)]"

definition credential_fields :: "MailboxImportRecord \<Rightarrow> (string \<times> string) list" where
  "credential_fields r = filter (\<lambda>(_, v). v \<noteq> []) (map (\<lambda>(k, v). (k, trim_space v)) (credential_pairs r))"

definition import_credential :: "MailboxImportRecord \<Rightarrow> credential" where
  "import_credential r = map_of (credential_fields r)"

datatype import_error = ErrMailboxImportHeader | ImportError string

subsection \<open>Fields of a line\<close>

definition trimImportFields :: "string list \<Rightarrow> string list" where
  "trimImportFields fs = map trim_space fs"

text \<open>A quoted field of a CSV record, after its opening quote: the field, and the rest after a comma.  \<open>None\<close> is the error
  for a quote that is neither doubled nor at the end of the field, or that is missing.\<close>

fun csv_quoted :: "string \<Rightarrow> string \<Rightarrow> (string \<times> string option) option" where
  "csv_quoted acc [] = None"
| "csv_quoted acc (c # cs) =
     (if c = CHR 0x22
      then (case cs of [] \<Rightarrow> Some (acc, None)
        | d # ds \<Rightarrow> if d = CHR 0x22 then csv_quoted (acc @ [d]) ds else if d = CHR 0x2C then Some (acc, Some ds) else None)
      else csv_quoted (acc @ [c]) cs)"

lemma csv_quoted_length: "csv_quoted acc cs = Some (f, Some rest) \<Longrightarrow> length rest < length cs"
  by (induction acc cs rule: csv_quoted.induct) (fastforce split: if_splits list.splits)+

text \<open>One record of a CSV reader that trims leading space.\<close>

function csv_fields :: "string \<Rightarrow> string list option" where
  "csv_fields line0 =
     (let line = dropWhile is_space line0
      in if line \<noteq> [] \<and> hd line = CHR 0x22
         then (case csv_quoted [] (tl line) of
                 None \<Rightarrow> None
               | Some (f, None) \<Rightarrow> Some [f]
               | Some (f, Some rest) \<Rightarrow> map_option (Cons f) (csv_fields rest))
         else (case str_cut line '','' of
                 None \<Rightarrow> if CHR 0x22 \<in> set line then None else Some [line]
               | Some (f, rest) \<Rightarrow> if CHR 0x22 \<in> set f then None else map_option (Cons f) (csv_fields rest)))"
  by pat_completeness auto
termination
proof (relation "measure length")
  fix line0 line p f r rest
  assume a: "line = dropWhile is_space line0" "line \<noteq> [] \<and> hd line = CHR 0x22" "csv_quoted [] (tl line) = Some p" "(f, r) = p" "r = Some rest"
  then have "length rest < length (tl line)" using csv_quoted_length by blast
  then show "(rest, line0) \<in> measure length" using a(1) length_dropWhile_le [of is_space line0] by simp
next
  fix line0 line p f rest
  assume a: "line = dropWhile is_space line0" "str_cut line '','' = Some p" "(f, rest) = p"
  then have "length rest < length line" using str_cut_length by blast
  then show "(rest, line0) \<in> measure length" using a(1) length_dropWhile_le [of is_space line0] by simp
qed simp

declare csv_fields.simps [simp del]

definition splitMailboxImportFields :: "string \<Rightarrow> import_error + string list" where
  "splitMailboxImportFields line =
     (if str_contains line ''----'' then Inr (trimImportFields (str_split ''----'' line))
      else if str_contains line [CHR 0x09] then Inr (trimImportFields (str_split [CHR 0x09] line))
      else if str_contains line ''|'' then Inr (trimImportFields (str_split ''|'' line))
      else if str_contains line '','' then (case csv_fields line of
          None \<Rightarrow> Inl (ImportError msg_import_csv) | Some fs \<Rightarrow> Inr (trimImportFields fs))
      else case str_cut line '':'' of
          Some (a, b) \<Rightarrow> Inr (trimImportFields [a, b])
        | None \<Rightarrow> Inl (ImportError msg_import_unknown))"

subsection \<open>The normal form\<close>

definition normalizeImportConnectionMethod :: "string \<Rightarrow> string" where
  "normalizeImportConnectionMethod v =
     (let m = to_lower (trim_space v)
      in if m = MailboxConnectionIMAP \<or> m = MailboxConnectionMicrosoftGraph \<or> m = MailboxConnectionMicrosoftOAuth then m
         else MailboxConnectionAuto)"

definition normalizeImportOAuthProtocol :: "string \<Rightarrow> string" where
  "normalizeImportOAuthProtocol v =
     (let p = to_lower (trim_space v)
      in if p \<in> {''imap'', ''imap_oauth'', ''microsoft_imap'', ''microsoft_imap_oauth''} then ''imap''
         else if p \<in> {''graph'', ''microsoft_graph''} then ''graph'' else [])"

text \<open>Old files have no protocol: a Microsoft refresh token with its client identifier is taken for IMAP.\<close>

definition import_protocol :: "MailboxImportRecord \<Rightarrow> MailboxImportRecord" where
  "import_protocol r =
     (if IsMicrosoftMailboxProvider (ir_Provider r) \<and> ir_OAuthProtocol r = [] \<and> ir_ClientID r \<noteq> [] \<and> ir_RefreshToken r \<noteq> []
      then r\<lparr>ir_OAuthProtocol := ''imap''\<rparr> else r)"

definition normalizeMailboxImportRecord :: "(string \<Rightarrow> string option) \<Rightarrow> MailboxImportRecord \<Rightarrow> import_error + MailboxImportRecord" where
  "normalizeMailboxImportRecord parse_address r0 =
     (let r = r0\<lparr>ir_Address := to_lower (trim_space (ir_Address r0))\<rparr>
      in case parse_address (ir_Address r) of
           None \<Rightarrow> Inl (ImportError msg_import_address)
         | Some parsed \<Rightarrow>
           if \<not> equal_fold parsed (ir_Address r) then Inl (ImportError msg_import_address)
           else case DetectMailboxProvider (ir_Address r) of
               None \<Rightarrow> Inl (ImportError msg_unsupported_mailbox)
             | Some provider \<Rightarrow>
               let r = import_protocol (r\<lparr>ir_Provider := provider,
                       ir_ConnectionMethod := normalizeImportConnectionMethod (ir_ConnectionMethod r),
                       ir_OAuthProtocol := normalizeImportOAuthProtocol (ir_OAuthProtocol r)\<rparr>)
               in if length (credential_fields r) = 0 then Inl (ImportError msg_import_empty) else Inr r)"

subsection \<open>Records\<close>

definition first_exact :: "(string \<times> string) list \<Rightarrow> string list \<Rightarrow> string list" where
  "first_exact vs ks = filter (\<lambda>v. v \<noteq> []) (map (\<lambda>k. trim_space (get_or_empty (map_of vs) k)) ks)"

definition first_folded :: "(string \<times> string) list \<Rightarrow> string list \<Rightarrow> string list" where
  "first_folded vs ks = [trim_space v. (actual, v) \<leftarrow> vs, k \<leftarrow> ks, equal_fold (trim_space actual) k \<and> trim_space v \<noteq> []]"

definition firstImportValue :: "(string \<times> string) list \<Rightarrow> string list \<Rightarrow> string" where
  "firstImportValue vs ks = (case first_exact vs ks @ first_folded vs ks of [] \<Rightarrow> [] | v # _ \<Rightarrow> v)"

definition parseMailboxJSONLine ::
  "(string \<Rightarrow> (string \<times> string) list option) \<Rightarrow> (string \<Rightarrow> string option) \<Rightarrow> string \<Rightarrow> import_error + MailboxImportRecord" where
  "parseMailboxJSONLine json parse_address line =
     (case json line of
        None \<Rightarrow> Inl (ImportError msg_import_json)
      | Some vs \<Rightarrow> normalizeMailboxImportRecord parse_address (empty_record\<lparr>
          ir_Address := firstImportValue vs [''email'', ''address'', ''username''],
          ir_Password := firstImportValue vs [''password'', ''pass''],
          ir_TOTPURL := firstImportValue vs [''totp_url'', ''totp'', ''otp_url'', ''two_factor_url'', ''2fa_url''],
          ir_ClientID := firstImportValue vs [''client_id'', ''clientid'', ''clientId''],
          ir_ClientSecret := firstImportValue vs [''client_secret'', ''clientsecret'', ''clientSecret''],
          ir_AccessToken := firstImportValue vs [''access_token'', ''accesstoken'', ''accessToken''],
          ir_RefreshToken := firstImportValue vs [''refresh_token'', ''refreshtoken'', ''refreshToken''],
          ir_IMAPUser := firstImportValue vs [''imap_user'', ''imapuser'', ''imapUser''],
          ir_ConnectionMethod := firstImportValue vs [''connection_method'', ''connection''],
          ir_OAuthProtocol := firstImportValue vs [''oauth_protocol'', ''oauth_type'', ''protocol'', ''auth_type'']\<rparr>))"

definition hex_digit :: "char \<Rightarrow> bool" where
  "hex_digit c \<longleftrightarrow> c \<in> set ''0123456789abcdefABCDEF''"

text \<open>The pattern of a client identifier: five groups of hexadecimal digits.\<close>

definition microsoftClientID :: "string \<Rightarrow> bool" where
  "microsoftClientID s \<longleftrightarrow> map length (str_split ''-'' s) = [8, 4, 4, 4, 12] \<and> list_all (list_all hex_digit) (str_split ''-'' s)"

definition isTOTPURL :: "string \<Rightarrow> bool" where
  "isTOTPURL v \<longleftrightarrow> has_prefix (to_lower (trim_space v)) ''https://2fa.live/''"

text \<open>A field \<open>key=value\<close>; an unknown key is ignored.\<close>

definition named_field :: "MailboxImportRecord \<Rightarrow> string \<Rightarrow> string \<Rightarrow> MailboxImportRecord" where
  "named_field r k v =
     (let key = to_lower (trim_space k)
      in if key \<in> {''client_id'', ''clientid''} then r\<lparr>ir_ClientID := v\<rparr>
         else if key \<in> {''client_secret'', ''clientsecret''} then r\<lparr>ir_ClientSecret := v\<rparr>
         else if key \<in> {''access_token'', ''accesstoken''} then r\<lparr>ir_AccessToken := v\<rparr>
         else if key \<in> {''refresh_token'', ''refreshtoken''} then r\<lparr>ir_RefreshToken := v\<rparr>
         else if key \<in> {''totp_url'', ''totp'', ''otp_url'', ''two_factor_url'', ''2fa_url''} then r\<lparr>ir_TOTPURL := v\<rparr>
         else if key \<in> {''connection_method'', ''connection''} then r\<lparr>ir_ConnectionMethod := v\<rparr>
         else if key \<in> {''oauth_protocol'', ''oauth_type'', ''protocol'', ''auth_type''} then r\<lparr>ir_OAuthProtocol := v\<rparr>
         else if key \<in> {''imap_user'', ''imapuser''} then r\<lparr>ir_IMAPUser := v\<rparr>
         else r)"

definition import_field :: "string \<Rightarrow> MailboxImportRecord \<Rightarrow> MailboxImportRecord" where
  "import_field v r =
     (if v = [] then r
      else case str_cut v ''='' of
          Some (k, field_value) \<Rightarrow> named_field r k field_value
        | None \<Rightarrow>
          if microsoftClientID v then r\<lparr>ir_ClientID := v\<rparr>
          else if isTOTPURL v then r\<lparr>ir_TOTPURL := v\<rparr>
          else if ir_RefreshToken r = [] then r\<lparr>ir_RefreshToken := v\<rparr>
          else if ir_AccessToken r = [] then r\<lparr>ir_AccessToken := v\<rparr>
          else r)"

definition mailboxRecordFromFields :: "(string \<Rightarrow> string option) \<Rightarrow> string list \<Rightarrow> import_error + MailboxImportRecord" where
  "mailboxRecordFromFields parse_address fs =
     (case fs of
        address # password # rest \<Rightarrow> normalizeMailboxImportRecord parse_address
          (fold import_field rest (empty_record\<lparr>ir_Address := address, ir_Password := password\<rparr>))
      | _ \<Rightarrow> Inl (ImportError msg_import_fields))"

definition parse_mailbox_line ::
  "(string \<Rightarrow> (string \<times> string) list option) \<Rightarrow> (string \<Rightarrow> string option) \<Rightarrow> string \<Rightarrow> import_error + MailboxImportRecord" where
  "parse_mailbox_line json parse_address line0 =
     (let line = trim_space (trim_prefix line0 [CHR 0xEF, CHR 0xBB, CHR 0xBF])
      in if line = [] \<or> has_prefix line ''#'' then Inl ErrMailboxImportHeader
         else if has_prefix line ''{'' then parseMailboxJSONLine json parse_address line
         else case splitMailboxImportFields line of
             Inl e \<Rightarrow> Inl e
           | Inr fs \<Rightarrow>
             if fs \<noteq> [] \<and> (equal_fold (hd fs) ''email'' \<or> equal_fold (hd fs) ''address'') then Inl ErrMailboxImportHeader
             else mailboxRecordFromFields parse_address fs)"

subsection \<open>The file\<close>

text \<open>What the scanner makes of the file: its lines without their ends, up to the first that does not fit the buffer, and the error
  that ended it.  \<open>read_error\<close> is an error of the reader after \<open>content\<close>.\<close>

definition drop_cr :: "string \<Rightarrow> string" where
  "drop_cr s = (if s \<noteq> [] \<and> last s = CHR 0x0D then butlast s else s)"

definition raw_lines :: "string \<Rightarrow> string list" where
  "raw_lines content = (let ls = str_split [CHR 0x0A] content in if last ls = [] then butlast ls else ls)"

definition scan_lines :: "string \<Rightarrow> string option \<Rightarrow> string list \<times> string option" where
  "scan_lines content read_error =
     (let ls = raw_lines content; fits = takeWhile (\<lambda>l. length l < maxMailboxImportLineBytes) ls
      in (map drop_cr fits, if length fits < length ls then Some ''bufio.Scanner: token too long'' else read_error))"

record MailboxImportLineError =
  le_Line :: nat
  le_Message :: string

record MailboxImportResult =
  im_Imported :: nat
  im_Failed :: nat
  im_Skipped :: nat
  im_Errors :: "MailboxImportLineError list"

definition failed_line :: "nat \<Rightarrow> string \<Rightarrow> MailboxImportResult \<Rightarrow> MailboxImportResult" where
  "failed_line n message result = result\<lparr>im_Failed := im_Failed result + 1,
     im_Errors := (if length (im_Errors result) < 100 then im_Errors result @ [\<lparr> le_Line = n, le_Message = message \<rparr>]
                   else im_Errors result)\<rparr>"

text \<open>\<open>parse\<close> is the parser, \<open>save\<close> stores a record in the state \<open>'s\<close> and may return an error.\<close>

fun import_lines ::
  "(string \<Rightarrow> import_error + MailboxImportRecord) \<Rightarrow> (nat \<Rightarrow> MailboxImportRecord \<Rightarrow> 's \<Rightarrow> string option \<times> 's)
    \<Rightarrow> nat \<Rightarrow> string list \<Rightarrow> MailboxImportResult \<Rightarrow> 's \<Rightarrow> MailboxImportResult \<times> 's" where
  "import_lines parse save n [] result s = (result, s)"
| "import_lines parse save n (line # lines) result s =
     (case parse line of
        Inl ErrMailboxImportHeader \<Rightarrow> import_lines parse save (n + 1) lines (result\<lparr>im_Skipped := im_Skipped result + 1\<rparr>) s
      | Inl (ImportError e) \<Rightarrow> import_lines parse save (n + 1) lines (failed_line (n + 1) e result) s
      | Inr record' \<Rightarrow>
        (case save n record' s of
           (Some e, s') \<Rightarrow> import_lines parse save (n + 1) lines (failed_line (n + 1) e result) s'
         | (None, s') \<Rightarrow> import_lines parse save (n + 1) lines (result\<lparr>im_Imported := im_Imported result + 1\<rparr>) s'))"

definition StreamMailboxImport ::
  "(string \<Rightarrow> import_error + MailboxImportRecord) \<Rightarrow> (nat \<Rightarrow> MailboxImportRecord \<Rightarrow> 's \<Rightarrow> string option \<times> 's)
    \<Rightarrow> string \<Rightarrow> string option \<Rightarrow> 's \<Rightarrow> MailboxImportResult \<times> string option \<times> 's" where
  "StreamMailboxImport parse save content read_error s =
     (let (lines, err) = scan_lines content read_error;
          (result, s') = import_lines parse save 0 lines \<lparr> im_Imported = 0, im_Failed = 0, im_Skipped = 0, im_Errors = [] \<rparr> s
      in (result, map_option (\<lambda>e. msg_import_read @ e) err, s'))"

subsection \<open>What an import lets through\<close>

lemma normalizeImportConnectionMethod_cases:
  "normalizeImportConnectionMethod v \<in> {MailboxConnectionIMAP, MailboxConnectionMicrosoftGraph, MailboxConnectionMicrosoftOAuth, MailboxConnectionAuto}"
  by (auto simp: normalizeImportConnectionMethod_def Let_def)

lemma normalizeImportOAuthProtocol_cases: "normalizeImportOAuthProtocol v \<in> {[], ''imap'', ''graph''}"
  by (simp add: normalizeImportOAuthProtocol_def Let_def)

lemma import_protocol_simps:
  "ir_Address (import_protocol r) = ir_Address r" "ir_Provider (import_protocol r) = ir_Provider r"
  "ir_ConnectionMethod (import_protocol r) = ir_ConnectionMethod r"
  "ir_OAuthProtocol r \<in> {[], ''imap'', ''graph''} \<Longrightarrow> ir_OAuthProtocol (import_protocol r) \<in> {[], ''imap'', ''graph''}"
  "IsMicrosoftMailboxProvider (ir_Provider r) \<and> ir_ClientID (import_protocol r) \<noteq> [] \<and> ir_RefreshToken (import_protocol r) \<noteq> []
     \<longrightarrow> ir_OAuthProtocol (import_protocol r) \<noteq> []"
  by (auto simp: import_protocol_def)

lemma normalizeMailboxImportRecord_ok:
  assumes "normalizeMailboxImportRecord parse_address r0 = Inr r"
  shows "to_lower (ir_Address r) = ir_Address r \<and> trim_space (ir_Address r) = ir_Address r
     \<and> (\<exists>parsed. parse_address (ir_Address r) = Some parsed \<and> equal_fold parsed (ir_Address r))
     \<and> DetectMailboxProvider (ir_Address r) = Some (ir_Provider r)
     \<and> ir_ConnectionMethod r \<in> {MailboxConnectionIMAP, MailboxConnectionMicrosoftGraph, MailboxConnectionMicrosoftOAuth, MailboxConnectionAuto}
     \<and> ir_OAuthProtocol r \<in> {[], ''imap'', ''graph''}
     \<and> (IsMicrosoftMailboxProvider (ir_Provider r) \<and> ir_ClientID r \<noteq> [] \<and> ir_RefreshToken r \<noteq> [] \<longrightarrow> ir_OAuthProtocol r \<noteq> [])
     \<and> credential_fields r \<noteq> []"
proof -
  let ?a = "to_lower (trim_space (ir_Address r0))"
  let ?r = "import_protocol (r0\<lparr>ir_Address := ?a, ir_Provider := ir_Provider r,
      ir_ConnectionMethod := normalizeImportConnectionMethod (ir_ConnectionMethod r0),
      ir_OAuthProtocol := normalizeImportOAuthProtocol (ir_OAuthProtocol r0)\<rparr>)"
  obtain parsed where parsed: "parse_address ?a = Some parsed" "equal_fold parsed ?a" "DetectMailboxProvider ?a = Some (ir_Provider r)"
    and r: "r = ?r" "credential_fields r \<noteq> []"
    using assms by (auto simp: normalizeMailboxImportRecord_def Let_def import_protocol_simps split: option.splits if_splits)
  have "ir_Address ?r = ?a" "ir_Provider ?r = ir_Provider r"
    "ir_ConnectionMethod ?r = normalizeImportConnectionMethod (ir_ConnectionMethod r0)"
    "ir_OAuthProtocol ?r \<in> {[], ''imap'', ''graph''}"
    by (simp_all only: import_protocol_simps(1-3)) (simp_all, rule import_protocol_simps(4) [simplified], simp add: normalizeImportOAuthProtocol_cases [simplified])
  moreover have "to_lower ?a = ?a" "trim_space ?a = ?a" by (simp_all add: trim_space_to_lower)
  moreover have "IsMicrosoftMailboxProvider (ir_Provider r) \<and> ir_ClientID ?r \<noteq> [] \<and> ir_RefreshToken ?r \<noteq> [] \<longrightarrow> ir_OAuthProtocol ?r \<noteq> []"
    using import_protocol_simps(5) [of "r0\<lparr>ir_Address := ?a, ir_Provider := ir_Provider r,
      ir_ConnectionMethod := normalizeImportConnectionMethod (ir_ConnectionMethod r0),
      ir_OAuthProtocol := normalizeImportOAuthProtocol (ir_OAuthProtocol r0)\<rparr>"] by simp
  ultimately show ?thesis using parsed r normalizeImportConnectionMethod_cases [of "ir_ConnectionMethod r0"] by metis
qed

lemma parse_mailbox_line_normal:
  assumes "parse_mailbox_line json parse_address line = Inr r"
  obtains r0 where "normalizeMailboxImportRecord parse_address r0 = Inr r"
  using assms by (auto simp: parse_mailbox_line_def parseMailboxJSONLine_def mailboxRecordFromFields_def Let_def
      split: if_splits option.splits sum.splits list.splits)

lemma credential_fields_trimmed: "(k, v) \<in> set (credential_fields r) \<Longrightarrow> trim_space v = v \<and> v \<noteq> []"
  by (auto simp: credential_fields_def)

text \<open>C29: Whatever a line of an import says, and whatever its format, a record that the parser accepts is in normal form: its address is a
  lower-case, trimmed address of the provider the record names, its connection method and its OAuth protocol are values
  the rest of the program knows, a Microsoft record with a client identifier and a refresh token has a protocol, and its
  credential is not empty and holds no empty or untrimmed value.\<close>

theorem imported_record_normal:
  assumes "parse_mailbox_line json parse_address line = Inr r"
  shows "to_lower (ir_Address r) = ir_Address r \<and> trim_space (ir_Address r) = ir_Address r
     \<and> (\<exists>parsed. parse_address (ir_Address r) = Some parsed \<and> equal_fold parsed (ir_Address r))
     \<and> DetectMailboxProvider (ir_Address r) = Some (ir_Provider r)
     \<and> ir_ConnectionMethod r \<in> {MailboxConnectionIMAP, MailboxConnectionMicrosoftGraph, MailboxConnectionMicrosoftOAuth, MailboxConnectionAuto}
     \<and> ir_OAuthProtocol r \<in> {[], ''imap'', ''graph''}
     \<and> (IsMicrosoftMailboxProvider (ir_Provider r) \<and> ir_ClientID r \<noteq> [] \<and> ir_RefreshToken r \<noteq> [] \<longrightarrow> ir_OAuthProtocol r \<noteq> [])
     \<and> (\<exists>k. import_credential r k \<noteq> None)
     \<and> (\<forall>k v. import_credential r k = Some v \<longrightarrow> trim_space v = v \<and> v \<noteq> [])"
proof -
  obtain r0 where "normalizeMailboxImportRecord parse_address r0 = Inr r"
    using assms by (rule parse_mailbox_line_normal)
  note ok = normalizeMailboxImportRecord_ok [OF this]
  then obtain k v rest where "credential_fields r = (k, v) # rest" by (cases "credential_fields r") auto
  then have "import_credential r k \<noteq> None" by (simp add: import_credential_def)
  moreover have "trim_space v = v \<and> v \<noteq> []" if "import_credential r k = Some v" for k v
    using that credential_fields_trimmed unfolding import_credential_def by (blast dest: map_of_SomeD)
  ultimately show ?thesis using ok by blast
qed

definition demo_line :: string where
  "demo_line = '' X@Outlook.com----pw----rt----Client_ID=7''"

lemma imported_record_normal_witness:
  "\<exists>r. parse_mailbox_line (\<lambda>_. None) Some demo_line = Inr r \<and> ir_Address r = ''x@outlook.com'' \<and> ir_RefreshToken r = ''rt''
     \<and> ir_OAuthProtocol r = ''imap'' \<and> DetectMailboxProvider ''x@outlook.com'' = Some (ir_Provider r)"
proof -
  have "map_sum id (\<lambda>r. (ir_Address r, ir_RefreshToken r, ir_OAuthProtocol r)) (parse_mailbox_line (\<lambda>_. None) Some demo_line)
      = Inr (''x@outlook.com'', ''rt'', ''imap'')" by code_simp
  then obtain r where r: "parse_mailbox_line (\<lambda>_. None) Some demo_line = Inr r" "ir_Address r = ''x@outlook.com''"
      "ir_RefreshToken r = ''rt''" "ir_OAuthProtocol r = ''imap''"
    by (cases "parse_mailbox_line (\<lambda>_. None) Some demo_line") auto
  then show ?thesis using imported_record_normal [OF r(1)] by metis
qed

subsection \<open>The counts of an import\<close>

text \<open>The records the parser accepts, with the numbers of their lines, and what saving them does.\<close>

definition accepted :: "(string \<Rightarrow> import_error + MailboxImportRecord) \<Rightarrow> nat \<Rightarrow> string list \<Rightarrow> (nat \<times> MailboxImportRecord) list" where
  "accepted parse n lines = [(i, r). (i, line) \<leftarrow> enumerate n lines, r \<leftarrow> (case parse line of Inl _ \<Rightarrow> [] | Inr r \<Rightarrow> [r])]"

definition save_all :: "(nat \<Rightarrow> MailboxImportRecord \<Rightarrow> 's \<Rightarrow> string option \<times> 's) \<Rightarrow> (nat \<times> MailboxImportRecord) list \<Rightarrow> 's \<Rightarrow> 's" where
  "save_all save rs s = fold (\<lambda>(n, r) s. snd (save n r s)) rs s"

text \<open>The lines that fail, with their messages: those that cannot be parsed and those whose record the store rejects when the records
  are saved one after the other.\<close>

definition parse_failures :: "(string \<Rightarrow> import_error + MailboxImportRecord) \<Rightarrow> nat \<Rightarrow> string list \<Rightarrow> (nat \<times> string) list" where
  "parse_failures parse n lines =
     [(i, e). (i, line) \<leftarrow> enumerate n lines, e \<leftarrow> (case parse line of Inl (ImportError e) \<Rightarrow> [e] | _ \<Rightarrow> [])]"

fun save_failures :: "(nat \<Rightarrow> MailboxImportRecord \<Rightarrow> 's \<Rightarrow> string option \<times> 's) \<Rightarrow> (nat \<times> MailboxImportRecord) list \<Rightarrow> 's \<Rightarrow> (nat \<times> string) list" where
  "save_failures save [] s = []"
| "save_failures save ((i, r) # rs) s =
     (case fst (save i r s) of None \<Rightarrow> [] | Some e \<Rightarrow> [(i, e)]) @ save_failures save rs (snd (save i r s))"

definition import_failures ::
  "(string \<Rightarrow> import_error + MailboxImportRecord) \<Rightarrow> (nat \<Rightarrow> MailboxImportRecord \<Rightarrow> 's \<Rightarrow> string option \<times> 's)
    \<Rightarrow> nat \<Rightarrow> string list \<Rightarrow> 's \<Rightarrow> (nat \<times> string) list" where
  "import_failures parse save n lines s =
     sort_key fst (parse_failures parse n lines @ save_failures save (accepted parse n lines) s)"

text \<open>Failures count from line one.\<close>

definition reported :: "nat \<times> string \<Rightarrow> MailboxImportLineError" where
  "reported = (\<lambda>(i, e). \<lparr> le_Line = i + 1, le_Message = e \<rparr>)"

lemma accepted_simps [simp]:
  "accepted parse n [] = []"
  "accepted parse n (line # lines) = (case parse line of Inl _ \<Rightarrow> [] | Inr r \<Rightarrow> [(n, r)]) @ accepted parse (Suc n) lines"
  by (simp_all add: accepted_def split: sum.split)

lemma parse_failures_simps [simp]:
  "parse_failures parse n [] = []"
  "parse_failures parse n (line # lines) =
     (case parse line of Inl (ImportError e) \<Rightarrow> [(n, e)] | _ \<Rightarrow> []) @ parse_failures parse (Suc n) lines"
  by (simp_all add: parse_failures_def split: sum.split import_error.split)

lemma failure_lines:
  "x \<in> set (parse_failures parse n lines) \<Longrightarrow> n \<le> fst x \<and> fst x < n + length lines"
  "y \<in> set (accepted parse n lines) \<Longrightarrow> n \<le> fst y \<and> fst y < n + length lines"
  by (auto simp: parse_failures_def accepted_def in_set_enumerate_eq)

lemma save_failures_lines: "x \<in> set (save_failures save rs s) \<Longrightarrow> fst x \<in> fst ` set rs"
  by (induction save rs s rule: save_failures.induct) (auto split: option.splits)

lemma sort_key_least:
  "(\<And>y. y \<in> set xs \<Longrightarrow> f x < f y) \<Longrightarrow> (\<And>y. y \<in> set ys \<Longrightarrow> f x \<le> f y) \<Longrightarrow> sort_key f (xs @ x # ys) = x # sort_key f (xs @ ys)"
proof (induction xs)
  case Nil
  then show ?case by (simp add: insort_is_Cons)
next
  case (Cons a xs)
  then have "\<not> f a \<le> f x" by (simp add: not_le)
  then show ?case using Cons by simp
qed

lemma import_failures_simps:
  "import_failures parse save n [] s = []"
  "import_failures parse save n (line # lines) s =
     (case parse line of
        Inl ErrMailboxImportHeader \<Rightarrow> import_failures parse save (Suc n) lines s
      | Inl (ImportError e) \<Rightarrow> (n, e) # import_failures parse save (Suc n) lines s
      | Inr r \<Rightarrow> (case fst (save n r s) of None \<Rightarrow> [] | Some e \<Rightarrow> [(n, e)]) @ import_failures parse save (Suc n) lines (snd (save n r s)))"
proof -
  have later: "n < fst y" if "y \<in> set (parse_failures parse (Suc n) lines)" for y using failure_lines(1) [OF that] by simp
  have later': "n < fst y" if "y \<in> set (save_failures save (accepted parse (Suc n) lines) t)" for y t
    using save_failures_lines [OF that] failure_lines(2) by fastforce
  show "import_failures parse save n (line # lines) s =
     (case parse line of
        Inl ErrMailboxImportHeader \<Rightarrow> import_failures parse save (Suc n) lines s
      | Inl (ImportError e) \<Rightarrow> (n, e) # import_failures parse save (Suc n) lines s
      | Inr r \<Rightarrow> (case fst (save n r s) of None \<Rightarrow> [] | Some e \<Rightarrow> [(n, e)]) @ import_failures parse save (Suc n) lines (snd (save n r s)))"
  proof (cases "parse line")
    case (Inl e)
    have "sort_key fst ([] @ (n, m) # parse_failures parse (Suc n) lines @ save_failures save (accepted parse (Suc n) lines) s)
        = (n, m) # sort_key fst ([] @ parse_failures parse (Suc n) lines @ save_failures save (accepted parse (Suc n) lines) s)" for m
      by (rule sort_key_least) (auto dest: later later')
    then show ?thesis using Inl by (cases e) (simp_all add: import_failures_def)
  next
    case (Inr r)
    have "sort_key fst (parse_failures parse (Suc n) lines @ (n, m) # save_failures save (accepted parse (Suc n) lines) t)
        = (n, m) # sort_key fst (parse_failures parse (Suc n) lines @ save_failures save (accepted parse (Suc n) lines) t)" for m t
      by (rule sort_key_least) (auto dest: later later')
    then show ?thesis using Inr by (simp add: import_failures_def split: option.split)
  qed
qed (simp add: import_failures_def)

definition report_ok :: "nat \<Rightarrow> MailboxImportResult \<Rightarrow> bool" where
  "report_ok n result \<longleftrightarrow> length (im_Errors result) = min 100 (im_Failed result)
     \<and> sorted_wrt (<) (map le_Line (im_Errors result)) \<and> (\<forall>e\<in>set (im_Errors result). 1 \<le> le_Line e \<and> le_Line e \<le> n)
     \<and> im_Imported result + im_Failed result + im_Skipped result = n"

lemma report_ok_failed: "report_ok n result \<Longrightarrow> report_ok (Suc n) (failed_line (Suc n) e result)"
  by (fastforce simp: report_ok_def failed_line_def sorted_wrt_append)

lemma report_ok_skipped: "report_ok n result \<Longrightarrow> report_ok (Suc n) (result\<lparr>im_Skipped := Suc (im_Skipped result)\<rparr>)"
  by (fastforce simp: report_ok_def)

lemma report_ok_imported: "report_ok n result \<Longrightarrow> report_ok (Suc n) (result\<lparr>im_Imported := Suc (im_Imported result)\<rparr>)"
  by (fastforce simp: report_ok_def)

lemma import_lines_spec:
  "report_ok n result \<Longrightarrow> report_ok (n + length lines) (fst (import_lines parse save n lines result s))
     \<and> snd (import_lines parse save n lines result s) = save_all save (accepted parse n lines) s"
proof (induction parse save n lines result s rule: import_lines.induct)
  case (1 parse save n result s)
  then show ?case by (simp add: save_all_def)
next
  case (2 parse save n line lines result s)
  show ?case
  proof (cases "parse line")
    case (Inl e)
    then show ?thesis
      using 2 by (cases e) (simp_all add: report_ok_failed report_ok_skipped)
  next
    case (Inr r)
    obtain e s' where "save n r s = (e, s')" by fastforce
    then show ?thesis
      using 2 Inr by (cases e) (simp_all add: report_ok_failed report_ok_imported save_all_def)
  qed
qed

lemma take_reported: "length es < 100 \<Longrightarrow> es @ take (100 - length es) (x # xs) = (es @ [x]) @ take (100 - length (es @ [x])) xs"
proof -
  assume "length es < 100"
  then have "100 - length es = Suc (99 - length es)" by simp
  then show ?thesis by simp
qed

lemma import_lines_counts:
  "im_Failed (fst (import_lines parse save n lines result s)) = im_Failed result + length (import_failures parse save n lines s)
   \<and> im_Skipped (fst (import_lines parse save n lines result s))
       = im_Skipped result + length (filter (\<lambda>line. parse line = Inl ErrMailboxImportHeader) lines)
   \<and> im_Errors (fst (import_lines parse save n lines result s))
       = im_Errors result @ take (100 - length (im_Errors result)) (map reported (import_failures parse save n lines s))"
proof (induction parse save n lines result s rule: import_lines.induct)
  case (1 parse save n result s)
  then show ?case by (simp add: import_failures_simps)
next
  case (2 parse save n line lines result s)
  have failed: "im_Errors (failed_line (n + 1) e result)
        @ take (100 - length (im_Errors (failed_line (n + 1) e result))) (map reported fs)
      = im_Errors result @ take (100 - length (im_Errors result)) (map reported ((n, e) # fs))" for e fs
    using take_reported [of "im_Errors result" "reported (n, e)"] by (simp add: failed_line_def reported_def)
  have count: "im_Failed (failed_line (Suc n) e result) = Suc (im_Failed result)" "im_Skipped (failed_line (Suc n) e result) = im_Skipped result" for e
    by (simp_all add: failed_line_def)
  show ?case
  proof (cases "parse line")
    case (Inl e)
    then show ?thesis using 2 failed by (cases e) (simp_all add: import_failures_simps count)
  next
    case (Inr r)
    obtain e s' where "save n r s = (e, s')" by fastforce
    then show ?thesis using 2 Inr failed by (cases e) (simp_all add: import_failures_simps count)
  qed
qed

text \<open>C30: An import accounts for every line it reads.  The lines that fail are those that cannot be parsed and those whose record the
  store rejects; the report counts them and holds the first hundred of them, in the order of the lines and with their messages.
  The lines that only name the columns are skipped, every other line is imported, and exactly the records that the parser accepts
  were handed to the store, in the order of the file, the failing ones not stopping those behind them.\<close>

theorem import_accounts_for_lines:
  "case StreamMailboxImport parse save content read_error s of (result, err, s') \<Rightarrow>
     let lines = fst (scan_lines content read_error); saved = accepted parse 0 lines;
         failed = sort_key fst (parse_failures parse 0 lines @ save_failures save saved s)
     in im_Imported result + length (save_failures save saved s) = length saved
     \<and> im_Failed result = length failed
     \<and> im_Skipped result = length (filter (\<lambda>line. parse line = Inl ErrMailboxImportHeader) lines)
     \<and> im_Imported result + im_Failed result + im_Skipped result = length lines
     \<and> im_Errors result = take 100 (map (\<lambda>(i, e). \<lparr> le_Line = i + 1, le_Message = e \<rparr>) failed)
     \<and> sorted_wrt (<) (map le_Line (im_Errors result))
     \<and> set (map le_Line (im_Errors result)) \<subseteq> {1..length lines}
     \<and> s' = save_all save saved s"
proof -
  let ?lines = "fst (scan_lines content read_error)"
  let ?start = "\<lparr> im_Imported = 0, im_Failed = 0, im_Skipped = 0, im_Errors = [] \<rparr>"
  obtain result s' where r: "import_lines parse save 0 ?lines ?start s = (result, s')" by fastforce
  have "report_ok 0 ?start" by (simp add: report_ok_def)
  then have ok: "report_ok (length ?lines) result" and s': "s' = save_all save (accepted parse 0 ?lines) s"
    using import_lines_spec [of 0 ?start ?lines parse save s] by (simp_all add: r)
  have c: "im_Failed result = length (import_failures parse save 0 ?lines s)"
    "im_Skipped result = length (filter (\<lambda>line. parse line = Inl ErrMailboxImportHeader) ?lines)"
    "im_Errors result = take 100 (map reported (import_failures parse save 0 ?lines s))"
    using import_lines_counts [of parse save 0 ?lines ?start s] by (simp_all add: r)
  have "length (parse_failures parse n lines) + length (accepted parse n lines)
      + length (filter (\<lambda>line. parse line = Inl ErrMailboxImportHeader) lines) = length lines" for n lines
    by (induction lines arbitrary: n) (auto split: sum.split import_error.split)
  from this [of 0 ?lines] have "im_Imported result + length (save_failures save (accepted parse 0 ?lines) s) = length (accepted parse 0 ?lines)"
    using ok c(1,2) by (simp add: report_ok_def import_failures_def)
  then show ?thesis
    using ok c s' r by (auto simp: StreamMailboxImport_def report_ok_def Let_def reported_def import_failures_def split: prod.splits)
qed

end
