(* ===== verification/Verifier.thy ===== *)
theory Verifier
  imports Mail_Worker Queues Listings
begin

text \<open>
  The verification of a mailbox, reading its mail on request and the scan of its old mail,
  \<^verbatim>\<open>internal/mail/verification.go\<close>, and the worker that does both for the queued mailboxes,
  \<^verbatim>\<open>internal/mail/verification_worker.go\<close>.  The verifier is built with both clients and the IMAP connector; a client
  may be absent.  \<open>out p\<close> is the outside at the call with the path \<open>p\<close>, as in \<open>Mail_Worker\<close>.
\<close>

record verifier =
  vf_graph :: "MicrosoftConfig option"
  vf_oauth :: "GoogleConfig option"

record MailboxVerificationResult =
  vr_Method :: string
  vr_Status :: string
  vr_VerifiedAt :: time

definition no_result :: MailboxVerificationResult where
  "no_result = \<lparr> vr_Method = [], vr_Status = [], vr_VerifiedAt = zero_time \<rparr>"

text \<open>The credential as it changes during a call, and the database.\<close>

record access =
  ac_config :: credential
  ac_db :: db

text \<open>Who asks for what.\<close>

record request =
  rq_actor :: string
  rq_mailbox :: string
  rq_ip :: string

definition save_config :: "mail_lib \<Rightarrow> outside \<Rightarrow> request \<Rightarrow> time \<Rightarrow> access \<Rightarrow> string option \<times> access" where
  "save_config lib out rq validUntil a =
     (case save_credential lib (o_env out) (rq_actor rq) (rq_mailbox rq) (ac_config a) validUntil (rq_ip rq) (ac_db a) of
        (err, db') \<Rightarrow> (err, a\<lparr>ac_db := db'\<rparr>))"

text \<open>A refresh: an error of the client, or the refreshed credential merged and saved.\<close>

definition refresh_and_save ::
  "mail_lib \<Rightarrow> outside \<Rightarrow> request \<Rightarrow> string + (credential \<times> time) \<Rightarrow> access \<Rightarrow> string + (time \<times> string option \<times> access)" where
  "refresh_and_save lib out rq refreshed a =
     (case refreshed of
        Inl e \<Rightarrow> Inl e
      | Inr (refreshed, validUntil) \<Rightarrow>
          Inr (validUntil, save_config lib out rq validUntil (a\<lparr>ac_config := mergeCredential (ac_config a) refreshed\<rparr>)))"

subsection \<open>Verifying a mailbox\<close>

definition verifyGraphAccess :: "outside \<Rightarrow> MicrosoftConfig \<Rightarrow> string \<Rightarrow> string \<Rightarrow> string option" where
  "verifyGraphAccess out c address accessToken =
     (case ms_Profile (o_net out) 0 c accessToken of
        Inl e \<Rightarrow> Some e
      | Inr profile \<Rightarrow>
        if \<not> equal_fold profile address then Some msg_graph_account_mismatch
        else (case ms_Messages (o_net out) 1 c accessToken of Inl e \<Rightarrow> Some e | Inr _ \<Rightarrow> None))"

definition markVerified ::
  "mail_lib \<Rightarrow> outside \<Rightarrow> request \<Rightarrow> string \<Rightarrow> time \<Rightarrow> db \<Rightarrow> MailboxVerificationResult \<times> string option \<times> db" where
  "markVerified lib out rq connection now db =
     (case run_tx (UpdateMailboxVerification (o_env out) (rq_actor rq) (rq_mailbox rq) connection MailboxVerificationVerified [] now (rq_ip rq)) db of
        (Inl e, db') \<Rightarrow> (no_result, Some (ml_text lib e), db')
      | (Inr _, db') \<Rightarrow> (\<lparr> vr_Method = connection, vr_Status = MailboxVerificationVerified, vr_VerifiedAt = now \<rparr>, None, db'))"

definition persistIMAPAuthMethod ::
  "mail_lib \<Rightarrow> outside \<Rightarrow> request \<Rightarrow> time \<Rightarrow> string \<Rightarrow> access \<Rightarrow> string option \<times> db" where
  "persistIMAPAuthMethod lib out rq validUntil authMethod a =
     (if equal_fold (trimmed (ac_config a) ''imap_auth_method'') authMethod then (None, ac_db a)
      else save_credential lib (o_env out) (rq_actor rq) (rq_mailbox rq) ((cloneCredential (ac_config a))(''imap_auth_method'' \<mapsto> authMethod))
             validUntil (rq_ip rq) (ac_db a))"

definition refreshMicrosoftIMAPCredential :: "outside \<Rightarrow> verifier \<Rightarrow> credential \<Rightarrow> string + (credential \<times> time)" where
  "refreshMicrosoftIMAPCredential out v config =
     (case vf_graph v of None \<Rightarrow> Inl msg_ms_unconfigured
      | Some c \<Rightarrow> ms_RefreshIMAPCredential (o_net out) 0 (clock (o_env out) 1) c config)"

text \<open>The credential a Google mailbox logs in with; an error leaves it as it was.\<close>

definition refreshGoogleCredential ::
  "mail_lib \<Rightarrow> outside \<Rightarrow> verifier \<Rightarrow> request \<Rightarrow> Mailbox \<Rightarrow> bool \<Rightarrow> credential \<Rightarrow> db \<Rightarrow> (string + credential) \<times> db" where
  "refreshGoogleCredential lib out v rq mailbox force config db =
     (if \<not> isGmailMailbox mailbox \<or> trimmed config ''password'' \<noteq> [] then (Inr config, db)
      else case vf_oauth v of
          None \<Rightarrow> (if trimmed config ''access_token'' \<noteq> [] then Inr config else Inl msg_google_unconfigured, db)
        | Some c \<Rightarrow>
          let validUntil = cfg_time (trimmed config ''expires_at'')
          in if \<not> force \<and> trimmed config ''access_token'' \<noteq> []
                \<and> (is_zero validUntil \<or> validUntil > clock (o_env out) 2 + 30 * second)
             then (Inr config, db)
             else if trimmed config ''refresh_token'' = [] then (Inl msg_google_no_refresh, db)
             else (case google_RefreshCredential (o_net out) 0 (clock (o_env out) 1) (Some c) config of
                 Inl e \<Rightarrow> (Inl e, db)
               | Inr (refreshed, newValidUntil) \<Rightarrow>
                 let merged = mergeCredential config refreshed
                 in (case save_credential lib (o_env out) (rq_actor rq) (mbx_ID mailbox) merged newValidUntil (rq_ip rq) db of
                       (Some e, db') \<Rightarrow> (Inl e, db')
                     | (None, db') \<Rightarrow> (Inr merged, db'))))"

text \<open>What kind of access a mailbox has; computed once from its credential.\<close>

definition graph_first :: "Mailbox \<Rightarrow> credential \<Rightarrow> bool" where
  "graph_first box config \<longleftrightarrow> supportsMicrosoftGraph box \<and> mbx_ConnectionMethod box \<noteq> MailboxConnectionIMAP
     \<and> \<not> (isMicrosoftIMAPOAuth box config \<or> isMicrosoftIMAPPassword box config)
     \<and> (cfg config ''access_token'' \<noteq> [] \<or> cfg config ''refresh_token'' \<noteq> [])"

definition token_expired :: "credential \<Rightarrow> time \<Rightarrow> bool" where
  "token_expired config now = (cfg config ''access_token'' = []
     \<or> \<not> is_zero (cfg_time (cfg config ''expires_at'')) \<and> \<not> cfg_time (cfg config ''expires_at'') > now)"

text \<open>The attempt over Graph: the error it ends with, whether it refreshed the token, and the credential.\<close>

definition graph_refresh ::
  "mail_lib \<Rightarrow> outside \<Rightarrow> MicrosoftConfig \<Rightarrow> request \<Rightarrow> access \<Rightarrow> string option \<times> bool \<times> access" where
  "graph_refresh lib out c rq a =
     (case refresh_and_save lib out rq (ms_RefreshCredential (o_net out) 0 (clock (o_env out) 1) c (ac_config a)) a of
        Inl e \<Rightarrow> (Some e, False, a)
      | Inr (_, err, a') \<Rightarrow> (err, err = None, a'))"

definition graph_retry ::
  "mail_lib \<Rightarrow> calls \<Rightarrow> MicrosoftConfig \<Rightarrow> request \<Rightarrow> string \<Rightarrow> string option \<Rightarrow> access \<Rightarrow> string option \<times> bool \<times> access" where
  "graph_retry lib out c rq address graphErr a =
     (case refresh_and_save lib (out [0]) rq (ms_RefreshCredential (o_net (out [0])) 0 (clock (o_env (out [0])) 1) c (ac_config a)) a of
        Inl _ \<Rightarrow> (graphErr, False, a)
      | Inr (_, Some e, a') \<Rightarrow> (Some e, False, a')
      | Inr (_, None, a') \<Rightarrow>
          let err = verifyGraphAccess (out [1]) c address (cfg (ac_config a') ''access_token'') in (err, err = None, a'))"

definition graph_token ::
  "mail_lib \<Rightarrow> outside \<Rightarrow> MicrosoftConfig \<Rightarrow> request \<Rightarrow> time \<Rightarrow> access \<Rightarrow> string option \<times> bool \<times> access" where
  "graph_token lib out c rq now a =
     (if token_expired (ac_config a) now then graph_refresh lib out c rq a else (None, False, a))"

definition graph_check ::
  "mail_lib \<Rightarrow> calls \<Rightarrow> MicrosoftConfig \<Rightarrow> request \<Rightarrow> string \<Rightarrow> bool \<Rightarrow> access \<Rightarrow> string option \<times> bool \<times> access" where
  "graph_check lib out c rq address didRefresh a =
     (let graphErr = verifyGraphAccess (out [2]) c address (cfg (ac_config a) ''access_token'')
      in if graphErr \<noteq> None \<and> \<not> didRefresh \<and> cfg (ac_config a) ''refresh_token'' \<noteq> []
         then graph_retry lib (\<lambda>p. out (3 # p)) c rq address graphErr a else (graphErr, didRefresh, a))"

definition graph_extend ::
  "mail_lib \<Rightarrow> outside \<Rightarrow> request \<Rightarrow> time \<Rightarrow> time \<Rightarrow> string option \<times> bool \<times> access \<Rightarrow> string option \<times> access" where
  "graph_extend lib out rq validUntil now = (\<lambda>(graphErr, didRefresh, a).
     if graphErr = None \<and> \<not> didRefresh
     then save_config lib out rq (if is_zero validUntil then now + 15 * minute else validUntil) a
     else (graphErr, a))"

definition verify_graph ::
  "mail_lib \<Rightarrow> calls \<Rightarrow> MicrosoftConfig \<Rightarrow> request \<Rightarrow> Mailbox \<Rightarrow> time \<Rightarrow> access
    \<Rightarrow> (MailboxVerificationResult \<times> string option \<times> db) + string option \<times> access" where
  "verify_graph lib out c rq box now a =
     (case graph_token lib (out [1]) c rq now a of (graphErr, didRefresh, a1) \<Rightarrow>
        if graphErr \<noteq> None \<or> cfg (ac_config a1) ''access_token'' = [] then Inr (graphErr, a1)
        else case graph_extend lib (out [4]) rq (cfg_time (cfg (ac_config a) ''expires_at'')) now
                    (graph_check lib out c rq (mbx_Address box) didRefresh a1) of
            (None, a2) \<Rightarrow> Inl (markVerified lib (out [5]) rq MailboxConnectionMicrosoftGraph now (ac_db a2))
          | (Some e, a2) \<Rightarrow> Inr (Some e, a2))"

text \<open>The credential to log in with over IMAP, the time it is valid until, and the credential of the mailbox; or an error.\<close>

definition imap_ready ::
  "mail_lib \<Rightarrow> outside \<Rightarrow> verifier \<Rightarrow> request \<Rightarrow> Mailbox \<Rightarrow> bool \<Rightarrow> bool \<Rightarrow> time \<Rightarrow> access \<Rightarrow> (string + credential) \<times> time \<times> access" where
  "imap_ready lib out v rq box imapOAuth imapPassword now a =
     (let until0 = cfg_time (trimmed (ac_config a) ''expires_at'');
          imapValidUntil = (if is_zero until0 then mbx_OAuthValidUntil box else until0)
      in if imapOAuth
         then (if imapOAuthCredentialNeedsRefresh (ac_config a) now
               then (case refresh_and_save lib out rq (refreshMicrosoftIMAPCredential out v (credentialForIMAPOAuth (ac_config a))) a of
                       Inl e \<Rightarrow> (Inl e, imapValidUntil, a)
                     | Inr (validUntil, Some e, a') \<Rightarrow> (Inl e, validUntil, a')
                     | Inr (validUntil, None, a') \<Rightarrow> (Inr (ac_config a'), validUntil, a'))
               else (Inr (ac_config a), imapValidUntil, a))
         else if imapPassword then (Inr (credentialForIMAPFallback (ac_config a)), imapValidUntil, a)
         else (case refreshGoogleCredential lib out v rq box False (credentialForIMAPFallback (ac_config a)) (ac_db a) of
                 (r, db') \<Rightarrow> (r, imapValidUntil, a\<lparr>ac_db := db'\<rparr>)))"

definition verify_imap ::
  "mail_lib \<Rightarrow> calls \<Rightarrow> verifier \<Rightarrow> request \<Rightarrow> Mailbox \<Rightarrow> bool \<Rightarrow> bool \<Rightarrow> time \<Rightarrow> access
    \<Rightarrow> (MailboxVerificationResult \<times> string option \<times> db) + string \<times> db" where
  "verify_imap lib out v rq box imapOAuth imapPassword now a =
     (let (ready, imapValidUntil, a) = imap_ready lib (out [1]) v rq box imapOAuth imapPassword now a;
          imapErr = (case ready of Inl e \<Rightarrow> Some e | Inr cred \<Rightarrow> imap_Verify (o_imap (out [2])) (mbx_Address box) cred);
          verified = (\<lambda>db. Inl (markVerified lib (out [6]) rq MailboxConnectionIMAP now db));
          remember = imapErr = None \<and> imapOAuth \<and> equal_fold (trimmed (ac_config a) ''imap_auth_method'') [];
          (imapErr, db) = (if remember then persistIMAPAuthMethod lib (out [3]) rq imapValidUntil ''oauth'' a else (imapErr, ac_db a))
      in case imapErr of
           None \<Rightarrow> verified db
         | Some e \<Rightarrow>
             if imapOAuth \<and> trimmed (ac_config a) ''password'' \<noteq> []
             then (case imap_Verify (o_imap (out [4])) (mbx_Address box) (credentialForIMAPFallback (ac_config a)) of
                     None \<Rightarrow>
                       (case persistIMAPAuthMethod lib (out [5]) rq imapValidUntil ''password'' (a\<lparr>ac_db := db\<rparr>) of
                          (None, db') \<Rightarrow> verified db'
                        | (Some saveErr, db') \<Rightarrow> Inr (saveErr, db'))
                   | Some passwordErr \<Rightarrow> Inr (both_errors (Some e) passwordErr, db))
             else Inr (e, db))"

definition mark_failed ::
  "mail_lib \<Rightarrow> outside \<Rightarrow> request \<Rightarrow> string \<Rightarrow> time \<Rightarrow> db \<Rightarrow> MailboxVerificationResult \<times> string option \<times> db" where
  "mark_failed lib out rq message now db =
     (case run_tx (UpdateMailboxVerification (o_env out) (rq_actor rq) (rq_mailbox rq) MailboxConnectionAuto MailboxVerificationFailed message
             now (rq_ip rq)) db of
        (Inl e, db') \<Rightarrow> (no_result, Some (ml_text lib e), db')
      | (Inr _, db') \<Rightarrow> (\<lparr> vr_Method = MailboxConnectionAuto, vr_Status = MailboxVerificationFailed, vr_VerifiedAt = now \<rparr>, Some message, db'))"

definition Verify ::
  "mail_lib \<Rightarrow> calls \<Rightarrow> verifier \<Rightarrow> request \<Rightarrow> db \<Rightarrow> MailboxVerificationResult \<times> string option \<times> db" where
  "Verify lib out v rq db =
     (case GetMailboxCredential (ml_crypto lib) (o_env (out [0])) (rq_mailbox rq) db of
        Inl e \<Rightarrow> (no_result, Some (ml_text lib e), db)
      | Inr mc \<Rightarrow>
        let now = clock (o_env (out [0])) 1; box = mc_Mailbox mc; config = cloneCredential (mc_Config mc);
            imapOAuth = isMicrosoftIMAPOAuth box config; imapPassword = isMicrosoftIMAPPassword box config;
            start = \<lparr> ac_config = config, ac_db = db \<rparr>
        in case (case vf_graph v of
               Some c \<Rightarrow> if graph_first box config then verify_graph lib (\<lambda>p. out (1 # p)) c rq box now start else Inr (Some msg_missing_graph, start)
             | None \<Rightarrow> Inr (Some msg_missing_graph, start)) of
             Inl final \<Rightarrow> final
           | Inr (graphErr, a) \<Rightarrow>
             (case (if imapOAuth \<or> imapPassword \<or> hasIMAPFallbackCredential box (ac_config a) graphErr
                    then verify_imap lib (\<lambda>p. out (2 # p)) v rq box imapOAuth imapPassword now a else Inr (msg_missing_imap, ac_db a)) of
                Inl final \<Rightarrow> final
              | Inr (imapErr, db') \<Rightarrow>
                mark_failed lib (out [3]) rq
                  (if \<not> supportsMicrosoftGraph box \<or> mbx_ConnectionMethod box = MailboxConnectionIMAP \<or> imapOAuth \<or> imapPassword
                   then compactIMAPError (Some imapErr) else compactVerificationError graphErr (Some imapErr)) now db'))"

subsection \<open>Reading the mail of a mailbox\<close>

text \<open>Over Graph: the messages, or the error and the credential to go on with.  Reading all pages need not end; \<open>None\<close> stands for
  that.\<close>

definition error_text :: "string option \<Rightarrow> string" where
  "error_text err = (case err of None \<Rightarrow> ''<nil>'' | Some e \<Rightarrow> e)"

definition read_graph ::
  "mail_lib \<Rightarrow> calls \<Rightarrow> MicrosoftConfig \<Rightarrow> request \<Rightarrow> access \<Rightarrow> ((Message list \<times> db) + string option \<times> access) option" where
  "read_graph lib out c rq a0 =
     (let (graphErr, a) =
            (if token_expired (ac_config a0) (clock (o_env (out [0])) 0)
             then (case graph_refresh lib (out [1]) c rq a0 of (err, _, a) \<Rightarrow> (err, a))
             else (Some msg_missing_graph, a0));
          accessToken = cfg (ac_config a) ''access_token''
      in if (graphErr = None \<or> graphErr = Some msg_missing_graph) \<and> accessToken \<noteq> []
         then (case ms_AllMessages (o_net (out [2])) 0 c accessToken of
                 None \<Rightarrow> None
               | Some (Inr messages) \<Rightarrow> Some (Inl (messages, ac_db a))
               | Some (Inl e) \<Rightarrow> Some (Inr (Some e, a)))
         else Some (Inr (graphErr, a)))"

text \<open>The text of the error of the IMAP part: both errors are named when Graph was tried as well.\<close>

definition read_failure :: "Mailbox \<Rightarrow> bool \<Rightarrow> string option \<Rightarrow> string \<Rightarrow> string" where
  "read_failure box imapOnly graphErr readErr =
     (if \<not> supportsMicrosoftGraph box \<or> imapOnly then msg_imap_prefix @ readErr
      else msg_graph_prefix @ error_text graphErr @ msg_imap_marker @ readErr)"

definition read_imap ::
  "mail_lib \<Rightarrow> calls \<Rightarrow> verifier \<Rightarrow> request \<Rightarrow> Mailbox \<Rightarrow> bool \<Rightarrow> bool \<Rightarrow> string option \<Rightarrow> access \<Rightarrow> (string + Message list) \<times> db" where
  "read_imap lib out v rq box imapOAuth imapPassword graphErr a0 =
     (let (ready, _, a) = imap_ready lib (out [1]) v rq box imapOAuth imapPassword (clock (o_env (out [0])) 0) a0;
          failure = read_failure box (mbx_ConnectionMethod box = MailboxConnectionIMAP \<or> imapOAuth \<or> imapPassword) graphErr
      in case (case ready of Inl e \<Rightarrow> Inl e
                 | Inr cred \<Rightarrow> imap_AllMessages (ml_mime lib) (o_imap (out [2])) (mbx_Address box) cred) of
           Inr messages \<Rightarrow> (Inr messages, ac_db a)
         | Inl readErr \<Rightarrow>
           if imapOAuth \<and> trimmed (ac_config a) ''password'' \<noteq> []
           then (case imap_AllMessages (ml_mime lib) (o_imap (out [3])) (mbx_Address box) (credentialForIMAPFallback (ac_config a)) of
                   Inl passwordErr \<Rightarrow> (Inl (failure (both_errors (Some readErr) passwordErr)), ac_db a)
                 | Inr messages \<Rightarrow>
                   let validUntil = cfg_time (trimmed (ac_config a) ''expires_at'')
                   in (case persistIMAPAuthMethod lib (out [4]) rq (if is_zero validUntil then mbx_OAuthValidUntil box else validUntil)
                              ''password'' a of
                         (Some e, db') \<Rightarrow> (Inl (msg_save_password_failed @ e), db')
                       | (None, db') \<Rightarrow> (Inr messages, db')))
           else (Inl (failure readErr), ac_db a))"

definition ReadMessages ::
  "mail_lib \<Rightarrow> calls \<Rightarrow> verifier \<Rightarrow> request \<Rightarrow> db \<Rightarrow> ((string + Message list) \<times> db) option" where
  "ReadMessages lib out v rq db =
     (case GetMailboxCredential (ml_crypto lib) (o_env (out [0])) (rq_mailbox rq) db of
        Inl e \<Rightarrow> Some (Inl (ml_text lib e), db)
      | Inr mc \<Rightarrow>
        let box = mc_Mailbox mc; config = cloneCredential (mc_Config mc);
            imapOAuth = isMicrosoftIMAPOAuth box config; imapPassword = isMicrosoftIMAPPassword box config;
            start = \<lparr> ac_config = config, ac_db = db \<rparr>
        in case (case vf_graph v of
               Some c \<Rightarrow> if graph_first box config then read_graph lib (\<lambda>p. out (1 # p)) c rq start else Some (Inr (Some msg_missing_graph, start))
             | None \<Rightarrow> Some (Inr (Some msg_missing_graph, start))) of
             None \<Rightarrow> None
           | Some (Inl (messages, db')) \<Rightarrow> Some (Inr messages, db')
           | Some (Inr (graphErr, a)) \<Rightarrow> Some
             (if imapOAuth \<or> imapPassword \<or> hasIMAPFallbackCredential box (ac_config a) graphErr
              then read_imap lib (\<lambda>p. out (2 # p)) v rq box imapOAuth imapPassword graphErr a
              else if \<not> supportsMicrosoftGraph box \<or> mbx_ConnectionMethod box = MailboxConnectionIMAP \<or> imapOAuth \<or> imapPassword
              then (Inl msg_missing_imap, ac_db a)
              else (Inl (msg_graph_prefix @ compactGraphError graphErr), ac_db a)))"

subsection \<open>The scan of old mail\<close>

fun scan_message ::
  "mail_lib \<Rightarrow> (nat \<Rightarrow> env) \<Rightarrow> string \<Rightarrow> Message \<Rightarrow> nat \<Rightarrow> Service list \<Rightarrow> nat \<Rightarrow> db \<Rightarrow> nat \<times> string option \<times> db" where
  "scan_message lib envs mailboxID message k [] matched db = (matched, None, db)"
| "scan_message lib envs mailboxID message k (service # services) matched db =
     (case matchCode (ml_regex lib) service message of
        None \<Rightarrow> scan_message lib envs mailboxID message (k + 1) services matched db
      | Some _ \<Rightarrow>
        (case run_tx (MarkMailboxServiceConsumed (envs k) mailboxID (svc_ID service) (ml_ReceivedAt message)) db of
           (Inl e, db') \<Rightarrow> (matched, Some (ml_text lib e), db')
         | (Inr _, db') \<Rightarrow> scan_message lib envs mailboxID message (k + 1) services (matched + 1) db'))"

fun scan_messages ::
  "mail_lib \<Rightarrow> (nat \<Rightarrow> nat \<Rightarrow> env) \<Rightarrow> string \<Rightarrow> Service list \<Rightarrow> nat \<Rightarrow> Message list \<Rightarrow> nat \<Rightarrow> db \<Rightarrow> nat \<times> string option \<times> db" where
  "scan_messages lib envs mailboxID services n [] matched db = (matched, None, db)"
| "scan_messages lib envs mailboxID services n (message # messages) matched db =
     (case scan_message lib (envs n) mailboxID message 0 services matched db of
        (matched', Some e, db') \<Rightarrow> (matched', Some e, db')
      | (matched', None, db') \<Rightarrow> scan_messages lib envs mailboxID services (n + 1) messages matched' db')"

definition ScanMailboxHistory :: "mail_lib \<Rightarrow> calls \<Rightarrow> verifier \<Rightarrow> request \<Rightarrow> db \<Rightarrow> (nat \<times> string option \<times> db) option" where
  "ScanMailboxHistory lib out v rq db =
     (case ReadMessages lib (\<lambda>p. out (0 # p)) v rq db of
        None \<Rightarrow> None
      | Some (Inl e, db') \<Rightarrow> Some (0, Some e, db')
      | Some (Inr messages, db') \<Rightarrow>
          Some (scan_messages lib (\<lambda>n k. o_env (out [2, n, k])) (rq_mailbox rq) (ListServices (o_env (out [1])) db') 0 messages 0 db'))"

subsection \<open>The worker\<close>

text \<open>One turn of the loop that verifies: \<open>busy\<close> holds the mailboxes that other turns are working on, \<open>fail\<close> the commands to Redis
  that fail.  A turn that finds nothing, or a mailbox in work, only loses its job.\<close>

definition consume ::
  "mail_lib \<Rightarrow> calls \<Rightarrow> (nat \<Rightarrow> bool) \<Rightarrow> bool \<Rightarrow> verifier \<Rightarrow> string list \<Rightarrow> redis \<times> db \<Rightarrow> redis \<times> db" where
  "consume lib out fail enqueue_fails v busy = (\<lambda>(rd, db).
     case DequeueMailboxVerification fail rd of
        (Inl _, rd') \<Rightarrow> (rd', db)
      | (Inr mailboxID, rd') \<Rightarrow>
        if mailboxID = [] \<or> mailboxID \<in> set busy then (rd', db)
        else (case Verify lib out v \<lparr> rq_actor = ''system'', rq_mailbox = mailboxID, rq_ip = [] \<rparr> db of
            (_, Some _, db') \<Rightarrow> (rd', db')
          | (_, None, db') \<Rightarrow> (snd (EnqueueMailboxHistoryScan enqueue_fails mailboxID rd'), db')))"

definition consumeHistory ::
  "mail_lib \<Rightarrow> calls \<Rightarrow> (nat \<Rightarrow> bool) \<Rightarrow> verifier \<Rightarrow> redis \<times> db \<Rightarrow> (redis \<times> db) option" where
  "consumeHistory lib out fail v = (\<lambda>(rd, db).
     case DequeueMailboxHistoryScan fail rd of
        (Inl _, rd') \<Rightarrow> Some (rd', db)
      | (Inr mailboxID, rd') \<Rightarrow>
        if mailboxID = [] then Some (rd', db)
        else map_option (\<lambda>(_, _, db'). (rd', db'))
               (ScanMailboxHistory lib out v \<lparr> rq_actor = ''system'', rq_mailbox = mailboxID, rq_ip = [] \<rparr> db))"

fun enqueue_each :: "(nat \<Rightarrow> bool) \<Rightarrow> nat \<Rightarrow> string list \<Rightarrow> redis \<Rightarrow> redis" where
  "enqueue_each fails k [] rd = rd"
| "enqueue_each fails k (i # ids) rd = enqueue_each fails (k + 1) ids (snd (EnqueueMailboxVerification (fails k) i rd))"

definition reconcile :: "env \<Rightarrow> (nat \<Rightarrow> bool) \<Rightarrow> redis \<times> db \<Rightarrow> redis \<times> db" where
  "reconcile env fails = (\<lambda>(rd, db).
     case PendingMailboxVerificationIDs env 5000 db of
       Inl _ \<Rightarrow> (rd, db)
     | Inr ids \<Rightarrow> (enqueue_each fails 0 ids rd, db))"

definition worker_limits :: "int \<Rightarrow> int \<Rightarrow> int \<times> int" where
  "worker_limits concurrency0 historyConcurrency0 =
     (let concurrency = (if concurrency0 < 1 then 1 else concurrency0);
          concurrency = (if concurrency > 128 then 128 else concurrency);
          historyConcurrency = (if historyConcurrency0 < 1 then 1 else historyConcurrency0);
          historyConcurrency = (if historyConcurrency > 32 then 32 else historyConcurrency)
      in (concurrency, historyConcurrency))"

subsection \<open>What a call leaves alone\<close>















subsection \<open>The verdict\<close>



















end
