(* ===== verification/Finality.thy ===== *)
theory Finality
  imports Mailboxes
begin

text \<open>
  A delivered code is final.  An order whose code was received stays received (or completed), with that code and not
  refunded, through every later run of the store: the order operations, the two sweeps, the release of a mailbox that fails its
  verification, and any change that leaves the table of orders alone.  Nothing is assumed about the rest of the database, so the other
  operations, those that may break the leases included, can come in between.
\<close>

subsection \<open>Delivered orders\<close>

definition final_row :: "Order \<Rightarrow> sqlOrder \<Rightarrow> bool" where
  "final_row order r \<longleftrightarrow> (o_Status r = OrderCodeReceived \<or> o_Status r = OrderCompleted)
     \<and> o_Code r = ord_Code order \<and> o_Refunded r = ord_Refunded order \<and> o_UserID r = ord_UserID order"

text \<open>The order is in the table, as it was delivered.\<close>

definition delivered :: "Order \<Rightarrow> db \<Rightarrow> bool" where
  "delivered order db \<longleftrightarrow> ord_ID order \<in> o_ID ` set (db_orders db)
     \<and> (\<forall>r\<in>set (db_orders db). o_ID r = ord_ID order \<longrightarrow> final_row order r)"

text \<open>Everything that can happen to the table of orders later.\<close>

inductive store_step :: "db \<Rightarrow> db \<Rightarrow> bool" where
  later_create: "store_step db (snd (allocate_order env locked uid sid rid ps db))"
| later_receive: "store_step db (snd (run_tx (ReceiveCodeValue env oid code) db))"
| later_complete: "store_step db (snd (run_tx (CompleteOrder env oid uid) db))"
| later_cancel: "store_step db (snd (run_tx (CancelOrder env oid uid) db))"
| later_reap: "store_step db (snd (ReapExpired envs db))"
| later_reconcile: "store_step db (snd (ReconcileInvalidMailboxOrders envs db))"
| later_verification:
    "store_step db (snd (run_tx (UpdateMailboxVerification env actorID mailboxID connection status err verifiedAt ip) db))"
| later_other: "db_orders db' = db_orders db \<Longrightarrow> store_step db db'"

lemma delivered_same: "db_orders db' = db_orders db \<Longrightarrow> delivered order db' \<longleftrightarrow> delivered order db"
  by (simp add: delivered_def)

lemma delivered_frame [simp]:
  "delivered order (db\<lparr>db_users := us\<rparr>) = delivered order db" "delivered order (db\<lparr>db_mailboxes := ms\<rparr>) = delivered order db"
  "delivered order (db\<lparr>db_states := ss\<rparr>) = delivered order db" "delivered order (db\<lparr>db_ledgers := ls\<rparr>) = delivered order db"
  "delivered order (db\<lparr>db_audits := as\<rparr>) = delivered order db" "delivered order (db\<lparr>db_deliveries := ds\<rparr>) = delivered order db"
  by (simp_all add: delivered_def)

lemma delivered_open: "delivered order db \<Longrightarrow> r \<in> set (db_orders db) \<Longrightarrow> order_open r \<Longrightarrow> o_ID r \<noteq> ord_ID order"
  by (auto simp: delivered_def final_row_def order_open_def)

lemma delivered_save:
  assumes "delivered order db" and "o_ID r = ord_ID order \<Longrightarrow> final_row order r"
  shows "delivered order (db1\<lparr>db_orders := upsert o_ID r (db_orders db)\<rparr>)"
proof -
  obtain x where x: "x \<in> set (db_orders db)" "o_ID x = ord_ID order" using assms(1) by (auto simp: delivered_def)
  have "ord_ID order \<in> o_ID ` set (upsert o_ID r (db_orders db))"
    using x by (intro image_eqI [of _ _ "if o_ID x = o_ID r then r else x"]) (simp_all add: set_upsert)
  then show ?thesis using assms by (auto simp: delivered_def set_upsert)
qed

lemma delivered_logs: "same_but_logs db db' \<Longrightarrow> delivered order db' \<longleftrightarrow> delivered order db"
  by (intro delivered_same same_but_logsD(2))

subsection \<open>No operation touches a delivered order\<close>

lemma release_service_delivered:
  "delivered order db \<Longrightarrow> tx_ok (release_service env n r status) db (\<lambda>_. delivered order)"
  by (simp add: release_service_def save_state_def create_audit_def Let_def tx_simps)

lemma enqueue_delivered: "delivered order db \<Longrightarrow> tx_ok (enqueueOrderWebhook env n r event) db (\<lambda>_. delivered order)"
  by (rule tx_ok_weaken [OF tx_ok_enqueue_logs [OF same_but_logs_refl]]) (simp add: delivered_logs)

lemma refundOrder_delivered:
  assumes "delivered order db" and "o_ID r \<noteq> ord_ID order"
  shows "tx_ok (refundOrder env n r status) db (\<lambda>_. delivered order)"
proof -
  have tail: "tx_ok (tx_then (release_service env a r' status) (tx_then (create_ledger env b l)
      (tx_then (tx_when c (create_audit env d e)) (tx_then (enqueueOrderWebhook env f r' ev) (tx_return r'))))) db1 (\<lambda>_. delivered order)"
    if "delivered order db1" for db1 a b c d e f l ev r'
    unfolding tx_ok_then [of "release_service _ _ _ _"]
  proof (rule tx_ok_weaken [OF release_service_delivered [OF that]])
    fix db2 assume "delivered order db2"
    then show "tx_ok (tx_then (create_ledger env b l)
      (tx_then (tx_when c (create_audit env d e)) (tx_then (enqueueOrderWebhook env f r' ev) (tx_return r')))) db2 (\<lambda>_. delivered order)"
      by (simp add: tx_simps create_ledger_def create_audit_def enqueue_delivered)
  qed
  show ?thesis
    unfolding refundOrder_def Let_def
    by (simp add: tx_ok_if tx_ok_bind tx_ok_one tx_ok_return assms(1) tx_ok_then [of "tx_update _ _ _"]
        set_balance_def save_order_def update_mailboxes_def tx_ok_update)
      (use assms in \<open>auto intro!: tail delivered_save\<close>)
qed

lemma ReceiveCodeValue_delivered:
  assumes d: "delivered order db"
  shows "tx_ok (ReceiveCodeValue env oid code) db (\<lambda>_. delivered order)"
proof (rule tx_ok_weaken [OF ReceiveCodeValue_effect], elim bexE exE conjE)
  fix db' r r'
  assume r: "r \<in> set (db_orders db)" "order_open r"
    and r': "r' = r\<lparr>o_Status := OrderCodeReceived, o_Code := trim_space code, o_CodeReceivedAt := Some (clock env 0)\<rparr>"
    and eq: "same_but_logs (db\<lparr>db_orders := upsert o_ID r' (db_orders db),
            db_mailboxes := upd_rows (\<lambda>m. m_ID m = o_MailboxID r)
              (\<lambda>m. m\<lparr>m_State := MailboxAvailable, m_ActiveOrderID := [],
                     m_TodayCodes := (if received_today env m then m_TodayCodes m + 1 else 1),
                     m_LastReceivedAt := Some (clock env 0), m_UpdatedAt := stamp env 2\<rparr>) (db_mailboxes db),
            db_states := upd_rows (\<lambda>s. ms_key s = order_key r)
              (\<lambda>s. s\<lparr>ms_State := ServiceConsumed, ms_ChangedAt := clock env 0\<rparr>) (db_states db)\<rparr>) db'"
  have "o_ID r' \<noteq> ord_ID order" using delivered_open [OF d r] by (simp add: r')
  then show "delivered order db'" using delivered_logs [OF eq, of order] delivered_save [OF d, of r'] by simp
qed

lemma CompleteOrder_delivered:
  assumes d: "delivered order db"
  shows "tx_ok (CompleteOrder env oid uid) db (\<lambda>_. delivered order)"
proof (rule tx_ok_weaken [OF CompleteOrder_effect], elim bexE exE conjE)
  fix db' r r'
  assume r: "r \<in> set (db_orders db)" and r': "r' = r\<lparr>o_Status := OrderCompleted, o_CompletedAt := Some (clock env 0)\<rparr>"
    and eq: "same_but_logs (db\<lparr>db_orders := upsert o_ID r' (db_orders db)\<rparr>) db'"
  have "o_ID r' = ord_ID order \<Longrightarrow> final_row order r'" using d r by (auto simp: delivered_def final_row_def r')
  then show "delivered order db'" using delivered_logs [OF eq, of order] delivered_save [OF d, of r' db] by simp
qed

lemma CancelOrder_delivered: "delivered order db \<Longrightarrow> tx_ok (CancelOrder env oid uid) db (\<lambda>_. delivered order)"
  unfolding CancelOrder_def find_user_order_def
  by (simp add: tx_ok_bind tx_ok_first tx_ok_then tx_ok_guard tx_ok_return)
    (auto intro!: refundOrder_delivered dest: delivered_open row_find_Some)

lemma reap_one_delivered: "delivered order db \<Longrightarrow> tx_ok (reap_one env oid) db (\<lambda>_. delivered order)"
  unfolding reap_one_def
  by (simp add: tx_ok_bind tx_ok_one tx_ok_if tx_ok_then tx_ok_return)
    (auto intro!: refundOrder_delivered dest: delivered_open row_find_Some)

lemma refund_reason_delivered:
  "delivered order db \<Longrightarrow> r \<in> set (db_orders db) \<Longrightarrow> order_open r \<Longrightarrow>
     tx_ok (refundOrder env n (r\<lparr>o_FailureReason := reason\<rparr>) status) db (\<lambda>_. delivered order)"
  by (rule refundOrder_delivered) (simp_all add: delivered_open)

lemma reconcile_one_delivered: "delivered order db \<Longrightarrow> tx_ok (reconcile_one env oid) db (\<lambda>_. delivered order)"
  unfolding reconcile_one_def
  by (simp add: tx_ok_bind tx_ok_one tx_ok_if tx_ok_return update_mailboxes_def tx_ok_update)
    (auto intro!: tx_ok_weaken [OF refund_reason_delivered] dest: row_find_Some)

lemma release_failed_delivered: "delivered order db \<Longrightarrow> tx_ok (release_failed env n oid) db (\<lambda>_. delivered order)"
  unfolding release_failed_def
  by (simp add: tx_ok_bind tx_ok_read tx_ok_then tx_ok_return split: option.split)
    (auto simp: tx_ok_if tx_ok_then tx_ok_return intro!: tx_ok_weaken [OF refund_reason_delivered] dest: row_find_Some)

lemma UpdateMailboxVerification_delivered:
  "delivered order db \<Longrightarrow>
     tx_ok (UpdateMailboxVerification env actorID mailboxID connection status err verifiedAt ip) db (\<lambda>_. delivered order)"
  unfolding UpdateMailboxVerification_def
  by (simp add: tx_ok_bind tx_ok_first tx_ok_then tx_ok_when save_mailbox_row_def create_audit_def tx_ok_insert)
    (auto intro!: tx_ok_weaken [OF release_failed_delivered])

lemma reap_each_delivered: "delivered order db \<Longrightarrow> delivered order (snd (reap_each envs n oids db))"
proof (induction oids arbitrary: n db)
  case (Cons oid oids)
  show ?case
    using Cons.IH [OF run_tx_inv [OF Cons.prems reap_one_delivered [OF Cons.prems]], of "Suc n" "envs n" oid] by (simp add: split_def)
qed simp

lemma reconcile_each_delivered: "delivered order db \<Longrightarrow> delivered order (snd (reconcile_each envs n oids db))"
proof (induction oids arbitrary: n db)
  case (Cons oid oids)
  show ?case
    using Cons.IH [OF run_tx_inv [OF Cons.prems reconcile_one_delivered [OF Cons.prems]], of "Suc n" "envs n" oid] by (simp add: split_def)
qed simp

lemma allocate_order_delivered:
  assumes d: "delivered order db"
  shows "delivered order (snd (allocate_order env locked uid sid rid ps db))"
proof -
  obtain res db' where a: "allocate_order env locked uid sid rid ps db = (res, db')"
    by (cases "allocate_order env locked uid sid rid ps db")
  have "db' = db \<or> (\<exists>r. allocated r db db')" using allocate_order_cases [OF a] create_post_allocated by blast
  then have "delivered order db'"
  proof
    assume "\<exists>r. allocated r db db'"
    then obtain r where "o_ID r \<notin> o_ID ` set (db_orders db)" "db_orders db' = db_orders db @ [r]" by (auto simp: allocated_def)
    then show ?thesis using d by (auto simp: delivered_def)
  qed (simp add: d)
  then show ?thesis by (simp add: a)
qed

lemma sweeps_delivered:
  assumes "delivered order db"
  shows "delivered order (snd (ReapExpired envs db))" and "delivered order (snd (ReconcileInvalidMailboxOrders envs db))"
  unfolding ReapExpired_def ReconcileInvalidMailboxOrders_def Let_def
  by (rule reap_each_delivered [OF assms]) (rule reconcile_each_delivered [OF assms])

lemma run_delivered:
  "delivered order db \<Longrightarrow> tx_ok m db (\<lambda>_. delivered order) \<Longrightarrow> delivered order (snd (run_tx m db))"
  by (rule run_tx_inv [where I = "delivered order"])

lemmas call_delivered = ReceiveCodeValue_delivered CompleteOrder_delivered CancelOrder_delivered UpdateMailboxVerification_delivered

lemma store_step_delivered: "store_step db db' \<Longrightarrow> delivered order db \<Longrightarrow> delivered order db'"
proof (induction rule: store_step.induct)
  case (later_other db' db)
  then show ?case by (simp only: delivered_same [OF later_other(1)])
qed (simp_all only: allocate_order_delivered sweeps_delivered run_delivered call_delivered)

lemma store_steps_delivered: "store_step\<^sup>*\<^sup>* db db' \<Longrightarrow> delivered order db \<Longrightarrow> delivered order db'"
  by (induction rule: rtranclp_induct) (auto intro: store_step_delivered)

text \<open>On a delivered order every further attempt is rejected.\<close>

definition settled :: "Order \<Rightarrow> db \<Rightarrow> bool" where
  "settled order db \<longleftrightarrow> delivered order db
     \<and> (\<forall>env. fst (run_tx (reap_one env (ord_ID order)) db) \<noteq> Inr True)
     \<and> (\<forall>env. db_orders (snd (run_tx (reconcile_one env (ord_ID order)) db)) = db_orders db)
     \<and> (\<forall>env uid. \<exists>e. run_tx (CancelOrder env (ord_ID order) uid) db = (Inl e, db))
     \<and> (\<forall>env code. \<exists>e. run_tx (ReceiveCodeValue env (ord_ID order) code) db = (Inl e, db))"

lemma delivered_settled:
  assumes d: "delivered order db"
  shows "settled order db"
proof -
  let ?oid = "ord_ID order"
  have look: "\<not> order_open x" if "row_find (\<lambda>r. o_ID r = ?oid) (db_orders db) = Some x" for x
    using row_find_Some [OF that] delivered_open [OF d] by blast
  have look_user: "\<not> order_open x" if "find_user_order ?oid uid db = Some x" for x uid
    using row_find_Some [OF that [unfolded find_user_order_def]] delivered_open [OF d] by blast
  have reap: "fst (run_tx (reap_one env ?oid) db) \<noteq> Inr True" for env
  proof -
    have "tx_ok (reap_one env ?oid) db (\<lambda>b _. \<not> b)"
      unfolding reap_one_def tx_ok_bind [of "tx_one _ _ _"] tx_ok_one by (auto simp: tx_ok_return dest: look)
    then show ?thesis by (auto simp: run_tx_def tx_ok_def split: sum.split)
  qed
  have reconcile: "db_orders (snd (run_tx (reconcile_one env ?oid) db)) = db_orders db" for env
  proof (rule run_tx_rel [where R = "\<lambda>db db'. db_orders db' = db_orders db"])
    show "tx_ok (reconcile_one env ?oid) db (\<lambda>_ db'. db_orders db' = db_orders db)"
      unfolding reconcile_one_def tx_ok_bind [of "tx_one _ _ _"] tx_ok_one tx_ok_if tx_ok_return by (auto dest: look)
  qed simp
  have rejected: "\<exists>e. run_tx m db = (Inl e, db)" if "tx_ok m db (\<lambda>_ _. False)" for m :: "Order stx"
    using that by (auto simp: run_tx_def tx_ok_def split: sum.split)
  have cancel: "tx_ok (CancelOrder env ?oid uid) db (\<lambda>_ _. False)" for env uid
    unfolding CancelOrder_def tx_ok_bind [of "tx_first _ _ _ _"] tx_ok_first
    by (auto simp: tx_ok_then tx_ok_guard dest: look_user)
  have again: "tx_ok (ReceiveCodeValue env ?oid code) db (\<lambda>_ _. False)" for env code
    unfolding ReceiveCodeValue_def tx_ok_bind [of "tx_first _ _ _ _"] tx_ok_first
    by (auto simp: tx_ok_then tx_ok_guard dest: look)
  show ?thesis unfolding settled_def using d reap reconcile rejected [OF cancel] rejected [OF again] by blast
qed

lemma upsert_only: "x \<in> set (upsert key r t) \<Longrightarrow> key x = key r \<Longrightarrow> x = r"
  by (simp add: set_upsert)

text \<open>C13: A code is accepted only for an open order before its deadline, and is stored trimmed; it moves no
  money, frees the mailbox and uses up the pair of mailbox and platform.  It is final: after any run of order operations, sweeps,
  verifications that fail, and changes outside the table of orders, the order is still received or completed, with that code and not refunded;
  no sweep closes it, and it cannot be canceled or receive a second code.\<close>

theorem code_is_final:
  assumes "run_tx (ReceiveCodeValue env oid code) db = (Inr order, db')"
  shows "(\<exists>r\<in>set (db_orders db). o_ID r = oid \<and> order_open r \<and> clock env 0 < o_ExpiresAt r)
    \<and> ord_ID order = oid \<and> ord_Code order = trim_space code \<and> trim_space code \<noteq> [] \<and> ord_Status order = OrderCodeReceived
    \<and> (lease_ok db \<longrightarrow> \<not> ord_Refunded order)
    \<and> (\<forall>v. balance_of db' v = balance_of db v)
    \<and> (\<forall>m\<in>set (db_mailboxes db'). m_ID m = ord_MailboxID order \<longrightarrow> m_State m = MailboxAvailable \<and> m_ActiveOrderID m = [])
    \<and> (\<forall>s\<in>set (db_states db'). ms_key s = (ord_MailboxID order, ord_ServiceID order) \<longrightarrow> ms_State s = ServiceConsumed)
    \<and> (\<forall>db''. store_step\<^sup>*\<^sup>* db' db'' \<longrightarrow> settled order db'')"
proof -
  from tx_okD [OF ReceiveCodeValue_effect] assms
  obtain r where r: "r \<in> set (db_orders db)" "o_ID r = oid" "order_open r" "clock env 0 < o_ExpiresAt r"
      "trim_space code \<noteq> []" and ord: "order = mapOrder (receipt (clock env 0) (trim_space code) r)"
    and eq: "same_but_logs (db\<lparr>db_orders := upsert o_ID (receipt (clock env 0) (trim_space code) r) (db_orders db),
            db_mailboxes := upd_rows (\<lambda>m. m_ID m = o_MailboxID r)
              (\<lambda>m. m\<lparr>m_State := MailboxAvailable, m_ActiveOrderID := [],
                     m_TodayCodes := (if received_today env m then m_TodayCodes m + 1 else 1),
                     m_LastReceivedAt := Some (clock env 0), m_UpdatedAt := stamp env 2\<rparr>) (db_mailboxes db),
            db_states := upd_rows (\<lambda>s. ms_key s = order_key r)
              (\<lambda>s. s\<lparr>ms_State := ServiceConsumed, ms_ChangedAt := clock env 0\<rparr>) (db_states db)\<rparr>) db'"
    unfolding receipt_def by (simp add: run_tx_ok) blast
  let ?r' = "receipt (clock env 0) (trim_space code) r"
  have f: "ord_ID order = oid" "ord_Code order = trim_space code" "ord_Status order = OrderCodeReceived"
    "ord_MailboxID order = o_MailboxID r" "ord_ServiceID order = o_ServiceID r" "ord_Refunded order = o_Refunded r"
    by (simp_all add: ord mapOrder_def receipt_def r(2))
  have final: "final_row order ?r'" by (simp add: final_row_def ord mapOrder_def receipt_def)
  have O: "db_orders db' = upsert o_ID ?r' (db_orders db)" using same_but_logsD(2) [OF eq] by simp
  have "?r' \<in> set (db_orders db')" unfolding O by (simp add: set_upsert)
  moreover have "o_ID ?r' = oid" by (simp add: receipt_def r(2))
  moreover have "x = ?r'" if "x \<in> set (db_orders db')" "o_ID x = oid" for x
    using that upsert_only [of x o_ID ?r'] r(2) unfolding O by (simp add: receipt_def)
  ultimately have "delivered order db'" unfolding delivered_def f(1) using final by (metis image_eqI)
  then have later: "settled order db''" if "store_step\<^sup>*\<^sup>* db' db''" for db''
    using delivered_settled [OF store_steps_delivered [OF that]] by blast
  have refunded: "\<not> ord_Refunded order" if "lease_ok db"
    using lease_okD(2) [OF that r(1,3)] by (simp add: f(6) order_leased_def)
  have mb: "\<forall>m\<in>set (db_mailboxes db'). m_ID m = o_MailboxID r \<longrightarrow> m_State m = MailboxAvailable \<and> m_ActiveOrderID m = []"
    using same_but_logsD(3) [OF eq] by (auto simp: set_upd_rows)
  have st: "\<forall>s\<in>set (db_states db'). ms_key s = order_key r \<longrightarrow> ms_State s = ServiceConsumed"
    using same_but_logsD(4) [OF eq] by (auto simp: set_upd_rows)
  have money: "balance_of db' v = balance_of db v" for v using same_but_logsD(1) [OF eq] by (simp add: balance_of_def)
  show ?thesis
    unfolding f using r mb st refunded later money by (auto simp: order_key_def f)
qed

text \<open>The code is delivered, then a sweep runs and the verification of the mailbox fails.\<close>

lemma code_is_final_witness:
  "\<exists>order db' db''. run_tx (ReceiveCodeValue (quiet_env 50) ''ORD1'' '' 123456 '') demo_leased_db = (Inr order, db')
     \<and> ord_Code order = ''123456'' \<and> \<not> ord_Refunded order
     \<and> db'' = snd (run_tx (UpdateMailboxVerification (quiet_env 5) ''admin'' ''m1'' ''imap'' MailboxVerificationFailed ''x'' 5 [])
                 (snd (ReconcileInvalidMailboxOrders (\<lambda>_. quiet_env 60) db')))
     \<and> settled order db''"
proof -
  let ?run = "run_tx (ReceiveCodeValue (quiet_env 50) ''ORD1'' '' 123456 '') demo_leased_db"
  have "is_ok (fst ?run)" by code_simp
  then obtain order db' where r: "?run = (Inr order, db')" by (cases ?run) (auto simp: is_ok_iff)
  let ?db'' = "snd (run_tx (UpdateMailboxVerification (quiet_env 5) ''admin'' ''m1'' ''imap'' MailboxVerificationFailed ''x'' 5 [])
                 (snd (ReconcileInvalidMailboxOrders (\<lambda>_. quiet_env 60) db')))"
  have "store_step db' (snd (ReconcileInvalidMailboxOrders (\<lambda>_. quiet_env 60) db'))" by (rule later_reconcile)
  moreover have "store_step (snd (ReconcileInvalidMailboxOrders (\<lambda>_. quiet_env 60) db')) ?db''" by (rule later_verification)
  ultimately have steps: "store_step\<^sup>*\<^sup>* db' ?db''" by (rule converse_rtranclp_into_rtranclp [OF _ r_into_rtranclp])
  have "trim_space '' 123456 '' = ''123456''" by code_simp
  then show ?thesis using code_is_final [OF r] lease_ok_demo_leased steps r by metis
qed

end
