(* ===== verification/Http_Messages.thy ===== *)
theory Http_Messages
  imports Messages
begin

text \<open>
  The Chinese texts that the HTTP handlers write into the audit log and into the state of an upgrade, as UTF-8 bytes.  The
  messages of error replies are left out of the model.
\<close>

definition hm_profile_update :: string where
  "hm_profile_update = utf8 [
    0xE7, 0x94, 0xA8, 0xE6, 0x88, 0xB7, 0xE6, 0x9B, 0xB4, 0xE6, 0x96, 0xB0, 0xE4,
    0xB8, 0xAA, 0xE4, 0xBA, 0xBA, 0xE8, 0xAE, 0xBE, 0xE7, 0xBD, 0xAE]"

definition hm_password_change :: string where
  "hm_password_change = utf8 [
    0xE7, 0x94, 0xA8, 0xE6, 0x88, 0xB7, 0xE4, 0xBF, 0xAE, 0xE6, 0x94, 0xB9, 0xE7,
    0x99, 0xBB, 0xE5, 0xBD, 0x95, 0xE5, 0xAF, 0x86, 0xE7, 0xA0, 0x81, 0xE5, 0xB9,
    0xB6, 0xE6, 0x92, 0xA4, 0xE9, 0x94, 0x80, 0xE6, 0x97, 0xA7, 0xE4, 0xBC, 0x9A,
    0xE8, 0xAF, 0x9D]"

definition hm_admin_password_change :: string where
  "hm_admin_password_change = utf8 [
    0xE7, 0xAE, 0xA1, 0xE7, 0x90, 0x86, 0xE5, 0x91, 0x98, 0xE4, 0xBF, 0xAE, 0xE6,
    0x94, 0xB9, 0xE7, 0x99, 0xBB, 0xE5, 0xBD, 0x95, 0xE5, 0xAF, 0x86, 0xE7, 0xA0,
    0x81, 0xE5, 0xB9, 0xB6, 0xE6, 0x92, 0xA4, 0xE9, 0x94, 0x80, 0xE6, 0x97, 0xA7,
    0xE4, 0xBC, 0x9A, 0xE8, 0xAF, 0x9D]"

definition hm_key_revoke :: string where
  "hm_key_revoke = utf8 [
    0xE7, 0x94, 0xA8, 0xE6, 0x88, 0xB7, 0xE5, 0x90, 0x8A, 0xE9, 0x94, 0x80, 0x20,
    0x41, 0x50, 0x49, 0x20, 0x4B, 0x65, 0x79]"

definition hm_order_complete :: string where
  "hm_order_complete = utf8 [
    0xE7, 0xAE, 0xA1, 0xE7, 0x90, 0x86, 0xE5, 0x91, 0x98, 0xE5, 0xAE, 0x8C, 0xE6,
    0x88, 0x90, 0xE5, 0xB7, 0xB2, 0xE6, 0x94, 0xB6, 0xE7, 0xA0, 0x81, 0xE8, 0xAE,
    0xA2, 0xE5, 0x8D, 0x95]"

definition hm_order_cancel :: string where
  "hm_order_cancel = utf8 [
    0xE7, 0xAE, 0xA1, 0xE7, 0x90, 0x86, 0xE5, 0x91, 0x98, 0xE5, 0x8F, 0x96, 0xE6,
    0xB6, 0x88, 0xE6, 0x9C, 0xAA, 0xE6, 0x94, 0xB6, 0xE7, 0xA0, 0x81, 0xE8, 0xAE,
    0xA2, 0xE5, 0x8D, 0x95, 0xE5, 0xB9, 0xB6, 0xE9, 0x80, 0x80, 0xE6, 0xAC, 0xBE]"

definition hm_reap_before :: string where
  "hm_reap_before = utf8 [
    0xE7, 0xAE, 0xA1, 0xE7, 0x90, 0x86, 0xE5, 0x91, 0x98, 0xE5, 0x9B, 0x9E, 0xE6,
    0x94, 0xB6, 0x20]"

definition hm_reap_after :: string where
  "hm_reap_after = utf8 [
    0x20, 0xE4, 0xB8, 0xAA, 0xE8, 0xB6, 0x85, 0xE6, 0x97, 0xB6, 0xE8, 0xAE, 0xA2,
    0xE5, 0x8D, 0x95]"

definition hm_history_submit :: string where
  "hm_history_submit = utf8 [
    0xE6, 0x8F, 0x90, 0xE4, 0xBA, 0xA4, 0x20]"

definition hm_history_eligible :: string where
  "hm_history_eligible = utf8 [
    0x20, 0xE5, 0x8E, 0x86, 0xE5, 0x8F, 0xB2, 0xE6, 0x89, 0xAB, 0xE6, 0x8F, 0x8F,
    0xEF, 0xBC, 0x9A, 0xE7, 0xAC, 0xA6, 0xE5, 0x90, 0x88, 0x20]"

definition hm_history_queued :: string where
  "hm_history_queued = utf8 [
    0x20, 0xE4, 0xB8, 0xAA, 0xEF, 0xBC, 0x8C, 0xE5, 0xB7, 0xB2, 0xE6, 0x8E, 0x92,
    0xE9, 0x98, 0x9F, 0x20]"

definition hm_history_end :: string where
  "hm_history_end = utf8 [
    0x20, 0xE4, 0xB8, 0xAA]"

definition hm_mailbox_messages :: string where
  "hm_mailbox_messages = utf8 [
    0xE7, 0xAE, 0xA1, 0xE7, 0x90, 0x86, 0xE5, 0x91, 0x98, 0xE6, 0x9F, 0xA5, 0xE7,
    0x9C, 0x8B, 0xE9, 0x82, 0xAE, 0xE7, 0xAE, 0xB1, 0xE6, 0x94, 0xB6, 0xE4, 0xBB,
    0xB6, 0xE5, 0x88, 0x97, 0xE8, 0xA1, 0xA8]"

definition hm_order_messages :: string where
  "hm_order_messages = utf8 [
    0xE7, 0x94, 0xA8, 0xE6, 0x88, 0xB7, 0xE6, 0x9F, 0xA5, 0xE7, 0x9C, 0x8B, 0xE8,
    0xAE, 0xA2, 0xE5, 0x8D, 0x95, 0xE5, 0xAF, 0xB9, 0xE5, 0xBA, 0x94, 0xE5, 0xB9,
    0xB3, 0xE5, 0x8F, 0xB0, 0xE9, 0x82, 0xAE, 0xE4, 0xBB, 0xB6]"

definition hm_google_config :: string where
  "hm_google_config = utf8 [
    0xE6, 0x9B, 0xB4, 0xE6, 0x96, 0xB0, 0x20, 0x47, 0x6F, 0x6F, 0x67, 0x6C, 0x65,
    0x20, 0x4F, 0x41, 0x75, 0x74, 0x68, 0x20, 0xE9, 0x85, 0x8D, 0xE7, 0xBD, 0xAE]"

definition hm_masked :: string where
  "hm_masked = utf8 [
    0xE5, 0xB7, 0xB2, 0xE9, 0x85, 0x8D, 0xE7, 0xBD, 0xAE]"

definition hm_ellipsis :: string where
  "hm_ellipsis = utf8 [
    0xE2, 0x80, 0xA6]"

definition hm_empty :: string where
  "hm_empty = utf8 [
    0xE4, 0xB8, 0xBA, 0xE7, 0xA9, 0xBA]"

definition hm_code_receive :: string where
  "hm_code_receive = utf8 [
    0xE9, 0x82, 0xAE, 0xE4, 0xBB, 0xB6, 0x20, 0x57, 0x6F, 0x72, 0x6B, 0x65, 0x72,
    0x20, 0xE5, 0x86, 0x99, 0xE5, 0x85, 0xA5, 0xE9, 0xAA, 0x8C, 0xE8, 0xAF, 0x81,
    0xE7, 0xA0, 0x81]"

definition hm_upgrade_idle :: string where
  "hm_upgrade_idle = utf8 [
    0xE5, 0xB0, 0x9A, 0xE6, 0x9C, 0xAA, 0xE6, 0x89, 0xA7, 0xE8, 0xA1, 0x8C, 0xE5,
    0x9C, 0xA8, 0xE7, 0xBA, 0xBF, 0xE5, 0x8D, 0x87, 0xE7, 0xBA, 0xA7]"

definition hm_upgrade_backing_up :: string where
  "hm_upgrade_backing_up = utf8 [
    0xE6, 0xAD, 0xA3, 0xE5, 0x9C, 0xA8, 0xE5, 0x88, 0x9B, 0xE5, 0xBB, 0xBA, 0xE5,
    0x8D, 0x87, 0xE7, 0xBA, 0xA7, 0xE5, 0x89, 0x8D, 0xE6, 0x95, 0xB0, 0xE6, 0x8D,
    0xAE, 0xE5, 0xBA, 0x93, 0xE5, 0xA4, 0x87, 0xE4, 0xBB, 0xBD]"

definition hm_upgrade_no_backup :: string where
  "hm_upgrade_no_backup = utf8 [
    0xE6, 0x95, 0xB0, 0xE6, 0x8D, 0xAE, 0xE5, 0xBA, 0x93, 0xE5, 0xA4, 0x87, 0xE4,
    0xBB, 0xBD, 0xE5, 0xA4, 0xB1, 0xE8, 0xB4, 0xA5, 0xEF, 0xBC, 0x8C, 0xE5, 0x8D,
    0x87, 0xE7, 0xBA, 0xA7, 0xE5, 0xB7, 0xB2, 0xE5, 0x8F, 0x96, 0xE6, 0xB6, 0x88]"

definition hm_audit_no_backup :: string where
  "hm_audit_no_backup = utf8 [
    0xE5, 0x9C, 0xA8, 0xE7, 0xBA, 0xBF, 0xE5, 0x8D, 0x87, 0xE7, 0xBA, 0xA7, 0xE5,
    0x89, 0x8D, 0xE6, 0x95, 0xB0, 0xE6, 0x8D, 0xAE, 0xE5, 0xBA, 0x93, 0xE5, 0xA4,
    0x87, 0xE4, 0xBB, 0xBD, 0xE5, 0xA4, 0xB1, 0xE8, 0xB4, 0xA5, 0xEF, 0xBC, 0x8C,
    0xE5, 0x8D, 0x87, 0xE7, 0xBA, 0xA7, 0xE5, 0xB7, 0xB2, 0xE5, 0x8F, 0x96, 0xE6,
    0xB6, 0x88]"

definition hm_audit_backup :: string where
  "hm_audit_backup = utf8 [
    0xE5, 0x9C, 0xA8, 0xE7, 0xBA, 0xBF, 0xE5, 0x8D, 0x87, 0xE7, 0xBA, 0xA7, 0xE5,
    0x89, 0x8D, 0xE6, 0x95, 0xB0, 0xE6, 0x8D, 0xAE, 0xE5, 0xBA, 0x93, 0xE5, 0xA4,
    0x87, 0xE4, 0xBB, 0xBD, 0xE5, 0xAE, 0x8C, 0xE6, 0x88, 0x90]"

definition hm_upgrade_queued :: string where
  "hm_upgrade_queued = utf8 [
    0xE5, 0x8D, 0x87, 0xE7, 0xBA, 0xA7, 0xE5, 0x89, 0x8D, 0xE5, 0xA4, 0x87, 0xE4,
    0xBB, 0xBD, 0xE5, 0xB7, 0xB2, 0xE5, 0xAE, 0x8C, 0xE6, 0x88, 0x90, 0xEF, 0xBC,
    0x8C, 0xE4, 0xBB, 0xBB, 0xE5, 0x8A, 0xA1, 0xE5, 0xB7, 0xB2, 0xE8, 0xBF, 0x9B,
    0xE5, 0x85, 0xA5, 0xE9, 0x98, 0x9F, 0xE5, 0x88, 0x97]"

definition hm_upgrade_no_status :: string where
  "hm_upgrade_no_status = utf8 [
    0xE6, 0x97, 0xA0, 0xE6, 0xB3, 0x95, 0xE5, 0x86, 0x99, 0xE5, 0x85, 0xA5, 0xE5,
    0x8D, 0x87, 0xE7, 0xBA, 0xA7, 0xE7, 0x8A, 0xB6, 0xE6, 0x80, 0x81]"

definition hm_upgrade_no_request :: string where
  "hm_upgrade_no_request = utf8 [
    0xE6, 0x97, 0xA0, 0xE6, 0xB3, 0x95, 0xE5, 0x88, 0x9B, 0xE5, 0xBB, 0xBA, 0xE5,
    0x8D, 0x87, 0xE7, 0xBA, 0xA7, 0xE4, 0xBB, 0xBB, 0xE5, 0x8A, 0xA1]"

definition hm_audit_upgrade :: string where
  "hm_audit_upgrade = utf8 [
    0xE7, 0xAE, 0xA1, 0xE7, 0x90, 0x86, 0xE5, 0x91, 0x98, 0xE6, 0x8F, 0x90, 0xE4,
    0xBA, 0xA4, 0xE5, 0x9C, 0xA8, 0xE7, 0xBA, 0xBF, 0xE5, 0x8D, 0x87, 0xE7, 0xBA,
    0xA7, 0xE4, 0xBB, 0xBB, 0xE5, 0x8A, 0xA1]"

end
