(* ===== verification/Http_Api.thy ===== *)
theory Http_Api
  imports Importer Verifier Accounts Payment_Service Http_Messages
begin

text \<open>
  What the HTTP handlers share (\<^verbatim>\<open>internal/http/server.go\<close>, \<^verbatim>\<open>accounts.go\<close>): the request, the
  reply, the server and the state behind it, and the authentication of a request.  The server runs on the PostgreSQL store, so
  that every assertion of an interface on the store succeeds; its clients, verifier and payment service are there.  The router,
  the decoding of bodies (gin) and the JSON text of a reply are outside: a handler gets the decoded body and returns the data.
  An error reply carries its status and its error code, not its message.
\<close>

subsection \<open>Bodies of requests\<close>

record credentialsRequest =
  cq_Email :: string
  cq_Password :: string
  cq_DisplayName :: string

record createOrderRequest =
  co_Service :: string
  co_MailboxProviders :: "string list"
  co_RequestID :: string

record providerRequest =
  pq_ID :: string
  pq_Name :: string
  pq_Type :: string
  pq_Methods :: "string list"
  pq_Enabled :: bool
  pq_Priority :: int
  pq_Config :: "string \<rightharpoonup> string"

text \<open>A part of an upload: the name of its form field, its content, and the error that ends it, if any.\<close>

record upload_part =
  up_FormName :: string
  up_Content :: string
  up_Error :: "string option"

text \<open>One decoder per body, which checks the binding rules of its fields as well; \<open>None\<close> is an error of the decoder.\<close>

record decoders =
  bind_credentials :: "string \<Rightarrow> credentialsRequest option"
  bind_profile :: "string \<Rightarrow> string option"
  bind_passwords :: "string \<Rightarrow> (string \<times> string) option"
  bind_key :: "string \<Rightarrow> (string \<times> string list) option"
  bind_adjustment :: "string \<Rightarrow> (float64 \<times> string) option"
  bind_order :: "string \<Rightarrow> createOrderRequest option"
  bind_deletion :: "string \<Rightarrow> (string \<times> int option) option"
  bind_mailbox :: "string \<Rightarrow> (Mailbox \<times> credential) option"
  bind_service :: "string \<Rightarrow> Service option"
  bind_microsoft :: "string \<Rightarrow> string option"
  bind_google :: "string \<Rightarrow> unit option"
  bind_google_config :: "string \<Rightarrow> (string \<times> string \<times> string) option"
  bind_webhook :: "string \<Rightarrow> (string \<times> string list) option"
  bind_payment :: "string \<Rightarrow> (float64 \<times> string \<times> bool) option"
  bind_provider :: "string \<Rightarrow> providerRequest option"
  bind_event :: "string \<Rightarrow> (string \<times> string) option"

text \<open>The request as a handler sees it.  \<open>hc_upload\<close> is \<open>None\<close> for a body without parts; the flag is set when reading the next
  part fails after the ones listed.  \<open>hc_user\<close> is the value stored by the authentication.\<close>

record gin_context =
  hc_header :: "string \<Rightarrow> string"
  hc_query :: "string \<Rightarrow> string option"
  hc_param :: "string \<Rightarrow> string"
  hc_body :: string
  hc_form :: "url_values option"
  hc_upload :: "(upload_part list \<times> bool) option"
  hc_ip :: string
  hc_user :: "User option"

definition query :: "gin_context \<Rightarrow> string \<Rightarrow> string" where
  "query c k = (case hc_query c k of None \<Rightarrow> [] | Some v \<Rightarrow> v)"

definition trimmed_query :: "gin_context \<Rightarrow> string \<Rightarrow> string" where
  "trimmed_query c k = trim_space (query c k)"

definition page_of :: "gin_context \<Rightarrow> go_int \<times> go_int" where
  "page_of c = pageRequest (hc_query c ''page'') (hc_query c ''page_size'')"

subsection \<open>Replies\<close>

record publicServiceView =
  psv_Code :: string
  psv_Name :: string
  psv_Description :: string
  psv_AllowedProviders :: "string list"
  psv_ProviderPrices :: "(string \<times> float64) list"
  psv_TTLSeconds :: int

record userServiceView = publicServiceView +
  usv_AvailableMailboxes :: int
  usv_AvailableByProvider :: "(string \<times> int) list"

record serviceAdminView =
  sav_Service :: Service
  sav_AvailableMailboxes :: int
  sav_LeasedMailboxes :: int
  sav_ConsumedMailboxes :: int

record upgradeStatus =
  upg_State :: string
  upg_Message :: string
  upg_UpdatedAt :: time

record releaseView =
  rel_Tag :: string
  rel_Name :: string
  rel_Notes :: string
  rel_URL :: string
  rel_PublishedAt :: time

record versionView =
  ver_CurrentVersion :: string
  ver_Commit :: string
  ver_BuildTime :: string
  ver_Image :: string
  ver_OnlineUpgradeEnabled :: bool
  ver_Upgrade :: upgradeStatus
  ver_LatestRelease :: releaseView

text \<open>What administrators get, and what everyone may get.\<close>

datatype admin_data =
    UsersData "User list" | AdminOrdersData "(Order \<times> string) list" | AuditsData "AuditLog list"
  | ProvidersData "PaymentProvider list" | ProviderData PaymentProvider "(string \<times> string) list" "(string \<times> bool) list"
  | SavedProviderData PaymentProvider | OverviewData Overview | MailboxesData "Mailbox list" | MailboxData Mailbox
  | PoolsData "MailboxPool list" | SummaryData InvalidMailboxSummary | DeletedData int string | ImportData MailboxImportResult
  | RegisteredData ServiceMailboxState | VerifiedData MailboxVerificationResult | MatchedData nat
  | QueuedData MailboxHistoryScanResult | AdminServicesData "serviceAdminView list" | ServiceData Service
  | AuthorizationData string | GoogleData bool string string | ReapedData nat | VersionData versionView
  | UpgradeData upgradeStatus

datatype data =
    AdminData admin_data | UserData User | SessionData User string | TokenData string
  | PublicServicesData "publicServiceView list" | UserServicesData "userServiceView list"
  | AvailabilityData string int "(string \<times> int) list" | StatusData string string time | ReadyData string string
  | OrderData Order | OrdersData "Order list" | MessagesData "Message list"
  | KeysData "APIKey list" | KeyData APIKey string | LedgersData "WalletLedger list"
  | EndpointsData "WebhookEndpoint list" | EndpointData WebhookEndpoint string | DeliveriesData "WebhookDelivery list"
  | MethodsData "string list" | PaymentData PaymentOrder | PaymentsData "PaymentOrder list"

text \<open>A page carries its number, its size, the number of all items and of all pages.  \<open>Panicked\<close> is the reply of the
  recovery middleware to a handler that panics.\<close>

datatype reply =
    Json int data | Page data go_int go_int int int | Failure int string | NoContent | Redirected string | Plain int string
  | Panicked

definition writePage :: "data \<Rightarrow> go_int \<Rightarrow> go_int \<Rightarrow> int \<Rightarrow> reply" where
  "writePage d page pageSize all_count = Page d page pageSize all_count (totalPages all_count (sint pageSize))"

definition write_page :: "gin_context \<Rightarrow> ('a list \<Rightarrow> data) \<Rightarrow> 'a list \<times> int \<Rightarrow> reply" where
  "write_page c d = (\<lambda>(items, all_count). writePage (d items) (fst (page_of c)) (snd (page_of c)) all_count)"

definition mapStoreError :: "store_error \<Rightarrow> int \<times> string" where
  "mapStoreError err =
     (case err of
        ErrServiceNotFound \<Rightarrow> (404, ''service_not_found'')
      | ErrServiceDisabled \<Rightarrow> (409, ''service_disabled'')
      | ErrNoMailboxAvailable \<Rightarrow> (503, ''no_mailbox_available'')
      | ErrAllocationBusy \<Rightarrow> (429, ''allocation_busy'')
      | ErrInsufficientBalance \<Rightarrow> (402, ''insufficient_balance'')
      | ErrInvalidMailboxProviders \<Rightarrow> (400, ''invalid_mailbox_providers'')
      | ErrDuplicateRequest \<Rightarrow> (409, ''duplicate_request'')
      | ErrOrderNotFound \<Rightarrow> (404, ''order_not_found'')
      | ErrInvalidOrderState \<Rightarrow> (409, ''invalid_order_state'')
      | ErrVerificationCodeRequired \<Rightarrow> (400, ''verification_code_required'')
      | _ \<Rightarrow> (400, ''request_failed''))"

definition store_failure :: "store_error \<Rightarrow> reply" where
  "store_failure err = (case mapStoreError err of (status, code) \<Rightarrow> Failure status code)"

subsection \<open>The server\<close>

text \<open>One run of the program that dumps the database: which steps around it fail, the program itself as a function of its
  environment, what the compressed file then holds on disk, and the parser of gzip.\<close>

record dump_run =
  dr_fail :: "nat \<Rightarrow> bool"
  dr_environ :: "string list"
  dr_pg_dump :: "string list \<Rightarrow> string option"
  dr_stored :: "string \<Rightarrow> string"
  dr_gunzip :: "string \<Rightarrow> string option"
  dr_stamp :: string

record database_url =
  du_Scheme :: string
  du_Host :: string
  du_Hostname :: string
  du_Port :: string
  du_User :: "(string \<times> string option) option"
  du_Path :: string
  du_SSLMode :: string

text \<open>The state behind the server: the stores, the settings of the Google client, and the files of an upgrade, which are the two
  files shared with the updater, \<open>None\<close> when missing or malformed, and the backups by path.\<close>

record world =
  w_db :: db
  w_redis :: redis
  w_google :: "GoogleConfig option"
  w_status :: "upgradeStatus option"
  w_request :: "(string \<times> time) option"
  w_backups :: "string \<rightharpoonup> string"

record server =
  sv_lib :: mail_lib
  sv_pay :: pay_lib
  sv_bind :: decoders
  sv_Microsoft :: MicrosoftConfig
  sv_PublicURL :: string
  sv_WorkerToken :: string
  sv_UpgradeRequestPath :: string
  sv_UpgradeStatusPath :: string
  sv_UpgradeBackup :: "(string \<times> string \<times> string) option"
  sv_parse_database_url :: "string \<Rightarrow> database_url option"
  sv_Version :: string
  sv_Commit :: string
  sv_BuildTime :: string
  sv_parse_url :: "string \<Rightarrow> (string \<times> string) option"
  sv_parse_address :: "string \<Rightarrow> string option"
  sv_json_line :: "string \<Rightarrow> (string \<times> string) list option"
  sv_regex_ok :: "string \<Rightarrow> bool"

definition sv_crypto :: "server \<Rightarrow> crypto" where
  "sv_crypto sv = ml_crypto (sv_lib sv)"

text \<open>What happens around a request: the outside of each call by its path, the commands to Redis and the writes to disk that
  fail, the lock of the allocation, the rows others hold locked, and whether the database answers.\<close>

record around =
  ar_out :: calls
  ar_redis :: "nat \<Rightarrow> bool"
  ar_setnx :: "nat \<Rightarrow> store_error + bool"
  ar_lock_clock :: "nat \<Rightarrow> time"
  ar_lock_start :: time
  ar_fuel :: nat
  ar_locked :: "string \<Rightarrow> bool"
  ar_batch_locked :: "nat \<Rightarrow> string \<Rightarrow> bool"
  ar_cancelled :: "nat \<Rightarrow> bool"
  ar_ping :: bool
  ar_disk :: "nat \<Rightarrow> bool"
  ar_unreadable :: bool
  ar_dump :: dump_run
  ar_release :: "string + int \<times> releaseView option"

definition env_at :: "around \<Rightarrow> nat list \<Rightarrow> env" where
  "env_at ar p = o_env (ar_out ar p)"

definition the_verifier :: "server \<Rightarrow> world \<Rightarrow> verifier" where
  "the_verifier sv w = \<lparr> vf_graph = Some (sv_Microsoft sv), vf_oauth = w_google w \<rparr>"

definition set_db :: "world \<Rightarrow> db \<Rightarrow> world" where
  "set_db w db = w\<lparr>w_db := db\<rparr>"

text \<open>A handler that only reads, one that runs an operation of the store, and the audit entry whose error is ignored.\<close>

definition answer :: "reply \<Rightarrow> world \<Rightarrow> (reply \<times> world) option" where
  "answer r w = Some (r, w)"

definition call :: "'a stx \<Rightarrow> world \<Rightarrow> (store_error \<Rightarrow> reply) \<Rightarrow> ('a \<Rightarrow> world \<Rightarrow> (reply \<times> world) option) \<Rightarrow> (reply \<times> world) option" where
  "call m w failed done =
     (case run_tx m (w_db w) of
        (Inl e, db') \<Rightarrow> answer (failed e) (set_db w db')
      | (Inr x, db') \<Rightarrow> done x (set_db w db'))"

definition audit :: "env \<Rightarrow> gin_context \<Rightarrow> string \<Rightarrow> string \<Rightarrow> string \<Rightarrow> string \<Rightarrow> string \<Rightarrow> world \<Rightarrow> world" where
  "audit env c actor action rtype rid detail w =
     set_db w (snd (run_tx (WriteAudit env actor action rtype rid detail (hc_ip c)) (w_db w)))"

subsection \<open>Who is calling\<close>

definition bearerToken :: "gin_context \<Rightarrow> string" where
  "bearerToken c =
     (let value = trim_space (hc_header c ''Authorization'')
      in if length value > 7 \<and> equal_fold (take 7 value) ''Bearer '' then trim_space (drop 7 value)
         else let key = trim_space (hc_header c ''X-API-Key'')
              in if has_prefix key ''hm_'' then key else [])"

definition authenticatedUser :: "gin_context \<Rightarrow> User option" where
  "authenticatedUser c = hc_user c"

definition demoRole :: "gin_context \<Rightarrow> string" where
  "demoRole c =
     (case authenticatedUser c of
        Some user \<Rightarrow> usr_Role user
      | None \<Rightarrow> if to_lower (hc_header c ''X-HeroMail-Role'') = ''admin'' then ''admin'' else ''user'')"

definition demoUser :: "gin_context \<Rightarrow> string" where
  "demoUser c =
     (case authenticatedUser c of
        Some user \<Rightarrow> usr_ID user
      | None \<Rightarrow> if hc_header c ''X-HeroMail-User'' \<noteq> [] then hc_header c ''X-HeroMail-User''
                else if demoRole c = ''admin'' then ''admin-001'' else ''user-001'')"

text \<open>The middleware: \<open>next\<close> is the rest of the chain.\<close>

definition authenticate ::
  "server \<Rightarrow> env \<Rightarrow> gin_context \<Rightarrow> world \<Rightarrow> (gin_context \<Rightarrow> world \<Rightarrow> (reply \<times> world) option) \<Rightarrow> (reply \<times> world) option" where
  "authenticate sv env c w rest =
     (case ResolveAccessToken (sv_crypto sv) env (bearerToken c) (w_db w) of
        (None, db') \<Rightarrow> answer (Failure 401 ''authentication_required'') (set_db w db')
      | (Some user, db') \<Rightarrow> rest (c\<lparr>hc_user := Some user\<rparr>) (set_db w db'))"

definition requireAdmin ::
  "gin_context \<Rightarrow> world \<Rightarrow> (gin_context \<Rightarrow> world \<Rightarrow> (reply \<times> world) option) \<Rightarrow> (reply \<times> world) option" where
  "requireAdmin c w rest = (if demoRole c \<noteq> ''admin'' then answer (Failure 403 ''admin_required'') w else rest c w)"

end
