(* ===== verification/Http_Orders.thy ===== *)
theory Http_Orders
  imports Http_Api
begin

text \<open>
  The handlers of \<^verbatim>\<open>internal/http/server.go\<close>, \<^verbatim>\<open>public.go\<close> and \<^verbatim>\<open>mail_events.go\<close>: platforms, orders, the
  administration of both, and the codes that an external worker delivers.
\<close>

subsection \<open>The caller\<close>

definition me :: "around \<Rightarrow> gin_context \<Rightarrow> world \<Rightarrow> (reply \<times> world) option" where
  "me ar c w =
     (case authenticatedUser c of
        Some user \<Rightarrow> answer (Json 200 (UserData user)) w
      | None \<Rightarrow>
        (case PostgresUser (env_at ar [0]) (demoUser c) (w_db w) of
           None \<Rightarrow> answer (Failure 401 ''user_not_found'') w
         | Some user \<Rightarrow> answer (Json 200 (UserData user)) w))"

subsection \<open>Platforms\<close>

definition copyProviderPrices :: "(string \<times> float64) list \<Rightarrow> (string \<times> float64) list" where
  "copyProviderPrices prices = prices"

definition public_view :: "Service \<Rightarrow> publicServiceView" where
  "public_view service = \<lparr> psv_Code = svc_Code service, psv_Name = svc_Name service, psv_Description = svc_Description service,
     psv_AllowedProviders = svc_AllowedProviders service, psv_ProviderPrices = copyProviderPrices (svc_ProviderPrices service),
     psv_TTLSeconds = svc_TTLSeconds service \<rparr>"

definition publicServices :: "around \<Rightarrow> gin_context \<Rightarrow> world \<Rightarrow> (reply \<times> world) option" where
  "publicServices ar c w =
     (case page_of c of (page, pageSize) \<Rightarrow>
        case ListEnabledServicesPage (env_at ar [0]) page pageSize (w_db w) of (services, all_count) \<Rightarrow>
          answer (writePage (PublicServicesData (map public_view services)) page pageSize all_count) w)"

definition publicStatus :: "around \<Rightarrow> gin_context \<Rightarrow> world \<Rightarrow> (reply \<times> world) option" where
  "publicStatus ar c w =
     (let overview = Overview_of (env_at ar [0]) (w_db w);
          status = (if ovw_AuthErrors overview > 0 \<or> ovw_PendingMailboxes overview > 0 then ''degraded'' else ''operational'')
      in answer (Json 200 (StatusData status status (clock (env_at ar [1]) 0))) w)"

text \<open>The counts of one platform, and their sum over the providers that have a mailbox.\<close>

definition provider_stock :: "(string \<rightharpoonup> int) option \<Rightarrow> string \<Rightarrow> int" where
  "provider_stock counts provider =
     (case counts of None \<Rightarrow> 0 | Some m \<Rightarrow> (case m provider of None \<Rightarrow> 0 | Some n \<Rightarrow> n))"

definition total_count :: "env \<Rightarrow> db \<Rightarrow> string \<Rightarrow> (string \<rightharpoonup> int) option \<Rightarrow> int" where
  "total_count env db serviceID counts =
     sum_list (map (provider_stock counts) (remdups (map m_Provider (available_rows env db serviceID))))"

definition newUserServiceView :: "Service \<Rightarrow> int \<Rightarrow> (string \<rightharpoonup> int) option \<Rightarrow> userServiceView" where
  "newUserServiceView service available availableByProvider =
     publicServiceView.extend (public_view service) \<lparr> usv_AvailableMailboxes = available,
       usv_AvailableByProvider = map (\<lambda>p. (p, provider_stock availableByProvider p)) (svc_AllowedProviders service) \<rparr>"

definition services :: "around \<Rightarrow> gin_context \<Rightarrow> world \<Rightarrow> (reply \<times> world) option" where
  "services ar c w =
     (case page_of c of (page, pageSize) \<Rightarrow>
        case ListEnabledServicesPage (env_at ar [0]) page pageSize (w_db w) of (items, all_count) \<Rightarrow>
          let wanted = query c ''availability'' \<noteq> ''false'';
              by_provider = (if wanted then ServiceAvailabilityByProvider (env_at ar [1]) (map svc_ID items) (w_db w) else (\<lambda>_. None));
              view = (\<lambda>service. newUserServiceView service
                        (total_count (env_at ar [1]) (w_db w) (svc_ID service) (by_provider (svc_ID service))) (by_provider (svc_ID service)))
          in answer (writePage (UserServicesData (map view items)) page pageSize all_count) w)"

definition serviceAvailability :: "around \<Rightarrow> gin_context \<Rightarrow> world \<Rightarrow> (reply \<times> world) option" where
  "serviceAvailability ar c w =
     (case EnabledService (env_at ar [0]) (to_lower (trim_space (hc_param c ''code''))) (w_db w) of
        None \<Rightarrow> answer (Failure 404 ''service_not_found'') w
      | Some service \<Rightarrow>
        let counts = ServiceAvailabilityByProvider (env_at ar [1]) [svc_ID service] (w_db w) (svc_ID service)
        in answer (Json 200 (AvailabilityData (svc_Code service) (total_count (env_at ar [1]) (w_db w) (svc_ID service) counts)
             (map (\<lambda>p. (p, provider_stock counts p)) (svc_AllowedProviders service)))) w)"

definition serviceViews :: "env \<Rightarrow> db \<Rightarrow> Service list \<Rightarrow> serviceAdminView list" where
  "serviceViews env db items =
     map (\<lambda>service. let counts = (case ServiceUsage_of env (map svc_ID items) db (svc_ID service) of
              None \<Rightarrow> \<lparr> usg_Available = 0, usg_Leased = 0, usg_Consumed = 0 \<rparr> | Some u \<Rightarrow> u)
            in \<lparr> sav_Service = service, sav_AvailableMailboxes = usg_Available counts, sav_LeasedMailboxes = usg_Leased counts,
                 sav_ConsumedMailboxes = usg_Consumed counts \<rparr>) items"

definition adminServices :: "around \<Rightarrow> gin_context \<Rightarrow> world \<Rightarrow> (reply \<times> world) option" where
  "adminServices ar c w =
     (case page_of c of (page, pageSize) \<Rightarrow>
        case ListServicesPage (env_at ar [0]) page pageSize (w_db w) of (items, all_count) \<Rightarrow>
          answer (writePage (AdminData (AdminServicesData (serviceViews (env_at ar [1]) (w_db w) items))) page pageSize all_count) w)"

subsection \<open>Orders\<close>

fun normalize_values :: "string list \<Rightarrow> string list \<Rightarrow> string list" where
  "normalize_values seen [] = []"
| "normalize_values seen (value0 # values) =
     (let value = to_lower (trim_space value0)
      in if value = [] \<or> value \<in> set seen then normalize_values seen values
         else value # normalize_values (value # seen) values)"

definition normalizeServiceList :: "string list \<Rightarrow> string list" where
  "normalizeServiceList values = normalize_values [] values"

definition requested_service :: "Service list \<Rightarrow> string \<Rightarrow> string" where
  "requested_service items requested =
     (case find (\<lambda>service. svc_ID service = requested \<or> svc_Code service = requested) items of
        None \<Rightarrow> requested | Some service \<Rightarrow> svc_ID service)"

definition place_order :: "around \<Rightarrow> gin_context \<Rightarrow> string \<Rightarrow> string \<Rightarrow> string list \<Rightarrow> world \<Rightarrow> (reply \<times> world) option" where
  "place_order ar c serviceID requestID providers w =
     (case CreateOrder (ar_setnx ar) (ar_lock_clock ar) (ar_lock_start ar) (ar_fuel ar) (env_at ar [1]) (ar_locked ar)
             (demoUser c) serviceID requestID providers (w_db w) of
        None \<Rightarrow> None
      | Some (Created order, db') \<Rightarrow> answer (Json 201 (OrderData order)) (set_db w db')
      | Some (Duplicate _, db') \<Rightarrow> answer (store_failure ErrDuplicateRequest) (set_db w db')
      | Some (Failed e, db') \<Rightarrow> answer (store_failure e) (set_db w db'))"

definition createOrder :: "server \<Rightarrow> around \<Rightarrow> gin_context \<Rightarrow> world \<Rightarrow> (reply \<times> world) option" where
  "createOrder sv ar c w =
     (case bind_order (sv_bind sv) (hc_body c) of
        None \<Rightarrow> answer (Failure 400 ''invalid_request'') w
      | Some request \<Rightarrow>
        let providers = normalizeServiceList (co_MailboxProviders request); requested = to_lower (trim_space (co_Service request))
        in if providers = [] then answer (Failure 400 ''invalid_mailbox_providers'') w
           else if \<exists>p\<in>set providers. \<not> IsSupportedMailboxProvider p then answer (Failure 400 ''invalid_mailbox_providers'') w
           else place_order ar c (requested_service (ListServices (env_at ar [0]) (w_db w)) requested) (co_RequestID request) providers w)"

text \<open>The unfiltered page that the handler reads first is replaced by the filtered one.\<close>

definition listUserOrders :: "around \<Rightarrow> gin_context \<Rightarrow> world \<Rightarrow> (reply \<times> world) option" where
  "listUserOrders ar c w =
     (case page_of c of (page, pageSize) \<Rightarrow>
        let filter' = \<lparr> uof_Status = trimmed_query c ''status'', uof_Service = trimmed_query c ''service'', uof_Query = trimmed_query c ''query'' \<rparr>
        in answer (write_page c OrdersData (ListUserOrdersPage (env_at ar [1]) (demoUser c) filter' page pageSize (w_db w))) w)"

definition getUserOrder :: "around \<Rightarrow> gin_context \<Rightarrow> world \<Rightarrow> (reply \<times> world) option" where
  "getUserOrder ar c w =
     (case GetOrder (env_at ar [0]) (hc_param c ''id'') (w_db w) of
        None \<Rightarrow> answer (Failure 404 ''order_not_found'') w
      | Some order \<Rightarrow>
          if ord_UserID order \<noteq> demoUser c then answer (Failure 404 ''order_not_found'') w
          else answer (Json 200 (OrderData order)) w)"

definition adminCompleteOrder :: "around \<Rightarrow> gin_context \<Rightarrow> world \<Rightarrow> (reply \<times> world) option" where
  "adminCompleteOrder ar c w =
     call (CompleteOrder (env_at ar [0]) (hc_param c ''id'') []) w store_failure (\<lambda>order w.
       answer (Json 200 (OrderData order))
         (audit (env_at ar [1]) c (demoUser c) ''order.complete'' ''registration_order'' (ord_ID order) hm_order_complete w))"

definition adminCancelOrder :: "around \<Rightarrow> gin_context \<Rightarrow> world \<Rightarrow> (reply \<times> world) option" where
  "adminCancelOrder ar c w =
     call (CancelOrder (env_at ar [0]) (hc_param c ''id'') []) w store_failure (\<lambda>order w.
       answer (Json 200 (OrderData order))
         (audit (env_at ar [1]) c (demoUser c) ''order.cancel'' ''registration_order'' (ord_ID order) hm_order_cancel w))"

definition adminOverview :: "around \<Rightarrow> gin_context \<Rightarrow> world \<Rightarrow> (reply \<times> world) option" where
  "adminOverview ar c w = answer (Json 200 (AdminData (OverviewData (Overview_of (env_at ar [0]) (w_db w))))) w"

definition adminMailboxes :: "around \<Rightarrow> gin_context \<Rightarrow> world \<Rightarrow> (reply \<times> world) option" where
  "adminMailboxes ar c w =
     (case page_of c of (page, pageSize) \<Rightarrow>
        answer (write_page c (AdminData \<circ> MailboxesData) (ListMailboxesPage (env_at ar [0])
          \<lparr> mbf_Query = trimmed_query c ''query'', mbf_Status = trimmed_query c ''status'' \<rparr> page pageSize (w_db w))) w)"

text \<open>Each order with the address of its user, who is looked up one by one.\<close>

definition order_views :: "(nat \<Rightarrow> env) \<Rightarrow> db \<Rightarrow> Order list \<Rightarrow> (Order \<times> string) list" where
  "order_views envs db orders =
     map (\<lambda>(k, order). (order, case PostgresUser (envs k) (ord_UserID order) db of None \<Rightarrow> [] | Some user \<Rightarrow> usr_Email user))
       (zip [0..<length orders] orders)"

definition adminOrders :: "around \<Rightarrow> gin_context \<Rightarrow> world \<Rightarrow> (reply \<times> world) option" where
  "adminOrders ar c w =
     (case page_of c of (page, pageSize) \<Rightarrow>
        case ListAdminOrdersPage (env_at ar [1])
               \<lparr> aof_Status = trimmed_query c ''status'', aof_Service = trimmed_query c ''service'',
                 aof_UserID = trimmed_query c ''user_id'', aof_Query = trimmed_query c ''query'' \<rparr> page pageSize (w_db w) of
          (items, all_count) \<Rightarrow>
            answer (writePage (AdminData (AdminOrdersData (order_views (\<lambda>k. env_at ar [2, k]) (w_db w) items))) page pageSize all_count) w)"

definition adminReap :: "around \<Rightarrow> gin_context \<Rightarrow> world \<Rightarrow> (reply \<times> world) option" where
  "adminReap ar c w =
     (case ReapExpired (\<lambda>k. env_at ar [0, k]) (w_db w) of (reaped, db') \<Rightarrow>
        answer (Json 200 (AdminData (ReapedData reaped)))
          (audit (env_at ar [1]) c (demoUser c) ''order.reap'' ''registration_order'' ''expired''
             (hm_reap_before @ nat_digits reaped @ hm_reap_after) (set_db w db')))"

subsection \<open>Codes from an external worker\<close>

definition receiveMailEvent :: "server \<Rightarrow> around \<Rightarrow> gin_context \<Rightarrow> world \<Rightarrow> (reply \<times> world) option" where
  "receiveMailEvent sv ar c w =
     (if sv_WorkerToken sv = [] \<or> hc_header c ''X-HeroMail-Worker-Token'' \<noteq> sv_WorkerToken sv
      then answer (Failure 403 ''invalid_worker_token'') w
      else case bind_event (sv_bind sv) (hc_body c) of
          None \<Rightarrow> answer (Failure 400 ''invalid_request'') w
        | Some (orderID, code) \<Rightarrow>
          call (ReceiveCodeValue (env_at ar [0]) orderID code) w store_failure (\<lambda>order w.
            answer (Json 200 (OrderData order))
              (audit (env_at ar [1]) c ''mail-worker'' ''order.code.receive'' ''registration_order'' (ord_ID order) hm_code_receive w)))"

definition ready :: "around \<Rightarrow> gin_context \<Rightarrow> world \<Rightarrow> (reply \<times> world) option" where
  "ready ar c w =
     (if ar_ping ar then answer (Json 200 (ReadyData ''ready'' ''postgres+redis'')) w
      else answer (Json 503 (ReadyData ''not_ready'' ''postgres+redis'')) w)"

end
