(* ===== verification/Http_Accounts.thy ===== *)
theory Http_Accounts
  imports Http_Api
begin

text \<open>
  The handlers of \<^verbatim>\<open>internal/http/accounts.go\<close>, \<^verbatim>\<open>webhooks.go\<close> and \<^verbatim>\<open>payments.go\<close>: accounts, sessions and
  keys, the wallet, the webhook endpoints of a user, payments and their providers.
\<close>

subsection \<open>Accounts\<close>

definition register :: "server \<Rightarrow> around \<Rightarrow> gin_context \<Rightarrow> world \<Rightarrow> (reply \<times> world) option" where
  "register sv ar c w =
     (case bind_credentials (sv_bind sv) (hc_body c) of
        None \<Rightarrow> answer (Failure 400 ''invalid_request'') w
      | Some rq \<Rightarrow>
        call (Register (sv_crypto sv) (env_at ar [0]) (cq_Email rq) (cq_Password rq) (cq_DisplayName rq)) w
          (\<lambda>e. Failure (if e = ErrEmailExists then 409 else 400) ''registration_failed'')
          (\<lambda>(user, token). answer (Json 201 (SessionData user token))))"

definition login :: "server \<Rightarrow> around \<Rightarrow> gin_context \<Rightarrow> world \<Rightarrow> (reply \<times> world) option" where
  "login sv ar c w =
     (case bind_credentials (sv_bind sv) (hc_body c) of
        None \<Rightarrow> answer (Failure 400 ''invalid_request'') w
      | Some rq \<Rightarrow>
        call (Login (sv_crypto sv) (env_at ar [0]) (cq_Email rq) (cq_Password rq)) w
          (\<lambda>_. Failure 401 ''invalid_credentials'')
          (\<lambda>(user, token). answer (Json 200 (SessionData user token))))"

definition logout :: "server \<Rightarrow> around \<Rightarrow> gin_context \<Rightarrow> world \<Rightarrow> (reply \<times> world) option" where
  "logout sv ar c w =
     answer NoContent (set_db w (snd (run_tx (Logout (sv_crypto sv) (env_at ar [0]) (bearerToken c)) (w_db w))))"

definition updateProfile :: "server \<Rightarrow> around \<Rightarrow> gin_context \<Rightarrow> world \<Rightarrow> (reply \<times> world) option" where
  "updateProfile sv ar c w =
     (case bind_profile (sv_bind sv) (hc_body c) of
        None \<Rightarrow> answer (Failure 400 ''invalid_request'') w
      | Some displayName \<Rightarrow>
        call (UpdateProfile (env_at ar [0]) (demoUser c) displayName) w (\<lambda>_. Failure 400 ''profile_update_failed'')
          (\<lambda>user w. answer (Json 200 (UserData user))
             (audit (env_at ar [1]) c (usr_ID user) ''user.profile.update'' ''user'' (usr_ID user) hm_profile_update w)))"

definition no_user :: User where
  "no_user = \<lparr> usr_ID = [], usr_Email = [], usr_Balance = 0, usr_Role = [], usr_Status = [], usr_DisplayName = [],
     usr_CreatedAt = zero_time \<rparr>"

definition changePassword :: "server \<Rightarrow> around \<Rightarrow> gin_context \<Rightarrow> world \<Rightarrow> (reply \<times> world) option" where
  "changePassword sv ar c w =
     (case bind_passwords (sv_bind sv) (hc_body c) of
        None \<Rightarrow> answer (Failure 400 ''invalid_request'') w
      | Some (current, new) \<Rightarrow>
        let user = (case authenticatedUser c of None \<Rightarrow> no_user | Some u \<Rightarrow> u); admin = usr_Role user = ''admin''
        in call (ChangePassword (sv_crypto sv) (env_at ar [0]) (usr_ID user) current new) w
             (\<lambda>e. Failure (if e = ErrPasswordMismatch \<or> e = ErrInvalidCredentials then 401 else 400) ''password_change_failed'')
             (\<lambda>token w. answer (Json 200 (TokenData token))
                (audit (env_at ar [1]) c (usr_ID user) (if admin then ''admin.password.change'' else ''user.password.change'') ''user''
                   (usr_ID user) (if admin then hm_admin_password_change else hm_password_change) w)))"

subsection \<open>Keys and the wallet\<close>

definition listAPIKeys :: "around \<Rightarrow> gin_context \<Rightarrow> world \<Rightarrow> (reply \<times> world) option" where
  "listAPIKeys ar c w =
     (case page_of c of (page, pageSize) \<Rightarrow>
        answer (write_page c KeysData (ListAPIKeysPage (env_at ar [0]) (demoUser c) page pageSize (w_db w))) w)"

definition createAPIKey :: "server \<Rightarrow> around \<Rightarrow> gin_context \<Rightarrow> world \<Rightarrow> (reply \<times> world) option" where
  "createAPIKey sv ar c w =
     (case bind_key (sv_bind sv) (hc_body c) of
        None \<Rightarrow> answer (Failure 400 ''invalid_request'') w
      | Some (name, scopes) \<Rightarrow>
        call (CreateAPIKey (sv_crypto sv) (env_at ar [0]) (demoUser c) name scopes) w (\<lambda>_. Failure 400 ''api_key_create_failed'')
          (\<lambda>(key, secret) w. answer (Json 201 (KeyData key secret))
             (audit (env_at ar [1]) c (demoUser c) ''api_key.create'' ''api_key'' (ak_ID key) (ak_Name key) w)))"

definition revokeAPIKey :: "around \<Rightarrow> gin_context \<Rightarrow> world \<Rightarrow> (reply \<times> world) option" where
  "revokeAPIKey ar c w =
     call (RevokeAPIKey (env_at ar [0]) (demoUser c) (hc_param c ''id'')) w (\<lambda>_. Failure 404 ''api_key_not_found'')
       (\<lambda>_ w. answer NoContent
          (audit (env_at ar [1]) c (demoUser c) ''api_key.revoke'' ''api_key'' (hc_param c ''id'') hm_key_revoke w))"

definition walletLedgers :: "around \<Rightarrow> gin_context \<Rightarrow> world \<Rightarrow> (reply \<times> world) option" where
  "walletLedgers ar c w =
     (case page_of c of (page, pageSize) \<Rightarrow>
        answer (write_page c LedgersData (ListWalletLedgersPage (env_at ar [0]) (demoUser c) page pageSize (w_db w))) w)"

definition adminUsers :: "around \<Rightarrow> gin_context \<Rightarrow> world \<Rightarrow> (reply \<times> world) option" where
  "adminUsers ar c w =
     (case page_of c of (page, pageSize) \<Rightarrow>
        answer (write_page c (AdminData \<circ> UsersData) (ListUsersPage (env_at ar [0]) page pageSize (w_db w))) w)"

definition adminAdjustBalance :: "server \<Rightarrow> around \<Rightarrow> gin_context \<Rightarrow> world \<Rightarrow> (reply \<times> world) option" where
  "adminAdjustBalance sv ar c w =
     (case bind_adjustment (sv_bind sv) (hc_body c) of
        None \<Rightarrow> answer (Failure 400 ''invalid_request'') w
      | Some (amount, description0) \<Rightarrow>
        if amount = 0 then answer (Failure 400 ''invalid_request'') w
        else let description = (if trim_space description0 = [] then msg_balance_adjustment else trim_space description0)
             in call (AdjustBalance (env_at ar [0]) (demoUser c) (hc_param c ''id'') amount description (hc_ip c)) w
                  (\<lambda>_. Failure 400 ''balance_adjust_failed'') (\<lambda>user. answer (Json 200 (UserData user))))"

definition adminLedgers :: "around \<Rightarrow> gin_context \<Rightarrow> world \<Rightarrow> (reply \<times> world) option" where
  "adminLedgers ar c w =
     (case page_of c of (page, pageSize) \<Rightarrow>
        answer (write_page c LedgersData (ListWalletLedgersPage (env_at ar [0]) (trimmed_query c ''user_id'') page pageSize (w_db w))) w)"

definition adminAuditLogs :: "around \<Rightarrow> gin_context \<Rightarrow> world \<Rightarrow> (reply \<times> world) option" where
  "adminAuditLogs ar c w =
     (case page_of c of (page, pageSize) \<Rightarrow>
        answer (write_page c (AdminData \<circ> AuditsData) (ListAuditLogsPage (env_at ar [0]) page pageSize (w_db w))) w)"

subsection \<open>Webhooks\<close>

definition listWebhookEndpoints :: "around \<Rightarrow> gin_context \<Rightarrow> world \<Rightarrow> (reply \<times> world) option" where
  "listWebhookEndpoints ar c w =
     (case page_of c of (page, pageSize) \<Rightarrow>
        answer (write_page c EndpointsData (ListWebhookEndpointsPage (env_at ar [0]) (demoUser c) page pageSize (w_db w))) w)"

definition createWebhookEndpoint :: "server \<Rightarrow> around \<Rightarrow> gin_context \<Rightarrow> world \<Rightarrow> (reply \<times> world) option" where
  "createWebhookEndpoint sv ar c w =
     (case bind_webhook (sv_bind sv) (hc_body c) of
        None \<Rightarrow> answer (Failure 400 ''invalid_request'') w
      | Some (url, events) \<Rightarrow>
        call (CreateWebhookEndpoint (sv_crypto sv) (sv_parse_url sv) (env_at ar [0]) (demoUser c) url events) w
          (\<lambda>_. Failure 400 ''webhook_create_failed'') (\<lambda>(endpoint, secret). answer (Json 201 (EndpointData endpoint secret))))"

definition deleteWebhookEndpoint :: "around \<Rightarrow> gin_context \<Rightarrow> world \<Rightarrow> (reply \<times> world) option" where
  "deleteWebhookEndpoint ar c w =
     call (DeleteWebhookEndpoint (env_at ar [0]) (demoUser c) (hc_param c ''id'')) w (\<lambda>_. Failure 404 ''webhook_not_found'')
       (\<lambda>_. answer NoContent)"

definition listWebhookDeliveries :: "around \<Rightarrow> gin_context \<Rightarrow> world \<Rightarrow> (reply \<times> world) option" where
  "listWebhookDeliveries ar c w =
     (case page_of c of (page, pageSize) \<Rightarrow>
        answer (write_page c DeliveriesData (ListWebhookDeliveriesPage (env_at ar [0]) (demoUser c) page pageSize (w_db w))) w)"

definition retryWebhookDelivery :: "around \<Rightarrow> gin_context \<Rightarrow> world \<Rightarrow> (reply \<times> world) option" where
  "retryWebhookDelivery ar c w =
     call (RetryWebhookJob (env_at ar [0]) (demoUser c) (hc_param c ''id'')) w (\<lambda>_. Failure 404 ''webhook_delivery_not_found'')
       (\<lambda>_. answer NoContent)"

subsection \<open>Payments\<close>

definition paymentMethods :: "server \<Rightarrow> around \<Rightarrow> gin_context \<Rightarrow> world \<Rightarrow> (reply \<times> world) option" where
  "paymentMethods sv ar c w =
     answer (case Methods (sv_crypto sv) (env_at ar [0]) (w_db w) of
               Inl _ \<Rightarrow> Failure 500 ''payment_methods_failed'' | Inr ms \<Rightarrow> Json 200 (MethodsData ms)) w"

definition createPaymentOrder :: "server \<Rightarrow> around \<Rightarrow> gin_context \<Rightarrow> world \<Rightarrow> (reply \<times> world) option" where
  "createPaymentOrder sv ar c w =
     (case bind_payment (sv_bind sv) (hc_body c) of
        None \<Rightarrow> answer (Failure 400 ''invalid_request'') w
      | Some (amount, pmethod, mobile) \<Rightarrow>
        (case Create (sv_pay sv) (sv_crypto sv) (env_at ar [0]) (sv_PublicURL sv) (demoUser c) amount pmethod mobile (w_db w) of
           (Inl _, db') \<Rightarrow> answer (Failure 400 ''payment_create_failed'') (set_db w db')
         | (Inr order, db') \<Rightarrow> answer (Json 201 (PaymentData order)) (set_db w db')))"

definition paymentOrders :: "around \<Rightarrow> gin_context \<Rightarrow> world \<Rightarrow> (reply \<times> world) option" where
  "paymentOrders ar c w =
     (case page_of c of (page, pageSize) \<Rightarrow>
        answer (write_page c PaymentsData (ListPaymentOrdersPage (env_at ar [0]) (demoUser c) page pageSize (w_db w))) w)"

definition getPaymentOrder :: "around \<Rightarrow> gin_context \<Rightarrow> world \<Rightarrow> (reply \<times> world) option" where
  "getPaymentOrder ar c w =
     answer (case GetPaymentOrder (env_at ar [0]) (demoUser c) (hc_param c ''id'') (w_db w) of
               None \<Rightarrow> Failure 404 ''payment_order_not_found'' | Some order \<Rightarrow> Json 200 (PaymentData order)) w"

definition cancelPaymentOrder :: "around \<Rightarrow> gin_context \<Rightarrow> world \<Rightarrow> (reply \<times> world) option" where
  "cancelPaymentOrder ar c w =
     call (CancelPaymentOrder (env_at ar [0]) 0 (demoUser c) (hc_param c ''id'')) w (\<lambda>_. Failure 409 ''payment_cancel_failed'')
       (\<lambda>order. answer (Json 200 (PaymentData order)))"

definition paymentWebhook :: "server \<Rightarrow> around \<Rightarrow> gin_context \<Rightarrow> world \<Rightarrow> (reply \<times> world) option" where
  "paymentWebhook sv ar c w =
     (case hc_form c of
        None \<Rightarrow> answer (Plain 400 ''fail'') w
      | Some form \<Rightarrow>
        (case Notify (sv_pay sv) (sv_crypto sv) (env_at ar [0]) (hc_param c ''type'') (query c ''provider_id'') form (w_db w) of
           (Inl _, db') \<Rightarrow> answer (Plain 400 ''fail'') (set_db w db')
         | (Inr _, db') \<Rightarrow> answer (Plain 200 ''success'') (set_db w db')))"

subsection \<open>Payment providers\<close>

definition adminPaymentProviders :: "around \<Rightarrow> gin_context \<Rightarrow> world \<Rightarrow> (reply \<times> world) option" where
  "adminPaymentProviders ar c w =
     (case page_of c of (page, pageSize) \<Rightarrow>
        answer (write_page c (AdminData \<circ> ProvidersData) (ListPaymentProvidersPage (env_at ar [0]) page pageSize (w_db w))) w)"

definition secret_keys :: "string list" where
  "secret_keys = [''pkey'', ''private_key'', ''public_key'']"

definition adminPaymentProvider :: "server \<Rightarrow> around \<Rightarrow> gin_context \<Rightarrow> world \<Rightarrow> (reply \<times> world) option" where
  "adminPaymentProvider sv ar c w =
     answer (case GetPaymentProviderSecret (sv_crypto sv) (env_at ar [0]) 0 (hc_param c ''id'') (w_db w) of
          Inl _ \<Rightarrow> Failure 404 ''payment_provider_not_found''
        | Inr secret \<Rightarrow> Json 200 (AdminData (ProviderData (pps_Provider secret)
            (map (\<lambda>k. (k, get_or_empty (pps_Config secret) k)) [''api_base'', ''pid'', ''channel_id'', ''gateway'', ''app_id''])
            (map (\<lambda>k. (k, trim_space (get_or_empty (pps_Config secret) k) \<noteq> [])) secret_keys)))) w"

text \<open>An edit keeps the stored secrets that it leaves empty.\<close>

fun keep_secrets :: "(string \<rightharpoonup> string) \<Rightarrow> string list \<Rightarrow> (string \<rightharpoonup> string) \<Rightarrow> (string \<rightharpoonup> string)" where
  "keep_secrets existing [] config = config"
| "keep_secrets existing (key # keys) config =
     keep_secrets existing keys
       (if trim_space (get_or_empty config key) = [] then config(key \<mapsto> get_or_empty existing key) else config)"

definition existing_config :: "server \<Rightarrow> around \<Rightarrow> providerRequest \<Rightarrow> db \<Rightarrow> reply + (string \<rightharpoonup> string)" where
  "existing_config sv ar rq db =
     (if pq_ID rq = [] then Inr (pq_Config rq)
      else case GetPaymentProviderSecret (sv_crypto sv) (env_at ar [0]) 0 (pq_ID rq) db of
          Inl _ \<Rightarrow> Inl (Failure 404 ''payment_provider_not_found'')
        | Inr existing \<Rightarrow>
          if pprov_Type (pps_Provider existing) \<noteq> pq_Type rq then Inl (Failure 400 ''payment_provider_type_locked'')
          else Inr (keep_secrets (pps_Config existing) secret_keys (pq_Config rq)))"

definition adminSavePaymentProvider :: "server \<Rightarrow> around \<Rightarrow> gin_context \<Rightarrow> world \<Rightarrow> (reply \<times> world) option" where
  "adminSavePaymentProvider sv ar c w =
     (case bind_provider (sv_bind sv) (hc_body c) of
        None \<Rightarrow> answer (Failure 400 ''invalid_request'') w
      | Some rq \<Rightarrow>
        (case existing_config sv ar rq (w_db w) of
           Inl r \<Rightarrow> answer r w
         | Inr config0 \<Rightarrow>
           let config = (if pq_Type rq = ''alipay'' then config0(''gateway'' \<mapsto> ''https://openapi.alipay.com/gateway.do'') else config0)
           in (case ValidateProviderConfig (sv_pay sv) (pq_Type rq) config of
                 Inl _ \<Rightarrow> answer (Failure 400 ''invalid_request'') w
               | Inr _ \<Rightarrow>
                 call (SavePaymentProvider (sv_crypto sv) (env_at ar [1]) (demoUser c)
                     \<lparr> pprov_ID = pq_ID rq, pprov_Name = pq_Name rq, pprov_Type = pq_Type rq, pprov_Methods = pq_Methods rq,
                       pprov_Enabled = pq_Enabled rq, pprov_Priority = pq_Priority rq, pprov_CreatedAt = zero_time,
                       pprov_UpdatedAt = zero_time \<rparr> config (hc_ip c)) w
                   (\<lambda>_. Failure 400 ''payment_provider_save_failed'') (\<lambda>provider. answer (Json 200 (AdminData (SavedProviderData provider)))))))"

definition adminDeletePaymentProvider :: "around \<Rightarrow> gin_context \<Rightarrow> world \<Rightarrow> (reply \<times> world) option" where
  "adminDeletePaymentProvider ar c w =
     call (DeletePaymentProvider (env_at ar [0]) (demoUser c) (hc_param c ''id'') (hc_ip c)) w
       (\<lambda>e. if e = ErrPaymentProviderInUse then Failure 409 ''payment_provider_in_use'' else Failure 404 ''payment_provider_not_found'')
       (\<lambda>_. answer NoContent)"

definition adminPaymentOrders :: "around \<Rightarrow> gin_context \<Rightarrow> world \<Rightarrow> (reply \<times> world) option" where
  "adminPaymentOrders ar c w =
     (case page_of c of (page, pageSize) \<Rightarrow>
        answer (write_page c PaymentsData (ListPaymentOrdersPage (env_at ar [0]) [] page pageSize (w_db w))) w)"

end
