(* ===== verification/Http_Resources.thy ===== *)
theory Http_Resources
  imports Http_Orders
begin

text \<open>
  The handlers of \<^verbatim>\<open>internal/http/resources.go\<close>: mailboxes, their import, verification and mail, the platforms
  and the authorization of mailboxes by their owners at Microsoft and Google.
\<close>

subsection \<open>Mailboxes\<close>

definition adminInvalidMailboxSummary :: "around \<Rightarrow> gin_context \<Rightarrow> world \<Rightarrow> (reply \<times> world) option" where
  "adminInvalidMailboxSummary ar c w =
     answer (case InvalidMailboxSummary_of (env_at ar [0]) (w_db w) of
               Inl _ \<Rightarrow> Failure 502 ''mailbox_summary_failed'' | Inr summary \<Rightarrow> Json 200 (AdminData (SummaryData summary))) w"

definition invalidMailboxDeleteConfirmation :: string where
  "invalidMailboxDeleteConfirmation = ''DELETE_INVALID_MAILBOXES''"

definition deletion_failure :: "store_error \<Rightarrow> reply" where
  "deletion_failure err =
     (case err of
        ErrInvalidMailboxCountChanged \<Rightarrow> Failure 409 ''mailbox_count_changed''
      | ErrNoInvalidMailboxes \<Rightarrow> Failure 404 ''no_invalid_mailboxes''
      | _ \<Rightarrow> Failure 409 ''mailbox_delete_failed'')"

definition deletion_criterion :: string where
  "deletion_criterion = ''verification_status=failed,state=auth_error,active_order_id'' @ hm_empty"

definition adminDeleteInvalidMailboxes :: "server \<Rightarrow> around \<Rightarrow> gin_context \<Rightarrow> world \<Rightarrow> (reply \<times> world) option" where
  "adminDeleteInvalidMailboxes sv ar c w =
     (case bind_deletion (sv_bind sv) (hc_body c) of
        Some (confirmation, Some expected) \<Rightarrow>
          if confirmation \<noteq> invalidMailboxDeleteConfirmation \<or> expected < 0 then answer (Failure 400 ''invalid_confirmation'') w
          else (case DeleteInvalidMailboxes (env_at ar [0]) (\<lambda>k. env_at ar [1, k]) (ar_batch_locked ar) (demoUser c) (hc_ip c)
                       expected (w_db w) of
                  ((_, Some e), db') \<Rightarrow> answer (deletion_failure e) (set_db w db')
                | ((deleted, None), db') \<Rightarrow> answer (Json 200 (AdminData (DeletedData deleted deletion_criterion))) (set_db w db'))
      | _ \<Rightarrow> answer (Failure 400 ''invalid_confirmation'') w)"

definition adminMailboxPools :: "around \<Rightarrow> gin_context \<Rightarrow> world \<Rightarrow> (reply \<times> world) option" where
  "adminMailboxPools ar c w =
     (case page_of c of (page, pageSize) \<Rightarrow>
        answer (write_page c (AdminData \<circ> PoolsData) (ListMailboxPoolsPage (env_at ar [0]) page pageSize (w_db w))) w)"

definition adminSaveMailbox :: "server \<Rightarrow> around \<Rightarrow> gin_context \<Rightarrow> world \<Rightarrow> (reply \<times> world) option" where
  "adminSaveMailbox sv ar c w =
     (case bind_mailbox (sv_bind sv) (hc_body c) of
        None \<Rightarrow> answer (Failure 400 ''invalid_request'') w
      | Some (box, cred) \<Rightarrow>
        if mbx_Address box = [] then answer (Failure 400 ''invalid_request'') w
        else case DetectMailboxProvider (mbx_Address box) of
            None \<Rightarrow> answer (Failure 400 ''unsupported_mailbox_provider'') w
          | Some provider \<Rightarrow>
            call (SaveMailbox (sv_crypto sv) (env_at ar [0]) (demoUser c)
                (box\<lparr>mbx_Provider := provider, mbx_Pool := DefaultMailboxPoolName\<rparr>) cred (hc_ip c)) w
              (\<lambda>_. Failure 400 ''mailbox_save_failed'') (\<lambda>mailbox. answer (Json 200 (AdminData (MailboxData mailbox)))))"

definition registered_failure :: "store_error \<Rightarrow> reply" where
  "registered_failure err = Failure
     (if err = ErrMailboxServiceLeased then 409
      else if err \<in> {ErrMailboxNotFound, ErrServiceNotFound, ErrMailboxServiceNotFound} then 404 else 400) ''mailbox_service_register_failed''"

definition adminMarkMailboxServiceRegistered :: "around \<Rightarrow> gin_context \<Rightarrow> world \<Rightarrow> (reply \<times> world) option" where
  "adminMarkMailboxServiceRegistered ar c w =
     call (MarkMailboxServiceRegistered (env_at ar [0]) (demoUser c) (hc_param c ''id'') (hc_param c ''service_id'') (hc_ip c)) w
       registered_failure (\<lambda>_. answer (Json 200 (AdminData (RegisteredData ServiceConsumed))))"

definition adminDeleteMailbox :: "around \<Rightarrow> gin_context \<Rightarrow> world \<Rightarrow> (reply \<times> world) option" where
  "adminDeleteMailbox ar c w =
     call (DeleteMailbox (env_at ar [0]) (demoUser c) (hc_param c ''id'') (hc_ip c)) w (\<lambda>_. Failure 409 ''mailbox_delete_failed'')
       (\<lambda>_. answer NoContent)"

text \<open>Who asks the verifier for what.\<close>

definition asked :: "gin_context \<Rightarrow> string \<Rightarrow> string \<Rightarrow> request" where
  "asked c actor mailboxID = \<lparr> rq_actor = actor, rq_mailbox = mailboxID, rq_ip = hc_ip c \<rparr>"

definition calls_at :: "around \<Rightarrow> nat list \<Rightarrow> calls" where
  "calls_at ar p q = ar_out ar (p @ q)"

definition adminVerifyMailbox :: "server \<Rightarrow> around \<Rightarrow> gin_context \<Rightarrow> world \<Rightarrow> (reply \<times> world) option" where
  "adminVerifyMailbox sv ar c w =
     (case Verify (sv_lib sv) (calls_at ar [0]) (the_verifier sv w) (asked c (demoUser c) (hc_param c ''id'')) (w_db w) of
        (_, Some _, db') \<Rightarrow> answer (Failure 502 ''mailbox_verification_failed'') (set_db w db')
      | (result, None, db') \<Rightarrow> answer (Json 200 (AdminData (VerifiedData result))) (set_db w db'))"

text \<open>The verifier reports errors as texts; whether one is the unknown mailbox decides the status.\<close>

definition mailbox_failure :: "server \<Rightarrow> string \<Rightarrow> string \<Rightarrow> reply" where
  "mailbox_failure sv err code = Failure (if err = ml_text (sv_lib sv) ErrMailboxNotFound then 404 else 502) code"

definition adminRescanMailboxHistory :: "server \<Rightarrow> around \<Rightarrow> gin_context \<Rightarrow> world \<Rightarrow> (reply \<times> world) option" where
  "adminRescanMailboxHistory sv ar c w =
     (case ScanMailboxHistory (sv_lib sv) (calls_at ar [0]) (the_verifier sv w) (asked c (demoUser c) (hc_param c ''id'')) (w_db w) of
        None \<Rightarrow> None
      | Some (_, Some e, db') \<Rightarrow> answer (mailbox_failure sv e ''mailbox_history_scan_failed'') (set_db w db')
      | Some (matched, None, db') \<Rightarrow> answer (Json 200 (AdminData (MatchedData matched))) (set_db w db'))"

definition adminRescanAllMailboxHistory :: "around \<Rightarrow> gin_context \<Rightarrow> world \<Rightarrow> (reply \<times> world) option" where
  "adminRescanAllMailboxHistory ar c w =
     (let code = to_lower (trim_space (query c ''service'')); serviceCode = (if code = [] then ''openai'' else code)
      in case QueueMailboxHistoryScans (env_at ar [0]) (ar_redis ar) (ar_cancelled ar) (w_db w) serviceCode (w_redis w) of
           None \<Rightarrow> None
         | Some ((_, Some e), rd) \<Rightarrow>
             answer (Failure (if e = ScanStore ErrServiceNotFound \<or> e = ScanServiceNotFound then 404 else 502) ''mailbox_history_scan_queue_failed'')
               (w\<lparr>w_redis := rd\<rparr>)
         | Some ((result, None), rd) \<Rightarrow>
             answer (Json 202 (AdminData (QueuedData result)))
               (audit (env_at ar [1]) c (demoUser c) ''mailbox.history.bulk_queue'' ''mailbox'' ''all''
                  (hm_history_submit @ hsr_ServiceCode result @ hm_history_eligible @ int_digits (hsr_Eligible result)
                     @ hm_history_queued @ int_digits (hsr_Queued result) @ hm_history_end) (w\<lparr>w_redis := rd\<rparr>)))"

subsection \<open>Reading mail\<close>

text \<open>The slice of one page; the product of page and size can overflow, and then the slice expression panics.\<close>

definition page_messages :: "Message list \<Rightarrow> go_int \<Rightarrow> go_int \<Rightarrow> panic + Message list" where
  "page_messages messages page pageSize =
     (let start = (page - 1) * pageSize; all_count = int (length messages)
      in if sint start \<ge> all_count then Inr []
         else let end' = start + pageSize
              in go_slice messages (sint start) (if sint end' > all_count then all_count else sint end'))"

definition adminMailboxMessages :: "server \<Rightarrow> around \<Rightarrow> gin_context \<Rightarrow> world \<Rightarrow> (reply \<times> world) option" where
  "adminMailboxMessages sv ar c w =
     (case ReadMessages (sv_lib sv) (calls_at ar [0]) (the_verifier sv w) (asked c (demoUser c) (hc_param c ''id'')) (w_db w) of
        None \<Rightarrow> None
      | Some (Inl e, db') \<Rightarrow> answer (mailbox_failure sv e ''mailbox_messages_failed'') (set_db w db')
      | Some (Inr messages, db') \<Rightarrow>
        (case page_of c of (page, pageSize) \<Rightarrow>
           case page_messages messages page pageSize of
             Inl _ \<Rightarrow> answer Panicked (set_db w db')
           | Inr items \<Rightarrow>
             answer (writePage (MessagesData items) page pageSize (int (length messages)))
               (audit (env_at ar [1]) c (demoUser c) ''mailbox.messages.read'' ''mailbox'' (hc_param c ''id'') hm_mailbox_messages
                  (set_db w db'))))"

definition order_service :: "Service list \<Rightarrow> Order \<Rightarrow> Service option" where
  "order_service items order = find (\<lambda>s. svc_ID s = ord_ServiceID order \<or> svc_Code s = ord_ServiceCode order) items"

text \<open>The mail of an order: read by its user, only what came in its time and matches its platform.\<close>

definition read_order_mail :: "server \<Rightarrow> around \<Rightarrow> gin_context \<Rightarrow> Service \<Rightarrow> Order \<Rightarrow> world \<Rightarrow> (reply \<times> world) option" where
  "read_order_mail sv ar c service order w =
     (case ReadMessages (sv_lib sv) (calls_at ar [2]) (the_verifier sv w) (asked c (demoUser c) (ord_MailboxID order)) (w_db w) of
        None \<Rightarrow> None
      | Some (Inl _, db') \<Rightarrow> answer (Failure 502 ''order_messages_failed'') (set_db w db')
      | Some (Inr all_messages, db') \<Rightarrow>
        (case page_of c of (page, pageSize) \<Rightarrow>
           let messages = FilterMessagesForOrder service order all_messages
           in case page_messages messages page pageSize of
                Inl _ \<Rightarrow> answer Panicked (set_db w db')
              | Inr items \<Rightarrow>
                answer (writePage (MessagesData items) page pageSize (int (length messages)))
                  (audit (env_at ar [3]) c (demoUser c) ''order.messages.read'' ''registration_order'' (ord_ID order) hm_order_messages
                     (set_db w db'))))"

definition userOrderMessages :: "server \<Rightarrow> around \<Rightarrow> gin_context \<Rightarrow> world \<Rightarrow> (reply \<times> world) option" where
  "userOrderMessages sv ar c w =
     (case GetOrder (env_at ar [0]) (hc_param c ''id'') (w_db w) of
        None \<Rightarrow> answer (Failure 404 ''order_not_found'') w
      | Some order \<Rightarrow>
        if ord_UserID order \<noteq> demoUser c then answer (Failure 404 ''order_not_found'') w
        else case order_service (ListServices (env_at ar [1]) (w_db w)) order of
            None \<Rightarrow> answer (Failure 404 ''service_not_found'') w
          | Some service \<Rightarrow>
            if svc_ID service = [] then answer (Failure 404 ''service_not_found'') w
            else read_order_mail sv ar c service order w)"

subsection \<open>The import\<close>

definition no_mailbox :: Mailbox where
  "no_mailbox = \<lparr> mbx_ID = [], mbx_Address = [], mbx_Provider = [], mbx_Pool = [], mbx_State = [], mbx_HealthScore = 0,
     mbx_OAuthValidUntil = zero_time, mbx_ActiveOrderID = [], mbx_TodayCodes = 0, mbx_LastReceivedAt = zero_time,
     mbx_ConnectionMethod = [], mbx_VerificationStatus = [], mbx_LastVerifiedAt = zero_time, mbx_VerificationError = [],
     mbx_RegisteredPlatforms = [], mbx_Services = [] \<rparr>"

definition imported_mailbox :: "MailboxPool \<Rightarrow> MailboxImportRecord \<Rightarrow> Mailbox" where
  "imported_mailbox pool r = no_mailbox\<lparr>mbx_Address := ir_Address r, mbx_Provider := ir_Provider r, mbx_Pool := mp_Name pool,
     mbx_State := MailboxPending, mbx_ConnectionMethod := ir_ConnectionMethod r,
     mbx_VerificationStatus := MailboxVerificationPending\<rparr>"

text \<open>Saving one record; the mailbox counts as imported even when it cannot be queued for verification.\<close>

definition import_record ::
  "server \<Rightarrow> around \<Rightarrow> gin_context \<Rightarrow> MailboxPool \<Rightarrow> nat \<Rightarrow> MailboxImportRecord \<Rightarrow> world \<Rightarrow> string option \<times> world" where
  "import_record sv ar c pool n r w =
     (case run_tx (SaveMailbox (sv_crypto sv) (env_at ar [1, n]) (demoUser c) (imported_mailbox pool r) (import_credential r) (hc_ip c)) (w_db w) of
        (Inl e, db') \<Rightarrow> (Some (ml_text (sv_lib sv) e), set_db w db')
      | (Inr mailbox, db') \<Rightarrow>
          (None, (set_db w db')\<lparr>w_redis := snd (EnqueueMailboxVerification (ar_redis ar n) (mbx_ID mailbox) (w_redis w))\<rparr>))"

definition import_file :: "server \<Rightarrow> around \<Rightarrow> gin_context \<Rightarrow> MailboxPool \<Rightarrow> upload_part \<Rightarrow> world \<Rightarrow> (reply \<times> world) option" where
  "import_file sv ar c pool part w =
     (case StreamMailboxImport (parse_mailbox_line (sv_json_line sv) (sv_parse_address sv)) (import_record sv ar c pool)
             (up_Content part) (up_Error part) w of
        (_, Some _, w') \<Rightarrow> answer (Failure 400 ''mailbox_import_failed'') w'
      | (result, None, w') \<Rightarrow> answer (Json 200 (AdminData (ImportData result))) w')"

definition adminImportMailboxes :: "server \<Rightarrow> around \<Rightarrow> gin_context \<Rightarrow> world \<Rightarrow> (reply \<times> world) option" where
  "adminImportMailboxes sv ar c w =
     (case MailboxPoolByName (env_at ar [0]) DefaultMailboxPoolName (w_db w) of
        None \<Rightarrow> answer (Failure 400 ''mailbox_pool_not_found'') w
      | Some pool \<Rightarrow>
        if \<not> mp_Enabled pool then answer (Failure 400 ''mailbox_pool_not_found'') w
        else case hc_upload c of
            None \<Rightarrow> answer (Failure 400 ''invalid_mailbox_file'') w
          | Some (parts, broken) \<Rightarrow>
            (case find (\<lambda>p. up_FormName p = ''file'') parts of
               Some part \<Rightarrow> import_file sv ar c pool part w
             | None \<Rightarrow> answer (Failure 400 (if broken then ''mailbox_file_read_failed'' else ''mailbox_file_missing'')) w))"

end
