(* ===== verification/Http_OAuth.thy ===== *)
theory Http_OAuth
  imports Http_Resources
begin

text \<open>
  More handlers of \<^verbatim>\<open>internal/http/resources.go\<close>: the administration of the platforms, and the authorization of a
  mailbox by its owner at Microsoft or Google, which starts with a random state in Redis and ends in a callback.
\<close>

subsection \<open>Platforms\<close>

definition normal_prices :: "(string \<times> float64) list \<Rightarrow> (string \<times> float64) list" where
  "normal_prices prices = fold (\<lambda>(provider, price). AList.update (to_lower (trim_space provider)) price) prices []"

definition normal_service :: "Service \<Rightarrow> Service" where
  "normal_service s = s\<lparr>svc_Code := to_lower (trim_space (svc_Code s)), svc_Name := trim_space (svc_Name s),
     svc_Description := trim_space (svc_Description s), svc_Regex := trim_space (svc_Regex s),
     svc_AllowedProviders := normalizeServiceList (svc_AllowedProviders s), svc_ProviderPrices := normal_prices (svc_ProviderPrices s),
     svc_SenderDomains := normalizeServiceList (svc_SenderDomains s), svc_SubjectKeywords := normalizeServiceList (svc_SubjectKeywords s)\<rparr>"

definition priced_provider :: "Service \<Rightarrow> string \<Rightarrow> bool" where
  "priced_provider s provider \<longleftrightarrow> IsSupportedMailboxProvider provider
     \<and> (case map_of (svc_ProviderPrices s) provider of None \<Rightarrow> False | Some price \<Rightarrow> \<not> price < 0)"

definition service_problem :: "(string \<Rightarrow> bool) \<Rightarrow> Service \<Rightarrow> string option" where
  "service_problem regex_ok s =
     (if svc_Code s = [] \<or> svc_Name s = [] \<or> svc_Regex s = [] then Some ''invalid_request''
      else if \<not> regex_ok (svc_Regex s) then Some ''invalid_code_regex''
      else if svc_TTLSeconds s \<noteq> MinimumOrderTTLSeconds \<or> svc_AllowedProviders s = []
              \<or> (\<exists>p\<in>set (svc_AllowedProviders s). \<not> priced_provider s p)
              \<or> length (svc_ProviderPrices s) \<noteq> length (svc_AllowedProviders s)
              \<or> svc_SenderDomains s = [] \<or> svc_SubjectKeywords s = [] then Some ''invalid_service_config''
      else None)"

definition adminSaveService :: "server \<Rightarrow> around \<Rightarrow> gin_context \<Rightarrow> world \<Rightarrow> (reply \<times> world) option" where
  "adminSaveService sv ar c w =
     (case bind_service (sv_bind sv) (hc_body c) of
        None \<Rightarrow> answer (Failure 400 ''invalid_request'') w
      | Some request \<Rightarrow>
        (case service_problem (sv_regex_ok sv) (normal_service request) of
           Some code \<Rightarrow> answer (Failure 400 code) w
         | None \<Rightarrow>
           call (SaveService (env_at ar [0]) (demoUser c) (normal_service request) (hc_ip c)) w (\<lambda>_. Failure 400 ''service_save_failed'')
             (\<lambda>service. answer (Json 200 (AdminData (ServiceData service))))))"

definition adminDeleteService :: "around \<Rightarrow> gin_context \<Rightarrow> world \<Rightarrow> (reply \<times> world) option" where
  "adminDeleteService ar c w =
     call (DeleteService (env_at ar [0]) (demoUser c) (hc_param c ''id'') (hc_ip c)) w (\<lambda>_. Failure 409 ''service_delete_failed'')
       (\<lambda>_. answer NoContent)"

subsection \<open>Authorizations\<close>

text \<open>A new random state: who asked, for which provider and mailbox; it lives for ten minutes.\<close>

definition start_authorization ::
  "around \<Rightarrow> gin_context \<Rightarrow> string \<Rightarrow> string \<Rightarrow> (string \<Rightarrow> string) \<Rightarrow> world \<Rightarrow> (reply \<times> world) option" where
  "start_authorization ar c provider mailboxID auth_url w =
     (case random (env_at ar [1]) 0 of
        None \<Rightarrow> answer (Failure 500 ''oauth_state_failed'') w
      | Some state \<Rightarrow>
        (case CreateOAuthState (ar_redis ar 0) (clock (env_at ar [1]) 0) state
               \<lparr> oas_ActorID = demoUser c, oas_Pool = DefaultMailboxPoolName, oas_Provider = provider, oas_MailboxID = mailboxID \<rparr>
               (10 * minute) (w_redis w) of
           (Some _, rd) \<Rightarrow> answer (Failure 500 ''oauth_state_failed'') (w\<lparr>w_redis := rd\<rparr>)
         | (None, rd) \<Rightarrow> answer (Json 200 (AdminData (AuthorizationData (auth_url state)))) (w\<lparr>w_redis := rd\<rparr>)))"

definition microsoftOAuthStart :: "server \<Rightarrow> around \<Rightarrow> gin_context \<Rightarrow> world \<Rightarrow> (reply \<times> world) option" where
  "microsoftOAuthStart sv ar c w =
     (if \<not> ms_Enabled (sv_Microsoft sv) then answer (Failure 503 ''microsoft_oauth_unavailable'') w
      else case bind_microsoft (sv_bind sv) (hc_body c) of
          None \<Rightarrow> answer (Failure 400 ''invalid_request'') w
        | Some mailboxID \<Rightarrow>
          if mailboxID = [] then start_authorization ar c ''microsoft'' mailboxID (ms_AuthURL (sv_Microsoft sv)) w
          else (case GetMailboxCredential (sv_crypto sv) (env_at ar [0]) mailboxID (w_db w) of
                  Inl _ \<Rightarrow> answer (Failure 404 ''mailbox_not_found'') w
                | Inr cred \<Rightarrow>
                  if \<not> IsMicrosoftMailboxProvider (mbx_Provider (mc_Mailbox cred))
                  then answer (Failure 400 ''unsupported_mailbox_provider'') w
                  else start_authorization ar c ''microsoft'' mailboxID (ms_AuthURL (sv_Microsoft sv)) w))"

definition googleOAuthStart :: "server \<Rightarrow> around \<Rightarrow> gin_context \<Rightarrow> world \<Rightarrow> (reply \<times> world) option" where
  "googleOAuthStart sv ar c w =
     (if \<not> google_Enabled (w_google w) then answer (Failure 503 ''google_oauth_unavailable'') w
      else case bind_google (sv_bind sv) (hc_body c) of
          None \<Rightarrow> answer (Failure 400 ''invalid_request'') w
        | Some _ \<Rightarrow> start_authorization ar c ''google'' [] (google_AuthURL (w_google w)) w)"

text \<open>The state of a callback: used up by reading it, and refused when it is unknown, expired or of the other provider.\<close>

definition authorized_mailbox :: "string \<Rightarrow> string \<Rightarrow> string \<Rightarrow> time \<Rightarrow> Mailbox" where
  "authorized_mailbox mailboxID address provider validUntil = no_mailbox\<lparr>mbx_ID := mailboxID, mbx_Address := address,
     mbx_Provider := provider, mbx_Pool := DefaultMailboxPoolName, mbx_State := MailboxPending, mbx_OAuthValidUntil := validUntil,
     mbx_ConnectionMethod := MailboxConnectionAuto, mbx_VerificationStatus := MailboxVerificationPending\<rparr>"

definition oauth_redirect :: "server \<Rightarrow> string \<Rightarrow> string \<Rightarrow> string" where
  "oauth_redirect sv provider address =
     (if sv_PublicURL sv = [] then ''/?oauth='' @ provider @ ''&status=success''
      else trim_right_char (sv_PublicURL sv) (CHR ''/'') @ ''/?oauth='' @ provider @ ''&status=success&address='' @ query_escape address)"

definition save_authorized ::
  "server \<Rightarrow> around \<Rightarrow> gin_context \<Rightarrow> string \<Rightarrow> string \<Rightarrow> Mailbox \<Rightarrow> credential \<Rightarrow> world \<Rightarrow> (reply \<times> world) option" where
  "save_authorized sv ar c actor provider box cred w =
     call (SaveMailbox (sv_crypto sv) (env_at ar [4]) actor box cred (hc_ip c)) w (\<lambda>_. Failure 400 ''mailbox_save_failed'')
       (\<lambda>mailbox w. answer (Redirected (oauth_redirect sv provider (mbx_Address box)))
          (w\<lparr>w_redis := snd (EnqueueMailboxVerification (ar_redis ar 1) (mbx_ID mailbox) (w_redis w))\<rparr>))"

text \<open>A mailbox named at the start must be the one whose owner agreed.\<close>

definition wrong_target :: "server \<Rightarrow> around \<Rightarrow> string \<Rightarrow> string \<Rightarrow> db \<Rightarrow> reply option" where
  "wrong_target sv ar mailboxID address db =
     (if mailboxID = [] then None
      else case GetMailboxCredential (sv_crypto sv) (env_at ar [3]) mailboxID db of
          Inl _ \<Rightarrow> Some (Failure 404 ''mailbox_not_found'')
        | Inr target \<Rightarrow> if equal_fold (mbx_Address (mc_Mailbox target)) address then None
                        else Some (Failure 400 ''oauth_mailbox_mismatch''))"

definition microsoft_authorized :: "server \<Rightarrow> around \<Rightarrow> gin_context \<Rightarrow> OAuthState \<Rightarrow> world \<Rightarrow> (reply \<times> world) option" where
  "microsoft_authorized sv ar c state w =
     (let out1 = ar_out ar [1]; out2 = ar_out ar [2]
      in case ms_Exchange (o_net out1) 0 (clock (o_env out1) 0) (sv_Microsoft sv) (query c ''code'') of
           Inl _ \<Rightarrow> answer (Failure 502 ''oauth_exchange_failed'') w
         | Inr (cred, validUntil) \<Rightarrow>
           (case ms_Profile (o_net out2) 0 (sv_Microsoft sv) (get_or_empty cred ''access_token'') of
              Inl _ \<Rightarrow> answer (Failure 502 ''oauth_profile_failed'') w
            | Inr address \<Rightarrow>
              (case DetectMailboxProvider address of
                 None \<Rightarrow> answer (Failure 400 ''unsupported_mailbox_provider'') w
               | Some provider \<Rightarrow>
                 if \<not> IsMicrosoftMailboxProvider provider then answer (Failure 400 ''unsupported_mailbox_provider'') w
                 else case wrong_target sv ar (oas_MailboxID state) address (w_db w) of
                     Some r \<Rightarrow> answer r w
                   | None \<Rightarrow> save_authorized sv ar c (oas_ActorID state) ''microsoft''
                       (authorized_mailbox (oas_MailboxID state) address provider validUntil) cred w)))"

definition microsoftOAuthCallback :: "server \<Rightarrow> around \<Rightarrow> gin_context \<Rightarrow> world \<Rightarrow> (reply \<times> world) option" where
  "microsoftOAuthCallback sv ar c w =
     (if \<not> ms_Enabled (sv_Microsoft sv) then answer (Failure 503 ''microsoft_oauth_unavailable'') w
      else case ConsumeOAuthState (ar_redis ar 0) (clock (env_at ar [0]) 0) (query c ''state'') (w_redis w) of
          (Inl _, rd) \<Rightarrow> answer (Failure 400 ''invalid_oauth_state'') (w\<lparr>w_redis := rd\<rparr>)
        | (Inr state, rd) \<Rightarrow>
          if query c ''code'' = [] \<or> oas_Provider state \<noteq> [] \<and> oas_Provider state \<noteq> ''microsoft''
          then answer (Failure 400 ''invalid_oauth_state'') (w\<lparr>w_redis := rd\<rparr>)
          else microsoft_authorized sv ar c state (w\<lparr>w_redis := rd\<rparr>))"

definition google_authorized :: "server \<Rightarrow> around \<Rightarrow> gin_context \<Rightarrow> OAuthState \<Rightarrow> world \<Rightarrow> (reply \<times> world) option" where
  "google_authorized sv ar c state w =
     (let out1 = ar_out ar [1]; out2 = ar_out ar [2]
      in case google_Exchange (o_net out1) 0 (clock (o_env out1) 0) (w_google w) (query c ''code'') of
           Inl _ \<Rightarrow> answer (Failure 502 ''oauth_exchange_failed'') w
         | Inr (cred, validUntil) \<Rightarrow>
           (case google_Profile (o_net out2) 0 (w_google w) (get_or_empty cred ''access_token'') of
              Inl _ \<Rightarrow> answer (Failure 502 ''oauth_profile_failed'') w
            | Inr address \<Rightarrow>
              if DetectMailboxProvider address \<noteq> Some MailboxProviderGmail
              then answer (Failure 400 ''unsupported_mailbox_provider'') w
              else save_authorized sv ar c (oas_ActorID state) ''google''
                     (authorized_mailbox [] address MailboxProviderGmail validUntil) cred w))"

definition googleOAuthCallback :: "server \<Rightarrow> around \<Rightarrow> gin_context \<Rightarrow> world \<Rightarrow> (reply \<times> world) option" where
  "googleOAuthCallback sv ar c w =
     (if \<not> google_Enabled (w_google w) then answer (Failure 503 ''google_oauth_unavailable'') w
      else case ConsumeOAuthState (ar_redis ar 0) (clock (env_at ar [0]) 0) (query c ''state'') (w_redis w) of
          (Inl _, rd) \<Rightarrow> answer (Failure 400 ''invalid_oauth_state'') (w\<lparr>w_redis := rd\<rparr>)
        | (Inr state, rd) \<Rightarrow>
          if query c ''code'' = [] \<or> oas_Provider state \<noteq> [] \<and> oas_Provider state \<noteq> ''google''
          then answer (Failure 400 ''invalid_oauth_state'') (w\<lparr>w_redis := rd\<rparr>)
          else google_authorized sv ar c state (w\<lparr>w_redis := rd\<rparr>))"

subsection \<open>The Google client\<close>

definition googleOAuthConfigKey :: string where
  "googleOAuthConfigKey = ''oauth.google''"

definition maskOAuthClientID :: "string \<Rightarrow> string" where
  "maskOAuthClientID clientID0 =
     (let clientID = trim_space clientID0
      in if length clientID \<le> 12 then (if clientID = [] then [] else hm_masked)
         else take 8 clientID @ hm_ellipsis @ drop (length clientID - 8) clientID)"

definition adminGoogleOAuthConfig :: "server \<Rightarrow> around \<Rightarrow> gin_context \<Rightarrow> world \<Rightarrow> (reply \<times> world) option" where
  "adminGoogleOAuthConfig sv ar c w =
     answer (case GetSystemConfig (sv_crypto sv) (env_at ar [0]) googleOAuthConfigKey (w_db w) of
          Inl _ \<Rightarrow> Failure 500 ''system_config_read_failed''
        | Inr None \<Rightarrow> (case google_ConfigSummary (w_google w) of (clientID, redirectURI, configured) \<Rightarrow>
            Json 200 (AdminData (GoogleData configured (maskOAuthClientID clientID) redirectURI)))
        | Inr (Some saved) \<Rightarrow>
            Json 200 (AdminData (GoogleData (\<forall>k\<in>set [''client_id'', ''client_secret'', ''redirect_uri'']. trimmed saved k \<noteq> [])
              (maskOAuthClientID (get_or_empty saved ''client_id'')) (get_or_empty saved ''redirect_uri'')))) w"

text \<open>What is left empty is taken from the stored configuration; the address of the callback from the address of the server.\<close>

definition google_request ::
  "string \<Rightarrow> (string \<rightharpoonup> string) option \<Rightarrow> string \<times> string \<times> string \<Rightarrow> string \<times> string \<times> string" where
  "google_request publicURL existing = (\<lambda>(clientID, clientSecret, redirectURI).
     let stored = (\<lambda>k. case existing of None \<Rightarrow> [] | Some m \<Rightarrow> trimmed m k)
     in (if trim_space clientID = [] then stored ''client_id'' else trim_space clientID,
         if trim_space clientSecret = [] then stored ''client_secret'' else trim_space clientSecret,
         if trim_space redirectURI = [] then trim_right_char publicURL (CHR ''/'') @ ''/api/v1/oauth/google/callback''
         else trim_space redirectURI))"

definition redirect_ok :: "(string \<Rightarrow> (string \<times> string) option) \<Rightarrow> string \<Rightarrow> bool" where
  "redirect_ok parse_url uri =
     (case parse_url uri of None \<Rightarrow> False
      | Some (scheme, host) \<Rightarrow> scheme \<noteq> [] \<and> host \<noteq> [] \<and> (to_lower scheme = ''http'' \<or> to_lower scheme = ''https''))"

definition google_of :: "string \<times> string \<times> string \<Rightarrow> GoogleConfig" where
  "google_of = (\<lambda>(clientID, clientSecret, redirectURI). \<lparr> gc_ClientID = clientID, gc_ClientSecret = clientSecret,
     gc_RedirectURI = redirectURI, gc_AuthorizationURL = [], gc_TokenURL = [], gc_UserInfoURL = [] \<rparr>)"

definition adminSaveGoogleOAuthConfig :: "server \<Rightarrow> around \<Rightarrow> gin_context \<Rightarrow> world \<Rightarrow> (reply \<times> world) option" where
  "adminSaveGoogleOAuthConfig sv ar c w =
     (case bind_google_config (sv_bind sv) (hc_body c) of
        None \<Rightarrow> answer (Failure 400 ''invalid_request'') w
      | Some given \<Rightarrow>
        (case GetSystemConfig (sv_crypto sv) (env_at ar [0]) googleOAuthConfigKey (w_db w) of
           Inl _ \<Rightarrow> answer (Failure 500 ''system_config_read_failed'') w
         | Inr existing \<Rightarrow>
           let (clientID, clientSecret, redirectURI) = google_request (sv_PublicURL sv) existing given
           in if clientID = [] \<or> clientSecret = [] \<or> redirectURI = [] then answer (Failure 400 ''invalid_google_oauth_config'') w
              else if \<not> redirect_ok (sv_parse_url sv) redirectURI then answer (Failure 400 ''invalid_google_oauth_redirect'') w
              else call (SaveSystemConfig (sv_crypto sv) (env_at ar [1]) googleOAuthConfigKey
                     [''client_id'' \<mapsto> clientID, ''client_secret'' \<mapsto> clientSecret, ''redirect_uri'' \<mapsto> redirectURI]) w
                   (\<lambda>_. Failure 500 ''system_config_save_failed'')
                   (\<lambda>_ w. answer (Json 200 (AdminData (GoogleData True (maskOAuthClientID clientID) redirectURI)))
                      (audit (env_at ar [2]) c (demoUser c) ''system_config.google_oauth.save'' ''system_config'' googleOAuthConfigKey
                         hm_google_config (w\<lparr>w_google := google_Configure (google_of (clientID, clientSecret, redirectURI)) (w_google w)\<rparr>)))))"

subsection \<open>The clients of a new server\<close>

text \<open>\<open>getenv\<close> is the environment of the process.  The address of a callback is made from that of the server when it is not set.\<close>

definition redirect_or :: "string \<Rightarrow> string \<Rightarrow> string \<Rightarrow> string" where
  "redirect_or configured publicURL provider =
     (if configured = [] \<and> publicURL \<noteq> [] then trim_right_char publicURL (CHR ''/'') @ ''/api/v1/oauth/'' @ provider @ ''/callback''
      else configured)"

definition new_microsoft :: "(string \<Rightarrow> string) \<Rightarrow> MicrosoftConfig" where
  "new_microsoft getenv = NewMicrosoftClient \<lparr> mc_ClientID = getenv ''MICROSOFT_CLIENT_ID'',
     mc_ClientSecret = getenv ''MICROSOFT_CLIENT_SECRET'', mc_Tenant = getenv ''MICROSOFT_TENANT'',
     mc_RedirectURI = redirect_or (getenv ''MICROSOFT_REDIRECT_URI'') (getenv ''HEROMAIL_PUBLIC_URL'') ''microsoft'', mc_GraphBaseURL = [] \<rparr>"

definition new_google :: "(string \<Rightarrow> string) \<Rightarrow> crypto \<Rightarrow> env \<Rightarrow> db \<Rightarrow> GoogleConfig option" where
  "new_google getenv cr env db =
     (let client = NewGoogleClient (google_of (getenv ''GOOGLE_CLIENT_ID'', getenv ''GOOGLE_CLIENT_SECRET'',
            redirect_or (getenv ''GOOGLE_REDIRECT_URI'') (getenv ''HEROMAIL_PUBLIC_URL'') ''google''))
      in case GetSystemConfig cr env googleOAuthConfigKey db of
           Inr (Some saved) \<Rightarrow> google_Configure (google_of (get_or_empty saved ''client_id'', get_or_empty saved ''client_secret'',
             get_or_empty saved ''redirect_uri'')) client
         | _ \<Rightarrow> client)"

end
