(* ===== verification/Upgrade.thy ===== *)
theory Upgrade
  imports Http_Api
begin

text \<open>
  The upgrade of the running server (\<^verbatim>\<open>internal/http/upgrade.go\<close>) and the backup before it
  (\<^verbatim>\<open>upgrade_backup.go\<close>).  The server and the program that replaces it share two files, one with the state of
  the upgrade and one with the request; each is written by renaming a new file over it.
\<close>

definition no_release :: releaseView where
  "no_release = \<lparr> rel_Tag = [], rel_Name = [], rel_Notes = [], rel_URL = [], rel_PublishedAt = zero_time \<rparr>"

text \<open>The answer of the release server: an error, or a status and the decoded body, \<open>None\<close> when that is malformed.\<close>

definition latestGitHubRelease :: "string + int \<times> releaseView option \<Rightarrow> releaseView" where
  "latestGitHubRelease response =
     (case response of
        Inl _ \<Rightarrow> no_release
      | Inr (status, payload) \<Rightarrow>
        if status \<noteq> 200 then no_release else case payload of None \<Rightarrow> no_release | Some latest \<Rightarrow> latest)"

definition sameReleaseVersion :: "string \<Rightarrow> string \<Rightarrow> bool" where
  "sameReleaseVersion current target =
     (let normalize = (\<lambda>v. trim_prefix (trim_space v) ''v'') in normalize current \<noteq> [] \<and> normalize current = normalize target)"

definition readUpgradeStatus :: "string \<Rightarrow> bool \<Rightarrow> upgradeStatus option \<Rightarrow> upgradeStatus option" where
  "readUpgradeStatus path unreadable file = (if path = [] \<or> unreadable then None else file)"

definition adminVersion :: "server \<Rightarrow> around \<Rightarrow> gin_context \<Rightarrow> world \<Rightarrow> (reply \<times> world) option" where
  "adminVersion sv ar c w =
     (let status = (case readUpgradeStatus (sv_UpgradeStatusPath sv) (ar_unreadable ar) (w_status w) of
             None \<Rightarrow> \<lparr> upg_State = ''idle'', upg_Message = hm_upgrade_idle, upg_UpdatedAt = zero_time \<rparr> | Some current \<Rightarrow> current)
      in answer (Json 200 (AdminData (VersionData \<lparr> ver_CurrentVersion = sv_Version sv, ver_Commit = sv_Commit sv, ver_BuildTime = sv_BuildTime sv,
           ver_Image = ''ghcr.io/ljunn/heromail:latest'',
           ver_OnlineUpgradeEnabled = (sv_UpgradeRequestPath sv \<noteq> [] \<and> sv_UpgradeStatusPath sv \<noteq> [] \<and> sv_UpgradeBackup sv \<noteq> None),
           ver_Upgrade = status, ver_LatestRelease = latestGitHubRelease (ar_release ar) \<rparr>))) w)"

subsection \<open>The backup\<close>

definition newPostgresUpgradeBackup :: "string \<Rightarrow> string \<Rightarrow> string \<Rightarrow> (string \<times> string \<times> string) option" where
  "newPostgresUpgradeBackup databaseURL backupDir pgDumpCommand =
     (if trim_space databaseURL = [] \<or> trim_space backupDir = [] \<or> trim_space pgDumpCommand = [] then None
      else Some (trim_space databaseURL, trim_space backupDir, trim_space pgDumpCommand))"

definition dump_variables :: "string list" where
  "dump_variables = [''PGDATABASE='', ''PGHOST='', ''PGPORT='', ''PGUSER='', ''PGPASSWORD='', ''PGSSLMODE='']"

definition variable :: "string \<Rightarrow> string \<Rightarrow> string list" where
  "variable name v = (if v = [] then [] else [name @ v])"

definition postgresDumpEnvironment :: "(string \<Rightarrow> database_url option) \<Rightarrow> string list \<Rightarrow> string \<Rightarrow> string list" where
  "postgresDumpEnvironment parse environ databaseURL =
     (let environment = filter (\<lambda>item. \<not> (\<exists>p\<in>set dump_variables. has_prefix item p)) environ;
          plain = environment @ [''PGDATABASE='' @ trim_space databaseURL]
      in case parse (trim_space databaseURL) of
           None \<Rightarrow> plain
         | Some u \<Rightarrow>
           if du_Scheme u = [] \<or> du_Host u = [] then plain
           else environment @ variable ''PGHOST='' (du_Hostname u) @ variable ''PGPORT='' (du_Port u)
             @ (case du_User u of None \<Rightarrow> []
                | Some (user, password) \<Rightarrow> variable ''PGUSER='' user @ (case password of None \<Rightarrow> [] | Some p \<Rightarrow> [''PGPASSWORD='' @ p]))
             @ variable ''PGDATABASE='' (trim_prefix (du_Path u) ''/'') @ variable ''PGSSLMODE='' (du_SSLMode u))"

definition verifyGzipFile :: "dump_run \<Rightarrow> string \<Rightarrow> bool" where
  "verifyGzipFile run content \<longleftrightarrow> \<not> dr_fail run 6 \<and> dr_gunzip run content \<noteq> None"

text \<open>A version in UTF-8 is kept where a file name allows it; any other character, of however many bytes, becomes a dash.\<close>

definition token_char :: "char \<Rightarrow> bool" where
  "token_char ch \<longleftrightarrow> ch \<in> set ''abcdefghijklmnopqrstuvwxyzABCDEFGHIJKLMNOPQRSTUVWXYZ0123456789.-_''"

definition continuation_byte :: "char \<Rightarrow> bool" where
  "continuation_byte ch \<longleftrightarrow> 0x80 \<le> (of_char ch :: nat) \<and> (of_char ch :: nat) < 0xC0"

definition backupVersionToken :: "string \<Rightarrow> string" where
  "backupVersionToken version =
     (let token = map (\<lambda>ch. if token_char ch then ch else CHR ''-'') (filter (\<lambda>ch. \<not> continuation_byte ch) (trim_space version))
      in if trim_space version = [] \<or> token = [] then ''unknown'' else token)"

text \<open>The new file gets its name only when the dump, its compression and the check of it succeeded; until then, and after any
  failure, the directory is as before.\<close>

definition createPostgresUpgradeBackup ::
  "server \<Rightarrow> string \<times> string \<times> string \<Rightarrow> dump_run \<Rightarrow> (string \<rightharpoonup> string) \<Rightarrow> string option \<times> (string \<rightharpoonup> string)" where
  "createPostgresUpgradeBackup sv = (\<lambda>(databaseURL, backupDir, _) run files.
     if dr_fail run 0 \<or> dr_fail run 1 \<or> dr_fail run 2 then (None, files)
     else case dr_pg_dump run (postgresDumpEnvironment (sv_parse_database_url sv) (dr_environ run) databaseURL) of
         None \<Rightarrow> (None, files)
       | Some sql \<Rightarrow>
         if dr_fail run 4 \<or> dr_fail run 5 \<or> \<not> verifyGzipFile run (dr_stored run sql) \<or> dr_fail run 7 then (None, files)
         else let finalPath = trim_right_char backupDir (CHR ''/'') @ ''/heromail-preupgrade-'' @ backupVersionToken (sv_Version sv) @ ''-'' @ dr_stamp run @ ''.sql.gz''
              in (Some finalPath, files(finalPath \<mapsto> dr_stored run sql)))"

subsection \<open>The upgrade\<close>

text \<open>Making the directory, the new file, its mode, writing, closing and renaming it: one failure leaves the old file.\<close>

definition atomicWriteJSON :: "(nat \<Rightarrow> bool) \<Rightarrow> 'a \<Rightarrow> 'a option \<Rightarrow> bool \<times> 'a option" where
  "atomicWriteJSON fail v old = (if \<exists>k\<in>set [0..<6]. fail k then (False, old) else (True, Some v))"

definition write_status :: "around \<Rightarrow> nat \<Rightarrow> string \<Rightarrow> string \<Rightarrow> world \<Rightarrow> bool \<times> world" where
  "write_status ar n state message w =
     (case atomicWriteJSON (\<lambda>k. ar_disk ar (6 * n + k)) \<lparr> upg_State = state, upg_Message = message,
             upg_UpdatedAt = clock (env_at ar [n]) 0 \<rparr> (w_status w) of
        (ok, file) \<Rightarrow> (ok, w\<lparr>w_status := file\<rparr>))"

definition upgrade_running :: "server \<Rightarrow> around \<Rightarrow> world \<Rightarrow> bool" where
  "upgrade_running sv ar w =
     (case readUpgradeStatus (sv_UpgradeStatusPath sv) (ar_unreadable ar) (w_status w) of
        None \<Rightarrow> False
      | Some current \<Rightarrow> upg_State current \<in> {''backing_up'', ''queued'', ''updating''})"

definition system_audit :: "around \<Rightarrow> nat \<Rightarrow> gin_context \<Rightarrow> string \<Rightarrow> string \<Rightarrow> world \<Rightarrow> world" where
  "system_audit ar n c action detail w = audit (env_at ar [n]) c (demoUser c) action ''system'' ''heromail'' detail w"

definition target_version :: "gin_context \<Rightarrow> string" where
  "target_version c = trim_space (hc_header c ''X-HeroMail-Target-Version'')"

text \<open>After the backup: the state first, then the request; if the request cannot be written the state is failed again.\<close>

definition request_upgrade :: "around \<Rightarrow> gin_context \<Rightarrow> time \<Rightarrow> world \<Rightarrow> (reply \<times> world) option" where
  "request_upgrade ar c now w =
     (let target = (if target_version c = [] then ''latest'' else target_version c)
      in case atomicWriteJSON (\<lambda>k. ar_disk ar (24 + k)) (target, now) (w_request w) of
           (False, _) \<Rightarrow> answer (Failure 500 ''upgrade_request_failed'') (snd (write_status ar 5 ''failed'' hm_upgrade_no_request w))
         | (True, file) \<Rightarrow>
           answer (Json 202 (AdminData (UpgradeData \<lparr> upg_State = ''queued'', upg_Message = hm_upgrade_queued, upg_UpdatedAt = clock (env_at ar [2]) 0 \<rparr>)))
             (system_audit ar 8 c ''system.upgrade.request'' hm_audit_upgrade (w\<lparr>w_request := file\<rparr>)))"

definition queue_upgrade :: "around \<Rightarrow> gin_context \<Rightarrow> time \<Rightarrow> world \<Rightarrow> (reply \<times> world) option" where
  "queue_upgrade ar c now w =
     (case write_status ar 2 ''queued'' hm_upgrade_queued w of
        (False, w') \<Rightarrow> answer (Failure 500 ''upgrade_status_failed'') (snd (write_status ar 3 ''failed'' hm_upgrade_no_status w'))
      | (True, w') \<Rightarrow> request_upgrade ar c now w')"

definition back_up_and_queue :: "server \<Rightarrow> around \<Rightarrow> gin_context \<Rightarrow> string \<times> string \<times> string \<Rightarrow> world \<Rightarrow> (reply \<times> world) option" where
  "back_up_and_queue sv ar c target w =
     (case createPostgresUpgradeBackup sv target (ar_dump ar) (w_backups w) of
        (None, files) \<Rightarrow>
          answer (Failure 503 ''upgrade_backup_failed'')
            (system_audit ar 6 c ''system.upgrade.backup_failed'' hm_audit_no_backup
               (snd (write_status ar 1 ''failed'' hm_upgrade_no_backup (w\<lparr>w_backups := files\<rparr>))))
      | (Some _, files) \<Rightarrow>
          queue_upgrade ar c (clock (env_at ar [0]) 0)
            (system_audit ar 7 c ''system.upgrade.backup'' hm_audit_backup (w\<lparr>w_backups := files\<rparr>)))"

definition adminUpgrade :: "server \<Rightarrow> around \<Rightarrow> gin_context \<Rightarrow> world \<Rightarrow> (reply \<times> world) option" where
  "adminUpgrade sv ar c w =
     (if sv_UpgradeRequestPath sv = [] \<or> sv_UpgradeStatusPath sv = [] then answer (Failure 503 ''online_upgrade_disabled'') w
      else if upgrade_running sv ar w then answer (Failure 409 ''upgrade_in_progress'') w
      else if target_version c \<noteq> [] \<and> target_version c \<noteq> ''latest'' \<and> sameReleaseVersion (sv_Version sv) (target_version c)
      then answer (Failure 409 ''already_latest'') w
      else case sv_UpgradeBackup sv of
          None \<Rightarrow> answer (Failure 503 ''upgrade_backup_unavailable'') w
        | Some target \<Rightarrow>
          (case write_status ar 0 ''backing_up'' hm_upgrade_backing_up w of
             (False, w1) \<Rightarrow> answer (Failure 500 ''upgrade_status_failed'') w1
           | (True, w1) \<Rightarrow> back_up_and_queue sv ar c target w1))"

end
