(* ===== verification/Http_Routes.thy ===== *)
theory Http_Routes
  imports Http_Orders Http_Accounts Http_OAuth Upgrade
begin

text \<open>
  The routes of the interface (\<^verbatim>\<open>routes\<close> of \<^verbatim>\<open>internal/http/server.go\<close>), the middleware in front of
  each handler, and what the interface as a whole guarantees.  The pages and files of the web client are left out.
\<close>

datatype public_endpoint =
    AtReady | AtRegister | AtLogin | AtPublicServices | AtPublicStatus | AtReceiveMailEvent
  | AtMicrosoftOAuthCallback | AtGoogleOAuthCallback | AtPaymentWebhook

datatype user_endpoint =
    AtLogout | AtMe | AtUpdateProfile | AtChangePassword | AtServices | AtServiceAvailability | AtListUserOrders
  | AtCreateOrder | AtGetUserOrder | AtUserOrderMessages | AtListAPIKeys | AtCreateAPIKey | AtRevokeAPIKey
  | AtWalletLedgers | AtListWebhookEndpoints | AtCreateWebhookEndpoint | AtDeleteWebhookEndpoint
  | AtListWebhookDeliveries | AtRetryWebhookDelivery | AtPaymentMethods | AtCreatePaymentOrder | AtPaymentOrders
  | AtGetPaymentOrder | AtCancelPaymentOrder

datatype admin_endpoint =
    AtAdminOverview | AtAdminMailboxes | AtAdminInvalidMailboxSummary | AtAdminDeleteInvalidMailboxes
  | AtAdminSaveMailbox | AtAdminImportMailboxes | AtAdminRescanAllMailboxHistory | AtAdminDeleteMailbox
  | AtAdminVerifyMailbox | AtAdminRescanMailboxHistory | AtAdminMarkMailboxServiceRegistered
  | AtAdminMailboxMessages | AtAdminMailboxPools | AtMicrosoftOAuthStart | AtGoogleOAuthStart
  | AtAdminGoogleOAuthConfig | AtAdminSaveGoogleOAuthConfig | AtAdminServices | AtAdminSaveService
  | AtAdminDeleteService | AtAdminOrders | AtAdminCompleteOrder | AtAdminCancelOrder | AtAdminUsers
  | AtAdminAdjustBalance | AtAdminLedgers | AtAdminAuditLogs | AtAdminPaymentProviders | AtAdminPaymentProvider
  | AtAdminSavePaymentProvider | AtAdminDeletePaymentProvider | AtAdminPaymentOrders | AtAdminVersion
  | AtAdminUpgrade | AtAdminReap

datatype endpoint = Public public_endpoint | Protected user_endpoint | Admin admin_endpoint

text \<open>The routes of the interface, in the order they are registered.\<close>

definition routes :: "(string \<times> string \<times> endpoint) list" where
  "routes = [
     (''GET'', ''/readyz'', Public AtReady),
     (''POST'', ''/api/v1/auth/register'', Public AtRegister),
     (''POST'', ''/api/v1/auth/login'', Public AtLogin),
     (''GET'', ''/api/v1/public/services'', Public AtPublicServices),
     (''GET'', ''/api/v1/public/status'', Public AtPublicStatus),
     (''POST'', ''/api/v1/internal/mail-events'', Public AtReceiveMailEvent),
     (''GET'', ''/api/v1/oauth/microsoft/callback'', Public AtMicrosoftOAuthCallback),
     (''GET'', ''/api/v1/oauth/google/callback'', Public AtGoogleOAuthCallback),
     (''GET'', ''/api/v1/payment/webhook/:type'', Public AtPaymentWebhook),
     (''POST'', ''/api/v1/payment/webhook/:type'', Public AtPaymentWebhook),
     (''POST'', ''/api/v1/auth/logout'', Protected AtLogout),
     (''GET'', ''/api/v1/me'', Protected AtMe),
     (''PUT'', ''/api/v1/me'', Protected AtUpdateProfile),
     (''PUT'', ''/api/v1/me/password'', Protected AtChangePassword),
     (''GET'', ''/api/v1/services'', Protected AtServices),
     (''GET'', ''/api/v1/services/:code/availability'', Protected AtServiceAvailability),
     (''GET'', ''/api/v1/orders'', Protected AtListUserOrders),
     (''POST'', ''/api/v1/orders'', Protected AtCreateOrder),
     (''GET'', ''/api/v1/orders/:id'', Protected AtGetUserOrder),
     (''GET'', ''/api/v1/orders/:id/messages'', Protected AtUserOrderMessages),
     (''GET'', ''/api/v1/api-keys'', Protected AtListAPIKeys),
     (''POST'', ''/api/v1/api-keys'', Protected AtCreateAPIKey),
     (''DELETE'', ''/api/v1/api-keys/:id'', Protected AtRevokeAPIKey),
     (''GET'', ''/api/v1/wallet/ledgers'', Protected AtWalletLedgers),
     (''GET'', ''/api/v1/webhooks'', Protected AtListWebhookEndpoints),
     (''POST'', ''/api/v1/webhooks'', Protected AtCreateWebhookEndpoint),
     (''DELETE'', ''/api/v1/webhooks/:id'', Protected AtDeleteWebhookEndpoint),
     (''GET'', ''/api/v1/webhook-deliveries'', Protected AtListWebhookDeliveries),
     (''POST'', ''/api/v1/webhook-deliveries/:id/retry'', Protected AtRetryWebhookDelivery),
     (''GET'', ''/api/v1/payment/methods'', Protected AtPaymentMethods),
     (''POST'', ''/api/v1/payment/orders'', Protected AtCreatePaymentOrder),
     (''GET'', ''/api/v1/payment/orders'', Protected AtPaymentOrders),
     (''GET'', ''/api/v1/payment/orders/:id'', Protected AtGetPaymentOrder),
     (''POST'', ''/api/v1/payment/orders/:id/cancel'', Protected AtCancelPaymentOrder),
     (''GET'', ''/api/v1/admin/overview'', Admin AtAdminOverview),
     (''GET'', ''/api/v1/admin/mailboxes'', Admin AtAdminMailboxes),
     (''GET'', ''/api/v1/admin/mailboxes/invalid-summary'', Admin AtAdminInvalidMailboxSummary),
     (''POST'', ''/api/v1/admin/mailboxes/delete-invalid'', Admin AtAdminDeleteInvalidMailboxes),
     (''POST'', ''/api/v1/admin/mailboxes'', Admin AtAdminSaveMailbox),
     (''POST'', ''/api/v1/admin/mailboxes/import'', Admin AtAdminImportMailboxes),
     (''POST'', ''/api/v1/admin/mailboxes/rescan-history'', Admin AtAdminRescanAllMailboxHistory),
     (''DELETE'', ''/api/v1/admin/mailboxes/:id'', Admin AtAdminDeleteMailbox),
     (''POST'', ''/api/v1/admin/mailboxes/:id/verify'', Admin AtAdminVerifyMailbox),
     (''POST'', ''/api/v1/admin/mailboxes/:id/rescan-history'', Admin AtAdminRescanMailboxHistory),
     (''POST'', ''/api/v1/admin/mailboxes/:id/services/:service_id/registered'', Admin AtAdminMarkMailboxServiceRegistered),
     (''GET'', ''/api/v1/admin/mailboxes/:id/messages'', Admin AtAdminMailboxMessages),
     (''GET'', ''/api/v1/admin/mailbox-pools'', Admin AtAdminMailboxPools),
     (''POST'', ''/api/v1/admin/mailboxes/oauth/microsoft'', Admin AtMicrosoftOAuthStart),
     (''POST'', ''/api/v1/admin/mailboxes/oauth/google'', Admin AtGoogleOAuthStart),
     (''GET'', ''/api/v1/admin/settings/google-oauth'', Admin AtAdminGoogleOAuthConfig),
     (''POST'', ''/api/v1/admin/settings/google-oauth'', Admin AtAdminSaveGoogleOAuthConfig),
     (''GET'', ''/api/v1/admin/services'', Admin AtAdminServices),
     (''POST'', ''/api/v1/admin/services'', Admin AtAdminSaveService),
     (''DELETE'', ''/api/v1/admin/services/:id'', Admin AtAdminDeleteService),
     (''GET'', ''/api/v1/admin/orders'', Admin AtAdminOrders),
     (''POST'', ''/api/v1/admin/orders/:id/complete'', Admin AtAdminCompleteOrder),
     (''POST'', ''/api/v1/admin/orders/:id/cancel'', Admin AtAdminCancelOrder),
     (''GET'', ''/api/v1/admin/users'', Admin AtAdminUsers),
     (''POST'', ''/api/v1/admin/users/:id/balance'', Admin AtAdminAdjustBalance),
     (''GET'', ''/api/v1/admin/wallet/ledgers'', Admin AtAdminLedgers),
     (''GET'', ''/api/v1/admin/audit-logs'', Admin AtAdminAuditLogs),
     (''GET'', ''/api/v1/admin/payment/providers'', Admin AtAdminPaymentProviders),
     (''GET'', ''/api/v1/admin/payment/providers/:id'', Admin AtAdminPaymentProvider),
     (''POST'', ''/api/v1/admin/payment/providers'', Admin AtAdminSavePaymentProvider),
     (''DELETE'', ''/api/v1/admin/payment/providers/:id'', Admin AtAdminDeletePaymentProvider),
     (''GET'', ''/api/v1/admin/payment/orders'', Admin AtAdminPaymentOrders),
     (''GET'', ''/api/v1/admin/system/version'', Admin AtAdminVersion),
     (''POST'', ''/api/v1/admin/system/upgrade'', Admin AtAdminUpgrade),
     (''POST'', ''/api/v1/admin/reap'', Admin AtAdminReap)]"

fun public_handler :: "server \<Rightarrow> around \<Rightarrow> public_endpoint \<Rightarrow> gin_context \<Rightarrow> world \<Rightarrow> (reply \<times> world) option" where
  "public_handler sv ar AtReady = ready ar"
| "public_handler sv ar AtRegister = register sv ar"
| "public_handler sv ar AtLogin = login sv ar"
| "public_handler sv ar AtPublicServices = publicServices ar"
| "public_handler sv ar AtPublicStatus = publicStatus ar"
| "public_handler sv ar AtReceiveMailEvent = receiveMailEvent sv ar"
| "public_handler sv ar AtMicrosoftOAuthCallback = microsoftOAuthCallback sv ar"
| "public_handler sv ar AtGoogleOAuthCallback = googleOAuthCallback sv ar"
| "public_handler sv ar AtPaymentWebhook = paymentWebhook sv ar"

fun user_handler :: "server \<Rightarrow> around \<Rightarrow> user_endpoint \<Rightarrow> gin_context \<Rightarrow> world \<Rightarrow> (reply \<times> world) option" where
  "user_handler sv ar AtLogout = logout sv ar"
| "user_handler sv ar AtMe = me ar"
| "user_handler sv ar AtUpdateProfile = updateProfile sv ar"
| "user_handler sv ar AtChangePassword = changePassword sv ar"
| "user_handler sv ar AtServices = services ar"
| "user_handler sv ar AtServiceAvailability = serviceAvailability ar"
| "user_handler sv ar AtListUserOrders = listUserOrders ar"
| "user_handler sv ar AtCreateOrder = createOrder sv ar"
| "user_handler sv ar AtGetUserOrder = getUserOrder ar"
| "user_handler sv ar AtUserOrderMessages = userOrderMessages sv ar"
| "user_handler sv ar AtListAPIKeys = listAPIKeys ar"
| "user_handler sv ar AtCreateAPIKey = createAPIKey sv ar"
| "user_handler sv ar AtRevokeAPIKey = revokeAPIKey ar"
| "user_handler sv ar AtWalletLedgers = walletLedgers ar"
| "user_handler sv ar AtListWebhookEndpoints = listWebhookEndpoints ar"
| "user_handler sv ar AtCreateWebhookEndpoint = createWebhookEndpoint sv ar"
| "user_handler sv ar AtDeleteWebhookEndpoint = deleteWebhookEndpoint ar"
| "user_handler sv ar AtListWebhookDeliveries = listWebhookDeliveries ar"
| "user_handler sv ar AtRetryWebhookDelivery = retryWebhookDelivery ar"
| "user_handler sv ar AtPaymentMethods = paymentMethods sv ar"
| "user_handler sv ar AtCreatePaymentOrder = createPaymentOrder sv ar"
| "user_handler sv ar AtPaymentOrders = paymentOrders ar"
| "user_handler sv ar AtGetPaymentOrder = getPaymentOrder ar"
| "user_handler sv ar AtCancelPaymentOrder = cancelPaymentOrder ar"

fun admin_handler :: "server \<Rightarrow> around \<Rightarrow> admin_endpoint \<Rightarrow> gin_context \<Rightarrow> world \<Rightarrow> (reply \<times> world) option" where
  "admin_handler sv ar AtAdminOverview = adminOverview ar"
| "admin_handler sv ar AtAdminMailboxes = adminMailboxes ar"
| "admin_handler sv ar AtAdminInvalidMailboxSummary = adminInvalidMailboxSummary ar"
| "admin_handler sv ar AtAdminDeleteInvalidMailboxes = adminDeleteInvalidMailboxes sv ar"
| "admin_handler sv ar AtAdminSaveMailbox = adminSaveMailbox sv ar"
| "admin_handler sv ar AtAdminImportMailboxes = adminImportMailboxes sv ar"
| "admin_handler sv ar AtAdminRescanAllMailboxHistory = adminRescanAllMailboxHistory ar"
| "admin_handler sv ar AtAdminDeleteMailbox = adminDeleteMailbox ar"
| "admin_handler sv ar AtAdminVerifyMailbox = adminVerifyMailbox sv ar"
| "admin_handler sv ar AtAdminRescanMailboxHistory = adminRescanMailboxHistory sv ar"
| "admin_handler sv ar AtAdminMarkMailboxServiceRegistered = adminMarkMailboxServiceRegistered ar"
| "admin_handler sv ar AtAdminMailboxMessages = adminMailboxMessages sv ar"
| "admin_handler sv ar AtAdminMailboxPools = adminMailboxPools ar"
| "admin_handler sv ar AtMicrosoftOAuthStart = microsoftOAuthStart sv ar"
| "admin_handler sv ar AtGoogleOAuthStart = googleOAuthStart sv ar"
| "admin_handler sv ar AtAdminGoogleOAuthConfig = adminGoogleOAuthConfig sv ar"
| "admin_handler sv ar AtAdminSaveGoogleOAuthConfig = adminSaveGoogleOAuthConfig sv ar"
| "admin_handler sv ar AtAdminServices = adminServices ar"
| "admin_handler sv ar AtAdminSaveService = adminSaveService sv ar"
| "admin_handler sv ar AtAdminDeleteService = adminDeleteService ar"
| "admin_handler sv ar AtAdminOrders = adminOrders ar"
| "admin_handler sv ar AtAdminCompleteOrder = adminCompleteOrder ar"
| "admin_handler sv ar AtAdminCancelOrder = adminCancelOrder ar"
| "admin_handler sv ar AtAdminUsers = adminUsers ar"
| "admin_handler sv ar AtAdminAdjustBalance = adminAdjustBalance sv ar"
| "admin_handler sv ar AtAdminLedgers = adminLedgers ar"
| "admin_handler sv ar AtAdminAuditLogs = adminAuditLogs ar"
| "admin_handler sv ar AtAdminPaymentProviders = adminPaymentProviders ar"
| "admin_handler sv ar AtAdminPaymentProvider = adminPaymentProvider sv ar"
| "admin_handler sv ar AtAdminSavePaymentProvider = adminSavePaymentProvider sv ar"
| "admin_handler sv ar AtAdminDeletePaymentProvider = adminDeletePaymentProvider ar"
| "admin_handler sv ar AtAdminPaymentOrders = adminPaymentOrders ar"
| "admin_handler sv ar AtAdminVersion = adminVersion sv ar"
| "admin_handler sv ar AtAdminUpgrade = adminUpgrade sv ar"
| "admin_handler sv ar AtAdminReap = adminReap ar"

text \<open>A matched route with its request.  The authentication has the path 9 among the calls of a request.\<close>

definition serve :: "server \<Rightarrow> around \<Rightarrow> endpoint \<Rightarrow> gin_context \<Rightarrow> world \<Rightarrow> (reply \<times> world) option" where
  "serve sv ar endpoint c w =
     (case endpoint of
        Public e \<Rightarrow> public_handler sv ar e (c\<lparr>hc_user := None\<rparr>) w
      | Protected e \<Rightarrow> authenticate sv (env_at ar [9]) c w (user_handler sv ar e)
      | Admin e \<Rightarrow> authenticate sv (env_at ar [9]) c w (\<lambda>c w. requireAdmin c w (admin_handler sv ar e)))"

end
