(* ===== verification/Http_Store.thy ===== *)
theory Http_Store
  imports Http_Routes
begin

text \<open>
  The operations of the store that a request can reach keep the leases, the books of the orders, and the balances up to the
  ledger lines they add (\<open>keeps\<close> of \<open>Mailboxes\<close>), or leave the orders alone altogether.
\<close>

subsection \<open>Users, sessions and keys\<close>

lemma keeps_users:
  assumes "\<And>u. u_ID (f u) = u_ID u \<and> u_BalanceCents (f u) = u_BalanceCents u"
  shows "keeps db (db\<lparr>db_users := upd_rows P f (db_users db)\<rparr>)"
proof -
  have ids: "map u_ID (upd_rows P f us) = map u_ID us" for us
    using assms by (simp add: upd_rows_def)
  have bal: "balance_of (db\<lparr>db_users := upd_rows P f (db_users db)\<rparr>) v = balance_of db v" for v
    using assms by (auto simp: balance_of_def upd_rows_def o_def intro!: arg_cong [where f = sum_list])
  show ?thesis
    by (simp add: keeps_def bal) (simp add: lease_ok_def keys_ok_def ids order_leased_def mailbox_bound_def state_bound_def
        books_ok_def order_book_def ledger_total_def)
qed

lemma keeps_new_user:
  assumes "u_ID u \<notin> u_ID ` set (db_users db)" "u_BalanceCents u = 0"
  shows "keeps db (db\<lparr>db_users := db_users db @ [u]\<rparr>)"
  using assms by (simp add: keeps_def lease_ok_def keys_ok_def order_leased_def mailbox_bound_def state_bound_def books_ok_def
      order_book_def balance_of_def ledger_total_def)

lemma keeps_booked:
  assumes b: "booked uid [] pid ltype amount db db'" and o: "unchanged_orders db db'"
  shows "keeps db db'"
  unfolding keeps_def
proof (intro impI conjI allI)
  fix v assume "lease_ok db"
  then have "distinct (map u_ID (db_users db))" by (simp add: lease_ok_def keys_ok_def)
  from booked_balance [OF this b, of v]
  show "balance_of db' v - ledger_total db' v = balance_of db v - ledger_total db v" by simp
qed (use booked_leases [OF b o] booked_books [OF b] o in \<open>simp_all add: unchanged_orders_def\<close>)

lemma createSession_keeps: "keeps db0 db \<Longrightarrow> tx_ok (createSession cr env n uid) db (\<lambda>_. keeps db0)"
  unfolding createSession_def randomToken_def create_session_row_def
  by (auto simp: tx_ok_bind tx_ok_then tx_ok_insert tx_ok_return tx_ok_option tx_ok_fail
      elim!: keeps_trans intro!: keeps_other split: option.splits)

lemma create_user_keeps:
  assumes "create_user env n u db = Inr (x, db1)" "u_BalanceCents u = 0"
  shows "keeps db db1"
proof -
  have "tx_ok (create_user env n u) db (\<lambda>_. keeps db)"
    unfolding create_user_def tx_ok_insert using assms(2) by (auto simp: fresh_key_def intro!: keeps_new_user)
  then show ?thesis using assms(1) by (rule tx_okD)
qed

lemma Register_keeps: "keeps db (snd (run_tx (Register cr env email password displayName) db))"
proof (rule run_tx_rel [where R = keeps], simp)
  show "tx_ok (Register cr env email password displayName) db (\<lambda>_. keeps db)"
  proof (cases "to_lower (trim_space email) = [] \<or> length password < 10 \<or> cr_bcrypt cr 0 password = None")
    case True
    then show ?thesis by (auto simp: Register_def Let_def tx_ok_fail)
  next
    case False
    then obtain h where h: "cr_bcrypt cr 0 password = Some h" by auto
    define u where "u = \<lparr> u_ID = uuid env 0, u_Email = to_lower (trim_space email), u_PasswordHash = h, u_Role = ''user'',
        u_Status = ''active'', u_BalanceCents = 0, u_DisplayName = trim_space displayName, u_CreatedAt = stamp env 0, u_LastLoginAt = None \<rparr>"
    show ?thesis
    proof (cases "create_user env 0 u db")
      case (Inl e)
      show ?thesis
        unfolding Register_def Let_def h using False Inl
        by (cases e) (simp_all add: tx_ok_bind tx_ok_get tx_ok_fail u_def)
    next
      case (Inr r)
      then have k: "keeps db (snd r)" by (intro create_user_keeps [of env 0 u db "fst r" "snd r"]) (simp_all add: u_def prod_eq_iff)
      have "tx_ok (createSession cr env 1 (uuid env 0)) (snd r) (\<lambda>_. keeps db)" by (rule createSession_keeps [OF k])
      then show ?thesis
        unfolding Register_def Let_def h using False Inr
        by (auto simp: tx_ok_bind tx_ok_get tx_ok_then tx_ok_put tx_ok_return u_def split_def
            elim!: tx_ok_weaken intro!: keeps_audit)
    qed
  qed
qed

lemma Login_keeps: "keeps db (snd (run_tx (Login cr env email password) db))"
proof (rule run_tx_rel [where R = keeps], simp)
  show "tx_ok (Login cr env email password) db (\<lambda>_. keeps db)"
    unfolding Login_def tx_ok_bind tx_ok_then tx_ok_first tx_ok_guard tx_ok_update tx_ok_return
    by (auto intro!: tx_ok_weaken [OF createSession_keeps [OF keeps_refl]] elim!: keeps_trans intro: keeps_users)
qed

lemma Logout_keeps: "keeps db (snd (run_tx (Logout cr env token) db))"
  by (rule run_tx_rel [where R = keeps], simp) (auto simp: Logout_def tx_ok_return tx_ok_update revoke_sessions_def intro!: keeps_other)

lemma UpdateProfile_keeps: "keeps db (snd (run_tx (UpdateProfile env uid displayName) db))"
  by (rule run_tx_rel [where R = keeps], simp)
    (auto simp: UpdateProfile_def tx_ok_return tx_ok_update tx_ok_then tx_ok_bind tx_ok_first intro!: keeps_users)

lemma ChangePassword_keeps: "keeps db (snd (run_tx (ChangePassword cr env uid current new) db))"
proof (rule run_tx_rel [where R = keeps], simp)
  have "keeps db (revoke_sessions P t (db\<lparr>db_users := upd_rows Q (u_PasswordHash_update (\<lambda>_. h)) (db_users db)\<rparr>))" for P t Q h
    by (rule keeps_trans [OF keeps_users keeps_other]) (simp_all add: revoke_sessions_def)
  then show "tx_ok (ChangePassword cr env uid current new) db (\<lambda>_. keeps db)"
    unfolding ChangePassword_def tx_ok_bind tx_ok_then tx_ok_first tx_ok_guard tx_ok_update tx_ok_return tx_ok_if tx_ok_fail tx_ok_option
    by (auto simp: tx_ok_fail intro!: createSession_keeps)
qed

lemma CreateAPIKey_keeps: "keeps db (snd (run_tx (CreateAPIKey cr env uid name scopes) db))"
  by (rule run_tx_rel [where R = keeps], simp)
    (auto simp: CreateAPIKey_def Let_def randomToken_def create_api_key_def tx_ok_return tx_ok_insert tx_ok_then tx_ok_bind tx_ok_option
      tx_ok_fail intro!: keeps_other split: option.splits)

lemma RevokeAPIKey_keeps: "keeps db (snd (run_tx (RevokeAPIKey env uid kid) db))"
  by (rule run_tx_rel [where R = keeps], simp)
    (auto simp: RevokeAPIKey_def Let_def tx_ok_return tx_ok_put tx_ok_read tx_ok_guard tx_ok_then tx_ok_bind intro!: keeps_other)

lemma WriteAudit_keeps: "keeps db (snd (run_tx (WriteAudit env actor action rtype rid detail ip) db))"
  by (rule run_tx_rel [where R = keeps], simp) (simp add: WriteAudit_def keeps_audit)

lemma AdjustBalance_keeps: "keeps db (snd (run_tx (AdjustBalance env actor uid amount descr ip) db))"
proof (rule run_tx_rel [where R = keeps], simp, rule tx_ok_weaken [OF AdjustBalance_effect])
  fix usr db' assume "adjusted uid amount db usr db'"
  then show "keeps db db'" by (auto simp: adjusted_def intro: keeps_booked)
qed

lemma ResolveAccessToken_keeps: "keeps db (snd (ResolveAccessToken cr env token db))"
proof -
  have "keeps db (db\<lparr>db_api_keys := ks\<rparr>)" for ks by (rule keeps_other) simp_all
  then show ?thesis by (auto simp: ResolveAccessToken_def Let_def split: option.splits)
qed

subsection \<open>Webhooks and payments\<close>

lemma CreateWebhookEndpoint_keeps: "keeps db (snd (run_tx (CreateWebhookEndpoint cr parse env uid url events) db))"
  by (rule run_tx_rel [where R = keeps], simp)
    (auto simp: CreateWebhookEndpoint_def Let_def create_endpoint_def tx_ok_return tx_ok_insert tx_ok_then tx_ok_fail
      intro!: keeps_other split: option.splits)

lemma DeleteWebhookEndpoint_keeps: "keeps db (snd (run_tx (DeleteWebhookEndpoint env uid eid) db))"
  by (rule run_tx_rel [where R = keeps], simp)
    (auto simp: DeleteWebhookEndpoint_def Let_def tx_ok_put tx_ok_read tx_ok_guard tx_ok_then tx_ok_bind intro!: keeps_other)

lemma RetryWebhookJob_keeps: "keeps db (snd (run_tx (RetryWebhookJob env uid did) db))"
  by (rule run_tx_rel [where R = keeps], simp)
    (auto simp: RetryWebhookJob_def tx_ok_put tx_ok_read tx_ok_guard tx_ok_then tx_ok_bind intro!: keeps_other)

lemma SavePaymentProvider_keeps: "keeps db (snd (run_tx (SavePaymentProvider cr env actor provider config ip) db))"
  by (rule run_tx_rel [where R = keeps], simp)
    (auto simp: SavePaymentProvider_def Let_def save_pay_provider_def tx_ok_update tx_ok_then tx_ok_return tx_ok_fail
      intro!: keeps_audit keeps_other split: option.splits)

lemma DeletePaymentProvider_keeps: "keeps db (snd (run_tx (DeletePaymentProvider env actor pid ip) db))"
  by (rule run_tx_rel [where R = keeps], simp)
    (auto simp: DeletePaymentProvider_def tx_ok_put tx_ok_read tx_ok_guard tx_ok_then tx_ok_bind intro!: keeps_audit keeps_other)

lemma CreatePaymentOrder_keeps: "keeps db (snd (run_tx (CreatePaymentOrder digits env n uid pid pmethod amount) db))"
  by (rule run_tx_rel [where R = keeps], simp)
    (auto simp: CreatePaymentOrder_def Let_def create_pay_order_def tx_ok_first tx_ok_insert tx_ok_guard tx_ok_then tx_ok_bind tx_ok_if
      tx_ok_return tx_ok_fail intro!: keeps_other)

lemma CancelPaymentOrder_keeps: "keeps db (snd (run_tx (CancelPaymentOrder env n uid oid) db))"
  by (rule run_tx_rel [where R = keeps], simp)
    (auto simp: CancelPaymentOrder_def Let_def save_pay_order_def tx_ok_first tx_ok_update tx_ok_guard tx_ok_then tx_ok_bind
      tx_ok_return tx_ok_fail intro!: keeps_other)

lemma SetPaymentOrderURL_keeps: "keeps db (snd (run_tx (SetPaymentOrderURL env n oid url) db))"
  by (rule run_tx_rel [where R = keeps], simp) (auto simp: SetPaymentOrderURL_def tx_ok_update intro!: keeps_other)

lemma CompletePaymentOrder_keeps: "keeps db (snd (run_tx (CompletePaymentOrder env n oid tradeNo paid) db))"
  by (rule run_tx_rel [where R = keeps], simp, rule tx_ok_weaken [OF CompletePaymentOrder_effect])
    (auto simp: pay_done_def intro: keeps_booked split: if_splits)

lemma Create_keeps: "keeps db (snd (Create lib cr env publicURL uid amount pmethod mobile db))"
proof -
  have placed: "keeps db db1" if "run_tx (CreatePaymentOrder (lib_digits lib) env n uid pid pmethod amount) db = (r, db1)" for n pid r db1
    using CreatePaymentOrder_keeps that by (metis snd_conv)
  have linked: "keeps db1 db2" if "run_tx (SetPaymentOrderURL env 5 oid url) db1 = (r, db2)" for db1 oid url r db2
    using SetPaymentOrderURL_keeps that by (metis snd_conv)
  show ?thesis
    unfolding Create_def
    by (auto split: sum.splits list.splits unit.splits prod.splits dest!: placed linked elim: keeps_trans
        intro: keeps_trans [OF _ CancelPaymentOrder_keeps])
qed

lemma Notify_keeps: "keeps db (snd (Notify lib cr env ptype pid vs db))"
  by (simp add: Notify_def CompletePaymentOrder_keeps split: sum.split notification.split option.split prod.split)
    (use CompletePaymentOrder_keeps in \<open>metis snd_conv\<close>)

subsection \<open>Orders\<close>

lemma keeps_if: "(lease_ok db \<Longrightarrow> keeps db db') \<Longrightarrow> keeps db db'"
  by (auto simp: keeps_def)

lemma CreateOrder_keeps:
  assumes "CreateOrder setnx now start fuel env locked uid sid rid providers db = Some (res, db')"
  shows "keeps db db'"
proof -
  have "keeps db (snd (allocate_order env locked uid sid rid providers db))" by (rule keeps_orders [OF allocate_order_steps])
  moreover have "db' = db \<or> allocate_order env locked uid sid rid providers db = (res, db')"
    using assms by (cases "acquireAllocationLock setnx now start fuel") (simp_all add: CreateOrder_def split: sum.splits unit.splits)
  ultimately show ?thesis by (metis keeps_refl snd_conv)
qed

lemma CompleteOrder_keeps: "keeps db (snd (run_tx (CompleteOrder env oid uid) db))"
  by (rule keeps_orders [OF CompleteOrder_steps])

lemma CancelOrder_keeps: "keeps db (snd (run_tx (CancelOrder env oid uid) db))"
  by (rule keeps_if, rule keeps_orders, erule CancelOrder_steps)

lemma ReapExpired_keeps: "keeps db (snd (ReapExpired envs db))"
  by (rule keeps_if, rule keeps_orders, erule ReapExpired_steps)

lemma ReceiveCodeValue_keeps: "keeps db (snd (run_tx (ReceiveCodeValue env oid code) db))"
  by (rule keeps_orders [OF ReceiveCodeValue_steps])

subsection \<open>The verifier\<close>

lemma save_credential_keeps: "save_credential lib env actor mid config until ip db = (r, db') \<Longrightarrow> keeps db db'"
  using UpdateMailboxCredential_keeps [of db "ml_crypto lib" env actor mid config until ip]
  by (auto simp: save_credential_def split: sum.splits prod.splits)

lemma save_config_keeps: "save_config lib out rq until a = (r, a') \<Longrightarrow> keeps (ac_db a) (ac_db a')"
  by (auto simp: save_config_def split: prod.splits dest: save_credential_keeps)

lemma refresh_and_save_keeps: "refresh_and_save lib out rq refreshed a = Inr (until, e, a') \<Longrightarrow> keeps (ac_db a) (ac_db a')"
  by (auto simp: refresh_and_save_def split: sum.splits dest!: save_config_keeps [OF sym] save_config_keeps)

lemma persist_keeps: "persistIMAPAuthMethod lib out rq until authMethod a = (r, db') \<Longrightarrow> keeps (ac_db a) db'"
  by (auto simp: persistIMAPAuthMethod_def split: if_splits dest: save_credential_keeps)

lemma refreshGoogle_keeps: "refreshGoogleCredential lib out v rq box force config db = (r, db') \<Longrightarrow> keeps db db'"
  by (auto simp: refreshGoogleCredential_def Let_def split: if_splits option.splits sum.splits prod.splits dest: save_credential_keeps)

lemma imap_ready_keeps: "imap_ready lib out v rq box o1 p1 now a = (r, until, a') \<Longrightarrow> keeps (ac_db a) (ac_db a')"
  by (auto simp: imap_ready_def Let_def split: if_splits option.splits sum.splits prod.splits
      dest: refresh_and_save_keeps refreshGoogle_keeps)

lemma graph_refresh_keeps: "graph_refresh lib out c rq a = (e, d, a') \<Longrightarrow> keeps (ac_db a) (ac_db a')"
  by (auto simp: graph_refresh_def split: sum.splits prod.splits dest: refresh_and_save_keeps)

lemma graph_retry_keeps: "graph_retry lib out c rq address e0 a = (e, d, a') \<Longrightarrow> keeps (ac_db a) (ac_db a')"
  by (auto simp: graph_retry_def Let_def split: sum.splits prod.splits option.splits dest: refresh_and_save_keeps)

lemma graph_token_keeps: "graph_token lib out c rq now a = (e, d, a') \<Longrightarrow> keeps (ac_db a) (ac_db a')"
  by (auto simp: graph_token_def split: if_splits dest: graph_refresh_keeps)

lemma graph_check_keeps: "graph_check lib out c rq address d0 a = (e, d, a') \<Longrightarrow> keeps (ac_db a) (ac_db a')"
  by (auto simp: graph_check_def Let_def split: if_splits dest: graph_retry_keeps)

lemma graph_extend_keeps: "graph_extend lib out rq until now (e0, d, a) = (e, a') \<Longrightarrow> keeps (ac_db a) (ac_db a')"
  by (auto simp: graph_extend_def split: if_splits dest: save_config_keeps)

lemma recorded_keeps:
  "markVerified lib out rq connection now db = (r, e, db') \<Longrightarrow> keeps db db'"
  "mark_failed lib out rq message now db = (r, e, db') \<Longrightarrow> keeps db db'"
proof -
  have "keeps db db1" if "run_tx (UpdateMailboxVerification env actor mid connection status err t ip) db = (r, db1)"
    for env actor mid connection status err t ip r db1
    using UpdateMailboxVerification_keeps that by (metis snd_conv)
  then show "markVerified lib out rq connection now db = (r, e, db') \<Longrightarrow> keeps db db'"
    "mark_failed lib out rq message now db = (r, e, db') \<Longrightarrow> keeps db db'"
    by (auto simp: markVerified_def mark_failed_def split: prod.splits sum.splits)
qed

lemma verify_graph_keeps:
  "verify_graph lib out c rq box now a = Inl (r, e, db') \<Longrightarrow> keeps (ac_db a) db'"
  "verify_graph lib out c rq box now a = Inr (e', a') \<Longrightarrow> keeps (ac_db a) (ac_db a')"
proof -
  obtain e1 d1 a1 where t: "graph_token lib (out [1]) c rq now a = (e1, d1, a1)" by (metis prod_cases3)
  obtain e2 d2 a2 where k: "graph_check lib out c rq (mbx_Address box) d1 a1 = (e2, d2, a2)" by (metis prod_cases3)
  obtain e3 a3 where x: "graph_extend lib (out [4]) rq (cfg_time (cfg (ac_config a) ''expires_at'')) now (e2, d2, a2) = (e3, a3)"
    by (metis surj_pair)
  have ka: "keeps (ac_db a) (ac_db a1)" by (rule graph_token_keeps [OF t])
  have kb: "keeps (ac_db a) (ac_db a3)"
    by (rule keeps_trans [OF ka keeps_trans [OF graph_check_keeps [OF k] graph_extend_keeps [OF x]]])
  show "verify_graph lib out c rq box now a = Inl (r, e, db') \<Longrightarrow> keeps (ac_db a) db'"
    unfolding verify_graph_def t prod.case k x using keeps_trans [OF kb recorded_keeps(1)] by (auto split: if_splits option.splits)
  show "verify_graph lib out c rq box now a = Inr (e', a') \<Longrightarrow> keeps (ac_db a) (ac_db a')"
    unfolding verify_graph_def t prod.case k x using ka kb by (auto split: if_splits option.splits)
qed

lemma verify_imap_keeps:
  "verify_imap lib out v rq box o1 p1 now a = Inl (r, e, db') \<Longrightarrow> keeps (ac_db a) db'"
  "verify_imap lib out v rq box o1 p1 now a = Inr (e', db') \<Longrightarrow> keeps (ac_db a) db'"
proof -
  obtain r1 until a1 where t: "imap_ready lib (out [1]) v rq box o1 p1 now a = (r1, until, a1)" by (metis prod_cases3)
  have ka: "keeps (ac_db a) (ac_db a1)" by (rule imap_ready_keeps [OF t])
  have kp: "keeps (ac_db a) db1" if "persistIMAPAuthMethod lib o' rq until' authMethod a1 = (e1, db1)" for o' until' authMethod e1 db1
    by (rule keeps_trans [OF ka persist_keeps [OF that]])
  have kq: "keeps db1 db2" if "persistIMAPAuthMethod lib o' rq until' authMethod (a1\<lparr>ac_db := db1\<rparr>) = (e1, db2)"
    for o' until' authMethod e1 db1 db2
    using persist_keeps [OF that] by simp
  note step = keeps_trans [OF _ recorded_keeps(1)]
  show "verify_imap lib out v rq box o1 p1 now a = Inl (r, e, db') \<Longrightarrow> keeps (ac_db a) db'"
    unfolding verify_imap_def t Let_def prod.case
    by (auto split: if_splits option.splits prod.splits dest!: kp kq recorded_keeps(1) intro: ka elim: keeps_trans keeps_trans [OF ka])
  show "verify_imap lib out v rq box o1 p1 now a = Inr (e', db') \<Longrightarrow> keeps (ac_db a) db'"
    unfolding verify_imap_def t Let_def prod.case
    by (auto split: if_splits option.splits prod.splits dest!: kp kq intro: ka elim: keeps_trans keeps_trans [OF ka])
qed

lemma Verify_keeps: "Verify lib out v rq db = (r, e, db') \<Longrightarrow> keeps db db'"
proof -
  assume run: "Verify lib out v rq db = (r, e, db')"
  show ?thesis
  proof (cases "GetMailboxCredential (ml_crypto lib) (o_env (out [0])) (rq_mailbox rq) db")
    case (Inl err)
    then show ?thesis using run by (simp add: Verify_def)
  next
    case (Inr mc)
    define now where "now = clock (o_env (out [0])) 1"
    define a where "a = \<lparr> ac_config = cloneCredential (mc_Config mc), ac_db = db \<rparr>"
    define g where "g = (case vf_graph v of
        Some c \<Rightarrow> if graph_first (mc_Mailbox mc) (cloneCredential (mc_Config mc))
          then verify_graph lib (\<lambda>p. out (1 # p)) c rq (mc_Mailbox mc) now a else Inr (Some msg_missing_graph, a)
      | None \<Rightarrow> Inr (Some msg_missing_graph, a))"
    show ?thesis
    proof (cases g)
      case (Inl final)
      then have "verify_graph lib (\<lambda>p. out (1 # p)) (the (vf_graph v)) rq (mc_Mailbox mc) now a = Inl final"
        by (auto simp: g_def split: option.splits if_splits)
      moreover have "final = (r, e, db')"
        using run Inl unfolding Verify_def Inr sum.case Let_def g_def now_def a_def by simp
      ultimately show ?thesis using verify_graph_keeps(1) by (fastforce simp: a_def)
    next
      case 2: (Inr gr)
      obtain graphErr a1 where gr: "gr = (graphErr, a1)" by (cases gr)
      have k: "keeps db (ac_db a1)"
        using 2 verify_graph_keeps(2) [of lib "\<lambda>p. out (1 # p)" _ rq "mc_Mailbox mc" now a graphErr a1]
        by (auto simp: g_def gr a_def split: option.splits if_splits)
      show ?thesis
        using run 2 k unfolding Verify_def Inr sum.case Let_def g_def now_def a_def gr prod.case
        by (auto split: if_splits sum.splits prod.splits dest!: verify_imap_keeps recorded_keeps(2) elim: keeps_trans)
    qed
  qed
qed

lemma read_graph_keeps:
  "read_graph lib out c rq a = Some (Inl (messages, db')) \<Longrightarrow> keeps (ac_db a) db'"
  "read_graph lib out c rq a = Some (Inr (e, a')) \<Longrightarrow> keeps (ac_db a) (ac_db a')"
  by (auto simp: read_graph_def Let_def split: if_splits prod.splits option.splits sum.splits dest: graph_refresh_keeps)

lemma read_imap_keeps: "read_imap lib out v rq box o1 p1 e0 a = (r, db') \<Longrightarrow> keeps (ac_db a) db'"
  by (auto simp: read_imap_def Let_def split: if_splits prod.splits option.splits sum.splits
      dest!: imap_ready_keeps persist_keeps elim: keeps_trans)

lemma ReadMessages_keeps: "ReadMessages lib out v rq db = Some (r, db') \<Longrightarrow> keeps db db'"
proof -
  assume run: "ReadMessages lib out v rq db = Some (r, db')"
  show ?thesis
  proof (cases "GetMailboxCredential (ml_crypto lib) (o_env (out [0])) (rq_mailbox rq) db")
    case (Inl err)
    then show ?thesis using run by (simp add: ReadMessages_def)
  next
    case (Inr mc)
    then show ?thesis
      using run unfolding ReadMessages_def Inr sum.case Let_def
      by (auto split: if_splits sum.splits option.splits prod.splits dest!: read_graph_keeps read_imap_keeps elim: keeps_trans)
  qed
qed

lemma scan_message_keeps: "keeps db (snd (snd (scan_message lib envs mid message k svcs matched db)))"
proof (induction svcs arbitrary: k matched db)
  case (Cons s svcs)
  let ?run = "run_tx (MarkMailboxServiceConsumed (envs k) mid (svc_ID s) (ml_ReceivedAt message)) db"
  have "keeps db (snd ?run)" by (rule MarkMailboxServiceConsumed_keeps)
  then show ?case using Cons.IH keeps_trans by (auto split: option.split prod.split sum.split)
qed simp

lemma scan_messages_keeps: "keeps db (snd (snd (scan_messages lib envs mid svcs n messages matched db)))"
proof (induction messages arbitrary: n matched db)
  case (Cons m messages)
  have "keeps db (snd (snd (scan_message lib (envs n) mid m 0 svcs matched db)))" by (rule scan_message_keeps)
  then show ?case using Cons.IH keeps_trans by (auto split: option.split prod.split)
qed simp

lemma ScanMailboxHistory_keeps: "ScanMailboxHistory lib out v rq db = Some (n, e, db') \<Longrightarrow> keeps db db'"
proof -
  have "keeps db1 db2" if "scan_messages lib envs mid svcs m messages k db1 = (n', e', db2)" for envs mid svcs m messages k db1 n' e' db2
    using scan_messages_keeps that by (metis snd_conv)
  then show "ScanMailboxHistory lib out v rq db = Some (n, e, db') \<Longrightarrow> keeps db db'"
    by (auto simp: ScanMailboxHistory_def split: option.splits prod.splits sum.splits dest!: ReadMessages_keeps elim: keeps_trans)
qed

end
