(* ===== verification/Http_Access.thy ===== *)
theory Http_Access
  imports Http_Store
begin

text \<open>
  Who may do what through the interface: the routes of the administration need the token of an active administrator, and the
  replies to users are about them only.
\<close>

subsection \<open>A small server for the witnesses\<close>

text \<open>Nobody's body can be decoded but an order for the demonstration platform.\<close>

definition demo_bind :: decoders where
  "demo_bind = \<lparr> bind_credentials = \<lambda>_. None, bind_profile = \<lambda>_. None, bind_passwords = \<lambda>_. None, bind_key = \<lambda>_. None,
     bind_adjustment = \<lambda>_. None,
     bind_order = \<lambda>_. Some \<lparr> co_Service = ''openai'', co_MailboxProviders = [''outlook''], co_RequestID = ''r1'' \<rparr>,
     bind_deletion = \<lambda>_. None, bind_mailbox = \<lambda>_. None, bind_service = \<lambda>_. None, bind_microsoft = \<lambda>_. None, bind_google = \<lambda>_. None,
     bind_google_config = \<lambda>_. None, bind_webhook = \<lambda>_. None, bind_payment = \<lambda>_. None, bind_provider = \<lambda>_. None, bind_event = \<lambda>_. None \<rparr>"

definition demo_microsoft :: MicrosoftConfig where
  "demo_microsoft = \<lparr> mc_ClientID = ''id'', mc_ClientSecret = ''s'', mc_Tenant = ''common'', mc_RedirectURI = ''u'', mc_GraphBaseURL = [] \<rparr>"

definition demo_server :: server where
  "demo_server = \<lparr> sv_lib = mail_parts, sv_pay = demo_lib, sv_bind = demo_bind, sv_Microsoft = demo_microsoft, sv_PublicURL = [],
     sv_WorkerToken = [], sv_UpgradeRequestPath = ''r'', sv_UpgradeStatusPath = ''s'', sv_UpgradeBackup = Some (''db'', ''dir'', ''dump''),
     sv_parse_database_url = \<lambda>_. None, sv_Version = ''v1'', sv_Commit = [], sv_BuildTime = [], sv_parse_url = \<lambda>_. None,
     sv_parse_address = Some, sv_json_line = \<lambda>_. None, sv_regex_ok = \<lambda>_. True \<rparr>"

text \<open>Every call draws identifiers of its own; nothing fails, and the clock stands at 5.\<close>

definition demo_around :: around where
  "demo_around = \<lparr> ar_out = \<lambda>p. mail_outside\<lparr>o_env := (quiet_env 5)\<lparr>uuid := \<lambda>n. replicate (Suc (n + 50 * sum_list p)) (CHR ''u'')\<rparr>\<rparr>,
     ar_redis = \<lambda>_. False, ar_setnx = \<lambda>_. Inr True, ar_lock_clock = \<lambda>_. 5, ar_lock_start = 5, ar_fuel = 1, ar_locked = \<lambda>_. False,
     ar_batch_locked = \<lambda>_ _. False, ar_cancelled = \<lambda>_. False, ar_ping = True, ar_disk = \<lambda>_. False, ar_unreadable = False,
     ar_dump = \<lparr> dr_fail = \<lambda>_. False, dr_environ = [], dr_pg_dump = \<lambda>_. Some ''sql'', dr_stored = id, dr_gunzip = Some, dr_stamp = ''t'' \<rparr>,
     ar_release = Inl [] \<rparr>"

definition demo_context :: "string \<Rightarrow> gin_context" where
  "demo_context token = \<lparr> hc_header = (\<lambda>k. if k = ''Authorization'' then ''Bearer '' @ token else []), hc_query = \<lambda>_. None,
     hc_param = \<lambda>_. ''ORD1'', hc_body = [], hc_form = None, hc_upload = None, hc_ip = [], hc_user = None \<rparr>"

definition demo_world :: "db \<Rightarrow> world" where
  "demo_world db = \<lparr> w_db = db, w_redis = empty_redis, w_google = None, w_status = None, w_request = None, w_backups = Map.empty \<rparr>"

text \<open>The demonstration database with an open order, a session of its user and one of an administrator.\<close>

definition demo_admin_db :: db where
  "demo_admin_db = demo_leased_db\<lparr>
     db_users := [demo_user\<lparr>u_BalanceCents := 900\<rparr>, demo_user\<lparr>u_ID := ''adm'', u_Email := ''adm@b.c'', u_Role := ''admin'',
       u_BalanceCents := 0\<rparr>],
     db_sessions := [\<lparr> ss_ID = ''x'', ss_UserID = ''u1'', ss_TokenHash = ''#hs_1'', ss_ExpiresAt = 100, ss_CreatedAt = 0,
       ss_RevokedAt = None \<rparr>, \<lparr> ss_ID = ''y'', ss_UserID = ''adm'', ss_TokenHash = ''#hs_2'', ss_ExpiresAt = 100,
       ss_CreatedAt = 0, ss_RevokedAt = None \<rparr>]\<rparr>"

lemma demo_tokens: "bearerToken (demo_context ''hs_1'') = ''hs_1''" "bearerToken (demo_context ''hs_2'') = ''hs_2''"
  by code_simp+

lemma demo_server_crypto: "sv_crypto demo_server = plain_crypto"
  by (simp add: sv_crypto_def demo_server_def mail_parts_def)

lemma demo_env: "clock (env_at demo_around p) n = 5" "\<not> db_fail (env_at demo_around p) n"
  by (simp_all add: env_at_def demo_around_def)

lemma demo_sessions:
  "ResolveAccessToken plain_crypto (env_at demo_around [9]) ''hs_1'' demo_admin_db
     = (Some (mapUser (demo_user\<lparr>u_BalanceCents := 900\<rparr>)), demo_admin_db)"
  "ResolveAccessToken plain_crypto (env_at demo_around [9]) ''hs_2'' demo_admin_db
     = (Some (mapUser (demo_user\<lparr>u_ID := ''adm'', u_Email := ''adm@b.c'', u_Role := ''admin'', u_BalanceCents := 0\<rparr>)), demo_admin_db)"
  by (rule ResolveAccessToken_session [where s = "hd (db_sessions demo_admin_db)"],
      simp_all add: demo_env demo_admin_db_def demo_defs has_prefix_def)
    (rule ResolveAccessToken_session [where s = "last (db_sessions demo_admin_db)"],
      simp_all add: demo_env demo_admin_db_def demo_defs has_prefix_def)

lemmas demo_request = serve_def authenticate_def demo_tokens demo_server_crypto demo_sessions demo_world_def set_db_def requireAdmin_def
  demoRole_def authenticatedUser_def mapUser_def answer_def

subsection \<open>The administration\<close>

lemma authenticate_cases:
  assumes "authenticate sv env c w rest = Some (r, w')"
  obtains "r = Failure 401 ''authentication_required''" "w' = w"
  | user u db' where "ResolveAccessToken (sv_crypto sv) env (bearerToken c) (w_db w) = (Some user, db')"
      "user = mapUser u" "token_worth (sv_crypto sv) (bearerToken c) (clock env 0) (w_db w) u"
      "db'\<lparr>db_api_keys := db_api_keys (w_db w)\<rparr> = w_db w"
      "rest (c\<lparr>hc_user := Some user\<rparr>) (set_db w db') = Some (r, w')"
proof -
  obtain res db' where a: "ResolveAccessToken (sv_crypto sv) env (bearerToken c) (w_db w) = (res, db')" by (meson surj_pair)
  show thesis
  proof (cases res)
    case None
    then have "db' = w_db w" using a by (auto simp: ResolveAccessToken_def Let_def split: option.splits if_splits)
    then show thesis using that(1) assms a None by (simp add: authenticate_def answer_def set_db_def)
  next
    case (Some user)
    then show thesis using that(2) ResolveAccessToken_worth a assms by (fastforce simp: authenticate_def)
  qed
qed

lemma admin_paths: "list_all (\<lambda>(m, path, e). has_prefix path ''/api/v1/admin/'' \<longrightarrow> (\<exists>a. e = Admin a)) routes"
  unfolding routes_def by (simp add: has_prefix_def)

text \<open>C8: A request to a path of the administration does nothing unless its token is a live session or key of an active user
  whose role is administrator: otherwise the reply is 401 or 403, and the only trace is the time a key was last used.  No header
  other than the token matters.\<close>

theorem administration_needs_administrator:
  assumes "(m, path, endpoint) \<in> set routes" "has_prefix path ''/api/v1/admin/''" "serve sv ar endpoint c w = Some (r, w')"
  shows "(\<exists>u. token_worth (sv_crypto sv) (bearerToken c) (clock (env_at ar [9]) 0) (w_db w) u \<and> u_Role u = ''admin'')
    \<or> r \<in> {Failure 401 ''authentication_required'', Failure 403 ''admin_required''} \<and> w' = set_db w (w_db w')
      \<and> (w_db w')\<lparr>db_api_keys := db_api_keys (w_db w)\<rparr> = w_db w"
proof -
  obtain e where e: "endpoint = Admin e" using admin_paths assms(1,2) by (auto simp: list_all_iff)
  have "authenticate sv (env_at ar [9]) c w (\<lambda>c w. requireAdmin c w (admin_handler sv ar e)) = Some (r, w')"
    using assms(3) by (simp add: serve_def e)
  then show ?thesis
  proof (cases rule: authenticate_cases)
    case 1
    then show ?thesis by (simp add: set_db_def)
  next
    case (2 user u db')
    show ?thesis
    proof (cases "u_Role u = ''admin''")
      case False
      then have "r = Failure 403 ''admin_required''" "w' = set_db w db'"
        using 2(2,5) by (simp_all add: requireAdmin_def demoRole_def authenticatedUser_def mapUser_def answer_def)
      then show ?thesis using 2(4) by (simp add: set_db_def)
    qed (use 2(3) in blast)
  qed
qed

lemma administration_needs_administrator_witness:
  "serve demo_server demo_around (Admin AtAdminReap) (demo_context ''hs_1'') (demo_world demo_admin_db)
     = Some (Failure 403 ''admin_required'', demo_world demo_admin_db)
   \<and> (\<exists>u. token_worth plain_crypto ''hs_2'' 5 demo_admin_db u \<and> u_Role u = ''admin'')"
proof -
  have "serve demo_server demo_around (Admin AtAdminReap) (demo_context ''hs_1'') (demo_world demo_admin_db)
     = Some (Failure 403 ''admin_required'', demo_world demo_admin_db)"
    by (simp add: demo_request demo_user_def)
  moreover have "\<exists>d. serve demo_server demo_around (Admin AtAdminOverview) (demo_context ''hs_2'') (demo_world demo_admin_db)
     = Some (Json 200 d, demo_world demo_admin_db)"
    by (simp add: demo_request demo_user_def adminOverview_def)
  moreover have "(''GET'', ''/api/v1/admin/overview'', Admin AtAdminOverview) \<in> set routes" by (simp add: routes_def)
  moreover have "has_prefix ''/api/v1/admin/overview'' ''/api/v1/admin/''" by (simp add: has_prefix_def)
  ultimately show ?thesis
    using administration_needs_administrator [of _ _ _ demo_server demo_around "demo_context ''hs_2''" "demo_world demo_admin_db"]
    by (fastforce simp: demo_tokens demo_server_crypto demo_env demo_world_def)
qed

subsection \<open>Users see their own data\<close>

definition reply_data :: "reply \<Rightarrow> data option" where
  "reply_data r = (case r of Json _ d \<Rightarrow> Some d | Page d _ _ _ _ \<Rightarrow> Some d | _ \<Rightarrow> None)"

text \<open>A key or an endpoint of a user, by its identifier.\<close>

definition key_of :: "db \<Rightarrow> string \<Rightarrow> string \<Rightarrow> bool" where
  "key_of db uid kid \<longleftrightarrow> (\<exists>row\<in>set (db_api_keys db). k_ID row = kid \<and> k_UserID row = uid)"

definition endpoint_of :: "db \<Rightarrow> string \<Rightarrow> string \<Rightarrow> bool" where
  "endpoint_of db uid eid \<longleftrightarrow> (\<exists>row\<in>set (db_endpoints db). we_ID row = eid \<and> we_UserID row = uid)"

text \<open>Mail that was read from a mailbox in this very request.  The authentication may have noted when a key was last used.\<close>

definition mail_of :: "server \<Rightarrow> around \<Rightarrow> gin_context \<Rightarrow> world \<Rightarrow> string \<Rightarrow> string \<Rightarrow> Message list \<Rightarrow> bool" where
  "mail_of sv ar c w uid mailboxID ms \<longleftrightarrow>
     (\<exists>db0 all_messages db1. db0\<lparr>db_api_keys := db_api_keys (w_db w)\<rparr> = w_db w
        \<and> ReadMessages (sv_lib sv) (calls_at ar [2]) (the_verifier sv w) (asked c uid mailboxID) db0 = Some (Inr all_messages, db1)
        \<and> set ms \<subseteq> set all_messages)"

text \<open>Data about the user \<open>uid\<close>, or about nobody, in the reply to a request \<open>c\<close> on the state \<open>w\<close> that ends in the state \<open>w'\<close>.  A new key,
  endpoint or token is one that this user now has.  Mail comes from the mailbox of the order that the path names, which is an order of the
  user, falls into the time of that order and matches its platform.\<close>

definition own_data :: "server \<Rightarrow> around \<Rightarrow> gin_context \<Rightarrow> world \<Rightarrow> world \<Rightarrow> string \<Rightarrow> data \<Rightarrow> bool" where
  "own_data sv ar c w w' uid d =
     (case d of
        UserData user \<Rightarrow> usr_ID user = uid
      | OrderData order \<Rightarrow> ord_UserID order = uid
      | OrdersData orders \<Rightarrow> \<forall>order\<in>set orders. ord_UserID order = uid
      | LedgersData ls \<Rightarrow> \<forall>l\<in>set ls. wl_UserID l = uid
      | PaymentData p \<Rightarrow> pord_UserID p = uid
      | PaymentsData ps \<Rightarrow> \<forall>p\<in>set ps. pord_UserID p = uid
      | KeysData ks \<Rightarrow> \<forall>k\<in>set ks. key_of (w_db w) uid (ak_ID k)
      | KeyData k secret \<Rightarrow> \<exists>row\<in>set (db_api_keys (w_db w')). k_ID row = ak_ID k \<and> k_UserID row = uid
          \<and> k_SecretHash row = cr_hash_token (sv_crypto sv) secret
      | EndpointsData es \<Rightarrow> \<forall>e\<in>set es. endpoint_of (w_db w) uid (wep_ID e)
      | EndpointData e secret \<Rightarrow> \<exists>row\<in>set (db_endpoints (w_db w')). we_ID row = wep_ID e \<and> we_UserID row = uid
          \<and> cr_encrypt (sv_crypto sv) 0 [''secret'' \<mapsto> secret] = Some (we_EncryptedSecret row)
      | DeliveriesData ds \<Rightarrow> \<forall>d\<in>set ds. endpoint_of (w_db w) uid (wdl_EndpointID d)
      | TokenData token \<Rightarrow> \<exists>row\<in>set (db_sessions (w_db w')). ss_UserID row = uid
          \<and> ss_TokenHash row = cr_hash_token (sv_crypto sv) token \<and> ss_RevokedAt row = None
      | MessagesData ms \<Rightarrow> \<exists>row\<in>set (db_orders (w_db w)). o_ID row = hc_param c ''id'' \<and> o_UserID row = uid
          \<and> mail_of sv ar c w uid (o_MailboxID row) ms
          \<and> (\<exists>service\<in>set (ListServices (env_at ar [1]) (w_db w)).
               (svc_ID service = o_ServiceID row \<or> svc_Code service = o_ServiceCode row)
               \<and> (\<forall>m\<in>set ms. order_window (mapOrder row) m \<and> MessageMatchesService service m))
      | UserServicesData _ \<Rightarrow> True | AvailabilityData _ _ _ \<Rightarrow> True | MethodsData _ \<Rightarrow> True
      | _ \<Rightarrow> False)"

lemma list_rows_in:
  assumes "x \<in> set (fst (list_rows env sh page psize order f rows))" and "\<And>rs. set (order rs) = set rs"
  obtains row where "row \<in> set rows" "x = f row"
proof -
  have "set (sql_page p q rs) \<subseteq> set rs" for p q and rs :: "'b list"
    by (auto simp: sql_page_def Let_def dest: in_set_takeD in_set_dropD)
  then show thesis
    using assms that by (fastforce simp: list_rows_def split: prod.splits if_splits)
qed

lemma set_newest [simp]: "set (newest f rs) = set rs"
  by (simp add: newest_def)

definition owned :: "server \<Rightarrow> around \<Rightarrow> gin_context \<Rightarrow> world \<Rightarrow> string \<Rightarrow> (reply \<times> world) option \<Rightarrow> bool" where
  "owned sv0 ar0 c0 w0 uid out \<longleftrightarrow> (\<forall>r w' d. out = Some (r, w') \<longrightarrow> reply_data r = Some d \<longrightarrow> own_data sv0 ar0 c0 w0 w' uid d)"

lemma owned_answer [simp]:
  "owned sv0 ar0 c0 w0 uid (answer r w) \<longleftrightarrow> (\<forall>d. reply_data r = Some d \<longrightarrow> own_data sv0 ar0 c0 w0 w uid d)"
  by (auto simp: owned_def answer_def)

lemma owned_None [simp]: "owned sv0 ar0 c0 w0 uid None"
  by (simp add: owned_def)

lemma reply_data_simps [simp]: "reply_data (Json n d) = Some d" "reply_data (Failure n code) = None" "reply_data NoContent = None"
  "reply_data Panicked = None" "reply_data (writePage d page psize k) = Some d"
  by (simp_all add: reply_data_def writePage_def)

lemma own_data_simps [simp]:
  "own_data sv ar c w w' uid (UserServicesData vs)" "own_data sv ar c w w' uid (AvailabilityData a n cs)"
  "own_data sv ar c w w' uid (MethodsData ms)"
  "own_data sv ar c w w' uid (UserData user) \<longleftrightarrow> usr_ID user = uid" "own_data sv ar c w w' uid (OrderData order) \<longleftrightarrow> ord_UserID order = uid"
  "own_data sv ar c w w' uid (PaymentData p) \<longleftrightarrow> pord_UserID p = uid"
  by (simp_all add: own_data_def)

lemma owned_call:
  assumes "\<And>x db'. run_tx m (w_db w) = (Inr x, db') \<Longrightarrow> owned sv0 ar0 c0 w0 uid (done x (set_db w db'))" and "\<And>e. reply_data (failed e) = None"
  shows "owned sv0 ar0 c0 w0 uid (call m w failed done)"
  using assms by (auto simp: call_def split: prod.split sum.split)

lemma owned_page:
  assumes "\<And>x. x \<in> set (fst out) \<Longrightarrow> P x" and "\<And>xs. (\<And>x. x \<in> set xs \<Longrightarrow> P x) \<Longrightarrow> own_data sv0 ar0 c0 w0 w uid (d xs)"
  shows "owned sv0 ar0 c0 w0 uid (answer (write_page c d out) w)"
  using assms by (simp add: write_page_def split: prod.split)

lemma mapOrder_user [simp]: "ord_UserID (mapOrder row) = o_UserID row"
  by (simp add: mapOrder_def)

text \<open>The lists.\<close>

lemma listed_own:
  "x \<in> set (fst (ListUserOrdersPage env uid f page psize db)) \<Longrightarrow> ord_UserID x = uid"
  "k \<in> set (fst (ListAPIKeysPage env uid page psize db)) \<Longrightarrow> key_of db uid (ak_ID k)"
  "uid \<noteq> [] \<Longrightarrow> l \<in> set (fst (ListWalletLedgersPage env uid page psize db)) \<Longrightarrow> wl_UserID l = uid"
  "e \<in> set (fst (ListWebhookEndpointsPage env uid page psize db)) \<Longrightarrow> endpoint_of db uid (wep_ID e)"
  "d \<in> set (fst (ListWebhookDeliveriesPage env uid page psize db)) \<Longrightarrow> endpoint_of db uid (wdl_EndpointID d)"
  "uid \<noteq> [] \<Longrightarrow> p \<in> set (fst (ListPaymentOrdersPage env uid page psize db)) \<Longrightarrow> pord_UserID p = uid"
  by (auto simp: ListUserOrdersPage_def user_order_matches_def mapOrder_def ListAPIKeysPage_def key_of_def mapAPIKey_def
      ListWalletLedgersPage_def map_ledger_def ListWebhookEndpointsPage_def endpoint_of_def mapWebhookEndpoint_def
      ListWebhookDeliveriesPage_def mapWebhookDelivery_def ListPaymentOrdersPage_def mapPaymentOrder_def
      split: if_splits elim!: list_rows_in)

lemma owned_lists:
  assumes c: "demoUser c = uid" and "uid \<noteq> []"
  shows "owned sv0 ar0 c0 w uid (listUserOrders ar c w)" "owned sv0 ar0 c0 w uid (listAPIKeys ar c w)"
    "owned sv0 ar0 c0 w uid (walletLedgers ar c w)" "owned sv0 ar0 c0 w uid (listWebhookEndpoints ar c w)"
    "owned sv0 ar0 c0 w uid (listWebhookDeliveries ar c w)" "owned sv0 ar0 c0 w uid (paymentOrders ar c w)"
  unfolding listUserOrders_def listAPIKeys_def walletLedgers_def listWebhookEndpoints_def listWebhookDeliveries_def
    paymentOrders_def Let_def c prod.case_eq_if
  by (rule owned_page, erule listed_own, simp add: own_data_def)
    (rule owned_page, erule listed_own, simp add: own_data_def,
     rule owned_page, erule listed_own(3) [OF assms(2)], simp add: own_data_def,
     rule owned_page, erule listed_own, simp add: own_data_def,
     rule owned_page, erule listed_own, simp add: own_data_def,
     rule owned_page, erule listed_own(6) [OF assms(2)], simp add: own_data_def)

text \<open>One item.\<close>

lemma create_post_user: "create_post env user service mailbox providers price rid db r db' \<Longrightarrow> o_UserID r = u_ID user"
  by (erule create_postE) simp

lemma created_user:
  assumes "allocate_order env locked uid sid rid ps db = (Created order, db')"
  shows "ord_UserID order = uid"
proof -
  obtain user service mailbox providers maximum price r
    where c: "create_checked env locked uid sid ps db user service mailbox providers maximum price" "order = mapOrder r"
      and p: "create_post env user service mailbox providers price rid db r db'"
    using allocate_order_cases [OF assms] by blast
  show ?thesis using create_post_user [OF p] c by (simp add: create_checked_def)
qed

lemma CreateOrder_user:
  assumes "CreateOrder setnx now start fuel env locked uid sid rid ps db = Some (Created order, db')"
  shows "ord_UserID order = uid"
proof -
  have "allocate_order env locked uid sid rid ps db = (Created order, db')"
    using assms unfolding CreateOrder_def by (simp split: option.splits sum.splits unit.splits)
  then show ?thesis by (rule created_user)
qed

lemma owned_createOrder:
  assumes "demoUser c = uid"
  shows "owned sv0 ar0 c0 w0 uid (createOrder sv ar c w)"
proof -
  have "owned sv0 ar0 c0 w0 uid (place_order ar c sid rid ps w)" for sid rid ps
    unfolding place_order_def assms
    by (simp add: store_failure_def split: option.split prod.split create_outcome.split) (blast dest: CreateOrder_user)
  then show ?thesis by (simp add: createOrder_def Let_def split: option.split)
qed

lemma owned_getUserOrder: "demoUser c = uid \<Longrightarrow> owned sv0 ar0 c0 w0 uid (getUserOrder ar c w)"
  by (auto simp: getUserOrder_def split: option.split)

lemma owned_me: "authenticatedUser c = Some user \<Longrightarrow> usr_ID user = uid \<Longrightarrow> owned sv0 ar0 c0 w0 uid (me ar c w)"
  by (simp add: me_def)

lemma UpdateProfile_user: "tx_ok (UpdateProfile env uid name) db (\<lambda>user _. usr_ID user = uid)"
  unfolding UpdateProfile_def tx_ok_bind tx_ok_then tx_ok_first tx_ok_return tx_ok_update
  by (auto simp: mapUser_def dest!: row_find_Some)

lemma CancelPaymentOrder_user: "tx_ok (CancelPaymentOrder env n uid oid) db (\<lambda>p _. pord_UserID p = uid)"
  unfolding CancelPaymentOrder_def Let_def tx_ok_bind tx_ok_first tx_ok_then tx_ok_guard save_pay_order_def
    tx_ok_update tx_ok_return
  by (auto simp: mapPaymentOrder_def dest!: row_find_Some)

lemma CreatePaymentOrder_user: "tx_ok (CreatePaymentOrder digits env n uid pid pmethod amount) db (\<lambda>p _. pord_UserID p = uid)"
  unfolding CreatePaymentOrder_def Let_def tx_ok_if tx_ok_bind tx_ok_first tx_ok_then tx_ok_guard create_pay_order_def
    tx_ok_insert tx_ok_return tx_ok_fail
  by (auto simp: tx_ok_fail mapPaymentOrder_def)

lemmas tx_users = UpdateProfile_user [THEN tx_okD] CancelPaymentOrder_user [THEN tx_okD] CreatePaymentOrder_user [THEN tx_okD]

lemma owned_updateProfile: "demoUser c = uid \<Longrightarrow> owned sv0 ar0 c0 w0 uid (updateProfile sv ar c w)"
  by (auto simp: updateProfile_def call_def run_tx_ok dest!: tx_users split: option.split sum.split prod.split)

lemma owned_cancelPaymentOrder: "demoUser c = uid \<Longrightarrow> owned sv0 ar0 c0 w0 uid (cancelPaymentOrder ar c w)"
  by (auto simp: cancelPaymentOrder_def call_def run_tx_ok dest!: tx_users split: option.split sum.split prod.split)

lemma Create_user:
  assumes "Create lib cr env url uid amount pmethod mobile db = (Inr p, db')"
  shows "pord_UserID p = uid"
proof -
  have placed: "pord_UserID p = uid"
    if "run_tx (CreatePaymentOrder (lib_digits lib) env n uid pid pmethod amount) db = (Inr p, db1)" for n pid p db1
    using CreatePaymentOrder_user that by (fastforce simp: run_tx_ok dest: tx_okD)
  show ?thesis
    using assms unfolding Create_def
    by (auto split: sum.splits list.splits unit.splits prod.splits dest!: placed)
qed

lemma owned_createPaymentOrder: "demoUser c = uid \<Longrightarrow> owned sv0 ar0 c0 w0 uid (createPaymentOrder sv ar c w)"
  by (auto simp: createPaymentOrder_def dest!: Create_user split: option.split sum.split prod.split)

lemma owned_getPaymentOrder: "demoUser c = uid \<Longrightarrow> uid \<noteq> [] \<Longrightarrow> owned sv0 ar0 c0 w0 uid (getPaymentOrder ar c w)"
  by (auto simp: getPaymentOrder_def GetPaymentOrder_def mapPaymentOrder_def dest!: row_find_Some split: option.split if_splits)

text \<open>Mail of an order.\<close>

lemma page_messages_in: "page_messages ms page psize = Inr xs \<Longrightarrow> set xs \<subseteq> set ms"
  by (auto simp: page_messages_def go_slice_def Let_def split: if_splits dest: in_set_takeD in_set_dropD)

lemma owned_read_order_mail:
  assumes row: "row \<in> set (db_orders (w_db w))" "o_UserID row = uid" "o_ID row = hc_param c ''id''" and "demoUser c = uid"
    and service: "order_service (ListServices (env_at ar [1]) (w_db w)) (mapOrder row) = Some service"
  shows "owned sv ar c w uid (read_order_mail sv ar c service (mapOrder row) w)"
proof -
  have chosen: "service \<in> set (ListServices (env_at ar [1]) (w_db w))" "svc_ID service = o_ServiceID row \<or> svc_Code service = o_ServiceCode row"
    using service by (auto simp: order_service_def find_Some_iff mapOrder_def)
  have box: "ord_MailboxID (mapOrder row) = o_MailboxID row" by (simp add: mapOrder_def)
  have "own_data sv ar c w w' uid (MessagesData xs)"
    if read: "ReadMessages (sv_lib sv) (calls_at ar [2]) (the_verifier sv w) (asked c uid (o_MailboxID row)) (w_db w) = Some (Inr ms, db1)"
      and "page_messages (FilterMessagesForOrder service (mapOrder row) ms) page psize = Inr xs" for ms db1 page psize xs w'
  proof -
    have xs: "set xs \<subseteq> {m\<in>set ms. order_window (mapOrder row) m \<and> MessageMatchesService service m}"
      using page_messages_in [OF that(2)] by (auto simp: FilterMessagesForOrder_def)
    then have "mail_of sv ar c w uid (o_MailboxID row) xs"
      unfolding mail_of_def using read by (intro exI [of _ "w_db w"] exI [of _ ms] exI [of _ db1]) auto
    then show ?thesis using row chosen xs unfolding own_data_def data.case by blast
  qed
  then show ?thesis
    by (auto simp: read_order_mail_def box assms(4) Let_def split: option.split prod.split sum.split)
qed

lemma owned_userOrderMessages:
  assumes "demoUser c = uid"
  shows "owned sv ar c w uid (userOrderMessages sv ar c w)"
proof (cases "GetOrder (env_at ar [0]) (hc_param c ''id'') (w_db w)")
  case (Some order)
  then obtain row where row: "row \<in> set (db_orders (w_db w))" "o_ID row = hc_param c ''id''" "order = mapOrder row"
    by (auto simp: GetOrder_def dest!: row_find_Some split: if_splits)
  show ?thesis
    using owned_read_order_mail [OF row(1) _ row(2) assms, of ar] assms
    by (auto simp: userOrderMessages_def Some row(3) split: option.split)
qed (simp add: userOrderMessages_def)

text \<open>What is new: a key, an endpoint, a session.  The audit record written behind it changes none of them.\<close>

lemma audit_rows [simp]:
  "db_api_keys (w_db (audit env c actor action rtype rid detail w)) = db_api_keys (w_db w)"
  "db_sessions (w_db (audit env c actor action rtype rid detail w)) = db_sessions (w_db w)"
  by (simp_all add: audit_def set_db_def WriteAudit_def create_audit_def run_tx_def stmt_defs tx_defs)

lemma w_db_set [simp]: "w_db (set_db w db) = db"
  by (simp add: set_db_def)

lemma CreateAPIKey_own:
  "tx_ok (CreateAPIKey cr env uid name scopes) db (\<lambda>(key, secret) db'. \<exists>row\<in>set (db_api_keys db'). k_ID row = ak_ID key \<and> k_UserID row = uid
     \<and> k_SecretHash row = cr_hash_token cr secret)"
  by (simp add: CreateAPIKey_def Let_def tx_ok_bind tx_ok_then create_api_key_def tx_ok_insert tx_ok_return randomToken_def tx_ok_option
      tx_ok_fail mapAPIKey_def)

lemma CreateWebhookEndpoint_own:
  "tx_ok (CreateWebhookEndpoint cr parse_url env uid url events) db (\<lambda>(endpoint, secret) db'. \<exists>row\<in>set (db_endpoints db').
     we_ID row = wep_ID endpoint \<and> we_UserID row = uid \<and> cr_encrypt cr 0 [''secret'' \<mapsto> secret] = Some (we_EncryptedSecret row))"
  by (auto simp: CreateWebhookEndpoint_def Let_def tx_ok_option tx_ok_fail tx_ok_prod tx_ok_if tx_ok_then create_endpoint_def tx_ok_insert
      tx_ok_return mapWebhookEndpoint_def)

lemma ChangePassword_own:
  "tx_ok (ChangePassword cr env uid current new) db (\<lambda>token db'. \<exists>row\<in>set (db_sessions db'). ss_UserID row = uid
     \<and> ss_TokenHash row = cr_hash_token cr token \<and> ss_RevokedAt row = None)"
  by (auto simp: ChangePassword_def tx_ok_if tx_ok_fail tx_ok_bind tx_ok_first tx_ok_then tx_ok_guard tx_ok_option tx_ok_update tx_ok_createSession)

lemma owned_new:
  assumes "authenticatedUser c = Some user" "usr_ID user = uid" "demoUser c = uid"
  shows "owned sv ar0 c0 w0 uid (createAPIKey sv ar c w)" "owned sv ar0 c0 w0 uid (createWebhookEndpoint sv ar c w)"
    "owned sv ar0 c0 w0 uid (changePassword sv ar c w)"
  unfolding createAPIKey_def createWebhookEndpoint_def changePassword_def Let_def assms
  by (auto simp: own_data_def run_tx_ok assms dest!: CreateAPIKey_own [THEN tx_okD] CreateWebhookEndpoint_own [THEN tx_okD]
      ChangePassword_own [THEN tx_okD] intro!: owned_call split: option.split prod.splits)

text \<open>All endpoints of the users.\<close>

lemma owned_others:
  "owned sv0 ar0 c0 w0 uid (logout sv ar c w)" "owned sv0 ar0 c0 w0 uid (services ar c w)"
  "owned sv0 ar0 c0 w0 uid (serviceAvailability ar c w)" "owned sv0 ar0 c0 w0 uid (revokeAPIKey ar c w)"
  "owned sv0 ar0 c0 w0 uid (deleteWebhookEndpoint ar c w)"
  "owned sv0 ar0 c0 w0 uid (retryWebhookDelivery ar c w)" "owned sv0 ar0 c0 w0 uid (paymentMethods sv ar c w)"
  by (auto simp: logout_def services_def serviceAvailability_def revokeAPIKey_def
      deleteWebhookEndpoint_def retryWebhookDelivery_def paymentMethods_def call_def Let_def
      split: option.split prod.split sum.split)

lemma owned_user_handler:
  assumes "authenticatedUser c = Some user" "usr_ID user = uid" "uid \<noteq> []"
  shows "owned sv ar c w uid (user_handler sv ar e c w)"
proof -
  have "demoUser c = uid" using assms by (simp add: demoUser_def)
  then show ?thesis
    using assms by (cases e) (simp_all add: owned_lists owned_others owned_new [OF assms(1,2)] owned_createOrder owned_getUserOrder owned_me
        owned_updateProfile owned_cancelPaymentOrder owned_createPaymentOrder owned_getPaymentOrder owned_userOrderMessages)
qed

lemma ResolveAccessToken_keys:
  assumes "ResolveAccessToken cr env token db = (r, db')"
  shows "key_of db' uid kid \<longleftrightarrow> key_of db uid kid"
proof -
  let ?owner = "\<lambda>row. (k_ID row, k_UserID row)"
  have "map ?owner (db_api_keys db') = map ?owner (db_api_keys db)"
    using assms by (auto simp: ResolveAccessToken_def Let_def map_key_upd_rows [where key = ?owner] split: option.splits if_splits)
  then have "?owner ` set (db_api_keys db') = ?owner ` set (db_api_keys db)" by (metis set_map)
  moreover have "key_of d uid kid \<longleftrightarrow> (kid, uid) \<in> ?owner ` set (db_api_keys d)" for d by (auto simp: key_of_def)
  ultimately show ?thesis by simp
qed

text \<open>Only the authentication lies between the request and its handler.\<close>

lemma own_data_before:
  assumes "db'\<lparr>db_api_keys := db_api_keys (w_db w)\<rparr> = w_db w" and keys: "\<And>kid. key_of db' uid kid \<longleftrightarrow> key_of (w_db w) uid kid"
    and own: "own_data sv ar (c\<lparr>hc_user := u\<rparr>) (set_db w db') w' uid d"
  shows "own_data sv ar c w w' uid d"
proof -
  have same: "db_endpoints db' = db_endpoints (w_db w)" "db_orders db' = db_orders (w_db w)" "db_services db' = db_services (w_db w)"
    using assms(1) by (metis db.select_convs db.surjective db.update_convs)+
  have asked: "asked (c\<lparr>hc_user := u\<rparr>) uid k = asked c uid k" "the_verifier sv (set_db w db') = the_verifier sv w" for k
    by (simp_all add: asked_def the_verifier_def set_db_def)
  have "mail_of sv ar c w uid k ms" if m: "mail_of sv ar (c\<lparr>hc_user := u\<rparr>) (set_db w db') uid k ms" for k ms
  proof -
    obtain db0 all_messages db1 where before: "db0\<lparr>db_api_keys := db_api_keys db'\<rparr> = db'" and r:
      "ReadMessages (sv_lib sv) (calls_at ar [2]) (the_verifier sv w) (asked c uid k) db0 = Some (Inr all_messages, db1)"
      "set ms \<subseteq> set all_messages"
      using m unfolding mail_of_def asked w_db_set by blast
    have "db0\<lparr>db_api_keys := db_api_keys (w_db w)\<rparr> = (db0\<lparr>db_api_keys := db_api_keys db'\<rparr>)\<lparr>db_api_keys := db_api_keys (w_db w)\<rparr>"
      by simp
    then have "db0\<lparr>db_api_keys := db_api_keys (w_db w)\<rparr> = w_db w" by (simp only: before assms(1))
    then show ?thesis using r unfolding mail_of_def by blast
  qed
  moreover have "ListServices env db' = ListServices env (w_db w)" for env by (simp add: ListServices_def ListServicesPage_def same)
  ultimately show ?thesis
    using own keys by (cases d) (simp_all add: own_data_def endpoint_of_def same, blast)
qed

text \<open>C9: What the interface replies to a request of the users' routes is about the owner of the token only: the account,
  the orders, the payments, the ledgers, the keys, the endpoints and their deliveries belong to that user, whatever identifier the
  path or a header names; a new key, endpoint or token that is shown is one that this user has from then on; and the mail shown was read
  from the mailbox of the order that the path names, which is an order of that user, arrived in the time of that order and matches its
  platform.\<close>

theorem replies_are_own:
  assumes "serve sv ar (Protected e) c w = Some (r, w')" and "\<forall>u\<in>set (db_users (w_db w)). u_ID u \<noteq> []"
    and "reply_data r = Some d"
  shows "\<exists>u. token_worth (sv_crypto sv) (bearerToken c) (clock (env_at ar [9]) 0) (w_db w) u \<and> own_data sv ar c w w' (u_ID u) d"
proof -
  have "authenticate sv (env_at ar [9]) c w (user_handler sv ar e) = Some (r, w')"
    using assms(1) by (simp add: serve_def)
  then show ?thesis
  proof (cases rule: authenticate_cases)
    case 1
    then show ?thesis using assms(3) by simp
  next
    case (2 user u db')
    have "u_ID u \<noteq> []" using 2(3) assms(2) by (simp add: token_worth_def)
    then have "owned sv ar (c\<lparr>hc_user := Some user\<rparr>) (set_db w db') (u_ID u) (user_handler sv ar e (c\<lparr>hc_user := Some user\<rparr>) (set_db w db'))"
      using owned_user_handler [of "c\<lparr>hc_user := Some user\<rparr>" user "u_ID u"] 2(2) by (simp add: authenticatedUser_def mapUser_def)
    then have "own_data sv ar (c\<lparr>hc_user := Some user\<rparr>) (set_db w db') w' (u_ID u) d" using 2(5) assms(3) by (auto simp: owned_def)
    then show ?thesis using own_data_before [OF 2(4) ResolveAccessToken_keys [OF 2(1)]] 2(3) by blast
  qed
qed

lemma replies_are_own_witness:
  "\<exists>u. token_worth plain_crypto ''hs_1'' 5 demo_admin_db u \<and> own_data demo_server demo_around (demo_context ''hs_1'') (demo_world demo_admin_db) (demo_world demo_admin_db) (u_ID u) (OrderData (mapOrder demo_order))"
proof -
  have "serve demo_server demo_around (Protected AtGetUserOrder) (demo_context ''hs_1'') (demo_world demo_admin_db)
     = Some (Json 200 (OrderData (mapOrder demo_order)), demo_world demo_admin_db)"
    by (simp add: demo_request getUserOrder_def GetOrder_def demo_env demoUser_def)
      (simp add: demo_context_def demo_admin_db_def demo_defs row_find_def demoUser_def authenticatedUser_def mapOrder_def answer_def)
  moreover have "\<forall>u\<in>set (db_users demo_admin_db). u_ID u \<noteq> []" by (simp add: demo_admin_db_def demo_defs)
  ultimately show ?thesis
    using replies_are_own [of demo_server demo_around AtGetUserOrder "demo_context ''hs_1''" "demo_world demo_admin_db"
        "Json 200 (OrderData (mapOrder demo_order))" _ "OrderData (mapOrder demo_order)"]
    by (simp add: demo_tokens demo_server_crypto demo_env demo_world_def)
qed

end
