(* ===== verification/Http_Invariant.thy ===== *)
theory Http_Invariant
  imports Http_Access
begin

text \<open>
  Whatever request arrives, the leases, the books of the orders and the money survive it: every handler runs operations of the
  store that keep them.
\<close>

subsection \<open>Saving a mailbox without an identifier\<close>

lemma save_found_ids:
  assumes "mbx_ID mailbox = []"
  shows "tx_ok (save_found env actorID mailbox encrypted ip (find_saved mailbox db)) db
    (\<lambda>_ db'. m_ID ` set (db_mailboxes db') \<subseteq> insert (uuid env 0) (m_ID ` set (db_mailboxes db)))"
proof -
  let ?Q = "\<lambda>db'. m_ID ` set (db_mailboxes db') \<subseteq> insert (uuid env 0) (m_ID ` set (db_mailboxes db))"
  let ?row0 = "case find_saved mailbox db of Some e \<Rightarrow> merge_mailbox mailbox e | None \<Rightarrow> fresh_mailbox env mailbox"
  define row where "row = (if encrypted \<noteq> [] then ?row0\<lparr>m_EncryptedCredential := encrypted\<rparr> else ?row0)"
  have "m_ID row = uuid env 0 \<or> m_ID row \<in> m_ID ` set (db_mailboxes db)"
  proof (cases "find_saved mailbox db")
    case (Some e)
    then have "e \<in> set (db_mailboxes db)" using row_first_Some by (fastforce simp: find_saved_def)
    then show ?thesis using Some by (simp add: row_def)
  qed (simp add: row_def assms)
  note known = this
  have saved: "?Q (db\<lparr>db_mailboxes := upsert m_ID r (db_mailboxes db)\<rparr>)" if r: "m_ID r = m_ID row" for r
  proof (rule image_subsetI)
    fix x assume "x \<in> set (db_mailboxes (db\<lparr>db_mailboxes := upsert m_ID r (db_mailboxes db)\<rparr>))"
    then have "x = r \<or> x \<in> set (db_mailboxes db)" by (simp add: set_upsert) blast
    then show "m_ID x \<in> insert (uuid env 0) (m_ID ` set (db_mailboxes db))" using known r by auto
  qed
  have put: "tx_ok (put_mailbox env 1 row) db (\<lambda>_. ?Q)"
    unfolding put_mailbox_def save_mailbox_row_def tx_ok_bind tx_ok_get tx_ok_insert
    by (intro impI, rule saved, cases "m_ID row \<in> m_ID ` set (db_mailboxes db)") simp_all
  have states: "tx_ok (ensure_states env 10 ps) db1 (\<lambda>_. ?Q)" if "?Q db1" for ps db1
    by (rule tx_ok_weaken [OF ensure_states_frame]) (use that in simp)
  have audited: "tx_ok (create_audit env n a) db1 (\<lambda>_. ?Q)" if "?Q db1" for n a db1
    unfolding create_audit_def tx_ok_insert using that by simp
  show ?thesis
    unfolding save_found_def Let_def row_def [symmetric] tx_ok_then tx_ok_bind tx_ok_read tx_ok_return
    by (rule tx_ok_weaken [OF put], intro impI, rule tx_ok_weaken [OF states], assumption, rule audited)
qed

lemma SaveMailbox_ids:
  assumes "mbx_ID mailbox = []"
  shows "m_ID ` set (db_mailboxes (snd (run_tx (SaveMailbox cr env actorID mailbox credential ip) db)))
    \<subseteq> insert (uuid env 0) (m_ID ` set (db_mailboxes db))"
proof (rule run_tx_rel [where R = "\<lambda>db db'. m_ID ` set (db_mailboxes db') \<subseteq> insert (uuid env 0) (m_ID ` set (db_mailboxes db))"], blast)
  have "mbx_ID box = []" if "normal_mailbox mailbox = Inr box" for box
    using that assms by (auto simp: normal_mailbox_def Let_def split: if_splits option.splits)
  then show "tx_ok (SaveMailbox cr env actorID mailbox credential ip) db
     (\<lambda>_ db'. m_ID ` set (db_mailboxes db') \<subseteq> insert (uuid env 0) (m_ID ` set (db_mailboxes db)))"
    unfolding SaveMailbox_def tx_ok_sum tx_ok_option tx_ok_fail tx_ok_bind tx_ok_read
    by (auto simp: tx_ok_fail intro!: save_found_ids)
qed

subsection \<open>Handlers\<close>

definition kept :: "world \<Rightarrow> (reply \<times> world) option \<Rightarrow> bool" where
  "kept w out \<longleftrightarrow> (\<forall>r w'. out = Some (r, w') \<longrightarrow> keeps (w_db w) (w_db w'))"

lemma kept_answer: "keeps (w_db w) (w_db w') \<Longrightarrow> kept w (answer r w')"
  by (simp add: kept_def answer_def)

lemma kept_None: "kept w None"
  by (simp add: kept_def)

lemma set_db_simps [simp]: "w_db (set_db w db) = db" "w_redis (set_db w db) = w_redis w" "w_google (set_db w db) = w_google w"
  "w_status (set_db w db) = w_status w" "w_request (set_db w db) = w_request w" "w_backups (set_db w db) = w_backups w"
  by (simp_all add: set_db_def)

lemma audit_keeps: "keeps db0 (w_db w) \<Longrightarrow> keeps db0 (w_db (audit env c actor action rtype rid detail w))"
  by (simp add: audit_def keeps_trans [OF _ WriteAudit_keeps])

lemma kept_call:
  assumes "keeps (w_db w0) (w_db w)" and "\<And>db. keeps db (snd (run_tx m db))"
    and "\<And>x w'. keeps (w_db w0) (w_db w') \<Longrightarrow> kept w0 (done x w')"
  shows "kept w0 (call m w failed done)"
proof -
  obtain r db' where r: "run_tx m (w_db w) = (r, db')" by (cases "run_tx m (w_db w)")
  then have "keeps (w_db w0) db'" using keeps_trans [OF assms(1) assms(2)] by (metis snd_conv)
  then show ?thesis using assms(3) by (cases r) (simp_all add: call_def r kept_answer)
qed

lemmas operation_keeps = Register_keeps Login_keeps Logout_keeps UpdateProfile_keeps ChangePassword_keeps CreateAPIKey_keeps
  RevokeAPIKey_keeps AdjustBalance_keeps CreateWebhookEndpoint_keeps DeleteWebhookEndpoint_keeps RetryWebhookJob_keeps
  SavePaymentProvider_keeps DeletePaymentProvider_keeps CancelPaymentOrder_keeps CompleteOrder_keeps CancelOrder_keeps
  ReceiveCodeValue_keeps DeleteMailbox_keeps SaveService_keeps DeleteService_keeps MarkMailboxServiceRegistered_keeps
  SaveSystemConfig_keeps

lemmas kept_rules = kept_call kept_answer kept_None audit_keeps operation_keeps

text \<open>The handlers that need no assumption.\<close>

lemmas account_handlers = register_def login_def logout_def updateProfile_def changePassword_def listAPIKeys_def createAPIKey_def
  revokeAPIKey_def walletLedgers_def adminUsers_def adminAdjustBalance_def adminLedgers_def adminAuditLogs_def
  listWebhookEndpoints_def createWebhookEndpoint_def deleteWebhookEndpoint_def listWebhookDeliveries_def retryWebhookDelivery_def
  paymentMethods_def paymentOrders_def getPaymentOrder_def cancelPaymentOrder_def adminPaymentProviders_def adminPaymentProvider_def
  adminSavePaymentProvider_def adminDeletePaymentProvider_def adminPaymentOrders_def

lemma account_handlers_kept:
  "kept w (register sv ar c w)" "kept w (login sv ar c w)" "kept w (logout sv ar c w)" "kept w (updateProfile sv ar c w)"
  "kept w (changePassword sv ar c w)" "kept w (listAPIKeys ar c w)" "kept w (createAPIKey sv ar c w)" "kept w (revokeAPIKey ar c w)"
  "kept w (walletLedgers ar c w)" "kept w (adminUsers ar c w)" "kept w (adminAdjustBalance sv ar c w)" "kept w (adminLedgers ar c w)"
  "kept w (adminAuditLogs ar c w)" "kept w (listWebhookEndpoints ar c w)" "kept w (createWebhookEndpoint sv ar c w)"
  "kept w (deleteWebhookEndpoint ar c w)" "kept w (listWebhookDeliveries ar c w)" "kept w (retryWebhookDelivery ar c w)"
  "kept w (paymentMethods sv ar c w)" "kept w (paymentOrders ar c w)" "kept w (getPaymentOrder ar c w)"
  "kept w (cancelPaymentOrder ar c w)" "kept w (adminPaymentProviders ar c w)" "kept w (adminPaymentProvider sv ar c w)"
  "kept w (adminSavePaymentProvider sv ar c w)" "kept w (adminDeletePaymentProvider ar c w)" "kept w (adminPaymentOrders ar c w)"
  unfolding account_handlers Let_def
  by (auto split: option.split prod.split sum.split intro!: kept_rules)

lemma place_order_kept: "keeps (w_db w0) (w_db w) \<Longrightarrow> kept w0 (place_order ar c sid rid providers w)"
  by (auto simp: place_order_def kept_None split: option.split create_outcome.split
      intro!: kept_answer elim: keeps_trans dest!: CreateOrder_keeps)

lemma adminReap_kept: "kept w (adminReap ar c w)"
proof -
  obtain n db' where r: "ReapExpired (\<lambda>k. env_at ar [0, k]) (w_db w) = (n, db')" by (meson surj_pair)
  then have "keeps (w_db w) db'" using ReapExpired_keeps by (metis snd_conv)
  then show ?thesis by (simp add: adminReap_def r kept_answer audit_keeps)
qed

lemma createPaymentOrder_kept: "kept w (createPaymentOrder sv ar c w)"
proof -
  have "keeps (w_db w) db'" if "Create lib cr env url uid amount pmethod mobile (w_db w) = (r, db')" for lib cr env url uid amount pmethod mobile r db'
    using Create_keeps that by (metis snd_conv)
  then show ?thesis by (auto simp: createPaymentOrder_def split: option.split prod.split sum.split intro!: kept_answer)
qed

lemma paymentWebhook_kept: "kept w (paymentWebhook sv ar c w)"
proof -
  have "keeps (w_db w) db'" if "Notify lib cr env t pid vs (w_db w) = (r, db')" for lib cr env t pid vs r db'
    using Notify_keeps that by (metis snd_conv)
  then show ?thesis by (auto simp: paymentWebhook_def split: option.split prod.split sum.split intro!: kept_answer)
qed

lemmas order_handlers = me_def publicServices_def publicStatus_def services_def serviceAvailability_def adminServices_def
  createOrder_def listUserOrders_def getUserOrder_def adminCompleteOrder_def adminCancelOrder_def adminOverview_def
  adminMailboxes_def adminOrders_def receiveMailEvent_def ready_def

lemma order_handlers_kept:
  "kept w (me ar c w)" "kept w (publicServices ar c w)" "kept w (publicStatus ar c w)" "kept w (services ar c w)"
  "kept w (serviceAvailability ar c w)" "kept w (adminServices ar c w)" "kept w (createOrder sv ar c w)"
  "kept w (listUserOrders ar c w)" "kept w (getUserOrder ar c w)" "kept w (adminCompleteOrder ar c w)"
  "kept w (adminCancelOrder ar c w)" "kept w (adminOverview ar c w)" "kept w (adminMailboxes ar c w)"
  "kept w (adminOrders ar c w)" "kept w (receiveMailEvent sv ar c w)" "kept w (ready ar c w)"
  unfolding order_handlers Let_def
  by (auto split: option.split prod.split sum.split intro!: kept_rules place_order_kept)

lemma adminDeleteInvalidMailboxes_kept: "kept w (adminDeleteInvalidMailboxes sv ar c w)"
proof -
  have "keeps (w_db w) db'" if "DeleteInvalidMailboxes env envs locked actor ip expected (w_db w) = (r, db')"
    for env envs locked actor ip expected r db'
    using DeleteInvalidMailboxes_keeps that by (metis snd_conv)
  then show ?thesis by (auto simp: adminDeleteInvalidMailboxes_def split: option.split prod.split intro!: kept_answer)
qed

lemmas mailbox_handlers = adminInvalidMailboxSummary_def adminMailboxPools_def adminMarkMailboxServiceRegistered_def
  adminDeleteMailbox_def adminVerifyMailbox_def adminRescanMailboxHistory_def adminRescanAllMailboxHistory_def
  adminMailboxMessages_def userOrderMessages_def read_order_mail_def adminSaveService_def adminDeleteService_def
  microsoftOAuthStart_def googleOAuthStart_def start_authorization_def adminGoogleOAuthConfig_def adminSaveGoogleOAuthConfig_def

lemma mailbox_handlers_kept:
  "kept w (adminInvalidMailboxSummary ar c w)" "kept w (adminMailboxPools ar c w)" "kept w (adminMarkMailboxServiceRegistered ar c w)"
  "kept w (adminDeleteMailbox ar c w)" "kept w (adminVerifyMailbox sv ar c w)" "kept w (adminRescanMailboxHistory sv ar c w)"
  "kept w (adminRescanAllMailboxHistory ar c w)" "kept w (adminMailboxMessages sv ar c w)" "kept w (userOrderMessages sv ar c w)"
  "kept w (adminSaveService sv ar c w)" "kept w (adminDeleteService ar c w)" "kept w (microsoftOAuthStart sv ar c w)"
  "kept w (googleOAuthStart sv ar c w)" "kept w (adminGoogleOAuthConfig sv ar c w)" "kept w (adminSaveGoogleOAuthConfig sv ar c w)"
  unfolding mailbox_handlers Let_def
  by (auto split: option.split prod.split sum.split intro!: kept_rules
      dest!: Verify_keeps ScanMailboxHistory_keeps ReadMessages_keeps)

subsection \<open>Handlers that save mailboxes\<close>

text \<open>The identifiers drawn for new mailboxes are new, and those of an import differ from each other.\<close>

definition fresh_ids :: "around \<Rightarrow> db \<Rightarrow> bool" where
  "fresh_ids ar db \<longleftrightarrow> (\<forall>p. uuid (env_at ar p) 0 \<notin> m_ID ` set (db_mailboxes db)) \<and> inj (\<lambda>n. uuid (env_at ar [1, n]) 0)"

lemma adminSaveMailbox_kept: "fresh_ids ar (w_db w) \<Longrightarrow> kept w (adminSaveMailbox sv ar c w)"
proof -
  assume f: "fresh_ids ar (w_db w)"
  have "kept w (call (SaveMailbox cr (env_at ar p) actor box cred ip) w failed (\<lambda>m. answer (r m)))" for cr p actor box cred ip failed r
    using f SaveMailbox_keeps [of "env_at ar p" "w_db w" cr actor box cred ip]
    by (auto simp: call_def fresh_ids_def split: prod.split sum.split intro!: kept_answer)
  then show ?thesis by (auto simp: adminSaveMailbox_def split: option.split prod.split intro!: kept_answer)
qed

lemma save_authorized_kept:
  assumes "keeps (w_db w0) (w_db w)" "fresh_ids ar (w_db w)"
  shows "kept w0 (save_authorized sv ar c actor provider box cred w)"
proof -
  obtain r db' where r: "run_tx (SaveMailbox (sv_crypto sv) (env_at ar [4]) actor box cred (hc_ip c)) (w_db w) = (r, db')"
    by (meson surj_pair)
  then have "keeps (w_db w0) db'"
    using keeps_trans [OF assms(1) SaveMailbox_keeps] assms(2) unfolding fresh_ids_def by (metis snd_conv)
  then show ?thesis by (auto simp: save_authorized_def call_def r split: sum.split intro!: kept_answer)
qed

lemma callbacks_kept:
  assumes "fresh_ids ar (w_db w)"
  shows "kept w (microsoftOAuthCallback sv ar c w)" "kept w (googleOAuthCallback sv ar c w)"
  unfolding microsoftOAuthCallback_def microsoft_authorized_def googleOAuthCallback_def google_authorized_def Let_def
  using assms by (auto split: option.split prod.split sum.split intro!: kept_answer save_authorized_kept)

lemma import_lines_kept:
  assumes "\<And>n. uuid (env_at ar [1, n]) 0 \<notin> ids" and inj: "inj (\<lambda>n. uuid (env_at ar [1, n]) 0)"
    and "m_ID ` set (db_mailboxes (w_db w)) \<subseteq> ids \<union> (\<lambda>k. uuid (env_at ar [1, k]) 0) ` {..<n}"
  shows "keeps (w_db w) (w_db (snd (import_lines parse (import_record sv ar c pool) n ls result w)))"
  using assms(3)
proof (induction ls arbitrary: n result w)
  case (Cons l ls)
  have later: "m_ID ` set (db_mailboxes (w_db w)) \<subseteq> ids \<union> (\<lambda>k. uuid (env_at ar [1, k]) 0) ` {..<n + 1}"
    using Cons.prems by auto
  show ?case
  proof (cases "parse l")
    case (Inl e)
    then show ?thesis using Cons.IH [OF later] by (cases e) simp_all
  next
    case (Inr r)
    obtain err w1 where s: "import_record sv ar c pool n r w = (err, w1)" by (meson surj_pair)
    let ?run = "run_tx (SaveMailbox (sv_crypto sv) (env_at ar [1, n]) (demoUser c) (imported_mailbox pool r) (import_credential r) (hc_ip c)) (w_db w)"
    have w1: "w_db w1 = snd ?run" using s by (auto simp: import_record_def split: prod.splits sum.splits)
    have "uuid (env_at ar [1, n]) 0 \<notin> m_ID ` set (db_mailboxes (w_db w))"
      using Cons.prems assms(1) inj by (auto simp: inj_def)
    then have k: "keeps (w_db w) (w_db w1)" unfolding w1 by (rule SaveMailbox_keeps)
    have "mbx_ID (imported_mailbox pool r) = []" by (simp add: imported_mailbox_def no_mailbox_def)
    then have "m_ID ` set (db_mailboxes (w_db w1)) \<subseteq> insert (uuid (env_at ar [1, n]) 0) (m_ID ` set (db_mailboxes (w_db w)))"
      unfolding w1 by (rule SaveMailbox_ids)
    then have "m_ID ` set (db_mailboxes (w_db w1)) \<subseteq> ids \<union> (\<lambda>k. uuid (env_at ar [1, k]) 0) ` {..<n + 1}"
      using Cons.prems by (auto simp: lessThan_Suc)
    then show ?thesis using keeps_trans [OF k Cons.IH] Inr s by (cases err) simp_all
  qed
qed simp

lemma adminImportMailboxes_kept:
  assumes "fresh_ids ar (w_db w)"
  shows "kept w (adminImportMailboxes sv ar c w)"
proof -
  have "keeps (w_db w) (w_db (snd (import_lines parse (import_record sv ar c pool) 0 ls result w)))" for parse pool ls result
    using assms by (intro import_lines_kept [where ids = "m_ID ` set (db_mailboxes (w_db w))"]) (simp_all add: fresh_ids_def)
  then have "keeps (w_db w) (w_db w')" if "StreamMailboxImport parse (import_record sv ar c pool) content err w = (r, e, w')"
    for parse pool content err r e w'
    using that by (auto simp: StreamMailboxImport_def split: prod.splits) (metis snd_conv)
  then have "kept w (import_file sv ar c pool part w)" for pool part
    by (auto simp: import_file_def split: prod.split option.split intro!: kept_answer)
  then show ?thesis by (auto simp: adminImportMailboxes_def split: option.split intro!: kept_answer)
qed

subsection \<open>The upgrade\<close>

lemma write_status_db [simp]: "w_db (snd (write_status ar n state message w)) = w_db w"
  by (simp add: write_status_def split: prod.split)

lemma write_status_fst: "write_status ar n state message w = (ok, w') \<Longrightarrow> w_db w' = w_db w"
  by (metis write_status_db snd_conv)

lemma system_audit_keeps: "keeps db0 (w_db w) \<Longrightarrow> keeps db0 (w_db (system_audit ar n c action detail w))"
  by (simp add: system_audit_def audit_keeps)

lemma request_upgrade_kept: "keeps (w_db w0) (w_db w) \<Longrightarrow> kept w0 (request_upgrade ar c now w)"
  by (cases "atomicWriteJSON (\<lambda>k. ar_disk ar (24 + k)) (if target_version c = [] then ''latest'' else target_version c, now) (w_request w)";
      cases "fst (atomicWriteJSON (\<lambda>k. ar_disk ar (24 + k)) (if target_version c = [] then ''latest'' else target_version c, now) (w_request w))")
    (simp_all add: request_upgrade_def kept_answer system_audit_keeps)

lemma queue_upgrade_kept: "keeps (w_db w0) (w_db w) \<Longrightarrow> kept w0 (queue_upgrade ar c now w)"
  by (cases "write_status ar 2 ''queued'' hm_upgrade_queued w"; cases "fst (write_status ar 2 ''queued'' hm_upgrade_queued w)")
    (simp_all add: queue_upgrade_def kept_answer request_upgrade_kept write_status_fst)

lemma back_up_and_queue_kept: "keeps (w_db w0) (w_db w) \<Longrightarrow> kept w0 (back_up_and_queue sv ar c target w)"
  by (auto simp: back_up_and_queue_def split: option.split prod.split intro!: kept_answer system_audit_keeps queue_upgrade_kept)

lemma upgrade_handlers_kept: "kept w (adminVersion sv ar c w)" "kept w (adminUpgrade sv ar c w)"
proof -
  show "kept w (adminVersion sv ar c w)" by (simp add: adminVersion_def Let_def kept_answer)
  obtain ok w1 where s: "write_status ar 0 ''backing_up'' hm_upgrade_backing_up w = (ok, w1)" by (meson surj_pair)
  show "kept w (adminUpgrade sv ar c w)"
    by (cases ok) (auto simp: adminUpgrade_def s write_status_fst [OF s] split: option.split intro!: kept_answer back_up_and_queue_kept)
qed

subsection \<open>Every request\<close>

lemma public_handler_kept: "fresh_ids ar (w_db w) \<Longrightarrow> kept w (public_handler sv ar e c w)"
  by (cases e) (simp_all add: order_handlers_kept account_handlers_kept callbacks_kept paymentWebhook_kept)

lemma user_handler_kept: "kept w (user_handler sv ar e c w)"
  by (cases e) (simp_all add: order_handlers_kept account_handlers_kept mailbox_handlers_kept createPaymentOrder_kept)

lemma admin_handler_kept: "fresh_ids ar (w_db w) \<Longrightarrow> kept w (admin_handler sv ar e c w)"
  by (cases e) (simp_all add: order_handlers_kept account_handlers_kept mailbox_handlers_kept adminReap_kept
      adminDeleteInvalidMailboxes_kept adminSaveMailbox_kept adminImportMailboxes_kept upgrade_handlers_kept)

lemma authenticate_kept:
  assumes "fresh_ids ar (w_db w)" and "\<And>c w. fresh_ids ar (w_db w) \<Longrightarrow> kept w (rest c w)"
  shows "kept w (authenticate sv env c w rest)"
proof -
  obtain r db' where a: "ResolveAccessToken (sv_crypto sv) env (bearerToken c) (w_db w) = (r, db')" by (meson surj_pair)
  have k: "keeps (w_db w) db'" and "db_mailboxes db' = db_mailboxes (w_db w)"
    using ResolveAccessToken_keeps [of "w_db w" "sv_crypto sv" env "bearerToken c"] a
    by (auto simp: ResolveAccessToken_def Let_def split: option.splits if_splits)
  then have "fresh_ids ar (w_db (set_db w db'))" using assms(1) by (simp add: fresh_ids_def)
  then have "kept (set_db w db') (rest c' (set_db w db'))" for c' by (rule assms(2))
  then have "kept w (rest c' (set_db w db'))" for c' using k by (auto simp: kept_def intro: keeps_trans)
  then show ?thesis using k by (auto simp: authenticate_def a kept_answer split: option.split)
qed

lemma serve_kept:
  assumes "fresh_ids ar (w_db w)"
  shows "kept w (serve sv ar endpoint c w)"
proof (cases endpoint)
  case (Public e)
  then show ?thesis using assms by (simp add: serve_def public_handler_kept)
next
  case (Protected e)
  then show ?thesis using authenticate_kept [OF assms user_handler_kept] by (simp add: serve_def)
next
  case (Admin e)
  have "kept w' (requireAdmin c' w' (admin_handler sv ar e))" if "fresh_ids ar (w_db w')" for c' w'
    using that by (simp add: requireAdmin_def kept_answer admin_handler_kept)
  then show ?thesis using authenticate_kept [OF assms] Admin by (simp add: serve_def)
qed

text \<open>C5: No request, to whatever endpoint and by whomever, can break what the store promises: the leases of mailboxes to orders
  and the charge and refund of every order stay consistent, and a balance changes only by the ledger lines that the request
  adds.  Only the drawing of fresh identifiers is assumed.\<close>

theorem requests_keep_store:
  assumes "lease_ok (w_db w)" "books_ok (w_db w)" "fresh_ids ar (w_db w)" and "serve sv ar endpoint c w = Some (r, w')"
  shows "lease_ok (w_db w') \<and> books_ok (w_db w')
    \<and> balance_of (w_db w') v - balance_of (w_db w) v = ledger_total (w_db w') v - ledger_total (w_db w) v"
proof -
  have "keeps (w_db w) (w_db w')" using serve_kept [OF assms(3), of sv endpoint c] assms(4) by (simp add: kept_def)
  then have "lease_ok (w_db w')" "books_ok (w_db w')"
    "balance_of (w_db w') v - ledger_total (w_db w') v = balance_of (w_db w) v - ledger_total (w_db w) v"
    using assms(1,2) by (simp_all add: keeps_def)
  then show ?thesis by linarith
qed

lemma demo_admin_ok: "lease_ok demo_admin_db" "books_ok demo_admin_db"
  by (simp_all add: demo_admin_db_def demo_defs lease_ok_def keys_ok_def order_leased_def mailbox_bound_def state_bound_def
      order_open_def ms_key_def order_key_def books_ok_def order_row_ok_def order_book_def expected_book_def)

lemma demo_fresh_ids: "fresh_ids demo_around demo_admin_db"
  by (auto simp: fresh_ids_def env_at_def demo_around_def demo_admin_db_def demo_defs inj_def dest: arg_cong [where f = hd])

lemma demo_cancel:
  "\<exists>order db'. run_tx (CancelOrder (env_at demo_around [0]) ''ORD1'' []) demo_admin_db = (Inr order, db') \<and> balance_of db' ''u1'' = 1000"
  by (simp add: CancelOrder_def find_user_order_def balance_of_def order_run_simps demo_admin_db_def env_at_def demo_around_def
      mail_outside_def)

lemma demo_param: "hc_param (demo_context token) k = ''ORD1''"
  by (simp add: demo_context_def)

lemma WriteAudit_users: "db_users (snd (run_tx (WriteAudit env actor action rtype rid detail ip) db)) = db_users db"
  by (rule run_tx_rel [where R = "\<lambda>db db'. db_users db' = db_users db"], simp)
    (simp add: WriteAudit_def create_audit_def tx_ok_insert)

lemma requests_keep_store_witness:
  "\<exists>order w'. serve demo_server demo_around (Admin AtAdminCancelOrder) (demo_context ''hs_2'') (demo_world demo_admin_db)
       = Some (Json 200 (OrderData order), w')
     \<and> lease_ok (w_db w') \<and> books_ok (w_db w') \<and> balance_of (w_db w') ''u1'' = 1000 \<and> ledger_total (w_db w') ''u1'' = 0"
proof -
  let ?c = "demo_context ''hs_2''"
  obtain order db' where "run_tx (CancelOrder (env_at demo_around [0]) ''ORD1'' []) demo_admin_db = (Inr order, db')"
    and b: "balance_of db' ''u1'' = 1000"
    using demo_cancel by blast
  then obtain w' where r: "serve demo_server demo_around (Admin AtAdminCancelOrder) ?c (demo_world demo_admin_db)
       = Some (Json 200 (OrderData order), w')" and "db_users (w_db w') = db_users db'"
    by (simp add: demo_request demo_user_def adminCancelOrder_def call_def demo_param audit_def WriteAudit_users)
  then have b': "balance_of (w_db w') ''u1'' = 1000" using b by (simp add: balance_of_def)
  have "balance_of demo_admin_db ''u1'' - ledger_total demo_admin_db ''u1'' = 1000"
    by (simp add: demo_admin_db_def demo_defs balance_of_def ledger_total_def)
  then show ?thesis
    using requests_keep_store [OF _ _ _ r, where v = "''u1''"] demo_admin_ok demo_fresh_ids r b' by (simp add: demo_world_def)
qed

end
