(* ===== verification/Http_Effects.thy ===== *)
theory Http_Effects
  imports Http_Access
begin

text \<open>
  Two operations of the interface with effects beyond the store: the upgrade of the server, which is asked for only behind a
  backup, and the callback of an authorization, which takes its effect from a state that is used up.
\<close>

subsection \<open>The upgrade\<close>

lemma system_audit_simps [simp]:
  "w_request (system_audit ar n c action detail w) = w_request w" "w_backups (system_audit ar n c action detail w) = w_backups w"
  "w_status (system_audit ar n c action detail w) = w_status w"
  by (simp_all add: system_audit_def audit_def set_db_def)

lemma write_status_simps [simp]:
  "w_request (snd (write_status ar n state message w)) = w_request w"
  by (simp add: write_status_def split: prod.split)

lemma write_statusD:
  "write_status ar n state message w = (ok, w') \<Longrightarrow> w_request w' = w_request w \<and> w_backups w' = w_backups w
     \<and> (ok \<longrightarrow> map_option upg_State (w_status w') = Some state)"
  by (auto simp: write_status_def atomicWriteJSON_def split: prod.splits if_splits)

lemma request_upgrade_asked:
  assumes "request_upgrade ar c now w = Some (r, w')" "w_request w' \<noteq> w_request w \<or> (\<exists>d. r = Json 202 d)"
  shows "w_request w' = Some (if target_version c = [] then ''latest'' else target_version c, now)
    \<and> w_backups w' = w_backups w \<and> w_status w' = w_status w"
  using assms by (auto simp: request_upgrade_def Let_def answer_def atomicWriteJSON_def split: prod.splits bool.splits if_splits)

text \<open>What a backup is worth: the dump of the database of the server, and the file of it can be read back.\<close>

definition good_backup :: "server \<Rightarrow> dump_run \<Rightarrow> string \<Rightarrow> string \<Rightarrow> bool" where
  "good_backup sv run databaseURL content \<longleftrightarrow> dr_gunzip run content \<noteq> None
     \<and> (\<exists>sql. dr_pg_dump run (postgresDumpEnvironment (sv_parse_database_url sv) (dr_environ run) databaseURL) = Some sql
          \<and> content = dr_stored run sql)"

lemma backup_good:
  "createPostgresUpgradeBackup sv (url, dir, command) run files = (Some path, files') \<Longrightarrow>
     \<exists>content. files' = files(path \<mapsto> content) \<and> good_backup sv run url content"
  by (auto simp: createPostgresUpgradeBackup_def good_backup_def verifyGzipFile_def Let_def split: if_splits option.splits)

text \<open>C36: The file that starts an upgrade is written, and the upgrade reported as queued, only when no upgrade is under way and
  after a new backup: a dump of the database of this server, stored in a file that was read back and decompresses.  The request
  names the wanted version, and the shared state says queued.\<close>

theorem upgrade_behind_backup:
  assumes "adminUpgrade sv ar c w = Some (r, w')" and "w_request w' \<noteq> w_request w \<or> (\<exists>d. r = Json 202 d)"
  shows "\<exists>url dir command path content. sv_UpgradeBackup sv = Some (url, dir, command) \<and> \<not> upgrade_running sv ar w
    \<and> w_backups w' = (w_backups w)(path \<mapsto> content) \<and> good_backup sv (ar_dump ar) url content
    \<and> w_request w' = Some (if target_version c = [] then ''latest'' else target_version c, clock (env_at ar [0]) 0)
    \<and> map_option upg_State (w_status w') = Some ''queued''"
proof -
  obtain url dir command w1 where t: "sv_UpgradeBackup sv = Some (url, dir, command)" "\<not> upgrade_running sv ar w"
      "write_status ar 0 ''backing_up'' hm_upgrade_backing_up w = (True, w1)"
      "back_up_and_queue sv ar c (url, dir, command) w1 = Some (r, w')"
    using assms by (auto simp: adminUpgrade_def answer_def dest: write_statusD split: if_splits option.splits prod.splits bool.splits)
  note w1 = write_statusD [OF t(3)]
  obtain path files where b: "createPostgresUpgradeBackup sv (url, dir, command) (ar_dump ar) (w_backups w1) = (Some path, files)"
    and q: "queue_upgrade ar c (clock (env_at ar [0]) 0) (system_audit ar 7 c ''system.upgrade.backup'' hm_audit_backup (w1\<lparr>w_backups := files\<rparr>))
      = Some (r, w')"
    using t(4) assms(2) w1 by (auto simp: back_up_and_queue_def answer_def split: prod.splits option.splits)
  obtain content where "files = (w_backups w1)(path \<mapsto> content)" "good_backup sv (ar_dump ar) url content"
    using backup_good [OF b] by blast
  moreover obtain w2 where w2: "write_status ar 2 ''queued'' hm_upgrade_queued
        (system_audit ar 7 c ''system.upgrade.backup'' hm_audit_backup (w1\<lparr>w_backups := files\<rparr>)) = (True, w2)"
      "request_upgrade ar c (clock (env_at ar [0]) 0) w2 = Some (r, w')"
    using q assms(2) w1 by (auto simp: queue_upgrade_def answer_def dest: write_statusD split: prod.splits bool.splits)
  ultimately show ?thesis
    using request_upgrade_asked [OF w2(2)] write_statusD [OF w2(1)] w1 t assms(2) by auto
qed

lemma upgrade_behind_backup_witness:
  "\<exists>path content. good_backup demo_server (ar_dump demo_around) ''db'' content
    \<and> (\<exists>d w'. adminUpgrade demo_server demo_around (demo_context ''hs_2'') (demo_world demo_admin_db) = Some (Json 202 d, w')
         \<and> w_backups w' = [path \<mapsto> content] \<and> w_request w' = Some (''latest'', 5))"
proof -
  have "\<exists>d w'. adminUpgrade demo_server demo_around (demo_context ''hs_2'') (demo_world demo_admin_db) = Some (Json 202 d, w')"
    by (simp add: adminUpgrade_def back_up_and_queue_def queue_upgrade_def request_upgrade_def write_status_def atomicWriteJSON_def
        upgrade_running_def readUpgradeStatus_def createPostgresUpgradeBackup_def verifyGzipFile_def target_version_def
        demo_server_def demo_around_def demo_world_def demo_context_def answer_def Let_def trim_space_def)
  then obtain d w' where r: "adminUpgrade demo_server demo_around (demo_context ''hs_2'') (demo_world demo_admin_db) = Some (Json 202 d, w')"
    by blast
  have "target_version (demo_context ''hs_2'') = []" by (simp add: target_version_def demo_context_def trim_space_def)
  moreover have "sv_UpgradeBackup demo_server = Some (''db'', ''dir'', ''dump'')" "w_backups (demo_world demo_admin_db) = Map.empty"
    by (simp_all add: demo_server_def demo_world_def)
  ultimately show ?thesis using upgrade_behind_backup [OF r] r by (auto simp: demo_env)
qed

subsection \<open>Authorizations\<close>

lemma consumed_state:
  "ConsumeOAuthState fail now state rd = (Inr v, rd') \<Longrightarrow>
     (\<exists>expiry. rd_oauth rd (oauth_key state) = Some (v, expiry) \<and> (\<forall>t. expiry = Some t \<longrightarrow> now < t)) \<and> rd_oauth rd' (oauth_key state) = None"
  by (auto simp: ConsumeOAuthState_def split: if_splits option.splits)

lemma enqueue_states: "rd_oauth (snd (EnqueueMailboxVerification fail mid rd)) = rd_oauth rd"
  by (simp add: EnqueueMailboxVerification_def enqueueMailboxJob_def push_new_def Let_def)

definition states_kept :: "world \<Rightarrow> (reply \<times> world) option \<Rightarrow> bool" where
  "states_kept w out \<longleftrightarrow> (\<forall>r w'. out = Some (r, w') \<longrightarrow> rd_oauth (w_redis w') = rd_oauth (w_redis w))"

lemma save_authorized_states: "states_kept w (save_authorized sv ar c actor provider box cred w)"
  by (auto simp: states_kept_def save_authorized_def call_def answer_def set_db_def enqueue_states split: prod.splits sum.splits)

lemma authorized_states: "states_kept w (microsoft_authorized sv ar c v w)" "states_kept w (google_authorized sv ar c v w)"
  using save_authorized_states [of w sv ar c]
  by (auto simp: states_kept_def microsoft_authorized_def google_authorized_def Let_def answer_def
      split: sum.splits prod.splits option.splits if_splits)

lemma callback_cases:
  assumes "serve sv ar (Public e) c w = Some (r, w')" "w_db w' \<noteq> w_db w"
    and "(e, provider) \<in> {(AtMicrosoftOAuthCallback, ''microsoft''), (AtGoogleOAuthCallback, ''google'')}"
  obtains v rd where "ConsumeOAuthState (ar_redis ar 0) (clock (env_at ar [0]) 0) (query c ''state'') (w_redis w) = (Inr v, rd)"
    "oas_Provider v \<in> {[], provider}" "rd_oauth (w_redis w') = rd_oauth rd"
proof -
  let ?c = "c\<lparr>hc_user := None\<rparr>"
  have "query ?c k = query c k" for k by (simp add: query_def)
  then obtain v rd where v: "ConsumeOAuthState (ar_redis ar 0) (clock (env_at ar [0]) 0) (query c ''state'') (w_redis w) = (Inr v, rd)"
    "oas_Provider v \<in> {[], provider}"
    "microsoft_authorized sv ar ?c v (w\<lparr>w_redis := rd\<rparr>) = Some (r, w') \<or> google_authorized sv ar ?c v (w\<lparr>w_redis := rd\<rparr>) = Some (r, w')"
    using assms by (auto simp: serve_def microsoftOAuthCallback_def googleOAuthCallback_def answer_def
        split: if_splits prod.splits sum.splits)
  then have "rd_oauth (w_redis w') = rd_oauth rd"
    using authorized_states [where w = "w\<lparr>w_redis := rd\<rparr>" and v = v] by (auto simp: states_kept_def)
  then show thesis using that v by blast
qed

text \<open>C35: The callbacks, which anyone can call without a token, change the store only for a state that is stored in Redis, has not
  expired and was made for their provider (or names none).  The state is gone afterwards, so that a second call with it fails.\<close>

theorem callback_uses_up_state:
  assumes "serve sv ar (Public e) c w = Some (r, w')" "w_db w' \<noteq> w_db w"
    and "(e, provider) \<in> {(AtMicrosoftOAuthCallback, ''microsoft''), (AtGoogleOAuthCallback, ''google'')}"
  shows "(\<exists>v expiry. rd_oauth (w_redis w) (oauth_key (query c ''state'')) = Some (v, expiry)
      \<and> (\<forall>t. expiry = Some t \<longrightarrow> clock (env_at ar [0]) 0 < t) \<and> oas_Provider v \<in> {[], provider})
    \<and> (\<forall>ar2. \<exists>e2. fst (ConsumeOAuthState (ar_redis ar2 0) (clock (env_at ar2 [0]) 0) (query c ''state'') (w_redis w')) = Inl e2)"
  using assms
proof (rule callback_cases)
  fix v rd
  assume v: "ConsumeOAuthState (ar_redis ar 0) (clock (env_at ar [0]) 0) (query c ''state'') (w_redis w) = (Inr v, rd)"
    "oas_Provider v \<in> {[], provider}" "rd_oauth (w_redis w') = rd_oauth rd"
  then have "rd_oauth (w_redis w') (oauth_key (query c ''state'')) = None" using consumed_state [OF v(1)] by simp
  then show ?thesis using consumed_state [OF v(1)] v(2) by (auto simp: ConsumeOAuthState_def)
qed

text \<open>A callback whose state was stored for an administrator: Microsoft knows the owner of the code.\<close>

definition callback_around :: around where
  "callback_around = demo_around\<lparr>ar_out := \<lambda>p. mail_outside\<lparr>o_env := quiet_env 5, o_net := (o_net mail_outside)
     \<lparr>nt_json_token := \<lambda>_. Some (''tok'', [], 60), nt_json_profile := \<lambda>_. Inr (''new@outlook.com'', [])\<rparr>\<rparr>\<rparr>"

definition callback_context :: gin_context where
  "callback_context = (demo_context [])\<lparr>hc_query := \<lambda>k. Some (if k = ''state'' then ''st'' else ''code'')\<rparr>"

definition callback_world :: world where
  "callback_world = (demo_world demo_admin_db)\<lparr>w_redis := empty_redis\<lparr>rd_oauth := Map.empty(oauth_key ''st'' \<mapsto>
     (\<lparr> oas_ActorID = ''adm'', oas_Pool = DefaultMailboxPoolName, oas_Provider = ''microsoft'', oas_MailboxID = [] \<rparr>, Some 10))\<rparr>\<rparr>"

lemma outlook_address: "DetectMailboxProvider ''new@outlook.com'' = Some ''outlook''" "to_lower ''new@outlook.com'' = ''new@outlook.com''"
    "trim_space ''new@outlook.com'' = ''new@outlook.com''" "IsMicrosoftMailboxProvider ''outlook''"
  by code_simp+

lemma default_pool: "trim_space DefaultMailboxPoolName = DefaultMailboxPoolName" "DefaultMailboxPoolName \<noteq> []"
  by code_simp+

lemma callback_env: "env_at callback_around p = quiet_env 5"
  by (simp add: env_at_def callback_around_def)

lemma callback_saves:
  assumes "cred \<noteq> Map.empty"
  shows "\<exists>mailbox db'. run_tx (SaveMailbox plain_crypto (quiet_env 5) ''adm''
      (authorized_mailbox [] ''new@outlook.com'' ''outlook'' until) cred []) demo_admin_db = (Inr mailbox, db') \<and> length (db_mailboxes db') = 2"
proof -
  obtain box where box: "normal_mailbox (authorized_mailbox [] ''new@outlook.com'' ''outlook'' until) = Inr box"
      "mbx_ID box = []" "mbx_Address box = ''new@outlook.com''"
    by (simp add: normal_mailbox_def outlook_address authorized_mailbox_def no_mailbox_def default_pool)
  have none: "find_saved box demo_admin_db = None"
    by (simp add: find_saved_def box row_first_def demo_admin_db_def demo_defs)
  have "run_tx (SaveMailbox plain_crypto (quiet_env 5) ''adm'' (authorized_mailbox [] ''new@outlook.com'' ''outlook'' until) cred [])
      demo_admin_db = run_tx (save_found (quiet_env 5) ''adm'' box ''sealed'' [] None) demo_admin_db"
    using assms by (simp add: SaveMailbox_def box run_tx_def stmt_defs tx_defs none)
  moreover have "\<exists>mailbox db'. run_tx (save_found (quiet_env 5) ''adm'' box ''sealed'' [] None) demo_admin_db = (Inr mailbox, db')
      \<and> length (db_mailboxes db') = 2"
    by (simp add: save_found_def fresh_mailbox_def box put_mailbox_def ensure_state_def ms_key_def demo_admin_db_def run_simps)
  ultimately show ?thesis by simp
qed

lemma callback_exchange:
  obtains cred until where "ms_Exchange (o_net (ar_out callback_around [1])) 0 (clock (o_env (ar_out callback_around [1])) 0)
      demo_microsoft ''code'' = Inr (cred, until)" "cred \<noteq> Map.empty" "get_or_empty cred ''access_token'' = ''tok''"
proof (rule that)
  show "[''access_token'' \<mapsto> ''tok'', ''refresh_token'' \<mapsto> [], ''expires_at'' \<mapsto> format_rfc3339 (5 + 60 * second)] \<noteq> Map.empty"
    by (simp add: map_upd_nonempty)
qed (simp_all add: ms_Exchange_def tokenForTenant_def callback_around_def mail_outside_def get_or_empty_def Let_def)

lemma callback_uses_up_state_witness:
  "\<exists>r w'. serve demo_server callback_around (Public AtMicrosoftOAuthCallback) callback_context callback_world = Some (r, w')
    \<and> w_db w' \<noteq> demo_admin_db \<and> (\<exists>e. fst (ConsumeOAuthState False 5 ''st'' (w_redis w')) = Inl e)"
proof -
  let ?serve = "serve demo_server callback_around (Public AtMicrosoftOAuthCallback) callback_context callback_world"
  obtain cred until where x: "ms_Exchange (o_net (ar_out callback_around [1])) 0 (clock (o_env (ar_out callback_around [1])) 0)
      demo_microsoft ''code'' = Inr (cred, until)" "cred \<noteq> Map.empty" "get_or_empty cred ''access_token'' = ''tok''"
    by (rule callback_exchange)
  have p: "ms_Profile (o_net (ar_out callback_around [2])) 0 demo_microsoft ''tok'' = Inr ''new@outlook.com''"
    by (simp add: ms_Profile_def callback_around_def mail_outside_def or_default_def outlook_address)
  obtain mailbox db' where s: "run_tx (SaveMailbox plain_crypto (quiet_env 5) ''adm''
      (authorized_mailbox [] ''new@outlook.com'' ''outlook'' until) cred []) demo_admin_db = (Inr mailbox, db')" "length (db_mailboxes db') = 2"
    using callback_saves [OF x(2)] by blast
  have q: "query callback_context ''state'' = ''st''" "query callback_context ''code'' = ''code''"
      "callback_context\<lparr>hc_user := None\<rparr> = callback_context" "hc_ip callback_context = []"
    by (simp_all add: query_def callback_context_def demo_context_def)
  have a: "ar_redis callback_around n = False" "sv_Microsoft demo_server = demo_microsoft" "ms_Enabled demo_microsoft" for n
    by (simp_all add: callback_around_def demo_around_def demo_server_def demo_microsoft_def ms_Enabled_def)
  have c: "\<exists>rd. ConsumeOAuthState False 5 ''st'' (w_redis callback_world) = (Inr \<lparr> oas_ActorID = ''adm'', oas_Pool = DefaultMailboxPoolName,
        oas_Provider = ''microsoft'', oas_MailboxID = [] \<rparr>, rd)"
    by (simp add: ConsumeOAuthState_def callback_world_def)
  have "\<exists>r w'. ?serve = Some (r, w') \<and> w_db w' = db'"
    using c x p s by (auto simp: serve_def microsoftOAuthCallback_def microsoft_authorized_def wrong_target_def save_authorized_def
        call_def answer_def q a callback_env outlook_address demo_server_crypto set_db_def callback_world_def demo_world_def Let_def)
  moreover have "length (db_mailboxes demo_admin_db) = 1" by (simp add: demo_admin_db_def demo_defs)
  ultimately obtain r w' where r: "?serve = Some (r, w')" "w_db w' \<noteq> w_db callback_world"
    using s(2) by (fastforce simp: callback_world_def demo_world_def)
  have "\<exists>e. fst (ConsumeOAuthState False 5 ''st'' (w_redis w')) = Inl e"
    using callback_uses_up_state [OF r, of "''microsoft''"] by (auto simp: q a callback_env dest: spec [where x = callback_around])
  with r show ?thesis by (auto simp: callback_world_def demo_world_def)
qed

end
