(* ===== verification/Migrations.thy ===== *)
theory Migrations
  imports Memory_Store Credentials
begin

text \<open>
  The start of the PostgreSQL store (\<^verbatim>\<open>NewPostgresStore\<close>, \<^verbatim>\<open>migrate\<close> and \<^verbatim>\<open>seed\<close> of
  \<^verbatim>\<open>internal/store/postgres.go\<close>): the repairs of old data, each recorded in the audit log and most of them run only
  once, and the first rows of an empty database.  The statement that creates missing tables and columns is one step that may
  fail.  \<open>E\<close> gives the environment of each part of the start by a path of numbers.
\<close>

subsection \<open>Parts of a start\<close>

text \<open>A part returns the error that ends the start, if any; what it wrote before the error stays.\<close>

fun run_all :: "(db \<Rightarrow> store_error option \<times> db) list \<Rightarrow> db \<Rightarrow> store_error option \<times> db" where
  "run_all [] db = (None, db)"
| "run_all (part # parts) db = (case part db of (Some e, db') \<Rightarrow> (Some e, db') | (None, db') \<Rightarrow> run_all parts db')"

definition stored :: "'a stx \<Rightarrow> db \<Rightarrow> store_error option \<times> db" where
  "stored m db = (case run_tx m db of (Inl e, db') \<Rightarrow> (Some e, db') | (Inr _, db') \<Rightarrow> (None, db'))"

text \<open>One statement that reports the number of rows it changed.\<close>

definition tx_affect :: "env \<Rightarrow> nat \<Rightarrow> (db \<Rightarrow> nat) \<Rightarrow> (db \<Rightarrow> db) \<Rightarrow> nat stx" where
  "tx_affect env n rows f = tx_bind (tx_read env n rows) (\<lambda>k. tx_then (tx_put f) (tx_return k))"

definition affect_mailboxes :: "env \<Rightarrow> nat \<Rightarrow> (sqlMailbox \<Rightarrow> bool) \<Rightarrow> (sqlMailbox \<Rightarrow> sqlMailbox) \<Rightarrow> nat stx" where
  "affect_mailboxes env n P f = tx_affect env n (\<lambda>db. count_rows P (db_mailboxes db))
     (\<lambda>db. db\<lparr>db_mailboxes := upd_rows P (\<lambda>m. (f m)\<lparr>m_UpdatedAt := stamp env n\<rparr>) (db_mailboxes db)\<rparr>)"

definition marked :: "string \<Rightarrow> db \<Rightarrow> bool" where
  "marked key db \<longleftrightarrow> key \<in> sd_Key ` set (db_seeds db)"

text \<open>A part that runs until it has left its marker: the marker is read first, outside or inside the transaction.\<close>

definition once :: "env \<Rightarrow> string \<Rightarrow> (db \<Rightarrow> store_error option \<times> db) \<Rightarrow> db \<Rightarrow> store_error option \<times> db" where
  "once env key m db = (if db_fail env 0 then (Some (ErrDB 0), db) else if marked key db then (None, db) else m db)"

definition tx_once :: "env \<Rightarrow> string \<Rightarrow> unit stx \<Rightarrow> unit stx" where
  "tx_once env key m = tx_bind (tx_read env 0 (marked key)) (\<lambda>found. if found then tx_return () else m)"

definition system_row :: "string \<Rightarrow> string \<Rightarrow> string \<Rightarrow> string \<Rightarrow> string \<Rightarrow> sqlAuditLog" where
  "system_row aid action rtype rid detail = audit_row aid ''system'' action rtype rid detail []"

definition leave_marker :: "env \<Rightarrow> nat \<Rightarrow> string \<Rightarrow> unit stx" where
  "leave_marker env n key = create_seed env n \<lparr> sd_Key = key, sd_CreatedAt = clock env n \<rparr>"

subsection \<open>Old credentials\<close>

definition microsoft_providers :: "string list" where
  "microsoft_providers = [MailboxProviderOutlook, MailboxProviderOutlookDE, MailboxProviderHotmail]"

definition legacyMicrosoftIMAPOAuthCredential :: "credential \<Rightarrow> bool" where
  "legacyMicrosoftIMAPOAuthCredential c \<longleftrightarrow>
     trimmed c ''oauth_protocol'' = [] \<and> trimmed c ''client_id'' \<noteq> [] \<and> trimmed c ''refresh_token'' \<noteq> []"

definition microsoftIMAPOAuthCredential :: "credential \<Rightarrow> bool" where
  "microsoftIMAPOAuthCredential c \<longleftrightarrow> trimmed c ''client_id'' \<noteq> [] \<and> trimmed c ''refresh_token'' \<noteq> []
     \<and> to_lower (trimmed c ''oauth_protocol'') \<in> {''imap'', ''imap_oauth'', ''microsoft_imap'', ''microsoft_imap_oauth''}"

definition microsoftIMAPPasswordFallbackCredential :: "credential \<Rightarrow> bool" where
  "microsoftIMAPPasswordFallbackCredential c \<longleftrightarrow>
     trimmed c ''password'' \<noteq> [] \<and> (legacyMicrosoftIMAPOAuthCredential c \<or> microsoftIMAPOAuthCredential c)"

definition microsoftIMAPPasswordOnlyCredential :: "credential \<Rightarrow> bool" where
  "microsoftIMAPPasswordOnlyCredential c \<longleftrightarrow>
     trimmed c ''password'' \<noteq> [] \<and> (trimmed c ''client_id'' = [] \<or> trimmed c ''refresh_token'' = [])"

subsection \<open>Repairs row by row\<close>

text \<open>
  The rows that match are read in batches of 500 by their keys, and each row is updated by a statement of its own: the
  update of a row is an error, nothing, or a change of the columns of the row with its identifier, if the guard still
  holds.  No update of a batch concerns a row of another batch, so the batches are those of the rows that matched at the start.
\<close>

fun repair_rows ::
  "env \<Rightarrow> (sqlMailbox \<Rightarrow> bool) \<Rightarrow> (nat \<Rightarrow> sqlMailbox \<Rightarrow> store_error + (sqlMailbox \<Rightarrow> sqlMailbox) option) \<Rightarrow> nat \<Rightarrow> nat \<Rightarrow> sqlMailbox list
   \<Rightarrow> nat \<Rightarrow> db \<Rightarrow> store_error option \<times> nat \<times> db" where
  "repair_rows env guard fix k j [] changed db = (None, changed, db)"
| "repair_rows env guard fix k j (row # rows) changed db =
     (case fix (k + j) row of
        Inl e \<Rightarrow> (Some e, changed, db)
      | Inr None \<Rightarrow> repair_rows env guard fix k (Suc j) rows changed db
      | Inr (Some f) \<Rightarrow>
        if db_fail env (Suc j) then (Some (ErrDB (Suc j)), changed, db)
        else let P = (\<lambda>m. m_ID m = m_ID row \<and> guard m)
             in repair_rows env guard fix k (Suc j) rows (changed + count_rows P (db_mailboxes db))
                  (db\<lparr>db_mailboxes := upd_rows P (\<lambda>m. (f m)\<lparr>m_UpdatedAt := clock env (Suc j)\<rparr>) (db_mailboxes db)\<rparr>))"

definition batch_rows :: nat where
  "batch_rows = 500"

function repair_batches ::
  "(nat \<Rightarrow> env) \<Rightarrow> (sqlMailbox \<Rightarrow> bool) \<Rightarrow> (nat \<Rightarrow> sqlMailbox \<Rightarrow> store_error + (sqlMailbox \<Rightarrow> sqlMailbox) option) \<Rightarrow> nat \<Rightarrow> sqlMailbox list
   \<Rightarrow> nat \<Rightarrow> db \<Rightarrow> store_error option \<times> nat \<times> db" where
  "repair_batches envs guard fix b rows changed db =
     (if db_fail (envs b) 0 then (Some (ErrDB 0), changed, db)
      else case repair_rows (envs b) guard fix (batch_rows * b) 0 (take batch_rows rows) changed db of
          (Some e, changed', db') \<Rightarrow> (Some e, changed', db')
        | (None, changed', db') \<Rightarrow>
          if length rows < batch_rows then (None, changed', db')
          else repair_batches envs guard fix (Suc b) (drop batch_rows rows) changed' db')"
  by pat_completeness auto

termination
  by (relation "measure (\<lambda>(_, _, _, _, rows, _, _). length rows)") (auto simp: batch_rows_def)

definition repair ::
  "(nat \<Rightarrow> env) \<Rightarrow> (sqlMailbox \<Rightarrow> bool) \<Rightarrow> (sqlMailbox \<Rightarrow> bool) \<Rightarrow> (nat \<Rightarrow> sqlMailbox \<Rightarrow> store_error + (sqlMailbox \<Rightarrow> sqlMailbox) option)
   \<Rightarrow> db \<Rightarrow> store_error option \<times> nat \<times> db" where
  "repair envs matches guard fix db = repair_batches envs guard fix 0 (sort_key m_ID (filter matches (db_mailboxes db))) 0 db"

definition failed_verification :: "sqlMailbox \<Rightarrow> bool" where
  "failed_verification m \<longleftrightarrow> m_VerificationStatus m = MailboxVerificationFailed"

definition failed_microsoft :: "sqlMailbox \<Rightarrow> bool" where
  "failed_microsoft m \<longleftrightarrow> m_Provider m \<in> set microsoft_providers \<and> failed_verification m \<and> m_EncryptedCredential m \<noteq> []"

text \<open>Back to the queue of the verification.  The state changes only when the row that was read serves no order.\<close>

definition requeued :: "bool \<Rightarrow> sqlMailbox \<Rightarrow> sqlMailbox" where
  "requeued reset m = m\<lparr>m_VerificationStatus := MailboxVerificationPending, m_VerificationError := [],
     m_State := (if reset then MailboxPending else m_State m)\<rparr>"

definition imap_credential :: "credential \<Rightarrow> credential" where
  "imap_credential c = c(''oauth_protocol'' \<mapsto> ''imap'')"

definition legacy_fix :: "crypto \<Rightarrow> nat \<Rightarrow> sqlMailbox \<Rightarrow> store_error + (sqlMailbox \<Rightarrow> sqlMailbox) option" where
  "legacy_fix cr k row =
     (case cr_decrypt cr (m_EncryptedCredential row) of
        None \<Rightarrow> Inr None
      | Some c \<Rightarrow>
        if \<not> legacyMicrosoftIMAPOAuthCredential c then Inr None
        else case cr_encrypt cr k (imap_credential c) of
            None \<Rightarrow> Inl ErrEncrypt
          | Some encrypted \<Rightarrow> Inr (Some (\<lambda>m. (requeued (m_ActiveOrderID row = []) m)\<lparr>m_EncryptedCredential := encrypted,
              m_ConnectionMethod := MailboxConnectionAuto\<rparr>)))"

definition migrateLegacyMicrosoftIMAPOAuth :: "crypto \<Rightarrow> env \<Rightarrow> (nat \<Rightarrow> env) \<Rightarrow> db \<Rightarrow> store_error option \<times> db" where
  "migrateLegacyMicrosoftIMAPOAuth cr env envs db =
     (case repair envs (\<lambda>m. m_Provider m \<in> set microsoft_providers \<and> m_ConnectionMethod m = MailboxConnectionAuto
               \<and> m_EncryptedCredential m \<noteq> []) (\<lambda>m. m_ConnectionMethod m = MailboxConnectionAuto) (legacy_fix cr) db of
        (Some e, _, db') \<Rightarrow> (Some e, db')
      | (None, migrated, db') \<Rightarrow>
        if migrated = 0 then (None, db')
        else stored (create_audit env 0 (system_row (uuid env 0) ''mailbox.oauth.migrate'' ''mailbox'' ''all''
               (msg_legacy_imap_1 @ nat_digits migrated @ msg_legacy_imap_2))) db')"

definition historical_fix :: "crypto \<Rightarrow> nat \<Rightarrow> sqlMailbox \<Rightarrow> store_error + (sqlMailbox \<Rightarrow> sqlMailbox) option" where
  "historical_fix cr k row =
     (case cr_decrypt cr (m_EncryptedCredential row) of
        None \<Rightarrow> Inr None
      | Some c \<Rightarrow>
        if \<not> legacyMicrosoftIMAPOAuthCredential c \<and> \<not> microsoftIMAPOAuthCredential c then Inr None
        else if \<not> legacyMicrosoftIMAPOAuthCredential c then Inr (Some (requeued (m_ActiveOrderID row = [])))
        else case cr_encrypt cr k (imap_credential c) of
            None \<Rightarrow> Inl ErrEncrypt
          | Some encrypted \<Rightarrow> Inr (Some (\<lambda>m. (requeued (m_ActiveOrderID row = []) m)\<lparr>m_EncryptedCredential := encrypted\<rparr>)))"

text \<open>The two later repairs leave the state of a blocked mailbox alone.\<close>

definition password_fix :: "(credential \<Rightarrow> bool) \<Rightarrow> crypto \<Rightarrow> nat \<Rightarrow> sqlMailbox \<Rightarrow> store_error + (sqlMailbox \<Rightarrow> sqlMailbox) option" where
  "password_fix chosen cr k row =
     (case cr_decrypt cr (m_EncryptedCredential row) of
        None \<Rightarrow> Inr None
      | Some c \<Rightarrow>
        if \<not> chosen c then Inr None
        else Inr (Some (requeued (m_ActiveOrderID row = [] \<and> m_State row \<noteq> MailboxBlocked))))"

definition mark_requeued :: "env \<Rightarrow> string \<Rightarrow> string \<Rightarrow> nat \<Rightarrow> unit stx" where
  "mark_requeued env key message changed =
     tx_then (leave_marker env 2 key)
       (tx_when (changed \<noteq> 0) (create_audit env 3 (system_row (uuid env 3) ''mailbox.oauth.reverify'' ''mailbox'' ''all''
          (message @ nat_digits changed @ msg_rows_suffix))))"

definition reverify ::
  "env \<Rightarrow> (nat \<Rightarrow> env) \<Rightarrow> string \<Rightarrow> string \<Rightarrow> (nat \<Rightarrow> sqlMailbox \<Rightarrow> store_error + (sqlMailbox \<Rightarrow> sqlMailbox) option) \<Rightarrow> db
   \<Rightarrow> store_error option \<times> db" where
  "reverify env envs key message fix = once env key (\<lambda>db.
     case repair envs failed_microsoft failed_verification fix db of
       (Some e, _, db') \<Rightarrow> (Some e, db')
     | (None, changed, db') \<Rightarrow> stored (mark_requeued env key message changed) db')"

definition historicalMicrosoftIMAPReverifyKey :: string where
  "historicalMicrosoftIMAPReverifyKey = ''microsoft-imap-oauth-reverify-v1''"

definition microsoftIMAPNoopReverifyKey :: string where
  "microsoftIMAPNoopReverifyKey = ''microsoft-imap-noop-reverify-v1''"

definition microsoftIMAPPasswordFallbackReverifyKey :: string where
  "microsoftIMAPPasswordFallbackReverifyKey = ''microsoft-imap-password-fallback-reverify-v1''"

definition microsoftIMAPPasswordOnlyReverifyKey :: string where
  "microsoftIMAPPasswordOnlyReverifyKey = ''microsoft-imap-password-only-reverify-v1''"

definition migrateHistoricalMicrosoftIMAPOAuth :: "crypto \<Rightarrow> env \<Rightarrow> (nat \<Rightarrow> env) \<Rightarrow> db \<Rightarrow> store_error option \<times> db" where
  "migrateHistoricalMicrosoftIMAPOAuth cr env envs =
     reverify env envs historicalMicrosoftIMAPReverifyKey msg_historical_imap (historical_fix cr)"

definition migrateMicrosoftIMAPPasswordFallbackFailures :: "crypto \<Rightarrow> env \<Rightarrow> (nat \<Rightarrow> env) \<Rightarrow> db \<Rightarrow> store_error option \<times> db" where
  "migrateMicrosoftIMAPPasswordFallbackFailures cr env envs =
     reverify env envs microsoftIMAPPasswordFallbackReverifyKey msg_fallback_imap (password_fix microsoftIMAPPasswordFallbackCredential cr)"

definition migrateMicrosoftIMAPPasswordOnlyFailures :: "crypto \<Rightarrow> env \<Rightarrow> (nat \<Rightarrow> env) \<Rightarrow> db \<Rightarrow> store_error option \<times> db" where
  "migrateMicrosoftIMAPPasswordOnlyFailures cr env envs =
     reverify env envs microsoftIMAPPasswordOnlyReverifyKey msg_password_only_imap (password_fix microsoftIMAPPasswordOnlyCredential cr)"

text \<open>The false failures of an old check are repaired by one statement over all rows.\<close>

definition noop_failure :: "sqlMailbox \<Rightarrow> bool" where
  "noop_failure m \<longleftrightarrow> m_Provider m \<in> set microsoft_providers \<and> failed_verification m
     \<and> ilike (m_VerificationError m) ''%User is authenticated but not connected%''"

definition noop_repair :: "env \<Rightarrow> nat stx" where
  "noop_repair env = tx_affect env 1 (\<lambda>db. count_rows noop_failure (db_mailboxes db))
     (\<lambda>db. db\<lparr>db_mailboxes := upd_rows noop_failure
        (\<lambda>m. (requeued (m_ActiveOrderID m = []) m)\<lparr>m_UpdatedAt := clock env 1\<rparr>) (db_mailboxes db)\<rparr>)"

definition migrateMicrosoftIMAPNoopFailures :: "env \<Rightarrow> db \<Rightarrow> store_error option \<times> db" where
  "migrateMicrosoftIMAPNoopFailures env = once env microsoftIMAPNoopReverifyKey (\<lambda>db.
     case run_tx (noop_repair env) db of
       (Inl e, db') \<Rightarrow> (Some e, db')
     | (Inr changed, db') \<Rightarrow> stored (mark_requeued env microsoftIMAPNoopReverifyKey msg_noop_imap changed) db')"

subsection \<open>Prices\<close>

text \<open>A platform of an old version has one price; each of its providers without a price gets it.\<close>

definition completed_prices :: "sqlService \<Rightarrow> (string \<times> int) list" where
  "completed_prices s = fold (\<lambda>provider prices. if provider \<in> fst ` set prices then prices else prices @ [(provider, sv_PriceCents s)])
     (sv_AllowedProviders s) (sv_ProviderPricesCents s)"

fun complete_prices :: "env \<Rightarrow> nat \<Rightarrow> sqlService list \<Rightarrow> nat \<Rightarrow> nat stx" where
  "complete_prices env n [] changed = tx_return changed"
| "complete_prices env n (s # ss) changed =
     (if completed_prices s = sv_ProviderPricesCents s then complete_prices env (Suc n) ss changed
      else tx_then (tx_update env n (\<lambda>db. db\<lparr>db_services := upd_rows (\<lambda>x. sv_ID x = sv_ID s)
                (\<lambda>x. x\<lparr>sv_ProviderPricesCents := completed_prices s\<rparr>) (db_services db)\<rparr>))
             (complete_prices env (Suc n) ss (Suc changed)))"

text \<open>An order without the provider of its mailbox gets it from the mailbox, if that still exists.\<close>

definition unnamed_provider :: "db \<Rightarrow> sqlOrder \<Rightarrow> bool" where
  "unnamed_provider db r \<longleftrightarrow> o_MailboxProvider r = [] \<and> o_MailboxID r \<in> m_ID ` set (db_mailboxes db)"

definition name_providers :: "db \<Rightarrow> db" where
  "name_providers db = db\<lparr>db_orders := upd_rows (unnamed_provider db)
     (\<lambda>r. case row_find (\<lambda>m. m_ID m = o_MailboxID r) (db_mailboxes db) of
            None \<Rightarrow> r | Some m \<Rightarrow> r\<lparr>o_MailboxProvider := m_Provider m\<rparr>) (db_orders db)\<rparr>"

definition unrequested :: "sqlOrder \<Rightarrow> bool" where
  "unrequested r \<longleftrightarrow> o_MailboxProvider r \<noteq> [] \<and> o_RequestedProviders r = []"

definition name_requests :: "db \<Rightarrow> db" where
  "name_requests db = db\<lparr>db_orders := upd_rows unrequested (\<lambda>r. r\<lparr>o_RequestedProviders := [o_MailboxProvider r]\<rparr>) (db_orders db)\<rparr>"

definition migrateProviderPricing :: "env \<Rightarrow> db \<Rightarrow> store_error option \<times> db" where
  "migrateProviderPricing env = stored (
     tx_bind (tx_read env 0 db_services) (\<lambda>ss.
     tx_bind (complete_prices env 4 ss 0) (\<lambda>priced.
     tx_bind (tx_affect env 1 (\<lambda>db. count_rows (unnamed_provider db) (db_orders db)) name_providers) (\<lambda>named.
     tx_bind (tx_affect env 2 (\<lambda>db. count_rows unrequested (db_orders db)) name_requests) (\<lambda>requested.
     tx_when (priced \<noteq> 0 \<or> named \<noteq> 0 \<or> requested \<noteq> 0)
       (create_audit env 3 (system_row (uuid env 3) ''pricing.provider.migrate'' ''target_service'' ''all''
          (msg_pricing_1 @ nat_digits priced @ msg_pricing_2 @ nat_digits named @ msg_pricing_3 @ nat_digits requested @ msg_rows_suffix))))))))"

definition migrate :: "crypto \<Rightarrow> (nat list \<Rightarrow> env) \<Rightarrow> db \<Rightarrow> store_error option \<times> db" where
  "migrate cr E db =
     (if db_fail (E [0]) 0 then (Some (ErrDB 0), db)
      else run_all [migrateProviderPricing (E [1]),
        migrateLegacyMicrosoftIMAPOAuth cr (E [2]) (\<lambda>b. E [2, b]),
        migrateHistoricalMicrosoftIMAPOAuth cr (E [3]) (\<lambda>b. E [3, b]),
        migrateMicrosoftIMAPNoopFailures (E [4]),
        migrateMicrosoftIMAPPasswordFallbackFailures cr (E [5]) (\<lambda>b. E [5, b]),
        migrateMicrosoftIMAPPasswordOnlyFailures cr (E [6]) (\<lambda>b. E [6, b])] db)"

subsection \<open>The first rows\<close>

definition defaultServicesSeedKey :: string where
  "defaultServicesSeedKey = ''target-services-v1''"

definition openAIHistoryRuleKey :: string where
  "openAIHistoryRuleKey = ''openai-history-rule-v1''"

definition shouldSeedDefaultServices :: "nat \<Rightarrow> bool \<Rightarrow> bool" where
  "shouldSeedDefaultServices serviceCount markerExists \<longleftrightarrow> \<not> markerExists \<and> serviceCount = 0"

definition default_rows :: "sqlService list" where
  "default_rows = map (\<lambda>s. \<lparr> sv_ID = svc_ID s, sv_Code = svc_Code s, sv_Name = svc_Name s, sv_Description = svc_Description s,
     sv_Enabled = svc_Enabled s, sv_AllowedProviders = svc_AllowedProviders s,
     sv_PriceCents = minimumProviderPriceCents (svc_ProviderPrices s),
     sv_ProviderPricesCents = providerPricesCents (svc_ProviderPrices s), sv_TTLSeconds = svc_TTLSeconds s,
     sv_SenderDomains = svc_SenderDomains s, sv_SubjectKeywords = svc_SubjectKeywords s, sv_Regex = svc_Regex s,
     sv_CreatedAt = zero_time \<rparr>) defaultServices"

fun create_services :: "env \<Rightarrow> nat \<Rightarrow> sqlService list \<Rightarrow> unit stx" where
  "create_services env n [] = tx_return ()"
| "create_services env n (s # ss) = tx_then (create_service env n s) (create_services env (Suc n) ss)"

definition ensureDefaultServices :: "env \<Rightarrow> sqlService list \<Rightarrow> db \<Rightarrow> store_error option \<times> db" where
  "ensureDefaultServices env ss = stored (tx_once env defaultServicesSeedKey (
     tx_bind (tx_read env 1 (\<lambda>db. length (db_services db))) (\<lambda>count.
     tx_then (if shouldSeedDefaultServices count False then create_services env 3 ss else tx_return ())
       (leave_marker env 2 defaultServicesSeedKey))))"

definition history_keywords :: "string list \<Rightarrow> string list" where
  "history_keywords keywords = fold (\<lambda>keyword ks. if containsFold ks keyword then ks else ks @ [keyword])
     [''email verification'', ''confirmation code'', ''verification'', ''code''] keywords"

definition extend_rule :: "env \<Rightarrow> sqlService \<Rightarrow> unit stx" where
  "extend_rule env s =
     (let keywords = history_keywords (sv_SubjectKeywords s)
      in tx_when (length keywords \<noteq> length (sv_SubjectKeywords s))
           (tx_then (tx_update env 3 (\<lambda>db. db\<lparr>db_services := upd_rows (\<lambda>x. sv_ID x = sv_ID s)
                (\<lambda>x. x\<lparr>sv_SubjectKeywords := keywords\<rparr>) (db_services db)\<rparr>))
             (create_audit env 4 (system_row (uuid env 4) ''target_service.rule.migrate'' ''target_service'' (sv_ID s) msg_openai_rule))))"

definition migrateOpenAIHistoryRule :: "env \<Rightarrow> db \<Rightarrow> store_error option \<times> db" where
  "migrateOpenAIHistoryRule env = stored (tx_once env openAIHistoryRuleKey (
     tx_bind (tx_read env 1 (\<lambda>db. row_first sv_ID (\<lambda>s. to_lower (sv_Code s) = ''openai'') (db_services db))) (\<lambda>found.
     tx_then (case found of None \<Rightarrow> tx_return () | Some s \<Rightarrow> extend_rule env s)
       (leave_marker env 2 openAIHistoryRuleKey))))"

definition default_pool_row :: sqlMailboxPool where
  "default_pool_row = \<lparr> pl_ID = ''pool-default'', pl_Name = DefaultMailboxPoolName, pl_Provider = ''mixed'', pl_Region = ''global'',
     pl_Enabled = True, pl_DailyLimit = 1000, pl_CooldownSeconds = 0, pl_CreatedAt = zero_time \<rparr>"

fun add_outlook_de :: "env \<Rightarrow> nat \<Rightarrow> sqlService list \<Rightarrow> nat \<Rightarrow> nat stx" where
  "add_outlook_de env n [] changed = tx_return changed"
| "add_outlook_de env n (s # ss) changed =
     (if MailboxProviderOutlook \<in> set (sv_AllowedProviders s) \<and> MailboxProviderOutlookDE \<notin> set (sv_AllowedProviders s)
      then tx_then (tx_update env n (\<lambda>db. db\<lparr>db_services := upd_rows (\<lambda>x. sv_ID x = sv_ID s)
                (\<lambda>x. x\<lparr>sv_AllowedProviders := sv_AllowedProviders s @ [MailboxProviderOutlookDE]\<rparr>) (db_services db)\<rparr>))
             (add_outlook_de env (Suc n) ss (Suc changed))
      else add_outlook_de env (Suc n) ss changed)"

definition the_pool :: "env \<Rightarrow> (sqlMailboxPool \<times> bool) stx" where
  "the_pool env = tx_bind (tx_read env 0 (\<lambda>db. row_first pl_ID (\<lambda>p. pl_Name p = DefaultMailboxPoolName) (db_pools db))) (\<lambda>found.
     case found of
       Some p \<Rightarrow> tx_return (p, False)
     | None \<Rightarrow> tx_then (create_pool env 1 default_pool_row) (tx_return (default_pool_row, True)))"

definition one_pool :: "env \<Rightarrow> sqlMailboxPool \<Rightarrow> (nat \<times> nat) stx" where
  "one_pool env pool =
     tx_then (tx_update env 2 (\<lambda>db. db\<lparr>db_pools := upd_rows (\<lambda>p. pl_ID p = pl_ID pool)
         (\<lambda>p. p\<lparr>pl_Provider := ''mixed'', pl_Enabled := True\<rparr>) (db_pools db)\<rparr>))
     (tx_bind (affect_mailboxes env 3 (\<lambda>m. m_Pool m \<noteq> pl_Name pool) (\<lambda>m. m\<lparr>m_Pool := pl_Name pool\<rparr>)) (\<lambda>moved.
      tx_bind (tx_affect env 4 (\<lambda>db. count_rows (\<lambda>p. pl_ID p \<noteq> pl_ID pool \<and> pl_Enabled p) (db_pools db))
         (\<lambda>db. db\<lparr>db_pools := upd_rows (\<lambda>p. pl_ID p \<noteq> pl_ID pool \<and> pl_Enabled p) (\<lambda>p. p\<lparr>pl_Enabled := False\<rparr>) (db_pools db)\<rparr>)) (\<lambda>legacy.
      tx_return (moved, legacy))))"

definition ensureDefaultMailboxPool :: "env \<Rightarrow> db \<Rightarrow> store_error option \<times> db" where
  "ensureDefaultMailboxPool env = stored (
     tx_bind (the_pool env) (\<lambda>(pool, created).
     tx_bind (one_pool env pool) (\<lambda>(moved, legacy).
     tx_bind (affect_mailboxes env 5 (\<lambda>m. has_suffix (to_lower (m_Address m)) ''@outlook.de'' \<and> m_Provider m \<noteq> MailboxProviderOutlookDE)
        (\<lambda>m. m\<lparr>m_Provider := MailboxProviderOutlookDE\<rparr>)) (\<lambda>reclassified.
     tx_bind (tx_read env 6 db_services) (\<lambda>ss.
     tx_bind (add_outlook_de env 8 ss 0) (\<lambda>extended.
     tx_when (created \<or> moved \<noteq> 0 \<or> legacy \<noteq> 0 \<or> reclassified \<noteq> 0 \<or> extended \<noteq> 0)
       (create_audit env 7 (system_row (uuid env 7) ''mailbox_pool.consolidate'' ''mailbox_pool'' (pl_ID pool)
          (msg_pool_1 @ nat_digits moved @ msg_pool_2 @ nat_digits legacy @ msg_pool_3 @ nat_digits reclassified
             @ msg_pool_4 @ nat_digits extended @ msg_pool_5)))))))))"

text \<open>Every mailbox gets a state for every platform it has none for.\<close>

fun fill_states :: "time \<Rightarrow> (string \<times> string) list \<Rightarrow> sqlMailboxService list \<Rightarrow> sqlMailboxService list" where
  "fill_states now [] states = states"
| "fill_states now ((mid, sid) # ps) states =
     fill_states now ps (if (mid, sid) \<in> ms_key ` set states then states
       else states @ [\<lparr> ms_MailboxID = mid, ms_ServiceID = sid, ms_State = ServiceAvailable, ms_TimeoutCount = 0, ms_ChangedAt = now \<rparr>])"

definition filled_states :: "time \<Rightarrow> db \<Rightarrow> sqlMailboxService list" where
  "filled_states now db = fill_states now (List.product (map m_ID (db_mailboxes db)) (map sv_ID (db_services db))) (db_states db)"

definition ensureMailboxServiceStates :: "env \<Rightarrow> db \<Rightarrow> store_error option \<times> db" where
  "ensureMailboxServiceStates env = stored (
     tx_bind (tx_affect env 0 (\<lambda>db. length (filled_states (clock env 0) db) - length (db_states db))
       (\<lambda>db. db\<lparr>db_states := filled_states (clock env 0) db\<rparr>)) (\<lambda>filled.
     tx_when (filled \<noteq> 0) (create_audit env 1 (system_row (uuid env 1) ''mailbox_service.backfill'' ''mailbox_service'' ''all''
       (msg_states_filled @ nat_digits filled @ msg_rows_suffix)))))"

definition demo_row :: "env \<Rightarrow> nat \<Rightarrow> nat \<Rightarrow> sqlMailbox" where
  "demo_row env n index =
     (let hotmail = even index
      in \<lparr> m_ID = ''mb-'' @ pad_int 3 (int index), m_Address = ''hero_'' @ pad_int 2 (int index) @ (if hotmail then ''@hotmail.com'' else ''@outlook.com''),
           m_Provider = (if hotmail then MailboxProviderHotmail else MailboxProviderOutlook), m_Pool = DefaultMailboxPoolName,
           m_State = MailboxAvailable, m_HealthScore = 84 + int (index mod 16), m_OAuthValidUntil = clock env n + 30 * 24 * hour,
           m_EncryptedCredential = [], m_ActiveOrderID = [], m_TodayCodes = 0, m_LastReceivedAt = None,
           m_ConnectionMethod = MailboxConnectionMicrosoftOAuth, m_VerificationStatus = MailboxVerificationVerified,
           m_LastVerifiedAt = Some (clock env n), m_VerificationError = [], m_CreatedAt = zero_time, m_UpdatedAt = zero_time \<rparr>)"

fun seed_mailboxes :: "env \<Rightarrow> nat \<Rightarrow> sqlService list \<Rightarrow> nat list \<Rightarrow> unit stx" where
  "seed_mailboxes env n ss [] = tx_return ()"
| "seed_mailboxes env n ss (index # indexes) =
     (let row = demo_row env n index
      in tx_bind (tx_read env n (\<lambda>db. row_find (\<lambda>m. m_ID m = m_ID row) (db_mailboxes db))) (\<lambda>found.
         tx_then (case found of Some _ \<Rightarrow> tx_return () | None \<Rightarrow> create_mailbox env (n + 1) row)
         (tx_then (ensure_states env (n + 2) (map (\<lambda>s. (m_ID row, sv_ID s)) ss))
           (seed_mailboxes env (n + 2 + 2 * length ss) ss indexes))))"

definition seedDemoMailboxes :: "env \<Rightarrow> sqlService list \<Rightarrow> db \<Rightarrow> store_error option \<times> db" where
  "seedDemoMailboxes env ss = stored (seed_mailboxes env 0 ss [1..<25])"

subsection \<open>The start\<close>

record PostgresConfig =
  pc_DSN :: string
  pc_RedisAddress :: string
  pc_RedisPassword :: string
  pc_AdminEmail :: string
  pc_AdminPassword :: string
  pc_EncryptionKey :: string
  pc_SeedDemo :: bool

datatype start_error =
  NoSettings | NoDatabase | NoRedis | BadEncryptionKey | NoAdminPassword | HashingFailed | StartFailed store_error

definition first_or_create_user :: "env \<Rightarrow> sqlUser \<Rightarrow> db \<Rightarrow> store_error option \<times> db" where
  "first_or_create_user env user = stored (
     tx_bind (tx_read env 0 (\<lambda>db. row_find (\<lambda>u. u_ID u = u_ID user) (db_users db))) (\<lambda>found.
       case found of Some _ \<Rightarrow> tx_return () | None \<Rightarrow> create_user env 1 user))"

definition admin_row :: "PostgresConfig \<Rightarrow> string \<Rightarrow> sqlUser" where
  "admin_row config h = \<lparr> u_ID = ''admin-001'',
     u_Email = to_lower (if pc_AdminEmail config = [] then ''admin@heromail.local'' else pc_AdminEmail config), u_PasswordHash = h,
     u_Role = ''admin'', u_Status = ''active'', u_BalanceCents = 0, u_DisplayName = msg_admin_name, u_CreatedAt = zero_time,
     u_LastLoginAt = None \<rparr>"

definition demo_user_row :: "string \<Rightarrow> sqlUser" where
  "demo_user_row h = \<lparr> u_ID = ''user-001'', u_Email = ''demo@example.com'', u_PasswordHash = h, u_Role = ''user'',
     u_Status = ''active'', u_BalanceCents = 4860, u_DisplayName = msg_demo_name, u_CreatedAt = zero_time, u_LastLoginAt = None \<rparr>"

definition start_result :: "store_error option \<times> db \<Rightarrow> start_error option \<times> db" where
  "start_result = (\<lambda>(e, db). (map_option StartFailed e, db))"

definition seed_rows :: "(nat list \<Rightarrow> env) \<Rightarrow> PostgresConfig \<Rightarrow> db \<Rightarrow> start_error option \<times> db" where
  "seed_rows E config db = start_result (run_all ([ensureDefaultServices (E [9]) default_rows, migrateOpenAIHistoryRule (E [10]),
     ensureDefaultMailboxPool (E [11]), ensureMailboxServiceStates (E [12])]
     @ (if pc_SeedDemo config then [seedDemoMailboxes (E [13]) default_rows] else [])) db)"

definition store_seed :: "crypto \<Rightarrow> (nat list \<Rightarrow> env) \<Rightarrow> PostgresConfig \<Rightarrow> db \<Rightarrow> start_error option \<times> db" where
  "store_seed cr E config db =
     (if pc_AdminPassword config = [] then (Some NoAdminPassword, db)
      else case cr_bcrypt cr 0 (pc_AdminPassword config) of
          None \<Rightarrow> (Some HashingFailed, db)
        | Some h \<Rightarrow>
          (case first_or_create_user (E [7]) (admin_row config h) db of
             (Some e, db') \<Rightarrow> (Some (StartFailed e), db')
           | (None, db') \<Rightarrow>
             if \<not> pc_SeedDemo config then seed_rows E config db'
             else case cr_bcrypt cr 1 ''heromail-demo'' of
                 None \<Rightarrow> (Some HashingFailed, db')
               | Some h' \<Rightarrow>
                 (case first_or_create_user (E [8]) (demo_user_row h') db' of
                    (Some e, db'') \<Rightarrow> (Some (StartFailed e), db'')
                  | (None, db'') \<Rightarrow> seed_rows E config db'')))"

text \<open>The key is 32 bytes in hexadecimal; the ciphers it gives are a parameter.\<close>

definition encryption_key_ok :: "string \<Rightarrow> bool" where
  "encryption_key_ok k \<longleftrightarrow> length k = 64 \<and> set k \<subseteq> set ''0123456789abcdefABCDEF''"

definition NewPostgresStore ::
  "(string \<Rightarrow> crypto) \<Rightarrow> bool \<Rightarrow> bool \<Rightarrow> (nat list \<Rightarrow> env) \<Rightarrow> PostgresConfig \<Rightarrow> db \<Rightarrow> start_error option \<times> db" where
  "NewPostgresStore ciphers opened pinged E config db =
     (if pc_DSN config = [] \<or> pc_RedisAddress config = [] then (Some NoSettings, db)
      else if \<not> opened then (Some NoDatabase, db)
      else if \<not> pinged then (Some NoRedis, db)
      else if \<not> encryption_key_ok (pc_EncryptionKey config) then (Some BadEncryptionKey, db)
      else let cr = ciphers (pc_EncryptionKey config)
           in case migrate cr E db of
                (Some e, db') \<Rightarrow> (Some (StartFailed e), db')
              | (None, db') \<Rightarrow> store_seed cr E config db')"

end
