(* ===== verification/Start.thy ===== *)
theory Start
  imports Migrations Mailboxes
begin

text \<open>
  What a start of the store promises: it may run while orders are open, whatever statement of it fails, and what it is meant
  to do once is not done again.
\<close>

subsection \<open>Changes that disturb nobody\<close>

text \<open>The mailboxes that serve an order, with their addresses and states.\<close>

definition busy :: "db \<Rightarrow> (string \<times> string \<times> string \<times> string) set" where
  "busy db = set (map (\<lambda>m. (m_ID m, m_Address m, m_ActiveOrderID m, m_State m))
     (filter (\<lambda>m. m_ActiveOrderID m \<noteq> []) (db_mailboxes db)))"

definition calm :: "db \<Rightarrow> db \<Rightarrow> bool" where
  "calm db db' \<longleftrightarrow> keeps db db' \<and> (lease_ok db \<longrightarrow> busy db' = busy db) \<and> (\<forall>key. marked key db \<longrightarrow> marked key db')"

lemma calm_refl [simp]: "calm db db"
  by (simp add: calm_def)

lemma calm_trans: "calm db db1 \<Longrightarrow> calm db1 db2 \<Longrightarrow> calm db db2"
  by (auto simp: calm_def keeps_def)

lemma calm_other:
  assumes "db_users db' = db_users db" "db_orders db' = db_orders db" "db_mailboxes db' = db_mailboxes db"
    "db_states db' = db_states db" "db_ledgers db' = db_ledgers db" "set (db_seeds db) \<subseteq> set (db_seeds db')"
  shows "calm db db'"
  using keeps_other [OF assms(1-5)] assms(3,6) by (auto simp: calm_def busy_def marked_def)

lemma calm_keeps:
  assumes "keeps db db'" "db_mailboxes db' = db_mailboxes db" "db_seeds db' = db_seeds db"
  shows "calm db db'"
  using assms by (simp add: calm_def busy_def marked_def)


definition same_order :: "sqlOrder \<Rightarrow> sqlOrder \<Rightarrow> bool" where
  "same_order r r' \<longleftrightarrow> r' = r\<lparr>o_MailboxProvider := o_MailboxProvider r', o_RequestedProviders := o_RequestedProviders r'\<rparr>"

lemma same_orderD:
  assumes "same_order r r'"
  shows "o_ID r' = o_ID r" "o_UserID r' = o_UserID r" "o_MailboxID r' = o_MailboxID r" "o_Refunded r' = o_Refunded r"
    "order_open r' \<longleftrightarrow> order_open r" "order_key r' = order_key r" "order_row_ok r' \<longleftrightarrow> order_row_ok r" "expected_book r' = expected_book r"
  by (subst assms [unfolded same_order_def], simp add: order_open_def order_key_def order_row_ok_def expected_book_def)+

lemma calm_orders:
  assumes "\<And>r. same_order r (f r)"
  shows "calm db (db\<lparr>db_orders := upd_rows P f (db_orders db)\<rparr>)" (is "calm db ?db")
proof (rule calm_keeps)
  let ?g = "\<lambda>r. if P r then f r else r"
  have "db_orders ?db = map ?g (db_orders db)" by (simp add: upd_rows_def)
  moreover obtain h where h: "h = ?g" by simp
  ultimately have os: "db_orders ?db = map h (db_orders db)" by simp
  have "same_order r (h r)" for r using assms by (simp add: h same_order_def)
  note D = same_orderD [OF this]
  have ids: "map o_ID (map h os) = map o_ID os" for os by (simp add: D)
  then have sids: "o_ID ` h ` set os = o_ID ` set os" for os by (metis set_map)
  have "holders ?db = holders db" "leased_keys ?db = leased_keys db" by (simp_all add: holders_def leased_keys_def)
  then have lease: "lease_ok ?db \<longleftrightarrow> lease_ok db"
    unfolding lease_ok_iff keys_ok_def os ids set_map ball_simps bex_simps D by simp
  have "order_book ?db = order_book db" by (simp add: fun_eq_iff order_book_def)
  then have books: "books_ok ?db \<longleftrightarrow> books_ok db"
    unfolding books_ok_def os set_map ball_simps D sids by simp
  show "keeps db ?db" unfolding keeps_def lease books by (simp add: balance_of_def ledger_total_def)
qed simp_all

lemma map_filter_same:
  "(\<And>x. x \<in> set xs \<Longrightarrow> (A (g x) \<longleftrightarrow> A x) \<and> (A x \<longrightarrow> k (g x) = k x)) \<Longrightarrow> map k (filter A (map g xs)) = map k (filter A xs)"
  by (induction xs) simp_all

lemma calm_mailboxes:
  assumes "\<And>m. m_ID (f m) = m_ID m \<and> m_ActiveOrderID (f m) = m_ActiveOrderID m \<and> m_Address (f m) = m_Address m"
    and "\<And>m. lease_ok db \<Longrightarrow> m \<in> set (db_mailboxes db) \<Longrightarrow> P m \<Longrightarrow> m_ActiveOrderID m \<noteq> [] \<Longrightarrow> m_State (f m) = m_State m"
  shows "calm db (db\<lparr>db_mailboxes := upd_rows P f (db_mailboxes db)\<rparr>)"
proof -
  let ?k = "\<lambda>m. (m_ID m, m_Address m, m_ActiveOrderID m, m_State m)" and ?A = "\<lambda>m. m_ActiveOrderID m \<noteq> []"
  have "map ?k (filter ?A (map (\<lambda>m. if P m then f m else m) (db_mailboxes db))) = map ?k (filter ?A (db_mailboxes db))" if "lease_ok db"
    by (rule map_filter_same) (use assms that in auto)
  then have "lease_ok db \<Longrightarrow> busy (db\<lparr>db_mailboxes := upd_rows P f (db_mailboxes db)\<rparr>) = busy db" by (simp add: busy_def upd_rows_def)
  then show ?thesis using keeps_touch [of f db P] assms(1) by (simp add: calm_def marked_def)
qed

text \<open>Statements, inside a transaction that was calm so far.\<close>

lemma calm_audit: "calm db0 db \<Longrightarrow> tx_ok (create_audit env n a) db (\<lambda>_. calm db0)"
  unfolding create_audit_def tx_ok_insert by (intro impI, erule calm_trans, rule calm_other) simp_all

lemma calm_marker: "calm db0 db \<Longrightarrow> tx_ok (leave_marker env n key) db (\<lambda>_ db'. calm db0 db' \<and> marked key db')"
  unfolding leave_marker_def create_seed_def tx_ok_insert
  by (intro impI conjI, erule calm_trans, rule calm_other) (auto simp: marked_def)

lemma tx_ok_affect: "tx_ok (tx_affect env n rows f) db Q \<longleftrightarrow> (\<not> db_fail env n \<longrightarrow> Q (rows db) (f db))"
  by (simp add: tx_affect_def tx_simps)

lemma calm_create_state:
  assumes "ms_State s \<noteq> ServiceLeased"
  shows "calm db0 db \<Longrightarrow> tx_ok (create_state env n s) db (\<lambda>_. calm db0)"
  unfolding create_state_def tx_ok_insert
proof (intro impI, erule calm_trans, rule calm_keeps)
  assume "fresh_key ms_key (ms_key s) (db_states db)"
  then show "keeps db (db\<lparr>db_states := db_states db @ [s]\<rparr>)"
    by (intro keeps_resources) (use assms in \<open>auto simp: resource_change_def lease_ok_def keys_ok_def fresh_key_def holders_def leased_keys_def\<close>)
qed simp_all

lemma calm_stored: "tx_ok m db (\<lambda>_. calm db) \<Longrightarrow> calm db (snd (stored m db))"
  using run_tx_rel [where R = calm, of db m] by (auto simp: stored_def split: prod.splits sum.splits)


lemma calm_once: "(\<not> marked key db \<Longrightarrow> calm db (snd (m db))) \<Longrightarrow> calm db (snd (once env key m db))"
  by (simp add: once_def)

subsection \<open>Repairs of mailboxes\<close>

text \<open>A row that was read tells whether the mailbox serves an order, because nothing of a start changes that.\<close>

definition as_read :: "db \<Rightarrow> sqlMailbox \<Rightarrow> bool" where
  "as_read db row \<longleftrightarrow> (\<forall>m\<in>set (db_mailboxes db). m_ID m = m_ID row \<longrightarrow> m_ActiveOrderID m = m_ActiveOrderID row)"

definition same_holder :: "sqlMailbox \<Rightarrow> sqlMailbox \<Rightarrow> bool" where
  "same_holder m m' \<longleftrightarrow> m_ID m' = m_ID m \<and> m_ActiveOrderID m' = m_ActiveOrderID m \<and> m_Address m' = m_Address m"

definition careful :: "(nat \<Rightarrow> sqlMailbox \<Rightarrow> store_error + (sqlMailbox \<Rightarrow> sqlMailbox) option) \<Rightarrow> bool" where
  "careful fix \<longleftrightarrow> (\<forall>k row f m. fix k row = Inr (Some f) \<longrightarrow> same_holder m (f m) \<and> (m_ActiveOrderID row \<noteq> [] \<longrightarrow> m_State (f m) = m_State m))"

lemma repair_rows_calm:
  assumes "careful fix" and "\<And>row. row \<in> set rows \<Longrightarrow> as_read db row"
  shows "calm db (snd (snd (repair_rows env guard fix k j rows changed db)))
    \<and> (\<forall>row. as_read db row \<longrightarrow> as_read (snd (snd (repair_rows env guard fix k j rows changed db))) row)"
  using assms(2)
proof (induction rows arbitrary: j changed db)
  case (Cons row rows)
  show ?case
  proof (cases "fix (k + j) row")
    case (Inr r)
    show ?thesis
    proof (cases r)
      case None
      show ?thesis using Cons.IH [of db "Suc j" changed] Cons.prems by (simp add: Inr None)
    next
      case (Some f)
      let ?P = "\<lambda>m. m_ID m = m_ID row \<and> guard m" and ?f = "\<lambda>m. (f m)\<lparr>m_UpdatedAt := clock env (Suc j)\<rparr>"
      let ?db = "db\<lparr>db_mailboxes := upd_rows ?P ?f (db_mailboxes db)\<rparr>"
      have f: "same_holder m (f m)" "m_ActiveOrderID row \<noteq> [] \<Longrightarrow> m_State (f m) = m_State m" for m
        using assms(1) Inr unfolding careful_def Some by blast+
      have row: "as_read db row" using Cons.prems by simp
      have c: "calm db ?db"
        by (rule calm_mailboxes) (use f row in \<open>auto simp: same_holder_def as_read_def\<close>)
      have a: "as_read db r \<Longrightarrow> as_read ?db r" for r
        using f(1) by (auto simp: as_read_def upd_rows_def same_holder_def)
      have "calm ?db (snd (snd (repair_rows env guard fix k (Suc j) rows n ?db)))
          \<and> (\<forall>row. as_read ?db row \<longrightarrow> as_read (snd (snd (repair_rows env guard fix k (Suc j) rows n ?db))) row)" for n
        by (rule Cons.IH) (simp add: a Cons.prems)
      then show ?thesis using c a by (auto simp: Inr Some Let_def intro: calm_trans)
    qed
  qed simp
qed simp

lemma repair_rows_seeds: "db_seeds (snd (snd (repair_rows env guard fix k j rows changed db))) = db_seeds db"
  by (induction rows arbitrary: j changed db) (auto simp: Let_def split: sum.splits option.splits)

declare repair_batches.simps [simp del]

lemma repair_batches_calm:
  "careful chg \<Longrightarrow> (\<And>row. row \<in> set rows \<Longrightarrow> as_read db row) \<Longrightarrow> calm db (snd (snd (repair_batches envs guard chg b rows changed db)))"
proof (induction envs guard chg b rows changed db rule: repair_batches.induct)
  case (1 envs guard chg b rows changed db)
  obtain e c db1 where r: "repair_rows (envs b) guard chg (batch_rows * b) 0 (take batch_rows rows) changed db = (e, c, db1)"
    by (rule prod_cases3)
  have "row \<in> set (take batch_rows rows) \<Longrightarrow> as_read db row" for row using 1(3) by (meson in_set_takeD)
  from repair_rows_calm [where rows = "take batch_rows rows", OF 1(2) this, where env = "envs b" and guard = guard
      and k = "batch_rows * b" and j = 0 and changed = changed]
  have now: "calm db db1" and kept: "\<And>row. as_read db row \<Longrightarrow> as_read db1 row" unfolding r by simp_all
  show ?case
  proof (cases "db_fail (envs b) 0 \<or> e \<noteq> None \<or> length rows < batch_rows")
    case True
    then show ?thesis using now by (auto simp: repair_batches.simps [of envs guard chg b] r split: option.splits)
  next
    case False
    then have none: "e = None" by simp
    have "calm db1 (snd (snd (repair_batches envs guard chg (Suc b) (drop batch_rows rows) c db1)))"
      by (rule 1(1) [OF _ r [symmetric] none refl]) (use False 1(2,3) kept in \<open>auto dest: in_set_dropD\<close>)
    then show ?thesis using False now by (auto simp: repair_batches.simps [of envs guard chg b] r intro: calm_trans)
  qed
qed

lemma repair_batches_seeds: "db_seeds (snd (snd (repair_batches envs guard chg b rows changed db))) = db_seeds db"
proof (induction envs guard chg b rows changed db rule: repair_batches.induct)
  case (1 envs guard chg b rows changed db)
  obtain e c db1 where r: "repair_rows (envs b) guard chg (batch_rows * b) 0 (take batch_rows rows) changed db = (e, c, db1)"
    by (rule prod_cases3)
  have "db_seeds db1 = db_seeds db" using repair_rows_seeds [of "envs b" guard chg "batch_rows * b" 0 "take batch_rows rows" changed db]
    by (simp add: r)
  then show ?case using 1 r by (auto simp: repair_batches.simps [of envs guard chg b] split: option.splits)
qed

lemma repair_calm:
  assumes "careful chg"
  shows "calm db (snd (snd (repair envs matches guard chg db)))"
proof (cases "lease_ok db")
  case True
  then have "distinct (map m_ID (db_mailboxes db))" by (simp add: lease_ok_def keys_ok_def)
  then have "row \<in> set (db_mailboxes db) \<Longrightarrow> as_read db row" for row
    by (auto simp: as_read_def distinct_map dest: inj_onD)
  then show ?thesis unfolding repair_def by (intro repair_batches_calm assms) simp
next
  case False
  then show ?thesis by (simp add: calm_def keeps_def marked_def repair_def repair_batches_seeds)
qed

lemma careful_fixes: "careful (legacy_fix cr)" "careful (historical_fix cr)" "careful (password_fix chosen cr)"
  by (auto simp: careful_def same_holder_def legacy_fix_def historical_fix_def password_fix_def requeued_def split: option.splits if_splits)

lemma marked_audit [simp]: "marked key (db\<lparr>db_audits := x\<rparr>) \<longleftrightarrow> marked key db"
  by (simp add: marked_def)

lemma mark_requeued_ok:
  assumes "calm db0 db"
  shows "tx_ok (mark_requeued env key message changed) db (\<lambda>_ db'. calm db0 db' \<and> marked key db')"
  unfolding mark_requeued_def tx_ok_then
proof (rule tx_ok_weaken [OF calm_marker [OF assms]])
  fix db1 assume d: "calm db0 db1 \<and> marked key db1"
  then show "tx_ok (tx_when (changed \<noteq> 0) (create_audit env 3 (system_row (uuid env 3) ''mailbox.oauth.reverify'' ''mailbox'' ''all''
      (message @ nat_digits changed @ msg_rows_suffix)))) db1 (\<lambda>_ db'. calm db0 db' \<and> marked key db')"
    by (auto simp: tx_ok_when tx_ok_conj calm_audit) (simp add: create_audit_def tx_ok_insert)
qed

subsection \<open>The parts of a start\<close>

text \<open>A part that keeps its promise and, when it ends without an error, has left its marker.\<close>

definition leaves :: "string \<Rightarrow> (db \<Rightarrow> store_error option \<times> db) \<Rightarrow> bool" where
  "leaves key m \<longleftrightarrow> (\<forall>db. fst (m db) = None \<longrightarrow> marked key (snd (m db)))"

lemma leaves_stored: "(\<And>db. tx_ok m db (\<lambda>_. marked key)) \<Longrightarrow> leaves key (stored m)"
  by (auto simp: leaves_def stored_def run_tx_def tx_ok_def split: sum.splits prod.splits)

lemma leaves_once: "leaves key m \<Longrightarrow> leaves key (once env key m)"
  by (simp add: leaves_def once_def)

lemma mark_calm: "calm db (snd (stored (mark_requeued env key message changed) db))"
  by (rule calm_stored, rule tx_ok_weaken [OF mark_requeued_ok [OF calm_refl]]) simp

lemma mark_leaves: "leaves key (stored (mark_requeued env key message changed))"
  by (rule leaves_stored, rule tx_ok_weaken [OF mark_requeued_ok [OF calm_refl]]) simp

lemma reverify_calm: "careful chg \<Longrightarrow> calm db (snd (reverify env envs key message chg db))"
proof -
  assume careful: "careful chg"
  obtain e c db1 where r: "repair envs failed_microsoft failed_verification chg db = (e, c, db1)" by (rule prod_cases3)
  have "calm db db1" using repair_calm [OF careful, of db envs failed_microsoft failed_verification] by (simp add: r)
  then show ?thesis unfolding reverify_def by (intro calm_once) (auto simp: r intro: calm_trans [OF _ mark_calm] split: option.splits)
qed

lemma reverify_leaves: "leaves key (reverify env envs key message chg)"
  unfolding reverify_def
proof (rule leaves_once)
  show "leaves key (\<lambda>db. case repair envs failed_microsoft failed_verification chg db of
      (Some e, _, db') \<Rightarrow> (Some e, db') | (None, changed, db') \<Rightarrow> stored (mark_requeued env key message changed) db')"
    using mark_leaves [of key env message] by (auto simp: leaves_def split: prod.splits option.splits)
qed

lemma legacy_calm: "calm db (snd (migrateLegacyMicrosoftIMAPOAuth cr env envs db))"
proof -
  let ?R = "repair envs (\<lambda>m. m_Provider m \<in> set microsoft_providers \<and> m_ConnectionMethod m = MailboxConnectionAuto
               \<and> m_EncryptedCredential m \<noteq> []) (\<lambda>m. m_ConnectionMethod m = MailboxConnectionAuto) (legacy_fix cr) db"
  obtain e c db1 where r: "?R = (e, c, db1)" by (rule prod_cases3)
  have "calm db (snd (snd ?R))" by (intro repair_calm careful_fixes)
  then have "calm db db1" by (simp add: r)
  moreover have "calm db1 (snd (stored (create_audit env 0 a) db1))" for a by (intro calm_stored calm_audit) simp
  ultimately show ?thesis
    unfolding migrateLegacyMicrosoftIMAPOAuth_def r by (auto intro: calm_trans split: option.splits)
qed

lemma noop_calm: "calm db (snd (migrateMicrosoftIMAPNoopFailures env db))"
proof -
  have "calm db (snd (run_tx (noop_repair env) db))"
  proof (rule run_tx_rel [where R = calm], simp)
    show "tx_ok (noop_repair env) db (\<lambda>_. calm db)" unfolding noop_repair_def tx_ok_affect
      by (intro impI calm_mailboxes) (auto simp: requeued_def)
  qed
  then show ?thesis unfolding migrateMicrosoftIMAPNoopFailures_def
    by (intro calm_once) (auto intro: calm_trans [OF _ mark_calm] split: prod.splits sum.splits)
qed

lemma noop_leaves: "leaves microsoftIMAPNoopReverifyKey (migrateMicrosoftIMAPNoopFailures env)"
  unfolding migrateMicrosoftIMAPNoopFailures_def
proof (rule leaves_once)
  show "leaves microsoftIMAPNoopReverifyKey (\<lambda>db. case run_tx (noop_repair env) db of (Inl e, db') \<Rightarrow> (Some e, db')
      | (Inr changed, db') \<Rightarrow> stored (mark_requeued env microsoftIMAPNoopReverifyKey msg_noop_imap changed) db')"
    using mark_leaves [of microsoftIMAPNoopReverifyKey env msg_noop_imap] by (auto simp: leaves_def split: prod.splits sum.splits)
qed

lemma calm_services: "calm db0 db \<Longrightarrow> calm db0 (db\<lparr>db_services := x\<rparr>)"
  by (erule calm_trans, rule calm_other) simp_all

lemma calm_pools: "calm db0 db \<Longrightarrow> calm db0 (db\<lparr>db_pools := x\<rparr>)"
  by (erule calm_trans, rule calm_other) simp_all

lemma complete_prices_calm: "calm db0 db \<Longrightarrow> tx_ok (complete_prices env n ss changed) db (\<lambda>_. calm db0)"
  by (induction ss arbitrary: n changed db) (simp_all add: tx_ok_return tx_ok_then tx_ok_update calm_services)

lemma pricing_calm: "calm db (snd (migrateProviderPricing env db))"
proof -
  have named: "calm db0 db \<Longrightarrow> calm db0 (name_providers db)" for db0 db
    unfolding name_providers_def by (erule calm_trans, rule calm_orders) (auto simp: same_order_def split: option.splits)
  have requested: "calm db0 db \<Longrightarrow> calm db0 (name_requests db)" for db0 db
    unfolding name_requests_def by (erule calm_trans, rule calm_orders) (simp add: same_order_def)
  show ?thesis unfolding migrateProviderPricing_def
  proof (intro calm_stored, unfold tx_ok_bind tx_ok_read tx_ok_affect tx_ok_when, intro impI)
    show "tx_ok (complete_prices env 4 (db_services db) 0) db (\<lambda>priced db'. \<not> db_fail env 1 \<longrightarrow> \<not> db_fail env 2 \<longrightarrow>
        (if priced \<noteq> 0 \<or> count_rows (unnamed_provider db') (db_orders db') \<noteq> 0
            \<or> count_rows unrequested (db_orders (name_providers db')) \<noteq> 0
         then tx_ok (create_audit env 3 (system_row (uuid env 3) ''pricing.provider.migrate'' ''target_service'' ''all''
           (msg_pricing_1 @ nat_digits priced @ msg_pricing_2 @ nat_digits (count_rows (unnamed_provider db') (db_orders db'))
             @ msg_pricing_3 @ nat_digits (count_rows unrequested (db_orders (name_providers db'))) @ msg_rows_suffix)))
             (name_requests (name_providers db')) (\<lambda>_. calm db)
         else calm db (name_requests (name_providers db'))))"
      by (rule tx_ok_weaken [OF complete_prices_calm [OF calm_refl]]) (simp add: calm_audit named requested)
  qed
qed

lemma create_services_calm: "calm db0 db \<Longrightarrow> tx_ok (create_services env n ss) db (\<lambda>_. calm db0)"
  by (induction ss arbitrary: n db) (simp_all add: tx_ok_return tx_ok_then create_service_def tx_ok_insert calm_services)

lemma tx_ok_once: "tx_ok (tx_once env key m) db Q \<longleftrightarrow> (\<not> db_fail env 0 \<longrightarrow> (if marked key db then Q () db else tx_ok m db Q))"
  by (simp add: tx_once_def tx_simps)

lemma services_ok:
  "tx_ok (tx_once env defaultServicesSeedKey (
     tx_bind (tx_read env 1 (\<lambda>db. length (db_services db))) (\<lambda>count.
     tx_then (if shouldSeedDefaultServices count False then create_services env 3 ss else tx_return ())
       (leave_marker env 2 defaultServicesSeedKey)))) db (\<lambda>_ db'. calm db db' \<and> marked defaultServicesSeedKey db')"
  unfolding tx_ok_once tx_ok_bind tx_ok_read tx_ok_then tx_ok_if tx_ok_return
  by (auto intro: calm_marker tx_ok_weaken [OF create_services_calm [OF calm_refl]])

lemma services_calm: "calm db (snd (ensureDefaultServices env ss db))"
  unfolding ensureDefaultServices_def by (rule calm_stored, rule tx_ok_weaken [OF services_ok]) simp

lemma services_leaves: "leaves defaultServicesSeedKey (ensureDefaultServices env ss)"
  unfolding ensureDefaultServices_def by (rule leaves_stored, rule tx_ok_weaken [OF services_ok]) simp

lemma extend_rule_calm: "tx_ok (extend_rule env s) db (\<lambda>_. calm db)"
  by (simp add: extend_rule_def Let_def tx_ok_when tx_ok_then tx_ok_update calm_audit calm_services)

lemma openai_ok:
  "tx_ok (tx_once env openAIHistoryRuleKey (
     tx_bind (tx_read env 1 (\<lambda>db. row_first sv_ID (\<lambda>s. to_lower (sv_Code s) = ''openai'') (db_services db))) (\<lambda>found.
     tx_then (case found of None \<Rightarrow> tx_return () | Some s \<Rightarrow> extend_rule env s)
       (leave_marker env 2 openAIHistoryRuleKey)))) db (\<lambda>_ db'. calm db db' \<and> marked openAIHistoryRuleKey db')"
  unfolding tx_ok_once tx_ok_bind tx_ok_read tx_ok_then tx_ok_option tx_ok_return
  by (auto intro: calm_marker tx_ok_weaken [OF extend_rule_calm])

lemma openai_calm: "calm db (snd (migrateOpenAIHistoryRule env db))"
  unfolding migrateOpenAIHistoryRule_def by (rule calm_stored, rule tx_ok_weaken [OF openai_ok]) simp

lemma openai_leaves: "leaves openAIHistoryRuleKey (migrateOpenAIHistoryRule env)"
  unfolding migrateOpenAIHistoryRule_def by (rule leaves_stored, rule tx_ok_weaken [OF openai_ok]) simp

text \<open>One pool for all mailboxes.\<close>

lemma affect_calm:
  assumes "calm db0 db" and "\<And>m. same_holder m (f m) \<and> m_State (f m) = m_State m"
  shows "tx_ok (affect_mailboxes env n P f) db (\<lambda>_. calm db0)"
  unfolding affect_mailboxes_def tx_ok_affect
  by (intro impI, rule calm_trans [OF assms(1)], rule calm_mailboxes) (use assms(2) in \<open>simp_all add: same_holder_def\<close>)

lemma add_outlook_calm: "calm db0 db \<Longrightarrow> tx_ok (add_outlook_de env n ss changed) db (\<lambda>_. calm db0)"
  by (induction ss arbitrary: n changed db) (simp_all add: tx_ok_return tx_ok_then tx_ok_update calm_services)

lemma the_pool_calm: "calm db0 db \<Longrightarrow> tx_ok (the_pool env) db (\<lambda>_. calm db0)"
  by (simp add: the_pool_def tx_ok_bind tx_ok_read tx_ok_option tx_ok_then tx_ok_return create_pool_def tx_ok_insert calm_pools)

lemma one_pool_calm: "calm db0 db \<Longrightarrow> tx_ok (one_pool env pool) db (\<lambda>_. calm db0)"
  unfolding one_pool_def tx_ok_then tx_ok_update tx_ok_bind
  by (intro impI, rule tx_ok_weaken [OF affect_calm [OF calm_pools]], assumption)
    (simp_all add: calm_pools same_holder_def tx_ok_affect tx_ok_return)

lemma pool_calm: "calm db (snd (ensureDefaultMailboxPool env db))"
  unfolding ensureDefaultMailboxPool_def tx_ok_bind
proof (rule calm_stored, unfold tx_ok_bind tx_ok_prod tx_ok_read tx_ok_when,
    rule tx_ok_weaken [OF the_pool_calm [OF calm_refl]], rule tx_ok_weaken [OF one_pool_calm], assumption,
    rule tx_ok_weaken [OF affect_calm], assumption)
  show "same_holder m (m\<lparr>m_Provider := MailboxProviderOutlookDE\<rparr>) \<and> m_State (m\<lparr>m_Provider := MailboxProviderOutlookDE\<rparr>) = m_State m" for m
    by (simp add: same_holder_def)
qed (auto simp: calm_audit intro: tx_ok_weaken [OF add_outlook_calm])

text \<open>States for every pair of a mailbox and a platform; no state that exists changes.\<close>

lemma fill_states_keys: "distinct (map ms_key states) \<Longrightarrow> distinct (map ms_key (fill_states now ps states))"
proof (induction ps arbitrary: states)
  case (Cons p ps)
  then show ?case by (cases p) (auto simp: ms_key_def)
qed simp

lemma fill_states_leased: "s \<in> set (fill_states now ps states) \<and> ms_State s = ServiceLeased \<longleftrightarrow> s \<in> set states \<and> ms_State s = ServiceLeased"
proof (induction ps arbitrary: states)
  case (Cons p ps)
  then show ?case by (cases p) auto
qed simp

lemma fill_states_complete:
  "ms_key ` set (fill_states now ps states) = ms_key ` set states \<union> set ps"
proof (induction ps arbitrary: states)
  case (Cons p ps)
  then show ?case by (cases p) (auto simp: ms_key_def)
qed simp

lemma states_calm: "calm db (snd (ensureMailboxServiceStates env db))"
  unfolding ensureMailboxServiceStates_def
proof (rule calm_stored, unfold tx_ok_bind tx_ok_affect tx_ok_when, intro impI)
  let ?now = "clock env 0"
  let ?db = "db\<lparr>db_states := filled_states ?now db\<rparr>"
  have "calm db ?db"
  proof (rule calm_keeps, rule keeps_resources)
    assume "lease_ok db"
    then have k: "keys_ok db" by (simp add: lease_ok_def)
    have "leased_keys ?db = leased_keys db" by (simp add: leased_keys_def filled_states_def fill_states_leased)
    then show "resource_change db ?db" using k fill_states_keys [of "db_states db" ?now]
      by (simp add: resource_change_def keys_ok_def holders_def filled_states_def)
  qed simp_all
  then show "if length (filled_states ?now db) - length (db_states db) \<noteq> 0
      then tx_ok (create_audit env 1 (system_row (uuid env 1) ''mailbox_service.backfill'' ''mailbox_service'' ''all''
        (msg_states_filled @ nat_digits (length (filled_states ?now db) - length (db_states db)) @ msg_rows_suffix))) ?db (\<lambda>_. calm db)
      else calm db ?db" by (simp add: calm_audit)
qed


subsection \<open>A start\<close>





subsection \<open>Parts that run once\<close>

definition steady :: "(db \<Rightarrow> store_error option \<times> db) \<Rightarrow> bool" where
  "steady m \<longleftrightarrow> (\<forall>db key. marked key db \<longrightarrow> marked key (snd (m db)))"

lemma steady_calm: "(\<And>db. calm db (snd (m db))) \<Longrightarrow> steady m"
  by (simp add: steady_def calm_def)

lemma steady_stored:
  assumes "\<And>db. tx_ok m db (\<lambda>_ db'. db_seeds db' = db_seeds db)"
  shows "steady (stored m)"
  unfolding steady_def
proof (intro allI impI)
  fix db key assume "marked key db"
  moreover have "db_seeds (snd (stored m db)) = db_seeds db"
    using run_tx_rel [where R = "\<lambda>db db'. db_seeds db' = db_seeds db", OF refl assms, of db]
    by (auto simp: stored_def split: prod.splits sum.splits)
  ultimately show "marked key (snd (stored m db))" by (simp add: marked_def)
qed

lemma run_all_steady: "\<forall>m\<in>set parts. steady m \<Longrightarrow> steady (run_all parts)"
proof (induction parts)
  case (Cons m parts)
  then have "steady m" "steady (run_all parts)" by simp_all
  then show ?case by (fastforce simp: steady_def split: prod.splits option.splits)
qed (simp add: steady_def)

lemma run_all_leaves: "\<forall>m\<in>set parts. steady m \<Longrightarrow> \<exists>m\<in>set parts. leaves key m \<Longrightarrow> leaves key (run_all parts)"
proof (induction parts)
  case (Cons m parts)
  have later: "steady (run_all parts)" using Cons.prems(1) by (intro run_all_steady) simp
  show ?case unfolding leaves_def
  proof (intro allI impI)
    fix db assume none: "fst (run_all (m # parts) db) = None"
    then obtain db1 where m: "m db = (None, db1)" and r: "fst (run_all parts db1) = None"
      by (auto split: prod.splits option.splits)
    show "marked key (snd (run_all (m # parts) db))"
    proof (cases "leaves key m")
      case True
      then have "marked key db1" using m unfolding leaves_def by (metis fst_conv snd_conv)
      then show ?thesis using later m by (simp add: steady_def)
    next
      case False
      then have "leaves key (run_all parts)" using Cons by auto
      then show ?thesis using r m by (simp add: leaves_def)
    qed
  qed
qed simp

lemma migrate_leaves:
  assumes "migrate cr E db = (None, db')"
  shows "\<forall>key \<in> {historicalMicrosoftIMAPReverifyKey, microsoftIMAPNoopReverifyKey, microsoftIMAPPasswordFallbackReverifyKey,
    microsoftIMAPPasswordOnlyReverifyKey}. marked key db'"
proof -
  let ?parts = "[migrateProviderPricing (E [1]),
        migrateLegacyMicrosoftIMAPOAuth cr (E [2]) (\<lambda>b. E [2, b]),
        migrateHistoricalMicrosoftIMAPOAuth cr (E [3]) (\<lambda>b. E [3, b]),
        migrateMicrosoftIMAPNoopFailures (E [4]),
        migrateMicrosoftIMAPPasswordFallbackFailures cr (E [5]) (\<lambda>b. E [5, b]),
        migrateMicrosoftIMAPPasswordOnlyFailures cr (E [6]) (\<lambda>b. E [6, b])]"
  have steady: "\<forall>m\<in>set ?parts. steady m"
    unfolding migrateHistoricalMicrosoftIMAPOAuth_def migrateMicrosoftIMAPPasswordFallbackFailures_def
      migrateMicrosoftIMAPPasswordOnlyFailures_def
    by (auto intro!: steady_calm simp: pricing_calm legacy_calm noop_calm reverify_calm careful_fixes)
  have run: "run_all ?parts db = (None, db')" using assms by (simp only: migrate_def split: if_splits) simp_all
  have "leaves key (run_all ?parts)" if "\<exists>m\<in>set ?parts. leaves key m" for key
    using run_all_leaves [OF steady that] .
  then have marked: "marked key db'" if "\<exists>m\<in>set ?parts. leaves key m" for key
    using run that unfolding leaves_def by (metis fst_conv snd_conv)
  show ?thesis
  proof (safe)
    show "marked historicalMicrosoftIMAPReverifyKey db'"
      by (rule marked) (simp add: migrateHistoricalMicrosoftIMAPOAuth_def reverify_leaves)
    show "marked microsoftIMAPNoopReverifyKey db'" by (rule marked) (simp add: noop_leaves)
    show "marked microsoftIMAPPasswordFallbackReverifyKey db'"
      by (rule marked) (simp add: migrateMicrosoftIMAPPasswordFallbackFailures_def reverify_leaves)
    show "marked microsoftIMAPPasswordOnlyReverifyKey db'"
      by (rule marked) (simp add: migrateMicrosoftIMAPPasswordOnlyFailures_def reverify_leaves)
  qed
qed

lemma first_user_steady: "steady (first_or_create_user env user)"
  unfolding first_or_create_user_def
  by (rule steady_stored) (simp add: tx_ok_bind tx_ok_read tx_ok_option tx_ok_return create_user_def tx_ok_insert)

lemma ensure_states_seeds:
  "db_seeds db = sds \<Longrightarrow> tx_ok (ensure_states env n ps) db (\<lambda>_ db'. db_seeds db' = sds)"
  by (induction env n ps arbitrary: db rule: ensure_states.induct)
    (simp_all add: ensure_state_def create_state_def tx_simps)

lemma seed_mailboxes_seeds:
  "db_seeds db = sds \<Longrightarrow> tx_ok (seed_mailboxes env n ss indexes) db (\<lambda>_ db'. db_seeds db' = sds)"
proof (induction indexes arbitrary: n db)
  case (Cons index indexes)
  then show ?case
    by (auto simp: Let_def tx_ok_bind tx_ok_then tx_ok_read tx_ok_option tx_ok_return create_mailbox_def tx_ok_insert
        intro!: tx_ok_weaken [OF ensure_states_seeds])
qed (simp add: tx_ok_return)

lemma demo_steady: "steady (seedDemoMailboxes env ss)"
  unfolding seedDemoMailboxes_def by (intro steady_stored seed_mailboxes_seeds refl)

lemma seed_rows_leaves:
  assumes "seed_rows E config db = (None, db')"
  shows "marked defaultServicesSeedKey db' \<and> marked openAIHistoryRuleKey db' \<and> (\<forall>key. marked key db \<longrightarrow> marked key db')"
proof -
  let ?parts = "[ensureDefaultServices (E [9]) default_rows, migrateOpenAIHistoryRule (E [10]),
     ensureDefaultMailboxPool (E [11]), ensureMailboxServiceStates (E [12])]
     @ (if pc_SeedDemo config then [seedDemoMailboxes (E [13]) default_rows] else [])"
  have steady: "\<forall>m\<in>set ?parts. steady m"
    by (auto intro!: steady_calm demo_steady simp: services_calm openai_calm pool_calm states_calm)
  obtain e where run: "run_all ?parts db = (e, db')" and "map_option StartFailed e = None"
    using assms unfolding seed_rows_def start_result_def split_beta by (metis prod.inject prod.collapse)
  then have run: "run_all ?parts db = (None, db')" by simp
  have "leaves key (run_all ?parts)" if "\<exists>m\<in>set ?parts. leaves key m" for key
    using run_all_leaves [OF steady that] .
  then have marked: "marked key db'" if "\<exists>m\<in>set ?parts. leaves key m" for key
    using run that unfolding leaves_def by (metis fst_conv snd_conv)
  have "steady (run_all ?parts)" using run_all_steady [OF steady] .
  then have "\<forall>key. marked key db \<longrightarrow> marked key db'" using run unfolding steady_def by (metis snd_conv)
  moreover have "marked defaultServicesSeedKey db'" by (rule marked) (simp add: services_leaves)
  moreover have "marked openAIHistoryRuleKey db'" by (rule marked) (simp add: openai_leaves)
  ultimately show ?thesis by simp
qed

lemma store_seed_leaves:
  assumes "store_seed cr E config db = (None, db')"
  shows "marked defaultServicesSeedKey db' \<and> marked openAIHistoryRuleKey db' \<and> (\<forall>key. marked key db \<longrightarrow> marked key db')"
proof -
  have user: "marked key db2" if "first_or_create_user env user db1 = (e, db2)" "marked key db1" for env user db1 e db2 key
    using first_user_steady that unfolding steady_def by (metis snd_conv)
  obtain db1 where "seed_rows E config db1 = (None, db')" and "\<forall>key. marked key db \<longrightarrow> marked key db1"
    using assms unfolding store_seed_def by (auto split: if_splits option.splits prod.splits dest: user)
  then show ?thesis using seed_rows_leaves by blast
qed

definition demo_config :: PostgresConfig where
  "demo_config = \<lparr> pc_DSN = ''d'', pc_RedisAddress = ''r'', pc_RedisPassword = [], pc_AdminEmail = [], pc_AdminPassword = ''pw'',
     pc_EncryptionKey = replicate 64 CHR ''0'', pc_SeedDemo = False \<rparr>"

lemma no_repairs: "\<not> db_fail (envs b) 0 \<Longrightarrow> repair_batches envs guard chg b [] changed db = (None, changed, db)"
  by (simp add: repair_batches.simps batch_rows_def)

lemma quiet [simp]: "db_fail (quiet_env t) n = False" "clock (quiet_env t) n = t" "stamp (quiet_env t) n = t"
  by (simp_all add: quiet_env_def)

definition demo_seeds :: "string list \<Rightarrow> db" where
  "demo_seeds keys = demo_leased_db\<lparr>db_seeds := map (\<lambda>k. \<lparr> sd_Key = k, sd_CreatedAt = 0 \<rparr>) keys\<rparr>"

lemma demo_pricing: "migrateProviderPricing (quiet_env 0) demo_leased_db = (None, demo_seeds [])"
  by (simp add: demo_seeds_def migrateProviderPricing_def stored_def run_simps tx_affect_def completed_prices_def count_rows_def unnamed_provider_def
    name_providers_def unrequested_def name_requests_def)

lemma demo_legacy: "migrateLegacyMicrosoftIMAPOAuth plain_crypto (quiet_env 0) (\<lambda>_. quiet_env 0) (demo_seeds keys) = (None, demo_seeds keys)"
  by (simp add: demo_seeds_def migrateLegacyMicrosoftIMAPOAuth_def repair_def no_repairs demo_defs)

lemma demo_marker: "key \<notin> set keys \<Longrightarrow> stored (mark_requeued (quiet_env 0) key message 0) (demo_seeds keys) = (None, demo_seeds (keys @ [key]))"
  by (simp add: demo_seeds_def stored_def mark_requeued_def leave_marker_def run_simps image_image)

lemma demo_marked: "marked key (demo_seeds keys) \<longleftrightarrow> key \<in> set keys"
  by (simp add: demo_seeds_def marked_def image_image)

lemma demo_reverify: "key \<notin> set keys \<Longrightarrow>
    reverify (quiet_env 0) (\<lambda>_. quiet_env 0) key message chg (demo_seeds keys) = (None, demo_seeds (keys @ [key]))"
proof -
  assume "key \<notin> set keys"
  moreover have "repair (\<lambda>_. quiet_env 0) failed_microsoft failed_verification chg (demo_seeds keys) = (None, 0, demo_seeds keys)"
    by (simp add: demo_seeds_def repair_def no_repairs demo_defs failed_microsoft_def failed_verification_def)
  ultimately show ?thesis by (simp add: reverify_def once_def demo_marked demo_marker)
qed

lemma demo_noop: "microsoftIMAPNoopReverifyKey \<notin> set keys \<Longrightarrow>
    migrateMicrosoftIMAPNoopFailures (quiet_env 0) (demo_seeds keys) = (None, demo_seeds (keys @ [microsoftIMAPNoopReverifyKey]))"
proof -
  assume "microsoftIMAPNoopReverifyKey \<notin> set keys"
  moreover have "run_tx (noop_repair (quiet_env 0)) (demo_seeds keys) = (Inr 0, demo_seeds keys)"
    by (simp add: noop_repair_def tx_affect_def count_rows_def noop_failure_def failed_verification_def demo_seeds_def run_simps)
  ultimately show ?thesis by (simp add: migrateMicrosoftIMAPNoopFailures_def once_def demo_marked demo_marker)
qed

lemmas marker_keys = historicalMicrosoftIMAPReverifyKey_def microsoftIMAPNoopReverifyKey_def microsoftIMAPPasswordFallbackReverifyKey_def
  microsoftIMAPPasswordOnlyReverifyKey_def defaultServicesSeedKey_def openAIHistoryRuleKey_def

lemma demo_migrate: "migrate plain_crypto (\<lambda>_. quiet_env 0) demo_leased_db = (None, demo_seeds [historicalMicrosoftIMAPReverifyKey,
    microsoftIMAPNoopReverifyKey, microsoftIMAPPasswordFallbackReverifyKey, microsoftIMAPPasswordOnlyReverifyKey])"
proof -
  have "distinct [historicalMicrosoftIMAPReverifyKey,
    microsoftIMAPNoopReverifyKey, microsoftIMAPPasswordFallbackReverifyKey, microsoftIMAPPasswordOnlyReverifyKey]"
    by (simp add: marker_keys)
  then show ?thesis
    by (auto simp: migrate_def demo_pricing demo_legacy demo_reverify demo_noop migrateHistoricalMicrosoftIMAPOAuth_def
      migrateMicrosoftIMAPPasswordFallbackFailures_def migrateMicrosoftIMAPPasswordOnlyFailures_def)
qed

lemma demo_admin: "\<exists>us. first_or_create_user (quiet_env 0) (admin_row demo_config h) (demo_seeds keys) = (None, (demo_seeds keys)\<lparr>db_users := us\<rparr>)"
  by (simp add: first_or_create_user_def stored_def run_simps demo_seeds_def admin_row_def demo_config_def to_lower_def)

lemma demo_services: "defaultServicesSeedKey \<notin> set keys \<Longrightarrow> ensureDefaultServices (quiet_env 0) ss ((demo_seeds keys)\<lparr>db_users := us\<rparr>)
    = (None, (demo_seeds (keys @ [defaultServicesSeedKey]))\<lparr>db_users := us\<rparr>)"
  by (simp add: ensureDefaultServices_def stored_def tx_once_def marked_def run_simps demo_seeds_def shouldSeedDefaultServices_def
    leave_marker_def image_image)

lemma demo_openai: "openAIHistoryRuleKey \<notin> set keys \<Longrightarrow> \<exists>kws a. migrateOpenAIHistoryRule (quiet_env 0) ((demo_seeds keys)\<lparr>db_users := us\<rparr>)
    = (None, (demo_seeds (keys @ [openAIHistoryRuleKey]))\<lparr>db_users := us, db_services := [demo_service\<lparr>sv_SubjectKeywords := kws\<rparr>],
        db_audits := [a]\<rparr>) \<and> a_ID a = replicate 5 CHR ''u''"
proof -
  have "length (history_keywords []) \<noteq> 0" by (simp add: history_keywords_def containsFold_def)
  then have "history_keywords [] \<noteq> []" by simp
  moreover have "to_lower ''openai'' = ''openai''" by code_simp
  moreover assume "openAIHistoryRuleKey \<notin> set keys"
  ultimately show ?thesis
    by (simp add: migrateOpenAIHistoryRule_def stored_def tx_once_def marked_def run_simps demo_seeds_def row_first_def extend_rule_def
      leave_marker_def image_image system_row_def quiet_env_def)
qed

lemma demo_pools: "a_ID a = replicate 5 CHR ''u'' \<Longrightarrow> \<exists>db'. ensureDefaultMailboxPool (quiet_env 0) ((demo_seeds keys)\<lparr>db_users := us,
    db_services := [demo_service\<lparr>sv_SubjectKeywords := kws\<rparr>], db_audits := [a]\<rparr>) = (None, db')
    \<and> map m_ID (db_mailboxes db') = [''m1''] \<and> map sv_ID (db_services db') = [''s1''] \<and> map ms_key (db_states db') = [(''m1'', ''s1'')]"
proof -
  have "row_first pl_ID (\<lambda>p. pl_Name p = DefaultMailboxPoolName) [demo_pool] = None"
    by (simp add: row_first_def demo_pool_def DefaultMailboxPoolName_def)
  moreover have "DefaultMailboxPoolName \<noteq> ''p''" by (simp add: DefaultMailboxPoolName_def)
  moreover assume "a_ID a = replicate 5 CHR ''u''"
  ultimately show ?thesis
    by (simp add: ensureDefaultMailboxPool_def stored_def the_pool_def one_pool_def affect_mailboxes_def tx_affect_def default_pool_row_def
      run_simps demo_seeds_def system_row_def quiet_env_def ms_key_def)
qed

lemma demo_states:
  assumes "map m_ID (db_mailboxes db) = [''m1'']" "map sv_ID (db_services db) = [''s1'']" "map ms_key (db_states db) = [(''m1'', ''s1'')]"
  shows "fst (ensureMailboxServiceStates (quiet_env 0) db) = None"
proof -
  have "ms_key ` set (db_states db) = {(''m1'', ''s1'')}" by (simp flip: set_map add: assms(3))
  then have "filled_states 0 db = db_states db" by (simp add: filled_states_def assms(1,2))
  then show ?thesis by (simp add: ensureMailboxServiceStates_def stored_def tx_affect_def run_tx_def stmt_defs tx_defs)
qed

lemma demo_start:
  obtains db' where "NewPostgresStore (\<lambda>_. plain_crypto) True True (\<lambda>_. quiet_env 0) demo_config demo_leased_db = (None, db')"
proof -
  let ?keys = "[historicalMicrosoftIMAPReverifyKey,
    microsoftIMAPNoopReverifyKey, microsoftIMAPPasswordFallbackReverifyKey, microsoftIMAPPasswordOnlyReverifyKey]"
  obtain us where a: "first_or_create_user (quiet_env 0) (admin_row demo_config ''pw'') (demo_seeds ?keys) = (None, (demo_seeds ?keys)\<lparr>db_users := us\<rparr>)"
    using demo_admin by blast
  have new: "defaultServicesSeedKey \<notin> set ?keys" "openAIHistoryRuleKey \<notin> set (?keys @ [defaultServicesSeedKey])"
    by (simp_all add: marker_keys)
  note s = demo_services [OF new(1), of default_rows us]
  obtain kws x db2 where o: "migrateOpenAIHistoryRule (quiet_env 0) ((demo_seeds (?keys @ [defaultServicesSeedKey]))\<lparr>db_users := us\<rparr>) = (None, db2)"
    and x: "a_ID x = replicate 5 CHR ''u''"
    and db2: "db2 = (demo_seeds ((?keys @ [defaultServicesSeedKey]) @ [openAIHistoryRuleKey]))\<lparr>db_users := us,
        db_services := [demo_service\<lparr>sv_SubjectKeywords := kws\<rparr>], db_audits := [x]\<rparr>"
    using demo_openai [OF new(2), of us] by blast
  from demo_pools [OF x, where keys = "(?keys @ [defaultServicesSeedKey]) @ [openAIHistoryRuleKey]" and us = us and kws = kws, folded db2]
  obtain db3 where d: "ensureDefaultMailboxPool (quiet_env 0) db2 = (None, db3) \<and> map m_ID (db_mailboxes db3) = [''m1'']
    \<and> map sv_ID (db_services db3) = [''s1''] \<and> map ms_key (db_states db3) = [(''m1'', ''s1'')]" ..
  then have p: "ensureDefaultMailboxPool (quiet_env 0) db2 = (None, db3)" ..
  have "fst (ensureMailboxServiceStates (quiet_env 0) db3) = None" by (rule demo_states) (simp_all add: d)
  then obtain db4 where "ensureMailboxServiceStates (quiet_env 0) db3 = (None, db4)" by (metis prod.collapse)
  then have "seed_rows (\<lambda>_. quiet_env 0) demo_config ((demo_seeds ?keys)\<lparr>db_users := us\<rparr>) = (None, db4)"
    using s o p by (simp add: seed_rows_def start_result_def demo_config_def)
  then have "NewPostgresStore (\<lambda>_. plain_crypto) True True (\<lambda>_. quiet_env 0) demo_config demo_leased_db = (None, db4)"
    using a by (simp add: NewPostgresStore_def demo_migrate store_seed_def)
      (simp add: demo_config_def encryption_key_ok_def)
  then show ?thesis using that by blast
qed


text \<open>C7: A repair of old data that is meant to run once runs once: after a start of the PostgreSQL store that ended without an
  error, a later run of any of these parts changes nothing, with any environment and on any state that still has the
  markers; in particular a mailbox whose check failed after the first start is not put back into the queue by the next one,
  and an administrator who removed the default platforms does not get them back.\<close>

theorem repairs_run_once:
  assumes "NewPostgresStore ciphers opened pinged E config db = (None, db')"
    and "\<And>key. marked key db' \<Longrightarrow> marked key later"
    and "part \<in> {migrateHistoricalMicrosoftIMAPOAuth cr env envs, migrateMicrosoftIMAPNoopFailures env,
      migrateMicrosoftIMAPPasswordFallbackFailures cr env envs, migrateMicrosoftIMAPPasswordOnlyFailures cr env envs,
      ensureDefaultServices env ss, migrateOpenAIHistoryRule env}"
  shows "part later = (if db_fail env 0 then Some (ErrDB 0) else None, later)"
proof -
  obtain db1 where m: "migrate (ciphers (pc_EncryptionKey config)) E db = (None, db1)"
    and s: "store_seed (ciphers (pc_EncryptionKey config)) E config db1 = (None, db')"
    using assms(1) by (auto simp: NewPostgresStore_def Let_def split: if_splits option.splits prod.splits)
  have "marked historicalMicrosoftIMAPReverifyKey later" "marked microsoftIMAPNoopReverifyKey later"
    "marked microsoftIMAPPasswordFallbackReverifyKey later" "marked microsoftIMAPPasswordOnlyReverifyKey later"
    "marked defaultServicesSeedKey later" "marked openAIHistoryRuleKey later"
    using migrate_leaves [OF m] store_seed_leaves [OF s] assms(2) by simp_all
  note later = this
  have o: "once env key p later = (if db_fail env 0 then Some (ErrDB 0) else None, later)" if "marked key later" for key p
    using that by (simp add: once_def)
  have t: "stored (tx_once env key p) later = (if db_fail env 0 then Some (ErrDB 0) else None, later)" if "marked key later" for key p
    using that by (simp add: stored_def tx_once_def run_tx_def stmt_defs tx_defs)
  show ?thesis using assms(3) later
    by (auto simp: o t migrateHistoricalMicrosoftIMAPOAuth_def migrateMicrosoftIMAPPasswordFallbackFailures_def
      migrateMicrosoftIMAPPasswordOnlyFailures_def reverify_def migrateMicrosoftIMAPNoopFailures_def ensureDefaultServices_def
      migrateOpenAIHistoryRule_def)
qed

text \<open>The platforms are removed after the first start; the second does not create the default ones.\<close>

lemma repairs_run_once_witness:
  "\<exists>db'. NewPostgresStore (\<lambda>_. plain_crypto) True True (\<lambda>_. quiet_env 0) demo_config demo_leased_db = (None, db')
     \<and> ensureDefaultServices (quiet_env 9) default_rows (db'\<lparr>db_services := []\<rparr>) = (None, db'\<lparr>db_services := []\<rparr>)"
proof -
  obtain db' where r: "NewPostgresStore (\<lambda>_. plain_crypto) True True (\<lambda>_. quiet_env 0) demo_config demo_leased_db = (None, db')"
    by (rule demo_start)
  have "ensureDefaultServices (quiet_env 9) default_rows (db'\<lparr>db_services := []\<rparr>)
      = (if db_fail (quiet_env 9) 0 then Some (ErrDB 0) else None, db'\<lparr>db_services := []\<rparr>)"
    by (rule repairs_run_once [OF r, where ss = default_rows and cr = plain_crypto and envs = "\<lambda>_. quiet_env 9"]) (simp_all add: marked_def)
  then show ?thesis using r by simp
qed

end
