(* ===== verification/Spec2Isabelle.thy ===== *)
theory Spec2Isabelle
  imports Memory_Store Listings Paging Order_Rules Accounts Payment_Service Mailboxes Queues Mail_Worker Importer Verifier
    Finality Http_Invariant Http_Access Http_Effects Start
begin

text \<open>
  A verification library of heromail, a service that rents mailboxes for the registration codes of other
  platforms: a user buys an order for a target platform, is leased a verified mailbox, the code that arrives
  there is handed out, and the order is completed, canceled or refunded when it expires.

  \<^bold>\<open>Parts and their theories.\<close>

  \<^item> \<open>Prelude\<close>: the error monad of a database transaction, the environment of one call (clock, identifiers,
    random tokens, failing statements), tables as lists of rows.  \<open>Go_Strings\<close>: the functions of Go's
    strings package.  \<open>Money\<close>: \<^verbatim>\<open>float64\<close> amounts and cents (\<^verbatim>\<open>cents\<close>, \<^verbatim>\<open>fromCents\<close> of
    \<^verbatim>\<open>internal/store/postgres.go\<close>).  \<open>Messages\<close>: the Chinese texts the program stores.
  \<^item> \<open>Domain\<close>: \<^verbatim>\<open>internal/domain\<close>.  \<open>Tables\<close>: the schema of \<^verbatim>\<open>internal/store/postgres_models.go\<close>, one
    record per table, and the statements of the mapper with their unique indexes.  \<open>Rows\<close>: the conversions
    between rows and domain records.
  \<^item> \<open>Orders\<close>: allocation, delivery of the code, completion, cancellation, refund, the two sweeps
    (\<^verbatim>\<open>internal/store/postgres.go\<close>).  \<open>Leases\<close>, \<open>Wallet\<close> and \<open>Order_Rules\<close> hold what they promise: the lease
    invariant, the conservation of money, the book of each order, and rules of single operations.
  \<^item> \<open>Finality\<close>: a delivered code is final, through every later run of the store.
  \<^item> \<open>Migrations\<close>: the start of that store, with the repairs of old data and the first rows.  \<open>Start\<close>: what it promises.
  \<^item> \<open>Accounts\<close>: \<^verbatim>\<open>postgres_accounts.go\<close>.  \<open>Payments\<close>: \<^verbatim>\<open>postgres_payments.go\<close>.  \<open>Payment_Service\<close>:
    \<^verbatim>\<open>internal/payment/service.go\<close>.  \<open>Webhooks\<close>: \<^verbatim>\<open>postgres_webhooks.go\<close> and \<^verbatim>\<open>internal/webhook/worker.go\<close>.
  \<^item> \<open>Mailboxes\<close>: \<^verbatim>\<open>postgres_resources.go\<close> and \<^verbatim>\<open>postgres_system_config.go\<close>.  \<open>Queues\<close>: the Redis job queues.
    \<open>Listings\<close>: every query that only reads.  \<open>Paging\<close>: the pages of a listing.
  \<^item> Mail (\<^verbatim>\<open>internal/mail\<close>).  \<open>Go_Time\<close>, \<open>Url_Values\<close> and \<open>Mail_Messages\<close>: times in RFC 3339, encoded values and the
    texts of errors.  \<open>Credentials\<close>: the rules on stored credentials (\<^verbatim>\<open>verification.go\<close>).  \<open>OAuth_Clients\<close>: the Microsoft
    and the Google client (\<^verbatim>\<open>microsoft.go\<close>, \<^verbatim>\<open>google.go\<close>).  \<open>Imap\<close>: the IMAP connector.  \<open>Mail_Matching\<close>: which message carries
    the code of which order.  \<open>Mail_Worker\<close>: the worker that polls the mailboxes.  \<open>Verifier\<close>: verifying a mailbox, reading
    its mail, scanning its old mail, and the worker that does so for queued mailboxes (\<^verbatim>\<open>verification_worker.go\<close>).
    \<open>Importer\<close>: the import of mailboxes from a text file (\<^verbatim>\<open>importer.go\<close>).
  \<^item> HTTP (\<^verbatim>\<open>internal/http\<close>).  \<open>Http_Api\<close>: requests, replies, the server with the state behind it, and the
    authentication of a request.  \<open>Http_Orders\<close>: the handlers of \<^verbatim>\<open>server.go\<close>, \<^verbatim>\<open>public.go\<close> and \<^verbatim>\<open>mail_events.go\<close>.
    \<open>Http_Accounts\<close>: those of \<^verbatim>\<open>accounts.go\<close>, \<^verbatim>\<open>webhooks.go\<close> and \<^verbatim>\<open>payments.go\<close>.  \<open>Http_Resources\<close> and \<open>Http_OAuth\<close>: those of
    \<^verbatim>\<open>resources.go\<close>.  \<open>Upgrade\<close>: \<^verbatim>\<open>upgrade.go\<close> and \<^verbatim>\<open>upgrade_backup.go\<close>.  \<open>Http_Messages\<close>: the texts the handlers store.
    \<open>Http_Routes\<close>: the table of routes and \<open>serve\<close>, a matched route with its middleware and handler.  \<open>Http_Store\<close>,
    \<open>Http_Invariant\<close>, \<open>Http_Access\<close> and \<open>Http_Effects\<close> hold what the interface promises.
  \<^item> \<open>Lease_Table\<close>: the table of leases both stores refine and its events, as a locale with its interpretation on the
    PostgreSQL store.  The events of an operation are read off its reply and the orders it closes.  \<open>Memory_Store\<close>: the development store (\<^verbatim>\<open>internal/store/store.go\<close>) and its interpretation.

  \<^bold>\<open>How state and operations correspond.\<close>  An operation of the PostgreSQL store is a function from the
  environment of the call and the database to a result and a database.  A transaction runs its statements in
  the order of the code; each may fail (\<open>db_fail\<close> at its index), and a failing transaction leaves the
  database as it was.  Operations outside a transaction keep what their earlier statements did.  Rows that
  other transactions hold locked are an argument of the allocation.  The development store is a record of
  maps that every operation changes in one step under its mutex.  Errors are values of \<open>store_error\<close> or of an
  error type of the component.  A Go \<^verbatim>\<open>int\<close> is a 64-bit word where it can overflow (paging), and an integer where it
  counts rows or cents; a \<^verbatim>\<open>float64\<close> is the rational it denotes with every operation rounded by \<open>fl\<close>.  Cents have no bound: the
  wrap-around of a sum beyond 64 bits (where \<^verbatim>\<open>AdjustBalance\<close> would see a negative balance and reject it) and the conversion of an amount
  outside the range of \<^verbatim>\<open>int64\<close> are not modelled.  Lower case and white space are those of ASCII, and \<open>parse_float\<close> reads decimal
  notation only.

  A handler is a function from the server, what happens around the request, the request and the state behind the
  server to a reply and a state.  Each call of a handler to the store, the network or the disk has its own environment,
  named by a path of numbers; the authentication has the path 9.  A body arrives decoded (\<open>decoders\<close>), a reply is the data
  that becomes JSON, and an error reply is its status and its error code.

  \<^bold>\<open>What the lemmas show.\<close>  Invariants of the whole state and their preservation by every operation
  (leases, money, order books, payment books, queues), the functional behaviour of the operations
  including their errors, refinements of abstract specifications (queues, and leases by labelled events), equivalence of the
  optimised routines with reference definitions, round trips, termination of the lock loop and of the paged
  scan, and the boundary behaviours where the code departs from its intention.  For mail: a delivered code was found in a
  message of the leased mailbox, a mailbox is marked verified only after a connector accepted it, an imported record is in
  normal form.  For the interface: no request breaks the invariants of the store, the administration needs the token of an
  administrator, users get replies about themselves only, an authorization uses up its state, and an upgrade is asked for
  only behind a backup.  For the start of the store: it disturbs no open order, and what is meant to run once does.

  \<^bold>\<open>Bounds and fuel.\<close>  The allocation lock is retried with a fuel that its theorem bounds by the deadline; the history
  scan gets one step per page of the listing, and its theorem shows that this suffices.  Reading all pages of a mailbox over
  Graph need not end; it is a partial function whose value is then \<open>None\<close>.

  \<^bold>\<open>Not modelled.\<close>  Cryptographic primitives, bcrypt, HTTP, IMAP, DNS, gzip, \<^verbatim>\<open>pg_dump\<close>, the drivers, the decoders of JSON and
  forms and the router are parameters.  The texts of error replies, the CORS headers, the branches of the handlers for a store
  that lacks an interface (the server runs on the PostgreSQL store), the pages of the embedded web client, the process entry and
  the updater beside the server are left out: they are constants, wiring or other programs.  The statement that creates and alters tables
  at the start is one step that may fail.  Goroutines of one round run one after the other; timeouts and the loops
  of tickers are not modelled.
\<close>

end
